(* ===== verification/Prelude.thy ===== *)
theory Prelude
  imports Complex_Main "HOL-Library.AList" "HOL-Library.List_Lexorder" "HOL-Library.Char_ord"
begin

text \<open>
  Shared vocabulary of the development: results that may be exceptions, stateful operations
  that may raise, insertion-ordered dictionaries, and the lemma collections that the component
  theories extend.  Nothing here is specific to one component.
\<close>

named_theorems result_simps \<open>how results and stateful operations compute\<close>
named_theorems inr_simps \<open>when a checked computation returns a value\<close>
named_theorems wf_intros \<open>well-formedness is kept by the operations\<close>

subsection \<open>Results: an exception or a value\<close>

text \<open>
  A Python call either raises or returns.  \<open>Inl e\<close> is the exception, \<open>Inr x\<close> the value.
\<close>

definition rbind :: "'e + 'a \<Rightarrow> ('a \<Rightarrow> 'e + 'b) \<Rightarrow> 'e + 'b" where
  "rbind r f = (case r of Inl e \<Rightarrow> Inl e | Inr x \<Rightarrow> f x)"

lemma rbind_Inl [simp, result_simps]: "rbind (Inl e) f = Inl e"
  by (simp add: rbind_def)

lemma rbind_Inr [simp, result_simps]: "rbind (Inr x) f = f x"
  by (simp add: rbind_def)

lemma rbind_eq_Inr [inr_simps]: "rbind r f = Inr y \<longleftrightarrow> (\<exists>x. r = Inr x \<and> f x = Inr y)"
  by (cases r) auto

lemma rbind_eq_Inl: "rbind r f = Inl e \<longleftrightarrow> r = Inl e \<or> (\<exists>x. r = Inr x \<and> f x = Inl e)"
  by (cases r) auto

text \<open>\<open>require b e\<close> is the guard \<open>if not b: raise e\<close>.\<close>

definition require :: "bool \<Rightarrow> 'e \<Rightarrow> 'e + unit" where
  "require b e = (if b then Inr () else Inl e)"

lemma require_eq_Inr [simp]: "require b e = Inr u \<longleftrightarrow> b"
  by (simp add: require_def)

lemma require_True [simp, result_simps]: "require True e = Inr ()"
  by (simp add: require_def)

lemma require_False [simp, result_simps]: "require False e = Inl e"
  by (simp add: require_def)

lemma rbind_require_eq_Inr [simp]: "rbind (require b e) f = Inr y \<longleftrightarrow> b \<and> f () = Inr y"
  by (cases b) auto

lemma case_option_Inl_eq_Inr [inr_simps]:
  "(case m of None \<Rightarrow> Inl e | Some x \<Rightarrow> f x) = Inr y \<longleftrightarrow> (\<exists>x. m = Some x \<and> f x = Inr y)"
  by (cases m) auto

lemma if_Inl_eq_Inr [inr_simps]:
  "(if b then Inl e else r) = Inr y \<longleftrightarrow> \<not> b \<and> r = Inr y"
  "(if b then r else Inl e) = Inr y \<longleftrightarrow> b \<and> r = Inr y"
  by auto

lemma case_sum_eq_Inr [inr_simps]:
  "(case r of Inl e \<Rightarrow> Inl (g e) | Inr x \<Rightarrow> f x) = Inr y \<longleftrightarrow> (\<exists>x. r = Inr x \<and> f x = Inr y)"
  by (cases r) auto

text \<open>A loop that maps a fallible function over a list stops at the first exception.\<close>

fun rmap :: "('a \<Rightarrow> 'e + 'b) \<Rightarrow> 'a list \<Rightarrow> 'e + 'b list" where
  "rmap f [] = Inr []"
| "rmap f (x # xs) = rbind (f x) (\<lambda>y. rbind (rmap f xs) (\<lambda>ys. Inr (y # ys)))"

lemma rmap_eq_Inr:
  "rmap f xs = Inr ys \<longleftrightarrow> length ys = length xs \<and> (\<forall>i<length xs. f (xs ! i) = Inr (ys ! i))"
proof (induction xs arbitrary: ys)
  case Nil
  then show ?case by auto
next
  case (Cons x xs)
  show ?case
    by (cases ys) (auto simp: rbind_eq_Inr Cons.IH nth_Cons All_less_Suc2)
qed

lemma rmap_Inr_set: "rmap f xs = Inr ys \<Longrightarrow> y \<in> set ys \<Longrightarrow> \<exists>x \<in> set xs. f x = Inr y"
  by (induction xs arbitrary: ys) (auto simp: rbind_eq_Inr)

lemma rmap_Inr_defined: "rmap f xs = Inr ys \<Longrightarrow> x \<in> set xs \<Longrightarrow> \<exists>y \<in> set ys. f x = Inr y"
  by (induction xs arbitrary: ys) (auto simp: rbind_eq_Inr)

subsection \<open>Operations on a state that may raise\<close>

text \<open>
  An operation takes the state and returns its result and the new state.  What was written
  before an exception stays written.  A transaction (below) is the exception to that rule.
\<close>

type_synonym ('s, 'e, 'a) oper = "'s \<Rightarrow> ('e + 'a) \<times> 's"

definition oret :: "'a \<Rightarrow> ('s, 'e, 'a) oper" where
  "oret x s = (Inr x, s)"

definition oraise :: "'e \<Rightarrow> ('s, 'e, 'a) oper" where
  "oraise e s = (Inl e, s)"

definition olift :: "'e + 'a \<Rightarrow> ('s, 'e, 'a) oper" where
  "olift r s = (r, s)"

definition obind :: "('s, 'e, 'a) oper \<Rightarrow> ('a \<Rightarrow> ('s, 'e, 'b) oper) \<Rightarrow> ('s, 'e, 'b) oper" where
  "obind m f s = (case m s of (Inl e, t) \<Rightarrow> (Inl e, t) | (Inr x, t) \<Rightarrow> f x t)"

text \<open>\<open>ocatch m h\<close> is \<open>try: m except: h\<close>; the handler decides by the exception.\<close>

definition ocatch :: "('s, 'e, 'a) oper \<Rightarrow> ('e \<Rightarrow> ('s, 'e, 'a) oper) \<Rightarrow> ('s, 'e, 'a) oper" where
  "ocatch m h s = (case m s of (Inl e, t) \<Rightarrow> h e t | (Inr x, t) \<Rightarrow> (Inr x, t))"

text \<open>\<open>finally_do m c\<close> is \<open>try: m finally: c\<close>; an exception of the last part replaces the result.\<close>

definition finally_do :: "('s, 'e, 'a) oper \<Rightarrow> ('s, 'e, unit) oper \<Rightarrow> ('s, 'e, 'a) oper" where
  "finally_do m c s = (case m s of (r, t) \<Rightarrow> (case c t of (Inl e, u) \<Rightarrow> (Inl e, u) | (Inr x, u) \<Rightarrow> (r, u)))"

text \<open>
  A Firestore transaction buffers its writes: they are committed together when the function
  returns and dropped when it raises.
\<close>

definition transact :: "('s \<Rightarrow> 'e + 'a \<times> 's) \<Rightarrow> ('s, 'e, 'a) oper" where
  "transact f s = (case f s of Inl e \<Rightarrow> (Inl e, s) | Inr (x, t) \<Rightarrow> (Inr x, t))"

lemma oper_simps [result_simps]:
  "oret x s = (Inr x, s)"
  "oraise e s = (Inl e, s)"
  "olift r s = (r, s)"
  by (simp_all add: oret_def oraise_def olift_def)

lemma obind_Inl [result_simps]: "m s = (Inl e, t) \<Longrightarrow> obind m f s = (Inl e, t)"
  by (simp add: obind_def)

lemma obind_Inr [result_simps]: "m s = (Inr x, t) \<Longrightarrow> obind m f s = f x t"
  by (simp add: obind_def)

lemma obind_eq_Inr:
  "obind m f s = (Inr y, u) \<longleftrightarrow> (\<exists>x t. m s = (Inr x, t) \<and> f x t = (Inr y, u))"
  by (cases "m s"; cases "fst (m s)") (auto simp: obind_def)

lemma obind_eq_Inl:
  "obind m f s = (Inl e, u) \<longleftrightarrow>
     m s = (Inl e, u) \<or> (\<exists>x t. m s = (Inr x, t) \<and> f x t = (Inl e, u))"
  by (cases "m s"; cases "fst (m s)") (auto simp: obind_def)

lemma finally_eq_Inr: "finally_do m c s = (Inr x, u) \<longleftrightarrow> (\<exists>t y. m s = (Inr x, t) \<and> c t = (Inr y, u))"
  by (auto simp: finally_do_def split: prod.splits sum.splits)

lemma transact_eq_Inr: "transact f s = (Inr x, t) \<longleftrightarrow> f s = Inr (x, t)"
  by (cases "f s") (auto simp: transact_def)

lemma transact_eq_Inl: "transact f s = (Inl e, t) \<longleftrightarrow> f s = Inl e \<and> t = s"
  by (cases "f s") (auto simp: transact_def)

text \<open>A property of the state that an operation keeps whatever its result is.\<close>

definition keeps :: "('s \<Rightarrow> bool) \<Rightarrow> ('s, 'e, 'a) oper \<Rightarrow> bool" where
  "keeps P m \<longleftrightarrow> (\<forall>s. P s \<longrightarrow> P (snd (m s)))"

lemma keepsI: "(\<And>s. P s \<Longrightarrow> P (snd (m s))) \<Longrightarrow> keeps P m"
  by (simp add: keeps_def)

lemma keepsD: "keeps P m \<Longrightarrow> P s \<Longrightarrow> P (snd (m s))"
  by (simp add: keeps_def)

lemma keeps_eqD: "keeps P m \<Longrightarrow> P s \<Longrightarrow> m s = (r, t) \<Longrightarrow> P t"
  by (metis keepsD snd_conv)

lemma keeps_pure [wf_intros, simp]: "keeps P (oret x)" "keeps P (oraise e)" "keeps P (olift r)"
  by (simp_all add: keeps_def oper_simps)

lemma keeps_obind [wf_intros]: "keeps P m \<Longrightarrow> (\<And>x. keeps P (f x)) \<Longrightarrow> keeps P (obind m f)"
  by (fastforce simp: keeps_def obind_def split: prod.splits sum.splits)

lemma keeps_ocatch [wf_intros]: "keeps P m \<Longrightarrow> (\<And>e. keeps P (h e)) \<Longrightarrow> keeps P (ocatch m h)"
  by (fastforce simp: keeps_def ocatch_def split: prod.splits sum.splits)

lemma keeps_transact:
  "(\<And>s x t. P s \<Longrightarrow> f s = Inr (x, t) \<Longrightarrow> P t) \<Longrightarrow> keeps P (transact f)"
  by (auto simp: keeps_def transact_def split: sum.splits)

lemma keeps_if [wf_intros]:
  "(b \<Longrightarrow> keeps P m) \<Longrightarrow> (\<not> b \<Longrightarrow> keeps P n) \<Longrightarrow> keeps P (if b then m else n)"
  by simp

subsection \<open>Insertion-ordered dictionaries\<close>

text \<open>
  A Python \<open>dict\<close> is an association list whose keys are distinct; assignment replaces the
  value in place or appends (\<^const>\<open>AList.update\<close>), as CPython does.
\<close>

abbreviation keys :: "('k \<times> 'v) list \<Rightarrow> 'k list" where
  "keys d \<equiv> map fst d"

lemma map_of_update [simp]: "map_of (AList.update k v d) = (map_of d)(k \<mapsto> v)"
  by (rule update_conv')

lemma map_of_delete [simp]: "map_of (AList.delete k d) = (map_of d)(k := None)"
  by (rule delete_conv')

lemma map_of_updates_other: "k \<notin> set (keys us) \<Longrightarrow>
    map_of (fold (\<lambda>(k, v). AList.update k v) us d) k = map_of d k"
  by (induction us arbitrary: d) (auto split: prod.splits)

definition dict_merge :: "('k \<times> 'v) list \<Rightarrow> ('k \<times> 'v) list \<Rightarrow> ('k \<times> 'v) list" where
  "dict_merge d us = fold (\<lambda>(k, v). AList.update k v) us d"

lemma dict_merge_Nil [simp]: "dict_merge d [] = d"
  by (simp add: dict_merge_def)

lemma dict_merge_Cons [simp]: "dict_merge d ((k, v) # us) = dict_merge (AList.update k v d) us"
  by (simp add: dict_merge_def)

lemma map_of_dict_merge:
  "distinct (keys us) \<Longrightarrow> map_of (dict_merge d us) = map_of d ++ map_of us"
proof (induction us arbitrary: d)
  case Nil
  then show ?case by simp
next
  case (Cons u us)
  obtain k v where u: "u = (k, v)" by (cases u)
  with Cons.prems have k: "map_of us k = None" and d: "distinct (keys us)"
    by (auto simp: map_of_eq_None_iff)
  have "map_of (dict_merge d (u # us)) = (map_of d)(k \<mapsto> v) ++ map_of us"
    using Cons.IH [OF d, of "AList.update k v d"] by (simp only: u dict_merge_Cons map_of_update)
  also have "\<dots> = map_of d ++ map_of (u # us)"
    using k by (auto simp: u map_add_def fun_eq_iff split: option.splits)
  finally show ?case .
qed

lemma distinct_keys_merge: "distinct (keys d) \<Longrightarrow> distinct (keys (dict_merge d us))"
  by (induction us arbitrary: d) (auto simp: distinct_update)

lemma map_of_filter_keys: "map_of (filter (\<lambda>(k, v). P k) d) k = (if P k then map_of d k else None)"
  by (induction d) auto

end
