(* ===== verification/PyValue.thy ===== *)
theory PyValue
  imports Prelude
begin

text \<open>
  The part of Python that the components use: dynamically typed values (decoded JSON, Firestore
  fields), the string methods, and the small regular expressions written as predicates.

  Strings are lists of \<^typ>\<open>char\<close>, so the model covers text in the Latin-1 range, and every
  method is defined as Python defines it there.  The one exception is the micro sign, whose case
  folding lies outside the range; it is left alone.  Floats are the finite ones, as rationals.
  Times are aware UTC datetimes, in microseconds since the epoch.
\<close>

subsection \<open>Values\<close>

datatype val =
    VNone
  | VBool bool
  | VInt int
  | VFloat rat
  | VStr string
  | VBytes string
  | VTime int
  | VList "val list"
  | VDict "(string \<times> val) list"

type_synonym dict = "(string \<times> val) list"

text \<open>\<open>d.get(k)\<close> and \<open>d.get(k, default)\<close>.\<close>

definition dget :: "dict \<Rightarrow> string \<Rightarrow> val" where
  "dget d k = (case map_of d k of None \<Rightarrow> VNone | Some v \<Rightarrow> v)"

definition dget_default :: "dict \<Rightarrow> string \<Rightarrow> val \<Rightarrow> val" where
  "dget_default d k x = (case map_of d k of None \<Rightarrow> x | Some v \<Rightarrow> v)"

lemma dget_Some [simp]: "map_of d k = Some v \<Longrightarrow> dget d k = v"
  by (simp add: dget_def)

lemma dget_update [simp]:
  "dget (AList.update k v d) j = (if j = k then v else dget d j)"
  by (simp add: dget_def)

lemma dget_merge:
  "distinct (keys us) \<Longrightarrow> dget (dict_merge d us) k = (case map_of us k of None \<Rightarrow> dget d k | Some v \<Rightarrow> v)"
  by (auto simp: dget_def map_of_dict_merge map_add_def split: option.splits)

text \<open>\<open>isinstance\<close> tests; \<open>bool\<close> is a subclass of \<open>int\<close>.\<close>

fun is_str :: "val \<Rightarrow> bool" where
  "is_str (VStr s) = True" | "is_str _ = False"

fun is_bool :: "val \<Rightarrow> bool" where
  "is_bool (VBool b) = True" | "is_bool _ = False"

fun is_int :: "val \<Rightarrow> bool" where
  "is_int (VInt i) = True" | "is_int (VBool b) = True" | "is_int _ = False"

fun is_number :: "val \<Rightarrow> bool" where
  "is_number (VInt i) = True" | "is_number (VBool b) = True" | "is_number (VFloat q) = True"
| "is_number _ = False"

fun is_list :: "val \<Rightarrow> bool" where
  "is_list (VList xs) = True" | "is_list _ = False"

fun is_dict :: "val \<Rightarrow> bool" where
  "is_dict (VDict d) = True" | "is_dict _ = False"

fun is_time :: "val \<Rightarrow> bool" where
  "is_time (VTime t) = True" | "is_time _ = False"

lemma is_str_conv: "is_str v \<longleftrightarrow> (\<exists>s. v = VStr s)"
  by (cases v) auto

lemma is_dict_conv: "is_dict v \<longleftrightarrow> (\<exists>d. v = VDict d)"
  by (cases v) auto

lemma is_list_conv: "is_list v \<longleftrightarrow> (\<exists>xs. v = VList xs)"
  by (cases v) auto

lemma is_bool_conv: "is_bool v \<longleftrightarrow> (\<exists>b. v = VBool b)"
  by (cases v) auto

lemma is_time_conv: "is_time v \<longleftrightarrow> (\<exists>t. v = VTime t)"
  by (cases v) auto

text \<open>A pattern match on one type of value, with an exception for the others.\<close>

lemma case_val_eq_Inr [inr_simps]:
  "(case v of VStr s \<Rightarrow> f s | _ \<Rightarrow> Inl e) = Inr y \<longleftrightarrow> (\<exists>s. v = VStr s \<and> f s = Inr y)"
  "(case v of VDict d \<Rightarrow> g d | _ \<Rightarrow> Inl e) = Inr y \<longleftrightarrow> (\<exists>d. v = VDict d \<and> g d = Inr y)"
  "(case v of VList xs \<Rightarrow> h xs | _ \<Rightarrow> Inl e) = Inr y \<longleftrightarrow> (\<exists>xs. v = VList xs \<and> h xs = Inr y)"
  "(case v of VTime t \<Rightarrow> k t | _ \<Rightarrow> Inl e) = Inr y \<longleftrightarrow> (\<exists>t. v = VTime t \<and> k t = Inr y)"
  "(case v of VBool b \<Rightarrow> m b | _ \<Rightarrow> Inl e) = Inr y \<longleftrightarrow> (\<exists>b. v = VBool b \<and> m b = Inr y)"
  "(case v of VInt i \<Rightarrow> n i | _ \<Rightarrow> Inl e) = Inr y \<longleftrightarrow> (\<exists>i. v = VInt i \<and> n i = Inr y)"
  by (cases v; auto)+

text \<open>The payload of a value known to have a type; the default is never used by the code.\<close>

fun the_str :: "val \<Rightarrow> string" where
  "the_str (VStr s) = s" | "the_str _ = []"

fun the_list :: "val \<Rightarrow> val list" where
  "the_list (VList xs) = xs" | "the_list _ = []"

fun the_dict :: "val \<Rightarrow> dict" where
  "the_dict (VDict d) = d" | "the_dict _ = []"

fun the_time :: "val \<Rightarrow> int" where
  "the_time (VTime t) = t" | "the_time _ = 0"

fun truthy :: "val \<Rightarrow> bool" where
  "truthy VNone = False"
| "truthy (VBool b) = b"
| "truthy (VInt i) = (i \<noteq> 0)"
| "truthy (VFloat q) = (q \<noteq> 0)"
| "truthy (VStr s) = (s \<noteq> [])"
| "truthy (VBytes s) = (s \<noteq> [])"
| "truthy (VTime t) = True"
| "truthy (VList xs) = (xs \<noteq> [])"
| "truthy (VDict d) = (d \<noteq> [])"

text \<open>The value of a number (\<open>True\<close> is 1), for comparisons across \<open>int\<close> and \<open>float\<close>.\<close>

fun num_of :: "val \<Rightarrow> rat option" where
  "num_of (VInt i) = Some (of_int i)"
| "num_of (VBool b) = Some (if b then 1 else 0)"
| "num_of (VFloat q) = Some q"
| "num_of _ = None"

text \<open>Python's \<open>==\<close>: numbers by value, dictionaries without order.\<close>

fun comparable :: "val \<Rightarrow> val" where
  "comparable (VInt i) = VFloat (of_int i)"
| "comparable (VBool b) = VFloat (if b then 1 else 0)"
| "comparable (VList xs) = VList (map comparable xs)"
| "comparable (VDict d) = VDict (sort_key fst (map (\<lambda>(k, v). (k, comparable v)) d))"
| "comparable v = v"

definition py_eq :: "val \<Rightarrow> val \<Rightarrow> bool" where
  "py_eq a b = (comparable a = comparable b)"

definition opt_str :: "string option \<Rightarrow> val" where
  "opt_str x = (case x of None \<Rightarrow> VNone | Some s \<Rightarrow> VStr s)"

definition opt_bool :: "bool option \<Rightarrow> val" where
  "opt_bool x = (case x of None \<Rightarrow> VNone | Some b \<Rightarrow> VBool b)"

definition opt_int :: "int option \<Rightarrow> val" where
  "opt_int x = (case x of None \<Rightarrow> VNone | Some i \<Rightarrow> VInt i)"

lemma opt_str_simps [simp]: "opt_str None = VNone" "opt_str (Some s) = VStr s"
  by (simp_all add: opt_str_def)

lemma opt_bool_simps [simp]: "opt_bool None = VNone" "opt_bool (Some b) = VBool b"
  by (simp_all add: opt_bool_def)

lemma opt_int_simps [simp]: "opt_int None = VNone" "opt_int (Some i) = VInt i"
  by (simp_all add: opt_int_def)

subsection \<open>Characters\<close>

abbreviation code :: "char \<Rightarrow> nat" where
  "code c \<equiv> of_char c"

definition is_space :: "char \<Rightarrow> bool" where
  "is_space c = (let n = code c in (9 \<le> n \<and> n \<le> 13) \<or> (28 \<le> n \<and> n \<le> 32) \<or> n = 133 \<or> n = 160)"

definition is_decimal :: "char \<Rightarrow> bool" where
  "is_decimal c = (48 \<le> code c \<and> code c \<le> 57)"

text \<open>\<open>str.isdigit\<close> also accepts the superscripts two, three and one.\<close>

definition is_digit :: "char \<Rightarrow> bool" where
  "is_digit c = (is_decimal c \<or> code c = 178 \<or> code c = 179 \<or> code c = 185)"

definition is_lower :: "char \<Rightarrow> bool" where
  "is_lower c = (97 \<le> code c \<and> code c \<le> 122)"

definition is_upper :: "char \<Rightarrow> bool" where
  "is_upper c = (65 \<le> code c \<and> code c \<le> 90)"

text \<open>The class \<open>[A-Za-z0-9]\<close> of the regular expressions.\<close>

definition is_alnum :: "char \<Rightarrow> bool" where
  "is_alnum c = (is_lower c \<or> is_upper c \<or> is_decimal c)"

definition lower_char :: "char \<Rightarrow> char" where
  "lower_char c = (let n = code c in
     if is_upper c \<or> (192 \<le> n \<and> n \<le> 222 \<and> n \<noteq> 215) then char_of (n + 32) else c)"

definition fold_char :: "char \<Rightarrow> string" where
  "fold_char c = (if code c = 223 then ''ss'' else [lower_char c])"

subsection \<open>String methods\<close>

definition lower :: "string \<Rightarrow> string" where
  "lower s = map lower_char s"

definition casefold :: "string \<Rightarrow> string" where
  "casefold s = concat (map fold_char s)"

definition lstrip_by :: "(char \<Rightarrow> bool) \<Rightarrow> string \<Rightarrow> string" where
  "lstrip_by P s = dropWhile P s"

definition rstrip_by :: "(char \<Rightarrow> bool) \<Rightarrow> string \<Rightarrow> string" where
  "rstrip_by P s = rev (dropWhile P (rev s))"

definition strip :: "string \<Rightarrow> string" where
  "strip s = rstrip_by is_space (lstrip_by is_space s)"

definition starts_with :: "string \<Rightarrow> string \<Rightarrow> bool" where
  "starts_with p s = (take (length p) s = p)"

definition remove_prefix :: "string \<Rightarrow> string \<Rightarrow> string" where
  "remove_prefix p s = (if starts_with p s then drop (length p) s else s)"

definition ends_with :: "string \<Rightarrow> string \<Rightarrow> bool" where
  "ends_with p s = starts_with (rev p) (rev s)"

text \<open>\<open>s.replace(old, new)\<close> for a non-empty \<open>old\<close>: the occurrences from the left, without overlap.\<close>

function replace_all :: "string \<Rightarrow> string \<Rightarrow> string \<Rightarrow> string" where
  "replace_all old new s =
     (if s = [] \<or> old = [] then s
      else if starts_with old s then new @ replace_all old new (drop (length old) s)
      else hd s # replace_all old new (tl s))"
  by pat_completeness auto

termination
  by (relation "measure (\<lambda>(old, new, s). length s)") (auto simp: neq_Nil_conv)

declare replace_all.simps [simp del]

fun contains :: "string \<Rightarrow> string \<Rightarrow> bool" where
  "contains p [] = (p = [])"
| "contains p (c # s) = (starts_with p (c # s) \<or> contains p s)"

text \<open>\<open>s.partition(c)\<close> for a one-character separator: before, whether found, after.\<close>

definition partition_at :: "char \<Rightarrow> string \<Rightarrow> string \<times> bool \<times> string" where
  "partition_at c s =
     (takeWhile (\<lambda>x. x \<noteq> c) s, c \<in> set s, drop 1 (dropWhile (\<lambda>x. x \<noteq> c) s))"

text \<open>\<open>s.split(c)\<close> for a one-character separator, and \<open>s.split()\<close> on white space.\<close>

fun split_at :: "char \<Rightarrow> string \<Rightarrow> string list" where
  "split_at c [] = [[]]"
| "split_at c (x # s) =
     (if x = c then [] # split_at c s
      else (case split_at c s of [] \<Rightarrow> [[x]] | w # ws \<Rightarrow> (x # w) # ws))"

definition split_ws :: "string \<Rightarrow> string list" where
  "split_ws s = filter (\<lambda>w. w \<noteq> [])
     (split_at (CHR '' '') (map (\<lambda>c. if is_space c then CHR '' '' else c) s))"

fun join :: "string \<Rightarrow> string list \<Rightarrow> string" where
  "join sep [] = []"
| "join sep [w] = w"
| "join sep (w # v # ws) = w @ sep @ join sep (v # ws)"

text \<open>\<open>s.rsplit(c, 1)[-1]\<close>: what follows the last separator.\<close>

definition after_last :: "char \<Rightarrow> string \<Rightarrow> string" where
  "after_last c s = rev (takeWhile (\<lambda>x. x \<noteq> c) (rev s))"

subsection \<open>Numbers and text\<close>

fun digits_val :: "int \<Rightarrow> string \<Rightarrow> int" where
  "digits_val acc [] = acc"
| "digits_val acc (c # s) = digits_val (10 * acc + (of_char c - 48)) s"

text \<open>
  \<open>int(s)\<close>: surrounding white space, an optional sign, decimal digits with single underscores
  between them, and at most 4300 of them (the interpreter's limit); anything else is a
  \<open>ValueError\<close>.
\<close>

fun well_grouped :: "bool \<Rightarrow> string \<Rightarrow> bool" where
  "well_grouped after_digit [] = after_digit"
| "well_grouped after_digit (c # s) =
     (if is_decimal c then well_grouped True s
      else c = CHR ''_'' \<and> after_digit \<and> well_grouped False s)"

definition digits_of_str :: "string \<Rightarrow> int option" where
  "digits_of_str s = (if well_grouped False s \<and> length (filter is_decimal s) \<le> 4300
     then Some (digits_val 0 (filter is_decimal s)) else None)"

definition int_of_str :: "string \<Rightarrow> int option" where
  "int_of_str s = (let t = strip s in
     case t of
       [] \<Rightarrow> None
     | c # u \<Rightarrow>
         if c = CHR ''-'' then map_option uminus (digits_of_str u)
         else if c = CHR ''+'' then digits_of_str u
         else digits_of_str t)"

fun str_of_nat :: "nat \<Rightarrow> string" where
  "str_of_nat n =
     (if n < 10 then [char_of (48 + n)] else str_of_nat (n div 10) @ [char_of (48 + n mod 10)])"

declare str_of_nat.simps [simp del]

definition str_of_int :: "int \<Rightarrow> string" where
  "str_of_int i = (if i < 0 then CHR ''-'' # str_of_nat (nat (- i)) else str_of_nat (nat i))"

text \<open>
  \<open>str(v)\<close> for the values that documents hold in text fields.  The text of the other values is
  never looked at by the components; it is a fixed word here.
\<close>

fun py_str :: "val \<Rightarrow> string" where
  "py_str (VStr s) = s"
| "py_str (VInt i) = str_of_int i"
| "py_str (VBool b) = (if b then ''True'' else ''False'')"
| "py_str VNone = ''None''"
| "py_str _ = ''<value>''"

text \<open>\<open>int(v)\<close>: truncation of a float, digits of a text, a \<open>TypeError\<close> for the rest.\<close>

datatype int_result = IntValue int | IntValueError | IntTypeError

fun py_int :: "val \<Rightarrow> int_result" where
  "py_int (VInt i) = IntValue i"
| "py_int (VBool b) = IntValue (if b then 1 else 0)"
| "py_int (VFloat q) = IntValue (if q < 0 then - \<lfloor>- q\<rfloor> else \<lfloor>q\<rfloor>)"
| "py_int (VStr s) = (case int_of_str s of None \<Rightarrow> IntValueError | Some i \<Rightarrow> IntValue i)"
| "py_int _ = IntTypeError"

subsection \<open>Times\<close>

text \<open>The range of \<open>datetime\<close>, years 1 to 9999, in microseconds since the epoch.\<close>

definition datetime_min :: int where
  "datetime_min = - 62135596800000000"

definition datetime_max :: int where
  "datetime_max = 253402300799999999"

definition in_datetime_range :: "int \<Rightarrow> bool" where
  "in_datetime_range t = (datetime_min \<le> t \<and> t \<le> datetime_max)"

text \<open>
  What \<open>datetime.fromisoformat\<close> makes of a text: a \<open>ValueError\<close>, a naive time, or an aware time,
  as its UTC instant (which may lie outside the range, where \<open>astimezone\<close> overflows).
\<close>

datatype iso_time = IsoInvalid | IsoNaive | IsoAware int

subsection \<open>Facts about the string methods\<close>

lemma code_lower_char:
  "code (lower_char c) =
     (if is_upper c \<or> (192 \<le> code c \<and> code c \<le> 222 \<and> code c \<noteq> 215) then code c + 32 else code c)"
  by (auto simp: lower_char_def is_upper_def Let_def)

lemma lower_char_idem: "lower_char (lower_char c) = lower_char c"
proof (cases "is_upper c \<or> (192 \<le> code c \<and> code c \<le> 222 \<and> code c \<noteq> 215)")
  case True
  then have "code (lower_char c) = code c + 32" by (simp add: code_lower_char)
  with True show ?thesis by (subst lower_char_def) (auto simp: Let_def is_upper_def)
next
  case False
  then have "lower_char c = c" by (auto simp: lower_char_def Let_def)
  then show ?thesis by simp
qed

lemma code_lower_char_sharp: "code c \<noteq> 223 \<Longrightarrow> code (lower_char c) \<noteq> 223"
  by (auto simp: code_lower_char is_upper_def)

lemma casefold_Nil [simp]: "casefold [] = []"
  by (simp add: casefold_def)

lemma casefold_append: "casefold (s @ t) = casefold s @ casefold t"
  by (simp add: casefold_def)

lemma casefold_fold_char: "casefold (fold_char c) = fold_char c"
  by (auto simp: casefold_def fold_char_def lower_char_idem code_lower_char_sharp)
    (simp_all add: lower_char_def is_upper_def)

lemma casefold_idem [simp]: "casefold (casefold s) = casefold s"
proof (induction s)
  case Nil
  then show ?case by simp
next
  case (Cons c s)
  have "casefold (c # s) = fold_char c @ casefold s"
    by (simp add: casefold_def)
  with Cons show ?case by (simp add: casefold_append casefold_fold_char)
qed

lemma strip_Nil [simp]: "strip [] = []"
  by (simp add: strip_def rstrip_by_def lstrip_by_def)

lemma hd_dropWhile_not: "dropWhile P s \<noteq> [] \<Longrightarrow> \<not> P (hd (dropWhile P s))"
  by (rule hd_dropWhile)

lemma strip_eq_self_iff:
  "strip s = s \<longleftrightarrow> s = [] \<or> (\<not> is_space (hd s) \<and> \<not> is_space (last s))"
proof
  assume eq: "strip s = s"
  let ?l = "dropWhile is_space s"
  have "length s \<le> length ?l"
    using length_dropWhile_le [of is_space "rev ?l"] arg_cong [OF eq, of length]
    by (simp add: strip_def rstrip_by_def lstrip_by_def)
  then have l: "?l = s"
    by (metis append_eq_append_conv append_self_conv2 le_antisym length_dropWhile_le
        takeWhile_dropWhile_id)
  then have "dropWhile is_space (rev s) = rev s"
    using eq by (simp add: strip_def rstrip_by_def lstrip_by_def rev_swap)
  with l show "s = [] \<or> (\<not> is_space (hd s) \<and> \<not> is_space (last s))"
    by (auto simp: dropWhile_eq_self_iff hd_rev)
next
  assume "s = [] \<or> (\<not> is_space (hd s) \<and> \<not> is_space (last s))"
  moreover from this have "dropWhile is_space s = s" "dropWhile is_space (rev s) = rev s"
    by (auto simp: dropWhile_eq_self_iff hd_rev)
  ultimately show "strip s = s"
    by (simp add: strip_def rstrip_by_def lstrip_by_def)
qed

lemma strip_ends:
  assumes "strip s \<noteq> []"
  shows "\<not> is_space (hd (strip s)) \<and> \<not> is_space (last (strip s))"
proof -
  let ?l = "dropWhile is_space s"
  let ?r = "dropWhile is_space (rev ?l)"
  have eq: "strip s = rev ?r" by (simp add: strip_def rstrip_by_def lstrip_by_def)
  with assms have rne: "?r \<noteq> []" by (metis rev.simps(1))
  then have "?l \<noteq> []" by (metis dropWhile.simps(1) rev.simps(1))
  have last: "\<not> is_space (hd ?r)" using rne by (rule hd_dropWhile)
  have "last ?r = last (rev ?l)" using rne by (metis last_appendR takeWhile_dropWhile_id)
  also have "\<dots> = hd ?l" by (simp add: last_rev)
  also have "\<not> is_space (hd ?l)" using \<open>?l \<noteq> []\<close> by (rule hd_dropWhile)
  finally show ?thesis using last rne by (simp add: eq hd_rev last_rev)
qed

lemma strip_idem [simp]: "strip (strip s) = strip s"
  using strip_ends strip_eq_self_iff by blast

lemma fold_char_ends: "fold_char c \<noteq> []"
  by (simp add: fold_char_def)

lemma is_space_lower_char: "is_space (lower_char c) = is_space c"
  by (auto simp: is_space_def code_lower_char is_upper_def Let_def)

lemma is_space_fold_char: "\<not> is_space c \<Longrightarrow> x \<in> set (fold_char c) \<Longrightarrow> \<not> is_space x"
  by (auto simp: fold_char_def is_space_lower_char split: if_splits) (simp_all add: is_space_def)

lemma strip_casefold_strip: "strip (casefold (strip s)) = casefold (strip s)"
proof (cases "strip s")
  case Nil
  then show ?thesis by simp
next
  case (Cons c t)
  then have ne: "strip s \<noteq> []" by simp
  let ?u = "butlast (strip s)" and ?z = "last (strip s)"
  have ends: "\<not> is_space c" "\<not> is_space ?z" using strip_ends [OF ne] Cons by simp_all
  have a: "casefold (strip s) = fold_char c @ casefold t" by (simp add: Cons casefold_def)
  have b: "casefold (strip s) = casefold ?u @ fold_char ?z"
    using casefold_append [of ?u "[?z]"] ne by (simp add: casefold_def)
  have "\<not> is_space (hd (casefold (strip s)))"
    unfolding a using ends(1) fold_char_ends [of c] is_space_fold_char
    by (metis hd_append2 list.set_sel(1))
  moreover have "\<not> is_space (last (casefold (strip s)))"
    unfolding b using ends(2) fold_char_ends [of ?z] is_space_fold_char
    by (metis last_appendR last_in_set)
  ultimately show ?thesis by (simp add: strip_eq_self_iff)
qed

lemma partition_at_simps [simp]:
  "partition_at c [] = ([], False, [])"
  "partition_at c (x # s) =
     (if x = c then ([], True, s)
      else (case partition_at c s of (a, f, b) \<Rightarrow> (x # a, f, b)))"
  by (simp_all add: partition_at_def)

lemma partition_at_found: "c \<notin> set a \<Longrightarrow> partition_at c (a @ c # b) = (a, True, b)"
  by (induction a) auto

lemma partition_at_TrueD: "partition_at c s = (a, True, b) \<Longrightarrow> s = a @ c # b \<and> c \<notin> set a"
  by (induction s arbitrary: a) (auto split: if_splits prod.splits)

lemma partition_at_FalseD: "partition_at c s = (a, False, b) \<Longrightarrow> a = s \<and> b = [] \<and> c \<notin> set s"
  by (induction s arbitrary: a) (auto split: if_splits prod.splits)

end
