(* ===== verification/Errors.thy ===== *)
theory Errors
  imports PyValue
begin

text \<open>
  The exceptions of the program as one datatype, with the class hierarchy as predicates
  (\<open>isinstance\<close>).  A constructor carries what handlers read: the message, the safe category,
  the HTTP status and the correlation identifier.  \<open>LibraryError\<close> stands for an exception class
  of a library, by name.
\<close>

datatype tesla_error_class =
  TeslaAPI | TeslaAuthentication | TeslaReauthorization | TeslaConfiguration | TeslaTransport

datatype exn =
    ValueError string
  | RuntimeError string
  | KeyError string
  | AttributeError
  | TypeError
  | LibraryError string
  | InvalidTokenError string
  | EmailNotVerifiedError string
  | UserNotAllowedError string
  | UserDisabledError string
  | IdentityMismatchError string
  | ConfigurationError string
  | CallerIdentityClaimError string
  | CrossUserAccessError string
  | BrowserAuthenticationError string
  | TeslaOnboardingError string
  | InvalidOAuthStateError string
  | ConcurrentTokenRotationError string
  | VehicleOwnershipConflictError string
  | TeslaError tesla_error_class string string "int option" "string option"
    \<comment> \<open>class, message, category, status code, correlation identifier\<close>
  | TelemetryConfigurationError string string
    \<comment> \<open>category, message\<close>
  | MCPToolError string string "string option"
    \<comment> \<open>category, message, correlation identifier\<close>
  | AnalyticsQueryError string string
    \<comment> \<open>category, message\<close>
  | InvalidPushMessageError string
  | RetryableProcessingError string
  | AnalyticsViewReconciliationError string string
    \<comment> \<open>stage, view name\<close>
  | CertbotError string int
    \<comment> \<open>category, return code\<close>
  | AssertionError string
  | NoReturn
    \<comment> \<open>not an exception: a loop that had not ended within the fuel it was given\<close>

text \<open>\<open>AuthenticationError\<close> is the base class of the identity errors.\<close>

fun is_authentication_error :: "exn \<Rightarrow> bool" where
  "is_authentication_error (InvalidTokenError m) = True"
| "is_authentication_error (EmailNotVerifiedError m) = True"
| "is_authentication_error (UserNotAllowedError m) = True"
| "is_authentication_error (UserDisabledError m) = True"
| "is_authentication_error (IdentityMismatchError m) = True"
| "is_authentication_error (ConfigurationError m) = True"
| "is_authentication_error (CallerIdentityClaimError m) = True"
| "is_authentication_error (CrossUserAccessError m) = True"
| "is_authentication_error _ = False"

text \<open>\<open>TeslaOnboardingError\<close> is the base class of the onboarding errors.\<close>

fun is_onboarding_error :: "exn \<Rightarrow> bool" where
  "is_onboarding_error (TeslaOnboardingError m) = True"
| "is_onboarding_error (InvalidOAuthStateError m) = True"
| "is_onboarding_error (ConcurrentTokenRotationError m) = True"
| "is_onboarding_error (VehicleOwnershipConflictError m) = True"
| "is_onboarding_error _ = False"

text \<open>\<open>TeslaAPIError\<close>; re-authorization is a kind of authentication error.\<close>

fun is_tesla_api_error :: "exn \<Rightarrow> bool" where
  "is_tesla_api_error (TeslaError c m k s r) = True"
| "is_tesla_api_error _ = False"

fun is_tesla_authentication_error :: "exn \<Rightarrow> bool" where
  "is_tesla_authentication_error (TeslaError c m k s r) =
     (c = TeslaAuthentication \<or> c = TeslaReauthorization)"
| "is_tesla_authentication_error _ = False"

fun is_reauthorization_required :: "exn \<Rightarrow> bool" where
  "is_reauthorization_required (TeslaError TeslaReauthorization m k s r) = True"
| "is_reauthorization_required _ = False"

fun is_transport_error :: "exn \<Rightarrow> bool" where
  "is_transport_error (TeslaError TeslaTransport m k s r) = True"
| "is_transport_error _ = False"

text \<open>The constructors the code calls with defaults.\<close>

definition tesla_transport_error :: "string \<Rightarrow> exn" where
  "tesla_transport_error m = TeslaError TeslaTransport m ''transport_error'' None None"

definition tesla_api_error :: "string \<Rightarrow> string \<Rightarrow> exn" where
  "tesla_api_error m category = TeslaError TeslaAPI m category None None"

definition tesla_authentication_error :: "string \<Rightarrow> exn" where
  "tesla_authentication_error m = TeslaError TeslaAuthentication m ''unspecified'' None None"

definition tesla_reauthorization_required :: "string \<Rightarrow> exn" where
  "tesla_reauthorization_required m = TeslaError TeslaReauthorization m ''unspecified'' None None"

lemma reauthorization_is_authentication:
  "is_reauthorization_required e \<Longrightarrow> is_tesla_authentication_error e"
  by (cases e rule: is_reauthorization_required.cases) auto

lemma authentication_is_api: "is_tesla_authentication_error e \<Longrightarrow> is_tesla_api_error e"
  by (cases e) auto

lemma reauthorization_required_simp [simp]:
  "is_reauthorization_required (tesla_reauthorization_required m)"
  "\<not> is_reauthorization_required (tesla_authentication_error m)"
  "\<not> is_reauthorization_required (tesla_api_error m k)"
  "\<not> is_reauthorization_required (tesla_transport_error m)"
  "is_transport_error (tesla_transport_error m)"
  by (simp_all add: tesla_reauthorization_required_def tesla_authentication_error_def
      tesla_api_error_def tesla_transport_error_def)

end
