(* ===== verification/AuthCore.thy ===== *)
theory AuthCore
  imports Errors
begin

text \<open>
  The provider-neutral authentication rules: \<open>auth/models.py\<close>, \<open>auth/core.py\<close> and the
  gateway's \<open>auth_boundary.py\<close>.  The token verifier is an argument, a function from the token to
  the verified claims or an exception; the identity store is the locale \<open>identity_store\<close> below,
  whose laws the two stores of the program discharge in their own theories.
\<close>

subsection \<open>Models\<close>

datatype user_status = Active | Disabled

record verified_identity =
  issuer :: string
  subject :: string
  email :: "string option"
  email_verified :: bool

text \<open>\<open>VerifiedIdentity.__post_init__\<close>.\<close>

definition make_identity ::
  "string \<Rightarrow> string \<Rightarrow> string option \<Rightarrow> bool \<Rightarrow> exn + verified_identity" where
  "make_identity iss sub em verified =
     (if iss = [] \<or> sub = []
      then Inl (ValueError ''Verified OIDC identity requires issuer and subject'')
      else Inr \<lparr>issuer = iss, subject = sub, email = em, email_verified = verified\<rparr>)"

record allowed_user =
  invitation_email :: string
  user_id :: string
  dataset_id :: string
  status :: user_status
  oidc_issuer :: "string option"
  oidc_subject :: "string option"

record user_context =
  ctx_user_id :: string
  ctx_dataset_id :: string
  ctx_issuer :: string
  ctx_subject :: string

text \<open>The immutable key of an identity: its issuer and subject.\<close>

definition identity_key :: "verified_identity \<Rightarrow> string \<times> string" where
  "identity_key i = (issuer i, subject i)"

definition context_key :: "user_context \<Rightarrow> string \<times> string" where
  "context_key c = (ctx_issuer c, ctx_subject c)"

subsection \<open>Email keys\<close>

definition normalize_email :: "string \<Rightarrow> exn + string" where
  "normalize_email e =
     (let normalized = casefold (strip e);
          (local_part, separator, domain) = partition_at (CHR ''@'') normalized
      in if \<not> separator \<or> local_part = [] \<or> domain = [] \<or> CHR ''@'' \<in> set domain
         then Inl (ValueError ''A valid email address is required'')
         else Inr normalized)"

definition first_login_invitation_email :: "verified_identity \<Rightarrow> exn + string" where
  "first_login_invitation_email i =
     (if \<not> email_verified i
      then Inl (EmailNotVerifiedError ''Verified email is required for first login'')
      else case email i of
        None \<Rightarrow> Inl (UserNotAllowedError ''No invitation email claim'')
      | Some e \<Rightarrow>
          (case normalize_email e of
             Inl _ \<Rightarrow> Inl (InvalidTokenError ''OIDC token has an invalid email claim'')
           | Inr n \<Rightarrow> Inr n))"

subsection \<open>Caller payloads\<close>

definition forbidden_caller_keys :: "string list" where
  "forbidden_caller_keys =
     [''dataset_id'', ''owner_email'', ''owner_user_id'', ''owned_by'', ''ownership'',
      ''ownership_claim'', ''user_id'']"

definition max_caller_payload_depth :: nat where
  "max_caller_payload_depth = 64"

definition forbidden_key :: "string \<Rightarrow> bool" where
  "forbidden_key k = (casefold k \<in> set forbidden_caller_keys)"

text \<open>
  The work list of \<open>assert_no_caller_identity_claims\<close>.  The code pops from the end of
  \<open>pending\<close>; here the end is the head of the list, so children go on it in reverse.
\<close>

function scan_claims :: "(val \<times> nat) list \<Rightarrow> exn + unit" where
  "scan_claims [] = Inr ()"
| "scan_claims ((current, depth) # pending) =
     (if depth > max_caller_payload_depth
      then Inl (CallerIdentityClaimError ''Caller payload exceeds maximum nesting depth'')
      else case current of
        VDict kvs \<Rightarrow>
          (case find (\<lambda>(k, v). forbidden_key k) kvs of
             Some (k, v) \<Rightarrow> Inl (CallerIdentityClaimError
               (''Caller-controlled identity field is forbidden: '' @ k))
           | None \<Rightarrow> scan_claims (rev (map (\<lambda>(k, v). (v, depth + 1)) kvs) @ pending))
      | VList vs \<Rightarrow> scan_claims (rev (map (\<lambda>v. (v, depth + 1)) vs) @ pending)
      | _ \<Rightarrow> scan_claims pending)"
  by pat_completeness auto

definition work_size :: "(val \<times> nat) list \<Rightarrow> nat" where
  "work_size ps = sum_list (map (\<lambda>p. Suc (size (fst p))) ps)"

lemma work_size_simps [simp]:
  "work_size [] = 0"
  "work_size (p # ps) = Suc (size (fst p)) + work_size ps"
  "work_size (ps @ qs) = work_size ps + work_size qs"
  "work_size (rev ps) = work_size ps"
  by (simp_all add: work_size_def rev_map [symmetric])

lemma work_size_values:
  "work_size (map (\<lambda>(k, v). (v, n)) kvs) \<le> size_list (size_prod (\<lambda>x. 0) size) kvs"
  by (induction kvs) (auto split: prod.splits)

lemma work_size_items: "work_size (map (\<lambda>v. (v, n)) vs) \<le> size_list size vs"
  by (induction vs) auto

termination scan_claims
  by (relation "measure work_size")
    (auto intro!: le_imp_less_Suc le_SucI work_size_values work_size_items)

definition assert_no_caller_identity_claims :: "val \<Rightarrow> exn + unit" where
  "assert_no_caller_identity_claims payload = scan_claims [(payload, 0)]"

definition authorize_trusted_owner :: "user_context \<Rightarrow> string \<Rightarrow> exn + unit" where
  "authorize_trusted_owner c trusted_owner_user_id =
     (if ctx_user_id c \<noteq> trusted_owner_user_id
      then Inl (CrossUserAccessError ''Resource is outside the authenticated user boundary'')
      else Inr ())"

subsection \<open>The bearer credential\<close>

text \<open>
  \<open>Authenticator.authenticate_bearer\<close>: the header is split at its first space; the scheme is
  compared without case and the token must be one word.
\<close>

definition bearer_token :: "string option \<Rightarrow> exn + string" where
  "bearer_token authorization =
     (case authorization of
        None \<Rightarrow> Inl (InvalidTokenError ''Missing bearer token'')
      | Some header \<Rightarrow>
          (let (scheme, separator, token) = partition_at (CHR '' '') header
           in if \<not> separator \<or> casefold scheme \<noteq> ''bearer'' \<or> strip token = []
              then Inl (InvalidTokenError ''Malformed bearer token'')
              else if token \<noteq> strip token \<or> CHR '' '' \<in> set token
              then Inl (InvalidTokenError ''Malformed bearer token'')
              else Inr token))"

definition authenticate_bearer ::
  "(string \<Rightarrow> exn + verified_identity) \<Rightarrow>
   (verified_identity \<Rightarrow> ('s, exn, user_context) oper) \<Rightarrow>
   string option \<Rightarrow> ('s, exn, user_context) oper" where
  "authenticate_bearer verify resolve authorization =
     obind (olift (bearer_token authorization)) (\<lambda>token.
     obind (olift (verify token)) resolve)"

text \<open>\<open>GatewayAuthBoundary.authorize\<close>: authenticate first, then inspect the payload.\<close>

definition gateway_authorize ::
  "(string \<Rightarrow> exn + verified_identity) \<Rightarrow>
   (verified_identity \<Rightarrow> ('s, exn, user_context) oper) \<Rightarrow>
   string option \<Rightarrow> val \<Rightarrow> ('s, exn, user_context) oper" where
  "gateway_authorize verify resolve authorization payload =
     obind (authenticate_bearer verify resolve authorization) (\<lambda>context.
     obind (olift (assert_no_caller_identity_claims payload)) (\<lambda>_.
     oret context))"

subsection \<open>What the payload scan decides\<close>

text \<open>
  The specification of the scan: no dictionary at any depth has a forbidden key, and nothing is
  nested deeper than the limit.
\<close>

fun clean_payload :: "nat \<Rightarrow> val \<Rightarrow> bool" where
  "clean_payload d (VDict kvs) \<longleftrightarrow> d \<le> max_caller_payload_depth \<and>
     (\<forall>(k, v) \<in> set kvs. \<not> forbidden_key k \<and> clean_payload (Suc d) v)"
| "clean_payload d (VList vs) \<longleftrightarrow> d \<le> max_caller_payload_depth \<and>
     (\<forall>v \<in> set vs. clean_payload (Suc d) v)"
| "clean_payload d v \<longleftrightarrow> d \<le> max_caller_payload_depth"

lemma find_forbidden_None:
  "find (\<lambda>(k, v). forbidden_key k) kvs = None \<longleftrightarrow> (\<forall>(k, v) \<in> set kvs. \<not> forbidden_key k)"
  by (auto simp: find_None_iff)

lemma scan_claims_iff:
  "scan_claims ps = Inr () \<longleftrightarrow> (\<forall>(v, d) \<in> set ps. clean_payload d v)"
proof (induction ps rule: scan_claims.induct)
  case 1
  then show ?case by simp
next
  case (2 current depth pending)
  show ?case
  proof (cases "depth > max_caller_payload_depth")
    case True
    then show ?thesis by (cases current) auto
  next
    case deep: False
    show ?thesis
    proof (cases current)
      case (VDict kvs)
      show ?thesis
      proof (cases "find (\<lambda>(k, v). forbidden_key k) kvs")
        case None
        then have nf: "\<forall>(k, v) \<in> set kvs. \<not> forbidden_key k"
          by (rule iffD1 [OF find_forbidden_None])
        have step: "scan_claims ((current, depth) # pending) =
            scan_claims (rev (map (\<lambda>(k, v). (v, depth + 1)) kvs) @ pending)"
          using deep VDict None by simp
        have ih: "\<dots> = Inr () \<longleftrightarrow>
            (\<forall>(v, d) \<in> set (rev (map (\<lambda>(k, v). (v, depth + 1)) kvs) @ pending). clean_payload d v)"
          using deep VDict None by (rule 2)
        have rhs: "\<dots> \<longleftrightarrow> (\<forall>(k, v) \<in> set kvs. clean_payload (Suc depth) v) \<and>
            (\<forall>(v, d) \<in> set pending. clean_payload d v)"
          by fastforce
        show ?thesis
          unfolding step ih rhs using nf deep by (auto simp: VDict)
      next
        case (Some kv)
        then have "\<exists>(k, v) \<in> set kvs. forbidden_key k"
          by (auto simp: find_Some_iff) (metis case_prodI2 nth_mem prod.sel)
        with deep VDict Some show ?thesis by (cases kv) auto
      qed
    next
      case (VList vs)
      with deep 2 show ?thesis by (auto simp: ball_Un)
    qed (use deep 2 in auto)
  qed
qed

lemma scan_claims_error:
  "scan_claims ps = Inl e \<Longrightarrow> \<exists>m. e = CallerIdentityClaimError m"
  by (induction ps rule: scan_claims.induct)
    (auto split: if_splits val.splits option.splits)

subsection \<open>Facts about the header and the email key\<close>

lemma bearer_token_eq_Inr:
  "bearer_token h = Inr t \<longleftrightarrow>
     (\<exists>scheme. h = Some (scheme @ CHR '' '' # t) \<and> CHR '' '' \<notin> set scheme \<and>
        casefold scheme = ''bearer'' \<and> t \<noteq> [] \<and> strip t = t \<and> CHR '' '' \<notin> set t)"
proof (cases h)
  case None
  then show ?thesis by (simp add: bearer_token_def)
next
  case (Some header)
  obtain scheme sep token where p: "partition_at (CHR '' '') header = (scheme, sep, token)"
    by (metis prod_cases3)
  show ?thesis
  proof (cases sep)
    case True
    with p have h: "header = scheme @ CHR '' '' # token" "CHR '' '' \<notin> set scheme"
      using partition_at_TrueD [of "CHR '' ''" header scheme token] by simp_all
    have unique: "\<And>a b. header = a @ CHR '' '' # b \<Longrightarrow> CHR '' '' \<notin> set a \<Longrightarrow> a = scheme \<and> b = token"
      using partition_at_found p by fastforce
    have b: "bearer_token h = (if casefold scheme \<noteq> ''bearer'' \<or> strip token = [] \<or> token \<noteq> strip token
        \<or> CHR '' '' \<in> set token then Inl (InvalidTokenError ''Malformed bearer token'') else Inr token)"
      by (simp add: Some bearer_token_def p True)
    show ?thesis
    proof
      assume "bearer_token h = Inr t"
      with b have "token = t" "casefold scheme = ''bearer''" "t \<noteq> []" "strip t = t" "CHR '' '' \<notin> set t"
        by (auto split: if_splits)
      with h show "\<exists>scheme. h = Some (scheme @ CHR '' '' # t) \<and> CHR '' '' \<notin> set scheme \<and>
          casefold scheme = ''bearer'' \<and> t \<noteq> [] \<and> strip t = t \<and> CHR '' '' \<notin> set t"
        by (intro exI [of _ scheme]) (simp add: Some)
    next
      assume "\<exists>scheme. h = Some (scheme @ CHR '' '' # t) \<and> CHR '' '' \<notin> set scheme \<and>
          casefold scheme = ''bearer'' \<and> t \<noteq> [] \<and> strip t = t \<and> CHR '' '' \<notin> set t"
      then obtain a where a: "header = a @ CHR '' '' # t" "CHR '' '' \<notin> set a"
        "casefold a = ''bearer''" "t \<noteq> []" "strip t = t" "CHR '' '' \<notin> set t"
        by (auto simp: Some)
      from unique [OF a(1,2)] have "a = scheme" "t = token" by simp_all
      with a b show "bearer_token h = Inr t" by simp
    qed
  next
    case False
    with p have "CHR '' '' \<notin> set header"
      using partition_at_FalseD [of "CHR '' ''" header scheme token] by simp
    then show ?thesis by (auto simp: Some bearer_token_def p False)
  qed
qed

lemma normalize_email_idem: "normalize_email e = Inr n \<Longrightarrow> normalize_email n = Inr n"
  by (auto simp: normalize_email_def Let_def strip_casefold_strip split: if_splits prod.splits)

lemma normalize_email_case: "casefold (strip e) = casefold (strip f) \<Longrightarrow> normalize_email e = normalize_email f"
  by (simp add: normalize_email_def)

lemma first_login_email_eq_Inr:
  "first_login_invitation_email i = Inr n \<longleftrightarrow>
     email_verified i \<and> (\<exists>e. email i = Some e \<and> normalize_email e = Inr n)"
  by (auto simp: first_login_invitation_email_def split: option.splits sum.splits)

lemma first_login_email_normal: "first_login_invitation_email i = Inr n \<Longrightarrow> normalize_email n = Inr n"
  by (auto simp: first_login_email_eq_Inr dest: normalize_email_idem)

subsection \<open>The identity store as an interface\<close>

text \<open>
  \<open>IdentityStore.resolve_or_bind\<close>, and what a caller may rely on: a refusal writes nothing, a
  context carries the key of the identity it was resolved for, a login can be repeated with any
  claims of the same key, and a login never disturbs an identity that already resolves.
\<close>

locale identity_store =
  fixes resolve :: "verified_identity \<Rightarrow> ('s, exn, user_context) oper"
    and wf :: "'s \<Rightarrow> bool"
  assumes resolve_wf: "wf s \<Longrightarrow> wf (snd (resolve i s))"
    and resolve_refused: "wf s \<Longrightarrow> resolve i s = (Inl e, t) \<Longrightarrow> t = s"
    and resolve_key: "resolve i s = (Inr c, t) \<Longrightarrow> context_key c = identity_key i"
    and resolve_again: "wf s \<Longrightarrow> resolve i s = (Inr c, t) \<Longrightarrow> identity_key j = identity_key i \<Longrightarrow>
      resolve j t = (Inr c, t)"
    and resolve_frame: "wf s \<Longrightarrow> resolve i s = (Inr c, t) \<Longrightarrow> resolve j s = (Inr d, s) \<Longrightarrow>
      resolve j t = (Inr d, t)"
begin

text \<open>The state after a sequence of logins, whether each succeeds or not.\<close>

primrec logins :: "verified_identity list \<Rightarrow> 's \<Rightarrow> 's" where
  "logins [] s = s"
| "logins (i # is) s = logins is (snd (resolve i s))"

lemma logins_wf: "wf s \<Longrightarrow> wf (logins is s)"
  by (induction "is" arbitrary: s) (auto intro: resolve_wf)

lemma frame_step: "wf s \<Longrightarrow> resolve j s = (Inr d, s) \<Longrightarrow>
    resolve j (snd (resolve i s)) = (Inr d, snd (resolve i s))"
  by (cases "resolve i s"; cases "fst (resolve i s)") (auto dest: resolve_refused resolve_frame)

lemma bound_forever: "wf s \<Longrightarrow> resolve j s = (Inr d, s) \<Longrightarrow>
    resolve j (logins is s) = (Inr d, logins is s)"
proof (induction "is" arbitrary: s)
  case Nil
  then show ?case by simp
next
  case (Cons i "is")
  show ?case
    using Cons.IH [OF resolve_wf [OF Cons.prems(1)] frame_step [OF Cons.prems]] by simp
qed

lemma login_is_permanent:
  assumes "wf s" and "resolve i s = (Inr c, t)" and "identity_key j = identity_key i"
  shows "resolve j (logins is t) = (Inr c, logins is t)"
proof (rule bound_forever)
  show "wf t" using resolve_wf [OF assms(1), of i] assms(2) by simp
  show "resolve j t = (Inr c, t)" using assms by (rule resolve_again)
qed

lemma authenticate_key:
  assumes "authenticate_bearer verify resolve h s = (Inr c, t)"
  obtains tok i where "bearer_token h = Inr tok" and "verify tok = Inr i"
    and "resolve i s = (Inr c, t)" and "context_key c = identity_key i"
  using assms
  by (auto simp: authenticate_bearer_def obind_eq_Inr olift_def dest: resolve_key)

lemma authenticate_refused: "wf s \<Longrightarrow> authenticate_bearer verify resolve h s = (Inl e, t) \<Longrightarrow> t = s"
  by (auto simp: authenticate_bearer_def obind_eq_Inl olift_def dest: resolve_refused)

end

lemma assert_clean_iff: "assert_no_caller_identity_claims payload = Inr () \<longleftrightarrow> clean_payload 0 payload"
  using scan_claims_iff [of "[(payload, 0)]"]
  by (simp add: assert_no_caller_identity_claims_def del: scan_claims.simps)

text \<open>A caller payload is accepted exactly when no dictionary in it, at any depth, has a key that
  names an identity or an owner (compared without case), and nothing is nested deeper than 64.\<close>
theorem payload_accepted_iff_clean:
  "assert_no_caller_identity_claims payload = Inr () \<longleftrightarrow> clean_payload 0 payload"
  by (rule assert_clean_iff)

end
