(* ===== verification/IdentityStore.thy ===== *)
theory IdentityStore
  imports AuthCore
begin

text \<open>
  \<open>auth/firestore.py\<close>: the identity store and the allowlist administration over two Firestore
  collections, and \<open>auth/admin.py\<close>, the service that drives them.

  A collection is an association list from document identifiers to documents.  Each
  \<open>@firestore.transactional\<close> function is a function from the database to an exception or its
  result and the database after its writes; \<^const>\<open>transact\<close> drops the writes of one that raises.
  \<open>H\<close> is \<open>sha256(...).hexdigest()\<close>, \<open>srv\<close> the server time that \<open>SERVER_TIMESTAMP\<close> writes.
\<close>

subsection \<open>The collections\<close>

type_synonym collection = "(string \<times> dict) list"

record auth_db =
  allowed_users :: collection
  oidc_identities :: collection

definition identity_document_id :: "(string \<Rightarrow> string) \<Rightarrow> string \<Rightarrow> string \<Rightarrow> string" where
  "identity_document_id H iss sub = H (iss @ [char_of (0::nat)] @ sub)"

fun user_status_of :: "val \<Rightarrow> user_status option" where
  "user_status_of (VStr s) =
     (if s = ''active'' then Some Active else if s = ''disabled'' then Some Disabled else None)"
| "user_status_of _ = None"

definition status_value :: "user_status \<Rightarrow> string" where
  "status_value st = (case st of Active \<Rightarrow> ''active'' | Disabled \<Rightarrow> ''disabled'')"

fun opt_str_field :: "val \<Rightarrow> string option option" where
  "opt_str_field VNone = Some None"
| "opt_str_field (VStr s) = Some (Some s)"
| "opt_str_field _ = None"

definition record_from_data :: "string \<Rightarrow> dict \<Rightarrow> exn + allowed_user" where
  "record_from_data em data =
     (case (map_of data ''status'', map_of data ''user_id'', map_of data ''dataset_id'') of
        (Some st, Some uid, Some ds) \<Rightarrow>
          (case user_status_of st of
             None \<Rightarrow> Inl (ConfigurationError ''Allowlist record is incomplete'')
           | Some stat \<Rightarrow>
               if \<not> is_str uid \<or> the_str uid = []
               then Inl (ConfigurationError ''Allowlist record has an invalid user ID'')
               else if \<not> is_str ds \<or> the_str ds = []
               then Inl (ConfigurationError ''Allowlist record has an invalid dataset ID'')
               else (case (opt_str_field (dget data ''oidc_issuer''),
                           opt_str_field (dget data ''oidc_subject'')) of
                   (None, _) \<Rightarrow> Inl (ConfigurationError ''Allowlist issuer has an invalid type'')
                 | (_, None) \<Rightarrow> Inl (ConfigurationError ''Allowlist subject has an invalid type'')
                 | (Some iss, Some sub) \<Rightarrow>
                     if (iss = None) \<noteq> (sub = None)
                     then Inl (ConfigurationError ''Allowlist immutable identity is partially bound'')
                     else Inr \<lparr>invitation_email = em, user_id = the_str uid,
                            dataset_id = the_str ds, status = stat,
                            oidc_issuer = iss, oidc_subject = sub\<rparr>))
      | _ \<Rightarrow> Inl (ConfigurationError ''Allowlist record is incomplete''))"

definition require_active :: "allowed_user \<Rightarrow> exn + unit" where
  "require_active u = require (status u = Active) (UserDisabledError ''User is disabled'')"

definition user_key :: "allowed_user \<Rightarrow> string option \<times> string option" where
  "user_key u = (oidc_issuer u, oidc_subject u)"

text \<open>\<open>_context\<close>.\<close>

definition context_of :: "allowed_user \<Rightarrow> verified_identity \<Rightarrow> exn + user_context" where
  "context_of u i =
     rbind (require_active u) (\<lambda>_.
     if user_key u \<noteq> (Some (issuer i), Some (subject i))
     then Inl (IdentityMismatchError ''Immutable identity binding is inconsistent'')
     else Inr \<lparr>ctx_user_id = user_id u, ctx_dataset_id = dataset_id u,
            ctx_issuer = issuer i, ctx_subject = subject i\<rparr>)"

subsection \<open>Resolving and binding\<close>

text \<open>The first branch: the binding document of the identity exists.\<close>

definition resolve_existing ::
  "auth_db \<Rightarrow> verified_identity \<Rightarrow> dict \<Rightarrow> exn + user_context" where
  "resolve_existing db i binding =
     (if (dget binding ''oidc_issuer'', dget binding ''oidc_subject'')
           \<noteq> (VStr (issuer i), VStr (subject i))
      then Inl (ConfigurationError ''OIDC binding hash does not match its identity'')
      else case dget binding ''allowlist_email'' of
        VStr allowlist_email \<Rightarrow>
          rbind (normalize_email allowlist_email) (\<lambda>doc_id.
          case map_of (allowed_users db) doc_id of
            None \<Rightarrow> Inl (ConfigurationError ''OIDC binding points to a missing allowlist record'')
          | Some data \<Rightarrow>
              rbind (record_from_data allowlist_email data) (\<lambda>u.
              if dget binding ''user_id'' \<noteq> VStr (user_id u)
              then Inl (ConfigurationError ''OIDC binding user does not match its allowlist record'')
              else context_of u i))
      | _ \<Rightarrow> Inl (ConfigurationError ''OIDC binding is missing its allowlist key''))"

definition bind_fields :: "int \<Rightarrow> verified_identity \<Rightarrow> dict" where
  "bind_fields srv i =
     [(''oidc_issuer'', VStr (issuer i)), (''oidc_subject'', VStr (subject i)),
      (''bound_at'', VTime srv), (''updated_at'', VTime srv)]"

definition binding_document :: "int \<Rightarrow> string \<Rightarrow> verified_identity \<Rightarrow> string \<Rightarrow> dict" where
  "binding_document srv em i uid =
     [(''allowlist_email'', VStr em), (''oidc_issuer'', VStr (issuer i)),
      (''oidc_subject'', VStr (subject i)), (''user_id'', VStr uid), (''created_at'', VTime srv)]"

text \<open>The second branch: first login through the invitation of the verified email.\<close>

definition bind_invitation ::
  "(string \<Rightarrow> string) \<Rightarrow> int \<Rightarrow> verified_identity \<Rightarrow> auth_db \<Rightarrow> exn + user_context \<times> auth_db" where
  "bind_invitation H srv i db =
     rbind (first_login_invitation_email i) (\<lambda>em.
     rbind (normalize_email em) (\<lambda>doc_id.
     case map_of (allowed_users db) doc_id of
       None \<Rightarrow> Inl (UserNotAllowedError ''No active invitation'')
     | Some data \<Rightarrow>
         rbind (record_from_data em data) (\<lambda>u.
         rbind (require_active u) (\<lambda>_.
         rbind
           (if oidc_issuer u \<noteq> None \<or> oidc_subject u \<noteq> None
            then if user_key u \<noteq> (Some (issuer i), Some (subject i))
                 then Inl (IdentityMismatchError ''Invitation is bound to another identity'')
                 else Inr (u, db)
            else Inr (u\<lparr>oidc_issuer := Some (issuer i), oidc_subject := Some (subject i)\<rparr>,
                      db\<lparr>allowed_users :=
                        AList.update doc_id (dict_merge data (bind_fields srv i)) (allowed_users db)\<rparr>))
           (\<lambda>(u', db').
         rbind (context_of u' i) (\<lambda>c.
         Inr (c, db'\<lparr>oidc_identities :=
           AList.update (identity_document_id H (issuer i) (subject i))
             (binding_document srv em i (user_id u')) (oidc_identities db')\<rparr>)))))))"

definition resolve_or_bind_transaction ::
  "(string \<Rightarrow> string) \<Rightarrow> int \<Rightarrow> verified_identity \<Rightarrow> auth_db \<Rightarrow> exn + user_context \<times> auth_db" where
  "resolve_or_bind_transaction H srv i db =
     (case map_of (oidc_identities db) (identity_document_id H (issuer i) (subject i)) of
        Some binding \<Rightarrow> rbind (resolve_existing db i binding) (\<lambda>c. Inr (c, db))
      | None \<Rightarrow> bind_invitation H srv i db)"

definition fs_resolve_or_bind ::
  "(string \<Rightarrow> string) \<Rightarrow> int \<Rightarrow> verified_identity \<Rightarrow> (auth_db, exn, user_context) oper" where
  "fs_resolve_or_bind H srv i = transact (resolve_or_bind_transaction H srv i)"

subsection \<open>Allowlist administration\<close>

definition invitation_document :: "int \<Rightarrow> string \<Rightarrow> string \<Rightarrow> string \<Rightarrow> string option \<Rightarrow> dict" where
  "invitation_document srv em uid ds notes =
     [(''email'', VStr em), (''user_id'', VStr uid), (''dataset_id'', VStr ds),
      (''status'', VStr (status_value Disabled)), (''oidc_issuer'', VNone), (''oidc_subject'', VNone),
      (''notes'', VStr (case notes of None \<Rightarrow> [] | Some n \<Rightarrow> n)),
      (''provisioning_state'', VStr ''pending''), (''created_at'', VTime srv), (''updated_at'', VTime srv)]"

text \<open>\<open>new_user\<close> and \<open>new_dataset\<close> are what the identifier factories return.\<close>

definition ensure_invitation_transaction ::
  "int \<Rightarrow> string \<Rightarrow> string \<Rightarrow> string \<Rightarrow> string option \<Rightarrow> auth_db \<Rightarrow> exn + allowed_user \<times> auth_db" where
  "ensure_invitation_transaction srv new_user new_dataset em notes db =
     rbind (normalize_email em) (\<lambda>doc_id.
     case map_of (allowed_users db) doc_id of
       Some data \<Rightarrow>
         rbind (record_from_data em data) (\<lambda>u.
         Inr (u, db\<lparr>allowed_users := AList.update doc_id
           (dict_merge data
             ([(''provisioning_state'', VStr ''pending''), (''updated_at'', VTime srv)]
              @ (case notes of None \<Rightarrow> [] | Some n \<Rightarrow> [(''notes'', VStr n)])))
           (allowed_users db)\<rparr>))
     | None \<Rightarrow>
         Inr (\<lparr>invitation_email = em, user_id = new_user, dataset_id = new_dataset,
                status = Disabled, oidc_issuer = None, oidc_subject = None\<rparr>,
              db\<lparr>allowed_users := AList.update doc_id
                (invitation_document srv em new_user new_dataset notes) (allowed_users db)\<rparr>))"

definition set_status_transaction ::
  "int \<Rightarrow> string \<Rightarrow> user_status \<Rightarrow> string \<Rightarrow> auth_db \<Rightarrow> exn + allowed_user \<times> auth_db" where
  "set_status_transaction srv em st provisioning_state db =
     rbind (normalize_email em) (\<lambda>doc_id.
     case map_of (allowed_users db) doc_id of
       None \<Rightarrow> Inl (UserNotAllowedError ''Allowlist record does not exist'')
     | Some data \<Rightarrow>
         rbind (record_from_data em data) (\<lambda>u.
         Inr (u\<lparr>status := st\<rparr>, db\<lparr>allowed_users := AList.update doc_id
           (dict_merge data [(''status'', VStr (status_value st)),
              (''provisioning_state'', VStr provisioning_state), (''updated_at'', VTime srv)])
           (allowed_users db)\<rparr>)))"

definition reset_identity_transaction ::
  "(string \<Rightarrow> string) \<Rightarrow> int \<Rightarrow> string \<Rightarrow> string \<Rightarrow> auth_db \<Rightarrow> exn + allowed_user \<times> auth_db" where
  "reset_identity_transaction H srv em expected_user_id db =
     rbind (normalize_email em) (\<lambda>doc_id.
     case map_of (allowed_users db) doc_id of
       None \<Rightarrow> Inl (UserNotAllowedError ''Allowlist record does not exist'')
     | Some data \<Rightarrow>
         rbind (record_from_data em data) (\<lambda>u.
         if user_id u \<noteq> expected_user_id
         then Inl (ValueError ''Confirmed user ID does not match the allowlist record'')
         else
           (let identities =
              (case (oidc_issuer u, oidc_subject u) of
                 (Some iss, Some sub) \<Rightarrow>
                   AList.delete (identity_document_id H iss sub) (oidc_identities db)
               | _ \<Rightarrow> oidc_identities db);
                cleared = AList.delete ''bound_at''
                  (dict_merge data [(''oidc_issuer'', VNone), (''oidc_subject'', VNone),
                     (''updated_at'', VTime srv)])
            in Inr (u\<lparr>oidc_issuer := None, oidc_subject := None\<rparr>,
                    db\<lparr>oidc_identities := identities,
                       allowed_users := AList.update doc_id cleared (allowed_users db)\<rparr>))))"

text \<open>The public methods normalize the email before they open the transaction.\<close>

definition ensure_invitation ::
  "int \<Rightarrow> string \<Rightarrow> string \<Rightarrow> string \<Rightarrow> string option \<Rightarrow> (auth_db, exn, allowed_user) oper" where
  "ensure_invitation srv new_user new_dataset em notes =
     obind (olift (normalize_email em)) (\<lambda>n.
     transact (ensure_invitation_transaction srv new_user new_dataset n notes))"

definition set_user_status ::
  "int \<Rightarrow> string \<Rightarrow> user_status \<Rightarrow> string \<Rightarrow> (auth_db, exn, allowed_user) oper" where
  "set_user_status srv em st provisioning_state =
     obind (olift (normalize_email em)) (\<lambda>n.
     transact (set_status_transaction srv n st provisioning_state))"

definition activate_user :: "int \<Rightarrow> string \<Rightarrow> (auth_db, exn, allowed_user) oper" where
  "activate_user srv em = set_user_status srv em Active ''ready''"

definition disable_user :: "int \<Rightarrow> string \<Rightarrow> (auth_db, exn, allowed_user) oper" where
  "disable_user srv em = set_user_status srv em Disabled ''ready''"

definition reset_identity ::
  "(string \<Rightarrow> string) \<Rightarrow> int \<Rightarrow> string \<Rightarrow> string \<Rightarrow> (auth_db, exn, allowed_user) oper" where
  "reset_identity H srv em expected_user_id =
     obind (olift (normalize_email em)) (\<lambda>n.
     transact (reset_identity_transaction H srv n expected_user_id))"

text \<open>\<open>list_active_users\<close>: the query by status, in the order of the internal user identifiers.\<close>

definition list_active_users :: "auth_db \<Rightarrow> exn + allowed_user list" where
  "list_active_users db =
     rbind (rmap (\<lambda>(em, data). record_from_data em data)
        (filter (\<lambda>(em, data). dget data ''status'' = VStr (status_value Active)) (allowed_users db)))
       (\<lambda>users. Inr (sort_key user_id users))"

subsection \<open>The administration service\<close>

text \<open>
  \<open>UserAdminService.add_user\<close>: \<open>provision\<close> is the dataset provisioner, an effect outside the
  two collections that may raise; access is activated only after it returned.
\<close>

definition add_user ::
  "(allowed_user \<Rightarrow> exn + unit) \<Rightarrow> int \<Rightarrow> string \<Rightarrow> string \<Rightarrow> string \<Rightarrow> string option \<Rightarrow>
   (auth_db, exn, allowed_user) oper" where
  "add_user provision srv new_user new_dataset em notes =
     obind (ensure_invitation srv new_user new_dataset em notes) (\<lambda>u.
     obind (olift (provision u)) (\<lambda>_.
     activate_user srv (invitation_email u)))"

record view_sync_summary =
  active_user_count :: nat
  desired_view_count :: nat
  removed_view_count :: nat

text \<open>
  \<open>AnalyticsViewSyncService.sync_active_users\<close> over the users the allowlist reader returned;
  \<open>reconcile\<close> gives the desired and removed view counts of one dataset.
\<close>

fun reconcile_users ::
  "(string \<Rightarrow> exn + nat \<times> nat) \<Rightarrow> allowed_user list \<Rightarrow> nat \<Rightarrow> nat \<Rightarrow> exn + nat \<times> nat" where
  "reconcile_users rec [] desired removed = Inr (desired, removed)"
| "reconcile_users rec (u # us) desired removed =
     (case rec (dataset_id u) of
        Inl e \<Rightarrow> Inl (RuntimeError
          (''Analytics view reconciliation failed for one active tenant'' @
           (case e of AnalyticsViewReconciliationError stage view \<Rightarrow>
                '': Analytics view '' @ stage @ '' failed for '' @ view
              | _ \<Rightarrow> [])))
      | Inr (d, r) \<Rightarrow> reconcile_users rec us (desired + d) (removed + r))"

definition sync_active_users ::
  "(string \<Rightarrow> exn + nat \<times> nat) \<Rightarrow> allowed_user list \<Rightarrow> exn + view_sync_summary" where
  "sync_active_users rec users =
     (if \<not> distinct (map dataset_id users) \<or> \<not> distinct (map user_id users)
      then Inl (RuntimeError ''Active allowlist contains duplicate tenant identifiers'')
      else rbind (reconcile_users rec users 0 0) (\<lambda>(d, r).
        Inr \<lparr>active_user_count = length users, desired_view_count = d, removed_view_count = r\<rparr>))"

subsection \<open>Reading records back\<close>

lemma user_status_of_eq [simp]: "user_status_of v = Some st \<longleftrightarrow> v = VStr (status_value st)"
  by (cases v; cases st) (auto simp: status_value_def)

declare user_status_of.simps [simp del]

lemma status_value_inject [simp]: "status_value a = status_value b \<longleftrightarrow> a = b"
  by (cases a; cases b) (auto simp: status_value_def)

lemma opt_str_field_eq [simp]: "opt_str_field v = Some x \<longleftrightarrow> v = opt_str x"
  by (cases v; cases x) auto

text \<open>What a record read from a document says of the document; the five keys it depends on.\<close>

definition record_fields :: "allowed_user \<Rightarrow> dict \<Rightarrow> bool" where
  "record_fields u data \<longleftrightarrow>
     map_of data ''status'' = Some (VStr (status_value (status u))) \<and>
     map_of data ''user_id'' = Some (VStr (user_id u)) \<and> user_id u \<noteq> [] \<and>
     map_of data ''dataset_id'' = Some (VStr (dataset_id u)) \<and> dataset_id u \<noteq> [] \<and>
     dget data ''oidc_issuer'' = opt_str (oidc_issuer u) \<and>
     dget data ''oidc_subject'' = opt_str (oidc_subject u) \<and>
     (oidc_issuer u = None \<longleftrightarrow> oidc_subject u = None)"

lemma record_from_data_eq_Inr:
  "record_from_data em data = Inr u \<longleftrightarrow> invitation_email u = em \<and> record_fields u data"
proof
  assume "record_from_data em data = Inr u"
  then show "invitation_email u = em \<and> record_fields u data"
    by (auto simp: record_from_data_def record_fields_def is_str_conv
        split: option.splits if_splits)
next
  assume "invitation_email u = em \<and> record_fields u data"
  then show "record_from_data em data = Inr u"
    by (auto simp: record_from_data_def record_fields_def split: option.splits)
qed

lemma record_fields_bind:
  "record_fields u data \<Longrightarrow>
     record_fields (u\<lparr>oidc_issuer := Some (issuer i), oidc_subject := Some (subject i)\<rparr>)
       (dict_merge data (bind_fields srv i))"
  by (simp add: record_fields_def bind_fields_def)

lemma record_fields_status:
  "record_fields u data \<Longrightarrow> record_fields (u\<lparr>status := st\<rparr>)
     (dict_merge data [(''status'', VStr (status_value st)), (''provisioning_state'', VStr p),
        (''updated_at'', VTime srv)])"
  by (simp add: record_fields_def)

lemma record_fields_pending:
  "record_fields u data \<Longrightarrow> record_fields u
     (dict_merge data ([(''provisioning_state'', VStr p), (''updated_at'', VTime srv)]
        @ (case notes of None \<Rightarrow> [] | Some n \<Rightarrow> [(''notes'', VStr n)])))"
  by (simp add: record_fields_def split: option.split)

lemma dget_delete: "dget (AList.delete k d) j = (if j = k then VNone else dget d j)"
  by (simp add: dget_def)

lemma record_fields_reset:
  "record_fields u data \<Longrightarrow> record_fields (u\<lparr>oidc_issuer := None, oidc_subject := None\<rparr>)
     (AList.delete ''bound_at'' (dict_merge data
        [(''oidc_issuer'', VNone), (''oidc_subject'', VNone), (''updated_at'', VTime srv)]))"
  by (simp add: record_fields_def dget_delete)

subsection \<open>The binding invariant\<close>

text \<open>
  Every binding document stands under the hash of the identity it records and points to an
  allowlist record that is bound to that very identity and carries the same internal user.
\<close>

definition binding_ok :: "(string \<Rightarrow> string) \<Rightarrow> auth_db \<Rightarrow> string \<Rightarrow> dict \<Rightarrow> bool" where
  "binding_ok H db doc_id b \<longleftrightarrow>
     (\<exists>iss sub em data u.
        doc_id = identity_document_id H iss sub \<and>
        dget b ''oidc_issuer'' = VStr iss \<and> dget b ''oidc_subject'' = VStr sub \<and>
        dget b ''allowlist_email'' = VStr em \<and> normalize_email em = Inr em \<and>
        map_of (allowed_users db) em = Some data \<and> record_fields u data \<and>
        oidc_issuer u = Some iss \<and> oidc_subject u = Some sub \<and>
        dget b ''user_id'' = VStr (user_id u))"

definition auth_wf :: "(string \<Rightarrow> string) \<Rightarrow> auth_db \<Rightarrow> bool" where
  "auth_wf H db \<longleftrightarrow>
     (\<forall>doc_id b. map_of (oidc_identities db) doc_id = Some b \<longrightarrow> binding_ok H db doc_id b)"

lemma record_fields_unique:
  "record_fields u data \<Longrightarrow> record_fields v data \<Longrightarrow>
     user_id u = user_id v \<and> dataset_id u = dataset_id v \<and> status u = status v \<and>
     oidc_issuer u = oidc_issuer v \<and> oidc_subject u = oidc_subject v"
  by (auto simp: record_fields_def opt_str_def split: option.splits)

text \<open>An update of one allowlist record that keeps its user and its binding keeps every binding.\<close>

lemma binding_ok_update:
  assumes "binding_ok H db doc_id b"
    and "map_of (allowed_users db) n = Some data" and "record_fields u data"
    and "record_fields v data'" and "user_id v = user_id u"
    and "oidc_issuer u \<noteq> None \<Longrightarrow> oidc_issuer v = oidc_issuer u \<and> oidc_subject v = oidc_subject u"
    and "allowed_users db' = AList.update n data' (allowed_users db)"
  shows "binding_ok H db' doc_id b"
proof -
  from assms(1) obtain iss sub em d w where *:
    "doc_id = identity_document_id H iss sub"
    "dget b ''oidc_issuer'' = VStr iss" "dget b ''oidc_subject'' = VStr sub"
    "dget b ''allowlist_email'' = VStr em" "normalize_email em = Inr em"
    "map_of (allowed_users db) em = Some d" "record_fields w d"
    "oidc_issuer w = Some iss" "oidc_subject w = Some sub" "dget b ''user_id'' = VStr (user_id w)"
    unfolding binding_ok_def by blast
  show ?thesis
  proof (cases "em = n")
    case True
    with * assms(2,3) record_fields_unique [of u data w] have
      "user_id w = user_id u" "oidc_issuer u = Some iss" "oidc_subject u = Some sub" by auto
    with * True assms(4-7) show ?thesis unfolding binding_ok_def
      by (intro exI [of _ iss] exI [of _ sub] exI [of _ em] exI [of _ data'] exI [of _ v]) simp
  next
    case False
    with * assms(7) show ?thesis unfolding binding_ok_def
      by (intro exI [of _ iss] exI [of _ sub] exI [of _ em] exI [of _ d] exI [of _ w]) simp
  qed
qed

lemma auth_wf_update:
  assumes "auth_wf H db"
    and "map_of (allowed_users db) n = Some data" and "record_fields u data"
    and "record_fields v data'" and "user_id v = user_id u"
    and "oidc_issuer u \<noteq> None \<Longrightarrow> oidc_issuer v = oidc_issuer u \<and> oidc_subject v = oidc_subject u"
  shows "auth_wf H (db\<lparr>allowed_users := AList.update n data' (allowed_users db)\<rparr>)"
  using assms(1) binding_ok_update [OF _ assms(2-6)] by (auto simp: auth_wf_def)

subsection \<open>Every operation keeps the bindings consistent\<close>

lemma context_of_eq_Inr:
  "context_of u i = Inr c \<longleftrightarrow> status u = Active \<and> oidc_issuer u = Some (issuer i) \<and>
     oidc_subject u = Some (subject i) \<and>
     c = \<lparr>ctx_user_id = user_id u, ctx_dataset_id = dataset_id u,
          ctx_issuer = issuer i, ctx_subject = subject i\<rparr>"
  by (auto simp: context_of_def require_active_def user_key_def)

text \<open>What a successful first login did: the two shapes of the record it started from.\<close>

lemma bind_invitation_eq_Inr:
  assumes "bind_invitation H srv i db = Inr (c, db')"
  obtains em data u where
    "first_login_invitation_email i = Inr em" and "normalize_email em = Inr em"
    and "map_of (allowed_users db) em = Some data" and "record_fields u data"
    and "status u = Active"
    and "oidc_issuer u = None \<or> (oidc_issuer u = Some (issuer i) \<and> oidc_subject u = Some (subject i))"
    and "c = \<lparr>ctx_user_id = user_id u, ctx_dataset_id = dataset_id u,
          ctx_issuer = issuer i, ctx_subject = subject i\<rparr>"
    and "allowed_users db' = (if oidc_issuer u = None
           then AList.update em (dict_merge data (bind_fields srv i)) (allowed_users db)
           else allowed_users db)"
    and "oidc_identities db' = AList.update (identity_document_id H (issuer i) (subject i))
           (binding_document srv em i (user_id u)) (oidc_identities db)"
proof -
  from assms obtain em doc_id data u u1 db1 where *:
    "first_login_invitation_email i = Inr em" "normalize_email em = Inr doc_id"
    "map_of (allowed_users db) doc_id = Some data" "record_from_data em data = Inr u"
    "require_active u = Inr ()"
    "(if oidc_issuer u \<noteq> None \<or> oidc_subject u \<noteq> None
            then if user_key u \<noteq> (Some (issuer i), Some (subject i))
                 then Inl (IdentityMismatchError ''Invitation is bound to another identity'')
                 else Inr (u, db)
            else Inr (u\<lparr>oidc_issuer := Some (issuer i), oidc_subject := Some (subject i)\<rparr>,
                      db\<lparr>allowed_users :=
                        AList.update doc_id (dict_merge data (bind_fields srv i)) (allowed_users db)\<rparr>))
       = Inr (u1, db1)"
    "context_of u1 i = Inr c"
    "db' = db1\<lparr>oidc_identities := AList.update (identity_document_id H (issuer i) (subject i))
             (binding_document srv em i (user_id u1)) (oidc_identities db1)\<rparr>"
    by (auto simp: bind_invitation_def rbind_eq_Inr split: option.splits prod.splits)
  have em: "doc_id = em" using first_login_email_normal [OF *(1)] *(2) by simp
  have rf: "record_fields u data" using *(4) by (simp add: record_from_data_eq_Inr)
  have act: "status u = Active" using *(5) by (simp add: require_active_def)
  have iff: "oidc_issuer u = None \<longleftrightarrow> oidc_subject u = None" using rf by (simp add: record_fields_def)
  show ?thesis
  proof (cases "oidc_issuer u = None")
    case True
    with *(6) iff have "u1 = u\<lparr>oidc_issuer := Some (issuer i), oidc_subject := Some (subject i)\<rparr>"
      "db1 = db\<lparr>allowed_users :=
          AList.update em (dict_merge data (bind_fields srv i)) (allowed_users db)\<rparr>"
      by (simp_all add: em)
    with * em rf act True show ?thesis
      by (intro that [of em data u]) (simp_all add: context_of_eq_Inr)
  next
    case False
    with *(6) have "u1 = u" "db1 = db" "user_key u = (Some (issuer i), Some (subject i))"
      by (auto split: if_splits)
    with * em rf act False show ?thesis
      by (intro that [of em data u]) (simp_all add: context_of_eq_Inr user_key_def)
  qed
qed

lemma resolve_transaction_wf:
  assumes "auth_wf H db" and "resolve_or_bind_transaction H srv i db = Inr (c, db')"
  shows "auth_wf H db'"
proof (cases "map_of (oidc_identities db) (identity_document_id H (issuer i) (subject i))")
  case (Some b)
  with assms show ?thesis by (auto simp: resolve_or_bind_transaction_def rbind_eq_Inr)
next
  case None
  with assms(2) have "bind_invitation H srv i db = Inr (c, db')"
    by (simp add: resolve_or_bind_transaction_def)
  then obtain em data u where b: "normalize_email em = Inr em"
    "map_of (allowed_users db) em = Some data" "record_fields u data"
    "oidc_issuer u = None \<or> (oidc_issuer u = Some (issuer i) \<and> oidc_subject u = Some (subject i))"
    "allowed_users db' = (if oidc_issuer u = None
           then AList.update em (dict_merge data (bind_fields srv i)) (allowed_users db)
           else allowed_users db)"
    "oidc_identities db' = AList.update (identity_document_id H (issuer i) (subject i))
           (binding_document srv em i (user_id u)) (oidc_identities db)"
    by (rule bind_invitation_eq_Inr) metis
  let ?v = "u\<lparr>oidc_issuer := Some (issuer i), oidc_subject := Some (subject i)\<rparr>"
  have v: "\<exists>d. map_of (allowed_users db') em = Some d \<and> record_fields ?v d"
  proof (cases "oidc_issuer u = None")
    case True
    with b(2,5) record_fields_bind [OF b(3), of i srv] show ?thesis by simp
  next
    case False
    with b(4) have "?v = u" by (cases u) auto
    with b(2,3,5) False show ?thesis by (simp only: if_False) blast
  qed
  show ?thesis unfolding auth_wf_def
  proof (intro allI impI)
    fix doc_id bd
    assume m: "map_of (oidc_identities db') doc_id = Some bd"
    show "binding_ok H db' doc_id bd"
    proof (cases "doc_id = identity_document_id H (issuer i) (subject i)")
      case True
      with m b(6) have "bd = binding_document srv em i (user_id u)" by simp
      with True v b(1) show ?thesis unfolding binding_ok_def
        by (auto simp: binding_document_def dget_def
            intro!: exI [of _ "issuer i"] exI [of _ "subject i"] exI [of _ ?v])
    next
      case False
      with m b(6) assms(1) have old: "binding_ok H db doc_id bd" by (simp add: auth_wf_def)
      show ?thesis
      proof (cases "oidc_issuer u = None")
        case True
        with b(5) show ?thesis
          by (intro binding_ok_update [OF old b(2,3) record_fields_bind [OF b(3), of i srv]]) simp_all
      next
        case same: False
        with old b(5) show ?thesis by (simp add: binding_ok_def)
      qed
    qed
  qed
qed

lemma ensure_transaction_wf:
  assumes "auth_wf H db" and "ensure_invitation_transaction srv nu nd em notes db = Inr (u, db')"
  shows "auth_wf H db'"
proof -
  from assms(2) obtain n where n: "normalize_email em = Inr n"
    by (auto simp: ensure_invitation_transaction_def rbind_eq_Inr)
  show ?thesis
  proof (cases "map_of (allowed_users db) n")
    case (Some data)
    with assms(2) n have rf: "record_fields u data"
      and db': "db' = db\<lparr>allowed_users := AList.update n (dict_merge data
          ([(''provisioning_state'', VStr ''pending''), (''updated_at'', VTime srv)]
             @ (case notes of None \<Rightarrow> [] | Some n \<Rightarrow> [(''notes'', VStr n)]))) (allowed_users db)\<rparr>"
      by (auto simp: ensure_invitation_transaction_def rbind_eq_Inr record_from_data_eq_Inr)
    show ?thesis unfolding db'
      by (rule auth_wf_update [OF assms(1) Some rf record_fields_pending [OF rf]]) simp_all
  next
    case None
    have "binding_ok H db' doc_id b" if "binding_ok H db doc_id b" for doc_id b
      using that assms(2) n None
      by (auto simp: binding_ok_def ensure_invitation_transaction_def)
    with assms n None show ?thesis
      by (auto simp: auth_wf_def ensure_invitation_transaction_def)
  qed
qed

lemma set_status_eq_Inr:
  assumes "set_status_transaction srv em st p db = Inr (u, db')"
  obtains n data v where "normalize_email em = Inr n" and "map_of (allowed_users db) n = Some data"
    and "record_from_data em data = Inr v" and "record_fields v data" and "u = v\<lparr>status := st\<rparr>"
    and "db' = db\<lparr>allowed_users := AList.update n (dict_merge data
        [(''status'', VStr (status_value st)), (''provisioning_state'', VStr p),
         (''updated_at'', VTime srv)]) (allowed_users db)\<rparr>"
  using assms
  by (auto simp: set_status_transaction_def inr_simps record_from_data_eq_Inr simp del: dict_merge_Cons)

lemma set_status_transaction_wf:
  assumes "auth_wf H db" and "set_status_transaction srv em st p db = Inr (u, db')"
  shows "auth_wf H db'"
proof -
  from assms(2) obtain n data v where m: "map_of (allowed_users db) n = Some data"
    and rf: "record_fields v data"
    and db': "db' = db\<lparr>allowed_users := AList.update n (dict_merge data
        [(''status'', VStr (status_value st)), (''provisioning_state'', VStr p),
         (''updated_at'', VTime srv)]) (allowed_users db)\<rparr>"
    by (rule set_status_eq_Inr)
  show ?thesis unfolding db'
    by (rule auth_wf_update [OF assms(1) m rf record_fields_status [OF rf]]) simp_all
qed

lemma reset_eq_Inr:
  assumes "reset_identity_transaction H srv em expected db = Inr (u, db')"
  obtains n data v where "normalize_email em = Inr n" and "map_of (allowed_users db) n = Some data"
    and "record_fields v data" and "user_id v = expected"
    and "u = v\<lparr>oidc_issuer := None, oidc_subject := None\<rparr>"
    and "oidc_identities db' = (case (oidc_issuer v, oidc_subject v) of
           (Some iss, Some sub) \<Rightarrow> AList.delete (identity_document_id H iss sub) (oidc_identities db)
         | _ \<Rightarrow> oidc_identities db)"
    and "allowed_users db' = AList.update n (AList.delete ''bound_at'' (dict_merge data
           [(''oidc_issuer'', VNone), (''oidc_subject'', VNone), (''updated_at'', VTime srv)]))
           (allowed_users db)"
  using assms
  by (auto simp: reset_identity_transaction_def inr_simps record_from_data_eq_Inr Let_def
      simp del: dict_merge_Cons)

lemma reset_transaction_wf:
  assumes "auth_wf H db" and "reset_identity_transaction H srv em expected db = Inr (u, db')"
  shows "auth_wf H db'"
proof -
  from assms(2) obtain n data v where r: "map_of (allowed_users db) n = Some data" "record_fields v data"
    "oidc_identities db' = (case (oidc_issuer v, oidc_subject v) of
           (Some iss, Some sub) \<Rightarrow> AList.delete (identity_document_id H iss sub) (oidc_identities db)
         | _ \<Rightarrow> oidc_identities db)"
    "allowed_users db' = AList.update n (AList.delete ''bound_at'' (dict_merge data
           [(''oidc_issuer'', VNone), (''oidc_subject'', VNone), (''updated_at'', VTime srv)]))
           (allowed_users db)"
    by (rule reset_eq_Inr)
  show ?thesis unfolding auth_wf_def
  proof (intro allI impI)
    fix doc_id b
    assume m: "map_of (oidc_identities db') doc_id = Some b"
    then have "map_of (oidc_identities db) doc_id = Some b"
      by (auto simp: r(3) split: option.splits if_splits)
    with assms(1) have "binding_ok H db doc_id b" by (simp add: auth_wf_def)
    then obtain iss sub em' d w where *:
      "doc_id = identity_document_id H iss sub"
      "dget b ''oidc_issuer'' = VStr iss" "dget b ''oidc_subject'' = VStr sub"
      "dget b ''allowlist_email'' = VStr em'" "normalize_email em' = Inr em'"
      "map_of (allowed_users db) em' = Some d" "record_fields w d"
      "oidc_issuer w = Some iss" "oidc_subject w = Some sub" "dget b ''user_id'' = VStr (user_id w)"
      unfolding binding_ok_def by blast
    have "em' \<noteq> n"
    proof
      assume "em' = n"
      with * r(1,2) record_fields_unique [of v data w]
      have "oidc_issuer v = Some iss" "oidc_subject v = Some sub" by auto
      with m * show False by (simp add: r(3))
    qed
    with * show "binding_ok H db' doc_id b" unfolding binding_ok_def
      by (intro exI [of _ iss] exI [of _ sub] exI [of _ em'] exI [of _ d] exI [of _ w]) (simp add: r(4))
  qed
qed

lemma auth_operations_wf [wf_intros]:
  "keeps (auth_wf H) (fs_resolve_or_bind H srv i)"
  "keeps (auth_wf H) (ensure_invitation srv nu nd em notes)"
  "keeps (auth_wf H) (set_user_status srv em st p)"
  "keeps (auth_wf H) (activate_user srv em)"
  "keeps (auth_wf H) (disable_user srv em)"
  "keeps (auth_wf H) (reset_identity H srv em expected)"
  unfolding fs_resolve_or_bind_def ensure_invitation_def set_user_status_def activate_user_def
    disable_user_def reset_identity_def
  by (intro wf_intros keeps_transact; erule (1) resolve_transaction_wf ensure_transaction_wf
      set_status_transaction_wf reset_transaction_wf)+

lemma add_user_wf [wf_intros]: "keeps (auth_wf H) (add_user provision srv nu nd em notes)"
  unfolding add_user_def by (intro wf_intros)

subsection \<open>The Firestore store implements the interface\<close>

lemma resolve_existing_key:
  assumes "identity_key j = identity_key i"
  shows "resolve_existing db j b = resolve_existing db i b"
proof -
  have "context_of u j = context_of u i" for u using assms by (simp add: context_of_def identity_key_def)
  moreover have "issuer j = issuer i" "subject j = subject i"
    using assms by (simp_all add: identity_key_def)
  ultimately show ?thesis unfolding resolve_existing_def by (simp only:)
qed

lemma resolve_existing_eq_Inr:
  "resolve_existing db i b = Inr c \<longleftrightarrow>
     (\<exists>em n data u. dget b ''oidc_issuer'' = VStr (issuer i) \<and> dget b ''oidc_subject'' = VStr (subject i) \<and>
        dget b ''allowlist_email'' = VStr em \<and> normalize_email em = Inr n \<and>
        map_of (allowed_users db) n = Some data \<and> record_from_data em data = Inr u \<and>
        dget b ''user_id'' = VStr (user_id u) \<and> context_of u i = Inr c)"
  by (simp add: resolve_existing_def inr_simps)

text \<open>The two ways to resolve.\<close>

lemma fs_resolve_cases:
  assumes "fs_resolve_or_bind H srv i db = (Inr c, db')"
  obtains (existing) b where
      "map_of (oidc_identities db) (identity_document_id H (issuer i) (subject i)) = Some b"
      "resolve_existing db i b = Inr c" "db' = db"
  | (first) "map_of (oidc_identities db) (identity_document_id H (issuer i) (subject i)) = None"
      "bind_invitation H srv i db = Inr (c, db')"
proof (cases "map_of (oidc_identities db) (identity_document_id H (issuer i) (subject i))")
  case None
  moreover from this assms have "bind_invitation H srv i db = Inr (c, db')"
    by (simp add: fs_resolve_or_bind_def transact_eq_Inr resolve_or_bind_transaction_def)
  ultimately show thesis by (rule first)
next
  case (Some b)
  with assms have "rbind (resolve_existing db i b) (\<lambda>c. Inr (c, db)) = Inr (c, db')"
    by (simp add: fs_resolve_or_bind_def transact_eq_Inr resolve_or_bind_transaction_def)
  then have "resolve_existing db i b = Inr c" "db' = db" by (auto simp: rbind_eq_Inr)
  with Some show thesis by (rule existing)
qed

lemma fs_resolve_existing:
  assumes "map_of (oidc_identities db) (identity_document_id H (issuer i) (subject i)) = Some b"
  shows "fs_resolve_or_bind H srv i db = (resolve_existing db i b, db)"
  using assms
  by (cases "resolve_existing db i b")
    (simp_all add: fs_resolve_or_bind_def transact_def resolve_or_bind_transaction_def)

lemma bind_then_resolve:
  assumes "bind_invitation H srv i db = Inr (c, db')" and "identity_key j = identity_key i"
  shows "fs_resolve_or_bind H srv' j db' = (Inr c, db')"
proof -
  from assms(1) obtain em data u where b: "normalize_email em = Inr em"
    "map_of (allowed_users db) em = Some data" "record_fields u data" "status u = Active"
    "oidc_issuer u = None \<or> (oidc_issuer u = Some (issuer i) \<and> oidc_subject u = Some (subject i))"
    "c = \<lparr>ctx_user_id = user_id u, ctx_dataset_id = dataset_id u,
          ctx_issuer = issuer i, ctx_subject = subject i\<rparr>"
    "allowed_users db' = (if oidc_issuer u = None
           then AList.update em (dict_merge data (bind_fields srv i)) (allowed_users db)
           else allowed_users db)"
    "oidc_identities db' = AList.update (identity_document_id H (issuer i) (subject i))
           (binding_document srv em i (user_id u)) (oidc_identities db)"
    by (rule bind_invitation_eq_Inr) metis
  let ?v = "u\<lparr>invitation_email := em, oidc_issuer := Some (issuer i), oidc_subject := Some (subject i)\<rparr>"
  let ?b = "binding_document srv em i (user_id u)"
  have "\<exists>d. map_of (allowed_users db') em = Some d \<and> record_fields ?v d"
  proof (cases "oidc_issuer u = None")
    case True
    with b(2,7) record_fields_bind [OF b(3), of i srv] show ?thesis by (simp add: record_fields_def)
  next
    case False
    with b(2,3,5,7) show ?thesis by (auto simp: record_fields_def)
  qed
  then obtain d where "map_of (allowed_users db') em = Some d" "record_from_data em d = Inr ?v"
    by (auto simp: record_from_data_eq_Inr)
  with b(1,4,6) have "resolve_existing db' i ?b = Inr c"
    by (auto simp: resolve_existing_eq_Inr binding_document_def dget_def context_of_eq_Inr)
  then show ?thesis
    using assms(2) b(8) fs_resolve_existing [of db' H j ?b srv'] resolve_existing_key [OF assms(2), of db' ?b]
    by (simp add: identity_key_def)
qed

text \<open>A first login writes a new binding document, so it never leaves the database as it was.\<close>

lemma bind_invitation_changes:
  assumes "map_of (oidc_identities db) (identity_document_id H (issuer i) (subject i)) = None"
  shows "bind_invitation H srv i db \<noteq> Inr (c, db)"
proof
  assume "bind_invitation H srv i db = Inr (c, db)"
  then obtain b where "oidc_identities db =
      AList.update (identity_document_id H (issuer i) (subject i)) b (oidc_identities db)"
    by (rule bind_invitation_eq_Inr) metis
  then have "map_of (oidc_identities db) (identity_document_id H (issuer i) (subject i)) = Some b"
    by (metis fun_upd_same map_of_update)
  with assms show False by simp
qed

lemma resolve_existing_frame:
  assumes bi: "bind_invitation H srv i db = Inr (c, db')"
    and b: "map_of (oidc_identities db) (identity_document_id H (issuer j) (subject j)) = Some b"
    and ni: "map_of (oidc_identities db) (identity_document_id H (issuer i) (subject i)) = None"
    and r: "resolve_existing db j b = Inr d"
  shows "map_of (oidc_identities db') (identity_document_id H (issuer j) (subject j)) = Some b \<and>
    resolve_existing db' j b = Inr d"
proof -
  from bi obtain em data u where f: "map_of (allowed_users db) em = Some data" "record_fields u data"
    "allowed_users db' = (if oidc_issuer u = None
           then AList.update em (dict_merge data (bind_fields srv i)) (allowed_users db)
           else allowed_users db)"
    "oidc_identities db' = AList.update (identity_document_id H (issuer i) (subject i))
           (binding_document srv em i (user_id u)) (oidc_identities db)"
    by (rule bind_invitation_eq_Inr) metis
  from r obtain em' n data' w where j: "dget b ''oidc_issuer'' = VStr (issuer j)"
    "dget b ''oidc_subject'' = VStr (subject j)" "dget b ''allowlist_email'' = VStr em'"
    "normalize_email em' = Inr n" "map_of (allowed_users db) n = Some data'"
    "record_from_data em' data' = Inr w" "dget b ''user_id'' = VStr (user_id w)" "context_of w j = Inr d"
    by (auto simp: resolve_existing_eq_Inr)
  have "oidc_issuer u = None \<Longrightarrow> n \<noteq> em"
    using j(5,6,8) f(1,2) record_fields_unique [of w data' u]
    by (auto simp: record_from_data_eq_Inr context_of_eq_Inr)
  then have "map_of (allowed_users db') n = Some data'" using j(5) f(3) by auto
  with j have "resolve_existing db' j b = Inr d" by (auto simp: resolve_existing_eq_Inr)
  moreover have "identity_document_id H (issuer j) (subject j) \<noteq> identity_document_id H (issuer i) (subject i)"
    using b ni by auto
  ultimately show ?thesis using b f(4) by simp
qed

interpretation fs: identity_store "fs_resolve_or_bind H srv" "auth_wf H" for H srv
proof (unfold_locales, goal_cases)
  case (1 s i)
  then show ?case by (rule keepsD [OF auth_operations_wf(1)])
next
  case (2 s i e t)
  then show ?case by (simp add: fs_resolve_or_bind_def transact_eq_Inl)
next
  case (3 i s c t)
  then show ?case
  proof (cases rule: fs_resolve_cases)
    case (existing b)
    then show ?thesis
      by (auto simp: resolve_existing_eq_Inr context_of_eq_Inr context_key_def identity_key_def)
  next
    case first
    from first(2) show ?thesis
      by (rule bind_invitation_eq_Inr) (simp add: context_key_def identity_key_def)
  qed
next
  case (4 s i c t j)
  from 4(2) show ?case
  proof (cases rule: fs_resolve_cases)
    case (existing b)
    with 4(3) show ?thesis
      using fs_resolve_existing [of t H j b srv] resolve_existing_key [OF 4(3), of t b]
      by (simp add: identity_key_def)
  next
    case first
    from first(2) 4(3) show ?thesis by (rule bind_then_resolve)
  qed
next
  case (5 s i c t j d)
  from 5(2) show ?case
  proof (cases rule: fs_resolve_cases)
    case (existing b)
    with 5(3) show ?thesis by simp
  next
    case first
    from 5(3) show ?thesis
    proof (cases rule: fs_resolve_cases)
      case (existing b)
      then show ?thesis
        using resolve_existing_frame [OF first(2) existing(1) first(1) existing(2)]
        by (simp add: fs_resolve_existing)
    next
      case j: first
      then show ?thesis using bind_invitation_changes by blast
    qed
  qed
qed

end
