(* ===== verification/IdentityLife.thy ===== *)
theory IdentityLife
  imports IdentityStore
begin

text \<open>
  The life of the identity database: the operations of \<open>auth/firestore.py\<close> and
  \<open>auth/admin.py\<close> as steps of a transition system, what every reachable database satisfies, and
  what the single operations promise about later logins.
\<close>

subsection \<open>The transition system\<close>

inductive auth_step :: "(string \<Rightarrow> string) \<Rightarrow> auth_db \<Rightarrow> auth_db \<Rightarrow> bool" for H where
  login: "fs_resolve_or_bind H srv i db = (r, db') \<Longrightarrow> auth_step H db db'"
| invite: "add_user provision srv nu nd em notes db = (r, db') \<Longrightarrow> auth_step H db db'"
| disable: "disable_user srv em db = (r, db') \<Longrightarrow> auth_step H db db'"
| reset: "reset_identity H srv em expected db = (r, db') \<Longrightarrow> auth_step H db db'"

inductive_cases auth_stepE: "auth_step H db db'"

abbreviation auth_reachable :: "(string \<Rightarrow> string) \<Rightarrow> auth_db \<Rightarrow> auth_db \<Rightarrow> bool" where
  "auth_reachable H \<equiv> (auth_step H)\<^sup>*\<^sup>*"

definition empty_auth_db :: auth_db where
  "empty_auth_db = \<lparr>allowed_users = [], oidc_identities = []\<rparr>"

lemma auth_step_wf: "auth_step H db db' \<Longrightarrow> auth_wf H db \<Longrightarrow> auth_wf H db'"
  by (erule auth_stepE) (metis auth_operations_wf add_user_wf keeps_eqD)+

lemma auth_reachable_wf: "auth_reachable H db db' \<Longrightarrow> auth_wf H db \<Longrightarrow> auth_wf H db'"
  by (induction rule: rtranclp_induct) (auto intro: auth_step_wf)

lemma empty_auth_wf: "auth_wf H empty_auth_db"
  by (simp add: auth_wf_def empty_auth_db_def)

subsection \<open>Tenant identifiers never change\<close>

definition tenants_kept :: "auth_db \<Rightarrow> auth_db \<Rightarrow> bool" where
  "tenants_kept db db' \<longleftrightarrow>
     (\<forall>em data u. map_of (allowed_users db) em = Some data \<longrightarrow> record_fields u data \<longrightarrow>
       (\<exists>data' v. map_of (allowed_users db') em = Some data' \<and> record_fields v data' \<and>
          user_id v = user_id u \<and> dataset_id v = dataset_id u))"

lemma tenants_kept_refl [simp]: "tenants_kept db db"
  by (auto simp: tenants_kept_def)

lemma tenants_kept_trans: "tenants_kept a b \<Longrightarrow> tenants_kept b c \<Longrightarrow> tenants_kept a c"
  unfolding tenants_kept_def by metis

lemma tenants_kept_update:
  assumes "map_of (allowed_users db) n = Some data" and "record_fields u data"
    and "record_fields v data'" and "user_id v = user_id u" and "dataset_id v = dataset_id u"
    and "allowed_users db' = AList.update n data' (allowed_users db)"
  shows "tenants_kept db db'"
  unfolding tenants_kept_def
proof (intro allI impI)
  fix em d w
  assume m: "map_of (allowed_users db) em = Some d" and w: "record_fields w d"
  show "\<exists>data' v. map_of (allowed_users db') em = Some data' \<and> record_fields v data' \<and>
      user_id v = user_id w \<and> dataset_id v = dataset_id w"
  proof (cases "em = n")
    case True
    with m assms(1,2) w have "user_id w = user_id u" "dataset_id w = dataset_id u"
      using record_fields_unique [of u data w] by auto
    with True assms(3-6) show ?thesis by auto
  next
    case False
    with m w assms(6) show ?thesis by auto
  qed
qed

lemma bind_tenants:
  assumes "bind_invitation H srv i db = Inr (c, db')"
  shows "tenants_kept db db'"
proof -
  from assms obtain em data u where b:
    "map_of (allowed_users db) em = Some data" "record_fields u data"
    "allowed_users db' = (if oidc_issuer u = None
           then AList.update em (dict_merge data (bind_fields srv i)) (allowed_users db)
           else allowed_users db)"
    by (rule bind_invitation_eq_Inr) metis
  show ?thesis
  proof (cases "oidc_issuer u = None")
    case True
    with b show ?thesis
      by (intro tenants_kept_update [OF b(1,2) record_fields_bind [OF b(2)]]) simp_all
  next
    case False
    with b(3) show ?thesis by (auto simp: tenants_kept_def)
  qed
qed

lemma set_status_tenants:
  assumes "set_status_transaction srv em st p db = Inr (u, db')"
  shows "tenants_kept db db'"
proof -
  from assms obtain n data v where m: "map_of (allowed_users db) n = Some data"
    and rf: "record_fields v data"
    and db': "db' = db\<lparr>allowed_users := AList.update n (dict_merge data
        [(''status'', VStr (status_value st)), (''provisioning_state'', VStr p),
         (''updated_at'', VTime srv)]) (allowed_users db)\<rparr>"
    by (rule set_status_eq_Inr)
  show ?thesis
    by (rule tenants_kept_update [OF m rf record_fields_status [OF rf, of st p srv]])
      (simp_all add: db')
qed

lemma reset_tenants:
  assumes "reset_identity_transaction H srv em expected db = Inr (u, db')"
  shows "tenants_kept db db'"
proof -
  from assms obtain n data v where m: "map_of (allowed_users db) n = Some data"
    and rf: "record_fields v data"
    and db': "allowed_users db' = AList.update n (AList.delete ''bound_at'' (dict_merge data
           [(''oidc_issuer'', VNone), (''oidc_subject'', VNone), (''updated_at'', VTime srv)]))
           (allowed_users db)"
    by (rule reset_eq_Inr)
  show ?thesis
    by (rule tenants_kept_update [OF m rf record_fields_reset [OF rf, of srv] _ _ db']) simp_all
qed

lemma ensure_tenants:
  assumes "ensure_invitation_transaction srv nu nd em notes db = Inr (u, db')"
  shows "tenants_kept db db'"
proof -
  from assms obtain n where n: "normalize_email em = Inr n"
    by (auto simp: ensure_invitation_transaction_def rbind_eq_Inr)
  show ?thesis
  proof (cases "map_of (allowed_users db) n")
    case (Some data)
    with assms n have rf: "record_fields u data"
      and db': "allowed_users db' = AList.update n (dict_merge data
          ([(''provisioning_state'', VStr ''pending''), (''updated_at'', VTime srv)]
             @ (case notes of None \<Rightarrow> [] | Some n \<Rightarrow> [(''notes'', VStr n)]))) (allowed_users db)"
      by (auto simp: ensure_invitation_transaction_def rbind_eq_Inr record_from_data_eq_Inr)
    show ?thesis
      by (rule tenants_kept_update [OF Some rf record_fields_pending [OF rf] _ _ db']) simp_all
  next
    case None
    with assms n show ?thesis
      by (auto simp: ensure_invitation_transaction_def tenants_kept_def)
  qed
qed

text \<open>An operation built from transactions that keep the tenants keeps them, whatever it returns.\<close>

definition keeps_tenants :: "(auth_db, exn, 'a) oper \<Rightarrow> bool" where
  "keeps_tenants m \<longleftrightarrow> (\<forall>db. tenants_kept db (snd (m db)))"

lemma keeps_tenants_transact:
  "(\<And>db x db'. f db = Inr (x, db') \<Longrightarrow> tenants_kept db db') \<Longrightarrow> keeps_tenants (transact f)"
  by (auto simp: keeps_tenants_def transact_def split: sum.splits)

lemma keeps_tenants_lift: "keeps_tenants (olift r)"
  by (simp add: keeps_tenants_def olift_def)

lemma keeps_tenants_bind:
  assumes "keeps_tenants m" and "\<And>x. keeps_tenants (f x)"
  shows "keeps_tenants (obind m f)"
  unfolding keeps_tenants_def
proof
  fix db
  obtain r t where m: "m db = (r, t)" by (cases "m db")
  have t: "tenants_kept db t" using assms(1) m by (auto simp: keeps_tenants_def dest: spec [of _ db])
  show "tenants_kept db (snd (obind m f db))"
  proof (cases r)
    case (Inr x)
    then have "tenants_kept t (snd (f x t))" using assms(2) by (simp add: keeps_tenants_def)
    then show ?thesis using tenants_kept_trans [OF t] by (simp add: obind_def m Inr)
  qed (simp add: obind_def m t)
qed

lemma fs_resolve_tenants: "keeps_tenants (fs_resolve_or_bind H srv i)"
  unfolding fs_resolve_or_bind_def
proof (rule keeps_tenants_transact)
  fix db c db'
  assume "resolve_or_bind_transaction H srv i db = Inr (c, db')"
  then have "fs_resolve_or_bind H srv i db = (Inr c, db')"
    by (simp add: fs_resolve_or_bind_def transact_eq_Inr)
  then show "tenants_kept db db'"
    by (rule fs_resolve_cases) (auto intro: bind_tenants)
qed

lemma admin_tenants:
  "keeps_tenants (disable_user srv em)" "keeps_tenants (activate_user srv em)"
  "keeps_tenants (reset_identity H srv em expected)"
  "keeps_tenants (ensure_invitation srv nu nd em notes)"
  "keeps_tenants (add_user provision srv nu nd em notes)"
  unfolding disable_user_def activate_user_def set_user_status_def reset_identity_def
    ensure_invitation_def add_user_def
  by (intro keeps_tenants_bind keeps_tenants_lift keeps_tenants_transact;
      erule set_status_tenants reset_tenants ensure_tenants)+

lemma keeps_tenantsD: "keeps_tenants m \<Longrightarrow> m db = (r, db') \<Longrightarrow> tenants_kept db db'"
  unfolding keeps_tenants_def by (metis snd_conv)

lemma auth_step_tenants: "auth_step H db db' \<Longrightarrow> tenants_kept db db'"
  by (erule auth_stepE; erule keeps_tenantsD [rotated]; rule fs_resolve_tenants admin_tenants)

lemma auth_reachable_tenants: "auth_reachable H db db' \<Longrightarrow> tenants_kept db db'"
  by (induction rule: rtranclp_induct) (auto intro: auth_step_tenants tenants_kept_trans)

subsection \<open>A database to evaluate on\<close>

definition demo_identity :: "string \<Rightarrow> verified_identity" where
  "demo_identity em = \<lparr>issuer = ''iss'', subject = ''sub'', email = Some em, email_verified = True\<rparr>"

definition invited_db :: auth_db where
  "invited_db = snd (add_user (\<lambda>u. Inr ()) 5 ''usr_1'' ''ds_1'' '' Ann@X.org'' None empty_auth_db)"

definition bound_db :: auth_db where
  "bound_db = snd (fs_resolve_or_bind id 6 (demo_identity ''ann@x.org'') invited_db)"

lemma invited_db_value:
  "invited_db = \<lparr>allowed_users = [(''ann@x.org'',
     [(''email'', VStr ''ann@x.org''), (''user_id'', VStr ''usr_1''), (''dataset_id'', VStr ''ds_1''),
      (''status'', VStr ''active''), (''oidc_issuer'', VNone), (''oidc_subject'', VNone),
      (''notes'', VStr []), (''provisioning_state'', VStr ''ready''), (''created_at'', VTime 5),
      (''updated_at'', VTime 5)])], oidc_identities = []\<rparr>"
  by code_simp

lemma bound_db_value:
  "fst (fs_resolve_or_bind id 6 (demo_identity ''ann@x.org'') invited_db) =
     Inr \<lparr>ctx_user_id = ''usr_1'', ctx_dataset_id = ''ds_1'', ctx_issuer = ''iss'', ctx_subject = ''sub''\<rparr>"
  "map_of (allowed_users bound_db) ''ann@x.org'' = Some
     [(''email'', VStr ''ann@x.org''), (''user_id'', VStr ''usr_1''), (''dataset_id'', VStr ''ds_1''),
      (''status'', VStr ''active''), (''oidc_issuer'', VStr ''iss''), (''oidc_subject'', VStr ''sub''),
      (''notes'', VStr []), (''provisioning_state'', VStr ''ready''), (''created_at'', VTime 5),
      (''updated_at'', VTime 6), (''bound_at'', VTime 6)]"
  by code_simp+

lemma demo_reachable: "auth_reachable id empty_auth_db invited_db" "auth_reachable id empty_auth_db bound_db"
proof -
  have i: "auth_step id empty_auth_db invited_db" unfolding invited_db_def
    by (rule auth_step.invite) (rule prod.collapse [symmetric])
  have b: "auth_step id invited_db bound_db" unfolding bound_db_def
    by (rule auth_step.login) (rule prod.collapse [symmetric])
  from i show r: "auth_reachable id empty_auth_db invited_db" by simp
  from r b show "auth_reachable id empty_auth_db bound_db" by (rule rtranclp.rtrancl_into_rtrancl)
qed

subsection \<open>Properties\<close>

text \<open>In every database the operations can reach, each OIDC binding stands under the hash of the
  identity it records and points to an allowlist record bound to that very issuer and subject and
  carrying the same internal user identifier.\<close>
theorem reachable_bindings_consistent:
  assumes "auth_reachable H empty_auth_db db"
  shows "auth_wf H db"
  using auth_reachable_wf [OF assms empty_auth_wf] .

theorem reachable_bindings_consistent_witness: "auth_wf id bound_db"
  by (rule reachable_bindings_consistent [OF demo_reachable(2)])

text \<open>C24: No operation ever changes the internal user identifier or the dataset of an allowlist record,
  or removes the record.\<close>
theorem tenant_identifiers_never_change:
  assumes "auth_reachable H db db'"
    and "map_of (allowed_users db) em = Some data" and "record_from_data em data = Inr u"
  shows "\<exists>data' v. map_of (allowed_users db') em = Some data' \<and> record_from_data em data' = Inr v \<and>
    user_id v = user_id u \<and> dataset_id v = dataset_id u"
proof -
  have "record_fields u data" using assms(3) by (simp add: record_from_data_eq_Inr)
  with auth_reachable_tenants [OF assms(1)] assms(2)
  obtain data' v where *: "map_of (allowed_users db') em = Some data'" "record_fields v data'"
    "user_id v = user_id u" "dataset_id v = dataset_id u"
    unfolding tenants_kept_def by blast
  then have "record_from_data em data' = Inr (v\<lparr>invitation_email := em\<rparr>)"
    by (simp add: record_from_data_eq_Inr record_fields_def)
  with * show ?thesis by (intro exI [of _ data'] exI [of _ "v\<lparr>invitation_email := em\<rparr>"]) simp
qed

text \<open>A login is permanent and belongs to the issuer and subject: once an identity has resolved, any
  token of the same issuer and subject, whatever its email claims, resolves to the same user and
  dataset after any sequence of further logins by anyone, and writes nothing more.\<close>
theorem login_follows_the_subject:
  assumes "auth_reachable H empty_auth_db db" and "fs_resolve_or_bind H srv i db = (Inr c, t)"
    and "issuer j = issuer i" and "subject j = subject i"
  shows "fs_resolve_or_bind H srv j (fold (\<lambda>k s. snd (fs_resolve_or_bind H srv k s)) is t)
    = (Inr c, fold (\<lambda>k s. snd (fs_resolve_or_bind H srv k s)) is t)"
proof -
  have eq: "fs.logins H srv is s = fold (\<lambda>k s. snd (fs_resolve_or_bind H srv k s)) is s" for s
    by (induction "is" arbitrary: s) simp_all
  have wf: "auth_wf H db" using auth_reachable_wf [OF assms(1) empty_auth_wf] .
  have "identity_key j = identity_key i" using assms(3,4) by (simp add: identity_key_def)
  from fs.login_is_permanent [OF wf assms(2) this, of "is"] show ?thesis by (simp only: eq)
qed

theorem login_follows_the_subject_witness:
  "fs_resolve_or_bind id 6 (demo_identity ''other@y.org'')
     (fold (\<lambda>k s. snd (fs_resolve_or_bind id 6 k s)) [demo_identity ''z@z.z''] bound_db) =
   (Inr \<lparr>ctx_user_id = ''usr_1'', ctx_dataset_id = ''ds_1'', ctx_issuer = ''iss'', ctx_subject = ''sub''\<rparr>,
    fold (\<lambda>k s. snd (fs_resolve_or_bind id 6 k s)) [demo_identity ''z@z.z''] bound_db)"
proof (rule login_follows_the_subject [OF demo_reachable(1)])
  show "fs_resolve_or_bind id 6 (demo_identity ''ann@x.org'') invited_db = (Inr \<lparr>ctx_user_id = ''usr_1'',
      ctx_dataset_id = ''ds_1'', ctx_issuer = ''iss'', ctx_subject = ''sub''\<rparr>, bound_db)"
    using bound_db_value(1) by (simp add: prod_eq_iff bound_db_def)
qed (simp_all add: demo_identity_def)

theorem tenant_identifiers_never_change_witness:
  "\<exists>data' v. map_of (allowed_users bound_db) ''ann@x.org'' = Some data' \<and>
     record_from_data ''ann@x.org'' data' = Inr v \<and> user_id v = ''usr_1'' \<and> dataset_id v = ''ds_1''"
proof -
  let ?u = "\<lparr>invitation_email = ''ann@x.org'', user_id = ''usr_1'', dataset_id = ''ds_1'',
     status = Active, oidc_issuer = Some ''iss'', oidc_subject = Some ''sub''\<rparr>"
  from tenant_identifiers_never_change [OF rtranclp.rtrancl_refl bound_db_value(2), of ?u]
  show ?thesis by (simp add: record_from_data_eq_Inr record_fields_def dget_def status_value_def)
qed

text \<open>After an administrator disabled an allowlist record, no login resolves through it: any identity
  that still resolves is bound to a different record.\<close>
theorem disabled_user_is_refused:
  assumes "disable_user srv em db = (Inr u, db1)" and "normalize_email em = Inr n"
    and "fs_resolve_or_bind H srv' i db1 = (Inr c, db2)"
  shows "\<exists>b e. map_of (oidc_identities db2) (identity_document_id H (issuer i) (subject i)) = Some b \<and>
    dget b ''allowlist_email'' = VStr e \<and> normalize_email e \<noteq> Inr n"
proof -
  have "normalize_email n = Inr n" using assms(2) by (rule normalize_email_idem)
  with assms(1,2) obtain data v where rf: "record_fields v data"
    and db1: "db1 = db\<lparr>allowed_users := AList.update n (dict_merge data
        [(''status'', VStr (status_value Disabled)), (''provisioning_state'', VStr ''ready''),
         (''updated_at'', VTime srv)]) (allowed_users db)\<rparr>"
    by (auto simp: disable_user_def set_user_status_def obind_eq_Inr olift_def transact_eq_Inr
        elim!: set_status_eq_Inr simp del: dict_merge_Cons)
  have dis: "status w = Disabled" if "map_of (allowed_users db1) n = Some d" "record_fields w d" for w d
    using that record_fields_unique [OF record_fields_status [OF rf, of Disabled "''ready''" srv], of w]
    by (simp add: db1)
  from assms(3) show ?thesis
  proof (cases rule: fs_resolve_cases)
    case (existing b)
    then obtain e n' d w where *: "dget b ''allowlist_email'' = VStr e" "normalize_email e = Inr n'"
      "map_of (allowed_users db1) n' = Some d" "record_fields w d" "status w = Active"
      by (auto simp: resolve_existing_eq_Inr record_from_data_eq_Inr context_of_eq_Inr)
    with dis have "n' \<noteq> n" by auto
    with * existing show ?thesis by auto
  next
    case first
    from first(2) obtain e d w where *: "normalize_email e = Inr e"
      "map_of (allowed_users db1) e = Some d" "record_fields w d" "status w = Active"
      "oidc_identities db2 = AList.update (identity_document_id H (issuer i) (subject i))
           (binding_document srv' e i (user_id w)) (oidc_identities db1)"
      by (rule bind_invitation_eq_Inr) metis
    with dis have "e \<noteq> n" by auto
    with * show ?thesis by (auto simp: binding_document_def dget_def)
  qed
qed

definition two_users_db :: auth_db where
  "two_users_db = snd (add_user (\<lambda>u. Inr ()) 7 ''usr_2'' ''ds_2'' ''bob@x.org'' None bound_db)"

definition bob_disabled_db :: auth_db where
  "bob_disabled_db = snd (disable_user 8 ''bob@x.org'' two_users_db)"

theorem disabled_user_is_refused_witness:
  "\<exists>b e. map_of (oidc_identities (snd (fs_resolve_or_bind id 9 (demo_identity ''q'') bob_disabled_db)))
       (identity_document_id id ''iss'' ''sub'') = Some b \<and>
     dget b ''allowlist_email'' = VStr e \<and> normalize_email e \<noteq> Inr ''bob@x.org''"
proof -
  have a: "fst (disable_user 8 ''bob@x.org'' two_users_db) = Inr \<lparr>invitation_email = ''bob@x.org'',
      user_id = ''usr_2'', dataset_id = ''ds_2'', status = Disabled, oidc_issuer = None, oidc_subject = None\<rparr>"
    by code_simp
  have n: "normalize_email ''bob@x.org'' = Inr ''bob@x.org''" by code_simp
  have l: "fst (fs_resolve_or_bind id 9 (demo_identity ''q'') bob_disabled_db) = Inr
      \<lparr>ctx_user_id = ''usr_1'', ctx_dataset_id = ''ds_1'', ctx_issuer = ''iss'', ctx_subject = ''sub''\<rparr>"
    by code_simp
  show ?thesis
    using disabled_user_is_refused [OF surjective_pairing [of "disable_user 8 ''bob@x.org'' two_users_db",
        unfolded a] n surjective_pairing [of "fs_resolve_or_bind id 9 (demo_identity ''q'') bob_disabled_db",
        unfolded l, unfolded bob_disabled_db_def]]
    by (simp add: bob_disabled_db_def demo_identity_def)
qed

text \<open>The user that an active allowlist record grants access to.\<close>

definition active_at :: "auth_db \<Rightarrow> string \<Rightarrow> allowed_user \<Rightarrow> bool" where
  "active_at db n u \<longleftrightarrow> (\<exists>data. map_of (allowed_users db) n = Some data \<and>
     record_from_data n data = Inr u \<and> status u = Active)"

lemma active_at_iff: "active_at db n u \<longleftrightarrow> (\<exists>data. map_of (allowed_users db) n = Some data \<and>
    invitation_email u = n \<and> record_fields u data \<and> status u = Active)"
  by (auto simp: active_at_def record_from_data_eq_Inr)

lemma record_fields_pending_iff:
  "record_fields u (dict_merge data ([(''provisioning_state'', VStr p), (''updated_at'', VTime srv)]
        @ (case notes of None \<Rightarrow> [] | Some n \<Rightarrow> [(''notes'', VStr n)]))) = record_fields u data"
  by (simp add: record_fields_def split: option.split)

text \<open>What \<open>ensure_invitation\<close> returns is in the database under the normalized email.\<close>

lemma ensure_transaction_result:
  assumes "ensure_invitation_transaction srv nu nd em notes db = Inr (u, db1)"
    and "normalize_email em = Inr em"
  shows "invitation_email u = em"
    and "\<exists>data. map_of (allowed_users db1) em = Some data \<and>
      (\<forall>w. record_fields w data \<longrightarrow> user_id w = user_id u \<and> dataset_id w = dataset_id u)"
    and "active_at db1 n v \<Longrightarrow> active_at db n v"
proof -
  show "invitation_email u = em"
    using assms
    by (auto simp: ensure_invitation_transaction_def record_from_data_eq_Inr rbind_eq_Inr split: option.splits)
next
  show "\<exists>data. map_of (allowed_users db1) em = Some data \<and>
      (\<forall>w. record_fields w data \<longrightarrow> user_id w = user_id u \<and> dataset_id w = dataset_id u)"
  proof (cases "map_of (allowed_users db) em")
    case None
    with assms show ?thesis
      by (auto simp: ensure_invitation_transaction_def record_fields_def invitation_document_def)
  next
    case (Some data)
    with assms have rf: "record_fields u data" and m: "map_of (allowed_users db1) em =
        Some (dict_merge data ([(''provisioning_state'', VStr ''pending''), (''updated_at'', VTime srv)]
          @ (case notes of None \<Rightarrow> [] | Some n \<Rightarrow> [(''notes'', VStr n)])))"
      by (auto simp: ensure_invitation_transaction_def record_from_data_eq_Inr rbind_eq_Inr)
    from m show ?thesis
      by (intro exI conjI allI impI, assumption)
        (use record_fields_unique [OF rf] in \<open>auto simp only: record_fields_pending_iff\<close>)
  qed
next
  assume v: "active_at db1 n v"
  show "active_at db n v"
  proof (cases "map_of (allowed_users db) em")
    case None
    with assms v show ?thesis
      by (auto simp: ensure_invitation_transaction_def active_at_iff record_fields_def
          invitation_document_def split: if_splits)
  next
    case (Some data)
    with assms v show ?thesis
      by (auto simp: ensure_invitation_transaction_def active_at_iff record_from_data_eq_Inr rbind_eq_Inr
          record_fields_pending_iff simp del: dict_merge_Cons append_Cons split: if_splits)
  qed
qed

lemma activate_active:
  assumes "activate_user srv em db = (r, db')" and "active_at db' n v" and "normalize_email em = Inr em"
  shows "active_at db n v \<or> (\<exists>x data w. r = Inr x \<and> n = em \<and> map_of (allowed_users db) em = Some data \<and>
    record_fields w data \<and> user_id w = user_id v \<and> dataset_id w = dataset_id v)"
proof (cases r)
  case (Inl e)
  with assms show ?thesis
    by (auto simp: activate_user_def set_user_status_def obind_eq_Inl olift_def transact_eq_Inl)
next
  case (Inr x)
  with assms(1,3) have "set_status_transaction srv em Active ''ready'' db = Inr (x, db')"
    by (auto simp: activate_user_def set_user_status_def obind_eq_Inr olift_def transact_eq_Inr)
  with assms(3) obtain data w where m: "map_of (allowed_users db) em = Some data" and rf: "record_fields w data"
    and db': "db' = db\<lparr>allowed_users := AList.update em (dict_merge data
        [(''status'', VStr (status_value Active)), (''provisioning_state'', VStr ''ready''),
         (''updated_at'', VTime srv)]) (allowed_users db)\<rparr>"
    by (auto elim!: set_status_eq_Inr simp del: dict_merge_Cons)
  show ?thesis
  proof (cases "n = em")
    case True
    with assms(2) record_fields_unique [OF record_fields_status [OF rf, of Active "''ready''" srv], of v]
    have "user_id w = user_id v" "dataset_id w = dataset_id v"
      by (auto simp: db' active_at_iff simp del: dict_merge_Cons)
    with m rf Inr True show ?thesis by auto
  next
    case False
    with assms(2) show ?thesis by (simp add: db' active_at_iff del: dict_merge_Cons)
  qed
qed

lemma add_user_active:
  assumes "add_user provision srv nu nd em notes db = (r, db')" and "active_at db' n v"
  shows "active_at db n v \<or>
    (\<exists>w x db1. r = Inr x \<and> ensure_invitation srv nu nd em notes db = (Inr w, db1) \<and> provision w = Inr () \<and>
       invitation_email w = n \<and> dataset_id w = dataset_id v \<and> user_id w = user_id v)"
proof (cases "ensure_invitation srv nu nd em notes db")
  case (Pair q db1)
  show ?thesis
  proof (cases q)
    case (Inl e)
    with Pair have "db1 = db"
      by (auto simp: ensure_invitation_def obind_eq_Inl olift_def transact_eq_Inl)
    with assms Pair Inl show ?thesis by (simp add: add_user_def obind_def)
  next
    case (Inr u)
    with Pair obtain m where t: "normalize_email m = Inr m" "ensure_invitation_transaction srv nu nd m notes db = Inr (u, db1)"
      by (auto simp: ensure_invitation_def obind_eq_Inr olift_def transact_eq_Inr dest: normalize_email_idem)
    note res = ensure_transaction_result [OF t(2,1)]
    show ?thesis
    proof (cases "provision u")
      case (Inl e)
      with assms Pair Inr res(3) show ?thesis by (simp add: add_user_def obind_def olift_def)
    next
      case p: (Inr x)
      with assms(1) Pair Inr res(1) have a: "activate_user srv m db1 = (r, db')"
        by (simp add: add_user_def obind_def olift_def)
      consider "active_at db1 n v" | y where "r = Inr y" "n = m" "dataset_id u = dataset_id v" "user_id u = user_id v"
        using activate_active [OF a assms(2) t(1)] res(2) by fastforce
      then show ?thesis
      proof cases
        case 2
        moreover from Pair Inr p have "ensure_invitation srv nu nd em notes db = (Inr u, db1)" "provision u = Inr ()"
          by simp_all
        ultimately show ?thesis using res(1) by blast
      qed (simp add: res(3))
    qed
  qed
qed

text \<open>Adding a user grants access only after the dataset of that very user was provisioned: a record
  that is active afterwards was active before, or the provisioner returned for its email and dataset.\<close>
theorem access_needs_provisioning:
  assumes "add_user provision srv nu nd em notes db = (r, db')" and "active_at db' n v"
  shows "active_at db n v \<or>
    (\<exists>w x. r = Inr x \<and> provision w = Inr () \<and> invitation_email w = n \<and> dataset_id w = dataset_id v \<and> user_id w = user_id v)"
  using add_user_active [OF assms] by blast

theorem access_needs_provisioning_witness:
  "\<exists>w::allowed_user. (\<lambda>u. Inr () :: exn + unit) w = Inr () \<and> dataset_id w = ''ds_1'' \<and> user_id w = ''usr_1''"
proof -
  let ?v = "\<lparr>invitation_email = ''ann@x.org'', user_id = ''usr_1'', dataset_id = ''ds_1'',
     status = Active, oidc_issuer = None, oidc_subject = None\<rparr>"
  have v: "active_at invited_db ''ann@x.org'' ?v"
    by (simp add: active_at_iff invited_db_value record_fields_def dget_def status_value_def)
  have "\<not> active_at empty_auth_db ''ann@x.org'' ?v" by (simp add: active_at_def empty_auth_db_def)
  with access_needs_provisioning [OF surjective_pairing v [unfolded invited_db_def]]
  show ?thesis by auto
qed

text \<open>Resetting an identity frees the allowlist record and keeps its tenant: the next verified first
  login through that email, by any identity that has no binding, gets the confirmed user identifier
  and the same dataset.\<close>
theorem reset_rebinds_to_the_same_tenant:
  assumes "reset_identity H srv em uid db = (Inr u, db1)" and "status u = Active"
    and "email_verified j" and "email j = Some e" and "normalize_email e = normalize_email em"
    and "map_of (oidc_identities db1) (identity_document_id H (issuer j) (subject j)) = None"
  shows "fst (fs_resolve_or_bind H srv' j db1) = Inr \<lparr>ctx_user_id = uid, ctx_dataset_id = dataset_id u,
    ctx_issuer = issuer j, ctx_subject = subject j\<rparr>"
proof -
  from assms(1) obtain n where n: "normalize_email em = Inr n" and
    t: "reset_identity_transaction H srv n uid db = Inr (u, db1)"
    by (auto simp: reset_identity_def obind_eq_Inr olift_def transact_eq_Inr)
  from n have nn: "normalize_email n = Inr n" by (rule normalize_email_idem)
  from t nn obtain data v where rf: "record_fields v data" and uid: "user_id v = uid"
    and u: "u = v\<lparr>oidc_issuer := None, oidc_subject := None\<rparr>"
    and db1: "allowed_users db1 = AList.update n (AList.delete ''bound_at'' (dict_merge data
           [(''oidc_issuer'', VNone), (''oidc_subject'', VNone), (''updated_at'', VTime srv)]))
           (allowed_users db)"
    by (auto elim!: reset_eq_Inr simp del: dict_merge_Cons)
  have r: "record_from_data n (AList.delete ''bound_at'' (dict_merge data
           [(''oidc_issuer'', VNone), (''oidc_subject'', VNone), (''updated_at'', VTime srv)]))
      = Inr (u\<lparr>invitation_email := n\<rparr>)"
    using record_fields_reset [OF rf, of srv]
    by (simp add: record_from_data_eq_Inr u record_fields_def del: dict_merge_Cons)
  have f: "first_login_invitation_email j = Inr n"
    using assms(3-5) n by (simp add: first_login_email_eq_Inr)
  show ?thesis
    using assms(2,6) uid
    by (simp add: fs_resolve_or_bind_def transact_def resolve_or_bind_transaction_def bind_invitation_def
        f nn db1 r require_active_def context_of_def user_key_def u del: dict_merge_Cons)
qed

definition second_identity :: verified_identity where
  "second_identity = \<lparr>issuer = ''iss'', subject = ''new'', email = Some ''ANN@x.org'', email_verified = True\<rparr>"

theorem reset_rebinds_to_the_same_tenant_witness:
  "fst (fs_resolve_or_bind id 12 second_identity
      (snd (reset_identity id 11 ''ann@x.org'' ''usr_1'' bound_db))) =
    Inr \<lparr>ctx_user_id = ''usr_1'', ctx_dataset_id = ''ds_1'', ctx_issuer = ''iss'', ctx_subject = ''new''\<rparr>"
proof -
  let ?u = "\<lparr>invitation_email = ''ann@x.org'', user_id = ''usr_1'', dataset_id = ''ds_1'',
     status = Active, oidc_issuer = None, oidc_subject = None\<rparr>"
  have r: "fst (reset_identity id 11 ''ann@x.org'' ''usr_1'' bound_db) = Inr ?u" by code_simp
  have n: "normalize_email ''ANN@x.org'' = normalize_email ''ann@x.org''" by code_simp
  have m: "map_of (oidc_identities (snd (reset_identity id 11 ''ann@x.org'' ''usr_1'' bound_db)))
     (identity_document_id id (issuer second_identity) (subject second_identity)) = None" by code_simp
  show ?thesis
    using reset_rebinds_to_the_same_tenant [OF surjective_pairing [of "reset_identity id 11 ''ann@x.org''
      ''usr_1'' bound_db", unfolded r] _ _ _ n m]
    by (simp add: second_identity_def)
qed

subsection \<open>Synchronising the views of the active users\<close>

lemma reconcile_users_eq_Inr:
  "reconcile_users rec us d r = Inr (x, y) \<longleftrightarrow>
     list_all (\<lambda>u. \<not> isl (rec (dataset_id u))) us \<and>
     x = d + sum_list (map (\<lambda>u. fst (projr (rec (dataset_id u)))) us) \<and>
     y = r + sum_list (map (\<lambda>u. snd (projr (rec (dataset_id u)))) us)"
proof (induction us arbitrary: d r)
  case Nil
  then show ?case by auto
next
  case (Cons u us)
  then show ?case by (cases "rec (dataset_id u)") auto
qed

text \<open>The view synchronisation succeeds exactly when no two active users share a user or a dataset
  identifier and every dataset reconciled, and its summary counts the users and the views.\<close>
theorem sync_active_users_correct:
  "sync_active_users rec users = Inr s \<longleftrightarrow>
     distinct (map dataset_id users) \<and> distinct (map user_id users) \<and>
     list_all (\<lambda>u. \<not> isl (rec (dataset_id u))) users \<and>
     s = \<lparr>active_user_count = length users,
          desired_view_count = sum_list (map (\<lambda>u. fst (projr (rec (dataset_id u)))) users),
          removed_view_count = sum_list (map (\<lambda>u. snd (projr (rec (dataset_id u)))) users)\<rparr>"
  by (auto simp: sync_active_users_def rbind_eq_Inr reconcile_users_eq_Inr)

subsection \<open>The gateway on the Firestore store\<close>

text \<open>The gateway authorizes a request only for the identity in its bearer token: the header holds one
  token word under the bearer scheme, the verifier accepted it, the context carries the issuer and
  subject it verified, the payload is free of identity claims, and only a refused payload
  can leave a first login's binding behind.\<close>
theorem gateway_authorizes_the_token_identity:
  assumes "auth_reachable H empty_auth_db db"
    and "gateway_authorize verify (fs_resolve_or_bind H srv) authorization payload db = (r, db')"
  shows "(case r of
      Inr c \<Rightarrow> (\<exists>scheme token i. authorization = Some (scheme @ CHR '' '' # token) \<and> casefold scheme = ''bearer'' \<and>
          CHR '' '' \<notin> set token \<and> verify token = Inr i \<and> ctx_issuer c = issuer i \<and> ctx_subject c = subject i) \<and>
        clean_payload 0 payload
    | Inl e \<Rightarrow> db' = db \<or> (\<exists>m. e = CallerIdentityClaimError m))"
proof -
  have wf: "auth_wf H db" using auth_reachable_wf [OF assms(1) empty_auth_wf] .
  show ?thesis
  proof (cases "authenticate_bearer verify (fs_resolve_or_bind H srv) authorization db")
    case (Pair q t)
    show ?thesis
    proof (cases q)
      case (Inl e)
      with Pair wf have "t = db" by (auto dest: fs.authenticate_refused)
      with assms(2) Pair Inl show ?thesis by (auto simp: gateway_authorize_def obind_def)
    next
      case (Inr c)
      with Pair obtain token i where tok: "bearer_token authorization = Inr token" "verify token = Inr i"
        "context_key c = identity_key i"
        by (auto elim: fs.authenticate_key)
      then obtain sch where "authorization = Some (sch @ CHR '' '' # token)" "casefold sch = ''bearer''"
        "CHR '' '' \<notin> set token"
        by (auto simp: bearer_token_eq_Inr)
      with tok have *: "\<exists>scheme token i. authorization = Some (scheme @ CHR '' '' # token) \<and> casefold scheme = ''bearer'' \<and>
          CHR '' '' \<notin> set token \<and> verify token = Inr i \<and> ctx_issuer c = issuer i \<and> ctx_subject c = subject i"
        by (auto simp: context_key_def identity_key_def)
      show ?thesis
      proof (cases "assert_no_caller_identity_claims payload")
        case (Inl e)
        then have "\<exists>m. e = CallerIdentityClaimError m"
          unfolding assert_no_caller_identity_claims_def by (rule scan_claims_error)
        with assms(2) Pair Inr Inl show ?thesis by (auto simp: gateway_authorize_def obind_def olift_def)
      next
        case ok: (Inr u)
        then have "clean_payload 0 payload" by (simp add: assert_clean_iff)
        moreover have "r = Inr c"
          using assms(2) Pair Inr ok by (simp add: gateway_authorize_def obind_def olift_def oret_def)
        ultimately show ?thesis using * by (simp only: sum.case)
      qed
    qed
  qed
qed

theorem gateway_authorizes_the_token_identity_witness:
  "\<exists>token i. (if token = ''tok'' then Inr (demo_identity ''ann@x.org'') else Inl (InvalidTokenError ''bad'')) = Inr i \<and>
     issuer i = ''iss''"
proof -
  let ?verify = "\<lambda>token. if token = ''tok'' then Inr (demo_identity ''ann@x.org'') else Inl (InvalidTokenError ''bad'')"
  let ?c = "\<lparr>ctx_user_id = ''usr_1'', ctx_dataset_id = ''ds_1'', ctx_issuer = ''iss'', ctx_subject = ''sub''\<rparr>"
  have "fst (gateway_authorize ?verify (fs_resolve_or_bind id 6) (Some ''Bearer tok'') (VDict []) invited_db) = Inr ?c"
    by code_simp
  then have "gateway_authorize ?verify (fs_resolve_or_bind id 6) (Some ''Bearer tok'') (VDict []) invited_db =
      (Inr ?c, snd (gateway_authorize ?verify (fs_resolve_or_bind id 6) (Some ''Bearer tok'') (VDict []) invited_db))"
    by (simp add: prod_eq_iff)
  from gateway_authorizes_the_token_identity [OF demo_reachable(1) this] show ?thesis
    by (simp only: sum.case user_context.simps) (metis (no_types, lifting))
qed

end
