(* ===== verification/IdentityMemory.thy ===== *)
theory IdentityMemory
  imports IdentityLife
begin

text \<open>
  \<open>auth/memory.py\<close>: the in-memory identity store, which the code documents as a faithful fake of
  the Firestore store.  The lock serialises the calls, so each is one operation on the two
  dictionaries.  The last section is the refinement: the Firestore store simulates it.
\<close>

subsection \<open>The store\<close>

record mem_store =
  mem_users :: "(string \<times> allowed_user) list"
  mem_bindings :: "((string \<times> string) \<times> string) list"

definition require_complete_binding :: "allowed_user \<Rightarrow> exn + unit" where
  "require_complete_binding u = require ((oidc_issuer u = None) = (oidc_subject u = None))
     (ConfigurationError ''Allowlist immutable identity is partially bound'')"

definition mem_context :: "allowed_user \<Rightarrow> verified_identity \<Rightarrow> exn + user_context" where
  "mem_context u i =
     rbind (require_complete_binding u) (\<lambda>_.
     rbind (require_active u) (\<lambda>_.
     if user_id u = [] \<or> dataset_id u = []
     then Inl (ConfigurationError ''Allowlist record is missing tenant configuration'')
     else if user_key u \<noteq> (Some (issuer i), Some (subject i))
     then Inl (IdentityMismatchError ''Immutable identity binding is inconsistent'')
     else Inr \<lparr>ctx_user_id = user_id u, ctx_dataset_id = dataset_id u,
            ctx_issuer = issuer i, ctx_subject = subject i\<rparr>))"

text \<open>\<open>__init__\<close>: the users by normalized email, then the bindings of the bound ones.\<close>

definition mem_init :: "allowed_user list \<Rightarrow> exn + mem_store" where
  "mem_init users =
     rbind (rmap (\<lambda>u. rbind (normalize_email (invitation_email u)) (\<lambda>n. Inr (n, u))) users) (\<lambda>pairs.
     let d = dict_merge [] pairs in
     Inr \<lparr>mem_users = d,
       mem_bindings = fold (\<lambda>(em, u) b. case (oidc_issuer u, oidc_subject u) of
           (Some iss, Some sub) \<Rightarrow> AList.update (iss, sub) em b | _ \<Rightarrow> b) d []\<rparr>)"

definition mem_resolve_or_bind :: "verified_identity \<Rightarrow> (mem_store, exn, user_context) oper" where
  "mem_resolve_or_bind i ms =
     (case map_of (mem_bindings ms) (issuer i, subject i) of
        Some bound_email \<Rightarrow>
          (case map_of (mem_users ms) bound_email of
             None \<Rightarrow> (Inl (KeyError bound_email), ms)
           | Some u \<Rightarrow> (mem_context u i, ms))
      | None \<Rightarrow>
          (case first_login_invitation_email i of
             Inl e \<Rightarrow> (Inl e, ms)
           | Inr em \<Rightarrow>
               (case map_of (mem_users ms) em of
                  None \<Rightarrow> (Inl (UserNotAllowedError ''No active invitation''), ms)
                | Some u \<Rightarrow>
                    (case rbind (require_complete_binding u) (\<lambda>_. require_active u) of
                       Inl e \<Rightarrow> (Inl e, ms)
                     | Inr _ \<Rightarrow>
                         if oidc_issuer u \<noteq> None \<or> oidc_subject u \<noteq> None
                         then if user_key u \<noteq> (Some (issuer i), Some (subject i))
                              then (Inl (IdentityMismatchError
                                      ''Invitation is bound to another identity''), ms)
                              else (mem_context u i, ms)
                         else
                           (let v = u\<lparr>oidc_issuer := Some (issuer i), oidc_subject := Some (subject i)\<rparr>
                            in (mem_context v i,
                                ms\<lparr>mem_users := AList.update em v (mem_users ms),
                                   mem_bindings := AList.update (issuer i, subject i) em
                                     (mem_bindings ms)\<rparr>))))))"

definition nonempty_key :: "allowed_user \<Rightarrow> (string \<times> string) option" where
  "nonempty_key u = (case (oidc_issuer u, oidc_subject u) of
     (Some iss, Some sub) \<Rightarrow> if iss \<noteq> [] \<and> sub \<noteq> [] then Some (iss, sub) else None
   | _ \<Rightarrow> None)"

definition mem_replace_user :: "allowed_user \<Rightarrow> (mem_store, exn, unit) oper" where
  "mem_replace_user u ms =
     (case normalize_email (invitation_email u) of
        Inl e \<Rightarrow> (Inl e, ms)
      | Inr em \<Rightarrow>
          (let b1 = (case map_of (mem_users ms) em of
                       None \<Rightarrow> mem_bindings ms
                     | Some old \<Rightarrow> (case nonempty_key old of
                           None \<Rightarrow> mem_bindings ms
                         | Some k \<Rightarrow> AList.delete k (mem_bindings ms)));
               b2 = (case nonempty_key u of None \<Rightarrow> b1 | Some k \<Rightarrow> AList.update k em b1)
           in (Inr (), \<lparr>mem_users = AList.update em u (mem_users ms), mem_bindings = b2\<rparr>)))"

definition mem_get_user :: "string \<Rightarrow> mem_store \<Rightarrow> exn + allowed_user option" where
  "mem_get_user em ms = rbind (normalize_email em) (\<lambda>n. Inr (map_of (mem_users ms) n))"

subsection \<open>The store implements the interface\<close>

lemma update_neq: "map_of d k = None \<Longrightarrow> d \<noteq> AList.update k v d"
  by (metis fun_upd_same map_of_update option.distinct(1))

lemma mem_update_neq:
  "map_of (mem_bindings ms) k = None \<Longrightarrow>
     ms\<lparr>mem_users := us, mem_bindings := AList.update k em (mem_bindings ms)\<rparr> \<noteq> ms"
  using update_neq [of "mem_bindings ms" k em] by (cases ms) auto

definition mem_wf :: "mem_store \<Rightarrow> bool" where
  "mem_wf ms \<longleftrightarrow>
     (\<forall>k em. map_of (mem_bindings ms) k = Some em \<longrightarrow>
       (\<exists>u. map_of (mem_users ms) em = Some u \<and> user_key u = (Some (fst k), Some (snd k)))) \<and>
     (\<forall>em u. map_of (mem_users ms) em = Some u \<longrightarrow> user_id u \<noteq> [] \<and> dataset_id u \<noteq> []) \<and>
     (\<forall>em u iss sub. map_of (mem_users ms) em = Some u \<longrightarrow> user_key u = (Some iss, Some sub) \<longrightarrow>
       map_of (mem_bindings ms) (iss, sub) = Some em)"

lemma mem_wf_bound: "mem_wf ms \<Longrightarrow> map_of (mem_users ms) em = Some u \<Longrightarrow>
    user_key u = (Some iss, Some sub) \<Longrightarrow> map_of (mem_bindings ms) (iss, sub) = Some em"
  unfolding mem_wf_def by blast

lemma mem_wf_binding: "mem_wf ms \<Longrightarrow> map_of (mem_bindings ms) k = Some em \<Longrightarrow>
    \<exists>u. map_of (mem_users ms) em = Some u \<and> user_key u = (Some (fst k), Some (snd k))"
  unfolding mem_wf_def by blast

lemma mem_wf_user: "mem_wf ms \<Longrightarrow> map_of (mem_users ms) em = Some u \<Longrightarrow> user_id u \<noteq> [] \<and> dataset_id u \<noteq> []"
  unfolding mem_wf_def by blast

lemma mem_context_eq_Inr:
  "mem_context u i = Inr c \<longleftrightarrow> status u = Active \<and> oidc_issuer u = Some (issuer i) \<and>
     oidc_subject u = Some (subject i) \<and> user_id u \<noteq> [] \<and> dataset_id u \<noteq> [] \<and>
     c = \<lparr>ctx_user_id = user_id u, ctx_dataset_id = dataset_id u,
          ctx_issuer = issuer i, ctx_subject = subject i\<rparr>"
  by (auto simp: mem_context_def require_active_def user_key_def require_complete_binding_def)

text \<open>A state change of the store is always the same one: an unbound record is bound.\<close>

lemma mem_resolve_state:
  "snd (mem_resolve_or_bind i ms) = ms \<or>
   (\<exists>em u. map_of (mem_bindings ms) (issuer i, subject i) = None \<and>
      first_login_invitation_email i = Inr em \<and> map_of (mem_users ms) em = Some u \<and>
      oidc_issuer u = None \<and> oidc_subject u = None \<and> status u = Active \<and>
      mem_resolve_or_bind i ms =
        (mem_context (u\<lparr>oidc_issuer := Some (issuer i), oidc_subject := Some (subject i)\<rparr>) i,
         ms\<lparr>mem_users := AList.update em
             (u\<lparr>oidc_issuer := Some (issuer i), oidc_subject := Some (subject i)\<rparr>) (mem_users ms),
            mem_bindings := AList.update (issuer i, subject i) em (mem_bindings ms)\<rparr>))"
proof (cases "map_of (mem_bindings ms) (issuer i, subject i)")
  case (Some em)
  then show ?thesis by (auto simp: mem_resolve_or_bind_def split: option.splits)
next
  case nb: None
  show ?thesis
  proof (cases "first_login_invitation_email i")
    case (Inl e)
    with nb show ?thesis by (simp add: mem_resolve_or_bind_def)
  next
    case (Inr em)
    show ?thesis
    proof (cases "map_of (mem_users ms) em")
      case None
      with nb Inr show ?thesis by (simp add: mem_resolve_or_bind_def)
    next
      case (Some u)
      with nb Inr show ?thesis
        by (cases "status u"; cases "oidc_issuer u"; cases "oidc_subject u")
          (simp_all add: mem_resolve_or_bind_def require_complete_binding_def require_active_def Let_def)
    qed
  qed
qed

text \<open>A login in a well-formed store: by a binding, by a first login, or refused.\<close>

lemma mem_resolve_cases:
  assumes "mem_wf ms" and "mem_resolve_or_bind i ms = (r, ms')"
  obtains (refused) e where "r = Inl e" "ms' = ms"
  | (again) c em u where "r = Inr c" "ms' = ms" "map_of (mem_bindings ms) (issuer i, subject i) = Some em"
      "map_of (mem_users ms) em = Some u" "mem_context u i = Inr c"
  | (first) em u c where "r = Inr c" "map_of (mem_bindings ms) (issuer i, subject i) = None"
      "map_of (mem_users ms) em = Some u" "oidc_issuer u = None"
      "mem_context (u\<lparr>oidc_issuer := Some (issuer i), oidc_subject := Some (subject i)\<rparr>) i = Inr c"
      "ms' = ms\<lparr>mem_users := AList.update em
             (u\<lparr>oidc_issuer := Some (issuer i), oidc_subject := Some (subject i)\<rparr>) (mem_users ms),
            mem_bindings := AList.update (issuer i, subject i) em (mem_bindings ms)\<rparr>"
proof -
  show thesis
  proof (cases "ms' = ms")
    case True
    show thesis
    proof (cases r)
      case (Inl e)
      then show thesis using True by (rule refused)
    next
      case (Inr c)
      have "\<exists>em u. map_of (mem_users ms) em = Some u \<and> mem_context u i = Inr c"
        using assms(2) unfolding Inr True
        by (auto simp: mem_resolve_or_bind_def Let_def mem_update_neq split: option.splits sum.splits if_splits)
      then obtain em u where u: "map_of (mem_users ms) em = Some u" "mem_context u i = Inr c" by blast
      then have "map_of (mem_bindings ms) (issuer i, subject i) = Some em"
        by (intro mem_wf_bound [OF assms(1) u(1)]) (simp add: mem_context_eq_Inr user_key_def)
      from again [OF Inr True this u] show thesis .
    qed
  next
    case False
    with mem_resolve_state [of i ms] assms(2) obtain em u where
      *: "map_of (mem_bindings ms) (issuer i, subject i) = None" "map_of (mem_users ms) em = Some u"
      "oidc_issuer u = None" "status u = Active"
      and eq: "r = mem_context (u\<lparr>oidc_issuer := Some (issuer i), oidc_subject := Some (subject i)\<rparr>) i"
      "ms' = ms\<lparr>mem_users := AList.update em
             (u\<lparr>oidc_issuer := Some (issuer i), oidc_subject := Some (subject i)\<rparr>) (mem_users ms),
            mem_bindings := AList.update (issuer i, subject i) em (mem_bindings ms)\<rparr>"
      by auto
    obtain c where c: "mem_context (u\<lparr>oidc_issuer := Some (issuer i), oidc_subject := Some (subject i)\<rparr>) i
        = Inr c"
      using *(4) mem_wf_user [OF assms(1) *(2)] by (simp add: mem_context_eq_Inr)
    have "r = Inr c" using eq(1) c by simp
    then show thesis using *(1-3) c eq(2) by (rule first)
  qed
qed

lemma mem_wf_bind:
  assumes "mem_wf ms" and "map_of (mem_users ms) em = Some u" and "oidc_issuer u = None"
    and "map_of (mem_bindings ms) (iss, sub) = None"
  shows "mem_wf (ms\<lparr>mem_users := AList.update em
             (u\<lparr>oidc_issuer := Some iss, oidc_subject := Some sub\<rparr>) (mem_users ms),
            mem_bindings := AList.update (iss, sub) em (mem_bindings ms)\<rparr>)"
  unfolding mem_wf_def
proof (intro conjI allI impI, goal_cases)
  case (1 k e)
  show ?case
  proof (cases "k = (iss, sub)")
    case True
    with 1 show ?thesis by (simp add: user_key_def)
  next
    case False
    with 1 have "map_of (mem_bindings ms) k = Some e" by simp
    then obtain w where w: "map_of (mem_users ms) e = Some w" "user_key w = (Some (fst k), Some (snd k))"
      using mem_wf_binding [OF assms(1)] by blast
    with assms(2,3) have "e \<noteq> em" by (auto simp: user_key_def)
    with w show ?thesis by simp
  qed
next
  case (2 e w)
  then show ?case using mem_wf_user [OF assms(1,2)] mem_wf_user [OF assms(1), of e w]
    by (auto split: if_splits)
next
  case (3 e w)
  then show ?case using mem_wf_user [OF assms(1,2)] mem_wf_user [OF assms(1), of e w]
    by (auto split: if_splits)
next
  case (4 e w a b)
  show ?case
  proof (cases "e = em")
    case True
    with 4 show ?thesis by (auto simp: user_key_def)
  next
    case False
    with 4 have "map_of (mem_bindings ms) (a, b) = Some e" using mem_wf_bound [OF assms(1), of e w a b] by simp
    with assms(4) show ?thesis by auto
  qed
qed

lemma mem_resolve_bound:
  assumes "map_of (mem_bindings ms) (issuer i, subject i) = Some em" and "map_of (mem_users ms) em = Some u"
  shows "mem_resolve_or_bind i ms = (mem_context u i, ms)"
  using assms by (simp add: mem_resolve_or_bind_def)

lemma mem_context_key: "identity_key j = identity_key i \<Longrightarrow> mem_context u j = mem_context u i"
  by (simp add: mem_context_def identity_key_def)


interpretation mem: identity_store mem_resolve_or_bind mem_wf
proof (unfold_locales, goal_cases)
  case (1 s i)
  show ?case
    by (rule mem_resolve_cases [OF 1 surjective_pairing [of "mem_resolve_or_bind i s"]])
      (use 1 mem_wf_bind in simp_all)
next
  case (2 s i e t)
  show ?case by (rule mem_resolve_cases [OF 2]) auto
next
  case (3 i s c t)
  then have "\<exists>u. mem_context u i = Inr c"
    by (auto simp: mem_resolve_or_bind_def Let_def split: option.splits sum.splits if_splits)
  then show ?case by (auto simp: mem_context_eq_Inr context_key_def identity_key_def)
next
  case (4 s i c t j)
  have k: "issuer j = issuer i" "subject j = subject i" using 4(3) by (simp_all add: identity_key_def)
  show ?case
  proof (rule mem_resolve_cases [OF 4(1,2)], goal_cases)
    case (2 d em u)
    with k mem_context_key [OF 4(3)] show ?case by (simp add: mem_resolve_bound)
  next
    case (3 em u d)
    with k mem_context_key [OF 4(3)] show ?case by (simp add: mem_resolve_bound)
  qed simp
next
  case (5 s i c t j d)
  have "\<exists>em u. map_of (mem_bindings s) (issuer j, subject j) = Some em \<and>
      map_of (mem_users s) em = Some u \<and> mem_context u j = Inr d"
  proof (rule mem_resolve_cases [OF 5(1,3)], goal_cases)
    case (3 em u c)
    have "map_of (mem_bindings s) (issuer j, subject j) = Some em" by (subst 3(6)) simp
    with 3(2) show ?case by simp
  qed auto
  then obtain em u where
    j: "map_of (mem_bindings s) (issuer j, subject j) = Some em" "map_of (mem_users s) em = Some u"
      "mem_context u j = Inr d" by blast
  show ?case
  proof (rule mem_resolve_cases [OF 5(1,2)], goal_cases)
    case (3 em' u' c')
    with j have "em' \<noteq> em" "(issuer i, subject i) \<noteq> (issuer j, subject j)" by (auto simp: mem_context_eq_Inr)
    with 3(6) j(1,2) have "map_of (mem_bindings t) (issuer j, subject j) = Some em" "map_of (mem_users t) em = Some u"
      by auto
    with mem_resolve_bound [OF this] j(3) show ?case by simp
  qed (use 5 in auto)
qed

subsection \<open>The fake is faithful\<close>

text \<open>
  The abstraction: the allowlist records read as users, and the binding documents read as the
  map from an issuer and subject to an email.
\<close>

definition mem_rel :: "(string \<Rightarrow> string) \<Rightarrow> auth_db \<Rightarrow> mem_store \<Rightarrow> bool" where
  "mem_rel H db ms \<longleftrightarrow>
     (\<forall>em. rel_option (\<lambda>data u. record_from_data em data = Inr u)
        (map_of (allowed_users db) em) (map_of (mem_users ms) em)) \<and>
     (\<forall>iss sub. map_of (mem_bindings ms) (iss, sub) =
        map_option (\<lambda>b. the_str (dget b ''allowlist_email''))
          (map_of (oidc_identities db) (identity_document_id H iss sub)))"

lemma mem_rel_users: "mem_rel H db ms \<Longrightarrow> rel_option (\<lambda>data u. record_from_data em data = Inr u)
    (map_of (allowed_users db) em) (map_of (mem_users ms) em)"
  unfolding mem_rel_def by blast

lemma mem_rel_user:
  assumes "mem_rel H db ms" and "map_of (allowed_users db) em = Some data"
  shows "\<exists>u. map_of (mem_users ms) em = Some u \<and> record_from_data em data = Inr u"
  using mem_rel_users [OF assms(1), of em] unfolding assms(2) by (cases rule: option.rel_cases) auto

lemma mem_rel_no_user:
  assumes "mem_rel H db ms" and "map_of (allowed_users db) em = None"
  shows "map_of (mem_users ms) em = None"
  using mem_rel_users [OF assms(1), of em] unfolding assms(2) by simp

lemma mem_rel_binding:
  "mem_rel H db ms \<Longrightarrow> map_of (mem_bindings ms) (iss, sub) =
     map_option (\<lambda>b. the_str (dget b ''allowlist_email''))
       (map_of (oidc_identities db) (identity_document_id H iss sub))"
  unfolding mem_rel_def by blast

lemma contexts_agree:
  "record_fields u data \<Longrightarrow> mem_context u i = context_of u i"
  by (simp add: record_fields_def mem_context_def context_of_def require_complete_binding_def)

definition no_collision :: "(string \<Rightarrow> string) \<Rightarrow> verified_identity \<Rightarrow> bool" where
  "no_collision H i \<longleftrightarrow> (\<forall>iss sub. identity_document_id H iss sub = identity_document_id H (issuer i) (subject i)
     \<longrightarrow> iss = issuer i \<and> sub = subject i)"

lemma simulate_bound:
  assumes "auth_wf H db" and rel: "mem_rel H db ms" and "no_collision H i"
    and b: "map_of (oidc_identities db) (identity_document_id H (issuer i) (subject i)) = Some b"
  shows "mem_resolve_or_bind i ms = (resolve_existing db i b, ms)"
proof -
  from assms(1) b have "binding_ok H db (identity_document_id H (issuer i) (subject i)) b"
    by (simp add: auth_wf_def)
  with assms(3) obtain em data u where
    *: "dget b ''oidc_issuer'' = VStr (issuer i)" "dget b ''oidc_subject'' = VStr (subject i)"
    "dget b ''allowlist_email'' = VStr em" "normalize_email em = Inr em"
    "map_of (allowed_users db) em = Some data" "record_fields u data" "dget b ''user_id'' = VStr (user_id u)"
    unfolding binding_ok_def no_collision_def by metis
  from mem_rel_user [OF rel *(5)] obtain w where
    w: "map_of (mem_users ms) em = Some w" "record_from_data em data = Inr w" by blast
  then have rw: "record_fields w data" by (simp add: record_from_data_eq_Inr)
  with *(6) have "user_id w = user_id u" using record_fields_unique by blast
  with * w have "resolve_existing db i b = context_of w i" by (simp add: resolve_existing_def)
  moreover have "map_of (mem_bindings ms) (issuer i, subject i) = Some em"
    using mem_rel_binding [OF rel] b *(3) by simp
  ultimately show ?thesis using w(1) contexts_agree [OF rw] by (simp add: mem_resolve_bound)
qed

lemma simulate_bind:
  assumes rel: "mem_rel H db ms" and "no_collision H i"
    and m: "map_of (allowed_users db) em = Some data" and u: "record_from_data em data = Inr u"
  shows "mem_rel H
      (db\<lparr>allowed_users := AList.update em (dict_merge data (bind_fields srv i)) (allowed_users db),
          oidc_identities := AList.update (identity_document_id H (issuer i) (subject i))
             (binding_document srv em i uid) (oidc_identities db)\<rparr>)
      (ms\<lparr>mem_users := AList.update em
             (u\<lparr>oidc_issuer := Some (issuer i), oidc_subject := Some (subject i)\<rparr>) (mem_users ms),
          mem_bindings := AList.update (issuer i, subject i) em (mem_bindings ms)\<rparr>)"
proof -
  have "record_from_data em (dict_merge data (bind_fields srv i)) =
      Inr (u\<lparr>oidc_issuer := Some (issuer i), oidc_subject := Some (subject i)\<rparr>)"
    using u record_fields_bind [of u data i srv] by (simp add: record_from_data_eq_Inr)
  moreover have "iss = issuer i \<and> sub = subject i \<longleftrightarrow>
      identity_document_id H iss sub = identity_document_id H (issuer i) (subject i)" for iss sub
    using assms(2) by (auto simp: no_collision_def)
  ultimately show ?thesis
    using mem_rel_users [OF rel] mem_rel_binding [OF rel]
    by (simp add: mem_rel_def binding_document_def dget_def)
qed

text \<open>C25: The in-memory store is a faithful fake: related to a Firestore database it gives the same
  context or the same exception for every login, and the two stay related, as long as the
  hash of the logging-in identity collides with no other.\<close>
theorem memory_store_simulates_firestore:
  assumes "auth_wf H db" and "mem_wf ms" and "mem_rel H db ms" and "no_collision H i"
  shows "fst (mem_resolve_or_bind i ms) = fst (fs_resolve_or_bind H srv i db) \<and>
    mem_rel H (snd (fs_resolve_or_bind H srv i db)) (snd (mem_resolve_or_bind i ms))"
proof (cases "map_of (oidc_identities db) (identity_document_id H (issuer i) (subject i))")
  case (Some b)
  with assms show ?thesis by (simp add: simulate_bound fs_resolve_existing)
next
  case None
  then have nb: "map_of (mem_bindings ms) (issuer i, subject i) = None"
    using mem_rel_binding [OF assms(3)] by simp
  have fs: "fs_resolve_or_bind H srv i db = transact (bind_invitation H srv i) db"
    using None by (simp add: fs_resolve_or_bind_def transact_def resolve_or_bind_transaction_def)
  show ?thesis
  proof (cases "first_login_invitation_email i")
    case (Inl e)
    with nb assms(3) show ?thesis by (simp add: fs transact_def bind_invitation_def mem_resolve_or_bind_def)
  next
    case (Inr em)
    then have n: "normalize_email em = Inr em" by (rule first_login_email_normal)
    show ?thesis
    proof (cases "map_of (allowed_users db) em")
      case m: None
      with nb assms(3) Inr n mem_rel_no_user [OF assms(3) m] show ?thesis
        by (simp add: fs transact_def bind_invitation_def mem_resolve_or_bind_def)
    next
      case (Some data)
      from mem_rel_user [OF assms(3) Some] obtain u where
        u: "map_of (mem_users ms) em = Some u" "record_from_data em data = Inr u" by blast
      then have rf: "record_fields u data" by (simp add: record_from_data_eq_Inr)
      then have iff: "oidc_issuer u = None \<longleftrightarrow> oidc_subject u = None" and ids: "user_id u \<noteq> []" "dataset_id u \<noteq> []"
        by (simp_all add: record_fields_def)
      have unbound: "user_key u \<noteq> (Some (issuer i), Some (subject i))"
        using mem_wf_bound [OF assms(2) u(1)] nb by auto
      note sim = simulate_bind [OF assms(3,4) Some u(2), of srv "user_id u"]
      show ?thesis
      proof (cases "status u = Active \<and> oidc_issuer u = None")
        case True
        with iff ids nb u Inr n Some sim show ?thesis
          by (simp add: fs transact_def bind_invitation_def mem_resolve_or_bind_def Let_def
              require_complete_binding_def require_active_def context_of_def mem_context_def user_key_def)
      next
        case False
        with iff nb u Inr n Some unbound assms(3) show ?thesis
          by (cases "status u = Active")
            (simp_all add: fs transact_def bind_invitation_def mem_resolve_or_bind_def Let_def
              require_complete_binding_def require_active_def)
      qed
    qed
  qed
qed

definition demo_mem :: mem_store where
  "demo_mem = \<lparr>mem_users = [(''ann@x.org'', \<lparr>invitation_email = ''ann@x.org'', user_id = ''usr_1'',
     dataset_id = ''ds_1'', status = Active, oidc_issuer = None, oidc_subject = None\<rparr>)], mem_bindings = []\<rparr>"

theorem memory_store_simulates_firestore_witness:
  "fst (mem_resolve_or_bind (demo_identity ''ann@x.org'') demo_mem) =
     Inr \<lparr>ctx_user_id = ''usr_1'', ctx_dataset_id = ''ds_1'', ctx_issuer = ''iss'', ctx_subject = ''sub''\<rparr>"
proof -
  have wf: "auth_wf id invited_db" by (simp add: auth_wf_def invited_db_value)
  have mwf: "mem_wf demo_mem" by (auto simp: mem_wf_def demo_mem_def user_key_def)
  have rel: "mem_rel id invited_db demo_mem"
    by (auto simp: mem_rel_def demo_mem_def invited_db_value record_from_data_eq_Inr record_fields_def
        dget_def status_value_def)
  have sep: "a @ z # b = c @ z # d \<Longrightarrow> z \<notin> set c \<Longrightarrow> z \<notin> set d \<Longrightarrow> a = c \<and> b = d" for a b c d :: string and z :: char
    by (induction a arbitrary: c) (auto simp: Cons_eq_append_conv append_eq_Cons_conv)
  have nc: "no_collision id (demo_identity ''ann@x.org'')"
    unfolding no_collision_def identity_document_id_def demo_identity_def
    using sep [of _ "CHR 0x00" _ "''iss''" "''sub''"] by (auto simp: char_of_def)
  from memory_store_simulates_firestore [OF wf mwf rel nc, of 6] bound_db_value(1) show ?thesis by simp
qed

end
