(* ===== verification/Url.thy ===== *)
theory Url
  imports Errors
begin

text \<open>
  The part of \<open>urllib.parse\<close> that the components use: \<open>urlsplit\<close> and the attributes of its
  result, \<open>quote\<close>, \<open>urlencode\<close>, \<open>unquote\<close> and \<open>parse_qsl\<close>, as the standard library defines them.
  A host in brackets is checked as the library does, by its IPv6 grammar.
\<close>

subsection \<open>Splitting\<close>

record split_url =
  scheme :: string
  netloc :: string
  url_path :: string
  query :: string
  fragment :: string

definition scheme_char :: "char \<Rightarrow> bool" where
  "scheme_char c = (is_alnum c \<or> c \<in> set ''+-.'')"

definition hex_digit :: "char \<Rightarrow> bool" where
  "hex_digit c = (is_decimal c \<or> (97 \<le> code c \<and> code c \<le> 102) \<or> (65 \<le> code c \<and> code c \<le> 70))"

definition hextet_ok :: "string \<Rightarrow> bool" where
  "hextet_ok s = (s \<noteq> [] \<and> length s \<le> 4 \<and> list_all hex_digit s)"

definition octet_ok :: "string \<Rightarrow> bool" where
  "octet_ok s = (s \<noteq> [] \<and> length s \<le> 3 \<and> list_all is_decimal s \<and>
     (length s = 1 \<or> hd s \<noteq> CHR ''0'') \<and> digits_val 0 s \<le> 255)"

definition ipv4_ok :: "string \<Rightarrow> bool" where
  "ipv4_ok s = (let ps = split_at (CHR ''.'') s in length ps = 4 \<and> list_all octet_ok ps)"

text \<open>
  \<open>ipaddress.IPv6Address\<close>: at most one run \<open>::\<close>, at most one scope identifier, a trailing dotted
  quad counts as two groups.
\<close>

definition ipv6_groups_ok :: "string list \<Rightarrow> bool" where
  "ipv6_groups_ok parts =
     (let inner = butlast (tl parts);
          skips = length (filter (\<lambda>p. p = []) inner)
      in 3 \<le> length parts \<and> length parts \<le> 9 \<and> skips \<le> 1 \<and>
         (if skips = 1
          then (hd parts = [] \<longrightarrow> parts ! 1 = []) \<and> (last parts = [] \<longrightarrow> last (butlast parts) = []) \<and>
               length (filter (\<lambda>p. p \<noteq> []) parts) < 8
          else length parts = 8 \<and> hd parts \<noteq> [] \<and> last parts \<noteq> []) \<and>
         list_all (\<lambda>p. p = [] \<or> hextet_ok p) parts)"

definition ipv6_ok :: "string \<Rightarrow> bool" where
  "ipv6_ok s =
     (let (addr, sep, scope) = partition_at (CHR ''%'') s;
          parts = split_at (CHR '':'') addr
      in (sep \<longrightarrow> scope \<noteq> [] \<and> CHR ''%'' \<notin> set scope) \<and> addr \<noteq> [] \<and> CHR ''/'' \<notin> set s \<and>
         (if CHR ''.'' \<in> set (last parts)
          then ipv4_ok (last parts) \<and> ipv6_groups_ok (butlast parts @ [''0'', ''0''])
          else ipv6_groups_ok parts))"

definition bracketed_host_ok :: "string \<Rightarrow> bool" where
  "bracketed_host_ok h =
     (if starts_with ''v'' h
      then (let (v, dot, rest) = partition_at (CHR ''.'') (drop 1 h)
            in v \<noteq> [] \<and> list_all hex_digit v \<and> dot \<and> rest \<noteq> [])
      else ipv6_ok h)"

definition urlsplit :: "string \<Rightarrow> exn + split_url" where
  "urlsplit url0 =
     (let url1 = filter (\<lambda>c. c \<notin> {CHR 0x09, CHR 0x0A, CHR 0x0D}) (lstrip_by (\<lambda>c. code c \<le> (32::nat)) url0);
          (first, colon, after) = partition_at (CHR '':'') url1;
          has_scheme = colon \<and> first \<noteq> [] \<and> (is_lower (hd first) \<or> is_upper (hd first)) \<and>
            list_all scheme_char first;
          sch = (if has_scheme then lower first else []);
          rest = (if has_scheme then after else url1);
          has_netloc = starts_with ''//'' rest;
          net = (if has_netloc then takeWhile (\<lambda>c. c \<notin> set ''/?#'') (drop 2 rest) else []);
          path0 = (if has_netloc then dropWhile (\<lambda>c. c \<notin> set ''/?#'') (drop 2 rest) else rest);
          (path1, hash, frag) = partition_at (CHR ''#'') path0;
          (path2, mark, qry) = partition_at (CHR ''?'') path1;
          (_, _, open_rest) = partition_at (CHR ''['') net;
          (host, _, _) = partition_at (CHR '']'') open_rest
      in if (CHR ''['' \<in> set net) \<noteq> (CHR '']'' \<in> set net) then Inl (ValueError ''Invalid IPv6 URL'')
         else if CHR ''['' \<in> set net \<and> \<not> bracketed_host_ok host
         then Inl (ValueError ''bracketed host is invalid'')
         else Inr \<lparr>scheme = sch, netloc = net, url_path = path2, query = qry, fragment = frag\<rparr>)"

subsection \<open>The network location\<close>

definition before_last :: "char \<Rightarrow> string \<Rightarrow> string" where
  "before_last c s = rev (drop 1 (dropWhile (\<lambda>x. x \<noteq> c) (rev s)))"

definition url_username :: "split_url \<Rightarrow> string option" where
  "url_username u = (if CHR ''@'' \<in> set (netloc u)
     then Some (fst (partition_at (CHR '':'') (before_last (CHR ''@'') (netloc u)))) else None)"

definition url_password :: "split_url \<Rightarrow> string option" where
  "url_password u = (if CHR ''@'' \<in> set (netloc u)
     then (case partition_at (CHR '':'') (before_last (CHR ''@'') (netloc u)) of
             (_, colon, pw) \<Rightarrow> if colon then Some pw else None)
     else None)"

definition url_hostinfo :: "split_url \<Rightarrow> string \<times> string option" where
  "url_hostinfo u =
     (let hostinfo = after_last (CHR ''@'') (netloc u);
          (_, open_br, bracketed) = partition_at (CHR ''['') hostinfo;
          (host, port) =
            (if open_br
             then (case partition_at (CHR '']'') bracketed of
                     (h, _, r) \<Rightarrow> (h, snd (snd (partition_at (CHR '':'') r))))
             else (case partition_at (CHR '':'') hostinfo of (h, _, r) \<Rightarrow> (h, r)))
      in (host, if port = [] then None else Some port))"

definition url_hostname :: "split_url \<Rightarrow> string option" where
  "url_hostname u =
     (let host = fst (url_hostinfo u);
          (name, percent, zone) = partition_at (CHR ''%'') host
      in if host = [] then None
         else Some (lower name @ (if percent then ''%'' else []) @ zone))"

definition url_port :: "split_url \<Rightarrow> exn + int option" where
  "url_port u =
     (case snd (url_hostinfo u) of
        None \<Rightarrow> Inr None
      | Some p \<Rightarrow>
          if \<not> list_all is_decimal p then Inl (ValueError ''Port could not be cast to integer value'')
          else if digits_val 0 p > 65535 then Inl (ValueError ''Port out of range 0-65535'')
          else Inr (Some (digits_val 0 p)))"

text \<open>Truth of an optional string, as in \<open>if parsed.username\<close>.\<close>

definition str_given :: "string option \<Rightarrow> bool" where
  "str_given s = (s \<noteq> None \<and> s \<noteq> Some [])"

subsection \<open>Quoting\<close>

definition utf8_bytes :: "char \<Rightarrow> nat list" where
  "utf8_bytes c = (if code c < (128::nat) then [code c] else [192 + code c div 64, 128 + code c mod 64])"

definition hex_char :: "nat \<Rightarrow> char" where
  "hex_char n = (if n < 10 then char_of (48 + n) else char_of (55 + n))"

definition percent :: "nat \<Rightarrow> string" where
  "percent b = [CHR ''%'', hex_char (b div 16), hex_char (b mod 16)]"

definition unreserved :: "char \<Rightarrow> bool" where
  "unreserved c = (is_alnum c \<or> c \<in> set ''_.-~'')"

definition quote_safe :: "string \<Rightarrow> string \<Rightarrow> string" where
  "quote_safe safe s = concat (map (\<lambda>c. if unreserved c \<or> c \<in> set safe then [c]
     else concat (map percent (utf8_bytes c))) s)"

text \<open>\<open>quote(s, safe='')\<close>.\<close>

definition url_quote :: "string \<Rightarrow> string" where
  "url_quote s = quote_safe [] s"

definition quote_plus :: "string \<Rightarrow> string" where
  "quote_plus s = map (\<lambda>c. if c = CHR '' '' then CHR ''+'' else c) (quote_safe '' '' s)"

definition urlencode :: "(string \<times> string) list \<Rightarrow> string" where
  "urlencode ps = join ''&'' (map (\<lambda>(k, v). quote_plus k @ ''='' @ quote_plus v) ps)"

subsection \<open>Unquoting\<close>

definition hex_val :: "char \<Rightarrow> nat" where
  "hex_val c = (if is_decimal c then code c - 48 else if code c \<ge> (97::nat) then code c - 87 else code c - 55)"

fun unquote_bytes :: "string \<Rightarrow> nat list" where
  "unquote_bytes (c # a # b # s) =
     (if c = CHR ''%'' \<and> hex_digit a \<and> hex_digit b then (16 * hex_val a + hex_val b) # unquote_bytes s
      else utf8_bytes c @ unquote_bytes (a # b # s))"
| "unquote_bytes (c # s) = utf8_bytes c @ unquote_bytes s"
| "unquote_bytes [] = []"

text \<open>
  Decoding the bytes as UTF-8.  Sequences that are invalid, or lie outside the Latin-1 range of
  the model, become one question mark per byte (the library writes the replacement character).
\<close>

fun utf8_decode :: "nat list \<Rightarrow> string" where
  "utf8_decode (a # b # bs) =
     (if a < 128 then char_of a # utf8_decode (b # bs)
      else if (a = 194 \<or> a = 195) \<and> 128 \<le> b \<and> b < 192
      then char_of ((a - 192) * 64 + (b - 128)) # utf8_decode bs
      else CHR ''?'' # utf8_decode (b # bs))"
| "utf8_decode [a] = [if a < 128 then char_of a else CHR ''?'']"
| "utf8_decode [] = []"

definition unquote :: "string \<Rightarrow> string" where
  "unquote s = utf8_decode (unquote_bytes s)"

text \<open>\<open>parse_qsl\<close> without blank values.\<close>

definition parse_qsl :: "string \<Rightarrow> (string \<times> string) list" where
  "parse_qsl q = concat (map (\<lambda>f. case partition_at (CHR ''='') f of (k, eq, v) \<Rightarrow>
     if f = [] \<or> \<not> eq \<or> v = [] then []
     else [(unquote (map (\<lambda>c. if c = CHR ''+'' then CHR '' '' else c) k),
            unquote (map (\<lambda>c. if c = CHR ''+'' then CHR '' '' else c) v))]) (split_at (CHR ''&'') q))"

subsection \<open>A quoted segment is safe and reads back\<close>

lemma hex_char_unreserved: "n < 16 \<Longrightarrow> is_alnum (hex_char n)"
  by (auto simp: hex_char_def is_alnum_def is_decimal_def is_upper_def)

lemma byte_bound: "b \<in> set (utf8_bytes c) \<Longrightarrow> b < 256"
  by (auto simp: utf8_bytes_def split: if_splits) (use nat_of_char_less_256 [of c] in linarith)+

text \<open>A quoted segment holds only unreserved characters and percent signs.\<close>

lemma url_quote_chars: "c \<in> set (url_quote s) \<Longrightarrow> unreserved c \<or> c = CHR ''%''"
proof -
  assume "c \<in> set (url_quote s)"
  then obtain x where "c \<in> set (if unreserved x then [x] else concat (map percent (utf8_bytes x)))"
    unfolding url_quote_def quote_safe_def by fastforce
  then show ?thesis
    using byte_bound [of _ x]
    by (auto simp: percent_def unreserved_def less_mult_imp_div_less intro!: hex_char_unreserved
        split: if_splits)
qed

lemma hex_char_hex: "n < 16 \<Longrightarrow> hex_digit (hex_char n) \<and> hex_val (hex_char n) = n"
  by (auto simp: hex_char_def hex_digit_def hex_val_def is_decimal_def)

lemma unquote_bytes_percent: "b < 256 \<Longrightarrow> unquote_bytes (percent b @ s) = b # unquote_bytes s"
  by (simp add: percent_def hex_char_hex less_mult_imp_div_less)

lemma unquote_bytes_percents:
  "(\<And>b. b \<in> set bs \<Longrightarrow> b < 256) \<Longrightarrow> unquote_bytes (concat (map percent bs) @ s) = bs @ unquote_bytes s"
  by (induction bs) (simp_all add: unquote_bytes_percent)

lemma unquote_bytes_other: "c \<noteq> CHR ''%'' \<Longrightarrow> unquote_bytes (c # s) = utf8_bytes c @ unquote_bytes s"
  by (cases s rule: list.exhaust; cases "tl s") auto

lemma unquote_bytes_quote: "unquote_bytes (url_quote s) = concat (map utf8_bytes s)"
proof (induction s)
  case Nil
  then show ?case by (simp add: url_quote_def quote_safe_def)
next
  case (Cons c s)
  have "unreserved c \<Longrightarrow> c \<noteq> CHR ''%''" by (auto simp: unreserved_def is_alnum_def is_decimal_def is_lower_def is_upper_def)
  with Cons byte_bound [of _ c] show ?case
    by (simp add: url_quote_def quote_safe_def unquote_bytes_other unquote_bytes_percents)
qed

lemma div_64: "128 \<le> n \<Longrightarrow> n < 256 \<Longrightarrow> n div 64 = 2 \<or> n div 64 = (3::nat)"
  by arith

lemma utf8_decode_pair:
  assumes "a = 194 \<or> a = 195" and "128 \<le> b" and "b < 192"
  shows "utf8_decode (a # b # bs) = char_of ((a - 192) * 64 + (b - 128)) # utf8_decode bs"
  using assms by auto

lemma utf8_decode_bytes: "utf8_decode (utf8_bytes c @ bs) = c # utf8_decode bs"
proof (cases "code c < (128::nat)")
  case True
  then show ?thesis by (cases bs) (auto simp: utf8_bytes_def)
next
  case False
  let ?n = "code c :: nat"
  have n: "128 \<le> ?n" "?n < 256" using False nat_of_char_less_256 [of c] by auto
  have d: "?n div 64 = 2 \<or> ?n div 64 = 3" using div_64 [OF n] .
  have m: "?n mod 64 < 64" by simp
  have "char_of (?n div 64 * 64 + ?n mod 64) = c" by (simp del: of_char_mod_256 add: div_mult_mod_eq)
  with d m utf8_decode_pair [of "192 + ?n div 64" "128 + ?n mod 64" bs] False show ?thesis
    by (simp add: utf8_bytes_def del: utf8_decode.simps)
qed

lemma unquote_quote: "unquote (url_quote s) = s"
  unfolding unquote_def unquote_bytes_quote
  by (induction s) (simp_all add: utf8_decode_bytes)

end
