(* ===== verification/Oidc.thy ===== *)
theory Oidc
  imports AuthCore Url
begin

text \<open>
  \<open>auth/oidc.py\<close> and \<open>auth/google_oidc.py\<close>: what the token verifiers accept.  The cryptographic
  check of the token (\<open>jwt.decode\<close> behind \<open>OIDCJWTDecoder\<close>, \<open>id_token.verify_oauth2_token\<close>) is
  third-party code: \<open>decode\<close> takes the token and the audience and gives the verified claims, a
  dictionary, or raises.
\<close>

subsection \<open>Configuration\<close>

definition require_https_url :: "string \<Rightarrow> exn + unit" where
  "require_https_url value =
     rbind (urlsplit value) (\<lambda>parsed.
     if scheme parsed \<noteq> ''https'' \<or> netloc parsed = [] \<or> str_given (url_username parsed)
        \<or> str_given (url_password parsed)
     then Inl (ValueError ''must be an HTTPS URL'')
     else if CHR 0x0D \<in> set value \<or> CHR 0x0A \<in> set value
     then Inl (ValueError ''is invalid'')
     else Inr ())"

definition https_issuer :: "string \<Rightarrow> exn + string" where
  "https_issuer value =
     (let iss = strip value
      in rbind (require_https_url iss) (\<lambda>_. Inr (rstrip_by (\<lambda>c. c = CHR ''/'') iss @ ''/'')))"

text \<open>The verifier objects: what their constructors keep.\<close>

record access_verifier =
  av_issuer :: string
  av_audience :: string
  av_required_scopes :: "string list"

record id_verifier =
  iv_issuer :: string
  iv_audience :: string

definition make_access_verifier :: "string \<Rightarrow> string \<Rightarrow> string list \<Rightarrow> exn + access_verifier" where
  "make_access_verifier iss audience required_scopes =
     (if strip audience = [] then Inl (ValueError ''OIDC audience is required'')
      else rbind (https_issuer iss) (\<lambda>i.
        Inr \<lparr>av_issuer = i, av_audience = audience, av_required_scopes = required_scopes\<rparr>))"

definition make_id_verifier :: "string \<Rightarrow> string \<Rightarrow> exn + id_verifier" where
  "make_id_verifier iss audience =
     (if strip audience = [] then Inl (ValueError ''OIDC client audience is required'')
      else rbind (https_issuer iss) (\<lambda>i. Inr \<lparr>iv_issuer = i, iv_audience = audience\<rparr>))"

subsection \<open>Reading claims\<close>

definition identity_of_claims :: "dict \<Rightarrow> string \<Rightarrow> exn + verified_identity" where
  "identity_of_claims claims expected_issuer =
     (if dget claims ''iss'' \<noteq> VStr expected_issuer
      then Inl (InvalidTokenError ''OIDC issuer is not trusted'')
      else if \<not> is_str (dget claims ''sub'') \<or> \<not> truthy (dget claims ''sub'')
      then Inl (InvalidTokenError ''OIDC subject is missing'')
      else if dget claims ''email'' \<noteq> VNone \<and> \<not> is_str (dget claims ''email'')
      then Inl (InvalidTokenError ''OIDC email claim is invalid'')
      else case dget_default claims ''email_verified'' (VBool False) of
        VBool verified \<Rightarrow>
          make_identity expected_issuer (the_str (dget claims ''sub''))
            (case dget claims ''email'' of VStr e \<Rightarrow> Some e | _ \<Rightarrow> None) verified
      | _ \<Rightarrow> Inl (InvalidTokenError ''OIDC email verification claim is invalid''))"

definition scopes_of_claims :: "dict \<Rightarrow> exn + string list" where
  "scopes_of_claims claims =
     (case dget_default claims ''scope'' (VStr []) of
        VStr scope \<Rightarrow>
          (case dget_default claims ''permissions'' (VList []) of
             VList permissions \<Rightarrow>
               if list_all is_str permissions
               then Inr (split_ws scope @ map the_str permissions)
               else Inl (InvalidTokenError ''OIDC permissions claim is invalid'')
           | _ \<Rightarrow> Inl (InvalidTokenError ''OIDC permissions claim is invalid''))
      | _ \<Rightarrow> Inl (InvalidTokenError ''OIDC scope claim is invalid''))"

definition verify_access_token ::
  "(string \<Rightarrow> string \<Rightarrow> exn + dict) \<Rightarrow> access_verifier \<Rightarrow> string \<Rightarrow> exn + verified_identity" where
  "verify_access_token decode v token =
     rbind (decode token (av_audience v)) (\<lambda>claims.
     rbind (scopes_of_claims claims) (\<lambda>granted.
     if \<not> set (av_required_scopes v) \<subseteq> set granted
     then Inl (InvalidTokenError ''OIDC token is missing required scopes'')
     else identity_of_claims claims (av_issuer v)))"

definition verify_id_token ::
  "(string \<Rightarrow> string \<Rightarrow> exn + dict) \<Rightarrow> id_verifier \<Rightarrow> string \<Rightarrow> string \<Rightarrow> exn + verified_identity" where
  "verify_id_token decode v token nonce =
     rbind (decode token (iv_audience v)) (\<lambda>claims.
     if dget claims ''nonce'' \<noteq> VStr nonce
     then Inl (InvalidTokenError ''OIDC ID token nonce does not match'')
     else identity_of_claims claims (iv_issuer v))"

subsection \<open>Google ID tokens\<close>

definition google_canonical_issuer :: string where
  "google_canonical_issuer = ''https://accounts.google.com''"

definition google_issuers :: "string list" where
  "google_issuers = [''accounts.google.com'', google_canonical_issuer]"

text \<open>\<open>GoogleOIDCVerifier.verify\<close>; \<open>Inl\<close> of \<open>decode\<close> is the library's error, always rewritten.\<close>

definition verify_google_token ::
  "(string \<Rightarrow> string \<Rightarrow> exn + dict) \<Rightarrow> string \<Rightarrow> string \<Rightarrow> exn + verified_identity" where
  "verify_google_token decode audience token =
     (case decode token audience of
        Inl e \<Rightarrow> Inl (InvalidTokenError ''OIDC token verification failed'')
      | Inr claims \<Rightarrow>
          if \<not> is_str (dget claims ''iss'') \<or> the_str (dget claims ''iss'') \<notin> set google_issuers
          then Inl (InvalidTokenError ''OIDC issuer is not trusted'')
          else if \<not> is_str (dget claims ''sub'') \<or> the_str (dget claims ''sub'') = []
          then Inl (InvalidTokenError ''OIDC subject is missing'')
          else make_identity google_canonical_issuer (the_str (dget claims ''sub''))
            (case dget claims ''email'' of VStr e \<Rightarrow> Some e | _ \<Rightarrow> None)
            (dget claims ''email_verified'' = VBool True))"

subsection \<open>What is accepted\<close>

lemma make_identity_eq_Inr:
  "make_identity iss sub em v = Inr i \<longleftrightarrow> iss \<noteq> [] \<and> sub \<noteq> [] \<and>
     i = \<lparr>issuer = iss, subject = sub, email = em, email_verified = v\<rparr>"
  by (auto simp: make_identity_def)

lemma identity_of_claims_eq_Inr:
  "identity_of_claims claims iss = Inr i \<longleftrightarrow>
     iss \<noteq> [] \<and> dget claims ''iss'' = VStr iss \<and>
     dget claims ''sub'' = VStr (subject i) \<and> subject i \<noteq> [] \<and>
     dget claims ''email'' = opt_str (email i) \<and>
     dget_default claims ''email_verified'' (VBool False) = VBool (email_verified i) \<and> issuer i = iss"
proof
  assume "identity_of_claims claims iss = Inr i"
  then show "iss \<noteq> [] \<and> dget claims ''iss'' = VStr iss \<and>
     dget claims ''sub'' = VStr (subject i) \<and> subject i \<noteq> [] \<and>
     dget claims ''email'' = opt_str (email i) \<and>
     dget_default claims ''email_verified'' (VBool False) = VBool (email_verified i) \<and> issuer i = iss"
    by (auto simp: identity_of_claims_def inr_simps make_identity_eq_Inr is_str_conv)
next
  assume "iss \<noteq> [] \<and> dget claims ''iss'' = VStr iss \<and>
     dget claims ''sub'' = VStr (subject i) \<and> subject i \<noteq> [] \<and>
     dget claims ''email'' = opt_str (email i) \<and>
     dget_default claims ''email_verified'' (VBool False) = VBool (email_verified i) \<and> issuer i = iss"
  then show "identity_of_claims claims iss = Inr i"
    by (cases i; cases "email i") (auto simp: identity_of_claims_def make_identity_eq_Inr)
qed

lemma https_issuer_eq_Inr:
  "https_issuer v = Inr i \<longleftrightarrow> require_https_url (strip v) = Inr () \<and>
     i = rstrip_by (\<lambda>c. c = CHR ''/'') (strip v) @ ''/''"
  by (auto simp: https_issuer_def Let_def inr_simps)

text \<open>An access token is accepted only with verified claims for the configured audience, the exact
  configured issuer, a non-empty subject and every required scope, granted through the scope or
  the permissions claim; the identity is then the one of the claims.\<close>
theorem access_token_accepted_iff:
  "verify_access_token decode v token = Inr i \<longleftrightarrow>
     (\<exists>claims granted. decode token (av_audience v) = Inr claims \<and> scopes_of_claims claims = Inr granted \<and>
        set (av_required_scopes v) \<subseteq> set granted \<and>
        av_issuer v \<noteq> [] \<and> issuer i = av_issuer v \<and> dget claims ''iss'' = VStr (issuer i) \<and>
        dget claims ''sub'' = VStr (subject i) \<and> subject i \<noteq> [] \<and>
        dget claims ''email'' = opt_str (email i) \<and>
        dget_default claims ''email_verified'' (VBool False) = VBool (email_verified i))"
  by (auto simp: verify_access_token_def inr_simps identity_of_claims_eq_Inr)

lemma id_token_eq_Inr:
  "verify_id_token decode v token nonce = Inr i \<longleftrightarrow>
     (\<exists>claims. decode token (iv_audience v) = Inr claims \<and> dget claims ''nonce'' = VStr nonce \<and>
        identity_of_claims claims (iv_issuer v) = Inr i)"
  by (auto simp: verify_id_token_def inr_simps)

lemma google_token_eq_Inr:
  "verify_google_token decode audience token = Inr i \<longleftrightarrow>
     (\<exists>claims. decode token audience = Inr claims \<and>
        (dget claims ''iss'' = VStr ''accounts.google.com'' \<or> dget claims ''iss'' = VStr google_canonical_issuer) \<and>
        dget claims ''sub'' = VStr (subject i) \<and> subject i \<noteq> [] \<and> issuer i = google_canonical_issuer \<and>
        email i = (case dget claims ''email'' of VStr e \<Rightarrow> Some e | _ \<Rightarrow> None) \<and>
        email_verified i = (dget claims ''email_verified'' = VBool True))"
proof (cases "decode token audience")
  case (Inr claims)
  have ne: "google_canonical_issuer \<noteq> []" by (simp add: google_canonical_issuer_def)
  show ?thesis
    by (cases i; cases "dget claims ''iss''"; cases "dget claims ''sub''")
      (auto simp: verify_google_token_def Inr make_identity_eq_Inr google_issuers_def ne)
qed (simp add: verify_google_token_def)

end
