(* ===== verification/TelemetryModels.thy ===== *)
theory TelemetryModels
  imports Errors
begin

text \<open>
  \<open>shared_models/telemetry.py\<close> (the raw event, its BigQuery row and the table schema) and the data
  of \<open>telemetry_processor/processor.py\<close>.  \<open>isofmt\<close> is \<open>datetime.isoformat\<close>, \<open>dumps\<close> is
  \<open>json.dumps\<close> with sorted keys and no spaces.
\<close>

subsection \<open>The raw event\<close>

record raw_event =
  ev_source_timestamp :: int
  ev_ingested_at :: int
  ev_processed_at :: int
  ev_vehicle_id :: "string option"
  ev_vin :: "string option"
  ev_tesla_vehicle_id :: "string option"
  ev_record_type :: string
  ev_payload :: dict
  ev_config_version :: "string option"
  ev_config_hash :: "string option"
  ev_transport_message_id :: "string option"
  ev_pubsub_message_id :: string
  ev_pubsub_publish_time :: "int option"
  ev_pubsub_delivery_attempt :: "int option"
  ev_client_version :: "string option"
  ev_receiver_version :: string
  ev_receiver_record_version :: "int option"

definition bigquery_row :: "(int \<Rightarrow> string) \<Rightarrow> (dict \<Rightarrow> string) \<Rightarrow> raw_event \<Rightarrow> dict" where
  "bigquery_row isofmt dumps e =
     [(''source_timestamp'', VStr (isofmt (ev_source_timestamp e))),
      (''ingested_at'', VStr (isofmt (ev_ingested_at e))),
      (''processed_at'', VStr (isofmt (ev_processed_at e))),
      (''vehicle_id'', opt_str (ev_vehicle_id e)),
      (''vin'', opt_str (ev_vin e)),
      (''tesla_vehicle_id'', opt_str (ev_tesla_vehicle_id e)),
      (''record_type'', VStr (ev_record_type e)),
      (''payload'', VStr (dumps (ev_payload e))),
      (''telemetry_config_version'', opt_str (ev_config_version e)),
      (''telemetry_config_hash'', opt_str (ev_config_hash e)),
      (''transport_message_id'', opt_str (ev_transport_message_id e)),
      (''pubsub_message_id'', VStr (ev_pubsub_message_id e)),
      (''pubsub_publish_time'', opt_str (map_option isofmt (ev_pubsub_publish_time e))),
      (''pubsub_delivery_attempt'', opt_int (ev_pubsub_delivery_attempt e)),
      (''telemetry_client_version'', opt_str (ev_client_version e)),
      (''telemetry_receiver_version'', VStr (ev_receiver_version e)),
      (''receiver_record_version'', opt_int (ev_receiver_record_version e))]"

datatype column_mode = Nullable | Required

text \<open>The columns of the raw table: name, type and mode.\<close>

definition raw_telemetry_schema :: "(string \<times> string \<times> column_mode) list" where
  "raw_telemetry_schema =
     [(''source_timestamp'', ''TIMESTAMP'', Required), (''ingested_at'', ''TIMESTAMP'', Required),
      (''processed_at'', ''TIMESTAMP'', Required), (''vehicle_id'', ''STRING'', Required),
      (''vin'', ''STRING'', Required), (''tesla_vehicle_id'', ''STRING'', Nullable),
      (''record_type'', ''STRING'', Required), (''payload'', ''JSON'', Required),
      (''telemetry_config_version'', ''STRING'', Nullable),
      (''telemetry_config_hash'', ''STRING'', Nullable),
      (''transport_message_id'', ''STRING'', Nullable), (''pubsub_message_id'', ''STRING'', Required),
      (''pubsub_publish_time'', ''TIMESTAMP'', Nullable),
      (''pubsub_delivery_attempt'', ''INTEGER'', Nullable),
      (''telemetry_client_version'', ''STRING'', Nullable),
      (''telemetry_receiver_version'', ''STRING'', Required),
      (''receiver_record_version'', ''INTEGER'', Nullable)]"

definition raw_telemetry_table :: string where
  "raw_telemetry_table = ''raw_telemetry_events''"

text \<open>A row fits a schema: the same columns in the same order, and a value in every required one.\<close>

definition row_fits :: "(string \<times> string \<times> column_mode) list \<Rightarrow> dict \<Rightarrow> bool" where
  "row_fits sch row =
     (keys row = map fst sch \<and>
      list_all (\<lambda>(c, t, m). m = Required \<longrightarrow> dget row c \<noteq> VNone) sch)"

subsection \<open>Deliveries, routes and results\<close>

record source_policy =
  synthetic_subscription :: string
  fleet_subscriptions :: "(string \<times> string) list"

record vehicle_route =
  rt_user_id :: string
  rt_dataset_id :: string
  rt_vehicle_id :: string
  rt_tesla_vehicle_id :: "string option"
  rt_config_version :: "string option"
  rt_config_hash :: "string option"

record incoming =
  in_source_timestamp :: int
  in_edge_received_at :: int
  in_payload :: dict
  in_vin :: "string option"
  in_record_type :: string
  in_transport_message_id :: "string option"
  in_pubsub_message_id :: string
  in_pubsub_publish_time :: "int option"
  in_pubsub_delivery_attempt :: "int option"
  in_client_version :: "string option"
  in_receiver_record_version :: "int option"
  in_validation_error :: "string option"
  in_fixture_id :: "string option"
  in_fail_first :: bool
  in_source_authentication :: string

record processing_result =
  res_disposition :: string
  res_record_type :: string
  res_pubsub_message_id :: string
  res_vehicle_id :: "string option"
  res_user_id :: "string option"
  res_quarantine_reason :: "string option"
  res_fixture_id :: "string option"
  res_source_authentication :: "string option"
  res_provenance :: "string option"

definition allowed_record_types :: "string list" where
  "allowed_record_types = [''V'', ''alerts'', ''connectivity'', ''errors'']"

lemma bigquery_row_keys: "keys (bigquery_row isofmt dumps e) = map fst raw_telemetry_schema"
  by (simp add: bigquery_row_def raw_telemetry_schema_def)

lemma bigquery_row_fits:
  "ev_vehicle_id e \<noteq> None \<Longrightarrow> ev_vin e \<noteq> None \<Longrightarrow>
     row_fits raw_telemetry_schema (bigquery_row isofmt dumps e)"
  by (auto simp: row_fits_def bigquery_row_keys)
    (auto simp: raw_telemetry_schema_def bigquery_row_def dget_def)

end
