(* ===== verification/TelemetryDecode.thy ===== *)
theory TelemetryDecode
  imports TelemetryModels
begin

text \<open>
  \<open>decode_pubsub_push\<close> of \<open>telemetry_processor/processor.py\<close>, and \<open>TelemetrySourcePolicy\<close>.

  The parsers of the standard library are arguments: \<open>loads\<close> is \<open>json.loads\<close> (on text or bytes;
  it raises \<open>JSONDecodeError\<close> or \<open>UnicodeDecodeError\<close>), \<open>b64\<close> is the decoding of an ASCII base64
  text (\<open>None\<close> is \<open>binascii.Error\<close>), \<open>fromiso\<close> is \<open>datetime.fromisoformat\<close>.
\<close>

subsection \<open>Field readers\<close>

definition required_string :: "dict \<Rightarrow> string \<Rightarrow> exn + string" where
  "required_string d k =
     (case dget d k of
        VStr s \<Rightarrow> if s = [] then Inl (InvalidPushMessageError (''missing_'' @ k)) else Inr s
      | _ \<Rightarrow> Inl (InvalidPushMessageError (''missing_'' @ k)))"

text \<open>\<open>value.replace('Z', '+00:00')\<close>.\<close>

definition replace_z :: "string \<Rightarrow> string" where
  "replace_z s = concat (map (\<lambda>c. if c = CHR ''Z'' then ''+00:00'' else [c]) s)"

definition optional_timestamp :: "(string \<Rightarrow> iso_time) \<Rightarrow> val \<Rightarrow> exn + int option" where
  "optional_timestamp fromiso v =
     (case v of
        VStr s \<Rightarrow>
          if s = [] then Inr None
          else (case fromiso (replace_z s) of
                  IsoInvalid \<Rightarrow> Inr None
                | IsoNaive \<Rightarrow> Inr None
                | IsoAware t \<Rightarrow> if in_datetime_range t then Inr (Some t) else Inl (LibraryError ''OverflowError''))
      | _ \<Rightarrow> Inr None)"

text \<open>
  \<open>datetime.fromtimestamp(int(value) / 1000, tz=UTC)\<close>: the division is exact to the microsecond for
  the milliseconds of the next centuries; out of range is \<open>None\<close>.
\<close>

definition milliseconds_timestamp :: "string option \<Rightarrow> int option" where
  "milliseconds_timestamp v =
     (case v of
        None \<Rightarrow> None
      | Some s \<Rightarrow>
          (case int_of_str s of
             None \<Rightarrow> None
           | Some ms \<Rightarrow> if in_datetime_range (1000 * ms) then Some (1000 * ms) else None))"

fun optional_int :: "val \<Rightarrow> int option" where
  "optional_int (VInt i) = Some i"
| "optional_int (VStr s) = int_of_str s"
| "optional_int _ = None"

definition fixture_char :: "char \<Rightarrow> bool" where
  "fixture_char c = (is_alnum c \<or> c = CHR ''_'' \<or> c = CHR ''-'')"

text \<open>\<open>FIXTURE_ID\<close>: \<open>phase7[-_][A-Za-z0-9_-]{1,80}\<close>.\<close>

definition valid_fixture_id :: "string \<Rightarrow> bool" where
  "valid_fixture_id s =
     (starts_with ''phase7'' s \<and>
      (case drop 6 s of
         [] \<Rightarrow> False
       | c # rest \<Rightarrow> (c = CHR ''-'' \<or> c = CHR ''_'') \<and> 1 \<le> length rest \<and> length rest \<le> 80 \<and>
           list_all fixture_char rest))"

text \<open>The attributes of a message, once checked to be a dictionary of strings.\<close>

definition attribute :: "dict \<Rightarrow> string \<Rightarrow> string option" where
  "attribute d k = (case map_of d k of Some (VStr s) \<Rightarrow> Some s | _ \<Rightarrow> None)"

definition nonempty :: "string option \<Rightarrow> string option" where
  "nonempty s = (if s = Some [] then None else s)"

definition synthetic_fixture_id :: "dict \<Rightarrow> exn + string option" where
  "synthetic_fixture_id attributes =
     (if attribute attributes ''tpp_synthetic_fixture'' \<noteq> Some ''phase7'' then Inr None
      else let fixture = (case attribute attributes ''tpp_fixture_id'' of None \<Rightarrow> [] | Some s \<Rightarrow> s)
           in if valid_fixture_id fixture then Inr (Some fixture)
              else Inl (InvalidPushMessageError ''invalid_synthetic_fixture_id''))"

definition or_error :: "string option \<Rightarrow> bool \<Rightarrow> string \<Rightarrow> string option" where
  "or_error err failing reason =
     (if failing then (case err of None \<Rightarrow> Some reason | Some e \<Rightarrow> Some e) else err)"

text \<open>\<open>base64.b64decode(text, validate=True)\<close>: text outside ASCII is a plain \<open>ValueError\<close>.\<close>

definition b64decode :: "(string \<Rightarrow> string option) \<Rightarrow> string \<Rightarrow> exn + string" where
  "b64decode b64 s =
     (if \<not> list_all (\<lambda>c. code c < (128::nat)) s
      then Inl (ValueError ''string argument should contain only ASCII characters'')
      else case b64 s of None \<Rightarrow> Inl (LibraryError ''binascii.Error'') | Some bytes \<Rightarrow> Inr bytes)"

definition json_error :: "exn \<Rightarrow> bool" where
  "json_error e = (e = LibraryError ''JSONDecodeError'' \<or> e = LibraryError ''UnicodeDecodeError'')"

text \<open>\<open>except ... as exc: raise InvalidPushMessageError(category) from exc\<close>.\<close>

definition invalid_push :: "(exn \<Rightarrow> bool) \<Rightarrow> string \<Rightarrow> exn + 'a \<Rightarrow> exn + 'a" where
  "invalid_push caught category r =
     (case r of Inl e \<Rightarrow> if caught e then Inl (InvalidPushMessageError category) else Inl e | Inr x \<Rightarrow> Inr x)"

subsection \<open>The source policy\<close>

definition policy_from_json :: "(string \<Rightarrow> exn + val) \<Rightarrow> string \<Rightarrow> string \<Rightarrow> exn + source_policy" where
  "policy_from_json loads synthetic fleet =
     rbind (loads fleet) (\<lambda>decoded.
     case decoded of
       VDict d \<Rightarrow>
         if \<not> starts_with ''projects/'' synthetic \<or> d = [] \<or>
            \<not> list_all (\<lambda>(subscription, record_type). starts_with ''projects/'' subscription \<and>
               is_str record_type \<and> the_str record_type \<in> set allowed_record_types) d
         then Inl (ValueError ''telemetry subscription policy is invalid'')
         else Inr \<lparr>synthetic_subscription = synthetic,
                fleet_subscriptions = map (\<lambda>(s, r). (s, the_str r)) d\<rparr>
     | _ \<Rightarrow> Inl (ValueError ''telemetry subscription policy is invalid''))"

text \<open>The authentication of the source and the first validation error, from the subscription.\<close>

definition classify_source ::
  "source_policy \<Rightarrow> string \<Rightarrow> string option \<Rightarrow> string \<Rightarrow> string \<times> string option" where
  "classify_source policy subscription fixture record_type =
     (let expected = map_of (fleet_subscriptions policy) subscription
      in if subscription = synthetic_subscription policy
         then (''operator_fixture'',
               if fixture = None then Some ''missing_synthetic_marker'' else None)
         else case expected of
           Some expected_type \<Rightarrow>
             (''tesla_mtls'',
              if fixture \<noteq> None then Some ''synthetic_marker_on_fleet_subscription''
              else if record_type \<noteq> expected_type then Some ''record_type_subscription_mismatch''
              else None)
         | None \<Rightarrow> (''untrusted_subscription'', Some ''untrusted_pubsub_subscription''))"

subsection \<open>Decoding a delivery\<close>

text \<open>The first reason to quarantine a delivery, in the order of the checks.\<close>

definition delivery_error ::
  "source_policy \<Rightarrow> string \<Rightarrow> string option \<Rightarrow> string \<Rightarrow> string option \<Rightarrow> val \<Rightarrow> bool \<Rightarrow> bool \<Rightarrow> string option" where
  "delivery_error policy subscription fixture record_type vin payload_vin undated unreceived =
     or_error (or_error (or_error (or_error
       (snd (classify_source policy subscription fixture record_type))
       (fixture = None \<and> record_type \<notin> set allowed_record_types) ''invalid_record_type'')
       (fixture = None \<and> vin \<noteq> None \<and> is_str payload_vin \<and> the_str payload_vin \<noteq> [] \<and>
          Some (the_str payload_vin) \<noteq> vin) ''payload_vin_mismatch'')
       undated ''missing_source_timestamp'')
       (unreceived \<and> fixture = None) ''missing_edge_received_timestamp''"

text \<open>
  The second half of \<open>decode_pubsub_push\<close>, once the wrapper, the payload and the attributes are
  read: it interprets them.
\<close>

definition record_type_of :: "dict \<Rightarrow> string option \<Rightarrow> string" where
  "record_type_of attributes fixture =
     (case attribute attributes ''txtype'' of
        Some t \<Rightarrow> t | None \<Rightarrow> if fixture \<noteq> None then ''synthetic'' else ''unknown'')"

definition interpret_delivery ::
  "(string \<Rightarrow> iso_time) \<Rightarrow> source_policy \<Rightarrow> int \<Rightarrow> dict \<Rightarrow> dict \<Rightarrow> dict \<Rightarrow> dict \<Rightarrow> string \<Rightarrow> string \<Rightarrow>
   exn + incoming" where
  "interpret_delivery fromiso policy now wrapper message payload attributes subscription message_id =
     rbind (optional_timestamp fromiso (dget message ''publishTime'')) (\<lambda>publish_time.
     rbind (synthetic_fixture_id attributes) (\<lambda>fixture.
     rbind (optional_timestamp fromiso (dget payload ''createdAt'')) (\<lambda>created_at.
     let record_type = record_type_of attributes fixture;
         vin = nonempty (attribute attributes ''vin'');
         fallback = (case publish_time of Some t \<Rightarrow> t | None \<Rightarrow> now);
         received = milliseconds_timestamp (attribute attributes ''receivedat'')
     in Inr \<lparr>in_source_timestamp = (case created_at of Some t \<Rightarrow> t | None \<Rightarrow> fallback),
          in_edge_received_at = (case received of Some t \<Rightarrow> t | None \<Rightarrow> fallback),
          in_payload = payload, in_vin = vin, in_record_type = record_type,
          in_transport_message_id = nonempty (attribute attributes ''txid''),
          in_pubsub_message_id = message_id, in_pubsub_publish_time = publish_time,
          in_pubsub_delivery_attempt = optional_int (dget wrapper ''deliveryAttempt''),
          in_client_version = nonempty (attribute attributes ''device_client_version''),
          in_receiver_record_version =
            (case attribute attributes ''version'' of None \<Rightarrow> None | Some s \<Rightarrow> int_of_str s),
          in_validation_error = delivery_error policy subscription fixture record_type vin
            (dget payload ''vin'') (created_at = None) (received = None),
          in_fixture_id = fixture,
          in_fail_first = (attribute attributes ''tpp_fixture_fail_first'' = Some ''true''),
          in_source_authentication = fst (classify_source policy subscription fixture record_type)\<rparr>)))"

definition decode_pubsub_push ::
  "(string \<Rightarrow> exn + val) \<Rightarrow> (string \<Rightarrow> string option) \<Rightarrow> (string \<Rightarrow> iso_time) \<Rightarrow>
   string \<Rightarrow> int \<Rightarrow> source_policy \<Rightarrow> exn + incoming" where
  "decode_pubsub_push loads b64 fromiso body now policy =
     rbind (invalid_push json_error ''invalid_json_wrapper'' (loads body)) (\<lambda>w.
     case w of VDict wrapper \<Rightarrow>
       (case dget wrapper ''message'' of VDict message \<Rightarrow>
          rbind (required_string wrapper ''subscription'') (\<lambda>subscription.
          rbind (required_string message ''messageId'') (\<lambda>message_id.
          rbind (required_string message ''data'') (\<lambda>encoded.
          rbind (invalid_push (\<lambda>e. json_error e \<or> e = LibraryError ''binascii.Error'') ''invalid_pubsub_data''
                   (rbind (b64decode b64 encoded) loads)) (\<lambda>p.
          case p of VDict payload \<Rightarrow>
            (case dget_default message ''attributes'' (VDict []) of VDict attributes \<Rightarrow>
               if list_all (\<lambda>(k, v). is_str v) attributes
               then interpret_delivery fromiso policy now wrapper message payload attributes
                      subscription message_id
               else Inl (InvalidPushMessageError ''invalid_pubsub_attributes'')
             | _ \<Rightarrow> Inl (InvalidPushMessageError ''invalid_pubsub_attributes''))
          | _ \<Rightarrow> Inl (InvalidPushMessageError ''payload_must_be_object'')))))
        | _ \<Rightarrow> Inl (InvalidPushMessageError ''missing_pubsub_message''))
     | _ \<Rightarrow> Inl (InvalidPushMessageError ''missing_pubsub_message''))"

subsection \<open>What a decoded delivery is\<close>

lemma or_error_None: "or_error err b r = None \<longleftrightarrow> err = None \<and> \<not> b"
  by (auto simp: or_error_def split: option.splits)

lemma classify_source_valid:
  "snd (classify_source policy sub None rt) = None \<Longrightarrow>
     sub \<noteq> synthetic_subscription policy \<and> fst (classify_source policy sub None rt) = ''tesla_mtls'' \<and>
     map_of (fleet_subscriptions policy) sub = Some rt"
  by (auto simp: classify_source_def Let_def split: if_splits option.splits)

text \<open>A delivery of the fleet (no fixture) without a reason to quarantine it.\<close>

lemma delivery_error_None:
  "delivery_error policy sub None rt vin pv undated unreceived = None \<Longrightarrow>
     sub \<noteq> synthetic_subscription policy \<and> fst (classify_source policy sub None rt) = ''tesla_mtls'' \<and>
     map_of (fleet_subscriptions policy) sub = Some rt \<and> rt \<in> set allowed_record_types \<and>
     (vin = None \<or> \<not> is_str pv \<or> the_str pv = [] \<or> Some (the_str pv) = vin) \<and> \<not> undated \<and> \<not> unreceived"
  using classify_source_valid [of policy sub rt] by (auto simp: delivery_error_def or_error_None)

lemma delivery_error_untrusted:
  "sub \<noteq> synthetic_subscription policy \<Longrightarrow> map_of (fleet_subscriptions policy) sub = None \<Longrightarrow>
     delivery_error policy sub fx rt vin pv undated unreceived = Some ''untrusted_pubsub_subscription''"
  by (simp add: delivery_error_def or_error_def classify_source_def)

lemma interpret_fields:
  assumes "interpret_delivery fromiso policy now wrapper message payload attributes subscription mid = Inr inc"
  shows "in_vin inc = nonempty (attribute attributes ''vin'')"
    and "\<exists>undated unreceived. in_validation_error inc = delivery_error policy subscription (in_fixture_id inc)
        (in_record_type inc) (in_vin inc) (dget payload ''vin'') undated unreceived"
proof -
  from assms show "in_vin inc = nonempty (attribute attributes ''vin'')"
    unfolding interpret_delivery_def Let_def inr_simps by (elim exE conjE) (simp only: sum.inject, hypsubst, simp only: incoming.simps)
  from assms show "\<exists>undated unreceived. in_validation_error inc = delivery_error policy subscription
      (in_fixture_id inc) (in_record_type inc) (in_vin inc) (dget payload ''vin'') undated unreceived"
    unfolding interpret_delivery_def Let_def inr_simps
    by (elim exE conjE) (simp only: sum.inject, hypsubst, simp only: incoming.simps, blast)
qed

text \<open>A decoded delivery, with the wrapper, message, payload and attributes it came from.\<close>

definition decoded_from :: "(string \<Rightarrow> exn + val) \<Rightarrow> (string \<Rightarrow> string option) \<Rightarrow> string \<Rightarrow>
    dict \<Rightarrow> dict \<Rightarrow> dict \<Rightarrow> dict \<Rightarrow> string \<Rightarrow> string \<Rightarrow> bool" where
  "decoded_from loads b64 body wrapper message payload attributes subscription message_id \<longleftrightarrow>
     loads body = Inr (VDict wrapper) \<and> dget wrapper ''message'' = VDict message \<and>
     required_string wrapper ''subscription'' = Inr subscription \<and>
     required_string message ''messageId'' = Inr message_id \<and>
     (\<exists>encoded bytes. required_string message ''data'' = Inr encoded \<and> b64decode b64 encoded = Inr bytes \<and>
        loads bytes = Inr (VDict payload)) \<and>
     dget_default message ''attributes'' (VDict []) = VDict attributes \<and>
     list_all (\<lambda>(k, v). is_str v) attributes"

lemma invalid_push_eq_Inr [inr_simps]: "invalid_push c m r = Inr x \<longleftrightarrow> r = Inr x"
  by (auto simp: invalid_push_def split: sum.splits)

lemma decode_eq_Inr:
  "decode_pubsub_push loads b64 fromiso body now policy = Inr inc \<longleftrightarrow>
     (\<exists>wrapper message payload attributes subscription message_id.
        decoded_from loads b64 body wrapper message payload attributes subscription message_id \<and>
        interpret_delivery fromiso policy now wrapper message payload attributes subscription message_id
          = Inr inc)"
  unfolding decode_pubsub_push_def decoded_from_def by (simp add: inr_simps) blast

end
