(* ===== verification/TelemetryIngest.thy ===== *)
theory TelemetryIngest
  imports TelemetryDecode
begin

text \<open>
  The rest of the telemetry processor: the Firestore registry, the BigQuery sink, the fixture gate
  and the push-token verifier of \<open>gcp.py\<close>, \<open>TelemetryProcessor.process\<close> and the HTTP handler of
  \<open>main.py\<close>.

  The state is the four Firestore collections and the BigQuery tables, each the list of its rows.
  \<open>ins\<close> is the answer of \<open>insert_rows_json\<close> for a table and a row.  An empty error list means that the row is
  stored, a non-empty one that it is not.  A call that raises may have stored the row all the same: its answer may
  have been lost, and the client may have sent it again.  The number of rows it left is part of the answer.
\<close>

subsection \<open>State\<close>

record ingest_state =
  vin_index :: "(string \<times> dict) list"
  vehicle_docs :: "(string \<times> dict) list"
  user_docs :: "(string \<times> dict) list"
  fixture_docs :: "(string \<times> dict) list"
  tables :: "(string \<times> dict) list"   \<comment> \<open>appended rows, newest last, each with its table\<close>

datatype insert_answer = InsertRaises nat | InsertErrors "dict list"

record telemetry_settings =
  project_id :: string
  quarantine_table :: string
  synthetic_table :: string
  receiver_version :: string

definition str_present :: "string option \<Rightarrow> bool" where
  "str_present x = (x \<noteq> None \<and> x \<noteq> Some [])"

subsection \<open>The vehicle registry\<close>

definition optional_string :: "val \<Rightarrow> string option" where
  "optional_string v = (if is_str v \<and> the_str v \<noteq> [] then Some (the_str v) else None)"

definition dataset_char :: "char \<Rightarrow> bool" where
  "dataset_char c = (is_lower c \<or> is_decimal c \<or> c = CHR ''_'')"

text \<open>\<open>DATASET_ID\<close>: \<open>tesla_u_[a-z0-9_]{1,80}\<close>.\<close>

definition valid_dataset_id :: "string \<Rightarrow> bool" where
  "valid_dataset_id s =
     (starts_with ''tesla_u_'' s \<and> 1 \<le> length (drop 8 s) \<and> length (drop 8 s) \<le> 80 \<and>
      list_all dataset_char (drop 8 s))"

definition registry_resolve ::
  "(string \<Rightarrow> string) \<Rightarrow> ingest_state \<Rightarrow> string \<Rightarrow> vehicle_route option" where
  "registry_resolve H s vin =
     (case map_of (vin_index s) (H vin) of
        None \<Rightarrow> None
      | Some index_data \<Rightarrow>
          (case (dget index_data ''vehicle_id'', dget index_data ''owner_user_id'') of
             (VStr vehicle_id, VStr owner_user_id) \<Rightarrow>
               (case map_of (vehicle_docs s) vehicle_id of
                  None \<Rightarrow> None
                | Some vehicle_data \<Rightarrow>
                    if dget vehicle_data ''vin'' \<noteq> VStr vin
                       \<or> dget vehicle_data ''owner_user_id'' \<noteq> VStr owner_user_id
                       \<or> dget index_data ''owner_user_id'' \<noteq> dget vehicle_data ''owner_user_id''
                    then None
                    else (case take 2 (filter (\<lambda>(k, u). dget u ''user_id'' = VStr owner_user_id)
                                 (user_docs s)) of
                            [(k, user_data)] \<Rightarrow>
                              if dget user_data ''status'' \<noteq> VStr ''active''
                                 \<or> \<not> is_str (dget user_data ''dataset_id'')
                                 \<or> \<not> valid_dataset_id (the_str (dget user_data ''dataset_id''))
                              then None
                              else Some \<lparr>rt_user_id = owner_user_id,
                                     rt_dataset_id = the_str (dget user_data ''dataset_id''),
                                     rt_vehicle_id = vehicle_id,
                                     rt_tesla_vehicle_id = optional_string (dget vehicle_data ''tesla_vehicle_id''),
                                     rt_config_version =
                                       optional_string (dget vehicle_data ''telemetry_config_version''),
                                     rt_config_hash =
                                       optional_string (dget vehicle_data ''telemetry_config_hash'')\<rparr>
                          | _ \<Rightarrow> None))
           | _ \<Rightarrow> None))"

text \<open>Exactly one allowlist document has the user identifier, it is active and names the dataset.\<close>

definition sole_active_user :: "ingest_state \<Rightarrow> string \<Rightarrow> string \<Rightarrow> bool" where
  "sole_active_user s uid ds \<longleftrightarrow>
     (\<exists>k user. filter (\<lambda>(k, u). dget u ''user_id'' = VStr uid) (user_docs s) = [(k, user)] \<and>
        dget user ''status'' = VStr ''active'' \<and> dget user ''dataset_id'' = VStr ds)"

subsection \<open>The sink\<close>

definition diagnostic_char :: "char \<Rightarrow> bool" where
  "diagnostic_char c = (is_alnum c \<or> c \<in> set ''_.-'')"

definition valid_diagnostic :: "string \<Rightarrow> bool" where
  "valid_diagnostic s = (1 \<le> length s \<and> length s \<le> 80 \<and> list_all diagnostic_char s)"

fun error_diagnostic :: "val \<Rightarrow> string option" where
  "error_diagnostic (VDict detail) =
     (let reason = dget detail ''reason''; location = dget detail ''location''
      in if \<not> is_str reason \<or> \<not> valid_diagnostic (the_str reason) then None
         else if is_str location \<and> valid_diagnostic (the_str location)
         then Some (the_str reason @ ''@'' @ the_str location)
         else Some (the_str reason))"
| "error_diagnostic _ = None"

definition row_diagnostics :: "dict \<Rightarrow> string list" where
  "row_diagnostics row_error =
     (case dget row_error ''errors'' of
        VList details \<Rightarrow> List.map_filter error_diagnostic details
      | _ \<Rightarrow> [])"

definition rejection_category :: "dict list \<Rightarrow> string" where
  "rejection_category errors =
     (let diagnostics = sort (remdups (concat (map row_diagnostics errors)));
          suffix = join '','' diagnostics
      in ''bigquery_append_rejected:'' @ (if suffix = [] then ''unknown'' else suffix))"

definition sink_append ::
  "(string \<Rightarrow> dict \<Rightarrow> insert_answer) \<Rightarrow> string \<Rightarrow> dict \<Rightarrow> (ingest_state, exn, unit) oper" where
  "sink_append ins table row s =
     (case ins table row of
        InsertRaises k \<Rightarrow> (Inl (RetryableProcessingError ''bigquery_append_failed''),
          s\<lparr>tables := tables s @ replicate k (table, row)\<rparr>)
      | InsertErrors errors \<Rightarrow>
          if errors \<noteq> [] then (Inl (RetryableProcessingError (rejection_category errors)), s)
          else (Inr (), s\<lparr>tables := tables s @ [(table, row)]\<rparr>))"

definition user_table :: "telemetry_settings \<Rightarrow> string \<Rightarrow> string" where
  "user_table cfg dataset = project_id cfg @ ''.'' @ dataset @ ''.'' @ raw_telemetry_table"

definition quarantine_row :: "dict \<Rightarrow> string \<Rightarrow> dict" where
  "quarantine_row row reason = AList.update ''quarantine_reason'' (VStr reason) row"

definition synthetic_row :: "dict \<Rightarrow> string \<Rightarrow> bool \<Rightarrow> dict" where
  "synthetic_row row fixture recorded =
     AList.update ''first_failure_recorded'' (VBool recorded)
       (AList.update ''fixture_id'' (VStr fixture) row)"

subsection \<open>The fixture gate\<close>

definition should_fail_first ::
  "(string \<Rightarrow> string) \<Rightarrow> int \<Rightarrow> string \<Rightarrow> int \<Rightarrow> (ingest_state, exn, bool) oper" where
  "should_fail_first H srv fixture now s =
     (case map_of (fixture_docs s) (H fixture) of
        Some d \<Rightarrow> (Inr False, s)
      | None \<Rightarrow> (Inr True, s\<lparr>fixture_docs := AList.update (H fixture)
           [(''fixture_id'', VStr fixture), (''first_failure_at'', VTime now),
            (''expires_at'', VTime (now + 86400000000)), (''created_at'', VTime srv)] (fixture_docs s)\<rparr>))"

subsection \<open>Processing one delivery\<close>

definition config_provenance :: "vehicle_route \<Rightarrow> string" where
  "config_provenance r =
     (if str_present (rt_config_version r) \<and> str_present (rt_config_hash r) then ''complete''
      else if str_present (rt_config_version r) \<or> str_present (rt_config_hash r) then ''partial''
      else ''missing'')"

definition event_of :: "telemetry_settings \<Rightarrow> incoming \<Rightarrow> int \<Rightarrow> raw_event" where
  "event_of cfg inc now =
     \<lparr>ev_source_timestamp = in_source_timestamp inc, ev_ingested_at = in_edge_received_at inc,
      ev_processed_at = now, ev_vehicle_id = None, ev_vin = in_vin inc, ev_tesla_vehicle_id = None,
      ev_record_type = in_record_type inc, ev_payload = in_payload inc, ev_config_version = None,
      ev_config_hash = None, ev_transport_message_id = in_transport_message_id inc,
      ev_pubsub_message_id = in_pubsub_message_id inc,
      ev_pubsub_publish_time = in_pubsub_publish_time inc,
      ev_pubsub_delivery_attempt = in_pubsub_delivery_attempt inc,
      ev_client_version = in_client_version inc, ev_receiver_version = receiver_version cfg,
      ev_receiver_record_version = in_receiver_record_version inc\<rparr>"

definition base_result :: "string \<Rightarrow> incoming \<Rightarrow> processing_result" where
  "base_result disposition inc =
     \<lparr>res_disposition = disposition, res_record_type = in_record_type inc,
      res_pubsub_message_id = in_pubsub_message_id inc, res_vehicle_id = None, res_user_id = None,
      res_quarantine_reason = None, res_fixture_id = None,
      res_source_authentication = Some (in_source_authentication inc), res_provenance = None\<rparr>"

definition owned_event :: "raw_event \<Rightarrow> vehicle_route \<Rightarrow> raw_event" where
  "owned_event e r = e\<lparr>ev_vehicle_id := Some (rt_vehicle_id r), ev_tesla_vehicle_id := rt_tesla_vehicle_id r,
     ev_config_version := rt_config_version r, ev_config_hash := rt_config_hash r\<rparr>"

text \<open>What the processor needs of its surroundings, in one record.\<close>

record ingest_env =
  env_hash :: "string \<Rightarrow> string"
  env_isofmt :: "int \<Rightarrow> string"
  env_dumps :: "dict \<Rightarrow> string"
  env_insert :: "string \<Rightarrow> dict \<Rightarrow> insert_answer"
  env_server_time :: int

definition quarantine ::
  "ingest_env \<Rightarrow> telemetry_settings \<Rightarrow> incoming \<Rightarrow> raw_event \<Rightarrow> string \<Rightarrow>
   (ingest_state, exn, processing_result) oper" where
  "quarantine env cfg inc e reason =
     obind (sink_append (env_insert env) (quarantine_table cfg)
              (quarantine_row (bigquery_row (env_isofmt env) (env_dumps env) e) reason)) (\<lambda>_.
     oret ((base_result ''quarantined'' inc)\<lparr>res_quarantine_reason := Some reason\<rparr>))"

definition process ::
  "ingest_env \<Rightarrow> telemetry_settings \<Rightarrow> incoming \<Rightarrow> int \<Rightarrow>
   (ingest_state, exn, processing_result) oper" where
  "process env cfg inc now =
     (let e = event_of cfg inc now
      in case in_validation_error inc of
           Some reason \<Rightarrow> quarantine env cfg inc e reason
         | None \<Rightarrow>
             (case in_fixture_id inc of
                Some fixture \<Rightarrow>
                  obind (if in_fail_first inc
                         then obind (should_fail_first (env_hash env) (env_server_time env) fixture now)
                                (\<lambda>failing. if failing
                                   then oraise (RetryableProcessingError ''synthetic_first_delivery_failure'')
                                   else oret True)
                         else oret False) (\<lambda>recorded.
                  obind (sink_append (env_insert env) (synthetic_table cfg)
                           (synthetic_row (bigquery_row (env_isofmt env) (env_dumps env) e) fixture recorded)) (\<lambda>_.
                  oret ((base_result ''synthetic'' inc)\<lparr>res_fixture_id := Some fixture\<rparr>)))
              | None \<Rightarrow>
                  (case in_vin inc of
                     None \<Rightarrow> quarantine env cfg inc e ''missing_vin''
                   | Some vin \<Rightarrow>
                       (\<lambda>s. case registry_resolve (env_hash env) s vin of
                          None \<Rightarrow> quarantine env cfg inc e ''unknown_vin'' s
                        | Some r \<Rightarrow>
                            obind (sink_append (env_insert env) (user_table cfg (rt_dataset_id r))
                                     (bigquery_row (env_isofmt env) (env_dumps env) (owned_event e r))) (\<lambda>_.
                            oret ((base_result ''persisted'' inc)
                              \<lparr>res_vehicle_id := Some (rt_vehicle_id r), res_user_id := Some (rt_user_id r),
                               res_provenance := Some (config_provenance r)\<rparr>)) s))))"

subsection \<open>The push endpoint\<close>

text \<open>\<open>GooglePushTokenVerifier.verify\<close>; \<open>verify_token\<close> is \<open>id_token.verify_oauth2_token\<close>.\<close>

definition verify_push ::
  "(string \<Rightarrow> string \<Rightarrow> exn + dict) \<Rightarrow> string \<Rightarrow> string \<Rightarrow> string option \<Rightarrow> exn + unit" where
  "verify_push verify_token audience expected_email authorization =
     (case authorization of
        None \<Rightarrow> Inl (ValueError ''missing_bearer_token'')
      | Some header \<Rightarrow>
          if \<not> starts_with ''Bearer '' header then Inl (ValueError ''missing_bearer_token'')
          else (let token = strip (remove_prefix ''Bearer '' header)
                in if token = [] then Inl (ValueError ''missing_bearer_token'')
                   else rbind (verify_token token audience) (\<lambda>claims.
                     if dget claims ''iss'' \<notin> {VStr ''accounts.google.com'', VStr ''https://accounts.google.com''}
                     then Inl (ValueError ''invalid_token_issuer'')
                     else if dget claims ''email'' \<noteq> VStr expected_email
                             \<or> dget claims ''email_verified'' \<noteq> VBool True
                     then Inl (ValueError ''unexpected_push_identity'')
                     else Inr ())))"

definition max_push_body_bytes :: int where
  "max_push_body_bytes = 2000000"

definition content_length :: "string option \<Rightarrow> int option" where
  "content_length raw =
     (let n = (case int_of_str (case raw of None \<Rightarrow> [] | Some s \<Rightarrow> s) of None \<Rightarrow> -1 | Some i \<Rightarrow> i)
      in if n < 1 \<or> n > max_push_body_bytes then None else Some n)"

record push_request =
  req_path :: string
  req_authorization :: "string option"
  req_content_length :: "string option"
  req_body :: "int \<Rightarrow> string"   \<comment> \<open>\<open>rfile.read(length)\<close>\<close>

text \<open>The answer: the HTTP status and the warning that is logged, if any (event and category).\<close>

record push_response =
  resp_status :: nat
  resp_event :: "(string \<times> string) option"

definition ack_event :: "string \<Rightarrow> push_response" where
  "ack_event category = \<lparr>resp_status = 204, resp_event = Some (''pubsub_push_rejected'', category)\<rparr>"

text \<open>
  \<open>do_POST\<close>: 204 acknowledges the delivery to Pub/Sub, 503 asks for it again.  \<open>verify\<close> and
  \<open>decode\<close> are the verifier and \<open>decode_pubsub_push\<close> at the configured policy, \<open>processing\<close> is the processor.
\<close>

definition handle_delivery ::
  "(string option \<Rightarrow> exn + unit) \<Rightarrow> (string \<Rightarrow> int \<Rightarrow> exn + incoming) \<Rightarrow>
   (incoming \<Rightarrow> int \<Rightarrow> (ingest_state, exn, processing_result) oper) \<Rightarrow>
   push_request \<Rightarrow> int \<Rightarrow> ingest_state \<Rightarrow> push_response \<times> ingest_state" where
  "handle_delivery verify decode processing req now s =
     (if req_path req \<noteq> ''/pubsub/push'' then (\<lparr>resp_status = 404, resp_event = None\<rparr>, s)
      else case verify (req_authorization req) of
        Inl e \<Rightarrow> (\<lparr>resp_status = 401, resp_event = Some (''pubsub_push_rejected'', ''unauthorized'')\<rparr>, s)
      | Inr _ \<Rightarrow>
          (case content_length (req_content_length req) of
             None \<Rightarrow> (ack_event ''invalid_size'', s)
           | Some n \<Rightarrow>
               (case obind (olift (decode (req_body req n) now)) (\<lambda>inc. processing inc now) s of
                  (Inr result, t) \<Rightarrow> (\<lparr>resp_status = 204, resp_event = None\<rparr>, t)
                | (Inl (InvalidPushMessageError category), t) \<Rightarrow> (ack_event category, t)
                | (Inl (RetryableProcessingError category), t) \<Rightarrow>
                    (\<lparr>resp_status = 503, resp_event = Some (''telemetry_persistence_retry'', category)\<rparr>, t)
                | (Inl _, t) \<Rightarrow>
                    (\<lparr>resp_status = 503, resp_event = Some (''telemetry_processing_failed'', [])\<rparr>, t))))"

text \<open>The handler of a service with its processor.\<close>

definition handle_push ::
  "(string option \<Rightarrow> exn + unit) \<Rightarrow> (string \<Rightarrow> int \<Rightarrow> exn + incoming) \<Rightarrow>
   ingest_env \<Rightarrow> telemetry_settings \<Rightarrow> push_request \<Rightarrow> int \<Rightarrow> ingest_state \<Rightarrow> push_response \<times> ingest_state" where
  "handle_push verify decode env cfg = handle_delivery verify decode (process env cfg)"

text \<open>\<open>_log_result\<close>: the name of the event a result is logged under.\<close>

definition result_event :: "processing_result \<Rightarrow> string" where
  "result_event r =
     (if str_present (res_quarantine_reason r)
      then if res_quarantine_reason r \<in> {Some ''unknown_vin'', Some ''missing_vin''}
           then ''unknown_vehicle_telemetry'' else ''telemetry_quarantined''
      else if str_present (res_provenance r) \<and> res_provenance r \<noteq> Some ''complete''
      then ''telemetry_config_provenance_missing''
      else ''telemetry_delivery'')"

end
