(* ===== verification/TelemetryGuarantees.thy ===== *)
theory TelemetryGuarantees
  imports TelemetryIngest
begin

text \<open>
  What the telemetry processor guarantees: an acknowledged delivery was stored, in its table, a
  stored row belongs to the owner of the vehicle, only authenticated fleet subscriptions reach a
  user's table, and a synthetic fixture is failed exactly once.
\<close>

subsection \<open>The operations, branch by branch\<close>

lemma sink_append_cases:
  assumes "sink_append ins table row s = (r, t)"
  obtains (stored) "r = Inr ()" "t = s\<lparr>tables := tables s @ [(table, row)]\<rparr>" "ins table row = InsertErrors []"
  | (failed) m k where "r = Inl (RetryableProcessingError m)" "t = s\<lparr>tables := tables s @ replicate k (table, row)\<rparr>"
proof (cases "ins table row")
  case (InsertRaises k)
  with assms show thesis by (intro failed [of _ k]) (auto simp: sink_append_def)
next
  case (InsertErrors errors)
  with assms stored failed [of _ 0] show thesis by (auto simp: sink_append_def split: if_splits)
qed

lemma sink_append_ok: "ins table row = InsertErrors [] \<Longrightarrow>
    sink_append ins table row s = (Inr (), s\<lparr>tables := tables s @ [(table, row)]\<rparr>)"
  by (simp add: sink_append_def)

text \<open>Appending and then returning: stored with the result, or failed, with what the failed call left.\<close>

lemma append_then_cases:
  assumes "obind (sink_append ins table row) (\<lambda>_. oret x) s = (r, t)"
  obtains (stored) "r = Inr x" "t = s\<lparr>tables := tables s @ [(table, row)]\<rparr>"
  | (failed) m k where "r = Inl (RetryableProcessingError m)" "t = s\<lparr>tables := tables s @ replicate k (table, row)\<rparr>"
proof (cases "sink_append ins table row s")
  case (Pair q u)
  then show thesis
  proof (cases rule: sink_append_cases)
    case stored
    with Pair assms show thesis by (intro that(1)) (auto simp: obind_def oret_def)
  next
    case (failed m k)
    with Pair assms show thesis by (intro that(2) [of m k]) (auto simp: obind_def)
  qed
qed

lemma quarantine_cases:
  assumes "quarantine env cfg inc e reason s = (r, t)"
  obtains (stored) "r = Inr ((base_result ''quarantined'' inc)\<lparr>res_quarantine_reason := Some reason\<rparr>)"
      "t = s\<lparr>tables := tables s @ [(quarantine_table cfg,
          quarantine_row (bigquery_row (env_isofmt env) (env_dumps env) e) reason)]\<rparr>"
  | (failed) m k where "r = Inl (RetryableProcessingError m)"
      "t = s\<lparr>tables := tables s @ replicate k (quarantine_table cfg,
          quarantine_row (bigquery_row (env_isofmt env) (env_dumps env) e) reason)\<rparr>"
  using assms unfolding quarantine_def by (rule append_then_cases)

lemma gate_cases:
  assumes "obind (should_fail_first H srv fixture now)
      (\<lambda>failing. if failing then oraise e else oret True) s = (r, t)"
  obtains (first) "map_of (fixture_docs s) (H fixture) = None" "r = Inl e" "tables t = tables s"
      "\<exists>d. map_of (fixture_docs t) (H fixture) = Some d"
  | (later) "map_of (fixture_docs s) (H fixture) \<noteq> None" "r = Inr True" "t = s"
  using assms
  by (cases "map_of (fixture_docs s) (H fixture)") (auto simp: should_fail_first_def obind_def oraise_def oret_def)

text \<open>Where a delivery belongs, and the row it becomes there; a fixture that is to fail first, and did not yet, goes nowhere.\<close>

definition delivery_entry ::
  "ingest_env \<Rightarrow> telemetry_settings \<Rightarrow> incoming \<Rightarrow> int \<Rightarrow> ingest_state \<Rightarrow> (string \<times> dict) option" where
  "delivery_entry env cfg inc now s =
     (let row = bigquery_row (env_isofmt env) (env_dumps env);
          e = event_of cfg inc now;
          quarantined = (\<lambda>reason. Some (quarantine_table cfg, quarantine_row (row e) reason))
      in case in_validation_error inc of
           Some reason \<Rightarrow> quarantined reason
         | None \<Rightarrow> (case in_fixture_id inc of
             Some fixture \<Rightarrow>
               if in_fail_first inc \<and> map_of (fixture_docs s) (env_hash env fixture) = None then None
               else Some (synthetic_table cfg, synthetic_row (row e) fixture (in_fail_first inc))
           | None \<Rightarrow> (case in_vin inc of
               None \<Rightarrow> quarantined ''missing_vin''
             | Some vin \<Rightarrow> (case registry_resolve (env_hash env) s vin of
                 None \<Rightarrow> quarantined ''unknown_vin''
               | Some r \<Rightarrow> Some (user_table cfg (rt_dataset_id r), row (owned_event e r))))))"

text \<open>One delivery: its row stored, or a failure that can be retried, with what a call that raised has left.\<close>

definition delivered ::
  "ingest_env \<Rightarrow> (string \<times> dict) option \<Rightarrow> exn + processing_result \<Rightarrow> ingest_state \<Rightarrow> ingest_state \<Rightarrow> bool" where
  "delivered env entry r s t \<longleftrightarrow> (case entry of
       None \<Rightarrow> (\<exists>m. r = Inl (RetryableProcessingError m)) \<and> tables t = tables s
     | Some (table, row) \<Rightarrow> (case env_insert env table row of
         InsertErrors errors \<Rightarrow>
           if errors = [] then (\<exists>x. r = Inr x) \<and> t = s\<lparr>tables := tables s @ [(table, row)]\<rparr>
           else (\<exists>m. r = Inl (RetryableProcessingError m)) \<and> t = s
       | InsertRaises k \<Rightarrow> (\<exists>m. r = Inl (RetryableProcessingError m)) \<and> t = s\<lparr>tables := tables s @ replicate k (table, row)\<rparr>))"

lemma append_delivers:
  assumes "obind (sink_append (env_insert env) table row) (\<lambda>_. oret x) s = (r, t)"
  shows "delivered env (Some (table, row)) r s t"
  using assms
  by (auto simp: delivered_def sink_append_def obind_def oret_def split: insert_answer.splits if_splits)

lemma quarantine_delivers:
  assumes "quarantine env cfg inc e reason s = (r, t)"
  shows "delivered env (Some (quarantine_table cfg, quarantine_row (bigquery_row (env_isofmt env) (env_dumps env) e) reason)) r s t"
  using assms unfolding quarantine_def by (rule append_delivers)

lemma fixture_delivers:
  assumes "in_validation_error inc = None" and "in_fixture_id inc = Some fixture" and "process env cfg inc now s = (r, t)"
  shows "delivered env (delivery_entry env cfg inc now s) r s t"
proof -
  let ?row = "synthetic_row (bigquery_row (env_isofmt env) (env_dumps env) (event_of cfg inc now)) fixture"
  let ?put = "\<lambda>recorded. obind (sink_append (env_insert env) (synthetic_table cfg) (?row recorded))
      (\<lambda>_. oret ((base_result ''synthetic'' inc)\<lparr>res_fixture_id := Some fixture\<rparr>))"
  let ?gate = "obind (should_fail_first (env_hash env) (env_server_time env) fixture now)
      (\<lambda>failing. if failing then oraise (RetryableProcessingError ''synthetic_first_delivery_failure'') else oret True)"
  show ?thesis
  proof (cases "in_fail_first inc")
    case True
    with assms have p: "obind ?gate ?put s = (r, t)" by (simp add: process_def)
    obtain q u where g: "?gate s = (q, u)" by fastforce
    then show ?thesis
    proof (cases rule: gate_cases)
      case first
      with g have "?gate s = (Inl (RetryableProcessingError ''synthetic_first_delivery_failure''), u)" by simp
      then have "obind ?gate ?put s = (Inl (RetryableProcessingError ''synthetic_first_delivery_failure''), u)" by (rule obind_Inl)
      with p first True assms(1,2) show ?thesis by (auto simp: delivered_def delivery_entry_def Let_def)
    next
      case later
      with g p have "?put True s = (r, t)" by (simp add: obind_def)
      from append_delivers [OF this] later True assms(1,2) show ?thesis by (auto simp: delivery_entry_def Let_def)
    qed
  next
    case False
    with assms have "?put False s = (r, t)" by (simp add: process_def obind_def oret_def)
    from append_delivers [OF this] False assms(1,2) show ?thesis by (simp add: delivery_entry_def Let_def)
  qed
qed

lemma process_delivers:
  assumes "process env cfg inc now s = (r, t)"
  shows "delivered env (delivery_entry env cfg inc now s) r s t"
proof (cases "in_validation_error inc")
  case (Some reason)
  with assms quarantine_delivers show ?thesis by (simp add: process_def delivery_entry_def Let_def)
next
  case valid: None
  show ?thesis
  proof (cases "in_fixture_id inc")
    case (Some fixture)
    from fixture_delivers [OF valid Some assms] show ?thesis .
  next
    case fixture: None
    show ?thesis
    proof (cases "in_vin inc")
      case None
      with assms valid fixture quarantine_delivers show ?thesis by (simp add: process_def delivery_entry_def Let_def)
    next
      case (Some vin)
      with assms valid fixture show ?thesis
        by (cases "registry_resolve (env_hash env) s vin")
          (auto simp: process_def delivery_entry_def Let_def intro: quarantine_delivers append_delivers)
    qed
  qed
qed

text \<open>A delivery that is persisted went through the registry.\<close>

lemma process_persisted:
  assumes "process env cfg inc now s = (Inr x, t)" and "res_disposition x = ''persisted''"
  obtains vin rt where "in_validation_error inc = None" "in_fixture_id inc = None" "in_vin inc = Some vin"
    "registry_resolve (env_hash env) s vin = Some rt"
    "t = s\<lparr>tables := tables s @ [(user_table cfg (rt_dataset_id rt),
        bigquery_row (env_isofmt env) (env_dumps env) (owned_event (event_of cfg inc now) rt))]\<rparr>"
    "res_user_id x = Some (rt_user_id rt)" "res_vehicle_id x = Some (rt_vehicle_id rt)"
proof -
  have q: False if "quarantine env cfg inc e reason s = (Inr x, t)" for e reason
    using that assms(2) by (cases rule: quarantine_cases) (auto simp: base_result_def)
  have v: "in_validation_error inc = None" using assms(1) q by (cases "in_validation_error inc") (auto simp: process_def)
  have f: "in_fixture_id inc = None"
  proof (rule ccontr)
    assume "in_fixture_id inc \<noteq> None"
    with assms v show False
      by (auto simp: process_def obind_eq_Inr oret_def base_result_def)
  qed
  obtain vin where vin: "in_vin inc = Some vin" using assms(1) q v f by (cases "in_vin inc") (auto simp: process_def)
  obtain rt where rt: "registry_resolve (env_hash env) s vin = Some rt"
    using assms(1) q v f vin by (cases "registry_resolve (env_hash env) s vin") (auto simp: process_def Let_def)
  from assms(1) v f vin rt show thesis
    by (auto simp: process_def Let_def base_result_def elim!: append_then_cases intro!: that)
qed

lemma registry_resolve_eq_Some:
  assumes "registry_resolve H s vin = Some rt"
  obtains index vehicle k user where
    "map_of (vin_index s) (H vin) = Some index" "dget index ''vehicle_id'' = VStr (rt_vehicle_id rt)"
    "map_of (vehicle_docs s) (rt_vehicle_id rt) = Some vehicle"
    "dget vehicle ''vin'' = VStr vin" "dget vehicle ''owner_user_id'' = VStr (rt_user_id rt)"
    "take 2 (filter (\<lambda>(k, u). dget u ''user_id'' = VStr (rt_user_id rt)) (user_docs s)) = [(k, user)]"
    "dget user ''status'' = VStr ''active''" "dget user ''dataset_id'' = VStr (rt_dataset_id rt)"
    "valid_dataset_id (rt_dataset_id rt)"
  using assms
  by (auto simp: registry_resolve_def is_str_conv split: option.splits val.splits if_splits list.splits prod.splits)

lemma take_2_singleton: "take 2 xs = [x] \<Longrightarrow> xs = [x]"
  by (cases xs; cases "tl xs") auto

subsection \<open>Properties\<close>

text \<open>C22: Acknowledgement means storage: an authenticated, well-formed delivery is answered 204 exactly when its row was
  appended to the table it belongs to, once and with nothing else changed.  Otherwise it is answered 503, so that Pub/Sub
  delivers it again; then no table changed, except when the insertion raised: the rows that such a call left, if its
  answer was lost, are copies of that row in that table.  So delivery is at least once, not exactly once.\<close>
theorem acknowledged_iff_stored:
  assumes "req_path req = ''/pubsub/push''" and "verify (req_authorization req) = Inr ()"
    and "content_length (req_content_length req) = Some n" and "decode (req_body req n) now = Inr inc"
    and "handle_push verify decode env cfg req now s = (resp, t)"
  shows "case delivery_entry env cfg inc now s of
      None \<Rightarrow> resp_status resp = 503 \<and> tables t = tables s
    | Some (table, row) \<Rightarrow> (case env_insert env table row of
        InsertErrors errors \<Rightarrow> if errors = [] then resp_status resp = 204 \<and> t = s\<lparr>tables := tables s @ [(table, row)]\<rparr>
          else resp_status resp = 503 \<and> t = s
      | InsertRaises k \<Rightarrow> resp_status resp = 503 \<and> t = s\<lparr>tables := tables s @ replicate k (table, row)\<rparr>)"
proof (cases "process env cfg inc now s")
  case (Pair r u)
  have h: "handle_push verify decode env cfg req now s =
      (case (r, u) of
         (Inr result, t) \<Rightarrow> (\<lparr>resp_status = 204, resp_event = None\<rparr>, t)
       | (Inl (InvalidPushMessageError category), t) \<Rightarrow> (ack_event category, t)
       | (Inl (RetryableProcessingError category), t) \<Rightarrow>
           (\<lparr>resp_status = 503, resp_event = Some (''telemetry_persistence_retry'', category)\<rparr>, t)
       | (Inl _, t) \<Rightarrow> (\<lparr>resp_status = 503, resp_event = Some (''telemetry_processing_failed'', [])\<rparr>, t))"
    using assms(1-4) Pair by (simp add: handle_push_def handle_delivery_def obind_def olift_def)
  have d: "delivered env (delivery_entry env cfg inc now s) r s u" using Pair by (rule process_delivers)
  show ?thesis
  proof (cases "delivery_entry env cfg inc now s")
    case None
    with d h assms(5) show ?thesis by (auto simp: delivered_def)
  next
    case (Some entry)
    obtain table row where e: "entry = (table, row)" by fastforce
    show ?thesis
    proof (cases "env_insert env table row")
      case (InsertRaises k)
      with d h assms(5) Some e show ?thesis by (auto simp: delivered_def)
    next
      case (InsertErrors errors)
      with d h assms(5) Some e show ?thesis by (cases "errors = []") (auto simp: delivered_def)
    qed
  qed
qed

text \<open>C23: Tenant isolation of stored telemetry: a persisted delivery appends one row that fits the table
  schema to the raw table of a dataset that belongs to the sole, active user who owns the vehicle
  record of the certificate's VIN, and the row carries that VIN and vehicle.\<close>
theorem persisted_row_belongs_to_the_owner:
  assumes "process env cfg inc now s = (Inr x, t)" and "res_disposition x = ''persisted''"
  shows "\<exists>vin vid vehicle uid ds row. in_vin inc = Some vin \<and>
    map_of (vehicle_docs s) vid = Some vehicle \<and> dget vehicle ''vin'' = VStr vin \<and>
    dget vehicle ''owner_user_id'' = VStr uid \<and> sole_active_user s uid ds \<and> valid_dataset_id ds \<and>
    t = s\<lparr>tables := tables s @ [(user_table cfg ds, row)]\<rparr> \<and> row_fits raw_telemetry_schema row \<and>
    dget row ''vin'' = VStr vin \<and> dget row ''vehicle_id'' = VStr vid \<and> res_user_id x = Some uid"
proof -
  from assms obtain vin rt where p: "in_vin inc = Some vin"
    "registry_resolve (env_hash env) s vin = Some rt"
    "t = s\<lparr>tables := tables s @ [(user_table cfg (rt_dataset_id rt),
        bigquery_row (env_isofmt env) (env_dumps env) (owned_event (event_of cfg inc now) rt))]\<rparr>"
    "res_user_id x = Some (rt_user_id rt)"
    by (rule process_persisted)
  from p(2) obtain index vehicle k user where r:
    "map_of (vehicle_docs s) (rt_vehicle_id rt) = Some vehicle"
    "dget vehicle ''vin'' = VStr vin" "dget vehicle ''owner_user_id'' = VStr (rt_user_id rt)"
    "take 2 (filter (\<lambda>(k, u). dget u ''user_id'' = VStr (rt_user_id rt)) (user_docs s)) = [(k, user)]"
    "dget user ''status'' = VStr ''active''" "dget user ''dataset_id'' = VStr (rt_dataset_id rt)"
    "valid_dataset_id (rt_dataset_id rt)"
    by (rule registry_resolve_eq_Some)
  let ?e = "owned_event (event_of cfg inc now) rt"
  have e: "ev_vehicle_id ?e = Some (rt_vehicle_id rt)" "ev_vin ?e = Some vin"
    using p(1) by (simp_all add: owned_event_def event_of_def)
  have row: "row_fits raw_telemetry_schema (bigquery_row (env_isofmt env) (env_dumps env) ?e)"
    "dget (bigquery_row (env_isofmt env) (env_dumps env) ?e) ''vin'' = VStr vin"
    "dget (bigquery_row (env_isofmt env) (env_dumps env) ?e) ''vehicle_id'' = VStr (rt_vehicle_id rt)"
    by (simp_all add: bigquery_row_fits e) (simp_all add: bigquery_row_def dget_def e)
  have "sole_active_user s (rt_user_id rt) (rt_dataset_id rt)"
    unfolding sole_active_user_def using take_2_singleton [OF r(4)] r(5,6) by blast
  with p r row show ?thesis by blast
qed

subsection \<open>A state to evaluate on\<close>

definition demo_env :: ingest_env where
  "demo_env = \<lparr>env_hash = id, env_isofmt = (\<lambda>t. ''t''), env_dumps = (\<lambda>d. ''{}''),
     env_insert = (\<lambda>table row. InsertErrors []), env_server_time = 0\<rparr>"

definition demo_cfg :: telemetry_settings where
  "demo_cfg = \<lparr>project_id = ''p'', quarantine_table = ''p.ops.q'', synthetic_table = ''p.ops.s'',
     receiver_version = ''v1''\<rparr>"

definition demo_ingest :: ingest_state where
  "demo_ingest = \<lparr>vin_index = [(''VIN1'', [(''vehicle_id'', VStr ''veh1''), (''owner_user_id'', VStr ''usr_1'')])],
     vehicle_docs = [(''veh1'', [(''vin'', VStr ''VIN1''), (''owner_user_id'', VStr ''usr_1'')])],
     user_docs = [(''a@b.c'', [(''user_id'', VStr ''usr_1''), (''status'', VStr ''active''),
       (''dataset_id'', VStr ''tesla_u_1'')])],
     fixture_docs = [], tables = []\<rparr>"

definition demo_incoming :: incoming where
  "demo_incoming = \<lparr>in_source_timestamp = 1, in_edge_received_at = 2, in_payload = [], in_vin = Some ''VIN1'',
     in_record_type = ''V'', in_transport_message_id = None, in_pubsub_message_id = ''m1'',
     in_pubsub_publish_time = None, in_pubsub_delivery_attempt = None, in_client_version = None,
     in_receiver_record_version = None, in_validation_error = None, in_fixture_id = None,
     in_fail_first = False, in_source_authentication = ''tesla_mtls''\<rparr>"

definition demo_request :: push_request where
  "demo_request = \<lparr>req_path = ''/pubsub/push'', req_authorization = Some ''Bearer x'',
     req_content_length = Some ''12'', req_body = (\<lambda>n. ''body'')\<rparr>"

lemma demo_process:
  "process demo_env demo_cfg demo_incoming 3 demo_ingest =
     (Inr ((base_result ''persisted'' demo_incoming)\<lparr>res_vehicle_id := Some ''veh1'',
        res_user_id := Some ''usr_1'', res_provenance := Some ''missing''\<rparr>),
      demo_ingest\<lparr>tables := [(''p.tesla_u_1.raw_telemetry_events'',
        bigquery_row (env_isofmt demo_env) (env_dumps demo_env)
          (owned_event (event_of demo_cfg demo_incoming 3) \<lparr>rt_user_id = ''usr_1'', rt_dataset_id = ''tesla_u_1'',
             rt_vehicle_id = ''veh1'', rt_tesla_vehicle_id = None, rt_config_version = None,
             rt_config_hash = None\<rparr>))]\<rparr>)"
  by code_simp

lemma demo_entry:
  "delivery_entry demo_env demo_cfg demo_incoming 3 demo_ingest = Some (''p.tesla_u_1.raw_telemetry_events'',
     bigquery_row (env_isofmt demo_env) (env_dumps demo_env)
       (owned_event (event_of demo_cfg demo_incoming 3) \<lparr>rt_user_id = ''usr_1'', rt_dataset_id = ''tesla_u_1'',
          rt_vehicle_id = ''veh1'', rt_tesla_vehicle_id = None, rt_config_version = None, rt_config_hash = None\<rparr>))"
  by code_simp

theorem acknowledged_iff_stored_witness:
  "case handle_push (\<lambda>a. Inr ()) (\<lambda>b n. Inr demo_incoming) demo_env demo_cfg demo_request 3 demo_ingest of (resp, t) \<Rightarrow>
     resp_status resp = 204 \<and> (\<exists>row. tables t = [(''p.tesla_u_1.raw_telemetry_events'', row)])"
proof -
  obtain resp t where run: "handle_push (\<lambda>a. Inr ()) (\<lambda>b n. Inr demo_incoming) demo_env demo_cfg demo_request 3 demo_ingest = (resp, t)"
    by fastforce
  have n: "content_length (req_content_length demo_request) = Some 12" by code_simp
  have p: "req_path demo_request = ''/pubsub/push''" by (simp add: demo_request_def)
  have "env_insert demo_env table row = InsertErrors []" "tables demo_ingest = []" for table row
    by (simp_all add: demo_env_def demo_ingest_def)
  with acknowledged_iff_stored [OF p refl n refl run] run show ?thesis by (simp add: demo_entry)
qed

theorem persisted_row_belongs_to_the_owner_witness:
  "\<exists>uid ds. sole_active_user demo_ingest uid ds \<and> uid = ''usr_1''"
proof -
  have "res_disposition ((base_result ''persisted'' demo_incoming)\<lparr>res_vehicle_id := Some ''veh1'',
        res_user_id := Some ''usr_1'', res_provenance := Some ''missing''\<rparr>) = ''persisted''"
    by (simp add: base_result_def)
  from persisted_row_belongs_to_the_owner [OF demo_process this] show ?thesis by auto
qed

subsection \<open>From the subscription to the table\<close>

lemma interpret_valid:
  assumes "interpret_delivery fromiso policy now wrapper message payload attributes subscription mid = Inr inc"
    and "in_validation_error inc = None" and "in_fixture_id inc = None" and "in_vin inc = Some vin"
  shows "subscription \<noteq> synthetic_subscription policy" and
    "map_of (fleet_subscriptions policy) subscription = Some (in_record_type inc)" and
    "in_record_type inc \<in> set allowed_record_types" and "attribute attributes ''vin'' = Some vin" and
    "\<not> is_str (dget payload ''vin'') \<or> the_str (dget payload ''vin'') \<in> {[], vin}"
proof -
  from interpret_fields(2) [OF assms(1)] obtain undated unreceived where
    "delivery_error policy subscription None (in_record_type inc) (in_vin inc) (dget payload ''vin'')
       undated unreceived = None"
    using assms(2,3) by (metis (no_types))
  note e = delivery_error_None [OF this]
  have "nonempty (attribute attributes ''vin'') = Some vin"
    using interpret_fields(1) [OF assms(1)] assms(4) by simp
  then have "attribute attributes ''vin'' = Some vin" by (auto simp: nonempty_def split: if_splits)
  with e assms(4) show
    "subscription \<noteq> synthetic_subscription policy"
    "map_of (fleet_subscriptions policy) subscription = Some (in_record_type inc)"
    "in_record_type inc \<in> set allowed_record_types" "attribute attributes ''vin'' = Some vin"
    "\<not> is_str (dget payload ''vin'') \<or> the_str (dget payload ''vin'') \<in> {[], vin}"
    by auto
qed

text \<open>Only Tesla's mutually authenticated path reaches a user's table: when a push body is persisted,
  it came through a subscription that the policy binds to exactly the record type it carries, its
  VIN is the receiver's certificate attribute, and a VIN inside the payload does not contradict it.\<close>
theorem only_fleet_subscriptions_are_persisted:
  assumes "decode_pubsub_push loads b64 fromiso body now policy = Inr inc"
    and "process env cfg inc now s = (Inr x, t)" and "res_disposition x = ''persisted''"
  shows "\<exists>wrapper message payload attributes subscription mid vin.
    decoded_from loads b64 body wrapper message payload attributes subscription mid \<and>
    subscription \<noteq> synthetic_subscription policy \<and>
    map_of (fleet_subscriptions policy) subscription = Some (in_record_type inc) \<and>
    in_record_type inc \<in> set allowed_record_types \<and>
    attribute attributes ''vin'' = Some vin \<and> in_vin inc = Some vin \<and>
    dget payload ''vin'' \<in> {VStr [], VStr vin} \<union> {v. \<not> is_str v}"
proof -
  from assms(2,3) obtain vin rt where p: "in_validation_error inc = None" "in_fixture_id inc = None"
    "in_vin inc = Some vin"
    by (rule process_persisted)
  from assms(1) obtain wrapper message payload attributes subscription mid where
    d: "decoded_from loads b64 body wrapper message payload attributes subscription mid" and
    i: "interpret_delivery fromiso policy now wrapper message payload attributes subscription mid = Inr inc"
    unfolding decode_eq_Inr by blast
  note v = interpret_valid [OF i p]
  have "dget payload ''vin'' \<in> {VStr [], VStr vin} \<union> {v. \<not> is_str v}"
    using v(5) by (cases "dget payload ''vin''") auto
  with d v(1-4) p(3) show ?thesis by blast
qed

definition demo_policy :: source_policy where
  "demo_policy = \<lparr>synthetic_subscription = ''projects/p/s'', fleet_subscriptions = [(''projects/p/f'', ''V'')]\<rparr>"

text \<open>A parser that knows two texts: a wrapper from the given subscription with the given data, and a payload.\<close>

definition demo_wrapper :: "string \<Rightarrow> string \<Rightarrow> dict" where
  "demo_wrapper sub encoded = [(''subscription'', VStr sub), (''message'', VDict [(''messageId'', VStr ''m1''),
     (''data'', VStr encoded), (''attributes'', VDict [(''txtype'', VStr ''V''), (''vin'', VStr ''VIN1''),
       (''receivedat'', VStr ''1700000000000'')])])]"

definition demo_loads :: "string \<Rightarrow> string \<Rightarrow> string \<Rightarrow> exn + val" where
  "demo_loads sub encoded t = (if t = ''body'' then Inr (VDict (demo_wrapper sub encoded))
     else if t = ''data'' then Inr (VDict [(''createdAt'', VStr ''now'')])
     else Inl (LibraryError ''JSONDecodeError''))"

definition demo_decode :: "string \<Rightarrow> exn + incoming" where
  "demo_decode sub = decode_pubsub_push (demo_loads sub ''eA'') (\<lambda>s. Some ''data'') (\<lambda>s. IsoAware 5) ''body'' 3 demo_policy"

lemma demo_decode_value:
  "demo_decode ''projects/p/f'' = Inr \<lparr>in_source_timestamp = 5, in_edge_received_at = 1700000000000000,
     in_payload = [(''createdAt'', VStr ''now'')], in_vin = Some ''VIN1'',
     in_record_type = ''V'', in_transport_message_id = None, in_pubsub_message_id = ''m1'',
     in_pubsub_publish_time = None, in_pubsub_delivery_attempt = None, in_client_version = None,
     in_receiver_record_version = None, in_validation_error = None, in_fixture_id = None,
     in_fail_first = False, in_source_authentication = ''tesla_mtls''\<rparr>"
  by code_simp

lemma demo_untrusted_value:
  "demo_decode ''other'' = Inr \<lparr>in_source_timestamp = 5, in_edge_received_at = 1700000000000000,
     in_payload = [(''createdAt'', VStr ''now'')], in_vin = Some ''VIN1'',
     in_record_type = ''V'', in_transport_message_id = None, in_pubsub_message_id = ''m1'',
     in_pubsub_publish_time = None, in_pubsub_delivery_attempt = None, in_client_version = None,
     in_receiver_record_version = None, in_validation_error = Some ''untrusted_pubsub_subscription'',
     in_fixture_id = None, in_fail_first = False, in_source_authentication = ''untrusted_subscription''\<rparr>"
  by code_simp

theorem only_fleet_subscriptions_are_persisted_witness:
  "\<exists>subscription. map_of (fleet_subscriptions demo_policy) subscription = Some ''V''"
proof -
  define inc where "inc = projr (demo_decode ''projects/p/f'')"
  have d: "decode_pubsub_push (demo_loads ''projects/p/f'' ''eA'') (\<lambda>s. Some ''data'') (\<lambda>s. IsoAware 5)
      ''body'' 3 demo_policy = Inr inc"
    using demo_decode_value by (simp add: inc_def demo_decode_def)
  have rt: "in_record_type inc = ''V''" by (simp add: inc_def demo_decode_value)
  have p: "process demo_env demo_cfg inc 3 demo_ingest =
      (Inr (projr (fst (process demo_env demo_cfg inc 3 demo_ingest))), snd (process demo_env demo_cfg inc 3 demo_ingest))"
    "res_disposition (projr (fst (process demo_env demo_cfg inc 3 demo_ingest))) = ''persisted''"
    unfolding inc_def by code_simp+
  from only_fleet_subscriptions_are_persisted [OF d p] rt show ?thesis by auto
qed

text \<open>A delivery through a subscription the policy does not name is never stored as a user's telemetry
  and never as a synthetic fixture: it is quarantined under the first reason.\<close>
theorem untrusted_subscription_is_quarantined:
  assumes "decoded_from loads b64 body wrapper message payload attributes subscription mid"
    and "subscription \<noteq> synthetic_subscription policy"
    and "map_of (fleet_subscriptions policy) subscription = None"
    and "decode_pubsub_push loads b64 fromiso body now policy = Inr inc"
    and "process env cfg inc now s = (Inr x, t)"
  shows "res_disposition x = ''quarantined'' \<and> res_quarantine_reason x = Some ''untrusted_pubsub_subscription'' \<and>
    (\<exists>row. tables t = tables s @ [(quarantine_table cfg, row)])"
proof -
  from assms(4) obtain w' m' p' a' sub' mid' where
    d: "decoded_from loads b64 body w' m' p' a' sub' mid'" and
    i: "interpret_delivery fromiso policy now w' m' p' a' sub' mid' = Inr inc"
    unfolding decode_eq_Inr by blast
  from d assms(1) have "sub' = subscription" by (auto simp: decoded_from_def)
  with i assms(2,3) have "in_validation_error inc = Some ''untrusted_pubsub_subscription''"
    using interpret_fields(2) [OF i] by (auto simp: delivery_error_untrusted)
  with assms(5) have "quarantine env cfg inc (event_of cfg inc now) ''untrusted_pubsub_subscription'' s = (Inr x, t)"
    by (simp add: process_def)
  then show ?thesis by (cases rule: quarantine_cases) (auto simp: base_result_def)
qed

theorem untrusted_subscription_is_quarantined_witness:
  "\<exists>row. tables (snd (process demo_env demo_cfg (projr (demo_decode ''other'')) 3 demo_ingest)) = [(''p.ops.q'', row)]"
proof -
  define inc where "inc = projr (demo_decode ''other'')"
  have d: "decode_pubsub_push (demo_loads ''other'' ''eA'') (\<lambda>s. Some ''data'') (\<lambda>s. IsoAware 5)
      ''body'' 3 demo_policy = Inr inc"
    using demo_untrusted_value by (simp add: inc_def demo_decode_def)
  have f: "decoded_from (demo_loads ''other'' ''eA'') (\<lambda>s. Some ''data'') ''body'' (demo_wrapper ''other'' ''eA'')
      [(''messageId'', VStr ''m1''), (''data'', VStr ''eA''),
       (''attributes'', VDict [(''txtype'', VStr ''V''), (''vin'', VStr ''VIN1''), (''receivedat'', VStr ''1700000000000'')])]
      [(''createdAt'', VStr ''now'')]
      [(''txtype'', VStr ''V''), (''vin'', VStr ''VIN1''), (''receivedat'', VStr ''1700000000000'')] ''other'' ''m1''"
    by (simp add: decoded_from_def demo_loads_def demo_wrapper_def dget_def dget_default_def required_string_def b64decode_def)
  have s: "''other'' \<noteq> synthetic_subscription demo_policy" "map_of (fleet_subscriptions demo_policy) ''other'' = None"
    by (simp_all add: demo_policy_def)
  have p: "process demo_env demo_cfg inc 3 demo_ingest =
      (Inr (projr (fst (process demo_env demo_cfg inc 3 demo_ingest))), snd (process demo_env demo_cfg inc 3 demo_ingest))"
    unfolding inc_def by code_simp
  from untrusted_subscription_is_quarantined [OF f s d p] show ?thesis
    by (simp add: inc_def demo_cfg_def demo_ingest_def)
qed

text \<open>The deliberate failure of a synthetic fixture happens exactly once: the first delivery of a
  fail-first fixture is refused for redelivery and stores nothing; every later delivery, once the
  sink accepts it, is stored with the mark that its first delivery failed.\<close>
theorem fixture_fails_exactly_once:
  assumes "in_validation_error inc = None" and "in_fixture_id inc = Some fixture" and "in_fail_first inc"
    and "map_of (fixture_docs s) (env_hash env fixture) = None"
    and "process env cfg inc now s = (r, t)"
    and "\<And>table row. env_insert env table row = InsertErrors []"
  shows "r = Inl (RetryableProcessingError ''synthetic_first_delivery_failure'') \<and> tables t = tables s \<and>
    (\<exists>row. dget row ''first_failure_recorded'' = VBool True \<and>
       snd (process env cfg inc later t) = t\<lparr>tables := tables s @ [(synthetic_table cfg, row)]\<rparr>)"
proof -
  have t: "r = Inl (RetryableProcessingError ''synthetic_first_delivery_failure'')" "tables t = tables s"
    "\<exists>d. map_of (fixture_docs t) (env_hash env fixture) = Some d"
    using assms(1-5) by (auto simp: process_def should_fail_first_def obind_def oraise_def)
  let ?row = "synthetic_row (bigquery_row (env_isofmt env) (env_dumps env) (event_of cfg inc later)) fixture True"
  have "dget ?row ''first_failure_recorded'' = VBool True" by (simp add: synthetic_row_def)
  moreover have "snd (process env cfg inc later t) = t\<lparr>tables := tables s @ [(synthetic_table cfg, ?row)]\<rparr>"
    using t assms(1-3,6) by (auto simp: process_def should_fail_first_def obind_def oret_def sink_append_ok)
  ultimately show ?thesis using t(1,2) by blast
qed

theorem fixture_fails_exactly_once_witness:
  "fst (process demo_env demo_cfg (demo_incoming\<lparr>in_fixture_id := Some ''phase7-a'', in_fail_first := True\<rparr>) 3 demo_ingest)
     = Inl (RetryableProcessingError ''synthetic_first_delivery_failure'')"
  using fixture_fails_exactly_once [of "demo_incoming\<lparr>in_fixture_id := Some ''phase7-a'', in_fail_first := True\<rparr>"
      "''phase7-a''" demo_ingest demo_env demo_cfg 3, OF _ _ _ _ surjective_pairing]
  by (simp add: demo_incoming_def demo_ingest_def demo_env_def)

text \<open>C26: A delivery whose data is not ASCII is answered 503, again at every redelivery, although the
  handler means to acknowledge malformed envelopes: \<open>b64decode\<close> raises a plain \<open>ValueError\<close> for it,
  which the decoder does not translate.\<close>
theorem non_ascii_data_is_never_acknowledged:
  assumes "loads (req_body req n) = Inr (VDict wrapper)" and "dget wrapper ''message'' = VDict message"
    and "required_string wrapper ''subscription'' = Inr subscription"
    and "required_string message ''messageId'' = Inr mid"
    and "required_string message ''data'' = Inr encoded" and "\<not> list_all (\<lambda>c. code c < (128::nat)) encoded"
    and "req_path req = ''/pubsub/push''" and "verify (req_authorization req) = Inr ()"
    and "content_length (req_content_length req) = Some n"
  shows "handle_push verify (\<lambda>body now. decode_pubsub_push loads b64 fromiso body now policy) env cfg req now s =
    (\<lparr>resp_status = 503, resp_event = Some (''telemetry_processing_failed'', [])\<rparr>, s)"
  using assms
  by (simp add: handle_push_def handle_delivery_def obind_def olift_def decode_pubsub_push_def invalid_push_def b64decode_def json_error_def)

theorem non_ascii_data_is_never_acknowledged_witness:
  "handle_push (\<lambda>a. Inr ()) (\<lambda>body now. decode_pubsub_push (demo_loads ''projects/p/f'' [CHR 0xE9])
      (\<lambda>s. Some ''data'') (\<lambda>s. IsoAware 5) body now demo_policy) demo_env demo_cfg demo_request 3 demo_ingest =
    (\<lparr>resp_status = 503, resp_event = Some (''telemetry_processing_failed'', [])\<rparr>, demo_ingest)"
proof -
  have n: "content_length (req_content_length demo_request) = Some 12" by code_simp
  have a: "\<not> list_all (\<lambda>c. code c < (128::nat)) [CHR 0xE9]" by simp
  show ?thesis
    by (rule non_ascii_data_is_never_acknowledged [where encoded = "[CHR 0xE9]" and wrapper = "demo_wrapper ''projects/p/f'' [CHR 0xE9]"
        and message = "the_dict (dget (demo_wrapper ''projects/p/f'' [CHR 0xE9]) ''message'')"
        and subscription = "''projects/p/f''" and mid = "''m1''", OF _ _ _ _ _ a _ _ n])
      (simp_all add: demo_loads_def demo_wrapper_def demo_request_def required_string_def dget_def)
qed

end
