(* ===== verification/TeslaModels.thy ===== *)
theory TeslaModels
  imports Errors
begin

text \<open>
  The typed Tesla models: \<open>tesla_client/models.py\<close>, the access context of \<open>tesla_client/session.py\<close>
  and the tenant-side models of \<open>mcp_gateway/tesla_onboarding.py\<close> and \<open>telemetry_control.py\<close>.
\<close>

record token_set =
  access_token :: string
  refresh_token :: string
  token_expires_at :: int
  token_scopes :: "string list"
  tesla_subject :: string

record tesla_region =
  region_name :: string
  region_base_url :: string

record tesla_vehicle =
  tv_vin :: string
  tv_tesla_vehicle_id :: string
  tv_display_name :: "string option"
  tv_state :: "string option"
  tv_raw :: dict

record fleet_status =
  fs_vin :: string
  fs_key_paired :: "bool option"
  fs_protocol_required :: "bool option"
  fs_firmware_version :: "string option"
  fs_telemetry_version :: "string option"
  fs_total_number_of_keys :: "int option"
  fs_raw :: dict

record access_context =
  ac_access_token :: string
  ac_base_url :: string

record pending_authorization =
  pa_owner :: string
  pa_nonce :: string
  pa_expires_at :: int
  pa_completion_mode :: string
  pa_session_binding :: "string option"

record tesla_connection =
  co_connection_id :: string
  co_owner :: string
  co_tokens :: token_set
  co_token_version :: int
  co_region :: "string option"
  co_base_url :: string
  co_status :: string

record vehicle_record =
  vr_vehicle_id :: string
  vr_owner :: string
  vr_connection_id :: string
  vr_vin :: string
  vr_tesla_vehicle_id :: string
  vr_display_name :: "string option"
  vr_state :: "string option"
  vr_authorization_status :: string
  vr_virtual_key_status :: string
  vr_protocol_required :: "bool option"
  vr_firmware_version :: "string option"
  vr_telemetry_version :: "string option"
  vr_total_number_of_keys :: "int option"

record config_state =
  cs_vehicle_id :: string
  cs_profile_version :: "string option"
  cs_config_hash :: "string option"
  cs_field_config_hash :: "string option"
  cs_trust_profile_id :: "string option"
  cs_trust_profile_hash :: "string option"
  cs_status :: string
  cs_opt_in :: bool

text \<open>\<open>_optional_string\<close>, \<open>_optional_bool\<close>, \<open>_optional_int\<close> of \<open>tesla_firestore.py\<close>.\<close>

definition field_str :: "dict \<Rightarrow> string \<Rightarrow> string option" where
  "field_str d k = (case dget d k of VStr s \<Rightarrow> Some s | _ \<Rightarrow> None)"

definition field_bool :: "dict \<Rightarrow> string \<Rightarrow> bool option" where
  "field_bool d k = (case dget d k of VBool b \<Rightarrow> Some b | _ \<Rightarrow> None)"

definition field_int :: "dict \<Rightarrow> string \<Rightarrow> int option" where
  "field_int d k = (case dget d k of VInt i \<Rightarrow> Some i | _ \<Rightarrow> None)"

lemma field_opt [simp]:
  "dget d k = opt_str s \<Longrightarrow> field_str d k = s"
  "dget d k = opt_bool b \<Longrightarrow> field_bool d k = b"
  "dget d k = opt_int i \<Longrightarrow> field_int d k = i"
  by (cases s; cases b; cases i; simp add: field_str_def field_bool_def field_int_def)+

lemma field_eq_Some:
  "field_str d k = Some s \<longleftrightarrow> dget d k = VStr s"
  "field_bool d k = Some b \<longleftrightarrow> dget d k = VBool b"
  "field_int d k = Some i \<longleftrightarrow> dget d k = VInt i"
  by (cases "dget d k"; simp add: field_str_def field_bool_def field_int_def)+

subsection \<open>Ownership rules\<close>

definition require_vehicle_owner :: "vehicle_record \<Rightarrow> string \<Rightarrow> exn + unit" where
  "require_vehicle_owner r owner =
     (if vr_owner r \<noteq> owner
      then Inl (CrossUserAccessError ''Vehicle is outside the authenticated user boundary'')
      else if vr_authorization_status r \<noteq> ''active''
      then Inl (TeslaOnboardingError ''Vehicle is no longer returned by the Tesla connection'')
      else Inr ())"

definition virtual_key_status :: "fleet_status option \<Rightarrow> string" where
  "virtual_key_status st =
     (case st of
        None \<Rightarrow> ''unknown''
      | Some s \<Rightarrow> (case fs_key_paired s of
          None \<Rightarrow> ''unknown'' | Some paired \<Rightarrow> if paired then ''paired'' else ''pending''))"

definition stable_vehicle_id :: "(string \<Rightarrow> string) \<Rightarrow> string \<Rightarrow> string \<Rightarrow> string" where
  "stable_vehicle_id H owner vin = ''veh_'' @ take 32 (H (owner @ [char_of (0::nat)] @ vin))"

lemma require_vehicle_owner_eq_Inr [inr_simps]:
  "require_vehicle_owner r owner = Inr u \<longleftrightarrow> vr_owner r = owner \<and> vr_authorization_status r = ''active''"
  by (auto simp: require_vehicle_owner_def)

lemma stable_vehicle_id_nonempty: "stable_vehicle_id H owner vin \<noteq> []"
  by (simp add: stable_vehicle_id_def)

end
