(* ===== verification/TokenCrypto.thy ===== *)
theory TokenCrypto
  imports TeslaModels Url
begin

text \<open>
  \<open>mcp_gateway/token_crypto.py\<close>: the encryption of one user's token set.  The AES-GCM primitive is
  third-party code (\<open>seal\<close>, \<open>open\<close>: nonce, text and associated data), the base64, JSON and time
  codecs are the library's; all are arguments, collected in a record.  Bytes are strings.
\<close>

record crypto_env =
  ce_seal :: "string \<Rightarrow> string \<Rightarrow> string \<Rightarrow> string"
  ce_open :: "string \<Rightarrow> string \<Rightarrow> string \<Rightarrow> string option"
  ce_b64encode :: "string \<Rightarrow> string"
  ce_b64decode :: "string \<Rightarrow> string option"
  ce_dumps :: "dict \<Rightarrow> string"
  ce_loads :: "string \<Rightarrow> val option"
  ce_isofmt :: "int \<Rightarrow> string"
  ce_fromiso :: "string \<Rightarrow> iso_time"

definition utf8_encode :: "string \<Rightarrow> string" where
  "utf8_encode s = map char_of (concat (map utf8_bytes s))"

text \<open>\<open>bytes.decode('utf-8')\<close>, strict, for text in the range of the model.\<close>

fun utf8_strict :: "string \<Rightarrow> string option" where
  "utf8_strict (a # b # bs) =
     (if code a < (128::nat) then map_option ((#) a) (utf8_strict (b # bs))
      else if (code a = (194::nat) \<or> code a = (195::nat)) \<and> 128 \<le> (code b::nat) \<and> (code b::nat) < 192
      then map_option ((#) (char_of ((code a - 192) * 64 + (code b - (128::nat))))) (utf8_strict bs)
      else None)"
| "utf8_strict [a] = (if code a < (128::nat) then Some [a] else None)"
| "utf8_strict [] = Some []"

definition check_key :: "string \<Rightarrow> exn + unit" where
  "check_key key = (if length key \<noteq> 32
     then Inl (ValueError ''Tesla token encryption key must contain exactly 32 bytes'') else Inr ())"

definition cipher_from_base64 :: "crypto_env \<Rightarrow> string \<Rightarrow> exn + string" where
  "cipher_from_base64 env encoded =
     (case ce_b64decode env (strip encoded) of
        None \<Rightarrow> Inl (ValueError ''Tesla token encryption key must be valid base64'')
      | Some key \<Rightarrow> rbind (check_key key) (\<lambda>_. Inr key))"

definition token_document :: "crypto_env \<Rightarrow> token_set \<Rightarrow> dict" where
  "token_document env t =
     [(''access_token'', VStr (access_token t)), (''refresh_token'', VStr (refresh_token t)),
      (''expires_at'', VStr (ce_isofmt env (token_expires_at t))),
      (''scopes'', VList (map VStr (token_scopes t))), (''tesla_subject'', VStr (tesla_subject t))]"

text \<open>\<open>nonce\<close> is \<open>os.urandom(12)\<close>.\<close>

definition encrypt_tokens :: "crypto_env \<Rightarrow> string \<Rightarrow> string \<Rightarrow> token_set \<Rightarrow> string" where
  "encrypt_tokens env nonce owner t =
     ce_b64encode env (nonce @ ce_seal env nonce (utf8_encode (ce_dumps env (token_document env t)))
       (utf8_encode owner))"

definition token_field :: "dict \<Rightarrow> string \<Rightarrow> exn + string" where
  "token_field d k =
     (case map_of d k of
        None \<Rightarrow> Inl (KeyError k)
      | Some v \<Rightarrow> (case v of
          VStr s \<Rightarrow> if s = [] then Inl (ValueError ''token field is invalid'') else Inr s
        | _ \<Rightarrow> Inl (ValueError ''token field is invalid'')))"

definition token_scopes_field :: "dict \<Rightarrow> exn + string list" where
  "token_scopes_field d =
     (case map_of d ''scopes'' of
        None \<Rightarrow> Inl (KeyError ''scopes'')
      | Some v \<Rightarrow> (case v of
          VList xs \<Rightarrow>
            if xs = [] \<or> \<not> list_all (\<lambda>x. is_str x \<and> the_str x \<noteq> []) xs
            then Inl (ValueError ''token scopes are invalid'') else Inr (map the_str xs)
        | _ \<Rightarrow> Inl (ValueError ''token scopes are invalid'')))"

definition tokens_of_document :: "crypto_env \<Rightarrow> dict \<Rightarrow> exn + token_set" where
  "tokens_of_document env d =
     rbind (token_field d ''access_token'') (\<lambda>access.
     rbind (token_field d ''refresh_token'') (\<lambda>refresh.
     rbind (token_field d ''tesla_subject'') (\<lambda>sub.
     rbind (token_scopes_field d) (\<lambda>scopes.
     rbind (token_field d ''expires_at'') (\<lambda>expires.
     case ce_fromiso env expires of
       IsoAware t \<Rightarrow> Inr \<lparr>access_token = access, refresh_token = refresh, token_expires_at = t,
          token_scopes = scopes, tesla_subject = sub\<rparr>
     | _ \<Rightarrow> Inl (ValueError ''Invalid isoformat string''))))))"

definition crypto_failure :: "exn + 'a \<Rightarrow> exn + 'a" where
  "crypto_failure r = (case r of
     Inl e \<Rightarrow> Inl (ValueError ''Encrypted Tesla token state is invalid'') | Inr x \<Rightarrow> Inr x)"

text \<open>
  \<open>decrypt\<close>: every failure (\<open>InvalidTag\<close>, \<open>KeyError\<close>, \<open>TypeError\<close>, \<open>ValueError\<close>) becomes one
  \<open>ValueError\<close>.  Stored times are aware, as \<open>encrypt\<close> writes them.
\<close>

definition decrypt_tokens :: "crypto_env \<Rightarrow> string \<Rightarrow> string \<Rightarrow> exn + token_set" where
  "decrypt_tokens env owner value = crypto_failure
     (if \<not> list_all (\<lambda>c. code c < (128::nat)) value then Inl (ValueError ''ascii'')
      else case ce_b64decode env value of
        None \<Rightarrow> Inl (ValueError ''base64'')
      | Some decoded \<Rightarrow>
          if length decoded < 28 then Inl (ValueError ''ciphertext is too short'')
          else (case ce_open env (take 12 decoded) (drop 12 decoded) (utf8_encode owner) of
            None \<Rightarrow> Inl (LibraryError ''InvalidTag'')
          | Some plaintext \<Rightarrow>
              (case Option.bind (utf8_strict plaintext) (ce_loads env) of
                 Some (VDict d) \<Rightarrow> tokens_of_document env d
               | _ \<Rightarrow> Inl (ValueError ''token document is not an object''))))"

subsection \<open>Round trip\<close>

lemma utf8_strict_encode: "utf8_strict (utf8_encode s) = Some s"
proof (induction s)
  case Nil
  then show ?case by (simp add: utf8_encode_def)
next
  case (Cons c s)
  have e: "utf8_encode (c # s) = map char_of (utf8_bytes c) @ utf8_encode s"
    by (simp add: utf8_encode_def)
  show ?case
  proof (cases "code c < (128::nat)")
    case True
    then have "utf8_encode (c # s) = c # utf8_encode s" by (simp add: e utf8_bytes_def)
    with True Cons show ?thesis by (cases "utf8_encode s") auto
  next
    case False
    let ?n = "code c :: nat"
    have n: "128 \<le> ?n" "?n < 256" using False nat_of_char_less_256 [of c] by auto
    have d: "?n div 64 = 2 \<or> ?n div 64 = 3" using div_64 [OF n] .
    have m: "?n mod 64 < 64" by simp
    have c: "char_of (?n div 64 * 64 + ?n mod 64) = c" by (simp del: of_char_mod_256 add: div_mult_mod_eq)
    have a: "code (char_of (192 + ?n div 64) :: char) = 192 + ?n div 64" using d by auto
    have b: "code (char_of (128 + ?n mod 64) :: char) = 128 + ?n mod 64" using m by simp
    have "utf8_encode (c # s) = char_of (192 + ?n div 64) # char_of (128 + ?n mod 64) # utf8_encode s"
      using False by (simp add: e utf8_bytes_def)
    then show ?thesis using d m c Cons by (simp only: utf8_strict.simps a b) auto
  qed
qed

text \<open>A token set that the program stores: no empty token, subject or scope.\<close>

definition storable_tokens :: "token_set \<Rightarrow> bool" where
  "storable_tokens t \<longleftrightarrow> access_token t \<noteq> [] \<and> refresh_token t \<noteq> [] \<and> tesla_subject t \<noteq> [] \<and>
     token_scopes t \<noteq> [] \<and> list_all (\<lambda>s. s \<noteq> []) (token_scopes t)"

lemma tokens_of_token_document:
  assumes "storable_tokens t" and "ce_isofmt env (token_expires_at t) \<noteq> []"
    and "ce_fromiso env (ce_isofmt env (token_expires_at t)) = IsoAware (token_expires_at t)"
  shows "tokens_of_document env (token_document env t) = Inr t"
proof -
  have "map the_str (map VStr xs) = xs" "list_all (\<lambda>s. s \<noteq> []) xs \<Longrightarrow> list_all (\<lambda>x. is_str x \<and> the_str x \<noteq> []) (map VStr xs)"
    for xs by (induction xs) auto
  with assms show ?thesis
    by (cases t) (simp add: tokens_of_document_def token_document_def token_field_def token_scopes_field_def
        storable_tokens_def del: list.map_comp map_map)
qed

lemma decrypt_encrypt:
  assumes "length nonce = 12" and "12 + length ct \<ge> 28" and "ct = ce_seal env nonce (utf8_encode text) (utf8_encode owner)"
    and "text = ce_dumps env (token_document env t)"
    and "ce_b64decode env (ce_b64encode env (nonce @ ct)) = Some (nonce @ ct)"
    and "list_all (\<lambda>c. code c < (128::nat)) (ce_b64encode env (nonce @ ct))"
  shows "decrypt_tokens env u (encrypt_tokens env nonce owner t) = crypto_failure
     (case ce_open env nonce ct (utf8_encode u) of
        None \<Rightarrow> Inl (LibraryError ''InvalidTag'')
      | Some plaintext \<Rightarrow>
          (case Option.bind (utf8_strict plaintext) (ce_loads env) of
             Some (VDict d) \<Rightarrow> tokens_of_document env d
           | _ \<Rightarrow> Inl (ValueError ''token document is not an object'')))"
proof -
  have "take 12 (nonce @ ct) = nonce" "drop 12 (nonce @ ct) = ct" using assms(1) by simp_all
  then show ?thesis
    using assms(1,2,5,6) unfolding decrypt_tokens_def encrypt_tokens_def assms(4) [symmetric] assms(3) [symmetric]
    by (simp only: not_True_eq_False if_False option.case length_append) simp
qed

text \<open>C29: Stored tokens are bound to their owner: where the cipher, the codecs and the owner's identifier
  behave on this document as documented, decrypting for the owner returns the token set, and
  decrypting for a user whose associated data the cipher rejects is refused.\<close>
theorem tokens_are_bound_to_their_owner:
  assumes "storable_tokens t" and "length nonce = 12"
    and "ce_isofmt env (token_expires_at t) \<noteq> []"
    and "ce_fromiso env (ce_isofmt env (token_expires_at t)) = IsoAware (token_expires_at t)"
    and "ce_loads env (ce_dumps env (token_document env t)) = Some (VDict (token_document env t))"
    and "ct = ce_seal env nonce (utf8_encode (ce_dumps env (token_document env t))) (utf8_encode owner)"
    and "length ct \<ge> 16"
    and "ce_open env nonce ct (utf8_encode owner) = Some (utf8_encode (ce_dumps env (token_document env t)))"
    and "ce_open env nonce ct (utf8_encode other) = None"
    and "ce_b64decode env (ce_b64encode env (nonce @ ct)) = Some (nonce @ ct)"
    and "list_all (\<lambda>c. code c < (128::nat)) (ce_b64encode env (nonce @ ct))"
  shows "decrypt_tokens env owner (encrypt_tokens env nonce owner t) = Inr t \<and>
    decrypt_tokens env other (encrypt_tokens env nonce owner t) =
      Inl (ValueError ''Encrypted Tesla token state is invalid'')"
proof -
  have len: "12 + length ct \<ge> 28" using assms(7) by simp
  note d = decrypt_encrypt [OF assms(2) len assms(6) refl assms(10,11)]
  have "decrypt_tokens env owner (encrypt_tokens env nonce owner t) = Inr t"
    unfolding d assms(8) using assms(5) tokens_of_token_document [OF assms(1,3,4)]
    by (simp add: utf8_strict_encode crypto_failure_def)
  moreover have "decrypt_tokens env other (encrypt_tokens env nonce owner t) =
      Inl (ValueError ''Encrypted Tesla token state is invalid'')"
    unfolding d assms(9) by (simp add: crypto_failure_def)
  ultimately show ?thesis ..
qed

definition toy_tokens :: token_set where
  "toy_tokens = \<lparr>access_token = ''a'', refresh_token = ''r'', token_expires_at = 5, token_scopes = [''s''],
     tesla_subject = ''t''\<rparr>"

text \<open>A toy cipher to evaluate on: the owner's identifier stands in clear before the text.\<close>

definition toy_crypto :: crypto_env where
  "toy_crypto = \<lparr>ce_seal = (\<lambda>n p a. replicate 16 CHR ''-'' @ a @ CHR '' '' # p),
     ce_open = (\<lambda>n c a. if starts_with (replicate 16 CHR ''-'' @ a @ '' '') c
        then Some (drop (17 + length a) c) else None),
     ce_b64encode = (\<lambda>x. x), ce_b64decode = Some, ce_dumps = (\<lambda>d. ''{}''),
     ce_loads = (\<lambda>s. Some (VDict [(''access_token'', VStr ''a''), (''refresh_token'', VStr ''r''),
        (''expires_at'', VStr ''5''), (''scopes'', VList [VStr ''s'']), (''tesla_subject'', VStr ''t'')])),
     ce_isofmt = (\<lambda>t. ''5''), ce_fromiso = (\<lambda>s. IsoAware 5)\<rparr>"

theorem tokens_are_bound_to_their_owner_witness:
  "decrypt_tokens toy_crypto ''usr_1'' (encrypt_tokens toy_crypto ''123456789012'' ''usr_1'' toy_tokens) = Inr toy_tokens"
proof -
  have "decrypt_tokens toy_crypto ''usr_1'' (encrypt_tokens toy_crypto ''123456789012'' ''usr_1'' toy_tokens) = Inr toy_tokens \<and>
    decrypt_tokens toy_crypto ''usr_2'' (encrypt_tokens toy_crypto ''123456789012'' ''usr_1'' toy_tokens) =
      Inl (ValueError ''Encrypted Tesla token state is invalid'')"
    by (rule tokens_are_bound_to_their_owner [OF _ _ _ _ _ refl]; code_simp)
  then show ?thesis ..
qed

end
