(* ===== verification/OnboardingStore.thy ===== *)
theory OnboardingStore
  imports TeslaModels
begin

text \<open>
  \<open>mcp_gateway/tesla_firestore.py\<close>: OAuth state, encrypted connections, vehicle ownership and the
  audit records, over the Firestore collections.  \<open>store_env\<close> collects what the store is given:
  the hash \<open>sha256(...).hexdigest()\<close>, the server time of a write, a fresh connection identifier and
  the token cipher (theory \<open>TokenCrypto\<close> models the code's own part of it).
\<close>

subsection \<open>Collections\<close>

record onboarding_db =
  oauth_states :: "(string \<times> dict) list"
  connections :: "(string \<times> dict) list"
  vehicles :: "(string \<times> dict) list"
  vin_owners :: "(string \<times> dict) list"
  command_audits :: "(string \<times> dict) list"
  config_audits :: "(string \<times> dict) list"

record store_env =
  se_hash :: "string \<Rightarrow> string"
  se_server_time :: int
  se_new_connection :: string
  se_encrypt :: "string \<Rightarrow> token_set \<Rightarrow> string"
  se_decrypt :: "string \<Rightarrow> string \<Rightarrow> exn + token_set"

text \<open>\<open>reference.create\<close> and \<open>reference.update\<close> on one collection.\<close>

definition create_doc :: "(string \<times> dict) list \<Rightarrow> string \<Rightarrow> dict \<Rightarrow> exn + (string \<times> dict) list" where
  "create_doc c k d = (case map_of c k of
     None \<Rightarrow> Inr (AList.update k d c) | Some x \<Rightarrow> Inl (LibraryError ''AlreadyExists''))"

definition update_doc :: "(string \<times> dict) list \<Rightarrow> string \<Rightarrow> dict \<Rightarrow> exn + (string \<times> dict) list" where
  "update_doc c k us = (case map_of c k of
     None \<Rightarrow> Inl (LibraryError ''NotFound'') | Some d \<Rightarrow> Inr (AList.update k (dict_merge d us) c))"

definition required_value :: "dict \<Rightarrow> string \<Rightarrow> exn + val" where
  "required_value d k = (case map_of d k of None \<Rightarrow> Inl (KeyError k) | Some v \<Rightarrow> Inr v)"

definition int_value :: "val \<Rightarrow> exn + int" where
  "int_value v = (case py_int v of
     IntValue i \<Rightarrow> Inr i
   | IntValueError \<Rightarrow> Inl (ValueError ''invalid literal for int()'')
   | IntTypeError \<Rightarrow> Inl TypeError)"

text \<open>\<open>except (KeyError, TypeError, ValueError)\<close>.\<close>

definition record_error :: "exn \<Rightarrow> bool" where
  "record_error e = (case e of KeyError k \<Rightarrow> True | TypeError \<Rightarrow> True | ValueError m \<Rightarrow> True | _ \<Rightarrow> False)"

definition guard_record :: "string \<Rightarrow> exn + 'a \<Rightarrow> exn + 'a" where
  "guard_record message r =
     (case r of Inl e \<Rightarrow> if record_error e then Inl (TeslaOnboardingError message) else Inl e | Inr x \<Rightarrow> Inr x)"

lemma guard_record_eq_Inr [inr_simps]: "guard_record m r = Inr x \<longleftrightarrow> r = Inr x"
  by (cases r) (auto simp: guard_record_def)

lemma required_value_eq_Inr [inr_simps]: "required_value d k = Inr v \<longleftrightarrow> map_of d k = Some v"
  by (auto simp: required_value_def split: option.splits)

lemma update_doc_eq_Inr [inr_simps]:
  "update_doc c k us = Inr c' \<longleftrightarrow> (\<exists>d. map_of c k = Some d \<and> c' = AList.update k (dict_merge d us) c)"
  by (auto simp: update_doc_def split: option.splits)

lemma create_doc_eq_Inr [inr_simps]:
  "create_doc c k d = Inr c' \<longleftrightarrow> map_of c k = None \<and> c' = AList.update k d c"
  by (auto simp: create_doc_def split: option.splits)

subsection \<open>OAuth state\<close>

definition create_oauth_state ::
  "store_env \<Rightarrow> string \<Rightarrow> pending_authorization \<Rightarrow> onboarding_db \<Rightarrow> exn + unit \<times> onboarding_db" where
  "create_oauth_state env state p db =
     rbind (create_doc (oauth_states db) (se_hash env state)
       [(''owner_user_id'', VStr (pa_owner p)), (''nonce'', VStr (pa_nonce p)),
        (''expires_at'', VTime (pa_expires_at p)), (''completion_mode'', VStr (pa_completion_mode p)),
        (''browser_session_binding'', opt_str (pa_session_binding p)),
        (''created_at'', VTime (se_server_time env))]) (\<lambda>c.
     Inr ((), db\<lparr>oauth_states := c\<rparr>))"

definition pending_from_data :: "dict \<Rightarrow> exn + pending_authorization" where
  "pending_from_data data =
     (let owner = dget data ''owner_user_id''; nonce = dget data ''nonce'';
          expires_at = dget data ''expires_at'';
          completion_mode = dget_default data ''completion_mode'' (VStr ''api'');
          binding = dget data ''browser_session_binding''
      in if \<not> is_str owner \<or> \<not> is_str nonce \<or> \<not> is_time expires_at \<or> \<not> is_str completion_mode
            \<or> the_str completion_mode \<notin> {''api'', ''browser''}
            \<or> (the_str completion_mode = ''browser'' \<and> \<not> is_str binding)
            \<or> (the_str completion_mode = ''api'' \<and> binding \<noteq> VNone)
         then Inl (InvalidOAuthStateError ''Tesla OAuth state is invalid'')
         else Inr \<lparr>pa_owner = the_str owner, pa_nonce = the_str nonce, pa_expires_at = the_time expires_at,
                pa_completion_mode = the_str completion_mode,
                pa_session_binding = field_str data ''browser_session_binding''\<rparr>)"

text \<open>The transaction deletes the state document; a later exception drops the deletion.\<close>

definition consume_state_transaction ::
  "store_env \<Rightarrow> string \<Rightarrow> int \<Rightarrow> onboarding_db \<Rightarrow> exn + pending_authorization \<times> onboarding_db" where
  "consume_state_transaction env state now db =
     (if state = [] then Inl (InvalidOAuthStateError ''Tesla OAuth state is missing'')
      else case map_of (oauth_states db) (se_hash env state) of
        None \<Rightarrow> Inl (InvalidOAuthStateError ''Tesla OAuth state is invalid or already used'')
      | Some data \<Rightarrow>
          rbind (pending_from_data data) (\<lambda>p.
          if pa_expires_at p \<le> now
          then Inl (InvalidOAuthStateError ''Tesla OAuth state has expired'')
          else Inr (p, db\<lparr>oauth_states := AList.delete (se_hash env state) (oauth_states db)\<rparr>)))"

definition consume_oauth_state ::
  "store_env \<Rightarrow> string \<Rightarrow> int \<Rightarrow> (onboarding_db, exn, pending_authorization) oper" where
  "consume_oauth_state env state now = transact (consume_state_transaction env state now)"

subsection \<open>Connections\<close>

definition connection_from_data :: "store_env \<Rightarrow> string \<Rightarrow> dict \<Rightarrow> exn + tesla_connection" where
  "connection_from_data env owner data =
     (if dget data ''owner_user_id'' \<noteq> VStr owner
      then Inl (TeslaOnboardingError ''Tesla connection ownership is inconsistent'')
      else guard_record ''Tesla connection state is invalid''
        (rbind (required_value data ''encrypted_tokens'') (\<lambda>encrypted.
         rbind (required_value data ''connection_id'') (\<lambda>connection_id.
         rbind (se_decrypt env owner (py_str encrypted)) (\<lambda>tokens.
         rbind (required_value data ''token_version'') (\<lambda>version_value.
         rbind (int_value version_value) (\<lambda>version.
         rbind (required_value data ''base_url'') (\<lambda>base_url.
         rbind (required_value data ''status'') (\<lambda>stat.
         Inr \<lparr>co_connection_id = py_str connection_id, co_owner = owner, co_tokens = tokens,
              co_token_version = version,
              co_region = (if dget data ''region'' = VNone then None else Some (py_str (dget data ''region''))),
              co_base_url = py_str base_url, co_status = py_str stat\<rparr>)))))))))"

definition get_connection :: "store_env \<Rightarrow> string \<Rightarrow> onboarding_db \<Rightarrow> exn + tesla_connection" where
  "get_connection env owner db =
     (case map_of (connections db) owner of
        None \<Rightarrow> Inl (TeslaOnboardingError ''Tesla connection is not configured'')
      | Some data \<Rightarrow> connection_from_data env owner data)"

definition save_connection_transaction ::
  "store_env \<Rightarrow> string \<Rightarrow> token_set \<Rightarrow> string \<Rightarrow> onboarding_db \<Rightarrow> exn + tesla_connection \<times> onboarding_db" where
  "save_connection_transaction env owner tokens base_url db =
     (let existing = map_of (connections db) owner;
          connection_id = (case existing of
             Some e \<Rightarrow> if truthy (dget e ''connection_id'') then py_str (dget e ''connection_id'')
                       else ''conn_'' @ se_new_connection env
           | None \<Rightarrow> ''conn_'' @ se_new_connection env)
      in rbind (case existing of
           Some e \<Rightarrow> if e = [] then Inr 1
             else rbind (int_value (dget_default e ''token_version'' (VInt 0))) (\<lambda>v. Inr (v + 1))
         | None \<Rightarrow> Inr 1) (\<lambda>version.
      Inr (\<lparr>co_connection_id = connection_id, co_owner = owner, co_tokens = tokens, co_token_version = version,
             co_region = None, co_base_url = base_url, co_status = ''discovery_pending''\<rparr>,
           db\<lparr>connections := AList.update owner
             [(''connection_id'', VStr connection_id), (''owner_user_id'', VStr owner),
              (''encrypted_tokens'', VStr (se_encrypt env owner tokens)), (''token_version'', VInt version),
              (''access_token_expires_at'', VTime (token_expires_at tokens)),
              (''granted_scopes'', VList (map VStr (token_scopes tokens))),
              (''tesla_subject'', VStr (tesla_subject tokens)), (''base_url'', VStr base_url),
              (''region'', VNone), (''status'', VStr ''discovery_pending''),
              (''updated_at'', VTime (se_server_time env)),
              (''created_at'', case existing of
                 Some e \<Rightarrow> dget_default e ''created_at'' (VTime (se_server_time env))
               | None \<Rightarrow> VTime (se_server_time env))] (connections db)\<rparr>)))"

definition save_connection ::
  "store_env \<Rightarrow> string \<Rightarrow> token_set \<Rightarrow> string \<Rightarrow> (onboarding_db, exn, tesla_connection) oper" where
  "save_connection env owner tokens base_url = transact (save_connection_transaction env owner tokens base_url)"

definition complete_connection ::
  "store_env \<Rightarrow> string \<Rightarrow> string \<Rightarrow> string \<Rightarrow> (onboarding_db, exn, tesla_connection) oper" where
  "complete_connection env owner rgn base_url db =
     (case update_doc (connections db) owner
        [(''region'', VStr rgn), (''base_url'', VStr base_url), (''status'', VStr ''connected''),
         (''updated_at'', VTime (se_server_time env))] of
        Inl e \<Rightarrow> (Inl e, db)
      | Inr c \<Rightarrow> (get_connection env owner (db\<lparr>connections := c\<rparr>), db\<lparr>connections := c\<rparr>))"

definition rotate_transaction ::
  "store_env \<Rightarrow> string \<Rightarrow> int \<Rightarrow> token_set \<Rightarrow> onboarding_db \<Rightarrow> exn + tesla_connection \<times> onboarding_db" where
  "rotate_transaction env owner expected_version tokens db =
     (case map_of (connections db) owner of
        None \<Rightarrow> Inl (TeslaOnboardingError ''Tesla connection is not configured'')
      | Some data \<Rightarrow>
          rbind (int_value (dget_default data ''token_version'' (VInt 0))) (\<lambda>version.
          if version \<noteq> expected_version
          then Inl (ConcurrentTokenRotationError ''Tesla token was already rotated'')
          else if dget data ''owner_user_id'' \<noteq> VStr owner
          then Inl (TeslaOnboardingError ''Tesla connection ownership is inconsistent'')
          else
            (let encrypted = VStr (se_encrypt env owner tokens)
             in rbind (connection_from_data env owner (dict_merge data
                  [(''encrypted_tokens'', encrypted), (''token_version'', VInt (expected_version + 1)),
                   (''status'', VStr ''connected'')])) (\<lambda>c.
                Inr (c, db\<lparr>connections := AList.update owner (dict_merge data
                  [(''encrypted_tokens'', encrypted), (''token_version'', VInt (expected_version + 1)),
                   (''access_token_expires_at'', VTime (token_expires_at tokens)),
                   (''granted_scopes'', VList (map VStr (token_scopes tokens))),
                   (''status'', VStr ''connected''), (''updated_at'', VTime (se_server_time env))])
                  (connections db)\<rparr>)))))"

definition rotate_tokens ::
  "store_env \<Rightarrow> string \<Rightarrow> int \<Rightarrow> token_set \<Rightarrow> (onboarding_db, exn, tesla_connection) oper" where
  "rotate_tokens env owner expected_version tokens = transact (rotate_transaction env owner expected_version tokens)"

definition mark_reauthorization_required :: "store_env \<Rightarrow> string \<Rightarrow> (onboarding_db, exn, unit) oper" where
  "mark_reauthorization_required env owner = transact (\<lambda>db.
     rbind (update_doc (connections db) owner
       [(''status'', VStr ''reauthorization_required''), (''updated_at'', VTime (se_server_time env))]) (\<lambda>c.
     Inr ((), db\<lparr>connections := c\<rparr>)))"

subsection \<open>Vehicles\<close>

definition vehicle_from_data :: "string \<Rightarrow> dict \<Rightarrow> exn + vehicle_record" where
  "vehicle_from_data vid data =
     guard_record ''Vehicle registry record is invalid''
       (rbind (required_value data ''owner_user_id'') (\<lambda>owner.
        rbind (required_value data ''connection_id'') (\<lambda>connection_id.
        rbind (required_value data ''vin'') (\<lambda>vin.
        rbind (required_value data ''tesla_vehicle_id'') (\<lambda>tesla_id.
        rbind (required_value data ''virtual_key_status'') (\<lambda>key_status.
        Inr \<lparr>vr_vehicle_id = vid, vr_owner = py_str owner, vr_connection_id = py_str connection_id,
             vr_vin = py_str vin, vr_tesla_vehicle_id = py_str tesla_id,
             vr_display_name = field_str data ''display_name'', vr_state = field_str data ''state'',
             vr_authorization_status = py_str (dget_default data ''authorization_status'' (VStr ''active'')),
             vr_virtual_key_status = py_str key_status,
             vr_protocol_required = field_bool data ''vehicle_command_protocol_required'',
             vr_firmware_version = field_str data ''firmware_version'',
             vr_telemetry_version = field_str data ''fleet_telemetry_version'',
             vr_total_number_of_keys = field_int data ''total_number_of_keys''\<rparr>))))))"

definition list_vehicle_records :: "string \<Rightarrow> onboarding_db \<Rightarrow> exn + vehicle_record list" where
  "list_vehicle_records owner db =
     rmap (\<lambda>(k, d). vehicle_from_data k d)
       (filter (\<lambda>(k, d). dget d ''owner_user_id'' = VStr owner) (vehicles db))"

definition get_vehicle :: "string \<Rightarrow> string \<Rightarrow> onboarding_db \<Rightarrow> exn + vehicle_record" where
  "get_vehicle owner vid db =
     (case map_of (vehicles db) vid of
        None \<Rightarrow> Inl (TeslaOnboardingError ''Vehicle does not exist'')
      | Some data \<Rightarrow>
          rbind (vehicle_from_data vid data) (\<lambda>r.
          rbind (require_vehicle_owner r owner) (\<lambda>_. Inr r)))"

definition status_fields :: "store_env \<Rightarrow> fleet_status \<Rightarrow> dict" where
  "status_fields env st =
     [(''virtual_key_status'', VStr (virtual_key_status (Some st))),
      (''vehicle_command_protocol_required'', opt_bool (fs_protocol_required st)),
      (''firmware_version'', opt_str (fs_firmware_version st)),
      (''fleet_telemetry_version'', opt_str (fs_telemetry_version st)),
      (''total_number_of_keys'', opt_int (fs_total_number_of_keys st)),
      (''updated_at'', VTime (se_server_time env))]"

definition update_fleet_status_transaction ::
  "store_env \<Rightarrow> string \<Rightarrow> string \<Rightarrow> fleet_status \<Rightarrow> onboarding_db \<Rightarrow> exn + vehicle_record \<times> onboarding_db" where
  "update_fleet_status_transaction env owner vid st db =
     (case map_of (vehicles db) vid of
        None \<Rightarrow> Inl (TeslaOnboardingError ''Vehicle does not exist'')
      | Some data \<Rightarrow>
          rbind (vehicle_from_data vid data) (\<lambda>r.
          rbind (require_vehicle_owner r owner) (\<lambda>_.
          if vr_vin r \<noteq> fs_vin st
          then Inl (CrossUserAccessError ''Tesla fleet status does not match selected vehicle'')
          else Inr (r\<lparr>vr_virtual_key_status := virtual_key_status (Some st),
                      vr_protocol_required := fs_protocol_required st,
                      vr_firmware_version := fs_firmware_version st,
                      vr_telemetry_version := fs_telemetry_version st,
                      vr_total_number_of_keys := fs_total_number_of_keys st\<rparr>,
                    db\<lparr>vehicles := AList.update vid (dict_merge data (status_fields env st)) (vehicles db)\<rparr>))))"

definition update_fleet_status ::
  "store_env \<Rightarrow> string \<Rightarrow> string \<Rightarrow> fleet_status \<Rightarrow> (onboarding_db, exn, vehicle_record) oper" where
  "update_fleet_status env owner vid st = transact (update_fleet_status_transaction env owner vid st)"

subsection \<open>Synchronising the vehicles of one connection\<close>

text \<open>The record of one discovered vehicle, and the documents written for it.\<close>

definition discovered_record ::
  "string \<Rightarrow> string \<Rightarrow> string \<Rightarrow> tesla_vehicle \<Rightarrow> fleet_status option \<Rightarrow> vehicle_record" where
  "discovered_record owner connection_id vid v st =
     \<lparr>vr_vehicle_id = vid, vr_owner = owner, vr_connection_id = connection_id, vr_vin = tv_vin v,
      vr_tesla_vehicle_id = tv_tesla_vehicle_id v, vr_display_name = tv_display_name v, vr_state = tv_state v,
      vr_authorization_status = ''active'', vr_virtual_key_status = virtual_key_status st,
      vr_protocol_required = Option.bind st fs_protocol_required,
      vr_firmware_version = Option.bind st fs_firmware_version,
      vr_telemetry_version = Option.bind st fs_telemetry_version,
      vr_total_number_of_keys = Option.bind st fs_total_number_of_keys\<rparr>"

definition vehicle_document :: "int \<Rightarrow> vehicle_record \<Rightarrow> dict" where
  "vehicle_document srv r =
     [(''owner_user_id'', VStr (vr_owner r)), (''connection_id'', VStr (vr_connection_id r)),
      (''vin'', VStr (vr_vin r)), (''tesla_vehicle_id'', VStr (vr_tesla_vehicle_id r)),
      (''display_name'', opt_str (vr_display_name r)), (''state'', opt_str (vr_state r)),
      (''authorization_status'', VStr (vr_authorization_status r)),
      (''virtual_key_status'', VStr (vr_virtual_key_status r)),
      (''vehicle_command_protocol_required'', opt_bool (vr_protocol_required r)),
      (''firmware_version'', opt_str (vr_firmware_version r)),
      (''fleet_telemetry_version'', opt_str (vr_telemetry_version r)),
      (''total_number_of_keys'', opt_int (vr_total_number_of_keys r)), (''updated_at'', VTime srv)]"

definition index_document :: "int \<Rightarrow> string \<Rightarrow> string \<Rightarrow> dict" where
  "index_document srv owner vid =
     [(''owner_user_id'', VStr owner), (''vehicle_id'', VStr vid), (''updated_at'', VTime srv)]"

text \<open>The identifier of a vehicle: from the VIN index as it was read, or a new stable one.\<close>

definition vehicle_id_for ::
  "store_env \<Rightarrow> (string \<times> dict) list \<Rightarrow> string \<Rightarrow> string \<Rightarrow> exn + string" where
  "vehicle_id_for env index owner vin =
     (case map_of index (se_hash env vin) of
        None \<Rightarrow> Inr (stable_vehicle_id (se_hash env) owner vin)
      | Some data \<Rightarrow>
          if dget data ''owner_user_id'' \<noteq> VStr owner
          then Inl (VehicleOwnershipConflictError ''Tesla vehicle is already bound to another platform user'')
          else (let vid = py_str (dget_default data ''vehicle_id'' (VStr []))
                in if vid = [] then Inl (TeslaOnboardingError ''VIN ownership index is invalid'') else Inr vid))"

definition store_vehicle :: "store_env \<Rightarrow> vehicle_record \<Rightarrow> onboarding_db \<Rightarrow> onboarding_db" where
  "store_vehicle env r db =
     (let old = (case map_of (vehicles db) (vr_vehicle_id r) of None \<Rightarrow> [] | Some d \<Rightarrow> d)
      in db\<lparr>vin_owners := AList.update (se_hash env (vr_vin r))
              (index_document (se_server_time env) (vr_owner r) (vr_vehicle_id r)) (vin_owners db),
            vehicles := AList.update (vr_vehicle_id r)
              (dict_merge old (vehicle_document (se_server_time env) r)) (vehicles db)\<rparr>)"

text \<open>
  The loop over the discovered vehicles.  \<open>index\<close> is the VIN index as the transaction read it
  before its first write.
\<close>

fun sync_loop ::
  "store_env \<Rightarrow> (string \<times> dict) list \<Rightarrow> string \<Rightarrow> string \<Rightarrow> (string \<times> fleet_status) list \<Rightarrow>
   tesla_vehicle list \<Rightarrow> onboarding_db \<Rightarrow> exn + vehicle_record list \<times> onboarding_db" where
  "sync_loop env index owner connection_id statuses [] db = Inr ([], db)"
| "sync_loop env index owner connection_id statuses (v # vs) db =
     rbind (vehicle_id_for env index owner (tv_vin v)) (\<lambda>vid.
     let r = discovered_record owner connection_id vid v (map_of statuses (tv_vin v))
     in rbind (sync_loop env index owner connection_id statuses vs (store_vehicle env r db)) (\<lambda>(rs, db').
        Inr (r # rs, db')))"

text \<open>The vehicles of the connection that were not returned; their documents as read before.\<close>

definition withdrawn_ids :: "string \<Rightarrow> string \<Rightarrow> string list \<Rightarrow> onboarding_db \<Rightarrow> string list" where
  "withdrawn_ids owner connection_id active db =
     map fst (filter (\<lambda>(k, d). dget d ''owner_user_id'' = VStr owner \<and> k \<notin> set active \<and>
        dget d ''connection_id'' = VStr connection_id) (vehicles db))"

definition withdraw_vehicle :: "store_env \<Rightarrow> string \<Rightarrow> (string \<times> dict) list \<Rightarrow> (string \<times> dict) list" where
  "withdraw_vehicle env k docs =
     AList.update k (dict_merge (case map_of docs k of None \<Rightarrow> [] | Some d \<Rightarrow> d)
       [(''authorization_status'', VStr ''not_returned''), (''updated_at'', VTime (se_server_time env))]) docs"

definition sync_vehicles_transaction ::
  "store_env \<Rightarrow> string \<Rightarrow> string \<Rightarrow> tesla_vehicle list \<Rightarrow> (string \<times> fleet_status) list \<Rightarrow> onboarding_db \<Rightarrow>
   exn + vehicle_record list \<times> onboarding_db" where
  "sync_vehicles_transaction env owner connection_id vs statuses db =
     rbind (sync_loop env (vin_owners db) owner connection_id statuses vs db) (\<lambda>(rs, db').
     Inr (rs, db'\<lparr>vehicles := fold (withdraw_vehicle env)
       (withdrawn_ids owner connection_id (map vr_vehicle_id rs) db) (vehicles db')\<rparr>))"

definition sync_vehicles ::
  "store_env \<Rightarrow> string \<Rightarrow> string \<Rightarrow> tesla_vehicle list \<Rightarrow> (string \<times> fleet_status) list \<Rightarrow>
   (onboarding_db, exn, vehicle_record list) oper" where
  "sync_vehicles env owner connection_id vs statuses =
     transact (sync_vehicles_transaction env owner connection_id vs statuses)"

subsection \<open>Telemetry configuration and audits\<close>

definition get_telemetry_configuration :: "string \<Rightarrow> string \<Rightarrow> onboarding_db \<Rightarrow> exn + config_state" where
  "get_telemetry_configuration owner vid db =
     (case map_of (vehicles db) vid of
        None \<Rightarrow> Inl (TeslaOnboardingError ''Vehicle does not exist'')
      | Some data \<Rightarrow>
          rbind (vehicle_from_data vid data) (\<lambda>r.
          rbind (require_vehicle_owner r owner) (\<lambda>_.
          Inr \<lparr>cs_vehicle_id = vid, cs_profile_version = field_str data ''telemetry_config_version'',
               cs_config_hash = field_str data ''telemetry_config_hash'',
               cs_field_config_hash = field_str data ''telemetry_field_config_hash'',
               cs_trust_profile_id = field_str data ''telemetry_trust_profile_id'',
               cs_trust_profile_hash = field_str data ''telemetry_trust_profile_hash'',
               cs_status = py_str (dget_default data ''telemetry_config_status'' (VStr ''not_configured'')),
               cs_opt_in = truthy (dget_default data ''telemetry_transport_maintenance_opt_in'' (VBool False))\<rparr>)))"

definition config_fields :: "int \<Rightarrow> config_state \<Rightarrow> dict" where
  "config_fields srv c =
     [(''telemetry_config_version'', opt_str (cs_profile_version c)),
      (''telemetry_config_hash'', opt_str (cs_config_hash c)),
      (''telemetry_field_config_hash'', opt_str (cs_field_config_hash c)),
      (''telemetry_trust_profile_id'', opt_str (cs_trust_profile_id c)),
      (''telemetry_trust_profile_hash'', opt_str (cs_trust_profile_hash c)),
      (''telemetry_config_status'', VStr (cs_status c)),
      (''telemetry_transport_maintenance_opt_in'', VBool (cs_opt_in c)),
      (''telemetry_config_updated_at'', VTime srv), (''updated_at'', VTime srv)]"

definition save_telemetry_configuration ::
  "store_env \<Rightarrow> string \<Rightarrow> string \<Rightarrow> config_state \<Rightarrow> (onboarding_db, exn, unit) oper" where
  "save_telemetry_configuration env owner vid c db =
     (case map_of (vehicles db) vid of
        None \<Rightarrow> (Inl (TeslaOnboardingError ''Vehicle does not exist''), db)
      | Some data \<Rightarrow>
          (case rbind (vehicle_from_data vid data) (\<lambda>r. require_vehicle_owner r owner) of
             Inl e \<Rightarrow> (Inl e, db)
           | Inr _ \<Rightarrow> (Inr (), db\<lparr>vehicles := AList.update vid
               (dict_merge data (config_fields (se_server_time env) c)) (vehicles db)\<rparr>)))"

definition begin_config_audit ::
  "store_env \<Rightarrow> string \<Rightarrow> int \<Rightarrow> string \<Rightarrow> string \<Rightarrow> string \<Rightarrow> string option \<Rightarrow> string \<Rightarrow>
   (onboarding_db, exn, unit) oper" where
  "begin_config_audit env audit_id now owner vid operation desired source = transact (\<lambda>db.
     rbind (create_doc (config_audits db) audit_id
       [(''timestamp'', VTime now), (''owner_user_id'', VStr owner), (''vehicle_id'', VStr vid),
        (''operation'', VStr operation), (''desired_config_hash'', opt_str desired),
        (''result'', VStr ''attempted''), (''error_category'', VNone), (''source'', VStr source),
        (''created_at'', VTime (se_server_time env))]) (\<lambda>c.
     Inr ((), db\<lparr>config_audits := c\<rparr>)))"

definition complete_config_audit ::
  "store_env \<Rightarrow> string \<Rightarrow> string \<Rightarrow> string option \<Rightarrow> (onboarding_db, exn, unit) oper" where
  "complete_config_audit env audit_id result error_category = transact (\<lambda>db.
     rbind (update_doc (config_audits db) audit_id
       [(''result'', VStr result), (''error_category'', opt_str error_category),
        (''completed_at'', VTime (se_server_time env))]) (\<lambda>c.
     Inr ((), db\<lparr>config_audits := c\<rparr>)))"

definition begin_command_audit ::
  "store_env \<Rightarrow> string \<Rightarrow> int \<Rightarrow> string \<Rightarrow> string \<Rightarrow> string \<Rightarrow> dict \<Rightarrow> string \<Rightarrow> string \<Rightarrow>
   (onboarding_db, exn, unit) oper" where
  "begin_command_audit env audit_id now owner vid tool params correlation source = transact (\<lambda>db.
     rbind (create_doc (command_audits db) audit_id
       [(''timestamp'', VTime now), (''owner_user_id'', VStr owner), (''vehicle_id'', VStr vid),
        (''tool_name'', VStr tool), (''parameters'', VDict params), (''result'', VStr ''attempted''),
        (''error_category'', VNone), (''correlation_id'', VStr correlation), (''source'', VStr source),
        (''created_at'', VTime (se_server_time env))]) (\<lambda>c.
     Inr ((), db\<lparr>command_audits := c\<rparr>)))"

definition complete_command_audit ::
  "store_env \<Rightarrow> string \<Rightarrow> string \<Rightarrow> string option \<Rightarrow> (onboarding_db, exn, unit) oper" where
  "complete_command_audit env audit_id result error_category = transact (\<lambda>db.
     rbind (update_doc (command_audits db) audit_id
       [(''result'', VStr result), (''error_category'', opt_str error_category),
        (''completed_at'', VTime (se_server_time env))]) (\<lambda>c.
     Inr ((), db\<lparr>command_audits := c\<rparr>)))"

end
