(* ===== verification/VehicleOwnership.thy ===== *)
theory VehicleOwnership
  imports OnboardingStore TelemetryIngest
begin

text \<open>
  Vehicle ownership across components: what \<open>sync_vehicles\<close> writes, that the owner of a VIN never
  changes, that a withdrawn vehicle is refused, and that the telemetry registry (another service,
  reading the same collections) routes a synchronised VIN to its owner.
\<close>

subsection \<open>The ownership invariant\<close>

text \<open>
  Every entry of the VIN index stands under the hash of its VIN, names the stable vehicle
  identifier of its owner and VIN, and points to a vehicle document with that owner and VIN.
\<close>

definition index_entry_ok :: "(string \<Rightarrow> string) \<Rightarrow> (string \<times> dict) list \<Rightarrow> string \<Rightarrow> dict \<Rightarrow> bool" where
  "index_entry_ok H docs k d \<longleftrightarrow> (\<exists>vin owner vd. k = H vin \<and>
     dget d ''owner_user_id'' = VStr owner \<and> dget d ''vehicle_id'' = VStr (stable_vehicle_id H owner vin) \<and>
     map_of docs (stable_vehicle_id H owner vin) = Some vd \<and>
     dget vd ''vin'' = VStr vin \<and> dget vd ''owner_user_id'' = VStr owner)"

definition ownership_wf :: "(string \<Rightarrow> string) \<Rightarrow> onboarding_db \<Rightarrow> bool" where
  "ownership_wf H db \<longleftrightarrow>
     (\<forall>k d. map_of (vin_owners db) k = Some d \<longrightarrow> index_entry_ok H (vehicles db) k d)"

text \<open>The hashes of one VIN and of one vehicle identifier collide with no other.\<close>

definition collision_free :: "(string \<Rightarrow> string) \<Rightarrow> string \<Rightarrow> string \<Rightarrow> bool" where
  "collision_free H owner vin \<longleftrightarrow> (\<forall>v. H v = H vin \<longrightarrow> v = vin) \<and>
     (\<forall>u v. stable_vehicle_id H u v = stable_vehicle_id H owner vin \<longrightarrow> u = owner \<and> v = vin)"

lemma collision_freeD:
  "collision_free H owner vin \<Longrightarrow> H v = H vin \<Longrightarrow> v = vin"
  "collision_free H owner vin \<Longrightarrow> stable_vehicle_id H u v = stable_vehicle_id H owner vin \<Longrightarrow> u = owner \<and> v = vin"
  by (simp_all add: collision_free_def)

lemma index_entry_ok_mono:
  assumes "index_entry_ok H docs k d"
    and "\<And>vid vd. map_of docs vid = Some vd \<Longrightarrow>
      \<exists>vd'. map_of docs' vid = Some vd' \<and> dget vd' ''vin'' = dget vd ''vin'' \<and>
        dget vd' ''owner_user_id'' = dget vd ''owner_user_id''"
  shows "index_entry_ok H docs' k d"
  using assms unfolding index_entry_ok_def by metis

subsection \<open>One vehicle\<close>

lemma discovered_record_simps [simp]:
  "vr_owner (discovered_record owner cid vid v st) = owner"
  "vr_connection_id (discovered_record owner cid vid v st) = cid"
  "vr_vehicle_id (discovered_record owner cid vid v st) = vid"
  "vr_vin (discovered_record owner cid vid v st) = tv_vin v"
  "vr_authorization_status (discovered_record owner cid vid v st) = ''active''"
  by (simp_all add: discovered_record_def)

lemma vehicle_document_fields:
  "dget (dict_merge old (vehicle_document srv r)) ''vin'' = VStr (vr_vin r)"
  "dget (dict_merge old (vehicle_document srv r)) ''owner_user_id'' = VStr (vr_owner r)"
  "dget (dict_merge old (vehicle_document srv r)) ''connection_id'' = VStr (vr_connection_id r)"
  "dget (dict_merge old (vehicle_document srv r)) ''authorization_status'' = VStr (vr_authorization_status r)"
  by (simp_all add: vehicle_document_def)

lemma store_vehicle_lookups:
  "map_of (vin_owners (store_vehicle env r db)) k =
     (if k = se_hash env (vr_vin r) then Some (index_document (se_server_time env) (vr_owner r) (vr_vehicle_id r))
      else map_of (vin_owners db) k)"
  "map_of (vehicles (store_vehicle env r db)) vid =
     (if vid = vr_vehicle_id r
      then Some (dict_merge (case map_of (vehicles db) vid of None \<Rightarrow> [] | Some d \<Rightarrow> d)
        (vehicle_document (se_server_time env) r))
      else map_of (vehicles db) vid)"
  by (simp_all add: store_vehicle_def Let_def)

lemma vehicle_id_for_stable:
  assumes "ownership_wf (se_hash env) db" and "collision_free (se_hash env) owner vin"
    and "vehicle_id_for env (vin_owners db) owner vin = Inr vid"
  shows "vid = stable_vehicle_id (se_hash env) owner vin"
proof (cases "map_of (vin_owners db) (se_hash env vin)")
  case None
  with assms(3) show ?thesis by (simp add: vehicle_id_for_def)
next
  case (Some d)
  then have "index_entry_ok (se_hash env) (vehicles db) (se_hash env vin) d"
    using assms(1) by (simp add: ownership_wf_def)
  then obtain v o' where *: "se_hash env vin = se_hash env v" "dget d ''owner_user_id'' = VStr o'"
    "dget d ''vehicle_id'' = VStr (stable_vehicle_id (se_hash env) o' v)"
    unfolding index_entry_ok_def by blast
  from *(1) have "v = vin" using collision_freeD(1) [OF assms(2), of v] by simp
  moreover from assms(3) Some * have "o' = owner" "vid = py_str (dget_default d ''vehicle_id'' (VStr []))"
    by (auto simp: vehicle_id_for_def Let_def inr_simps)
  moreover have "dget_default d ''vehicle_id'' (VStr []) = dget d ''vehicle_id''"
    using *(3) by (auto simp: dget_def dget_default_def split: option.splits)
  ultimately show ?thesis using *(3) by simp
qed

lemma store_vehicle_wf:
  assumes "ownership_wf (se_hash env) db" and "collision_free (se_hash env) (vr_owner r) (vr_vin r)"
    and "vr_vehicle_id r = stable_vehicle_id (se_hash env) (vr_owner r) (vr_vin r)"
  shows "ownership_wf (se_hash env) (store_vehicle env r db)"
  unfolding ownership_wf_def
proof (intro allI impI)
  fix k d
  assume k: "map_of (vin_owners (store_vehicle env r db)) k = Some d"
  show "index_entry_ok (se_hash env) (vehicles (store_vehicle env r db)) k d"
  proof (cases "k = se_hash env (vr_vin r)")
    case True
    with k have "d = index_document (se_server_time env) (vr_owner r) (vr_vehicle_id r)"
      by (simp add: store_vehicle_lookups)
    then have "dget d ''owner_user_id'' = VStr (vr_owner r)" "dget d ''vehicle_id'' = VStr (vr_vehicle_id r)"
      by (simp_all add: index_document_def dget_def)
    with True assms(3) show ?thesis
      unfolding index_entry_ok_def
      by (intro exI [of _ "vr_vin r"] exI [of _ "vr_owner r"]) (simp add: store_vehicle_lookups vehicle_document_fields)
  next
    case False
    with k assms(1) have "index_entry_ok (se_hash env) (vehicles db) k d"
      by (simp add: ownership_wf_def store_vehicle_lookups)
    then obtain vin o' vd where e: "k = se_hash env vin" "dget d ''owner_user_id'' = VStr o'"
      "dget d ''vehicle_id'' = VStr (stable_vehicle_id (se_hash env) o' vin)"
      "map_of (vehicles db) (stable_vehicle_id (se_hash env) o' vin) = Some vd"
      "dget vd ''vin'' = VStr vin" "dget vd ''owner_user_id'' = VStr o'"
      unfolding index_entry_ok_def by blast
    have "stable_vehicle_id (se_hash env) o' vin \<noteq> vr_vehicle_id r"
      using False e(1) assms(3) collision_freeD(2) [OF assms(2), of o' vin] by auto
    with e show ?thesis
      unfolding index_entry_ok_def
      by (intro exI [of _ vin] exI [of _ o'] exI [of _ vd]) (simp add: store_vehicle_lookups)
  qed
qed

subsection \<open>The loop\<close>

text \<open>An index entry, once there, keeps its owner and its vehicle.\<close>

definition owner_of_vin :: "(string \<Rightarrow> string) \<Rightarrow> onboarding_db \<Rightarrow> string \<Rightarrow> string option" where
  "owner_of_vin H db vin = Option.bind (map_of (vin_owners db) (H vin)) (\<lambda>d. field_str d ''owner_user_id'')"

lemma sync_loop_wf:
  assumes "sync_loop env (vin_owners db0) owner cid statuses vs db = Inr (rs, db')"
    and "ownership_wf (se_hash env) db0" and "ownership_wf (se_hash env) db"
    and "\<And>v. v \<in> set vs \<Longrightarrow> collision_free (se_hash env) owner (tv_vin v)"
  shows "ownership_wf (se_hash env) db'"
  using assms(1,3,4)
proof (induction vs arbitrary: db rs)
  case Nil
  then show ?case by simp
next
  case (Cons v vs)
  from Cons.prems(1) obtain vid rs' where v: "vehicle_id_for env (vin_owners db0) owner (tv_vin v) = Inr vid"
    "sync_loop env (vin_owners db0) owner cid statuses vs (store_vehicle env
       (discovered_record owner cid vid v (map_of statuses (tv_vin v))) db) = Inr (rs', db')"
    by (auto simp: inr_simps Let_def)
  have "vid = stable_vehicle_id (se_hash env) owner (tv_vin v)"
    using v(1) assms(2) Cons.prems(3) by (intro vehicle_id_for_stable) simp_all
  with Cons.prems show ?case
    by (intro Cons.IH [OF v(2)] store_vehicle_wf) simp_all
qed

lemma sync_loop_refuses_foreign:
  assumes "sync_loop env (vin_owners db0) owner cid statuses vs db = Inr (rs, db')"
    and "\<And>d. map_of (vin_owners db0) k = Some d \<Longrightarrow> dget d ''owner_user_id'' \<noteq> VStr owner"
    and "map_of (vin_owners db0) k \<noteq> None"
  shows "map_of (vin_owners db') k = map_of (vin_owners db) k"
  using assms(1)
proof (induction vs arbitrary: db rs)
  case Nil
  then show ?case by simp
next
  case (Cons v vs)
  from Cons.prems obtain vid rs' where v: "vehicle_id_for env (vin_owners db0) owner (tv_vin v) = Inr vid"
    "sync_loop env (vin_owners db0) owner cid statuses vs (store_vehicle env
       (discovered_record owner cid vid v (map_of statuses (tv_vin v))) db) = Inr (rs', db')"
    by (auto simp: inr_simps Let_def)
  have "k \<noteq> se_hash env (tv_vin v)"
    using v(1) assms(2,3) by (auto simp: vehicle_id_for_def inr_simps split: option.splits)
  with Cons.IH [OF v(2)] show ?case by (simp add: store_vehicle_lookups)
qed

text \<open>A record written by the loop is found at its end, under its index entry.\<close>

lemma sync_loop_stored:
  assumes "sync_loop env (vin_owners db0) owner cid statuses vs db = Inr (rs, db')"
    and "ownership_wf (se_hash env) db0"
    and "\<And>v. v \<in> set vs \<Longrightarrow> collision_free (se_hash env) owner (tv_vin v)"
  shows "map vr_vehicle_id rs = map (\<lambda>v. stable_vehicle_id (se_hash env) owner (tv_vin v)) vs"
    and "vin \<in> tv_vin ` set vs \<or> (\<exists>d. map_of (vin_owners db) (se_hash env vin) = Some d \<and>
        dget d ''owner_user_id'' = VStr owner) \<Longrightarrow>
      \<exists>d. map_of (vin_owners db') (se_hash env vin) = Some d \<and> dget d ''owner_user_id'' = VStr owner"
proof -
  show "map vr_vehicle_id rs = map (\<lambda>v. stable_vehicle_id (se_hash env) owner (tv_vin v)) vs"
    using assms(1,3)
  proof (induction vs arbitrary: db rs)
    case (Cons v vs)
    then show ?case
      using vehicle_id_for_stable [OF assms(2)] by (auto simp: inr_simps Let_def)
  qed simp
  show "\<exists>d. map_of (vin_owners db') (se_hash env vin) = Some d \<and> dget d ''owner_user_id'' = VStr owner"
    if "vin \<in> tv_vin ` set vs \<or> (\<exists>d. map_of (vin_owners db) (se_hash env vin) = Some d \<and>
        dget d ''owner_user_id'' = VStr owner)"
    using assms(1) that
  proof (induction vs arbitrary: db rs)
    case (Cons v vs)
    from Cons.prems(1) obtain vid rs' where v:
      "sync_loop env (vin_owners db0) owner cid statuses vs (store_vehicle env
         (discovered_record owner cid vid v (map_of statuses (tv_vin v))) db) = Inr (rs', db')"
      by (auto simp: inr_simps Let_def)
    have "dget (index_document srv owner vid) ''owner_user_id'' = VStr owner" for srv
      by (simp add: index_document_def dget_def)
    with Cons.prems(2) show ?case by (intro Cons.IH [OF v]) (auto simp: store_vehicle_lookups)
  qed simp
qed

subsection \<open>Withdrawing\<close>

lemma withdraw_lookup:
  "map_of (withdraw_vehicle env k docs) j =
     (if j = k then Some (dict_merge (case map_of docs k of None \<Rightarrow> [] | Some d \<Rightarrow> d)
        [(''authorization_status'', VStr ''not_returned''), (''updated_at'', VTime (se_server_time env))])
      else map_of docs j)"
  by (simp add: withdraw_vehicle_def)

text \<open>The fields a withdrawal leaves alone, and the one it writes.\<close>

lemma withdraw_fold_field:
  assumes "f \<noteq> ''authorization_status''" and "f \<noteq> ''updated_at''" and "map_of docs j = Some d"
  shows "\<exists>d'. map_of (fold (withdraw_vehicle env) ks docs) j = Some d' \<and> dget d' f = dget d f"
  using assms(3)
proof (induction ks arbitrary: docs d)
  case (Cons k ks)
  show ?case
  proof (cases "j = k")
    case True
    let ?d = "dict_merge d [(''authorization_status'', VStr ''not_returned''), (''updated_at'', VTime (se_server_time env))]"
    have "map_of (withdraw_vehicle env k docs) j = Some ?d" using True Cons.prems by (simp add: withdraw_lookup)
    from Cons.IH [OF this] assms(1,2) show ?thesis by simp
  next
    case False
    with Cons show ?thesis by (simp add: withdraw_lookup)
  qed
qed simp

lemma withdraw_fold_status:
  assumes "j \<in> set ks \<or> (\<exists>d. map_of docs j = Some d \<and> dget d ''authorization_status'' = VStr ''not_returned'')"
  shows "\<exists>d. map_of (fold (withdraw_vehicle env) ks docs) j = Some d \<and>
    dget d ''authorization_status'' = VStr ''not_returned''"
  using assms by (induction ks arbitrary: docs) (auto simp: withdraw_lookup)

lemma withdraw_fold_other: "j \<notin> set ks \<Longrightarrow> map_of (fold (withdraw_vehicle env) ks docs) j = map_of docs j"
  by (induction ks arbitrary: docs) (auto simp: withdraw_lookup)

text \<open>
  A change that leaves the VIN index alone and keeps the VIN and the owner of every vehicle document;
  withdrawing does, and so does every operation but the synchronisation.
\<close>

definition same_ownership :: "onboarding_db \<Rightarrow> onboarding_db \<Rightarrow> bool" where
  "same_ownership db db' \<longleftrightarrow> vin_owners db' = vin_owners db \<and>
     (\<forall>vid vd. map_of (vehicles db) vid = Some vd \<longrightarrow>
       (\<exists>vd'. map_of (vehicles db') vid = Some vd' \<and> dget vd' ''vin'' = dget vd ''vin'' \<and>
          dget vd' ''owner_user_id'' = dget vd ''owner_user_id''))"

lemma same_ownership_refl: "vin_owners db' = vin_owners db \<Longrightarrow> vehicles db' = vehicles db \<Longrightarrow> same_ownership db db'"
  by (simp add: same_ownership_def)

lemma same_ownership_wf:
  assumes "same_ownership db db'" and "ownership_wf H db"
  shows "ownership_wf H db'"
  unfolding ownership_wf_def
proof (intro allI impI)
  fix k d
  assume "map_of (vin_owners db') k = Some d"
  with assms have "index_entry_ok H (vehicles db) k d" by (simp add: ownership_wf_def same_ownership_def)
  then show "index_entry_ok H (vehicles db') k d"
    by (rule index_entry_ok_mono) (use assms(1) in \<open>simp add: same_ownership_def\<close>)
qed

lemma withdraw_same:
  "same_ownership db (db\<lparr>vehicles := fold (withdraw_vehicle env) ks (vehicles db)\<rparr>)"
  unfolding same_ownership_def
proof (intro conjI allI impI)
  fix vid vd
  assume m: "map_of (vehicles db) vid = Some vd"
  from withdraw_fold_field [of "''vin''" "vehicles db", OF _ _ m, of env ks]
    withdraw_fold_field [of "''owner_user_id''" "vehicles db", OF _ _ m, of env ks]
  show "\<exists>vd'. map_of (vehicles (db\<lparr>vehicles := fold (withdraw_vehicle env) ks (vehicles db)\<rparr>)) vid = Some vd' \<and>
      dget vd' ''vin'' = dget vd ''vin'' \<and> dget vd' ''owner_user_id'' = dget vd ''owner_user_id''"
    by auto
qed simp

subsection \<open>The whole synchronisation\<close>

lemma sync_eq_Inr:
  assumes "sync_vehicles env owner cid vs statuses db = (Inr rs, db')"
  obtains db1 where "sync_loop env (vin_owners db) owner cid statuses vs db = Inr (rs, db1)"
    and "db' = db1\<lparr>vehicles := fold (withdraw_vehicle env)
       (withdrawn_ids owner cid (map vr_vehicle_id rs) db) (vehicles db1)\<rparr>"
  using assms by (auto simp: sync_vehicles_def transact_eq_Inr sync_vehicles_transaction_def inr_simps)

lemma sync_refused: "sync_vehicles env owner cid vs statuses db = (Inl e, db') \<Longrightarrow> db' = db"
  by (simp add: sync_vehicles_def transact_eq_Inl)

lemma sync_wf:
  assumes "ownership_wf (se_hash env) db" and "sync_vehicles env owner cid vs statuses db = (r, db')"
    and "\<And>v. v \<in> set vs \<Longrightarrow> collision_free (se_hash env) owner (tv_vin v)"
  shows "ownership_wf (se_hash env) db'"
proof (cases r)
  case (Inl e)
  with assms sync_refused show ?thesis by blast
next
  case (Inr rs)
  with assms(2) obtain db1 where l: "sync_loop env (vin_owners db) owner cid statuses vs db = Inr (rs, db1)"
    and db': "db' = db1\<lparr>vehicles := fold (withdraw_vehicle env)
       (withdrawn_ids owner cid (map vr_vehicle_id rs) db) (vehicles db1)\<rparr>"
    by (blast elim: sync_eq_Inr)
  have "ownership_wf (se_hash env) db1" using sync_loop_wf [OF l assms(1,1,3)] .
  then show ?thesis unfolding db' by (rule same_ownership_wf [OF withdraw_same])
qed

lemma owner_of_vin_eq:
  "owner_of_vin H db vin = Some u \<longleftrightarrow>
     (\<exists>d. map_of (vin_owners db) (H vin) = Some d \<and> dget d ''owner_user_id'' = VStr u)"
  by (simp add: owner_of_vin_def field_eq_Some Option.bind_eq_Some_conv)

lemma sync_keeps_owner:
  assumes "ownership_wf (se_hash env) db" and "sync_vehicles env owner cid vs statuses db = (r, db')"
    and "\<And>v. v \<in> set vs \<Longrightarrow> collision_free (se_hash env) owner (tv_vin v)"
    and "owner_of_vin (se_hash env) db vin = Some u"
  shows "owner_of_vin (se_hash env) db' vin = Some u"
proof (cases r)
  case (Inl e)
  with assms sync_refused show ?thesis by blast
next
  case (Inr rs)
  with assms(2) obtain db1 where l: "sync_loop env (vin_owners db) owner cid statuses vs db = Inr (rs, db1)"
    and db': "vin_owners db' = vin_owners db1"
    by (auto elim: sync_eq_Inr)
  from assms(4) obtain d where d: "map_of (vin_owners db) (se_hash env vin) = Some d"
    "dget d ''owner_user_id'' = VStr u" by (auto simp: owner_of_vin_eq)
  show ?thesis
  proof (cases "u = owner")
    case True
    with sync_loop_stored(2) [OF l assms(1,3), of vin] d show ?thesis by (auto simp: owner_of_vin_eq db')
  next
    case False
    with sync_loop_refuses_foreign [OF l, of "se_hash env vin"] d show ?thesis
      by (auto simp: owner_of_vin_eq db')
  qed
qed

subsection \<open>Every operation of the store\<close>

inductive onboarding_step :: "store_env \<Rightarrow> onboarding_db \<Rightarrow> onboarding_db \<Rightarrow> bool" for env where
  new_state: "create_oauth_state env state p db = Inr (u, db') \<Longrightarrow> onboarding_step env db db'"
| consume: "consume_oauth_state env state now db = (r, db') \<Longrightarrow> onboarding_step env db db'"
| save: "save_connection env owner tokens base_url db = (r, db') \<Longrightarrow> onboarding_step env db db'"
| complete: "complete_connection env owner rgn base_url db = (r, db') \<Longrightarrow> onboarding_step env db db'"
| rotate: "rotate_tokens env owner version tokens db = (r, db') \<Longrightarrow> onboarding_step env db db'"
| mark: "mark_reauthorization_required env owner db = (r, db') \<Longrightarrow> onboarding_step env db db'"
| sync: "sync_vehicles env owner cid vs statuses db = (r, db') \<Longrightarrow>
    (\<And>v. v \<in> set vs \<Longrightarrow> collision_free (se_hash env) owner (tv_vin v)) \<Longrightarrow> onboarding_step env db db'"
| status: "update_fleet_status env owner vid st db = (r, db') \<Longrightarrow> onboarding_step env db db'"
| config: "save_telemetry_configuration env owner vid c db = (r, db') \<Longrightarrow> onboarding_step env db db'"
| audit: "begin_command_audit env aid now owner vid tool ps corr source db = (r, db') \<Longrightarrow> onboarding_step env db db'"
| audited: "complete_command_audit env aid result err db = (r, db') \<Longrightarrow> onboarding_step env db db'"
| config_audit: "begin_config_audit env aid now owner vid op_name desired source db = (r, db') \<Longrightarrow>
    onboarding_step env db db'"
| config_audited: "complete_config_audit env aid result err db = (r, db') \<Longrightarrow> onboarding_step env db db'"

abbreviation onboarding_reachable :: "store_env \<Rightarrow> onboarding_db \<Rightarrow> onboarding_db \<Rightarrow> bool" where
  "onboarding_reachable env \<equiv> (onboarding_step env)\<^sup>*\<^sup>*"

definition empty_onboarding_db :: onboarding_db where
  "empty_onboarding_db = \<lparr>oauth_states = [], connections = [], vehicles = [], vin_owners = [],
     command_audits = [], config_audits = []\<rparr>"

lemma same_ownership_merge:
  assumes "map_of (vehicles db) vid = Some data" and "db' = db\<lparr>vehicles := AList.update vid (dict_merge data us) (vehicles db)\<rparr>"
    and "distinct (keys us)" and "''vin'' \<notin> set (keys us)" and "''owner_user_id'' \<notin> set (keys us)"
  shows "same_ownership db db'"
proof -
  have "dget (dict_merge data us) k = dget data k" if "k \<notin> set (keys us)" for k
    using that dget_merge [OF assms(3), of data k] by (simp add: map_of_eq_None_iff [THEN iffD2])
  with assms show ?thesis by (auto simp: same_ownership_def)
qed

lemma same_ownership_owner: "same_ownership db db' \<Longrightarrow> owner_of_vin H db' vin = owner_of_vin H db vin"
  by (simp add: same_ownership_def owner_of_vin_def)

lemma status_same: "update_fleet_status env owner vid st db = (r, db') \<Longrightarrow> same_ownership db db'"
proof (cases r)
  case (Inl e)
  then show "update_fleet_status env owner vid st db = (r, db') \<Longrightarrow> same_ownership db db'"
    by (auto simp: update_fleet_status_def transact_eq_Inl intro: same_ownership_refl)
next
  case (Inr x)
  assume "update_fleet_status env owner vid st db = (r, db')"
  with Inr obtain data where "map_of (vehicles db) vid = Some data"
    "db' = db\<lparr>vehicles := AList.update vid (dict_merge data (status_fields env st)) (vehicles db)\<rparr>"
    by (auto simp: update_fleet_status_def transact_eq_Inr update_fleet_status_transaction_def inr_simps)
  then show "same_ownership db db'" by (rule same_ownership_merge) (simp_all add: status_fields_def)
qed

lemma config_same: "save_telemetry_configuration env owner vid c db = (r, db') \<Longrightarrow> same_ownership db db'"
proof (cases "map_of (vehicles db) vid")
  case None
  then show "save_telemetry_configuration env owner vid c db = (r, db') \<Longrightarrow> same_ownership db db'"
    by (auto simp: save_telemetry_configuration_def intro: same_ownership_refl)
next
  case (Some data)
  assume "save_telemetry_configuration env owner vid c db = (r, db')"
  with Some have "db' = db \<or>
      db' = db\<lparr>vehicles := AList.update vid (dict_merge data (config_fields (se_server_time env) c)) (vehicles db)\<rparr>"
    by (auto simp: save_telemetry_configuration_def split: sum.splits)
  then show "same_ownership db db'"
  proof
    assume "db' = db\<lparr>vehicles := AList.update vid (dict_merge data (config_fields (se_server_time env) c)) (vehicles db)\<rparr>"
    with Some show ?thesis by (rule same_ownership_merge) (simp_all add: config_fields_def)
  qed (simp add: same_ownership_refl)
qed

lemma step_ownership:
  assumes "onboarding_step env db db'" and "ownership_wf (se_hash env) db"
  shows "ownership_wf (se_hash env) db' \<and>
    (\<forall>vin u. owner_of_vin (se_hash env) db vin = Some u \<longrightarrow> owner_of_vin (se_hash env) db' vin = Some u)"
  using assms(1)
proof cases
  case (sync owner cid vs statuses r)
  with assms(2) sync_wf [OF assms(2) sync(1,2)] sync_keeps_owner [OF assms(2) sync(1,2)] show ?thesis by blast
next
  case (status owner vid st r)
  then show ?thesis using assms(2) same_ownership_wf same_ownership_owner status_same by metis
next
  case (config owner vid c r)
  then show ?thesis using assms(2) same_ownership_wf same_ownership_owner config_same by metis
qed (use assms(2) in \<open>auto simp: ownership_wf_def owner_of_vin_def create_oauth_state_def inr_simps
    consume_oauth_state_def consume_state_transaction_def save_connection_def save_connection_transaction_def
    complete_connection_def rotate_tokens_def rotate_transaction_def mark_reauthorization_required_def
    begin_command_audit_def complete_command_audit_def begin_config_audit_def complete_config_audit_def
    transact_def Let_def split: sum.splits\<close>)

lemma reachable_ownership:
  assumes "onboarding_reachable env db db'" and "ownership_wf (se_hash env) db"
  shows "ownership_wf (se_hash env) db' \<and>
    (\<forall>vin u. owner_of_vin (se_hash env) db vin = Some u \<longrightarrow> owner_of_vin (se_hash env) db' vin = Some u)"
  using assms
proof (induction rule: rtranclp_induct)
  case (step y z)
  then show ?case using step_ownership [OF step.hyps(2)] by blast
qed simp

lemma empty_ownership_wf: "ownership_wf H empty_onboarding_db"
  by (simp add: ownership_wf_def empty_onboarding_db_def)

lemma registry_resolve_found:
  assumes "map_of (vin_index s) (H vin) = Some d" and "dget d ''owner_user_id'' = VStr owner"
    and "dget d ''vehicle_id'' = VStr vid" and "map_of (vehicle_docs s) vid = Some vd"
    and "dget vd ''vin'' = VStr vin" and "dget vd ''owner_user_id'' = VStr owner"
    and "sole_active_user s owner ds" and "valid_dataset_id ds"
  shows "\<exists>rt. registry_resolve H s vin = Some rt \<and> rt_user_id rt = owner \<and> rt_dataset_id rt = ds \<and>
    rt_vehicle_id rt = vid"
proof -
  from assms(7) obtain k user where u: "filter (\<lambda>(k, u). dget u ''user_id'' = VStr owner) (user_docs s) = [(k, user)]"
    "dget user ''status'' = VStr ''active''" "dget user ''dataset_id'' = VStr ds"
    unfolding sole_active_user_def by blast
  show ?thesis
    by (simp add: registry_resolve_def assms(1-6,8) u)
qed

subsection \<open>Properties\<close>

text \<open>C27: A VIN never changes hands: once the index binds it to a user, no operation of the store by any
  user rebinds it, as long as the hashes of the synchronised vehicles collide with no other.\<close>
theorem vin_owner_never_changes:
  assumes "onboarding_reachable env empty_onboarding_db db" and "onboarding_reachable env db db'"
    and "owner_of_vin (se_hash env) db vin = Some u"
  shows "owner_of_vin (se_hash env) db' vin = Some u"
  using reachable_ownership [OF assms(1) empty_ownership_wf] reachable_ownership [OF assms(2)] assms(3) by blast

text \<open>A synchronisation that meets a VIN bound to another user is refused as a whole: it raises an
  onboarding error and changes nothing.\<close>
theorem foreign_vin_aborts_the_sync:
  assumes "v \<in> set vs" and "owner_of_vin (se_hash env) db (tv_vin v) = Some u" and "u \<noteq> owner"
  shows "\<exists>e. sync_vehicles env owner cid vs statuses db = (Inl e, db) \<and> is_onboarding_error e"
proof -
  from assms(2) obtain d where d: "map_of (vin_owners db) (se_hash env (tv_vin v)) = Some d"
    "dget d ''owner_user_id'' = VStr u" by (auto simp: owner_of_vin_eq)
  have "\<exists>e. sync_loop env (vin_owners db) owner cid statuses vs db1 = Inl e \<and> is_onboarding_error e" for db1
    using assms(1)
  proof (induction vs arbitrary: db1)
    case (Cons w ws)
    show ?case
    proof (cases "vehicle_id_for env (vin_owners db) owner (tv_vin w)")
      case (Inl e)
      then show ?thesis by (auto simp: vehicle_id_for_def Let_def split: option.splits if_splits)
    next
      case (Inr vid)
      with d assms(3) have "w \<noteq> v" by (auto simp: vehicle_id_for_def)
      with Cons.prems have "v \<in> set ws" by auto
      from Cons.IH [OF this, of "store_vehicle env (discovered_record owner cid vid w (map_of statuses (tv_vin w))) db1"]
      obtain e where "sync_loop env (vin_owners db) owner cid statuses ws (store_vehicle env
          (discovered_record owner cid vid w (map_of statuses (tv_vin w))) db1) = Inl e" "is_onboarding_error e"
        by blast
      with Inr show ?thesis by (simp add: Let_def)
    qed
  qed simp
  then obtain e where "sync_loop env (vin_owners db) owner cid statuses vs db = Inl e" "is_onboarding_error e"
    by blast
  then show ?thesis by (simp add: sync_vehicles_def transact_def sync_vehicles_transaction_def)
qed

text \<open>C28: End to end: after a user's vehicles were synchronised, the telemetry processor, reading the same
  collections, routes every returned VIN to that user's dataset, provided the user is the sole
  active allowlist record with that identifier and its dataset identifier is valid.\<close>
theorem synchronised_vin_routes_to_its_owner:
  assumes "ownership_wf (se_hash env) db" and "sync_vehicles env owner cid vs statuses db = (Inr rs, db')"
    and "\<And>v. v \<in> set vs \<Longrightarrow> collision_free (se_hash env) owner (tv_vin v)" and "v \<in> set vs"
    and "vin_index s = vin_owners db'" and "vehicle_docs s = vehicles db'"
    and "sole_active_user s owner ds" and "valid_dataset_id ds"
  shows "\<exists>rt. registry_resolve (se_hash env) s (tv_vin v) = Some rt \<and> rt_user_id rt = owner \<and>
    rt_dataset_id rt = ds \<and> rt_vehicle_id rt = stable_vehicle_id (se_hash env) owner (tv_vin v)"
proof -
  from assms(2) obtain db1 where l: "sync_loop env (vin_owners db) owner cid statuses vs db = Inr (rs, db1)"
    and db': "vin_owners db' = vin_owners db1"
    by (auto elim: sync_eq_Inr)
  have "\<exists>d. map_of (vin_owners db1) (se_hash env (tv_vin v)) = Some d \<and> dget d ''owner_user_id'' = VStr owner"
    using assms(4) by (intro sync_loop_stored(2) [OF l assms(1,3)]) auto
  then obtain d where d: "map_of (vin_index s) (se_hash env (tv_vin v)) = Some d" "dget d ''owner_user_id'' = VStr owner"
    by (auto simp: assms(5) db')
  have "ownership_wf (se_hash env) db'" using sync_wf [OF assms(1-3)] .
  with d(1) have "index_entry_ok (se_hash env) (vehicles db') (se_hash env (tv_vin v)) d"
    by (simp add: ownership_wf_def assms(5))
  with d(2) obtain vin vd where e: "se_hash env (tv_vin v) = se_hash env vin"
    "dget d ''vehicle_id'' = VStr (stable_vehicle_id (se_hash env) owner vin)"
    "map_of (vehicles db') (stable_vehicle_id (se_hash env) owner vin) = Some vd"
    "dget vd ''vin'' = VStr vin" "dget vd ''owner_user_id'' = VStr owner"
    unfolding index_entry_ok_def by auto
  have "vin = tv_vin v" using collision_freeD(1) [OF assms(3) [OF assms(4)]] e(1) by simp
  with e(2-5) have "dget d ''vehicle_id'' = VStr (stable_vehicle_id (se_hash env) owner (tv_vin v))"
    "map_of (vehicle_docs s) (stable_vehicle_id (se_hash env) owner (tv_vin v)) = Some vd"
    "dget vd ''vin'' = VStr (tv_vin v)" "dget vd ''owner_user_id'' = VStr owner"
    by (simp_all add: assms(6))
  from registry_resolve_found [where H = "se_hash env", OF d this assms(7,8)] show ?thesis .
qed

text \<open>A vehicle of the connection that a synchronisation did not return is withdrawn: afterwards its
  owner cannot select it any more.\<close>
theorem withdrawn_vehicle_is_refused:
  assumes "sync_vehicles env owner cid vs statuses db = (Inr rs, db')"
    and "map_of (vehicles db) vid = Some vd" and "distinct (keys (vehicles db))"
    and "dget vd ''owner_user_id'' = VStr owner" and "dget vd ''connection_id'' = VStr cid"
    and "vid \<notin> set (map vr_vehicle_id rs)"
  shows "\<exists>e. get_vehicle owner vid db' = Inl e"
proof -
  from assms(1) obtain db1 where l: "sync_loop env (vin_owners db) owner cid statuses vs db = Inr (rs, db1)"
    and db': "db' = db1\<lparr>vehicles := fold (withdraw_vehicle env)
       (withdrawn_ids owner cid (map vr_vehicle_id rs) db) (vehicles db1)\<rparr>"
    by (rule sync_eq_Inr)
  have "vid \<in> set (withdrawn_ids owner cid (map vr_vehicle_id rs) db)"
    using map_of_SomeD [OF assms(2)] assms(4-6) by (force simp: withdrawn_ids_def)
  then obtain d where d: "map_of (vehicles db') vid = Some d" "dget d ''authorization_status'' = VStr ''not_returned''"
    using withdraw_fold_status [of vid _ "vehicles db1" env] by (auto simp: db')
  have "dget_default d ''authorization_status'' (VStr ''active'') = VStr ''not_returned''"
    using d(2) by (auto simp: dget_def dget_default_def split: option.splits)
  with d(1) show ?thesis
    by (cases "get_vehicle owner vid db'") (auto simp: get_vehicle_def vehicle_from_data_def inr_simps)
qed

subsection \<open>Witnesses\<close>

definition demo_store :: store_env where
  "demo_store = \<lparr>se_hash = (\<lambda>x. if x = ''VIN1'' then ''1'' else if x = ''usr_1'' @ [CHR 0x00] @ ''VIN1'' then ''A''
       else ''B''), se_server_time = 0, se_new_connection = ''c'', se_encrypt = (\<lambda>u t. access_token t),
     se_decrypt = (\<lambda>u s. Inr \<lparr>access_token = s, refresh_token = ''r'', token_expires_at = 100, token_scopes = [''x''],
       tesla_subject = ''sub''\<rparr>)\<rparr>"

definition demo_car :: tesla_vehicle where
  "demo_car = \<lparr>tv_vin = ''VIN1'', tv_tesla_vehicle_id = ''7'', tv_display_name = None, tv_state = None,
    tv_raw = []\<rparr>"

definition garage_db :: onboarding_db where
  "garage_db = snd (sync_vehicles demo_store ''usr_1'' ''conn_c'' [demo_car] [] empty_onboarding_db)"

lemma demo_collision_free: "collision_free (se_hash demo_store) ''usr_1'' ''VIN1''"
proof -
  have sep: "a @ z # b = c @ z # d \<Longrightarrow> z \<notin> set c \<Longrightarrow> z \<notin> set d \<Longrightarrow> a = c \<and> b = d" for a b c d :: string and z :: char
    by (induction a arbitrary: c) (auto simp: Cons_eq_append_conv append_eq_Cons_conv)
  have z: "char_of (0::nat) = CHR 0x00" by (simp add: char_of_def)
  have "u = ''usr_1'' \<and> v = ''VIN1''" if "u @ CHR 0x00 # v = ''usr_1'' @ CHR 0x00 # ''VIN1''" for u v
    using sep [OF that] by simp
  then show ?thesis
    by (auto simp: collision_free_def demo_store_def stable_vehicle_id_def z split: if_splits)
qed

lemma garage_sync:
  "sync_vehicles demo_store ''usr_1'' ''conn_c'' [demo_car] [] empty_onboarding_db =
     (Inr [discovered_record ''usr_1'' ''conn_c'' ''veh_A'' demo_car None], garage_db)"
  unfolding garage_db_def by code_simp

lemma garage_values:
  "owner_of_vin (se_hash demo_store) garage_db ''VIN1'' = Some ''usr_1''"
  "map fst (vehicles garage_db) = [''veh_A'']"
  "\<exists>d. map_of (vehicles garage_db) ''veh_A'' = Some d \<and> dget d ''owner_user_id'' = VStr ''usr_1'' \<and>
     dget d ''connection_id'' = VStr ''conn_c''"
proof -
  show "owner_of_vin (se_hash demo_store) garage_db ''VIN1'' = Some ''usr_1''" by code_simp
  show "map fst (vehicles garage_db) = [''veh_A'']" by code_simp
  have "map_of (vehicles garage_db) ''veh_A'' = Some (dict_merge [] (vehicle_document 0
      (discovered_record ''usr_1'' ''conn_c'' ''veh_A'' demo_car None)))" by code_simp
  then show "\<exists>d. map_of (vehicles garage_db) ''veh_A'' = Some d \<and> dget d ''owner_user_id'' = VStr ''usr_1'' \<and>
      dget d ''connection_id'' = VStr ''conn_c''"
    by (auto simp: vehicle_document_fields simp del: dict_merge_Cons)
qed

lemma garage_reachable: "onboarding_reachable demo_store empty_onboarding_db garage_db"
proof -
  have "onboarding_step demo_store empty_onboarding_db garage_db"
    by (rule onboarding_step.sync [OF garage_sync]) (use demo_collision_free in \<open>simp add: demo_car_def\<close>)
  then show ?thesis by simp
qed

theorem vin_owner_never_changes_witness:
  "owner_of_vin (se_hash demo_store) (snd (sync_vehicles demo_store ''usr_2'' ''d'' [demo_car] [] garage_db)) ''VIN1''
     = Some ''usr_1''"
proof (rule vin_owner_never_changes [OF garage_reachable _ garage_values(1)])
  have "sync_vehicles demo_store ''usr_2'' ''d'' [demo_car] [] garage_db = (Inl (VehicleOwnershipConflictError
      ''Tesla vehicle is already bound to another platform user''), garage_db)"
    by code_simp
  then show "onboarding_reachable demo_store garage_db
      (snd (sync_vehicles demo_store ''usr_2'' ''d'' [demo_car] [] garage_db))"
    by simp
qed

theorem foreign_vin_aborts_the_sync_witness:
  "\<exists>e. sync_vehicles demo_store ''usr_2'' ''d'' [demo_car] [] garage_db = (Inl e, garage_db) \<and> is_onboarding_error e"
proof (rule foreign_vin_aborts_the_sync)
  show "demo_car \<in> set [demo_car]" by simp
  show "owner_of_vin (se_hash demo_store) garage_db (tv_vin demo_car) = Some ''usr_1''"
    using garage_values(1) by (simp add: demo_car_def)
qed simp

definition demo_registry :: ingest_state where
  "demo_registry = \<lparr>vin_index = vin_owners garage_db, vehicle_docs = vehicles garage_db,
     user_docs = [(''a@b.c'', [(''user_id'', VStr ''usr_1''), (''status'', VStr ''active''),
       (''dataset_id'', VStr ''tesla_u_1'')])], fixture_docs = [], tables = []\<rparr>"

theorem synchronised_vin_routes_to_its_owner_witness:
  "\<exists>rt. registry_resolve (se_hash demo_store) demo_registry ''VIN1'' = Some rt \<and> rt_dataset_id rt = ''tesla_u_1''"
proof -
  have s: "sole_active_user demo_registry ''usr_1'' ''tesla_u_1''"
    by (simp add: sole_active_user_def demo_registry_def dget_def)
  have v: "valid_dataset_id ''tesla_u_1''" by code_simp
  have "\<exists>rt. registry_resolve (se_hash demo_store) demo_registry (tv_vin demo_car) = Some rt \<and>
      rt_user_id rt = ''usr_1'' \<and> rt_dataset_id rt = ''tesla_u_1'' \<and>
      rt_vehicle_id rt = stable_vehicle_id (se_hash demo_store) ''usr_1'' (tv_vin demo_car)"
    by (rule synchronised_vin_routes_to_its_owner [OF empty_ownership_wf garage_sync _ _ _ _ s v])
      (use demo_collision_free in \<open>simp_all add: demo_car_def demo_registry_def\<close>)
  then show ?thesis by (auto simp: demo_car_def)
qed

theorem withdrawn_vehicle_is_refused_witness:
  "\<exists>e. get_vehicle ''usr_1'' ''veh_A'' (snd (sync_vehicles demo_store ''usr_1'' ''conn_c'' [] [] garage_db)) = Inl e"
proof -
  from garage_values(3) obtain d where d: "map_of (vehicles garage_db) ''veh_A'' = Some d"
    "dget d ''owner_user_id'' = VStr ''usr_1''" "dget d ''connection_id'' = VStr ''conn_c''" by blast
  have s: "sync_vehicles demo_store ''usr_1'' ''conn_c'' [] [] garage_db =
      (Inr [], snd (sync_vehicles demo_store ''usr_1'' ''conn_c'' [] [] garage_db))"
    by (simp add: sync_vehicles_def transact_def sync_vehicles_transaction_def)
  show ?thesis
    by (rule withdrawn_vehicle_is_refused [OF s d(1) _ d(2,3)]) (simp_all add: garage_values(2))
qed

end
