(* ===== verification/Onboarding.thy ===== *)
theory Onboarding
  imports VehicleOwnership Url
begin

text \<open>
  \<open>mcp_gateway/tesla_onboarding.py\<close> (the onboarding service) and \<open>tesla_client/session.py\<close> (the
  per-user client).  The calls to Tesla are arguments, collected in \<open>tesla_api\<close>; \<open>others\<close> is what
  other requests commit to the store while Tesla answers a refresh.  The second half shows what an
  authorization stores, and for whom, and that a state is used once, whatever requests come in between (the
  step relation \<open>elsewhere\<close>); and that credentials stay with their user.
\<close>

record tesla_api =
  ta_audience :: string
  ta_authorization_url :: "string \<Rightarrow> string \<Rightarrow> string"
  ta_exchange_code :: "string \<Rightarrow> string \<Rightarrow> exn + token_set"
  ta_refresh :: "string \<Rightarrow> string \<Rightarrow> exn + token_set"
  ta_region :: "string \<Rightarrow> string \<Rightarrow> exn + tesla_region"
  ta_list_vehicles :: "string \<Rightarrow> string \<Rightarrow> exn + tesla_vehicle list"
  ta_fleet_status :: "string \<Rightarrow> string \<Rightarrow> string list \<Rightarrow> exn + (string \<times> fleet_status) list"

type_synonym 'a onboarding = "(onboarding_db, exn, 'a) oper"

definition oauth_state_lifetime :: int where
  "oauth_state_lifetime = 600000000"

definition refresh_skew :: int where
  "refresh_skew = 60000000"

text \<open>Reading the store inside an operation.\<close>

definition reading :: "(onboarding_db \<Rightarrow> exn + 'a) \<Rightarrow> 'a onboarding" where
  "reading f db = (f db, db)"

definition transaction :: "(onboarding_db \<Rightarrow> exn + 'a \<times> onboarding_db) \<Rightarrow> 'a onboarding" where
  "transaction f = transact f"

subsection \<open>Starting, finishing and declining an authorization\<close>

text \<open>\<open>state\<close> and \<open>nonce\<close> are the two fresh tokens of \<open>secrets.token_urlsafe\<close>.\<close>

definition start_authorization ::
  "store_env \<Rightarrow> tesla_api \<Rightarrow> string \<Rightarrow> string \<Rightarrow> string \<Rightarrow> int \<Rightarrow> string \<Rightarrow> string option \<Rightarrow> string onboarding" where
  "start_authorization env api state nonce user now completion_mode binding =
     (if completion_mode \<notin> {''api'', ''browser''}
      then oraise (ValueError ''Unsupported Tesla OAuth completion mode'')
      else if (completion_mode = ''browser'') \<noteq> (binding \<noteq> None)
      then oraise (ValueError ''Browser Tesla OAuth requires an initiating session binding'')
      else obind (transaction (create_oauth_state env state
             \<lparr>pa_owner = user, pa_nonce = nonce, pa_expires_at = now + oauth_state_lifetime,
              pa_completion_mode = completion_mode, pa_session_binding = binding\<rparr>)) (\<lambda>_.
           oret (ta_authorization_url api state nonce)))"

text \<open>\<open>compare_digest\<close> raises a \<open>TypeError\<close> for text outside ASCII.\<close>

definition ascii :: "string \<Rightarrow> bool" where
  "ascii s = list_all (\<lambda>c. code c < (128::nat)) s"

definition require_session_binding :: "pending_authorization \<Rightarrow> string option \<Rightarrow> exn + unit" where
  "require_session_binding p expected =
     (if pa_completion_mode p \<noteq> ''browser'' then Inr ()
      else case (pa_session_binding p, expected) of
        (Some b, Some e) \<Rightarrow>
          if \<not> ascii b \<or> \<not> ascii e then Inl TypeError
          else if b = e then Inr ()
          else Inl (InvalidOAuthStateError ''Tesla OAuth browser session binding does not match'')
      | _ \<Rightarrow> Inl (InvalidOAuthStateError ''Tesla OAuth browser session binding does not match''))"

record onboarding_result =
  or_owner :: string
  or_connection_id :: string
  or_region :: string
  or_base_url :: string
  or_vehicles :: "vehicle_record list"
  or_completion_mode :: string

definition callback ::
  "store_env \<Rightarrow> tesla_api \<Rightarrow> string \<Rightarrow> string \<Rightarrow> string option \<Rightarrow> int \<Rightarrow> onboarding_result onboarding" where
  "callback env api state code_text expected now =
     obind (consume_oauth_state env state now) (\<lambda>pending.
     obind (olift (require_session_binding pending expected)) (\<lambda>_.
     obind (olift (ta_exchange_code api code_text (pa_nonce pending))) (\<lambda>tokens.
     obind (save_connection env (pa_owner pending) tokens (ta_audience api)) (\<lambda>conn.
     obind (olift (ta_region api (access_token tokens) (co_base_url conn))) (\<lambda>region.
     obind (olift (ta_list_vehicles api (access_token tokens) (region_base_url region))) (\<lambda>vs.
     obind (olift (ta_fleet_status api (access_token tokens) (region_base_url region) (map tv_vin vs))) (\<lambda>statuses.
     obind (sync_vehicles env (pa_owner pending) (co_connection_id conn) vs statuses) (\<lambda>records.
     obind (complete_connection env (pa_owner pending) (region_name region) (region_base_url region)) (\<lambda>done_conn.
     oret \<lparr>or_owner = pa_owner pending, or_connection_id = co_connection_id done_conn,
       or_region = region_name region, or_base_url = region_base_url region, or_vehicles = records,
       or_completion_mode = pa_completion_mode pending\<rparr>)))))))))"

definition decline ::
  "store_env \<Rightarrow> string \<Rightarrow> string option \<Rightarrow> int \<Rightarrow> pending_authorization onboarding" where
  "decline env state expected now =
     obind (consume_oauth_state env state now) (\<lambda>pending.
     obind (olift (require_session_binding pending expected)) (\<lambda>_.
     oret pending))"

subsection \<open>Access tokens\<close>

text \<open>
  The common end of \<open>_access_token\<close> and \<open>rotate_refresh_token\<close>: refresh at Tesla, commit the new
  tokens, or read what another request committed first.
\<close>

definition refresh_connection ::
  "store_env \<Rightarrow> tesla_api \<Rightarrow> (onboarding_db \<Rightarrow> onboarding_db) \<Rightarrow> string \<Rightarrow> tesla_connection \<Rightarrow> tesla_connection onboarding" where
  "refresh_connection env api others owner conn =
     obind (ocatch (olift (ta_refresh api (refresh_token (co_tokens conn)) (tesla_subject (co_tokens conn))))
              (\<lambda>e. if is_reauthorization_required e
                   then obind (mark_reauthorization_required env owner) (\<lambda>_. oraise e) else oraise e)) (\<lambda>rotated.
     \<lambda>db. ocatch (rotate_tokens env owner (co_token_version conn) rotated)
       (\<lambda>e. case e of ConcurrentTokenRotationError m \<Rightarrow> reading (get_connection env owner) | _ \<Rightarrow> oraise e)
       (others db))"

definition renewed_authorization_error :: exn where
  "renewed_authorization_error = tesla_reauthorization_required ''Tesla authorization must be renewed''"

definition current_connection ::
  "store_env \<Rightarrow> tesla_api \<Rightarrow> (onboarding_db \<Rightarrow> onboarding_db) \<Rightarrow> string \<Rightarrow> int \<Rightarrow> bool \<Rightarrow> tesla_connection onboarding" where
  "current_connection env api others owner now force_refresh =
     obind (reading (get_connection env owner)) (\<lambda>conn.
     if co_status conn = ''reauthorization_required'' then oraise renewed_authorization_error
     else if \<not> force_refresh \<and> token_expires_at (co_tokens conn) > now + refresh_skew then oret conn
     else refresh_connection env api others owner conn)"

definition access_for_user ::
  "store_env \<Rightarrow> tesla_api \<Rightarrow> (onboarding_db \<Rightarrow> onboarding_db) \<Rightarrow> int \<Rightarrow> string \<Rightarrow> bool \<Rightarrow> access_context onboarding" where
  "access_for_user env api others now owner force_refresh =
     obind (current_connection env api others owner now force_refresh) (\<lambda>conn.
     oret \<lparr>ac_access_token = access_token (co_tokens conn), ac_base_url = co_base_url conn\<rparr>)"

definition rotate_refresh_token ::
  "store_env \<Rightarrow> tesla_api \<Rightarrow> (onboarding_db \<Rightarrow> onboarding_db) \<Rightarrow> string \<Rightarrow> (string \<times> int \<times> int) onboarding" where
  "rotate_refresh_token env api others owner =
     obind (reading (get_connection env owner)) (\<lambda>conn.
     if co_status conn = ''reauthorization_required'' then oraise renewed_authorization_error
     else obind (refresh_connection env api others owner conn) (\<lambda>rotated.
       oret (co_status rotated, co_token_version rotated, token_expires_at (co_tokens rotated))))"

subsection \<open>The per-user client\<close>

definition execute ::
  "(string \<Rightarrow> bool \<Rightarrow> ('s, exn, access_context) oper) \<Rightarrow> string \<Rightarrow>
   (string \<Rightarrow> string \<Rightarrow> ('s, exn, 'a) oper) \<Rightarrow> ('s, exn, 'a) oper" where
  "execute access owner operation =
     obind (access owner False) (\<lambda>c.
     ocatch (operation (ac_access_token c) (ac_base_url c))
       (\<lambda>e. if is_reauthorization_required e
            then obind (access owner True) (\<lambda>r. operation (ac_access_token r) (ac_base_url r))
            else oraise e))"

subsection \<open>Vehicles of the user\<close>

definition pairing_url :: "string \<Rightarrow> string \<Rightarrow> string" where
  "pairing_url app_domain vin = ''https://www.tesla.com/_ak/'' @ app_domain @ ''?vin='' @ url_quote vin"

definition public_document :: "string \<Rightarrow> vehicle_record \<Rightarrow> dict" where
  "public_document app_domain r =
     [(''vehicle_id'', VStr (vr_vehicle_id r)), (''vin'', VStr (vr_vin r)),
      (''display_name'', opt_str (vr_display_name r)), (''state'', opt_str (vr_state r)),
      (''authorization_status'', VStr (vr_authorization_status r)),
      (''virtual_key_status'', VStr (vr_virtual_key_status r)),
      (''virtual_key_pairing_url'', VStr (pairing_url app_domain (vr_vin r))),
      (''vehicle_command_protocol_required'', opt_bool (vr_protocol_required r)),
      (''firmware_version'', opt_str (vr_firmware_version r)),
      (''fleet_telemetry_version'', opt_str (vr_telemetry_version r)),
      (''total_number_of_keys'', opt_int (vr_total_number_of_keys r))]"

text \<open>The constructor's check of the application domain.\<close>

definition app_domain_of :: "string \<Rightarrow> exn + string" where
  "app_domain_of domain =
     (let d = lower (strip domain)
      in if d = [] \<or> contains ''://'' d \<or> CHR ''/'' \<in> set d
         then Inl (ValueError ''Tesla application domain must be a bare hostname'') else Inr d)"

definition list_vehicle_documents :: "string \<Rightarrow> string \<Rightarrow> dict list onboarding" where
  "list_vehicle_documents app_domain user =
     obind (reading (list_vehicle_records user)) (\<lambda>rs. oret (map (public_document app_domain) rs))"

definition refresh_fleet_status ::
  "store_env \<Rightarrow> tesla_api \<Rightarrow> (onboarding_db \<Rightarrow> onboarding_db) \<Rightarrow> string \<Rightarrow> string \<Rightarrow> string \<Rightarrow> int \<Rightarrow> dict onboarding" where
  "refresh_fleet_status env api others app_domain user vid now =
     obind (reading (get_vehicle user vid)) (\<lambda>v.
     obind (ocatch (execute (access_for_user env api others now) user
              (\<lambda>token base_url. olift (ta_fleet_status api token base_url [vr_vin v])))
              (\<lambda>e. if is_reauthorization_required e
                   then obind (mark_reauthorization_required env user) (\<lambda>_. oraise e) else oraise e)) (\<lambda>statuses.
     case map_of statuses (vr_vin v) of
       None \<Rightarrow> oraise (TeslaOnboardingError ''Tesla fleet_status omitted the selected vehicle'')
     | Some st \<Rightarrow>
         obind (update_fleet_status env user (vr_vehicle_id v) st) (\<lambda>updated.
         oret (public_document app_domain updated))))"

subsection \<open>Facts about the store\<close>

lemma consume_eq_Inr:
  "consume_oauth_state env state now db = (Inr p, db') \<longleftrightarrow>
     (\<exists>data. state \<noteq> [] \<and> map_of (oauth_states db) (se_hash env state) = Some data \<and>
        pending_from_data data = Inr p \<and> now < pa_expires_at p \<and>
        db' = db\<lparr>oauth_states := AList.delete (se_hash env state) (oauth_states db)\<rparr>)"
  by (auto simp: consume_oauth_state_def transact_eq_Inr consume_state_transaction_def inr_simps)

lemma consume_absent:
  "state \<noteq> [] \<Longrightarrow> map_of (oauth_states db) (se_hash env state) = None \<Longrightarrow>
     consume_oauth_state env state now db =
       (Inl (InvalidOAuthStateError ''Tesla OAuth state is invalid or already used''), db)"
  by (simp add: consume_oauth_state_def transact_def consume_state_transaction_def)

text \<open>What the state document of a started authorization reads back as.\<close>

lemma pending_round_trip:
  assumes "completion_mode \<in> {''api'', ''browser''}" and "(completion_mode = ''browser'') = (binding \<noteq> None)"
  shows "pending_from_data [(''owner_user_id'', VStr user), (''nonce'', VStr nonce), (''expires_at'', VTime t),
      (''completion_mode'', VStr completion_mode), (''browser_session_binding'', opt_str binding),
      (''created_at'', VTime srv)] =
    Inr \<lparr>pa_owner = user, pa_nonce = nonce, pa_expires_at = t, pa_completion_mode = completion_mode,
         pa_session_binding = binding\<rparr>"
  using assms by (cases binding) (auto simp: pending_from_data_def Let_def dget_def dget_default_def field_str_def)

lemma start_eq_Inr:
  assumes "start_authorization env api state nonce user now completion_mode binding db = (Inr url, db')"
  shows "completion_mode \<in> {''api'', ''browser''}" and "(completion_mode = ''browser'') = (binding \<noteq> None)"
    and "map_of (oauth_states db) (se_hash env state) = None"
    and "map_of (oauth_states db') (se_hash env state) = Some
      [(''owner_user_id'', VStr user), (''nonce'', VStr nonce), (''expires_at'', VTime (now + oauth_state_lifetime)),
       (''completion_mode'', VStr completion_mode), (''browser_session_binding'', opt_str binding),
       (''created_at'', VTime (se_server_time env))]"
  using assms
  by (auto simp: start_authorization_def obind_eq_Inr transaction_def transact_eq_Inr create_oauth_state_def
      inr_simps oraise_def oret_def split: if_splits)

text \<open>The connection and vehicle operations leave the OAuth states alone.\<close>

abbreviation keeps_states :: "(string \<times> dict) list \<Rightarrow> 'a onboarding \<Rightarrow> bool" where
  "keeps_states c m \<equiv> keeps (\<lambda>db. oauth_states db = c) m"

lemma sync_loop_states:
  "sync_loop env idx owner cid statuses vs db = Inr (rs, db') \<Longrightarrow> oauth_states db' = oauth_states db"
proof (induction vs arbitrary: db rs)
  case (Cons v vs)
  then show ?case by (fastforce simp: inr_simps Let_def store_vehicle_def)
qed simp

lemma connection_operations_states [wf_intros]:
  "keeps_states c (save_connection env owner tokens base_url)"
  "keeps_states c (complete_connection env owner rgn base_url)"
  "keeps_states c (sync_vehicles env owner cid vs statuses)"
proof -
  show "keeps_states c (save_connection env owner tokens base_url)" unfolding save_connection_def
    by (rule keeps_transact) (auto simp: save_connection_transaction_def Let_def inr_simps)
  show "keeps_states c (complete_connection env owner rgn base_url)"
    by (auto simp: keeps_def complete_connection_def split: sum.splits)
  show "keeps_states c (sync_vehicles env owner cid vs statuses)" unfolding sync_vehicles_def
    by (rule keeps_transact) (auto simp: sync_vehicles_transaction_def inr_simps dest: sync_loop_states)
qed

text \<open>The part of the callback after the state was consumed.\<close>

definition finish_callback ::
  "store_env \<Rightarrow> tesla_api \<Rightarrow> string \<Rightarrow> string option \<Rightarrow> pending_authorization \<Rightarrow> onboarding_result onboarding" where
  "finish_callback env api code_text expected pending =
     obind (olift (require_session_binding pending expected)) (\<lambda>_.
     obind (olift (ta_exchange_code api code_text (pa_nonce pending))) (\<lambda>tokens.
     obind (save_connection env (pa_owner pending) tokens (ta_audience api)) (\<lambda>conn.
     obind (olift (ta_region api (access_token tokens) (co_base_url conn))) (\<lambda>region.
     obind (olift (ta_list_vehicles api (access_token tokens) (region_base_url region))) (\<lambda>vs.
     obind (olift (ta_fleet_status api (access_token tokens) (region_base_url region) (map tv_vin vs))) (\<lambda>statuses.
     obind (sync_vehicles env (pa_owner pending) (co_connection_id conn) vs statuses) (\<lambda>records.
     obind (complete_connection env (pa_owner pending) (region_name region) (region_base_url region)) (\<lambda>done_conn.
     oret \<lparr>or_owner = pa_owner pending, or_connection_id = co_connection_id done_conn,
       or_region = region_name region, or_base_url = region_base_url region, or_vehicles = records,
       or_completion_mode = pa_completion_mode pending\<rparr>))))))))"

lemma callback_eq:
  "callback env api state code_text expected now =
     obind (consume_oauth_state env state now) (finish_callback env api code_text expected)"
  by (simp add: callback_def finish_callback_def [abs_def])

lemma finish_callback_states: "keeps_states c (finish_callback env api code_text expected pending)"
  unfolding finish_callback_def by (intro wf_intros)

lemma sync_loop_owner:
  "sync_loop env idx owner cid statuses vs db = Inr (rs, db') \<Longrightarrow> r \<in> set rs \<Longrightarrow> vr_owner r = owner"
  by (induction vs arbitrary: db rs) (auto simp: inr_simps Let_def)

lemma finish_callback_eq_Inr:
  assumes "finish_callback env api code_text expected pending db = (Inr r, db')"
  shows "require_session_binding pending expected = Inr () \<and> or_owner r = pa_owner pending \<and>
    or_completion_mode r = pa_completion_mode pending \<and> list_all (\<lambda>v. vr_owner v = pa_owner pending) (or_vehicles r)"
  using assms
  by (auto simp: finish_callback_def obind_eq_Inr olift_def oret_def sync_vehicles_def transact_eq_Inr
      sync_vehicles_transaction_def inr_simps list_all_iff dest: sync_loop_owner)

subsection \<open>What a callback stores\<close>

text \<open>A change of a collection that writes documents of one user only.\<close>

definition only_for :: "string \<Rightarrow> (string \<times> dict) list \<Rightarrow> (string \<times> dict) list \<Rightarrow> bool" where
  "only_for user c c' \<longleftrightarrow> (\<forall>k. map_of c' k \<noteq> map_of c k \<longrightarrow>
     (\<exists>d. map_of c' k = Some d \<and> dget d ''owner_user_id'' = VStr user))"

lemma only_for_refl: "only_for user c c"
  by (simp add: only_for_def)

lemma only_for_trans: "only_for user a b \<Longrightarrow> only_for user b c \<Longrightarrow> only_for user a c"
  unfolding only_for_def by metis

lemma only_for_update: "dget d ''owner_user_id'' = VStr user \<Longrightarrow> only_for user c (AList.update k d c)"
  by (simp add: only_for_def)

lemma store_vehicle_only_for:
  "only_for (vr_owner r) (vehicles db) (vehicles (store_vehicle env r db))"
  "only_for (vr_owner r) (vin_owners db) (vin_owners (store_vehicle env r db))"
proof -
  show "only_for (vr_owner r) (vehicles db) (vehicles (store_vehicle env r db))"
    unfolding only_for_def store_vehicle_lookups by (simp add: vehicle_document_fields)
  have "dget (index_document srv u vid) ''owner_user_id'' = VStr u" for srv u vid
    by (simp add: index_document_def dget_def)
  then show "only_for (vr_owner r) (vin_owners db) (vin_owners (store_vehicle env r db))"
    unfolding only_for_def store_vehicle_lookups by simp
qed

lemma sync_loop_only_for:
  assumes "sync_loop env idx owner cid statuses vs db = Inr (rs, db')"
  shows "only_for owner (vehicles db) (vehicles db') \<and> only_for owner (vin_owners db) (vin_owners db') \<and>
    connections db' = connections db"
  using assms
proof (induction vs arbitrary: db rs)
  case Nil
  then show ?case by (simp add: only_for_refl)
next
  case (Cons v vs)
  from Cons.prems obtain vid rs' where l: "sync_loop env idx owner cid statuses vs (store_vehicle env
       (discovered_record owner cid vid v (map_of statuses (tv_vin v))) db) = Inr (rs', db')"
    by (auto simp: inr_simps Let_def)
  let ?r = "discovered_record owner cid vid v (map_of statuses (tv_vin v))"
  from Cons.IH [OF l] store_vehicle_only_for [of ?r db env] show ?case
    by (auto simp: store_vehicle_def Let_def intro: only_for_trans)
qed

text \<open>A collection has one document for an identifier; the vehicles that are withdrawn are the user's own.\<close>

lemma withdraw_only_for:
  assumes "\<And>k. k \<in> set ks \<Longrightarrow> \<exists>d. map_of docs k = Some d \<and> dget d ''owner_user_id'' = VStr user"
  shows "only_for user docs (fold (withdraw_vehicle env) ks docs)"
  unfolding only_for_def
proof (intro allI impI)
  fix k
  assume "map_of (fold (withdraw_vehicle env) ks docs) k \<noteq> map_of docs k"
  then have "k \<in> set ks" using withdraw_fold_other by metis
  with assms obtain d where "map_of docs k = Some d" "dget d ''owner_user_id'' = VStr user" by blast
  then show "\<exists>d. map_of (fold (withdraw_vehicle env) ks docs) k = Some d \<and> dget d ''owner_user_id'' = VStr user"
    using withdraw_fold_field [of "''owner_user_id''" docs k d env ks] by auto
qed

lemma sync_only_for:
  assumes "sync_vehicles env owner cid vs statuses db = (Inr rs, db')" and "distinct (map fst (vehicles db))"
  shows "only_for owner (vehicles db) (vehicles db') \<and> only_for owner (vin_owners db) (vin_owners db') \<and>
    connections db' = connections db"
proof -
  from assms(1) obtain db1 where l: "sync_loop env (vin_owners db) owner cid statuses vs db = Inr (rs, db1)"
    and db': "db' = db1\<lparr>vehicles := fold (withdraw_vehicle env)
       (withdrawn_ids owner cid (map vr_vehicle_id rs) db) (vehicles db1)\<rparr>"
    by (rule sync_eq_Inr)
  note f = sync_loop_only_for [OF l]
  have "\<exists>d. map_of (vehicles db1) k = Some d \<and> dget d ''owner_user_id'' = VStr owner"
    if k: "k \<in> set (withdrawn_ids owner cid (map vr_vehicle_id rs) db)" for k
  proof -
    from k obtain d where "(k, d) \<in> set (vehicles db)" and d: "dget d ''owner_user_id'' = VStr owner"
      by (auto simp: withdrawn_ids_def)
    with assms(2) have "map_of (vehicles db) k = Some d" by simp
    with f d show ?thesis unfolding only_for_def by (metis)
  qed
  then have "only_for owner (vehicles db1) (vehicles db')" unfolding db' by (auto intro: withdraw_only_for)
  with f show ?thesis by (auto simp: db' intro: only_for_trans)
qed

text \<open>The connection of a user holds given tokens, as the cipher gives them back, and is complete.\<close>

definition connected_with :: "store_env \<Rightarrow> string \<Rightarrow> token_set \<Rightarrow> onboarding_result \<Rightarrow> onboarding_db \<Rightarrow> bool" where
  "connected_with env user tokens r db \<longleftrightarrow> (\<exists>conn. get_connection env user db = Inr conn \<and> co_owner conn = user \<and>
     se_decrypt env user (se_encrypt env user tokens) = Inr (co_tokens conn) \<and> co_status conn = ''connected'' \<and>
     co_connection_id conn = or_connection_id r \<and> co_region conn = Some (or_region r) \<and> co_base_url conn = or_base_url r)"

lemma save_connection_eq_Inr:
  assumes "save_connection env owner tokens base_url db = (Inr conn, db')"
  obtains doc where "connections db' = AList.update owner doc (connections db)" and "vehicles db' = vehicles db"
    and "vin_owners db' = vin_owners db" and "map_of doc ''owner_user_id'' = Some (VStr owner)"
    and "map_of doc ''encrypted_tokens'' = Some (VStr (se_encrypt env owner tokens))"
    and "map_of doc ''connection_id'' = Some (VStr (co_connection_id conn))"
    and "\<exists>v. map_of doc ''token_version'' = Some (VInt v)"
  using assms
  by (auto simp: save_connection_def transact_eq_Inr save_connection_transaction_def Let_def inr_simps)

lemma complete_connection_eq_Inr:
  assumes "complete_connection env owner rgn base_url db = (Inr c, db')" and "map_of (connections db) owner = Some doc"
    and "map_of doc ''owner_user_id'' = Some (VStr owner)" and "map_of doc ''connection_id'' = Some (VStr cid)"
    and "map_of doc ''encrypted_tokens'' = Some (VStr encrypted)"
  shows "get_connection env owner db' = Inr c" and "co_owner c = owner" and "se_decrypt env owner encrypted = Inr (co_tokens c)"
    and "co_status c = ''connected''" and "co_connection_id c = cid" and "co_region c = Some rgn" and "co_base_url c = base_url"
    and "\<And>u. u \<noteq> owner \<Longrightarrow> map_of (connections db') u = map_of (connections db) u"
    and "vehicles db' = vehicles db" and "vin_owners db' = vin_owners db"
  using assms
  by (auto simp: complete_connection_def update_doc_def get_connection_def connection_from_data_def inr_simps dget_def)

lemma finish_callback_stores:
  assumes "finish_callback env api code_text expected p db = (Inr r, db')" and "distinct (map fst (vehicles db))"
  obtains tokens where "ta_exchange_code api code_text (pa_nonce p) = Inr tokens"
    and "connected_with env (pa_owner p) tokens r db'"
    and "\<And>u. u \<noteq> pa_owner p \<Longrightarrow> map_of (connections db') u = map_of (connections db) u"
    and "only_for (pa_owner p) (vehicles db) (vehicles db')" and "only_for (pa_owner p) (vin_owners db) (vin_owners db')"
proof -
  from assms(1) obtain tokens conn db1 region vs statuses records db2 c where
    x: "ta_exchange_code api code_text (pa_nonce p) = Inr tokens"
    and s: "save_connection env (pa_owner p) tokens (ta_audience api) db = (Inr conn, db1)"
    and y: "sync_vehicles env (pa_owner p) (co_connection_id conn) vs statuses db1 = (Inr records, db2)"
    and c: "complete_connection env (pa_owner p) (region_name (region :: tesla_region)) (region_base_url region) db2 = (Inr c, db')"
    and res: "or_connection_id r = co_connection_id c" "or_region r = region_name region" "or_base_url r = region_base_url region"
    by (auto simp: finish_callback_def obind_eq_Inr olift_def oret_def)
  from s obtain doc where d: "connections db1 = AList.update (pa_owner p) doc (connections db)" "vehicles db1 = vehicles db"
    "vin_owners db1 = vin_owners db" and doc: "map_of doc ''owner_user_id'' = Some (VStr (pa_owner p))"
    "map_of doc ''encrypted_tokens'' = Some (VStr (se_encrypt env (pa_owner p) tokens))"
    "map_of doc ''connection_id'' = Some (VStr (co_connection_id conn))"
    by (rule save_connection_eq_Inr)
  have dist: "distinct (map fst (vehicles db1))" using assms(2) d(2) by simp
  note f = sync_only_for [OF y dist]
  then have "map_of (connections db2) (pa_owner p) = Some doc" by (simp add: d(1))
  note k = complete_connection_eq_Inr [OF c this doc(1,3,2)]
  show thesis
  proof (rule that [OF x])
    show "connected_with env (pa_owner p) tokens r db'" unfolding connected_with_def res using k by auto
    show "map_of (connections db') u = map_of (connections db) u" if "u \<noteq> pa_owner p" for u
      using k(8) [OF that] that f d(1) by simp
    show "only_for (pa_owner p) (vehicles db) (vehicles db')" "only_for (pa_owner p) (vin_owners db) (vin_owners db')"
      using f k(9,10) d(2,3) by simp_all
  qed
qed

subsection \<open>Requests in between\<close>

text \<open>
  What other requests, of any user, do to the store: whole authorization requests, and the single operations of
  requests that overlap.  \<open>H\<close> is the hash of the store, and \<open>h\<close> the hash of one state: a later start does not
  draw a state with that hash again (a state is 256 random bits).
\<close>

inductive elsewhere :: "(string \<Rightarrow> string) \<Rightarrow> string \<Rightarrow> onboarding_db \<Rightarrow> onboarding_db \<Rightarrow> bool" for H h where
  start: "start_authorization env api state nonce user now completion_mode binding db = (r, db') \<Longrightarrow>
    se_hash env = H \<Longrightarrow> H state \<noteq> h \<Longrightarrow> elsewhere H h db db'"
| called_back: "callback env api state code_text expected now db = (r, db') \<Longrightarrow> elsewhere H h db db'"
| declined: "decline env state expected now db = (r, db') \<Longrightarrow> elsewhere H h db db'"
| consume: "consume_oauth_state env state now db = (r, db') \<Longrightarrow> elsewhere H h db db'"
| save: "save_connection env owner tokens base_url db = (r, db') \<Longrightarrow> elsewhere H h db db'"
| complete: "complete_connection env owner rgn base_url db = (r, db') \<Longrightarrow> elsewhere H h db db'"
| rotate: "rotate_tokens env owner version tokens db = (r, db') \<Longrightarrow> elsewhere H h db db'"
| mark: "mark_reauthorization_required env owner db = (r, db') \<Longrightarrow> elsewhere H h db db'"
| sync: "sync_vehicles env owner cid vs statuses db = (r, db') \<Longrightarrow> elsewhere H h db db'"
| status: "update_fleet_status env owner vid st db = (r, db') \<Longrightarrow> elsewhere H h db db'"
| config: "save_telemetry_configuration env owner vid c db = (r, db') \<Longrightarrow> elsewhere H h db db'"
| audit: "begin_command_audit env aid now owner vid tool ps corr source db = (r, db') \<Longrightarrow> elsewhere H h db db'"
| audited: "complete_command_audit env aid result err db = (r, db') \<Longrightarrow> elsewhere H h db db'"
| config_audit: "begin_config_audit env aid now owner vid op_name desired source db = (r, db') \<Longrightarrow> elsewhere H h db db'"
| config_audited: "complete_config_audit env aid result err db = (r, db') \<Longrightarrow> elsewhere H h db db'"

lemma consume_gone:
  "consume_oauth_state env state now db = (r, db') \<Longrightarrow>
     map_of (oauth_states db') h = map_of (oauth_states db) h \<or> map_of (oauth_states db') h = None"
proof (cases r)
  case (Inl e)
  then show "consume_oauth_state env state now db = (r, db') \<Longrightarrow> ?thesis"
    by (simp add: consume_oauth_state_def transact_eq_Inl)
next
  case (Inr p)
  then show "consume_oauth_state env state now db = (r, db') \<Longrightarrow> ?thesis"
    by (auto simp: consume_eq_Inr delete_conv' split: if_splits)
qed

lemma callback_gone:
  assumes "callback env api state code_text expected now db = (r, db')"
  shows "map_of (oauth_states db') h = map_of (oauth_states db) h \<or> map_of (oauth_states db') h = None"
proof (cases "consume_oauth_state env state now db")
  case (Pair q db1)
  note g = consume_gone [OF Pair, of h]
  show ?thesis
  proof (cases q)
    case (Inl e)
    with assms Pair g show ?thesis by (simp add: callback_eq obind_def)
  next
    case (Inr p)
    with assms Pair have "finish_callback env api code_text expected p db1 = (r, db')"
      by (simp add: callback_eq obind_def)
    then have "oauth_states db' = oauth_states db1" by (rule keeps_eqD [OF finish_callback_states refl])
    with g show ?thesis by simp
  qed
qed

lemma decline_gone:
  assumes "decline env state expected now db = (r, db')"
  shows "map_of (oauth_states db') h = map_of (oauth_states db) h \<or> map_of (oauth_states db') h = None"
proof (cases "consume_oauth_state env state now db")
  case (Pair q db1)
  with assms have "db' = db1" by (auto simp: decline_def obind_def oper_simps split: sum.splits)
  with consume_gone [OF Pair, of h] show ?thesis by simp
qed

lemma start_elsewhere:
  assumes "start_authorization env api state nonce user now completion_mode binding db = (r, db')" and "se_hash env state \<noteq> h"
  shows "map_of (oauth_states db') h = map_of (oauth_states db) h"
  using assms
  by (auto simp: start_authorization_def obind_def transaction_def transact_def create_oauth_state_def create_doc_def
      oper_simps split: if_splits option.splits)

text \<open>The state document of the hash stays as it is until it is gone, and then it stays gone.\<close>

lemma elsewhere_step:
  assumes "elsewhere H h db db'"
  shows "map_of (oauth_states db') h = map_of (oauth_states db) h \<or> map_of (oauth_states db') h = None"
  using assms
proof cases
  case (start env api state nonce user now completion_mode binding r)
  with start_elsewhere show ?thesis by blast
next
  case (called_back env api state code_text expected now r)
  then show ?thesis by (rule_tac callback_gone)
next
  case (declined env state expected now r)
  then show ?thesis by (rule_tac decline_gone)
next
  case (consume env state now r)
  then show ?thesis by (rule_tac consume_gone)
next
  case (save env owner tokens base_url r)
  then show ?thesis using keeps_eqD [OF connection_operations_states(1) refl] by metis
next
  case (complete env owner rgn base_url r)
  then show ?thesis using keeps_eqD [OF connection_operations_states(2) refl] by metis
next
  case (sync env owner cid vs statuses r)
  then show ?thesis using keeps_eqD [OF connection_operations_states(3) refl] by metis
qed (auto simp: inr_simps rotate_tokens_def rotate_transaction_def mark_reauthorization_required_def
    begin_command_audit_def complete_command_audit_def begin_config_audit_def complete_config_audit_def
    update_fleet_status_def update_fleet_status_transaction_def save_telemetry_configuration_def
    transact_def Let_def split: sum.splits option.splits)

lemma elsewhere_state:
  assumes "(elsewhere H h)\<^sup>*\<^sup>* db db'"
  shows "map_of (oauth_states db') h = map_of (oauth_states db) h \<or> map_of (oauth_states db') h = None"
  using assms
proof (induction rule: rtranclp_induct)
  case (step y z)
  then show ?case using elsewhere_step [OF step.hyps(2)] by auto
qed simp

subsection \<open>Properties of the authorization\<close>


text \<open>A request that used a state: it was not refused for the state itself.  A callback or a denial that then fails,
  for the session binding or at Tesla, has used the state too.\<close>

definition state_refusals :: "string set" where
  "state_refusals = {''Tesla OAuth state is missing'', ''Tesla OAuth state is invalid or already used'',
     ''Tesla OAuth state is invalid'', ''Tesla OAuth state has expired''}"

definition accepted :: "exn + 'a \<Rightarrow> bool" where
  "accepted r \<longleftrightarrow> (\<forall>m \<in> state_refusals. r \<noteq> Inl (InvalidOAuthStateError m))"

definition state_used :: "store_env \<Rightarrow> string \<Rightarrow> onboarding_db \<Rightarrow> onboarding_db \<Rightarrow> bool" where
  "state_used env state db db' \<longleftrightarrow>
     (\<exists>api code_text expected now r. callback env api state code_text expected now db = (r, db') \<and> accepted r) \<or>
     (\<exists>expected now r. decline env state expected now db = (r, db') \<and> accepted r)"

lemma consume_refused:
  "consume_oauth_state env state now db = (Inl e, db') \<Longrightarrow> \<not> accepted (Inl e)"
  by (auto simp: consume_oauth_state_def transact_eq_Inl consume_state_transaction_def accepted_def state_refusals_def
      pending_from_data_def rbind_eq_Inl Let_def split: if_splits option.splits)

lemma state_used_gone:
  assumes "state_used env state db db'"
  shows "state \<noteq> [] \<and> map_of (oauth_states db') (se_hash env state) = None"
proof -
  from assms obtain now p t where c: "consume_oauth_state env state now db = (Inr p, t)" and o: "oauth_states db' = oauth_states t"
  proof (unfold state_used_def, elim disjE exE conjE)
    fix api code_text expected now r
    assume a: "callback env api state code_text expected now db = (r, db')" "accepted r"
    show thesis
    proof (cases "consume_oauth_state env state now db")
      case (Pair q t)
      with a consume_refused obtain p where q: "q = Inr p"
        by (cases q) (fastforce simp: callback_eq obind_def accepted_def)+
      with a Pair have "finish_callback env api code_text expected p t = (r, db')" by (simp add: callback_eq obind_def)
      then have "oauth_states db' = oauth_states t" by (rule keeps_eqD [OF finish_callback_states refl])
      with that Pair q show thesis by blast
    qed
  next
    fix expected now r
    assume a: "decline env state expected now db = (r, db')" "accepted r"
    show thesis
    proof (cases "consume_oauth_state env state now db")
      case (Pair q t)
      with a consume_refused obtain p where q: "q = Inr p"
        by (cases q) (fastforce simp: decline_def obind_def accepted_def)+
      with a Pair have "db' = t" by (auto simp: decline_def obind_def oper_simps split: sum.splits)
      with that Pair q show thesis by blast
    qed
  qed
  then show ?thesis by (auto simp: consume_eq_Inr)
qed

text \<open>C31: An OAuth state is used at most once: after a callback or a denial that used it, whatever it came to, and
  after any requests in between, every callback and every denial with that state is refused and changes nothing.\<close>
theorem oauth_state_is_single_use:
  assumes "state_used env state db db1" and "(elsewhere (se_hash env) (se_hash env state))\<^sup>*\<^sup>* db1 db2"
    and "se_hash env' = se_hash env"
  shows "callback env' api state code_text expected later db2 =
      (Inl (InvalidOAuthStateError ''Tesla OAuth state is invalid or already used''), db2) \<and>
    decline env' state expected later db2 =
      (Inl (InvalidOAuthStateError ''Tesla OAuth state is invalid or already used''), db2)"
proof -
  from state_used_gone [OF assms(1)] have ne: "state \<noteq> []" and "map_of (oauth_states db1) (se_hash env state) = None" by auto
  with elsewhere_state [OF assms(2)] assms(3) have "map_of (oauth_states db2) (se_hash env' state) = None" by auto
  from consume_absent [OF ne this] show ?thesis by (simp add: callback_eq decline_def obind_def)
qed

subsection \<open>Token rotation\<close>

lemma rotate_eq_Inr:
  assumes "rotate_tokens env owner v tokens db = (Inr c, db')"
  obtains data where "map_of (connections db) owner = Some data"
    and "int_value (dget_default data ''token_version'' (VInt 0)) = Inr v" and "dget data ''owner_user_id'' = VStr owner"
    and "connection_from_data env owner (dict_merge data [(''encrypted_tokens'', VStr (se_encrypt env owner tokens)),
       (''token_version'', VInt (v + 1)), (''status'', VStr ''connected'')]) = Inr c"
    and "connections db' = AList.update owner (dict_merge data
       [(''encrypted_tokens'', VStr (se_encrypt env owner tokens)), (''token_version'', VInt (v + 1)),
        (''access_token_expires_at'', VTime (token_expires_at tokens)),
        (''granted_scopes'', VList (map VStr (token_scopes tokens))),
        (''status'', VStr ''connected''), (''updated_at'', VTime (se_server_time env))]) (connections db)"
  using assms
  by (auto simp: rotate_tokens_def transact_eq_Inr rotate_transaction_def Let_def inr_simps
      simp del: dict_merge_Cons)

lemma connection_from_data_cong:
  assumes "\<And>k. k \<in> {''owner_user_id'', ''encrypted_tokens'', ''connection_id'', ''token_version'', ''base_url'',
      ''status'', ''region''} \<Longrightarrow> map_of d k = map_of d' k"
  shows "connection_from_data env owner d = connection_from_data env owner d'"
  using assms by (simp add: connection_from_data_def required_value_def dget_def)

lemma rotated_connection_is_stored:
  assumes "rotate_tokens env owner v tokens db = (Inr c, db')"
  shows "get_connection env owner db' = Inr c" and "co_token_version c = v + 1" and "co_owner c = owner"
    and "co_status c = ''connected''" and "se_decrypt env owner (se_encrypt env owner tokens) = Inr (co_tokens c)"
proof -
  from assms obtain data where d: "connection_from_data env owner (dict_merge data
      [(''encrypted_tokens'', VStr (se_encrypt env owner tokens)), (''token_version'', VInt (v + 1)),
       (''status'', VStr ''connected'')]) = Inr c"
    "connections db' = AList.update owner (dict_merge data
       [(''encrypted_tokens'', VStr (se_encrypt env owner tokens)), (''token_version'', VInt (v + 1)),
        (''access_token_expires_at'', VTime (token_expires_at tokens)),
        (''granted_scopes'', VList (map VStr (token_scopes tokens))),
        (''status'', VStr ''connected''), (''updated_at'', VTime (se_server_time env))]) (connections db)"
    by (rule rotate_eq_Inr)
  have "connection_from_data env owner (dict_merge data
       [(''encrypted_tokens'', VStr (se_encrypt env owner tokens)), (''token_version'', VInt (v + 1)),
        (''access_token_expires_at'', VTime (token_expires_at tokens)),
        (''granted_scopes'', VList (map VStr (token_scopes tokens))),
        (''status'', VStr ''connected''), (''updated_at'', VTime (se_server_time env))]) = Inr c"
    unfolding d(1) [symmetric] by (rule connection_from_data_cong) auto
  then show "get_connection env owner db' = Inr c" by (simp add: get_connection_def d(2) del: dict_merge_Cons)
  from d(1) show "co_token_version c = v + 1" "co_owner c = owner" "co_status c = ''connected''"
    "se_decrypt env owner (se_encrypt env owner tokens) = Inr (co_tokens c)"
    by (auto simp: connection_from_data_def inr_simps int_value_def)
qed

lemma stale_rotation_fails:
  assumes "rotate_tokens env owner v tokens db = (Inr c, db')" and "w \<noteq> v + 1"
  shows "rotate_tokens env owner w mine db' = (Inl (ConcurrentTokenRotationError ''Tesla token was already rotated''), db')"
proof -
  from assms(1) obtain data where d: "connections db' = AList.update owner (dict_merge data
       [(''encrypted_tokens'', VStr (se_encrypt env owner tokens)), (''token_version'', VInt (v + 1)),
        (''access_token_expires_at'', VTime (token_expires_at tokens)),
        (''granted_scopes'', VList (map VStr (token_scopes tokens))),
        (''status'', VStr ''connected''), (''updated_at'', VTime (se_server_time env))]) (connections db)"
    by (rule rotate_eq_Inr)
  show ?thesis using assms(2)
    by (simp add: rotate_tokens_def transact_def rotate_transaction_def d dget_default_def int_value_def)
qed

text \<open>Two refreshes of one connection race to commit, and exactly one wins: when another request
  committed its rotation of the same version while Tesla answered, this request stores nothing,
  and it returns the connection the winner stored, whose version is one higher.\<close>
theorem concurrent_refresh_returns_the_winner:
  assumes "ta_refresh api (refresh_token (co_tokens conn)) (tesla_subject (co_tokens conn)) = Inr mine"
    and "rotate_tokens env owner (co_token_version conn) theirs db = (Inr winner, db1)"
  shows "refresh_connection env api (\<lambda>s. db1) owner conn db = (Inr winner, db1) \<and>
    co_token_version winner = co_token_version conn + 1 \<and>
    se_decrypt env owner (se_encrypt env owner theirs) = Inr (co_tokens winner)"
  using stale_rotation_fails [OF assms(2), of "co_token_version conn" mine]
    rotated_connection_is_stored [OF assms(2)] assms(1)
  by (simp add: refresh_connection_def obind_def ocatch_def olift_def reading_def)

subsection \<open>Access for a user\<close>

text \<open>
  The interface of \<open>TeslaAccessProvider\<close>: a context it returns holds, for its user, in the state it
  leaves.  \<open>execute\<close> is its client.
\<close>

locale access_provider =
  fixes access :: "string \<Rightarrow> bool \<Rightarrow> ('s, exn, access_context) oper"
    and holds :: "string \<Rightarrow> access_context \<Rightarrow> 's \<Rightarrow> bool"
  assumes access_holds: "access u force_refresh s = (Inr c, t) \<Longrightarrow> holds u c t"
begin

lemma execute_uses_held_context:
  assumes "execute access u operation s = (Inr x, t)"
  shows "\<exists>c s1. holds u c s1 \<and> operation (ac_access_token c) (ac_base_url c) s1 = (Inr x, t)"
proof -
  from assms obtain c s1 where a: "access u False s = (Inr c, s1)" and
    o: "ocatch (operation (ac_access_token c) (ac_base_url c))
       (\<lambda>e. if is_reauthorization_required e
            then obind (access u True) (\<lambda>r. operation (ac_access_token r) (ac_base_url r))
            else oraise e) s1 = (Inr x, t)"
    by (auto simp: execute_def obind_eq_Inr)
  show ?thesis
  proof (cases "operation (ac_access_token c) (ac_base_url c) s1")
    case (Pair r s2)
    show ?thesis
    proof (cases r)
      case (Inr y)
      with o Pair access_holds [OF a] show ?thesis by (auto simp: ocatch_def)
    next
      case (Inl e)
      with o Pair obtain c2 s3 where "access u True s2 = (Inr c2, s3)"
        "operation (ac_access_token c2) (ac_base_url c2) s3 = (Inr x, t)"
        by (auto simp: ocatch_def oraise_def obind_eq_Inr split: if_splits)
      then show ?thesis using access_holds by blast
    qed
  qed
qed

text \<open>An error other than a rejected credential is final: the operation ran once.\<close>

lemma execute_no_blind_retry:
  assumes "access u False s = (Inr c, s1)" and "operation (ac_access_token c) (ac_base_url c) s1 = (Inl e, s2)"
    and "\<not> is_reauthorization_required e"
  shows "execute access u operation s = (Inl e, s2)"
  using assms by (simp add: execute_def obind_def ocatch_def oraise_def)

end

definition holds_stored_token :: "store_env \<Rightarrow> string \<Rightarrow> access_context \<Rightarrow> onboarding_db \<Rightarrow> bool" where
  "holds_stored_token env owner c db \<longleftrightarrow> (\<exists>conn. get_connection env owner db = Inr conn \<and> co_owner conn = owner \<and>
     c = \<lparr>ac_access_token = access_token (co_tokens conn), ac_base_url = co_base_url conn\<rparr>)"

lemma connection_owner: "get_connection env owner db = Inr conn \<Longrightarrow> co_owner conn = owner"
  by (auto simp: get_connection_def connection_from_data_def inr_simps)

lemma refresh_connection_stored:
  assumes "refresh_connection env api others owner conn db = (Inr c, db')"
  shows "get_connection env owner db' = Inr c"
proof -
  from assms obtain rotated db1 where r: "ocatch (rotate_tokens env owner (co_token_version conn) rotated)
       (\<lambda>e. case e of ConcurrentTokenRotationError m \<Rightarrow> reading (get_connection env owner) | _ \<Rightarrow> oraise e)
       (others db1) = (Inr c, db')"
    by (auto simp: refresh_connection_def obind_eq_Inr)
  show ?thesis
  proof (cases "rotate_tokens env owner (co_token_version conn) rotated (others db1)")
    case (Pair q t)
    show ?thesis
    proof (cases q)
      case (Inr d)
      with Pair r rotated_connection_is_stored(1) show ?thesis by (auto simp: ocatch_def)
    next
      case (Inl e)
      with Pair r show ?thesis by (auto simp: ocatch_def reading_def oraise_def split: exn.splits)
    qed
  qed
qed

lemma current_connection_stored:
  "current_connection env api others owner now f db = (Inr c, db') \<Longrightarrow> get_connection env owner db' = Inr c"
  by (auto simp: current_connection_def obind_eq_Inr reading_def oraise_def oret_def split: if_splits
      dest: refresh_connection_stored)

interpretation tesla: access_provider "access_for_user env api others now" "holds_stored_token env"
  for env api others now
proof
  fix u f s c t
  assume "access_for_user env api others now u f s = (Inr c, t)"
  then obtain conn where "current_connection env api others u now f s = (Inr conn, t)"
    "c = \<lparr>ac_access_token = access_token (co_tokens conn), ac_base_url = co_base_url conn\<rparr>"
    by (auto simp: access_for_user_def obind_eq_Inr oret_def)
  then show "holds_stored_token env u c t"
    using current_connection_stored connection_owner unfolding holds_stored_token_def by blast
qed

text \<open>Credentials never cross users: an operation executed for a user succeeds only with the access
  token and base URL of that user's own stored connection at the time it ran.\<close>
theorem operations_run_with_the_owners_token:
  assumes "execute (access_for_user env api others now) user operation db = (Inr x, db')"
  shows "\<exists>conn db1. get_connection env user db1 = Inr conn \<and> co_owner conn = user \<and>
    operation (access_token (co_tokens conn)) (co_base_url conn) db1 = (Inr x, db')"
proof -
  from tesla.execute_uses_held_context [OF assms] obtain c s1 where
    h: "holds_stored_token env user c s1" and o: "operation (ac_access_token c) (ac_base_url c) s1 = (Inr x, db')"
    by blast
  from h obtain conn where "get_connection env user s1 = Inr conn" "co_owner conn = user"
    "c = \<lparr>ac_access_token = access_token (co_tokens conn), ac_base_url = co_base_url conn\<rparr>"
    unfolding holds_stored_token_def by blast
  with o show ?thesis by (intro exI [of _ conn] exI [of _ s1]) simp
qed

text \<open>A token that is about to expire is never used: without a forced refresh the token of a connection
  is handed out as stored only when it is valid for more than a minute, and a connection that
  needs a new authorization gives none.\<close>
theorem stored_token_is_fresh:
  assumes "get_connection env owner db = Inr conn"
    and "ta_refresh api (refresh_token (co_tokens conn)) (tesla_subject (co_tokens conn)) = Inl e"
    and "current_connection env api others owner now f db = (Inr c, db')"
  shows "c = conn \<and> db' = db \<and> \<not> f \<and> token_expires_at (co_tokens c) > now + refresh_skew \<and>
    co_status c \<noteq> ''reauthorization_required''"
proof -
  have "refresh_connection env api others owner conn db \<noteq> (Inr c, db')"
    using assms(2) by (auto simp: refresh_connection_def obind_eq_Inr ocatch_def olift_def oraise_def split: if_splits)
  with assms(1,3) show ?thesis
    by (auto simp: current_connection_def obind_eq_Inr reading_def oraise_def oret_def split: if_splits)
qed

subsection \<open>Witnesses\<close>

definition demo_api :: tesla_api where
  "demo_api = \<lparr>ta_audience = ''aud'', ta_authorization_url = (\<lambda>s n. ''url''),
     ta_exchange_code = (\<lambda>c n. Inr \<lparr>access_token = ''tok'', refresh_token = ''r'', token_expires_at = 100,
        token_scopes = [''x''], tesla_subject = ''sub''\<rparr>),
     ta_refresh = (\<lambda>r s. Inr \<lparr>access_token = ''tok2'', refresh_token = ''r'', token_expires_at = 100,
        token_scopes = [''x''], tesla_subject = ''sub''\<rparr>),
     ta_region = (\<lambda>t b. Inr \<lparr>region_name = ''eu'', region_base_url = ''base''\<rparr>),
     ta_list_vehicles = (\<lambda>t b. Inr [demo_car]), ta_fleet_status = (\<lambda>t b vs. Inr [])\<rparr>"

definition started_db :: onboarding_db where
  "started_db = snd (start_authorization demo_store demo_api ''st'' ''no'' ''usr_1'' 5 ''browser'' (Some ''b'')
     empty_onboarding_db)"

definition connected_db :: onboarding_db where
  "connected_db = snd (callback demo_store demo_api ''st'' ''code'' (Some ''b'') 7 started_db)"

definition demo_result :: onboarding_result where
  "demo_result = \<lparr>or_owner = ''usr_1'', or_connection_id = ''conn_c'', or_region = ''eu'', or_base_url = ''base'',
     or_vehicles = [discovered_record ''usr_1'' ''conn_c'' ''veh_A'' demo_car None], or_completion_mode = ''browser''\<rparr>"

lemma started_value:
  "start_authorization demo_store demo_api ''st'' ''no'' ''usr_1'' 5 ''browser'' (Some ''b'') empty_onboarding_db =
     (Inr ''url'', started_db)"
  unfolding started_db_def by code_simp

lemma connected_value:
  "callback demo_store demo_api ''st'' ''code'' (Some ''b'') 7 started_db = (Inr demo_result, connected_db)"
  unfolding connected_db_def by code_simp

text \<open>Between the start and the callback another user starts an authorization.\<close>

definition meanwhile_db :: onboarding_db where
  "meanwhile_db = snd (start_authorization demo_store demo_api ''VIN1'' ''n2'' ''usr_2'' 6 ''api'' None started_db)"

definition bound_db :: onboarding_db where
  "bound_db = snd (callback demo_store demo_api ''st'' ''code'' (Some ''b'') 7 meanwhile_db)"

lemma meanwhile: "(elsewhere (se_hash demo_store) (se_hash demo_store ''st''))\<^sup>*\<^sup>* started_db meanwhile_db"
proof -
  have "start_authorization demo_store demo_api ''VIN1'' ''n2'' ''usr_2'' 6 ''api'' None started_db = (Inr ''url'', meanwhile_db)"
    unfolding meanwhile_db_def by code_simp
  moreover have "se_hash demo_store ''VIN1'' \<noteq> se_hash demo_store ''st''" by (simp add: demo_store_def)
  ultimately show ?thesis by (auto intro: elsewhere.start)
qed

lemma bound_value: "callback demo_store demo_api ''st'' ''code'' (Some ''b'') 7 meanwhile_db = (Inr demo_result, bound_db)"
  unfolding bound_db_def by code_simp


text \<open>A denial uses the state, and the callback after it is refused.\<close>

theorem oauth_state_is_single_use_witness:
  "\<exists>db1. decline demo_store ''st'' (Some ''b'') 7 started_db = (Inr \<lparr>pa_owner = ''usr_1'', pa_nonce = ''no'',
      pa_expires_at = 600000005, pa_completion_mode = ''browser'', pa_session_binding = Some ''b''\<rparr>, db1) \<and>
    callback demo_store demo_api ''st'' ''code'' (Some ''b'') 8 db1 =
      (Inl (InvalidOAuthStateError ''Tesla OAuth state is invalid or already used''), db1)"
proof -
  obtain db1 where d: "decline demo_store ''st'' (Some ''b'') 7 started_db = (Inr \<lparr>pa_owner = ''usr_1'', pa_nonce = ''no'',
      pa_expires_at = 600000005, pa_completion_mode = ''browser'', pa_session_binding = Some ''b''\<rparr>, db1)"
  proof -
    have "fst (decline demo_store ''st'' (Some ''b'') 7 started_db) = Inr \<lparr>pa_owner = ''usr_1'', pa_nonce = ''no'',
      pa_expires_at = 600000005, pa_completion_mode = ''browser'', pa_session_binding = Some ''b''\<rparr>"
      by code_simp
    with that show thesis by (metis prod.collapse)
  qed
  then have "state_used demo_store ''st'' started_db db1" unfolding state_used_def accepted_def by blast
  from oauth_state_is_single_use [OF this rtranclp.rtrancl_refl refl] d show ?thesis by blast
qed

definition demo_connection :: tesla_connection where
  "demo_connection = \<lparr>co_connection_id = ''conn_c'', co_owner = ''usr_1'', co_tokens = \<lparr>access_token = ''tok'',
     refresh_token = ''r'', token_expires_at = 100, token_scopes = [''x''], tesla_subject = ''sub''\<rparr>,
     co_token_version = 1, co_region = Some ''eu'', co_base_url = ''base'', co_status = ''connected''\<rparr>"

lemma connected_connection: "get_connection demo_store ''usr_1'' connected_db = Inr demo_connection"
  by code_simp

definition their_tokens :: token_set where
  "their_tokens = \<lparr>access_token = ''won'', refresh_token = ''r'', token_expires_at = 100, token_scopes = [''x''],
     tesla_subject = ''sub''\<rparr>"

theorem concurrent_refresh_returns_the_winner_witness:
  "fst (refresh_connection demo_store demo_api (\<lambda>s. snd (rotate_tokens demo_store ''usr_1'' 1 their_tokens connected_db))
      ''usr_1'' demo_connection connected_db) =
    Inr (demo_connection\<lparr>co_tokens := their_tokens, co_token_version := 2\<rparr>)"
proof -
  have r: "ta_refresh demo_api (refresh_token (co_tokens demo_connection)) (tesla_subject (co_tokens demo_connection))
      = Inr \<lparr>access_token = ''tok2'', refresh_token = ''r'', token_expires_at = 100, token_scopes = [''x''],
        tesla_subject = ''sub''\<rparr>"
    by (simp add: demo_api_def)
  have "fst (rotate_tokens demo_store ''usr_1'' 1 their_tokens connected_db) =
      Inr (demo_connection\<lparr>co_tokens := their_tokens, co_token_version := 2\<rparr>)"
    by code_simp
  then have w: "rotate_tokens demo_store ''usr_1'' (co_token_version demo_connection) their_tokens connected_db =
      (Inr (demo_connection\<lparr>co_tokens := their_tokens, co_token_version := 2\<rparr>),
       snd (rotate_tokens demo_store ''usr_1'' 1 their_tokens connected_db))"
    by (simp add: prod_eq_iff demo_connection_def)
  from concurrent_refresh_returns_the_winner [OF r w] show ?thesis by simp
qed

theorem operations_run_with_the_owners_token_witness:
  "\<exists>conn db1. get_connection demo_store ''usr_1'' db1 = Inr conn \<and> access_token (co_tokens conn) = ''tok2''"
proof -
  have "fst (execute (access_for_user demo_store demo_api id 90) ''usr_1'' (\<lambda>t b. oret t) connected_db) = Inr ''tok2''"
    by code_simp
  then have "execute (access_for_user demo_store demo_api id 90) ''usr_1'' (\<lambda>t b. oret t) connected_db =
      (Inr ''tok2'', snd (execute (access_for_user demo_store demo_api id 90) ''usr_1'' (\<lambda>t b. oret t) connected_db))"
    by (simp add: prod_eq_iff)
  from operations_run_with_the_owners_token [OF this] show ?thesis by (auto simp: oret_def)
qed

theorem stored_token_is_fresh_witness:
  "token_expires_at (co_tokens demo_connection) > (-60000001) + refresh_skew"
proof -
  let ?api = "demo_api\<lparr>ta_refresh := (\<lambda>r s. Inl (tesla_api_error ''m'' ''k''))\<rparr>"
  have c: "current_connection demo_store ?api id ''usr_1'' (-60000001) False connected_db = (Inr demo_connection, connected_db)"
    by (simp add: current_connection_def obind_def reading_def connected_connection oret_def)
      (simp add: demo_connection_def refresh_skew_def)
  have r: "ta_refresh ?api (refresh_token (co_tokens demo_connection)) (tesla_subject (co_tokens demo_connection))
      = Inl (tesla_api_error ''m'' ''k'')"
    by simp
  from stored_token_is_fresh [OF connected_connection r c] show ?thesis by simp
qed

end
