(* ===== verification/Coverage.thy ===== *)
theory Coverage
  imports Errors
begin

text \<open>
  \<open>tesla_client/coverage.py\<close>: the names of the vehicle commands and the table of implemented
  endpoints with their retry and wake behaviour.
\<close>

record endpoint_implementation =
  ep_client :: string
  ep_method :: string
  ep_compatibility_only :: bool
  ep_wake_behavior :: string
  ep_retry_policy :: string

definition endpoint :: "string \<Rightarrow> string \<Rightarrow> bool \<Rightarrow> string \<Rightarrow> string \<Rightarrow> endpoint_implementation" where
  "endpoint client method compatibility_only wake retry =
     \<lparr>ep_client = client, ep_method = method, ep_compatibility_only = compatibility_only,
      ep_wake_behavior = wake, ep_retry_policy = retry\<rparr>"

definition command_names :: "string list" where
  "command_names = [
    ''actuate_trunk'', ''add_charge_schedule'', ''add_precondition_schedule'', ''adjust_volume'',
    ''auto_conditioning_start'', ''auto_conditioning_stop'', ''cancel_software_update'',
    ''charge_max_range'', ''charge_port_door_close'', ''charge_port_door_open'',
    ''charge_standard'', ''charge_start'', ''charge_stop'', ''clear_pin_to_drive_admin'',
    ''door_lock'', ''door_unlock'', ''erase_user_data'', ''flash_lights'', ''guest_mode'',
    ''honk_horn'', ''media_next_fav'', ''media_next_track'', ''media_prev_fav'',
    ''media_prev_track'', ''media_toggle_playback'', ''media_volume_down'', ''media_volume_up'',
    ''navigation_gps_request'', ''navigation_request'', ''navigation_sc_request'',
    ''navigation_waypoints_request'', ''parental_controls_activate'',
    ''parental_controls_clear_pin_admin'', ''parental_controls_deactivate'',
    ''parental_controls_enable_setting'', ''parental_controls_set_speed_limit'',
    ''remote_auto_seat_climate_request'', ''remote_auto_steering_wheel_heat_climate_request'',
    ''remote_boombox'', ''remote_seat_cooler_request'', ''remote_seat_heater_request'',
    ''remote_start_drive'', ''remote_steering_wheel_heat_level_request'',
    ''remote_steering_wheel_heater_request'', ''remove_charge_schedule'',
    ''remove_precondition_schedule'', ''reset_pin_to_drive_pin'', ''reset_valet_pin'',
    ''schedule_software_update'', ''set_bioweapon_mode'', ''set_cabin_overheat_protection'',
    ''set_charge_limit'', ''set_charging_amps'', ''set_climate_keeper_mode'', ''set_cop_temp'',
    ''set_pin_to_drive'', ''set_preconditioning_max'', ''set_scheduled_charging'',
    ''set_scheduled_departure'', ''set_sentry_mode'', ''set_temps'', ''set_valet_mode'',
    ''set_vehicle_name'', ''speed_limit_activate'', ''speed_limit_clear_pin'',
    ''speed_limit_clear_pin_admin'', ''speed_limit_deactivate'', ''speed_limit_set_limit'',
    ''sun_roof_control'', ''trigger_homelink'', ''upcoming_calendar_entries'', ''window_control'']"

definition fixed_endpoints :: "((string \<times> string) \<times> endpoint_implementation) list" where
  "fixed_endpoints = [
    ((''GET'', ''/api/1/vehicles/{vin}/drivers''), endpoint ''fleet'' ''drivers'' False ''never'' ''safe_read''),
    ((''DELETE'', ''/api/1/vehicles/{vin}/drivers''), endpoint ''fleet'' ''drivers_remove'' False ''never'' ''never''),
    ((''POST'', ''/api/1/vehicles/fleet_status''), endpoint ''fleet'' ''fleet_status'' False ''never'' ''safe_read''),
    ((''POST'', ''/api/1/vehicles/fleet_telemetry_config''), endpoint ''fleet'' ''fleet_telemetry_config_create'' False ''never'' ''never''),
    ((''DELETE'', ''/api/1/vehicles/{vin}/fleet_telemetry_config''), endpoint ''fleet'' ''fleet_telemetry_config_delete'' False ''never'' ''never''),
    ((''GET'', ''/api/1/vehicles/{vin}/fleet_telemetry_config''), endpoint ''fleet'' ''fleet_telemetry_config_get'' False ''never'' ''safe_read''),
    ((''POST'', ''/api/1/vehicles/fleet_telemetry_config_jws''), endpoint ''fleet'' ''fleet_telemetry_config_jws'' True ''never'' ''never''),
    ((''GET'', ''/api/1/vehicles/{vin}/fleet_telemetry_errors''), endpoint ''fleet'' ''fleet_telemetry_errors'' False ''never'' ''safe_read''),
    ((''GET'', ''/api/1/vehicles''), endpoint ''fleet'' ''list_vehicles'' False ''never'' ''safe_read''),
    ((''GET'', ''/api/1/vehicles/{vin}/mobile_enabled''), endpoint ''fleet'' ''mobile_enabled'' False ''requires_awake'' ''safe_read''),
    ((''GET'', ''/api/1/vehicles/{vin}/nearby_charging_sites''), endpoint ''fleet'' ''nearby_charging_sites'' False ''requires_awake'' ''safe_read''),
    ((''GET'', ''/api/1/vehicles/{vin}/recent_alerts''), endpoint ''fleet'' ''recent_alerts'' False ''requires_awake'' ''safe_read''),
    ((''GET'', ''/api/1/vehicles/{vin}/release_notes''), endpoint ''fleet'' ''release_notes'' False ''requires_awake'' ''safe_read''),
    ((''GET'', ''/api/1/vehicles/{vin}/service_data''), endpoint ''fleet'' ''service_data'' False ''requires_awake'' ''safe_read''),
    ((''GET'', ''/api/1/vehicles/{vin}/invitations''), endpoint ''fleet'' ''share_invites'' False ''never'' ''safe_read''),
    ((''POST'', ''/api/1/vehicles/{vin}/invitations''), endpoint ''fleet'' ''share_invites_create'' False ''never'' ''never''),
    ((''POST'', ''/api/1/invitations/redeem''), endpoint ''fleet'' ''share_invites_redeem'' False ''never'' ''never''),
    ((''POST'', ''/api/1/vehicles/{vin}/invitations/{id}/revoke''), endpoint ''fleet'' ''share_invites_revoke'' False ''never'' ''never''),
    ((''POST'', ''/api/1/vehicles/{vin}/signed_command''), endpoint ''fleet'' ''signed_command'' False ''never'' ''never''),
    ((''GET'', ''/api/1/vehicles/{vin}''), endpoint ''fleet'' ''vehicle'' False ''never'' ''safe_read''),
    ((''GET'', ''/api/1/vehicles/{vin}/vehicle_data''), endpoint ''fleet'' ''vehicle_data'' False ''requires_awake'' ''safe_read''),
    ((''POST'', ''/api/1/vehicles/{vin}/wake_up''), endpoint ''fleet'' ''wake_up'' False ''explicit'' ''never''),
    ((''GET'', ''/api/1/users/feature_config''), endpoint ''fleet'' ''feature_config'' False ''never'' ''safe_read''),
    ((''GET'', ''/api/1/users/me''), endpoint ''fleet'' ''me'' False ''never'' ''safe_read''),
    ((''GET'', ''/api/1/users/orders''), endpoint ''fleet'' ''orders'' False ''never'' ''safe_read''),
    ((''GET'', ''/api/1/users/region''), endpoint ''fleet'' ''region'' False ''never'' ''safe_read''),
    ((''GET'', ''/api/1/partner_accounts/fleet_telemetry_error_vins''), endpoint ''partner'' ''fleet_telemetry_error_vins'' False ''never'' ''safe_read''),
    ((''GET'', ''/api/1/partner_accounts/fleet_telemetry_errors''), endpoint ''partner'' ''fleet_telemetry_errors'' False ''never'' ''safe_read''),
    ((''GET'', ''/api/1/partner_accounts/public_key?domain={domain}''), endpoint ''partner'' ''public_key'' False ''never'' ''safe_read''),
    ((''POST'', ''/api/1/partner_accounts''), endpoint ''partner'' ''register'' False ''never'' ''never''),
    ((''GET'', ''/api/1/dx/charging/history''), endpoint ''fleet'' ''charging_history'' False ''never'' ''safe_read''),
    ((''GET'', ''/api/1/dx/charging/invoice/{id}''), endpoint ''fleet'' ''charging_invoice'' False ''never'' ''safe_read'')]"

text \<open>The loop at the end of the module adds one entry per command.\<close>

definition command_endpoint :: "string \<Rightarrow> (string \<times> string) \<times> endpoint_implementation" where
  "command_endpoint command =
     ((''POST'', ''/api/1/vehicles/{vin}/command/'' @ command),
      endpoint ''fleet'' command (command \<in> {''set_scheduled_charging'', ''set_scheduled_departure''})
        ''requires_awake'' ''never'')"

definition implemented_endpoints :: "((string \<times> string) \<times> endpoint_implementation) list" where
  "implemented_endpoints = fixed_endpoints @ map command_endpoint command_names"

end
