(* ===== verification/Transport.thy ===== *)
theory Transport
  imports Coverage Url
begin

text \<open>
  \<open>tesla_client/transport.py\<close>: the two guarded HTTPS transports and what they write to the log.
  The world is the list of events that left the process; the other end of a connection is an
  argument (\<open>ne_answer\<close>) that may depend on everything that happened before.
\<close>

subsection \<open>Requests, answers and the outside world\<close>

record http_response =
  hr_status :: int
  hr_body :: string
  hr_content_type :: "string option"

datatype transport =
    Direct \<comment> \<open>\<open>HttpxTransport\<close>\<close>
  | CommandProxy string \<comment> \<open>\<open>LocalCommandProxyTransport\<close>, with its origin\<close>

record http_request =
  hq_transport :: transport
  hq_method :: string
  hq_url :: string
  hq_headers :: "(string \<times> string) list"
  hq_form :: "(string \<times> string) list option"
  hq_json :: "val option"

datatype event = Sent http_request | Slept rat

text \<open>What the HTTP library does: an answer, a \<open>RequestError\<close>, or another exception.\<close>

datatype wire_answer = Answered http_response | RequestFailed | RequestCrashed exn

record net =
  w_events :: "event list"

text \<open>
  \<open>ne_json\<close> is \<open>json.loads(body.decode("utf-8"))\<close>, \<^const>\<open>None\<close> where either raises;
  \<open>ne_float\<close> is the text of a float and \<open>ne_iso\<close> is \<open>fromisoformat\<close> followed by \<open>isoformat\<close>.
\<close>

record net_env =
  ne_answer :: "event list \<Rightarrow> http_request \<Rightarrow> wire_answer"
  ne_json :: "string \<Rightarrow> val option"
  ne_float :: "rat \<Rightarrow> string"
  ne_iso :: "string \<Rightarrow> string option"

definition emit :: "event \<Rightarrow> 'a net_scheme \<Rightarrow> 'a net_scheme" where
  "emit e w = w\<lparr>w_events := w_events w @ [e]\<rparr>"

lemma events_emit [simp]: "w_events (emit e w) = w_events w @ [e]"
  by (simp add: emit_def)

subsection \<open>Guards\<close>

definition tesla_api_hosts :: "string list" where
  "tesla_api_hosts =
     [''auth.tesla.com'', ''fleet-auth.prd.vn.cloud.tesla.com'', ''fleet-api.prd.na.vn.cloud.tesla.com'',
      ''fleet-api.prd.eu.vn.cloud.tesla.com'', ''fleet-api.prd.cn.vn.cloud.tesla.cn'']"

definition approved_host :: "split_url \<Rightarrow> bool" where
  "approved_host u = (scheme u = ''https'' \<and>
     (case url_hostname u of None \<Rightarrow> False | Some h \<Rightarrow> h \<in> set tesla_api_hosts))"

text \<open>\<open>json.dumps\<close> raises a \<open>TypeError\<close> for values that JSON does not have.\<close>

fun json_ok :: "val \<Rightarrow> bool" where
  "json_ok (VBytes b) = False"
| "json_ok (VTime t) = False"
| "json_ok (VList xs) = list_all json_ok xs"
| "json_ok (VDict d) = list_all (\<lambda>(k, v). json_ok v) d"
| "json_ok _ = True"

text \<open>One exchange through the HTTP library; a \<open>RequestError\<close> becomes a safe transport error.\<close>

definition exchange :: "net_env \<Rightarrow> string \<Rightarrow> http_request \<Rightarrow> ('a net_scheme, exn, http_response) oper" where
  "exchange env failure rq w =
     (case ne_answer env (w_events w) rq of
        Answered r \<Rightarrow> (Inr r, emit (Sent rq) w)
      | RequestFailed \<Rightarrow> (Inl (tesla_transport_error failure), emit (Sent rq) w)
      | RequestCrashed e \<Rightarrow> (Inl e, emit (Sent rq) w))"

definition direct_request ::
  "net_env \<Rightarrow> string \<Rightarrow> string \<Rightarrow> (string \<times> string) list \<Rightarrow> (string \<times> string) list option \<Rightarrow> val option \<Rightarrow>
   ('a net_scheme, exn, http_response) oper" where
  "direct_request env method url headers form json_body =
     (if form \<noteq> None \<and> json_body \<noteq> None
      then oraise (ValueError ''form and json_body are mutually exclusive'')
      else if form = None \<and> (case json_body of None \<Rightarrow> False | Some v \<Rightarrow> \<not> json_ok v) then oraise TypeError
      else obind (olift (urlsplit url)) (\<lambda>u.
        if \<not> approved_host u
        then oraise (ValueError ''Tesla HTTP transport requires an approved Tesla HTTPS host'')
        else exchange env ''Tesla Fleet API transport failed''
          \<lparr>hq_transport = Direct, hq_method = method, hq_url = url, hq_headers = headers,
           hq_form = form, hq_json = json_body\<rparr>))"

text \<open>The constructor of the proxy transport accepts a loopback origin only.\<close>

definition proxy_origin :: "string \<Rightarrow> exn + string" where
  "proxy_origin value =
     rbind (urlsplit value) (\<lambda>u.
     if scheme u \<noteq> ''https''
        \<or> (case url_hostname u of None \<Rightarrow> True | Some h \<Rightarrow> h \<notin> {''localhost'', ''127.0.0.1'', ''::1''})
        \<or> query u \<noteq> [] \<or> fragment u \<noteq> [] \<or> url_path u \<notin> {[], ''/''}
     then Inl (ValueError ''Vehicle Command Proxy must use a loopback HTTPS origin'')
     else Inr (rstrip_by (\<lambda>c. c = CHR ''/'') value))"

definition typed_vehicle_command :: "string \<Rightarrow> bool" where
  "typed_vehicle_command path =
     (let parts = split_at (CHR ''/'') path
      in length parts = 7 \<and> take 3 (drop 1 parts) = [''api'', ''1'', ''vehicles''] \<and>
         parts ! 5 = ''command'' \<and> parts ! 6 \<in> set command_names)"

definition signed_telemetry_config :: "string \<Rightarrow> bool" where
  "signed_telemetry_config path = (path = ''/api/1/vehicles/fleet_telemetry_config'')"

definition proxy_request ::
  "net_env \<Rightarrow> string \<Rightarrow> string \<Rightarrow> string \<Rightarrow> (string \<times> string) list \<Rightarrow> (string \<times> string) list option \<Rightarrow>
   val option \<Rightarrow> ('a net_scheme, exn, http_response) oper" where
  "proxy_request env origin method url headers form json_body =
     (if form \<noteq> None then oraise (ValueError ''Vehicle Command Proxy does not accept form requests'')
      else obind (olift (urlsplit url)) (\<lambda>u.
        if \<not> approved_host u
        then oraise (ValueError ''Command source URL requires an approved Tesla HTTPS host'')
        else if method \<noteq> ''POST'' \<or> query u \<noteq> []
                \<or> \<not> (typed_vehicle_command (url_path u) \<or> signed_telemetry_config (url_path u))
        then oraise (ValueError ''Vehicle Command Proxy transport accepts typed commands and signed telemetry configuration only'')
        else (let body = (case json_body of None \<Rightarrow> VDict [] | Some v \<Rightarrow> if truthy v then v else VDict [])
          in if \<not> json_ok body then oraise TypeError
          else exchange env ''Local Vehicle Command Proxy transport failed''
            \<lparr>hq_transport = CommandProxy origin, hq_method = ''POST'', hq_url = origin @ url_path u,
             hq_headers = headers, hq_form = None, hq_json = Some body\<rparr>)))"

definition transport_request ::
  "net_env \<Rightarrow> transport \<Rightarrow> string \<Rightarrow> string \<Rightarrow> (string \<times> string) list \<Rightarrow> (string \<times> string) list option \<Rightarrow>
   val option \<Rightarrow> ('a net_scheme, exn, http_response) oper" where
  "transport_request env tr method url headers form json_body =
     (case tr of
        Direct \<Rightarrow> direct_request env method url headers form json_body
      | CommandProxy origin \<Rightarrow> proxy_request env origin method url headers form json_body)"

subsection \<open>What is logged\<close>

text \<open>
  \<open>_route_template\<close> replaces the identifiers of a path by placeholders.
\<close>

definition collection_vehicle_routes :: "string list" where
  "collection_vehicle_routes = [''fleet_status'', ''fleet_telemetry_config'', ''fleet_telemetry_config_jws'']"

definition path_parts :: "string \<Rightarrow> string list" where
  "path_parts path = map unquote (filter (\<lambda>p. p \<noteq> []) (split_at (CHR ''/'') path))"

definition known_routes :: "string list" where
  "known_routes =
     [''/api/1/dx/charging/history'', ''/api/1/invitations/redeem'', ''/api/1/partner_accounts'',
      ''/api/1/partner_accounts/fleet_telemetry_error_vins'', ''/api/1/partner_accounts/fleet_telemetry_errors'',
      ''/api/1/partner_accounts/public_key'', ''/api/1/users/feature_config'', ''/api/1/users/me'',
      ''/api/1/users/orders'', ''/api/1/users/region'', ''/oauth2/v3/discovery/thirdparty/keys'',
      ''/oauth2/v3/token'']"

definition route_of_parts :: "string list \<Rightarrow> string" where
  "route_of_parts parts =
     (if take 3 parts = [''api'', ''1'', ''vehicles'']
      then (let p1 = (if length parts \<ge> 4 \<and> parts ! 3 \<notin> set collection_vehicle_routes
                      then parts[3 := ''{vin}''] else parts);
                p2 = (if length p1 \<ge> 6 \<and> p1 ! 4 = ''invitations'' then p1[5 := ''{id}''] else p1)
            in ''/'' @ join ''/'' p2)
      else if take 5 parts = [''api'', ''1'', ''dx'', ''charging'', ''invoice''] \<and> length parts \<ge> 6
      then ''/'' @ join ''/'' (parts[5 := ''{id}''])
      else (let normalized = ''/'' @ join ''/'' parts
            in if normalized \<in> set known_routes then normalized else ''/{unrecognized_tesla_route}''))"

definition route_template :: "string \<Rightarrow> string" where
  "route_template path = route_of_parts (path_parts path)"

definition operation_of_route :: "string \<Rightarrow> string" where
  "operation_of_route route =
     (if route = ''/oauth2/v3/token'' then ''oauth_token''
      else if route = ''/oauth2/v3/discovery/thirdparty/keys'' then ''oauth_jwks''
      else if contains ''/command/'' route then after_last (CHR ''/'') route
      else if route = ''/{unrecognized_tesla_route}'' then ''unknown''
      else replace_all ''{id}'' ''item'' (replace_all ''{vin}'' ''vehicle'' (after_last (CHR ''/'') route)))"

definition region_of_host :: "string option \<Rightarrow> string" where
  "region_of_host host =
     (case map_of [(''fleet-api.prd.na.vn.cloud.tesla.com'', ''na''),
        (''fleet-api.prd.eu.vn.cloud.tesla.com'', ''eu''), (''fleet-api.prd.cn.vn.cloud.tesla.cn'', ''cn''),
        (''fleet-auth.prd.vn.cloud.tesla.com'', ''global''), (''auth.tesla.com'', ''global'')]
        (case host of None \<Rightarrow> [] | Some h \<Rightarrow> h) of
        None \<Rightarrow> ''unknown'' | Some r \<Rightarrow> r)"

definition destination_of_host :: "string option \<Rightarrow> string" where
  "destination_of_host host =
     (if host = Some ''auth.tesla.com'' \<or> host = Some ''fleet-auth.prd.vn.cloud.tesla.com''
      then ''tesla_oauth'' else ''tesla_fleet_api'')"

definition request_field_names :: "(string \<times> string) list option \<Rightarrow> val option \<Rightarrow> string list" where
  "request_field_names form json_body =
     (case form of Some f \<Rightarrow> sort (keys f)
      | None \<Rightarrow> (case json_body of Some (VDict d) \<Rightarrow> sort (keys d) | _ \<Rightarrow> []))"

text \<open>The request-scoped context of \<open>observability.py\<close>.\<close>

record log_context =
  lc_correlation_id :: "string option"
  lc_vehicle_id :: "string option"
  lc_source :: "string option"
  lc_flow_phase :: "string option"
  lc_flow_iteration :: "int option"
  lc_attempt :: "int option"

definition context_fields :: "log_context \<Rightarrow> dict" where
  "context_fields ctx = filter (\<lambda>(k, v). v \<noteq> VNone)
     [(''correlation_id'', opt_str (lc_correlation_id ctx)), (''vehicle_id'', opt_str (lc_vehicle_id ctx)),
      (''source'', opt_str (lc_source ctx)), (''flow_phase'', opt_str (lc_flow_phase ctx)),
      (''flow_iteration'', opt_int (lc_flow_iteration ctx))]"

definition request_log_fields ::
  "string \<Rightarrow> log_context \<Rightarrow> string \<Rightarrow> split_url \<Rightarrow> string \<Rightarrow> (string \<times> string) list option \<Rightarrow> val option \<Rightarrow> int \<Rightarrow> dict" where
  "request_log_fields call_id ctx method u destination form json_body body_size =
     (let route = route_template (url_path u)
      in [(''call_id'', VStr (''api_'' @ call_id)), (''method'', VStr method), (''route'', VStr route),
          (''operation'', VStr (case map_of implemented_endpoints (method, route) of
             Some e \<Rightarrow> ep_method e | None \<Rightarrow> operation_of_route route)),
          (''destination'', VStr destination), (''region'', VStr (region_of_host (url_hostname u))),
          (''attempt'', VInt (case lc_attempt ctx of None \<Rightarrow> 1 | Some a \<Rightarrow> if a = 0 then 1 else a)),
          (''request_body_bytes'', VInt body_size),
          (''request_fields'', VList (map VStr (request_field_names form json_body))),
          (''query_fields'', VList (map VStr (sort (remdups (map fst (parse_qsl (query u)))))))]
         @ context_fields ctx)"

definition http_outcome :: "int \<Rightarrow> string" where
  "http_outcome status =
     (if 200 \<le> status \<and> status < 300 then ''success''
      else if 300 \<le> status \<and> status < 400 then ''redirect_rejected''
      else if 400 \<le> status \<and> status < 500 then ''client_error''
      else ''server_error'')"

definition media_char :: "char \<Rightarrow> bool" where
  "media_char c = (is_lower c \<or> is_decimal c \<or> c \<in> set ''.+-'')"

definition safe_content_type :: "string option \<Rightarrow> string option" where
  "safe_content_type value =
     (case value of None \<Rightarrow> None
      | Some v \<Rightarrow> (let media = casefold (strip (fst (partition_at (CHR '';'') v)))
         in Some (case partition_at (CHR ''/'') media of (a, found, b) \<Rightarrow>
              if found \<and> a \<noteq> [] \<and> b \<noteq> [] \<and> list_all media_char a \<and> list_all media_char b
              then media else ''other'')))"

definition should_summarize :: "http_response \<Rightarrow> string \<Rightarrow> bool" where
  "should_summarize r operation =
     (length (hr_body r) \<le> 65536 \<and>
      (\<not> (200 \<le> hr_status r \<and> hr_status r < 300) \<or> operation \<in> set command_names))"

subsection \<open>Values that a diagnostic must not repeat\<close>

definition sensitive_request_keys :: "string list" where
  "sensitive_request_keys =
     [''access_token'', ''authorization'', ''calendar_data'', ''client_secret'', ''code'', ''id_token'', ''lat'',
      ''latitude'', ''lon'', ''longitude'', ''password'', ''pin'', ''refresh_token'', ''routable_message'',
      ''token'', ''vin'', ''vins'']"

fun collect_sensitive :: "net_env \<Rightarrow> string option \<Rightarrow> val \<Rightarrow> string list" where
  "collect_sensitive env key (VDict d) =
     concat (map (\<lambda>(k, v). collect_sensitive env (Some (casefold k)) v) d)"
| "collect_sensitive env key (VList xs) = concat (map (collect_sensitive env key) xs)"
| "collect_sensitive env key (VStr s) =
     (if length s \<ge> 4 \<or> (case key of None \<Rightarrow> False | Some k \<Rightarrow> k \<in> set sensitive_request_keys) then [s] else [])"
| "collect_sensitive env key (VInt i) =
     (if length (str_of_int i) \<ge> 4 \<or> (case key of None \<Rightarrow> False | Some k \<Rightarrow> k \<in> set sensitive_request_keys)
      then [str_of_int i] else [])"
| "collect_sensitive env key (VFloat q) =
     (if length (ne_float env q) \<ge> 4 \<or> (case key of None \<Rightarrow> False | Some k \<Rightarrow> k \<in> set sensitive_request_keys)
      then [ne_float env q] else [])"
| "collect_sensitive env key _ = []"

definition path_secret_values :: "string \<Rightarrow> string list" where
  "path_secret_values path =
     (let parts = path_parts path
      in filter (\<lambda>v. length v \<ge> 4)
        ((if take 3 parts = [''api'', ''1'', ''vehicles'']
          then (if length parts \<ge> 4 \<and> parts ! 3 \<notin> set collection_vehicle_routes then [parts ! 3] else [])
             @ (if length parts \<ge> 6 \<and> parts ! 4 = ''invitations'' then [parts ! 5] else [])
          else [])
         @ (if take 5 parts = [''api'', ''1'', ''dx'', ''charging'', ''invoice''] \<and> length parts \<ge> 6
            then [parts ! 5] else [])))"

text \<open>A set in the code, sorted by falling length; the order of equally long values is not fixed there.\<close>

definition request_secret_values ::
  "net_env \<Rightarrow> string \<Rightarrow> string \<Rightarrow> (string \<times> string) list \<Rightarrow> (string \<times> string) list option \<Rightarrow> val option \<Rightarrow> string list" where
  "request_secret_values env path q headers form json_body =
     sort_key (\<lambda>v. - int (length v)) (remdups
       (concat (map (\<lambda>(k, v). (if length v \<ge> 4 then [v] else []) @
           (if starts_with ''bearer '' (casefold v) \<and> length v > 11 then [drop 7 v] else [])) headers)
        @ path_secret_values path
        @ filter (\<lambda>v. length v \<ge> 4) (map snd (parse_qsl q))
        @ (case form of None \<Rightarrow> [] | Some f \<Rightarrow> filter (\<lambda>v. length v \<ge> 4) (map snd f))
        @ (case json_body of None \<Rightarrow> [] | Some v \<Rightarrow> collect_sensitive env None v)))"

end
