(* ===== verification/TeslaRequests.thy ===== *)
theory TeslaRequests
  imports Coverage
begin

text \<open>
  \<open>tesla_client/requests.py\<close>: the typed request dataclasses.  Dataclasses do not check the types of
  their fields, so a request is its class name with the values of its fields; what the constructor
  does check (the names of the arguments, the PIN of two classes) is modelled.  The telemetry
  configuration has its own theory (\<open>TelemetryConfig\<close>).
\<close>

subsection \<open>Classes\<close>

text \<open>The fields of each class, in order; the flag tells whether the field has a default (\<open>None\<close>).\<close>

definition command_request_classes :: "(string \<times> (string \<times> bool) list) list" where
  "command_request_classes = [
    (''SignedCommandRequest'', [(''routable_message'', False)]),
    (''InvitationRedeemRequest'', [(''code'', False)]),
    (''ChargeScheduleRequest'', [(''lat'', False), (''lon'', False), (''id'', False), (''days_of_week'', False), (''start_enabled'', False), (''start_time'', False), (''end_enabled'', False), (''end_time'', False), (''one_time'', False), (''enabled'', False)]),
    (''PreconditionScheduleRequest'', [(''lat'', False), (''lon'', False), (''id'', False), (''days_of_week'', False), (''precondition_time'', False), (''one_time'', False), (''enabled'', False)]),
    (''NavigationRequest'', [(''type'', False), (''value'', False), (''locale'', False), (''timestamp_ms'', False)]),
    (''NavigationWaypointRequest'', [(''waypoints'', False)]),
    (''CalendarRequest'', [(''calendar_data'', False)]),
    (''PinRequest'', [(''pin'', False)]),
    (''SetPinRequest'', [(''on'', False), (''password'', False)]),
    (''BoolRequest'', [(''on'', False)]),
    (''EnableRequest'', [(''enable'', False)]),
    (''ActuateTrunkRequest'', [(''which_trunk'', False)]),
    (''AdjustVolumeRequest'', [(''volume'', False)]),
    (''CoordinatesRequest'', [(''lat'', False), (''lon'', False)]),
    (''NavigationGPSRequest'', [(''lat'', False), (''lon'', False), (''order'', True)]),
    (''NavigationSuperchargerRequest'', [(''id'', False), (''order'', True)]),
    (''ParentalSettingRequest'', [(''setting'', False), (''enable'', False)]),
    (''SpeedLimitRequest'', [(''limit_mph'', False)]),
    (''AutoSeatClimateRequest'', [(''auto_seat_position'', False), (''auto_climate_on'', False)]),
    (''SoundRequest'', [(''sound'', False)])]"

definition setting_request_classes :: "(string \<times> (string \<times> bool) list) list" where
  "setting_request_classes = [
    (''SeatCoolerRequest'', [(''seat_position'', False), (''seat_cooler_level'', False)]),
    (''SeatHeaterRequest'', [(''seat_position'', False), (''level'', False)]),
    (''LevelRequest'', [(''level'', False)]),
    (''ScheduleIDRequest'', [(''id'', False)]),
    (''SoftwareUpdateRequest'', [(''offset_sec'', False)]),
    (''OnWithOverrideRequest'', [(''on'', False), (''manual_override'', False)]),
    (''CabinOverheatRequest'', [(''on'', False), (''fan_only'', False)]),
    (''ChargeLimitRequest'', [(''percent'', False)]),
    (''ChargingAmpsRequest'', [(''charging_amps'', False)]),
    (''ClimateKeeperRequest'', [(''climate_keeper_mode'', False)]),
    (''CabinOverheatTemperatureRequest'', [(''cop_temp'', False)]),
    (''ScheduledChargingRequest'', [(''enable'', False), (''time'', False)]),
    (''ScheduledDepartureRequest'', [(''enable'', False), (''departure_time'', False), (''off_peak_charging_enabled'', False), (''off_peak_charging_weekdays_only'', False), (''preconditioning_enabled'', False), (''end_off_peak_time'', False)]),
    (''TemperatureRequest'', [(''driver_temp'', False), (''passenger_temp'', False)]),
    (''VehicleNameRequest'', [(''vehicle_name'', False)]),
    (''SunRoofRequest'', [(''state'', False)]),
    (''HomeLinkRequest'', [(''lat'', False), (''lon'', False), (''token'', False)]),
    (''WindowControlRequest'', [(''command'', False), (''lat'', False), (''lon'', False)])]"

definition request_fields :: "string \<Rightarrow> (string \<times> bool) list option" where
  "request_fields cls = map_of (command_request_classes @ setting_request_classes) cls"

record tesla_request =
  rq_class :: string
  rq_values :: dict

text \<open>\<open>str.isdigit\<close> accepts every digit, the superscripts included.\<close>

fun four_digits :: "val \<Rightarrow> exn + unit" where
  "four_digits (VStr s) =
     (if length s \<noteq> 4 \<or> \<not> list_all is_digit s then Inl (ValueError ''PIN must contain exactly four digits'')
      else Inr ())"
| "four_digits (VBytes s) =
     (if length s \<noteq> 4 \<or> \<not> list_all is_decimal s then Inl (ValueError ''PIN must contain exactly four digits'')
      else Inr ())"
| "four_digits (VList xs) =
     (if length xs \<noteq> 4 then Inl (ValueError ''PIN must contain exactly four digits'') else Inl AttributeError)"
| "four_digits (VDict d) =
     (if length d \<noteq> 4 then Inl (ValueError ''PIN must contain exactly four digits'') else Inl AttributeError)"
| "four_digits _ = Inl TypeError"

definition post_init :: "string \<Rightarrow> dict \<Rightarrow> exn + unit" where
  "post_init cls values =
     (if cls = ''PinRequest'' then four_digits (dget values ''pin'')
      else if cls = ''SetPinRequest'' then four_digits (dget values ''password'')
      else Inr ())"

text \<open>\<open>cls(**values)\<close>; \<^const>\<open>AttributeError\<close> where there is no such class.\<close>

definition make_request :: "string \<Rightarrow> dict \<Rightarrow> exn + tesla_request" where
  "make_request cls values =
     (case request_fields cls of
        None \<Rightarrow> Inl AttributeError
      | Some fs \<Rightarrow>
          if \<not> list_all (\<lambda>(k, v). k \<in> set (keys fs)) values
             \<or> \<not> list_all (\<lambda>(k, d). d \<or> k \<in> set (keys values)) fs
          then Inl TypeError
          else (let given = map (\<lambda>(k, d). (k, dget values k)) fs
            in rbind (post_init cls given) (\<lambda>_. Inr \<lparr>rq_class = cls, rq_values = given\<rparr>)))"

subsection \<open>Payloads\<close>

text \<open>
  \<open>_to_json\<close> copies scalars and dictionaries and raises a \<open>TypeError\<close> for everything else, lists
  included (the fields of these classes hold no tuple).
\<close>

fun payload_value :: "val \<Rightarrow> bool" where
  "payload_value (VList xs) = False"
| "payload_value (VBytes b) = False"
| "payload_value (VTime t) = False"
| "payload_value (VDict d) = list_all (\<lambda>(k, v). payload_value v) d"
| "payload_value _ = True"

definition to_json :: "val \<Rightarrow> exn + val" where
  "to_json v = (if payload_value v then Inr v else Inl TypeError)"

text \<open>\<open>_compact\<close> leaves out the fields that are \<open>None\<close>.\<close>

fun compact :: "dict \<Rightarrow> exn + dict" where
  "compact [] = Inr []"
| "compact ((k, v) # d) =
     (if v = VNone then compact d
      else rbind (to_json v) (\<lambda>x. rbind (compact d) (\<lambda>rest. Inr ((k, x) # rest))))"

definition to_payload :: "tesla_request \<Rightarrow> exn + dict" where
  "to_payload r = compact (rq_values r)"

text \<open>The vehicle-data query and the charging-history query.\<close>

definition vehicle_data_query :: "string list \<Rightarrow> exn + string list" where
  "vehicle_data_query endpoints =
     (if endpoints = [] then Inl (ValueError ''vehicle_data requires at least one targeted endpoint'')
      else if \<not> list_all (\<lambda>e. e \<noteq> [] \<and> CHR '','' \<notin> set e) endpoints
      then Inl (ValueError ''vehicle_data endpoint names must be non-empty identifiers'')
      else Inr endpoints)"

text \<open>The two times are the texts \<open>isoformat\<close> gives for them.\<close>

record charging_history_query =
  ch_vin :: "string option"
  ch_start_time :: "string option"
  ch_end_time :: "string option"
  ch_page :: "int option"
  ch_page_size :: "int option"
  ch_sort_by :: "string option"
  ch_sort_order :: val

lemma compact_eq_Inr: "compact d = Inr p \<longleftrightarrow>
    list_all (\<lambda>(k, v). payload_value v) d \<and> p = filter (\<lambda>(k, v). v \<noteq> VNone) d"
proof (induction d arbitrary: p)
  case Nil
  then show ?case by auto
next
  case (Cons x d)
  obtain k v where x: "x = (k, v)" by (cases x)
  show ?case
  proof (cases "v = VNone")
    case True
    with Cons show ?thesis by (simp add: x)
  next
    case False
    then show ?thesis unfolding x compact.simps by (simp add: rbind_eq_Inr to_json_def Cons.IH) blast
  qed
qed

lemma compact_error: "compact d = Inl e \<Longrightarrow> e = TypeError"
proof (induction d)
  case (Cons x d)
  obtain k v where x: "x = (k, v)" by (cases x)
  with Cons show ?case
    by (cases "v = VNone"; cases "payload_value v") (simp_all add: rbind_eq_Inl to_json_def)
qed simp

end
