(* ===== verification/FleetClient.thy ===== *)
theory FleetClient
  imports Transport TeslaRequests TeslaModels
begin

text \<open>
  \<open>tesla_client/fleet.py\<close> and \<open>tesla_client/vehicle_commands.py\<close>: every call of the Fleet API
  client over a transport, with its retries, and the validation of what Tesla answers.
\<close>

subsection \<open>The client and its requests\<close>

record fleet_client =
  fc_transport :: transport
  fc_max_read_retries :: nat

definition make_fleet_client :: "transport \<Rightarrow> int \<Rightarrow> exn + fleet_client" where
  "make_fleet_client tr max_read_retries =
     (if max_read_retries < 0 \<or> max_read_retries > 5
      then Inl (ValueError ''max_read_retries must be between zero and five'')
      else Inr \<lparr>fc_transport = tr, fc_max_read_retries = nat max_read_retries\<rparr>)"

type_synonym ('w, 'a) fleet_call = "('w net_scheme, exn, 'a) oper"

definition known_base_urls :: "string list" where
  "known_base_urls =
     [''https://fleet-api.prd.na.vn.cloud.tesla.com'', ''https://fleet-api.prd.eu.vn.cloud.tesla.com'',
      ''https://fleet-api.prd.cn.vn.cloud.tesla.cn'']"

definition normalize_base_url :: "string \<Rightarrow> exn + string" where
  "normalize_base_url value =
     (let normalized = rstrip_by (\<lambda>c. c = CHR ''/'') (strip value)
      in if normalized \<notin> set known_base_urls
         then Inl (tesla_api_error ''Tesla returned an unrecognized Fleet API base URL'' ''invalid_region'')
         else Inr normalized)"

definition retryable_status :: "int \<Rightarrow> bool" where
  "retryable_status s = (s \<in> {429, 500, 502, 503, 504})"

text \<open>The pause before attempt \<open>n + 1\<close>, in seconds.\<close>

definition retry_pause :: "nat \<Rightarrow> rat" where
  "retry_pause n = 2 ^ n / 4"

definition auth_headers :: "string \<Rightarrow> (string \<times> string) list" where
  "auth_headers token = [(''Authorization'', ''Bearer '' @ token)]"

text \<open>The retry loop: \<open>n\<close> is the number of the attempt, \<open>left\<close> how many may follow.\<close>

primrec attempts ::
  "net_env \<Rightarrow> transport \<Rightarrow> string \<Rightarrow> string \<Rightarrow> string \<Rightarrow> val option \<Rightarrow> bool \<Rightarrow> nat \<Rightarrow> nat \<Rightarrow>
   ('w, http_response) fleet_call" where
  "attempts env tr method url token body retry_safe n 0 w =
     transport_request env tr method url (auth_headers token) None body w"
| "attempts env tr method url token body retry_safe n (Suc left) w =
     (case transport_request env tr method url (auth_headers token) None body w of
        (Inl e, t) \<Rightarrow>
          if is_transport_error e \<and> retry_safe
          then attempts env tr method url token body retry_safe (Suc n) left (emit (Slept (retry_pause n)) t)
          else (Inl e, t)
      | (Inr r, t) \<Rightarrow>
          if retry_safe \<and> retryable_status (hr_status r)
          then attempts env tr method url token body retry_safe (Suc n) left (emit (Slept (retry_pause n)) t)
          else (Inr r, t))"

definition request ::
  "net_env \<Rightarrow> fleet_client \<Rightarrow> string \<Rightarrow> string \<Rightarrow> string \<Rightarrow> string \<Rightarrow> val option \<Rightarrow> bool \<Rightarrow>
   ('w, http_response) fleet_call" where
  "request env c method base_url path token body retry_safe =
     obind (olift (normalize_base_url base_url)) (\<lambda>base.
       attempts env (fc_transport c) method (base @ path) token body retry_safe 0 (fc_max_read_retries c))"

subsection \<open>Answers\<close>

definition status_category :: "int \<Rightarrow> string" where
  "status_category s =
     (case map_of [(400::int, ''invalid_request''), (403, ''forbidden''), (404, ''not_found''),
        (408, ''vehicle_unavailable''), (409, ''conflict''), (422, ''invalid_request''), (429, ''rate_limited'')] s of
        Some c \<Rightarrow> c
      | None \<Rightarrow> if s \<ge> 500 then ''upstream_unavailable'' else ''http_error'')"

definition raise_for_status :: "http_response \<Rightarrow> exn + unit" where
  "raise_for_status r =
     (let s = hr_status r
      in if s = 401
         then Inl (TeslaError TeslaReauthorization ''Tesla access token was rejected''
           ''reauthorization_required'' (Some s) None)
         else if 200 \<le> s \<and> s < 300 then Inr ()
         else Inl (TeslaError TeslaAPI (''Tesla Fleet API request failed with status '' @ str_of_int s)
           (status_category s) (Some s) None))"

definition successful_json :: "net_env \<Rightarrow> http_response \<Rightarrow> exn + dict" where
  "successful_json env r =
     rbind (raise_for_status r) (\<lambda>_.
     case ne_json env (hr_body r) of
       None \<Rightarrow> Inl (TeslaError TeslaAPI ''Tesla Fleet API returned invalid JSON'' ''invalid_json'' (Some (hr_status r)) None)
     | Some v \<Rightarrow> (case v of VDict d \<Rightarrow> Inr d
         | _ \<Rightarrow> Inl (TeslaError TeslaAPI ''Tesla Fleet API returned an invalid document'' ''invalid_document''
             (Some (hr_status r)) None)))"

definition request_json ::
  "net_env \<Rightarrow> fleet_client \<Rightarrow> string \<Rightarrow> string \<Rightarrow> string \<Rightarrow> string \<Rightarrow> val option \<Rightarrow> bool \<Rightarrow> ('w, dict) fleet_call" where
  "request_json env c method base_url path token body retry_safe =
     obind (request env c method base_url path token body retry_safe) (\<lambda>r. olift (successful_json env r))"

definition invalid_payload :: "string \<Rightarrow> exn" where
  "invalid_payload m = tesla_api_error m ''invalid_payload''"

text \<open>\<open>json_object\<close> copies a decoded document.\<close>

fun json_value :: "val \<Rightarrow> val" where
  "json_value (VDict d) = VDict (map (\<lambda>(k, v). (k, json_value v)) d)"
| "json_value (VList xs) = VList (map json_value xs)"
| "json_value (VBytes b) = VStr (py_str (VBytes b))"
| "json_value (VTime t) = VStr (py_str (VTime t))"
| "json_value v = v"

definition json_object :: "dict \<Rightarrow> dict" where
  "json_object d = map (\<lambda>(k, v). (k, json_value v)) d"

definition response_mapping :: "dict \<Rightarrow> exn + dict" where
  "response_mapping d = (case dget d ''response'' of VDict r \<Rightarrow> Inr r
     | _ \<Rightarrow> Inl (invalid_payload ''Tesla Fleet API response payload is invalid''))"

definition response_sequence :: "dict \<Rightarrow> exn + dict list" where
  "response_sequence d = (case dget d ''response'' of
       VList xs \<Rightarrow>
         if list_all is_dict xs then Inr (map the_dict xs)
         else Inl (invalid_payload ''Tesla Fleet API response list contains an invalid record'')
     | _ \<Rightarrow> Inl (invalid_payload ''Tesla Fleet API response list is invalid''))"

definition scalar :: "val \<Rightarrow> exn + val" where
  "scalar v = (if v = VNone \<or> is_str v \<or> is_number v then Inr v
     else Inl (invalid_payload ''Tesla response value is invalid''))"

definition response_value :: "dict \<Rightarrow> exn + val" where
  "response_value d =
     (case map_of d ''response'' of
        None \<Rightarrow> Inl (invalid_payload ''Tesla Fleet API response payload is missing'')
      | Some v \<Rightarrow> (case v of
            VDict r \<Rightarrow> Inr (VDict (json_object r))
          | VList xs \<Rightarrow> rbind (rmap (\<lambda>x. case x of VDict r \<Rightarrow> Inr (VDict (json_object r)) | _ \<Rightarrow> scalar x) xs)
                       (\<lambda>ys. Inr (VList ys))
          | _ \<Rightarrow> scalar v))"

definition required_text :: "dict \<Rightarrow> string \<Rightarrow> exn + string" where
  "required_text d k = (case dget d k of
       VStr s \<Rightarrow> if s = [] then Inl (invalid_payload (''Tesla response is missing '' @ k)) else Inr s
     | _ \<Rightarrow> Inl (invalid_payload (''Tesla response is missing '' @ k)))"

definition vehicle_of :: "dict \<Rightarrow> exn + tesla_vehicle" where
  "vehicle_of d =
     rbind (required_text d ''vin'') (\<lambda>vin.
     let vid = dget_default d ''id_s'' (dget_default d ''id'' (dget d ''vehicle_id''))
     in (case vid of
           VStr s \<Rightarrow> Inr \<lparr>tv_vin = vin, tv_tesla_vehicle_id = py_str vid, tv_display_name = field_str d ''display_name'',
             tv_state = field_str d ''state'', tv_raw = json_object d\<rparr>
         | VInt i \<Rightarrow> Inr \<lparr>tv_vin = vin, tv_tesla_vehicle_id = py_str vid, tv_display_name = field_str d ''display_name'',
             tv_state = field_str d ''state'', tv_raw = json_object d\<rparr>
         | _ \<Rightarrow> Inl (invalid_payload ''Tesla vehicle record is missing its ID'')))"

record pagination =
  pg_current :: "int option"
  pg_per_page :: "int option"
  pg_count :: "int option"
  pg_pages :: "int option"
  pg_next_page :: "int option"
  pg_previous_page :: "int option"

definition pagination_of :: "dict \<Rightarrow> exn + pagination option" where
  "pagination_of d =
     (let value = (if dget d ''pagination'' \<noteq> VNone then dget d ''pagination''
        else case dget d ''response'' of VDict r \<Rightarrow> dget r ''pagination'' | _ \<Rightarrow> VNone)
      in case value of
           VNone \<Rightarrow> Inr None
         | VDict p \<Rightarrow> Inr (Some \<lparr>pg_current = field_int p ''current'', pg_per_page = field_int p ''per_page'',
             pg_count = field_int p ''count'', pg_pages = field_int p ''pages'', pg_next_page = field_int p ''next'',
             pg_previous_page = field_int p ''previous''\<rparr>)
         | _ \<Rightarrow> Inl (invalid_payload ''Tesla pagination metadata is invalid''))"

subsection \<open>Paths\<close>

definition path_part :: "string \<Rightarrow> exn + string" where
  "path_part value =
     (if strip value = [] then Inl (ValueError ''Tesla path identifier cannot be empty'')
      else Inr (url_quote (strip value)))"

definition vehicle_path :: "string \<Rightarrow> string \<Rightarrow> exn + string" where
  "vehicle_path vin suffix =
     rbind (path_part vin) (\<lambda>p.
     Inr (if suffix = [] then ''/api/1/vehicles/'' @ p else ''/api/1/vehicles/'' @ p @ ''/'' @ suffix))"

text \<open>\<open>urlencode\<close> of a parameter that is not text takes its \<open>str\<close>.\<close>

definition query_text :: "net_env \<Rightarrow> val \<Rightarrow> string" where
  "query_text env v = (case v of VFloat q \<Rightarrow> ne_float env q | _ \<Rightarrow> py_str v)"

definition with_query :: "net_env \<Rightarrow> string \<Rightarrow> dict \<Rightarrow> string" where
  "with_query env path values =
     (let populated = filter (\<lambda>(k, v). v \<noteq> VNone) values
      in if populated = [] then path
         else path @ ''?'' @ urlencode (map (\<lambda>(k, v). (k, query_text env v)) populated))"

subsection \<open>The three kinds of plain calls\<close>

definition object_call ::
  "net_env \<Rightarrow> fleet_client \<Rightarrow> string \<Rightarrow> string \<Rightarrow> string \<Rightarrow> string \<Rightarrow> val option \<Rightarrow> ('w, dict) fleet_call" where
  "object_call env c method base_url path token body =
     obind (request_json env c method base_url path token body (method = ''GET'')) (\<lambda>d.
     olift (rbind (response_mapping d) (\<lambda>r. Inr (json_object r))))"

definition list_call ::
  "net_env \<Rightarrow> fleet_client \<Rightarrow> string \<Rightarrow> string \<Rightarrow> string \<Rightarrow> string \<Rightarrow> ('w, dict list \<times> pagination option) fleet_call" where
  "list_call env c method base_url path token =
     obind (request_json env c method base_url path token None (method = ''GET'')) (\<lambda>d.
     olift (rbind (response_sequence d) (\<lambda>items. rbind (pagination_of d) (\<lambda>p. Inr (map json_object items, p)))))"

definition value_call ::
  "net_env \<Rightarrow> fleet_client \<Rightarrow> string \<Rightarrow> string \<Rightarrow> string \<Rightarrow> string \<Rightarrow> val option \<Rightarrow> ('w, val) fleet_call" where
  "value_call env c method base_url path token body =
     obind (request_json env c method base_url path token body (method = ''GET'')) (\<lambda>d.
     olift (response_value d))"

end
