(* ===== verification/FleetEndpoints.thy ===== *)
theory FleetEndpoints
  imports FleetClient
begin

text \<open>
  The endpoints of the Fleet API client, one operation per method of \<open>TeslaFleetClient\<close>, and the
  vehicle commands of \<open>VehicleCommands\<close>.
\<close>

subsection \<open>User endpoints\<close>

definition fleet_feature_config :: "net_env \<Rightarrow> fleet_client \<Rightarrow> string \<Rightarrow> string \<Rightarrow> ('w, dict) fleet_call" where
  "fleet_feature_config env c token base = object_call env c ''GET'' base ''/api/1/users/feature_config'' token None"

definition fleet_me :: "net_env \<Rightarrow> fleet_client \<Rightarrow> string \<Rightarrow> string \<Rightarrow> ('w, dict) fleet_call" where
  "fleet_me env c token base = object_call env c ''GET'' base ''/api/1/users/me'' token None"

definition fleet_orders :: "net_env \<Rightarrow> fleet_client \<Rightarrow> string \<Rightarrow> string \<Rightarrow> ('w, dict list \<times> pagination option) fleet_call" where
  "fleet_orders env c token base = list_call env c ''GET'' base ''/api/1/users/orders'' token"

definition fleet_region :: "net_env \<Rightarrow> fleet_client \<Rightarrow> string \<Rightarrow> string \<Rightarrow> ('w, tesla_region) fleet_call" where
  "fleet_region env c token base =
     obind (request_json env c ''GET'' base ''/api/1/users/region'' token None False) (\<lambda>d.
     olift (rbind (response_mapping d) (\<lambda>r.
       rbind (required_text r ''region'') (\<lambda>rgn.
       (case dget_default r ''fleet_api_base_url'' (dget r ''base_url'') of
          VStr discovered \<Rightarrow> rbind (normalize_base_url discovered) (\<lambda>b.
            Inr \<lparr>region_name = rgn, region_base_url = b\<rparr>)
        | _ \<Rightarrow> Inl (invalid_payload ''Tesla region response is missing Fleet API base URL''))))))"

subsection \<open>Vehicle endpoints\<close>

text \<open>A call on a path of one vehicle; the path is built before anything is sent.\<close>

definition on_vehicle :: "string \<Rightarrow> string \<Rightarrow> (string \<Rightarrow> ('w, 'a) fleet_call) \<Rightarrow> ('w, 'a) fleet_call" where
  "on_vehicle vin suffix f = obind (olift (vehicle_path vin suffix)) f"

definition fleet_drivers :: "net_env \<Rightarrow> fleet_client \<Rightarrow> string \<Rightarrow> string \<Rightarrow> string \<Rightarrow> ('w, dict list \<times> pagination option) fleet_call" where
  "fleet_drivers env c token base vin = on_vehicle vin ''drivers'' (\<lambda>p. list_call env c ''GET'' base p token)"

definition fleet_drivers_remove :: "net_env \<Rightarrow> fleet_client \<Rightarrow> string \<Rightarrow> string \<Rightarrow> string \<Rightarrow> int option \<Rightarrow> ('w, val) fleet_call" where
  "fleet_drivers_remove env c token base vin share_user_id = on_vehicle vin ''drivers'' (\<lambda>p.
     value_call env c ''DELETE'' base (with_query env p [(''share_user_id'', opt_int share_user_id)]) token None)"

definition text_set :: "dict \<Rightarrow> string \<Rightarrow> exn + string list option" where
  "text_set d k = (case dget d k of
       VNone \<Rightarrow> Inr None
     | VList xs \<Rightarrow> if list_all (\<lambda>x. is_str x \<and> x \<noteq> VStr []) xs then Inr (Some (map the_str xs))
                   else Inl (invalid_payload (''Tesla response contains invalid '' @ k))
     | _ \<Rightarrow> Inl (invalid_payload (''Tesla response contains invalid '' @ k)))"

definition paired_flag :: "string list option \<Rightarrow> string list option \<Rightarrow> string \<Rightarrow> bool option" where
  "paired_flag paired unpaired vin =
     (if (case paired of None \<Rightarrow> False | Some ps \<Rightarrow> vin \<in> set ps) then Some True
      else if (case unpaired of None \<Rightarrow> False | Some us \<Rightarrow> vin \<in> set us) then Some False
      else None)"

definition statuses_of :: "dict \<Rightarrow> exn + (string \<times> fleet_status) list" where
  "statuses_of r =
     (case dget r ''vehicle_info'' of
        VDict info \<Rightarrow>
          rbind (text_set r ''key_paired_vins'') (\<lambda>paired.
          rbind (text_set r ''unpaired_vins'') (\<lambda>unpaired.
          if (case (paired, unpaired) of (Some ps, Some us) \<Rightarrow> list_ex (\<lambda>v. v \<in> set us) ps | _ \<Rightarrow> False)
          then Inl (invalid_payload ''Tesla fleet status pairing lists overlap'')
          else Inr (map (\<lambda>(vin, raw). (vin,
            \<lparr>fs_vin = vin, fs_key_paired = paired_flag paired unpaired vin,
             fs_protocol_required = field_bool (the_dict raw) ''vehicle_command_protocol_required'',
             fs_firmware_version = field_str (the_dict raw) ''firmware_version'',
             fs_telemetry_version = field_str (the_dict raw) ''fleet_telemetry_version'',
             fs_total_number_of_keys = field_int (the_dict raw) ''total_number_of_keys'',
             fs_raw = json_object (the_dict raw)\<rparr>))
            (filter (\<lambda>(vin, raw). is_dict raw) info))))
      | _ \<Rightarrow> Inl (invalid_payload ''Tesla fleet status response is missing vehicle_info''))"

definition fleet_fleet_status ::
  "net_env \<Rightarrow> fleet_client \<Rightarrow> string \<Rightarrow> string \<Rightarrow> string list \<Rightarrow> ('w, (string \<times> fleet_status) list) fleet_call" where
  "fleet_fleet_status env c token base vins =
     (if vins = [] then oret []
      else obind (request_json env c ''POST'' base ''/api/1/vehicles/fleet_status'' token
             (Some (VDict [(''vins'', VList (map VStr vins))])) True) (\<lambda>d.
        olift (rbind (response_mapping d) statuses_of)))"

definition fleet_telemetry_config_create :: "net_env \<Rightarrow> fleet_client \<Rightarrow> string \<Rightarrow> string \<Rightarrow> dict \<Rightarrow> ('w, dict) fleet_call" where
  "fleet_telemetry_config_create env c token base payload =
     object_call env c ''POST'' base ''/api/1/vehicles/fleet_telemetry_config'' token (Some (VDict payload))"

definition fleet_telemetry_config_delete :: "net_env \<Rightarrow> fleet_client \<Rightarrow> string \<Rightarrow> string \<Rightarrow> string \<Rightarrow> ('w, val) fleet_call" where
  "fleet_telemetry_config_delete env c token base vin = on_vehicle vin ''fleet_telemetry_config'' (\<lambda>p.
     value_call env c ''DELETE'' base p token None)"

definition fleet_telemetry_config_get :: "net_env \<Rightarrow> fleet_client \<Rightarrow> string \<Rightarrow> string \<Rightarrow> string \<Rightarrow> ('w, dict) fleet_call" where
  "fleet_telemetry_config_get env c token base vin = on_vehicle vin ''fleet_telemetry_config'' (\<lambda>p.
     object_call env c ''GET'' base p token None)"

definition fleet_telemetry_config_jws ::
  "net_env \<Rightarrow> fleet_client \<Rightarrow> string \<Rightarrow> string \<Rightarrow> string list \<Rightarrow> string \<Rightarrow> ('w, dict) fleet_call" where
  "fleet_telemetry_config_jws env c token base vins jws =
     object_call env c ''POST'' base ''/api/1/vehicles/fleet_telemetry_config_jws'' token
       (Some (VDict ((if vins = [] then [] else [(''vins'', VList (map VStr vins))]) @ [(''token'', VStr jws)])))"

definition fleet_telemetry_errors :: "net_env \<Rightarrow> fleet_client \<Rightarrow> string \<Rightarrow> string \<Rightarrow> string \<Rightarrow> ('w, val) fleet_call" where
  "fleet_telemetry_errors env c token base vin = on_vehicle vin ''fleet_telemetry_errors'' (\<lambda>p.
     value_call env c ''GET'' base p token None)"

text \<open>
  The loop over the pages of vehicles.  Its end depends on what Tesla answers, so it has fuel;
  \<^const>\<open>NoReturn\<close> means that it had not ended yet.
\<close>

primrec vehicle_pages ::
  "nat \<Rightarrow> net_env \<Rightarrow> fleet_client \<Rightarrow> string \<Rightarrow> string \<Rightarrow> int \<Rightarrow> tesla_vehicle list \<Rightarrow> ('w, tesla_vehicle list) fleet_call" where
  "vehicle_pages 0 env c token base page found = oraise NoReturn"
| "vehicle_pages (Suc fuel) env c token base page found =
     obind (request_json env c ''GET'' base
         (with_query env ''/api/1/vehicles'' [(''page'', VInt page), (''per_page'', VInt 100)]) token None False) (\<lambda>d.
     obind (olift (rbind (response_sequence d) (rmap vehicle_of))) (\<lambda>vs.
     obind (olift (pagination_of d)) (\<lambda>p.
     case Option.bind p pg_next_page of
       None \<Rightarrow> oret (found @ vs)
     | Some next_page \<Rightarrow>
         if next_page > 100
         then oraise (tesla_api_error ''Tesla vehicle pagination exceeded safe bounds'' ''pagination_limit'')
         else vehicle_pages fuel env c token base next_page (found @ vs))))"

definition fleet_list_vehicles ::
  "nat \<Rightarrow> net_env \<Rightarrow> fleet_client \<Rightarrow> string \<Rightarrow> string \<Rightarrow> ('w, tesla_vehicle list) fleet_call" where
  "fleet_list_vehicles fuel env c token base = vehicle_pages fuel env c token base 1 []"

definition fleet_mobile_enabled :: "net_env \<Rightarrow> fleet_client \<Rightarrow> string \<Rightarrow> string \<Rightarrow> string \<Rightarrow> ('w, dict) fleet_call" where
  "fleet_mobile_enabled env c token base vin = on_vehicle vin ''mobile_enabled'' (\<lambda>p.
     object_call env c ''GET'' base p token None)"

definition fleet_nearby_charging_sites ::
  "net_env \<Rightarrow> fleet_client \<Rightarrow> string \<Rightarrow> string \<Rightarrow> string \<Rightarrow> val \<Rightarrow> val \<Rightarrow> val \<Rightarrow> ('w, dict) fleet_call" where
  "fleet_nearby_charging_sites env c token base vin count radius detail =
     on_vehicle vin ''nearby_charging_sites'' (\<lambda>p.
     object_call env c ''GET'' base
       (with_query env p [(''count'', count), (''radius'', radius), (''detail'', detail)]) token None)"

definition fleet_recent_alerts :: "net_env \<Rightarrow> fleet_client \<Rightarrow> string \<Rightarrow> string \<Rightarrow> string \<Rightarrow> ('w, val) fleet_call" where
  "fleet_recent_alerts env c token base vin = on_vehicle vin ''recent_alerts'' (\<lambda>p.
     value_call env c ''GET'' base p token None)"

definition fleet_release_notes ::
  "net_env \<Rightarrow> fleet_client \<Rightarrow> string \<Rightarrow> string \<Rightarrow> string \<Rightarrow> val \<Rightarrow> val \<Rightarrow> ('w, val) fleet_call" where
  "fleet_release_notes env c token base vin staged language =
     on_vehicle vin ''release_notes'' (\<lambda>p.
     value_call env c ''GET'' base (with_query env p [(''staged'', staged), (''language'', language)]) token None)"

definition fleet_service_data :: "net_env \<Rightarrow> fleet_client \<Rightarrow> string \<Rightarrow> string \<Rightarrow> string \<Rightarrow> ('w, val) fleet_call" where
  "fleet_service_data env c token base vin = on_vehicle vin ''service_data'' (\<lambda>p.
     value_call env c ''GET'' base p token None)"

definition fleet_share_invites ::
  "net_env \<Rightarrow> fleet_client \<Rightarrow> string \<Rightarrow> string \<Rightarrow> string \<Rightarrow> int \<Rightarrow> int \<Rightarrow> ('w, dict list \<times> pagination option) fleet_call" where
  "fleet_share_invites env c token base vin page per_page = on_vehicle vin ''invitations'' (\<lambda>p.
     list_call env c ''GET'' base (with_query env p [(''page'', VInt page), (''per_page'', VInt per_page)]) token)"

definition fleet_share_invites_create :: "net_env \<Rightarrow> fleet_client \<Rightarrow> string \<Rightarrow> string \<Rightarrow> string \<Rightarrow> ('w, dict) fleet_call" where
  "fleet_share_invites_create env c token base vin = on_vehicle vin ''invitations'' (\<lambda>p.
     object_call env c ''POST'' base p token None)"

definition fleet_share_invites_redeem :: "net_env \<Rightarrow> fleet_client \<Rightarrow> string \<Rightarrow> string \<Rightarrow> tesla_request \<Rightarrow> ('w, dict) fleet_call" where
  "fleet_share_invites_redeem env c token base rq =
     obind (olift (to_payload rq)) (\<lambda>payload.
     object_call env c ''POST'' base ''/api/1/invitations/redeem'' token (Some (VDict payload)))"

definition fleet_share_invites_revoke ::
  "net_env \<Rightarrow> fleet_client \<Rightarrow> string \<Rightarrow> string \<Rightarrow> string \<Rightarrow> string \<Rightarrow> ('w, val) fleet_call" where
  "fleet_share_invites_revoke env c token base vin invitation_id =
     on_vehicle vin ''invitations'' (\<lambda>p.
     obind (olift (path_part invitation_id)) (\<lambda>i.
     value_call env c ''POST'' base (p @ ''/'' @ i @ ''/revoke'') token None))"

definition fleet_signed_command ::
  "net_env \<Rightarrow> fleet_client \<Rightarrow> string \<Rightarrow> string \<Rightarrow> string \<Rightarrow> tesla_request \<Rightarrow> ('w, val) fleet_call" where
  "fleet_signed_command env c token base vin rq =
     on_vehicle vin ''signed_command'' (\<lambda>p.
     obind (olift (to_payload rq)) (\<lambda>payload.
     value_call env c ''POST'' base p token (Some (VDict payload))))"

definition fleet_vehicle :: "net_env \<Rightarrow> fleet_client \<Rightarrow> string \<Rightarrow> string \<Rightarrow> string \<Rightarrow> ('w, tesla_vehicle) fleet_call" where
  "fleet_vehicle env c token base vin = on_vehicle vin [] (\<lambda>p.
     obind (request_json env c ''GET'' base p token None False) (\<lambda>d.
     olift (rbind (response_mapping d) vehicle_of)))"

definition identity_fields :: "string list" where
  "identity_fields = [''id'', ''id_s'', ''vehicle_id'', ''vin'', ''display_name'', ''state'']"

definition fleet_vehicle_data ::
  "net_env \<Rightarrow> fleet_client \<Rightarrow> string \<Rightarrow> string \<Rightarrow> string \<Rightarrow> string list \<Rightarrow> ('w, tesla_vehicle \<times> dict) fleet_call" where
  "fleet_vehicle_data env c token base vin endpoints =
     on_vehicle vin ''vehicle_data'' (\<lambda>p.
     obind (request_json env c ''GET'' base
       (with_query env p [(''endpoints'', VStr (join '','' endpoints))]) token None False) (\<lambda>d.
     olift (rbind (response_mapping d) (\<lambda>r.
       rbind (vehicle_of r) (\<lambda>v.
       Inr (v, json_object (filter (\<lambda>(k, x). k \<notin> set identity_fields) r)))))))"

definition fleet_wake_up :: "net_env \<Rightarrow> fleet_client \<Rightarrow> string \<Rightarrow> string \<Rightarrow> string \<Rightarrow> ('w, tesla_vehicle) fleet_call" where
  "fleet_wake_up env c token base vin = on_vehicle vin ''wake_up'' (\<lambda>p.
     obind (request_json env c ''POST'' base p token None False) (\<lambda>d.
     olift (rbind (response_mapping d) vehicle_of)))"

subsection \<open>Charging endpoints\<close>

definition fleet_charging_history ::
  "net_env \<Rightarrow> fleet_client \<Rightarrow> string \<Rightarrow> string \<Rightarrow> charging_history_query \<Rightarrow> ('w, dict) fleet_call" where
  "fleet_charging_history env c token base q =
     object_call env c ''GET'' base (with_query env ''/api/1/dx/charging/history''
       [(''vin'', opt_str (ch_vin q)), (''startTime'', opt_str (ch_start_time q)),
        (''endTime'', opt_str (ch_end_time q)), (''pageNo'', opt_int (ch_page q)),
        (''pageSize'', opt_int (ch_page_size q)), (''sortBy'', opt_str (ch_sort_by q)),
        (''sortOrder'', ch_sort_order q)]) token None"

record binary_document =
  bd_content :: string
  bd_content_type :: string

definition fleet_charging_invoice ::
  "net_env \<Rightarrow> fleet_client \<Rightarrow> string \<Rightarrow> string \<Rightarrow> string \<Rightarrow> ('w, binary_document) fleet_call" where
  "fleet_charging_invoice env c token base invoice_id =
     obind (olift (path_part invoice_id)) (\<lambda>i.
     obind (request env c ''GET'' base (''/api/1/dx/charging/invoice/'' @ i) token None True) (\<lambda>r.
     olift (rbind (raise_for_status r) (\<lambda>_.
       Inr \<lparr>bd_content = hr_body r, bd_content_type =
         (case hr_content_type r of Some t \<Rightarrow> if t = [] then ''application/octet-stream'' else t
          | None \<Rightarrow> ''application/octet-stream'')\<rparr>))))"

subsection \<open>Vehicle commands\<close>

text \<open>Every command method, in order, with whether it takes a request.\<close>

definition access_and_charge_commands :: "(string \<times> bool) list" where
  "access_and_charge_commands = [
    (''actuate_trunk'', True), (''add_charge_schedule'', True), (''add_precondition_schedule'', True),
    (''adjust_volume'', True), (''auto_conditioning_start'', False),
    (''auto_conditioning_stop'', False), (''cancel_software_update'', False),
    (''charge_max_range'', False), (''charge_port_door_close'', False),
    (''charge_port_door_open'', False), (''charge_standard'', False), (''charge_start'', False),
    (''charge_stop'', False), (''clear_pin_to_drive_admin'', False), (''door_lock'', False),
    (''door_unlock'', False), (''erase_user_data'', False), (''flash_lights'', False),
    (''guest_mode'', True), (''honk_horn'', False), (''media_next_fav'', False),
    (''media_next_track'', False), (''media_prev_fav'', False), (''media_prev_track'', False),
    (''media_toggle_playback'', False), (''media_volume_down'', False), (''media_volume_up'', False),
    (''navigation_gps_request'', True), (''navigation_request'', True),
    (''navigation_sc_request'', True)]"

definition navigation_and_climate_commands :: "(string \<times> bool) list" where
  "navigation_and_climate_commands = [
    (''navigation_waypoints_request'', True), (''parental_controls_activate'', True),
    (''parental_controls_clear_pin_admin'', False), (''parental_controls_deactivate'', True),
    (''parental_controls_enable_setting'', True), (''parental_controls_set_speed_limit'', True),
    (''remote_auto_seat_climate_request'', True),
    (''remote_auto_steering_wheel_heat_climate_request'', True), (''remote_boombox'', True),
    (''remote_seat_cooler_request'', True), (''remote_seat_heater_request'', True),
    (''remote_start_drive'', False), (''remote_steering_wheel_heat_level_request'', True),
    (''remote_steering_wheel_heater_request'', True), (''remove_charge_schedule'', True),
    (''remove_precondition_schedule'', True), (''reset_pin_to_drive_pin'', False),
    (''reset_valet_pin'', False), (''schedule_software_update'', True)]"

definition setting_commands :: "(string \<times> bool) list" where
  "setting_commands = [
    (''set_bioweapon_mode'', True), (''set_cabin_overheat_protection'', True),
    (''set_charge_limit'', True), (''set_charging_amps'', True), (''set_climate_keeper_mode'', True),
    (''set_cop_temp'', True), (''set_pin_to_drive'', True), (''set_preconditioning_max'', True),
    (''set_scheduled_charging'', True), (''set_scheduled_departure'', True),
    (''set_sentry_mode'', True), (''set_temps'', True), (''set_valet_mode'', True),
    (''set_vehicle_name'', True), (''speed_limit_activate'', True), (''speed_limit_clear_pin'', True),
    (''speed_limit_clear_pin_admin'', False), (''speed_limit_deactivate'', True)]"

definition remaining_commands :: "(string \<times> bool) list" where
  "remaining_commands = [
    (''speed_limit_set_limit'', True), (''sun_roof_control'', True), (''trigger_homelink'', True),
    (''upcoming_calendar_entries'', True), (''window_control'', True)]"

definition command_methods :: "(string \<times> bool) list" where
  "command_methods = access_and_charge_commands @ navigation_and_climate_commands @ setting_commands @ remaining_commands"

record command_result =
  cr_successful :: bool
  cr_reason :: "string option"
  cr_raw :: dict

definition command_result_of :: "dict \<Rightarrow> exn + command_result" where
  "command_result_of d =
     rbind (response_mapping d) (\<lambda>r.
     case dget r ''result'' of
       VBool ok \<Rightarrow> Inr \<lparr>cr_successful = ok,
         cr_reason = (case dget r ''reason'' of VStr s \<Rightarrow> if s = [] then None else Some s | _ \<Rightarrow> None),
         cr_raw = json_object r\<rparr>
     | _ \<Rightarrow> Inl (invalid_payload ''Tesla command response is missing result''))"

definition command ::
  "net_env \<Rightarrow> fleet_client \<Rightarrow> string \<Rightarrow> string \<Rightarrow> string \<Rightarrow> string \<Rightarrow> tesla_request option \<Rightarrow> ('w, command_result) fleet_call" where
  "command env c token base vin name rq =
     obind (olift (path_part vin)) (\<lambda>p.
     obind (olift (case rq of None \<Rightarrow> Inr [] | Some r \<Rightarrow> to_payload r)) (\<lambda>payload.
     obind (request_json env c ''POST'' base (''/api/1/vehicles/'' @ p @ ''/command/'' @ name) token
       (Some (VDict payload)) False) (\<lambda>d.
     olift (command_result_of d))))"

text \<open>Calling the method of a command by its name: the argument list must match.\<close>

definition call_command ::
  "net_env \<Rightarrow> fleet_client \<Rightarrow> string \<Rightarrow> string \<Rightarrow> string \<Rightarrow> string \<Rightarrow> tesla_request option \<Rightarrow> ('w, command_result) fleet_call" where
  "call_command env c token base vin name rq =
     (case map_of command_methods name of
        None \<Rightarrow> oraise AttributeError
      | Some takes_request \<Rightarrow>
          if takes_request \<noteq> (rq \<noteq> None) then oraise TypeError else command env c token base vin name rq)"

end
