(* ===== verification/FleetGuarantees.thy ===== *)
theory FleetGuarantees
  imports FleetEndpoints
begin

text \<open>
  What the Fleet API client guarantees: where it sends requests, how often it sends them, and what
  it reports about them.
\<close>

subsection \<open>URLs of the client\<close>

definition plain_host :: "string \<Rightarrow> bool" where
  "plain_host h = (h \<noteq> [] \<and> list_all (\<lambda>c. is_alnum c \<or> c \<in> set ''.-'') h)"

definition removed_char :: "char \<Rightarrow> bool" where
  "removed_char c = (c \<in> {CHR 0x09, CHR 0x0A, CHR 0x0D})"

lemma special_chars: "list_all (\<lambda>c. \<not> is_alnum c \<and> c \<notin> set ''.-'') (''/?#[]@:%'' @ [CHR 0x09, CHR 0x0A, CHR 0x0D])"
  by code_simp

lemma plain_host_char: "plain_host h \<Longrightarrow> c \<in> set h \<Longrightarrow> c \<notin> set ''/?#[]@:%'' \<and> \<not> removed_char c"
  using special_chars unfolding plain_host_def list_all_iff removed_char_def set_append by auto

lemma partition_at_absent: "c \<notin> set s \<Longrightarrow> partition_at c s = (s, False, [])"
  by (induction s) auto

lemma scheme_chars: "list_all scheme_char ''https''" "lower ''https'' = ''https''" "is_lower (hd ''https'')"
  by code_simp+

lemma urlsplitI:
  assumes "filter (\<lambda>c. c \<notin> {CHR 0x09, CHR 0x0A, CHR 0x0D}) (lstrip_by (\<lambda>c. code c \<le> (32::nat)) url0) = url1"
    and "partition_at (CHR '':'') url1 = (b, True, a)"
    and "b \<noteq> []" and "is_lower (hd b)" and "list_all scheme_char b"
    and "starts_with ''//'' a" and "takeWhile (\<lambda>c. c \<notin> set ''/?#'') (drop 2 a) = net"
    and "dropWhile (\<lambda>c. c \<notin> set ''/?#'') (drop 2 a) = path0"
    and "partition_at (CHR ''#'') path0 = (p1, hash, frag)" and "partition_at (CHR ''?'') p1 = (p2, mark, qry)"
    and "CHR ''['' \<notin> set net" and "CHR '']'' \<notin> set net"
  shows "urlsplit url0 = Inr \<lparr>scheme = lower b, netloc = net, url_path = p2, query = qry, fragment = frag\<rparr>"
  unfolding urlsplit_def Let_def assms(1,2) prod.case
  using assms(3-) by (simp add: partition_at_absent)

lemma urlsplit_https:
  assumes h: "plain_host h"
    and p1: "partition_at (CHR ''#'') (''/'' @ filter (\<lambda>c. \<not> removed_char c) rest) = (p1, hash, frag)"
    and p2: "partition_at (CHR ''?'') p1 = (p2, mark, qry)"
  shows "urlsplit (''https://'' @ h @ ''/'' @ rest) =
    Inr \<lparr>scheme = ''https'', netloc = h, url_path = p2, query = qry, fragment = frag\<rparr>"
proof -
  let ?rest = "filter (\<lambda>c. \<not> removed_char c) rest"
  have fh: "filter (\<lambda>c. \<not> removed_char c) h = h"
    using plain_host_char [OF h] by (simp add: filter_id_conv)
  have "urlsplit (''https://'' @ h @ ''/'' @ rest) =
    Inr \<lparr>scheme = lower ''https'', netloc = h, url_path = p2, query = qry, fragment = frag\<rparr>"
  proof (rule urlsplitI [OF _ _ _ _ _ _ _ _ p1 p2])
    show "filter (\<lambda>c. c \<notin> {CHR 0x09, CHR 0x0A, CHR 0x0D})
      (lstrip_by (\<lambda>c. code c \<le> (32::nat)) (''https://'' @ h @ ''/'' @ rest)) = ''https://'' @ h @ ''/'' @ ?rest"
      using fh by (simp add: lstrip_by_def removed_char_def)
    show "partition_at (CHR '':'') (''https://'' @ h @ ''/'' @ ?rest) = (''https'', True, ''//'' @ h @ ''/'' @ ?rest)"
      by simp
    show "takeWhile (\<lambda>c. c \<notin> set ''/?#'') (drop 2 (''//'' @ h @ ''/'' @ ?rest)) = h"
      and "dropWhile (\<lambda>c. c \<notin> set ''/?#'') (drop 2 (''//'' @ h @ ''/'' @ ?rest)) = ''/'' @ ?rest"
      using plain_host_char [OF h] by (simp_all add: takeWhile_append dropWhile_append)
    show "CHR ''['' \<notin> set h" "CHR '']'' \<notin> set h" using plain_host_char [OF h] by auto
  qed (use scheme_chars in \<open>simp_all add: starts_with_def\<close>)
  then show ?thesis by (simp add: scheme_chars(2))
qed

lemma host_facts: "list_all (\<lambda>h. plain_host h \<and> lower h = h) tesla_api_hosts"
  "list_all (\<lambda>b. list_ex (\<lambda>h. b = ''https://'' @ h) tesla_api_hosts) known_base_urls"
  by code_simp+

lemma known_base_split:
  assumes "base \<in> set known_base_urls"
  obtains h where "base = ''https://'' @ h" and "plain_host h" and "h \<in> set tesla_api_hosts" and "lower h = h"
proof -
  from host_facts(2) assms obtain h where h: "h \<in> set tesla_api_hosts" and b: "base = ''https://'' @ h"
    unfolding list_all_iff list_ex_iff by blast
  from host_facts(1) h have "plain_host h" "lower h = h" unfolding list_all_iff by blast+
  with h b show thesis by (intro that)
qed

lemma url_hostname_plain:
  assumes "plain_host (netloc u)" and "lower (netloc u) = netloc u"
  shows "url_hostname u = Some (netloc u)"
proof -
  have a: "CHR ''@'' \<notin> set (netloc u)" "CHR ''['' \<notin> set (netloc u)" "CHR '':'' \<notin> set (netloc u)"
    "CHR ''%'' \<notin> set (netloc u)"
    using plain_host_char [OF assms(1)] by auto
  have al: "after_last (CHR ''@'') (netloc u) = netloc u"
  proof -
    have t: "takeWhile (\<lambda>x. x \<noteq> CHR ''@'') (rev (netloc u)) = rev (netloc u)"
      unfolding takeWhile_eq_all_conv set_rev using a(1) by blast
    show ?thesis by (simp only: after_last_def t rev_rev_ident)
  qed
  have "url_hostinfo u = (netloc u, None)"
    by (simp add: url_hostinfo_def Let_def al partition_at_absent [OF a(2)] partition_at_absent [OF a(3)])
  then show ?thesis using assms by (simp add: url_hostname_def partition_at_absent [OF a(4)] plain_host_def)
qed

lemma client_url:
  assumes "base \<in> set known_base_urls"
  shows "\<exists>u. urlsplit (base @ ''/'' @ rest) = Inr u \<and> approved_host u"
proof -
  from known_base_split [OF assms] obtain h where h: "base = ''https://'' @ h" "plain_host h"
    "h \<in> set tesla_api_hosts" "lower h = h" by metis
  obtain p1 x1 f where p1: "partition_at (CHR ''#'') (''/'' @ filter (\<lambda>c. \<not> removed_char c) rest) = (p1, x1, f)"
    by (metis prod_cases3)
  obtain p2 x2 q where p2: "partition_at (CHR ''?'') p1 = (p2, x2, q)" by (metis prod_cases3)
  let ?u = "\<lparr>scheme = ''https'', netloc = h, url_path = p2, query = q, fragment = f\<rparr>"
  have "urlsplit (base @ ''/'' @ rest) = Inr ?u"
    using urlsplit_https [OF h(2) p1 p2] by (simp add: h(1))
  moreover have "approved_host ?u"
    using url_hostname_plain [of ?u] h by (simp add: approved_host_def)
  ultimately show ?thesis by blast
qed

definition path_char :: "char \<Rightarrow> bool" where
  "path_char c = (\<not> removed_char c \<and> c \<noteq> CHR ''?'' \<and> c \<noteq> CHR ''#'')"

lemma client_url_path:
  assumes "base \<in> set known_base_urls" and r: "list_all path_char rest"
  shows "\<exists>u. urlsplit (base @ ''/'' @ rest) = Inr u \<and> approved_host u \<and> url_path u = ''/'' @ rest \<and> query u = []"
proof -
  from known_base_split [OF assms(1)] obtain h where h: "base = ''https://'' @ h" "plain_host h"
    "h \<in> set tesla_api_hosts" "lower h = h" by metis
  from r have f: "filter (\<lambda>c. \<not> removed_char c) rest = rest"
    and n: "CHR ''#'' \<notin> set (''/'' @ rest)" "CHR ''?'' \<notin> set (''/'' @ rest)"
    by (auto simp: path_char_def list_all_iff filter_id_conv)
  let ?u = "\<lparr>scheme = ''https'', netloc = h, url_path = ''/'' @ rest, query = [], fragment = []\<rparr>"
  have "urlsplit (base @ ''/'' @ rest) = Inr ?u"
    using urlsplit_https [OF h(2), of rest "''/'' @ rest" False "[]" "''/'' @ rest" False "[]"] f
      partition_at_absent [OF n(1)] partition_at_absent [OF n(2)]
    by (simp add: h(1) del: partition_at_simps)
  moreover have "approved_host ?u"
    using url_hostname_plain [of ?u] h by (simp add: approved_host_def)
  ultimately show ?thesis by auto
qed

subsection \<open>Retries\<close>

lemma direct_request_known:
  assumes "base \<in> set known_base_urls" and "case body of None \<Rightarrow> True | Some v \<Rightarrow> json_ok v"
  shows "direct_request env method (base @ ''/'' @ rest) headers None body w =
    exchange env ''Tesla Fleet API transport failed'' \<lparr>hq_transport = Direct, hq_method = method,
      hq_url = base @ ''/'' @ rest, hq_headers = headers, hq_form = None, hq_json = body\<rparr> w"
proof -
  from client_url [OF assms(1)] obtain u where "urlsplit (base @ ''/'' @ rest) = Inr u" "approved_host u" by blast
  with assms(2) show ?thesis
    by (cases body) (simp_all add: direct_request_def obind_def olift_def)
qed

lemma exchange_events: "w_events (snd (exchange env m rq w)) = w_events w @ [Sent rq]"
  by (simp add: exchange_def split: wire_answer.split)

definition final_answer :: "exn + http_response \<Rightarrow> bool" where
  "final_answer r = (case r of Inl e \<Rightarrow> \<not> is_transport_error e | Inr h \<Rightarrow> \<not> retryable_status (hr_status h))"

text \<open>The events of \<open>n\<close> attempts that were followed by another, and the answer after a history.\<close>

definition retried :: "http_request \<Rightarrow> nat \<Rightarrow> event list" where
  "retried rq n = concat (map (\<lambda>i. [Sent rq, Slept (retry_pause i)]) [0..<n])"

definition answer_after :: "net_env \<Rightarrow> http_request \<Rightarrow> event list \<Rightarrow> exn + http_response" where
  "answer_after env rq evs =
     (case ne_answer env evs rq of Answered r \<Rightarrow> Inr r
      | RequestFailed \<Rightarrow> Inl (tesla_transport_error ''Tesla Fleet API transport failed'')
      | RequestCrashed e \<Rightarrow> Inl e)"

lemma exchange_eq:
  "exchange env ''Tesla Fleet API transport failed'' rq w = (answer_after env rq (w_events w), emit (Sent rq) w)"
  by (simp add: exchange_def answer_after_def split: wire_answer.split)

lemma attempts_schedule:
  assumes tr: "\<And>w. transport_request env tr method url (auth_headers token) None body w =
      exchange env ''Tesla Fleet API transport failed'' rq (w :: 'w net_scheme)"
    and ev: "w_events (w :: 'w net_scheme) = evs @ retried rq k"
    and prev: "list_all (\<lambda>i. \<not> final_answer (answer_after env rq (evs @ retried rq i))) [0..<k]"
  shows "\<exists>n \<le> k + left. attempts env tr method url token body True k left w =
      (answer_after env rq (evs @ retried rq n), snd (attempts env tr method url token body True k left w)) \<and>
    w_events (snd (attempts env tr method url token body True k left w)) = evs @ retried rq n @ [Sent rq] \<and>
    list_all (\<lambda>i. \<not> final_answer (answer_after env rq (evs @ retried rq i))) [0..<n] \<and>
    (final_answer (answer_after env rq (evs @ retried rq n)) \<or> n = k + left)"
  using ev prev
proof (induction left arbitrary: k w)
  case 0
  then show ?case by (intro exI [of _ k]) (simp add: tr exchange_eq)
next
  case (Suc left)
  let ?a = "answer_after env rq (evs @ retried rq k)"
  show ?case
  proof (cases "final_answer ?a")
    case True
    then have "attempts env tr method url token body True k (Suc left) w = (?a, emit (Sent rq) w)"
      using Suc.prems(1) by (cases ?a) (simp_all add: tr exchange_eq final_answer_def)
    with True Suc.prems show ?thesis by (intro exI [of _ k]) simp
  next
    case False
    let ?w = "emit (Slept (retry_pause k)) (emit (Sent rq) w)"
    from False have st: "attempts env tr method url token body True k (Suc left) w =
        attempts env tr method url token body True (Suc k) left ?w"
      using Suc.prems(1) by (cases ?a) (simp_all add: tr exchange_eq final_answer_def)
    have "w_events ?w = evs @ retried rq (Suc k)" using Suc.prems(1) by (simp add: retried_def)
    moreover have "list_all (\<lambda>i. \<not> final_answer (answer_after env rq (evs @ retried rq i))) [0..<Suc k]"
      using Suc.prems(2) False by simp
    ultimately show ?thesis using Suc.IH [of ?w "Suc k"] unfolding st by simp
  qed
qed

text \<open>A read that is safe to repeat is repeated on a fixed schedule: the same request is sent, after pauses
  of 1/4, 1/2, 1, \<open>\<dots>\<close> seconds, until an answer is final (no transport error, no status 429 or 500 to
  504) or the allowed number of retries is used up; the last answer is the result.\<close>
theorem read_retry_schedule:
  assumes "normalize_base_url base_url = Inr base" and "path = ''/'' @ rest"
    and "case body of None \<Rightarrow> True | Some v \<Rightarrow> json_ok v"
    and "rq = \<lparr>hq_transport = Direct, hq_method = method, hq_url = base @ path,
      hq_headers = auth_headers token, hq_form = None, hq_json = body\<rparr>"
    and "request env \<lparr>fc_transport = Direct, fc_max_read_retries = limit\<rparr> method base_url path token body True w = (r, w')"
  shows "\<exists>n \<le> limit. r = answer_after env rq (w_events w @ retried rq n) \<and>
    w_events w' = w_events w @ retried rq n @ [Sent rq] \<and>
    list_all (\<lambda>i. \<not> final_answer (answer_after env rq (w_events w @ retried rq i))) [0..<n] \<and>
    (final_answer r \<or> n = limit)"
proof -
  from assms(1) have known: "base \<in> set known_base_urls"
    by (simp add: normalize_base_url_def Let_def split: if_splits)
  have tr: "transport_request env Direct method (base @ path) (auth_headers token) None body v =
      exchange env ''Tesla Fleet API transport failed'' rq v" for v :: "'a net_scheme"
    unfolding transport_request_def transport.case assms(2) direct_request_known [OF known assms(3)]
    by (simp add: assms(2,4))
  have "attempts env Direct method (base @ path) token body True 0 limit w = (r, w')"
    using assms(1,5) by (simp add: request_def obind_def olift_def)
  with attempts_schedule [OF tr, of w "w_events w" 0 limit] show ?thesis
    by (auto simp: retried_def)
qed

definition busy_net :: net_env where
  "busy_net = \<lparr>ne_answer = (\<lambda>evs rq. Answered \<lparr>hr_status = (if length evs < 2 then 503 else 200), hr_body = [],
     hr_content_type = None\<rparr>), ne_json = (\<lambda>b. None), ne_float = (\<lambda>q. []), ne_iso = (\<lambda>s. None)\<rparr>"

definition demo_base :: string where
  "demo_base = ''https://fleet-api.prd.na.vn.cloud.tesla.com''"

lemma demo_base_known: "normalize_base_url demo_base = Inr demo_base"
  by code_simp

theorem read_retry_schedule_witness:
  "\<exists>n \<le> 2. fst (request busy_net \<lparr>fc_transport = Direct, fc_max_read_retries = 2\<rparr> ''GET'' demo_base ''/api/1/users/me''
      ''t'' None True \<lparr>w_events = []\<rparr>) = Inr \<lparr>hr_status = 200, hr_body = [], hr_content_type = None\<rparr> \<and>
    w_events (snd (request busy_net \<lparr>fc_transport = Direct, fc_max_read_retries = 2\<rparr> ''GET'' demo_base
      ''/api/1/users/me'' ''t'' None True \<lparr>w_events = []\<rparr>)) =
      retried \<lparr>hq_transport = Direct, hq_method = ''GET'', hq_url = demo_base @ ''/api/1/users/me'',
        hq_headers = auth_headers ''t'', hq_form = None, hq_json = None\<rparr> n @
      [Sent \<lparr>hq_transport = Direct, hq_method = ''GET'', hq_url = demo_base @ ''/api/1/users/me'',
        hq_headers = auth_headers ''t'', hq_form = None, hq_json = None\<rparr>]"
proof -
  let ?r = "request busy_net \<lparr>fc_transport = Direct, fc_max_read_retries = 2\<rparr> ''GET'' demo_base ''/api/1/users/me''
      ''t'' None True \<lparr>w_events = []\<rparr>"
  let ?rq = "\<lparr>hq_transport = Direct, hq_method = ''GET'', hq_url = demo_base @ ''/api/1/users/me'',
        hq_headers = auth_headers ''t'', hq_form = None, hq_json = None\<rparr>"
  have f: "fst ?r = Inr \<lparr>hr_status = 200, hr_body = [], hr_content_type = None\<rparr>" by code_simp
  have "\<exists>n \<le> 2. fst ?r = answer_after busy_net ?rq (w_events \<lparr>w_events = []\<rparr> @ retried ?rq n) \<and>
    w_events (snd ?r) = w_events \<lparr>w_events = []\<rparr> @ retried ?rq n @ [Sent ?rq] \<and>
    list_all (\<lambda>i. \<not> final_answer (answer_after busy_net ?rq (w_events \<lparr>w_events = []\<rparr> @ retried ?rq i))) [0..<n] \<and>
    (final_answer (fst ?r) \<or> n = 2)"
    by (rule read_retry_schedule [of demo_base demo_base "''/api/1/users/me''" "''api/1/users/me''" None,
          OF demo_base_known _ _ refl prod.collapse [symmetric]]) simp_all
  then obtain n where "n \<le> 2" "w_events (snd ?r) = retried ?rq n @ [Sent ?rq]" by auto
  with f show ?thesis by blast
qed

subsection \<open>Operations with an effect are sent once\<close>

definition sends_at_most :: "nat \<Rightarrow> (http_request \<Rightarrow> bool) \<Rightarrow> ('w, 'a) fleet_call \<Rightarrow> bool" where
  "sends_at_most n P m = (\<forall>w. \<exists>new. w_events (snd (m w)) = w_events w @ new \<and> length new \<le> n \<and>
     list_all (\<lambda>e. case e of Sent q \<Rightarrow> P q | Slept d \<Rightarrow> False) new)"

named_theorems sends_intros \<open>how often an operation sends\<close>

lemma sends_none [sends_intros]: "sends_at_most n P (oret x)" "sends_at_most n P (oraise e)" "sends_at_most n P (olift r)"
  by (simp_all add: sends_at_most_def oper_simps)

lemma sends_obind_pure [sends_intros]:
  "(\<And>x. sends_at_most n P (f x)) \<Longrightarrow> sends_at_most n P (obind (olift r) f)"
  by (cases r) (auto simp: sends_at_most_def obind_def oper_simps)

lemma sends_then_pure [sends_intros]:
  assumes "sends_at_most n P m"
  shows "sends_at_most n P (obind m (\<lambda>x. olift (f x)))"
proof -
  have "snd (obind m (\<lambda>x. olift (f x)) w) = snd (m w)" for w
    by (simp add: obind_def olift_def split: prod.splits sum.splits)
  with assms show ?thesis by (simp add: sends_at_most_def)
qed

lemma sends_if [sends_intros]:
  "(b \<Longrightarrow> sends_at_most n P m) \<Longrightarrow> (\<not> b \<Longrightarrow> sends_at_most n P k) \<Longrightarrow> sends_at_most n P (if b then m else k)"
  by simp

lemma sends_exchange: "P rq \<Longrightarrow> sends_at_most 1 P (exchange env m rq)"
  by (simp add: sends_at_most_def exchange_events)

lemma sends_transport:
  assumes "\<And>tr url body. P \<lparr>hq_transport = tr, hq_method = method, hq_url = url, hq_headers = headers,
    hq_form = None, hq_json = body\<rparr>"
  shows "sends_at_most 1 P (transport_request env tr method url headers None body)"
proof (cases tr)
  case Direct
  show ?thesis unfolding transport_request_def Direct transport.case direct_request_def
    by (intro sends_intros sends_exchange assms)
next
  case (CommandProxy origin)
  have *: "sends_at_most 1 P (exchange env m \<lparr>hq_transport = tr, hq_method = ''POST'', hq_url = url,
      hq_headers = headers, hq_form = None, hq_json = body\<rparr>)" if "method = ''POST''" for tr url body m
    using assms that by (intro sends_exchange) simp
  show ?thesis unfolding transport_request_def CommandProxy transport.case proxy_request_def Let_def
    by (intro sends_intros *) auto
qed

lemma attempts_once: "attempts env tr method url token body False n left = 
    transport_request env tr method url (auth_headers token) None body"
  by (cases left) (auto simp: fun_eq_iff split: prod.splits sum.splits)

definition carries :: "string \<Rightarrow> string \<Rightarrow> http_request \<Rightarrow> bool" where
  "carries method token q = (hq_method q = method \<and> hq_headers q = auth_headers token \<and> hq_form q = None)"

lemma sends_request [sends_intros]:
  "sends_at_most 1 (carries method token) (request env c method base path token body False)"
  unfolding request_def attempts_once by (intro sends_intros sends_transport) (simp add: carries_def)

lemma sends_calls [sends_intros]:
  "sends_at_most 1 (carries method token) (request_json env c method base path token body False)"
  "method \<noteq> ''GET'' \<Longrightarrow> sends_at_most 1 (carries method token) (object_call env c method base path token body)"
  "method \<noteq> ''GET'' \<Longrightarrow> sends_at_most 1 (carries method token) (value_call env c method base path token body)"
proof -
  show a: "sends_at_most 1 (carries verb token) (request_json env c verb base path token body False)"
    for env :: net_env and c :: fleet_client and verb token base path :: string and body :: "val option"
    unfolding request_json_def by (intro sends_intros)
  show "sends_at_most 1 (carries method token) (object_call env c method base path token body)" if "method \<noteq> ''GET''"
    using that a unfolding object_call_def by (intro sends_intros) simp
  show "sends_at_most 1 (carries method token) (value_call env c method base path token body)" if "method \<noteq> ''GET''"
    using that a unfolding value_call_def by (intro sends_intros) simp
qed

lemma sends_on_vehicle [sends_intros]:
  "(\<And>p. sends_at_most n P (f p)) \<Longrightarrow> sends_at_most n P (on_vehicle vin suffix f)"
  unfolding on_vehicle_def by (intro sends_intros)

text \<open>C32: Whatever the transport and the answers are, an operation of the Fleet API client that changes something at
  Tesla sends at most one HTTP request, with its method and the token it was given: every vehicle command, plain or
  signed, waking a vehicle, configuring its telemetry (also by a signed configuration) or removing it, removing a
  driver, and creating, redeeming or revoking an invitation.\<close>
theorem effects_are_sent_at_most_once:
  "sends_at_most 1 (carries ''POST'' token) (call_command env c token base vin name rq) \<and>
   sends_at_most 1 (carries ''POST'' token) (fleet_signed_command env c token base vin signed) \<and>
   sends_at_most 1 (carries ''POST'' token) (fleet_wake_up env c token base vin) \<and>
   sends_at_most 1 (carries ''POST'' token) (fleet_telemetry_config_create env c token base payload) \<and>
   sends_at_most 1 (carries ''POST'' token) (fleet_telemetry_config_jws env c token base vins jws) \<and>
   sends_at_most 1 (carries ''DELETE'' token) (fleet_telemetry_config_delete env c token base vin) \<and>
   sends_at_most 1 (carries ''DELETE'' token) (fleet_drivers_remove env c token base vin share_user_id) \<and>
   sends_at_most 1 (carries ''POST'' token) (fleet_share_invites_create env c token base vin) \<and>
   sends_at_most 1 (carries ''POST'' token) (fleet_share_invites_redeem env c token base redeemed) \<and>
   sends_at_most 1 (carries ''POST'' token) (fleet_share_invites_revoke env c token base vin invitation)"
proof (intro conjI)
  show "sends_at_most 1 (carries ''POST'' token) (call_command env c token base vin name rq)"
    unfolding call_command_def command_def
    by (cases "map_of command_methods name"; simp only: option.case) (intro sends_intros)+
  show "sends_at_most 1 (carries ''POST'' token) (fleet_wake_up env c token base vin)"
    unfolding fleet_wake_up_def by (intro sends_intros)
qed (unfold fleet_signed_command_def fleet_telemetry_config_create_def fleet_telemetry_config_jws_def
    fleet_telemetry_config_delete_def fleet_drivers_remove_def fleet_share_invites_create_def
    fleet_share_invites_redeem_def fleet_share_invites_revoke_def, (intro sends_intros; simp)+)

text \<open>
  The endpoint table declares these reads safe to repeat, but the client asks for no retry of them.
\<close>

lemma vehicle_reads_are_sent_once:
  "sends_at_most 1 (carries ''GET'' token) (fleet_region env c token base)"
  "sends_at_most 1 (carries ''GET'' token) (fleet_vehicle env c token base vin)"
  "sends_at_most 1 (carries ''GET'' token) (fleet_vehicle_data env c token base vin endpoints)"
  unfolding fleet_region_def fleet_vehicle_def fleet_vehicle_data_def by (intro sends_intros)+

subsection \<open>The command proxy accepts what the client sends\<close>

lemma split_at_absent: "c \<notin> set a \<Longrightarrow> split_at c a = [a]"
  by (induction a) auto

lemma split_at_append: "c \<notin> set a \<Longrightarrow> split_at c (a @ c # b) = a # split_at c b"
  by (induction a) auto

lemma command_methods_names: "map fst command_methods = command_names"
  unfolding command_methods_def access_and_charge_commands_def navigation_and_climate_commands_def
    setting_commands_def remaining_commands_def command_names_def append.simps list.map fst_conv
  by (rule refl)

definition word_char :: "char \<Rightarrow> bool" where
  "word_char c = (is_lower c \<or> c = CHR ''_'')"

lemma command_names_words: "list_all (list_all word_char) command_names"
  by code_simp

lemma command_name:
  assumes "map_of command_methods name = Some b"
  shows "name \<in> set command_names" and "list_all word_char name"
proof -
  from map_of_SomeD [OF assms] show n: "name \<in> set command_names"
    unfolding command_methods_names [symmetric] by force
  with command_names_words show "list_all word_char name" by (auto simp: list_all_iff)
qed

lemma path_specials: "list_all (\<lambda>c. \<not> word_char c \<and> \<not> unreserved c \<and> c \<noteq> CHR ''%'') (''/?#'' @ [CHR 0x09, CHR 0x0A, CHR 0x0D])"
  "list_all path_char ''api/1/vehicles/'' \<and> list_all path_char ''/command/''"
  by code_simp+

lemma plain_path_chars: "word_char c \<or> unreserved c \<or> c = CHR ''%'' \<Longrightarrow> path_char c \<and> c \<noteq> CHR ''/''"
proof -
  assume "word_char c \<or> unreserved c \<or> c = CHR ''%''"
  then have "c \<notin> set (''/?#'' @ [CHR 0x09, CHR 0x0A, CHR 0x0D])"
    using path_specials(1) unfolding list_all_iff by blast
  then show ?thesis by (simp add: path_char_def removed_char_def)
qed

lemma url_quote_plain: "list_all path_char (url_quote s)" "CHR ''/'' \<notin> set (url_quote s)"
proof -
  have a: "path_char c \<and> c \<noteq> CHR ''/''" if "c \<in> set (url_quote s)" for c
  proof (rule plain_path_chars)
    from url_quote_chars [OF that] show "word_char c \<or> unreserved c \<or> c = CHR ''%''" by (rule disjI2)
  qed
  from a show "list_all path_char (url_quote s)" by (simp add: list_all_iff)
  show "CHR ''/'' \<notin> set (url_quote s)"
  proof
    assume "CHR ''/'' \<in> set (url_quote s)"
    from a [OF this] show False by simp
  qed
qed

lemma payload_json_ok: "payload_value v \<Longrightarrow> json_ok v"
proof (induction v rule: payload_value.induct)
  case (4 d)
  have "json_ok (snd x)" if "x \<in> set d" for x
  proof -
    have "payload_value (snd x)" using 4(2) that by (simp add: list_all_iff case_prod_beta)
    then show ?thesis by (rule 4(1) [OF that prod.collapse])
  qed
  then show ?case by (simp add: list_all_iff case_prod_beta)
qed simp_all

lemma to_payload_json_ok: "to_payload r = Inr payload \<Longrightarrow> json_ok (VDict payload)"
proof -
  assume "to_payload r = Inr payload"
  then have both: "list_all (\<lambda>(k, v). payload_value v) (rq_values r) \<and>
      payload = filter (\<lambda>(k, v). v \<noteq> VNone) (rq_values r)"
    unfolding to_payload_def compact_eq_Inr .
  note p = conjunct2 [OF both]
  from conjunct1 [OF both] have "list_all (\<lambda>(k, v). payload_value v) payload" unfolding p list_all_iff by simp
  then have "payload_value (VDict payload)" by (simp only: payload_value.simps)
  then show ?thesis by (rule payload_json_ok)
qed

lemma command_path_accepted:
  assumes "map_of command_methods name = Some b"
  shows "typed_vehicle_command (''/api/1/vehicles/'' @ url_quote v @ ''/command/'' @ name)"
    and "list_all path_char (''api/1/vehicles/'' @ url_quote v @ ''/command/'' @ name)"
proof -
  have n: "CHR ''/'' \<notin> set name" "list_all path_char name"
  proof -
    have a: "path_char c \<and> c \<noteq> CHR ''/''" if "c \<in> set name" for c
      using command_name(2) [OF assms] that by (intro plain_path_chars disjI1) (simp add: list_all_iff)
    from a show "list_all path_char name" by (simp add: list_all_iff)
    show "CHR ''/'' \<notin> set name"
    proof
      assume "CHR ''/'' \<in> set name"
      from a [OF this] show False by simp
    qed
  qed
  have s1: "split_at (CHR ''/'') (''/api/1/vehicles/'' @ x) = [] # ''api'' # ''1'' # ''vehicles'' # split_at (CHR ''/'') x" for x
    by (simp split: list.splits)
  have s2: "split_at (CHR ''/'') (''command/'' @ x) = ''command'' # split_at (CHR ''/'') x" for x
    by (simp split: list.splits)
  have "split_at (CHR ''/'') (''/api/1/vehicles/'' @ url_quote v @ ''/command/'' @ name) =
      [[], ''api'', ''1'', ''vehicles'', url_quote v, ''command'', name]"
    using split_at_append [OF url_quote_plain(2), of v "''command/'' @ name"]
    unfolding s1 by (simp add: s2 [simplified] split_at_absent [OF n(1)])
  then show "typed_vehicle_command (''/api/1/vehicles/'' @ url_quote v @ ''/command/'' @ name)"
    unfolding typed_vehicle_command_def Let_def using command_name(1) [OF assms] by simp
  show "list_all path_char (''api/1/vehicles/'' @ url_quote v @ ''/command/'' @ name)"
    using path_specials(2) url_quote_plain(1) n(2) by simp
qed

text \<open>Every command method of the client passes the guard of the command proxy: for a known region, a VIN that
  is not blank and a request that serialises, exactly one POST goes to the proxy, for the percent-encoded
  VIN and the name of the method, with the bearer token of the caller.\<close>
theorem proxy_accepts_every_command:
  assumes "normalize_base_url base_url = Inr base" and "strip vin \<noteq> []"
    and "map_of command_methods name = Some takes_request"
    and "case rq of None \<Rightarrow> \<not> takes_request \<and> payload = [] | Some r \<Rightarrow> takes_request \<and> to_payload r = Inr payload"
  shows "w_events (snd (call_command env \<lparr>fc_transport = CommandProxy origin, fc_max_read_retries = n\<rparr> token base_url vin
      name rq w)) = w_events w @
    [Sent \<lparr>hq_transport = CommandProxy origin, hq_method = ''POST'',
      hq_url = origin @ ''/api/1/vehicles/'' @ url_quote (strip vin) @ ''/command/'' @ name,
      hq_headers = auth_headers token, hq_form = None, hq_json = Some (VDict payload)\<rparr>]"
proof -
  let ?rest = "''api/1/vehicles/'' @ url_quote (strip vin) @ ''/command/'' @ name"
  let ?path = "''/api/1/vehicles/'' @ url_quote (strip vin) @ ''/command/'' @ name"
  from assms(1) have known: "base \<in> set known_base_urls"
    by (simp add: normalize_base_url_def Let_def split: if_splits)
  note acc = command_path_accepted [OF assms(3), of "strip vin"]
  from client_url_path [OF known acc(2)] obtain u where u: "urlsplit (base @ ?path) = Inr u" "approved_host u"
    "url_path u = ?path" "query u = []" by auto
  from assms(4) have pl: "olift (case rq of None \<Rightarrow> Inr [] | Some r \<Rightarrow> to_payload r) = olift (Inr payload)"
    and ok: "json_ok (VDict payload)" and tk: "takes_request = (rq \<noteq> None)"
    using to_payload_json_ok by (auto split: option.splits)
  have body: "(if truthy (VDict payload) then VDict payload else VDict []) = VDict payload" by simp
  have pr: "proxy_request env origin ''POST'' (base @ ?path) (auth_headers token) None (Some (VDict payload)) v =
      exchange env ''Local Vehicle Command Proxy transport failed'' \<lparr>hq_transport = CommandProxy origin,
        hq_method = ''POST'', hq_url = origin @ ?path, hq_headers = auth_headers token, hq_form = None,
        hq_json = Some (VDict payload)\<rparr> v" for v :: "'b net_scheme"
    unfolding proxy_request_def u(1) u(3,4) option.case body Let_def using u(2) acc(1) ok
    by (simp add: obind_def olift_def u)
  have snd_pure: "snd (obind m (\<lambda>x. olift (f x)) v) = snd (m v)" for m :: "('b, 'c) fleet_call" and f :: "'c \<Rightarrow> exn + 'd" and v
    by (simp add: obind_def olift_def split: prod.splits sum.splits)
  have "path_part vin = Inr (url_quote (strip vin))" using assms(2) by (simp add: path_part_def)
  then have "call_command env \<lparr>fc_transport = CommandProxy origin, fc_max_read_retries = n\<rparr> token base_url vin name rq w =
      obind (request_json env \<lparr>fc_transport = CommandProxy origin, fc_max_read_retries = n\<rparr> ''POST'' base_url ?path token
        (Some (VDict payload)) False) (\<lambda>d. olift (command_result_of d)) w"
    using tk by (simp add: call_command_def assms(3) command_def pl obind_def olift_def)
  then show ?thesis
    by (simp only: snd_pure request_json_def request_def attempts_once transport_request_def fleet_client.select_convs
        transport.case) (simp add: assms(1) obind_def olift_def pr [simplified] exchange_events)
qed

definition pin_request :: tesla_request where
  "pin_request = \<lparr>rq_class = ''PinRequest'', rq_values = [(''pin'', VStr ''1234'')]\<rparr>"

theorem proxy_accepts_every_command_witness:
  "w_events (snd (call_command busy_net \<lparr>fc_transport = CommandProxy ''https://localhost:4443'', fc_max_read_retries = 2\<rparr>
      ''t'' demo_base ''5YJ'' ''speed_limit_activate'' (Some pin_request) \<lparr>w_events = []\<rparr>)) =
    [Sent \<lparr>hq_transport = CommandProxy ''https://localhost:4443'', hq_method = ''POST'',
      hq_url = ''https://localhost:4443'' @ ''/api/1/vehicles/'' @ url_quote (strip ''5YJ'') @ ''/command/'' @ ''speed_limit_activate'',
      hq_headers = auth_headers ''t'', hq_form = None, hq_json = Some (VDict [(''pin'', VStr ''1234'')])\<rparr>]"
proof -
  have a: "strip ''5YJ'' \<noteq> []" by code_simp
  have b: "map_of command_methods ''speed_limit_activate'' = Some True" by code_simp
  have c: "case Some pin_request of None \<Rightarrow> \<not> True \<and> [(''pin'', VStr ''1234'')] = []
      | Some r \<Rightarrow> True \<and> to_payload r = Inr [(''pin'', VStr ''1234'')]"
    by code_simp
  show ?thesis
    unfolding proxy_accepts_every_command [OF demo_base_known a b c, of busy_net "''https://localhost:4443''" 2 "''t''"
        "\<lparr>w_events = []\<rparr>"]
    by simp
qed

subsection \<open>The pages of the vehicle list\<close>

text \<open>One page: its vehicles and the number of the next page, if Tesla names one.\<close>

definition fetch_page ::
  "net_env \<Rightarrow> fleet_client \<Rightarrow> string \<Rightarrow> string \<Rightarrow> int \<Rightarrow> ('w, tesla_vehicle list \<times> int option) fleet_call" where
  "fetch_page env c token base page =
     obind (request_json env c ''GET'' base
         (with_query env ''/api/1/vehicles'' [(''page'', VInt page), (''per_page'', VInt 100)]) token None False) (\<lambda>d.
     obind (olift (rbind (response_sequence d) (rmap vehicle_of))) (\<lambda>vs.
     obind (olift (pagination_of d)) (\<lambda>p. oret (vs, Option.bind p pg_next_page))))"

lemma obind_assoc: "obind (obind m f) g = obind m (\<lambda>x. obind (f x) g)"
  by (auto simp: fun_eq_iff obind_def split: prod.splits sum.splits)

lemma obind_oret: "obind (oret x) f = f x"
  by (auto simp: fun_eq_iff obind_def oret_def)

lemma vehicle_pages_Suc:
  "vehicle_pages (Suc fuel) env c token base page found =
     obind (fetch_page env c token base page) (\<lambda>(vs, next_page).
       case next_page of
         None \<Rightarrow> oret (found @ vs)
       | Some q \<Rightarrow>
           if q > 100 then oraise (tesla_api_error ''Tesla vehicle pagination exceeded safe bounds'' ''pagination_limit'')
           else vehicle_pages fuel env c token base q (found @ vs))"
  by (simp only: vehicle_pages.simps fetch_page_def obind_assoc obind_oret prod.case)

text \<open>Tesla's answers make progress: the next page is later than the current one.\<close>

definition pages_progress :: "net_env \<Rightarrow> fleet_client \<Rightarrow> string \<Rightarrow> string \<Rightarrow> 'w net_scheme itself \<Rightarrow> bool" where
  "pages_progress env c token base T \<longleftrightarrow>
     (\<forall>page (w :: 'w net_scheme). case fst (fetch_page env c token base page w) of
        Inl e \<Rightarrow> e \<noteq> NoReturn
      | Inr (vs, q) \<Rightarrow> (case q of None \<Rightarrow> True | Some next_page \<Rightarrow> page < next_page))"

lemma vehicle_pages_end:
  assumes "pages_progress env c token base TYPE('w net_scheme)" and "101 - page \<le> int fuel" and "page \<le> 100"
  shows "fst (vehicle_pages fuel env c token base page found (w :: 'w net_scheme)) \<noteq> Inl NoReturn"
  using assms(2,3)
proof (induction fuel arbitrary: page found w)
  case 0
  then show ?case by simp
next
  case (Suc fuel)
  obtain r t where f: "fetch_page env c token base page w = (r, t)" by (cases "fetch_page env c token base page w")
  from assms(1) f have pr: "case r of Inl e \<Rightarrow> e \<noteq> NoReturn
      | Inr (vs, q) \<Rightarrow> (case q of None \<Rightarrow> True | Some next_page \<Rightarrow> page < next_page)"
    unfolding pages_progress_def by (metis fst_conv)
  show ?case
  proof (cases r)
    case (Inl e)
    with pr f show ?thesis by (simp del: vehicle_pages.simps(2) add: vehicle_pages_Suc obind_def)
  next
    case (Inr x)
    obtain vs q where x: "x = (vs, q)" by (cases x)
    show ?thesis
    proof (cases q)
      case None
      then show ?thesis by (simp del: vehicle_pages.simps(2) add: vehicle_pages_Suc obind_def f Inr x oret_def)
    next
      case (Some p)
      with pr Inr x have "page < p" by simp
      with Suc.prems have "101 - p \<le> int fuel" by simp
      with Suc.IH [of p "found @ vs" t] show ?thesis
        by (simp del: vehicle_pages.simps(2) add: vehicle_pages_Suc obind_def f Inr x Some oraise_def tesla_api_error_def)
    qed
  qed
qed

text \<open>Listing the vehicles ends: as long as every page Tesla names as the next one is later than the page that
  was asked for, the loop has a result within 100 pages.\<close>
theorem vehicle_list_ends:
  assumes "pages_progress env c token base TYPE('w net_scheme)"
  shows "fst (fleet_list_vehicles 100 env c token base (w :: 'w net_scheme)) \<noteq> Inl NoReturn"
  unfolding fleet_list_vehicles_def by (rule vehicle_pages_end [OF assms]) simp_all

text \<open>What one page is when Tesla always gives the same answer.\<close>

lemma fetch_page_constant:
  assumes "\<And>evs rq. ne_answer env evs rq = Answered \<lparr>hr_status = 200, hr_body = body, hr_content_type = None\<rparr>"
    and "ne_json env body = Some (VDict d)" and "response_sequence d = Inr []" and "pagination_of d = Inr p"
    and "normalize_base_url base_url = Inr base"
  shows "\<exists>t. fetch_page env \<lparr>fc_transport = Direct, fc_max_read_retries = n\<rparr> token base_url page w =
    (Inr ([], Option.bind p pg_next_page), t)"
proof -
  let ?c = "\<lparr>fc_transport = Direct, fc_max_read_retries = n\<rparr>"
  let ?query = "[(''page'', VInt page), (''per_page'', VInt 100)]"
  from assms(5) have known: "base \<in> set known_base_urls"
    by (simp add: normalize_base_url_def Let_def split: if_splits)
  have path: "with_query env ''/api/1/vehicles'' ?query =
      ''/'' @ (''api/1/vehicles?'' @ urlencode (map (\<lambda>(k, v). (k, query_text env v)) ?query))"
    by (simp add: with_query_def)
  have "\<exists>t. request env ?c ''GET'' base_url (with_query env ''/api/1/vehicles'' ?query) token None False w =
      (Inr \<lparr>hr_status = 200, hr_body = body, hr_content_type = None\<rparr>, t)"
    unfolding path request_def attempts_once transport_request_def fleet_client.select_convs transport.case assms(5)
    by (simp add: obind_def olift_def direct_request_known [OF known, simplified] exchange_def assms(1))
  then obtain t where "request env ?c ''GET'' base_url (with_query env ''/api/1/vehicles'' ?query) token None False w =
      (Inr \<lparr>hr_status = 200, hr_body = body, hr_content_type = None\<rparr>, t)" by blast
  then show ?thesis
    by (simp add: fetch_page_def request_json_def obind_def olift_def oret_def successful_json_def
        raise_for_status_def assms(2-4))
qed

definition one_page_net :: net_env where
  "one_page_net = busy_net\<lparr>ne_answer := \<lambda>evs rq. Answered \<lparr>hr_status = 200, hr_body = [], hr_content_type = None\<rparr>,
     ne_json := \<lambda>b. Some (VDict [(''response'', VList [])])\<rparr>"

theorem vehicle_list_ends_witness:
  "fst (fleet_list_vehicles 100 one_page_net \<lparr>fc_transport = Direct, fc_max_read_retries = 2\<rparr> ''t'' demo_base
     \<lparr>w_events = []\<rparr>) \<noteq> Inl NoReturn"
proof (rule vehicle_list_ends)
  have "\<exists>t. fetch_page one_page_net \<lparr>fc_transport = Direct, fc_max_read_retries = 2\<rparr> ''t'' demo_base page w =
      (Inr ([], Option.bind (None :: pagination option) pg_next_page), t)" for page and w :: net
    by (rule fetch_page_constant [OF _ _ _ _ demo_base_known, of _ "[]" "[(''response'', VList [])]"])
      (simp_all add: one_page_net_def response_sequence_def pagination_of_def dget_def)
  then show "pages_progress one_page_net \<lparr>fc_transport = Direct, fc_max_read_retries = 2\<rparr> ''t'' demo_base TYPE(net)"
    unfolding pages_progress_def by (metis (no_types, lifting) bind.simps(1) fst_conv old.sum.simps(6) option.simps(4) prod.case)
qed

text \<open>The bound of 100 on the page number does not end the loop by itself: when Tesla keeps naming a page up
  to 100 that it already served, the loop asks for it for ever.\<close>
theorem repeated_page_never_ends:
  assumes "\<And>evs rq. ne_answer env evs rq = Answered \<lparr>hr_status = 200, hr_body = body, hr_content_type = None\<rparr>"
    and "ne_json env body = Some (VDict [(''response'', VList []), (''pagination'', VDict [(''next'', VInt next_page)])])"
    and "next_page \<le> 100" and "normalize_base_url base_url = Inr base"
  shows "fst (fleet_list_vehicles fuel env \<lparr>fc_transport = Direct, fc_max_read_retries = n\<rparr> token base_url w) = Inl NoReturn"
proof -
  let ?c = "\<lparr>fc_transport = Direct, fc_max_read_retries = n\<rparr>"
  let ?d = "[(''response'', VList []), (''pagination'', VDict [(''next'', VInt next_page)])]"
  obtain p where p: "pagination_of ?d = Inr (Some p)" and n: "pg_next_page p = Some next_page"
    by (simp add: pagination_of_def dget_def field_int_def)
  have r: "response_sequence ?d = Inr []" by (simp add: response_sequence_def dget_def)
  have "fst (vehicle_pages fuel env ?c token base_url page found v) = Inl NoReturn" for page found and v :: "'b net_scheme"
  proof (induction fuel arbitrary: page found v)
    case 0
    then show ?case by (simp add: oraise_def)
  next
    case (Suc fuel)
    from fetch_page_constant [OF assms(1,2) r p assms(4), of n token page v] n obtain t where
      "fetch_page env ?c token base_url page v = (Inr ([], Some next_page), t)" by auto
    with Suc.IH assms(3) show ?case by (simp del: vehicle_pages.simps(2) add: vehicle_pages_Suc obind_def)
  qed
  then show ?thesis by (simp add: fleet_list_vehicles_def)
qed

definition same_page_net :: net_env where
  "same_page_net = busy_net\<lparr>ne_answer := \<lambda>evs rq. Answered \<lparr>hr_status = 200, hr_body = [], hr_content_type = None\<rparr>,
     ne_json := \<lambda>b. Some (VDict [(''response'', VList []), (''pagination'', VDict [(''next'', VInt 1)])])\<rparr>"

theorem repeated_page_never_ends_witness:
  "fst (fleet_list_vehicles 1000 same_page_net \<lparr>fc_transport = Direct, fc_max_read_retries = 2\<rparr> ''t'' demo_base
     \<lparr>w_events = []\<rparr>) = Inl NoReturn"
  by (rule repeated_page_never_ends [OF _ _ _ demo_base_known, of _ "[]" 1]) (simp_all add: same_page_net_def)

subsection \<open>What is logged about a request\<close>

text \<open>
  The parts of a path after the VIN that the client uses: not empty, without a slash or a percent sign.
\<close>

definition plain_suffix :: "string list \<Rightarrow> bool" where
  "plain_suffix parts = list_all (\<lambda>p. p \<noteq> [] \<and> CHR ''/'' \<notin> set p) parts"

lemma split_join:
  assumes "plain_suffix ps" and "ps \<noteq> []"
  shows "split_at (CHR ''/'') (join ''/'' ps) = ps"
  using assms
proof (induction ps)
  case (Cons p ps)
  then show ?case
    by (cases ps) (auto simp: plain_suffix_def split_at_absent split_at_append)
qed simp

text \<open>The path of a call on the vehicle with this VIN.\<close>

definition call_path :: "string \<Rightarrow> string list \<Rightarrow> string" where
  "call_path vin suffix = ''/api/1/vehicles/'' @ join ''/'' (url_quote vin # suffix)"

lemma path_parts_call:
  assumes "vin \<noteq> []" and "plain_suffix suffix"
  shows "path_parts (call_path vin suffix) = [''api'', ''1'', ''vehicles'', vin] @ map unquote suffix"
proof -
  have q: "url_quote vin \<noteq> []"
  proof
    assume "url_quote vin = []"
    then have "unquote (url_quote vin) = unquote []" by simp
    with assms(1) show False by (simp add: unquote_quote) (simp add: unquote_def)
  qed
  have pl: "plain_suffix (url_quote vin # suffix)" using assms(2) q url_quote_plain(2) by (simp add: plain_suffix_def)
  have s1: "split_at (CHR ''/'') (''/api/1/vehicles/'' @ x) = [] # ''api'' # ''1'' # ''vehicles'' # split_at (CHR ''/'') x" for x
    by (simp split: list.splits)
  have u: "unquote ''api'' = ''api''" "unquote ''1'' = ''1''" "unquote ''vehicles'' = ''vehicles''" by code_simp+
  have f: "filter (\<lambda>p. p \<noteq> []) suffix = suffix"
    using assms(2) by (simp add: plain_suffix_def list_all_iff filter_id_conv)
  show ?thesis unfolding path_parts_def call_path_def s1 split_join [OF pl list.distinct(2)]
    by (simp add: u f unquote_quote q)
qed

text \<open>What is logged about a call on a vehicle does not depend on the VIN, nor on the values in the body: two
  calls of the same operation with bodies of the same keys and size, by the same caller, are logged alike.\<close>
theorem log_hides_vehicle_and_values:
  assumes "vin \<noteq> []" and "vin \<notin> set collection_vehicle_routes" and "vin' \<noteq> []" and "vin' \<notin> set collection_vehicle_routes"
    and "plain_suffix suffix" and "keys body = keys body'"
  shows "request_log_fields i ctx method \<lparr>scheme = sch, netloc = host, url_path = call_path vin suffix, query = q, fragment = f\<rparr>
      destination None (Some (VDict body)) body_size =
    request_log_fields i ctx method \<lparr>scheme = sch, netloc = host, url_path = call_path vin' suffix, query = q, fragment = f\<rparr>
      destination None (Some (VDict body')) body_size"
proof -
  have rt: "route_template (call_path vin suffix) = route_template (call_path vin' suffix)"
    unfolding route_template_def path_parts_call [OF assms(1,5)] path_parts_call [OF assms(3,5)]
    using assms(2,4) by (simp add: route_of_parts_def Let_def numeral_eq_Suc)
  have hn: "url_hostname \<lparr>scheme = sch, netloc = host, url_path = p, query = q, fragment = f\<rparr> =
      url_hostname \<lparr>scheme = sch, netloc = host, url_path = p', query = q, fragment = f\<rparr>" for p p'
    by (simp add: url_hostname_def url_hostinfo_def)
  show ?thesis
    unfolding request_log_fields_def Let_def request_field_names_def split_url.select_convs option.case val.case assms(6)
      rt hn [of "call_path vin suffix" "call_path vin' suffix"]
    by (rule refl)
qed

definition demo_log_context :: log_context where
  "demo_log_context = \<lparr>lc_correlation_id = Some ''corr_1'', lc_vehicle_id = None, lc_source = None,
     lc_flow_phase = None, lc_flow_iteration = None, lc_attempt = Some 1\<rparr>"

theorem log_hides_vehicle_and_values_witness:
  "request_log_fields ''1'' demo_log_context ''POST'' \<lparr>scheme = ''https'', netloc = ''h'',
      url_path = call_path ''5YJ3'' [''command'', ''set_valet_mode''], query = [], fragment = []\<rparr>
      ''tesla_fleet_api'' None (Some (VDict [(''password'', VStr ''1234'')])) 19 =
    request_log_fields ''1'' demo_log_context ''POST'' \<lparr>scheme = ''https'', netloc = ''h'',
      url_path = call_path ''7SAY'' [''command'', ''set_valet_mode''], query = [], fragment = []\<rparr>
      ''tesla_fleet_api'' None (Some (VDict [(''password'', VStr ''9876'')])) 19"
  by (rule log_hides_vehicle_and_values) (simp_all add: collection_vehicle_routes_def plain_suffix_def)

end
