(* ===== verification/OAuthClient.thy ===== *)
theory OAuthClient
  imports Transport TeslaModels
begin

text \<open>
  \<open>tesla_client/oauth.py\<close>: authorization URLs, the code exchange and the refresh of rotating tokens.
  The verification of the ID token's signature is the JWT library's; what the code checks on the
  claims it returns is modelled.
\<close>

definition tesla_authorize_url :: string where
  "tesla_authorize_url = ''https://auth.tesla.com/oauth2/v3/authorize''"

definition tesla_token_url :: string where
  "tesla_token_url = ''https://fleet-auth.prd.vn.cloud.tesla.com/oauth2/v3/token''"

definition default_scopes :: "string list" where
  "default_scopes =
     [''openid'', ''offline_access'', ''vehicle_device_data'', ''vehicle_location'', ''vehicle_cmds'',
      ''vehicle_charging_cmds'', ''user_data'']"

record oauth_config =
  oc_client_id :: string
  oc_client_secret :: string
  oc_redirect_uri :: string
  oc_audience :: string
  oc_scopes :: "string list"

definition oauth_config_field :: "string \<Rightarrow> string \<Rightarrow> exn + unit" where
  "oauth_config_field name value = require (strip value \<noteq> [])
     (TeslaError TeslaConfiguration (''Tesla OAuth '' @ name @ '' is required'') ''unspecified'' None None)"

definition check_oauth_config :: "oauth_config \<Rightarrow> exn + unit" where
  "check_oauth_config c =
     rbind (oauth_config_field ''client_id'' (oc_client_id c)) (\<lambda>_.
     rbind (oauth_config_field ''client_secret'' (oc_client_secret c)) (\<lambda>_.
     rbind (oauth_config_field ''redirect_uri'' (oc_redirect_uri c)) (\<lambda>_.
     oauth_config_field ''audience'' (oc_audience c))))"

definition authorization_url :: "oauth_config \<Rightarrow> string \<Rightarrow> string \<Rightarrow> string" where
  "authorization_url c state nonce = tesla_authorize_url @ ''?'' @ urlencode
     [(''response_type'', ''code''), (''client_id'', oc_client_id c), (''redirect_uri'', oc_redirect_uri c),
      (''scope'', join '' '' (oc_scopes c)), (''state'', state), (''nonce'', nonce),
      (''prompt_missing_scopes'', ''true''), (''require_requested_scopes'', ''true''), (''show_keypair_step'', ''true'')]"

subsection \<open>ID tokens\<close>

text \<open>
  \<open>decode token audience\<close> is the JWT library: the claims of a token whose signature, issuer, audience
  and required claims it accepted, or its exception.
\<close>

definition verify_tesla_id_token ::
  "(string \<Rightarrow> string \<Rightarrow> string + dict) \<Rightarrow> string \<Rightarrow> string \<Rightarrow> string \<Rightarrow> exn + string" where
  "verify_tesla_id_token decode token nonce audience =
     (case decode token audience of
        Inl e \<Rightarrow> Inl (tesla_authentication_error ''Tesla ID token verification failed'')
      | Inr claims \<Rightarrow>
          if dget claims ''nonce'' \<noteq> VStr nonce
          then Inl (tesla_authentication_error ''Tesla ID token nonce mismatch'')
          else (case dget claims ''sub'' of
              VStr s \<Rightarrow> if s = [] then Inl (tesla_authentication_error ''Tesla ID token subject is missing'') else Inr s
            | _ \<Rightarrow> Inl (tesla_authentication_error ''Tesla ID token subject is missing'')))"

text \<open>\<open>fetch_data\<close> of the key client: the document, or the connection error of the JWT library.\<close>

definition fetch_jwks :: "net_env \<Rightarrow> string \<Rightarrow> ('w net_scheme, exn, dict) oper" where
  "fetch_jwks env uri =
     obind (ocatch (direct_request env ''GET'' uri [] None None)
       (\<lambda>e. if is_transport_error e then oraise (LibraryError ''PyJWKClientConnectionError'')
            else case e of ValueError m \<Rightarrow> oraise (LibraryError ''PyJWKClientConnectionError'') | _ \<Rightarrow> oraise e)) (\<lambda>r.
     olift (if hr_status r < 200 \<or> hr_status r \<ge> 300 then Inl (LibraryError ''PyJWKClientConnectionError'')
       else case ne_json env (hr_body r) of
           None \<Rightarrow> Inl (LibraryError ''PyJWKClientConnectionError'')
         | Some v \<Rightarrow> (case v of VDict d \<Rightarrow> Inr d | _ \<Rightarrow> Inl (LibraryError ''PyJWKClientConnectionError''))))"

subsection \<open>Tokens\<close>

definition successful_token_document :: "net_env \<Rightarrow> http_response \<Rightarrow> exn + dict" where
  "successful_token_document env r =
     (case ne_json env (hr_body r) of
        None \<Rightarrow> Inl (tesla_authentication_error ''Tesla token endpoint returned invalid JSON'')
      | Some v \<Rightarrow> (case v of
          VDict d \<Rightarrow>
            if hr_status r = 401 \<and> dget d ''error'' = VStr ''login_required''
            then Inl (tesla_reauthorization_required ''Tesla authorization must be renewed'')
            else if hr_status r < 200 \<or> hr_status r \<ge> 300
            then Inl (tesla_authentication_error ''Tesla token exchange was rejected'')
            else Inr d
        | _ \<Rightarrow> Inl (tesla_authentication_error ''Tesla token endpoint returned an invalid document'')))"

definition token_text :: "dict \<Rightarrow> string \<Rightarrow> exn + string" where
  "token_text d k = (case dget d k of
       VStr s \<Rightarrow> if s = [] then Inl (tesla_authentication_error (''Tesla token response is missing '' @ k)) else Inr s
     | _ \<Rightarrow> Inl (tesla_authentication_error (''Tesla token response is missing '' @ k)))"

text \<open>\<open>timedelta\<close> rounds to microseconds, ties to even; out of range it raises an \<open>OverflowError\<close>.\<close>

definition round_half_even :: "rat \<Rightarrow> int" where
  "round_half_even q =
     (let f = \<lfloor>q\<rfloor>; d = q - of_int f
      in if d < 1 / 2 then f else if d > 1 / 2 then f + 1 else if even f then f else f + 1)"

definition later_by :: "int \<Rightarrow> rat \<Rightarrow> exn + int" where
  "later_by now seconds =
     (let t = now + round_half_even (seconds * 1000000)
      in if in_datetime_range t then Inr t else Inl (LibraryError ''OverflowError''))"

definition token_set_of :: "dict \<Rightarrow> string \<Rightarrow> string list \<Rightarrow> int \<Rightarrow> exn + token_set" where
  "token_set_of d subject fallback_scopes now =
     (let expires_in = dget d ''expires_in''
      in case (if is_bool expires_in then None else num_of expires_in) of
           None \<Rightarrow> Inl (tesla_authentication_error ''Tesla token response has invalid expiry'')
         | Some q \<Rightarrow>
             if q \<le> 0 then Inl (tesla_authentication_error ''Tesla token response has invalid expiry'')
             else rbind (token_text d ''access_token'') (\<lambda>access.
                  rbind (token_text d ''refresh_token'') (\<lambda>refresh.
                  rbind (later_by now q) (\<lambda>t.
                  Inr \<lparr>access_token = access, refresh_token = refresh, token_expires_at = t,
                    token_scopes = (case dget d ''scope'' of VStr s \<Rightarrow> if strip s = [] then fallback_scopes else split_ws s
                       | _ \<Rightarrow> fallback_scopes),
                    tesla_subject = subject\<rparr>))))"

definition oauth_exchange_code ::
  "net_env \<Rightarrow> (string \<Rightarrow> string \<Rightarrow> string + dict) \<Rightarrow> oauth_config \<Rightarrow> int \<Rightarrow> string \<Rightarrow> string \<Rightarrow>
   ('w net_scheme, exn, token_set) oper" where
  "oauth_exchange_code env decode c now code_text nonce =
     obind (direct_request env ''POST'' tesla_token_url []
       (Some [(''grant_type'', ''authorization_code''), (''client_id'', oc_client_id c),
         (''client_secret'', oc_client_secret c), (''code'', code_text), (''audience'', oc_audience c),
         (''redirect_uri'', oc_redirect_uri c)]) None) (\<lambda>r.
     olift (rbind (successful_token_document env r) (\<lambda>d.
       rbind (token_text d ''id_token'') (\<lambda>id_token.
       rbind (verify_tesla_id_token decode id_token nonce (oc_client_id c)) (\<lambda>subject.
       token_set_of d subject (oc_scopes c) now)))))"

definition oauth_refresh ::
  "net_env \<Rightarrow> oauth_config \<Rightarrow> int \<Rightarrow> string \<Rightarrow> string \<Rightarrow> ('w net_scheme, exn, token_set) oper" where
  "oauth_refresh env c now refresh subject =
     obind (direct_request env ''POST'' tesla_token_url []
       (Some [(''grant_type'', ''refresh_token''), (''client_id'', oc_client_id c), (''refresh_token'', refresh)]) None) (\<lambda>r.
     olift (rbind (successful_token_document env r) (\<lambda>d. token_set_of d subject (oc_scopes c) now)))"

end
