(* ===== verification/TelemetryConfig.thy ===== *)
theory TelemetryConfig
  imports TeslaModels
begin

text \<open>
  \<open>tesla_client/telemetry.py\<close> and the telemetry classes of \<open>requests.py\<close>: the field profile built
  from the reviewed baseline and the declared deviations, the trust profile of the receiver, the
  configuration sent to Tesla, the reading of the configuration Tesla answers, and their comparison.

  The parsers of the TOML and CSV resources, the certificate library and SHA-256 are arguments.  The
  messages of internal errors leave out the names that the code interpolates.
\<close>

subsection \<open>Fields and configurations\<close>

record tele_field =
  tf_interval :: int
  tf_delta :: val
  tf_resend :: "int option"
  tf_include :: "string list"

record tele_config =
  tc_hostname :: string
  tc_ca :: string
  tc_fields :: "(string \<times> tele_field) list"
  tc_port :: val
  tc_alert_types :: "string list"
  tc_exp :: "int option"
  tc_delivery :: "string option"

text \<open>\<open>to_payload\<close>; \<open>_compact\<close> leaves out what is \<open>None\<close> or an empty tuple.\<close>

definition field_payload :: "tele_field \<Rightarrow> dict" where
  "field_payload f = (''interval_seconds'', VInt (tf_interval f)) #
     (if tf_delta f = VNone then [] else [(''minimum_delta'', tf_delta f)]) @
     (case tf_resend f of None \<Rightarrow> [] | Some r \<Rightarrow> [(''resend_interval_seconds'', VInt r)]) @
     (if tf_include f = [] then [] else [(''include_fields'', VList (map VStr (tf_include f)))])"

definition fields_payload :: "(string \<times> tele_field) list \<Rightarrow> dict" where
  "fields_payload fs = map (\<lambda>(n, f). (n, VDict (field_payload f))) fs"

definition config_payload :: "tele_config \<Rightarrow> dict" where
  "config_payload c =
     [(''hostname'', VStr (tc_hostname c)), (''ca'', VStr (tc_ca c)), (''fields'', VDict (fields_payload (tc_fields c))),
      (''port'', tc_port c)] @
     (if tc_alert_types c = [] then [] else [(''alert_types'', VList (map VStr (tc_alert_types c)))]) @
     (case tc_exp c of None \<Rightarrow> [] | Some e \<Rightarrow> [(''exp'', VInt e)]) @
     (case tc_delivery c of None \<Rightarrow> [] | Some d \<Rightarrow> [(''delivery_policy'', VStr d)])"

definition config_request_payload :: "string list \<Rightarrow> tele_config \<Rightarrow> dict" where
  "config_request_payload vins c = [(''vins'', VList (map VStr vins)), (''config'', VDict (config_payload c))]"

subsection \<open>The libraries\<close>

text \<open>A certificate; \<open>ct_ca\<close> is its basic constraint, if it has one.\<close>

record certificate =
  ct_pem :: string
  ct_der :: string
  ct_ca :: "bool option"

record telemetry_lib =
  tl_certificates :: "string \<Rightarrow> exn + certificate list"
  tl_certificate :: "string \<Rightarrow> exn + certificate"
  tl_sha256 :: "string \<Rightarrow> string"
  tl_json :: "val \<Rightarrow> string"

text \<open>\<open>_sha256_json\<close>; \<open>tl_json\<close> renders a document whose keys are sorted.\<close>

fun sorted_keys :: "val \<Rightarrow> val" where
  "sorted_keys (VList xs) = VList (map sorted_keys xs)"
| "sorted_keys (VDict d) = VDict (sort_key fst (map (\<lambda>(k, v). (k, sorted_keys v)) d))"
| "sorted_keys v = v"

definition sha256_json :: "telemetry_lib \<Rightarrow> val \<Rightarrow> string" where
  "sha256_json lib v = tl_sha256 lib (tl_json lib (sorted_keys v))"

definition encode_ascii :: "string \<Rightarrow> exn + string" where
  "encode_ascii s = (if list_all (\<lambda>c. of_char c < (128 :: nat)) s then Inr s else Inl (ValueError ''ascii''))"

subsection \<open>The trust profile of the receiver\<close>

record trust_profile =
  tp_profile_id :: string
  tp_hostname :: string
  tp_port :: int
  tp_ca_pem :: string
  tp_ca_hash :: string

definition valid_profile_id :: "string \<Rightarrow> bool" where
  "valid_profile_id s = (case s of
       [] \<Rightarrow> False
     | c # cs \<Rightarrow> (is_decimal c \<or> CHR ''a'' \<le> c \<and> c \<le> CHR ''z'') \<and> length cs \<le> 63 \<and>
         list_all (\<lambda>x. is_decimal x \<or> (CHR ''a'' \<le> x \<and> x \<le> CHR ''z'') \<or> x \<in> set ''._-'') cs)"

definition ca_digest :: "telemetry_lib \<Rightarrow> certificate list \<Rightarrow> string" where
  "ca_digest lib cs = tl_sha256 lib (concat (sort (map ct_der cs)))"

definition trust_from_pem :: "telemetry_lib \<Rightarrow> string \<Rightarrow> string \<Rightarrow> int \<Rightarrow> string \<Rightarrow> exn + trust_profile" where
  "trust_from_pem lib profile_id hostname port ca_pem =
     (if \<not> valid_profile_id profile_id then Inl (ValueError ''Telemetry trust profile ID is invalid'')
      else if hostname = [] \<or> contains ''://'' hostname \<or> CHR ''/'' \<in> set hostname
      then Inl (ValueError ''Telemetry hostname must be a bare hostname'')
      else if port \<noteq> 443 then Inl (ValueError ''Fleet Telemetry transport must use port 443'')
      else rbind (rbind (encode_ascii ca_pem) (tl_certificates lib)) (\<lambda>cs.
        if cs = [] then Inl (ValueError ''Telemetry trust profile must contain at least one certificate'')
        else if \<not> list_all (\<lambda>c. ct_ca c = Some True) cs
        then Inl (ValueError ''Telemetry trust profile contains a non-CA certificate'')
        else Inr \<lparr>tp_profile_id = profile_id, tp_hostname = lower hostname, tp_port = port,
               tp_ca_pem = concat (map ct_pem cs), tp_ca_hash = ca_digest lib cs\<rparr>))"

text \<open>\<open>_PEM_CERTIFICATE.findall\<close>: from a begin marker and a space to the first end marker.\<close>

fun upto_marker :: "string \<Rightarrow> string \<Rightarrow> (string \<times> string) option" where
  "upto_marker m [] = None"
| "upto_marker m (c # cs) =
     (if starts_with m (c # cs) then Some (m, drop (length m) (c # cs))
      else map_option (\<lambda>(a, b). (c # a, b)) (upto_marker m cs))"

definition pem_begin :: string where "pem_begin = ''-----BEGIN CERTIFICATE-----''"

definition pem_end :: string where "pem_end = ''-----END CERTIFICATE-----''"

definition ascii_space :: "char \<Rightarrow> bool" where
  "ascii_space c = (c \<in> {CHR '' '', CHR 0x09, CHR 0x0A, CHR 0x0B, CHR 0x0C, CHR 0x0D})"

text \<open>The block at the start of the text, with what follows it.\<close>

definition pem_block_at :: "string \<Rightarrow> (string \<times> string) option" where
  "pem_block_at s =
     (if starts_with pem_begin s
      then (case drop (length pem_begin) s of
          [] \<Rightarrow> None
        | c # rest \<Rightarrow> if ascii_space c then map_option (\<lambda>(a, b). (pem_begin @ c # a, b)) (upto_marker pem_end rest) else None)
      else None)"

lemma upto_marker_shorter: "upto_marker m s = Some (a, b) \<Longrightarrow> length b \<le> length s"
  by (induction s arbitrary: a b) (auto split: if_splits)

lemma pem_block_shorter:
  assumes "pem_block_at s = Some (a, b)"
  shows "length b < length s"
proof -
  from assms obtain c rest x where "drop (length pem_begin) s = c # rest" "upto_marker pem_end rest = Some (x, b)"
    by (auto simp: pem_block_at_def split: if_splits list.splits)
  moreover from this(1) have "length rest < length s"
    by (metis Suc_le_lessD diff_le_self length_Cons length_drop)
  ultimately show ?thesis using upto_marker_shorter by fastforce
qed

function pem_blocks :: "string \<Rightarrow> string list" where
  "pem_blocks [] = []"
| "pem_blocks (c # cs) = (case pem_block_at (c # cs) of
       Some (block, rest) \<Rightarrow> block # pem_blocks rest
     | None \<Rightarrow> pem_blocks cs)"
  by pat_completeness auto

termination
  by (relation "measure length") (auto dest: pem_block_shorter)

definition ca_profile_from_served_chain ::
  "telemetry_lib \<Rightarrow> string \<Rightarrow> string \<Rightarrow> int \<Rightarrow> string \<Rightarrow> exn + trust_profile" where
  "ca_profile_from_served_chain lib profile_id hostname port chain =
     rbind (encode_ascii chain) (\<lambda>text.
     rbind (rmap (tl_certificate lib) (pem_blocks text)) (\<lambda>cs.
     if length cs < 2 then Inl (ValueError ''Served telemetry certificate chain has no issuing CA'')
     else trust_from_pem lib profile_id hostname port (concat (map ct_pem (tl cs)))))"

subsection \<open>Versions\<close>

text \<open>\<open>_SEMVER\<close>: two or three groups of digits.\<close>

definition digits_at :: "string \<Rightarrow> (int \<times> string) option" where
  "digits_at s = (let d = takeWhile is_decimal s in if d = [] then None else Some (digits_val 0 d, dropWhile is_decimal s))"

definition semver :: "string \<Rightarrow> (int \<times> int \<times> int) option" where
  "semver s = (case digits_at s of
       Some (major, CHR ''.'' # r1) \<Rightarrow> (case digits_at r1 of
           Some (minor, r2) \<Rightarrow> (case r2 of
               CHR ''.'' # r3 \<Rightarrow> (case digits_at r3 of
                   Some (patch, r4) \<Rightarrow> Some (major, minor, patch) | None \<Rightarrow> Some (major, minor, 0))
             | _ \<Rightarrow> Some (major, minor, 0))
         | None \<Rightarrow> None)
     | _ \<Rightarrow> None)"

definition version_at_least :: "string option \<Rightarrow> int \<times> int \<times> int \<Rightarrow> bool" where
  "version_at_least v minimum = (case v of
       None \<Rightarrow> False
     | Some s \<Rightarrow> (case semver (remove_prefix ''v'' (strip s)) of
           None \<Rightarrow> False
         | Some (a, b, c) \<Rightarrow> (case minimum of (x, y, z) \<Rightarrow> x < a \<or> (x = a \<and> (y < b \<or> (y = b \<and> z \<le> c))))))"

definition supports_broad_profile :: "string option \<Rightarrow> bool" where
  "supports_broad_profile v = version_at_least v (1, 0, 0)"

subsection \<open>The field profile\<close>

record field_definition =
  fd_name :: string
  fd_category :: string
  fd_value_type :: string
  fd_description :: string

definition csv_text :: "dict \<Rightarrow> string \<Rightarrow> exn + string" where
  "csv_text row k = (case map_of row k of
       None \<Rightarrow> Inl (KeyError k) | Some v \<Rightarrow> (case v of VStr s \<Rightarrow> Inr (strip s) | _ \<Rightarrow> Inl AttributeError))"

definition load_field_catalog :: "dict list \<Rightarrow> exn + field_definition list" where
  "load_field_catalog rows =
     rbind (rmap (\<lambda>row.
       rbind (csv_text row ''Field'') (\<lambda>n. rbind (csv_text row ''Category'') (\<lambda>c.
       rbind (csv_text row ''Type'') (\<lambda>t. rbind (csv_text row ''Description'') (\<lambda>d.
       Inr \<lparr>fd_name = n, fd_category = c, fd_value_type = t, fd_description = d\<rparr>))))) rows) (\<lambda>ds.
     if length ds \<noteq> 239 \<or> length (remdups (map fd_name ds)) \<noteq> 239
     then Inl (RuntimeError ''Pinned Fleet Telemetry field catalog is incomplete'') else Inr ds)"

definition self_driving_fields :: "string list" where
  "self_driving_fields = [''MilesSinceReset'', ''SelfDrivingMilesSinceReset'']"

definition require_table :: "dict \<Rightarrow> string \<Rightarrow> exn + dict" where
  "require_table d k = (case dget d k of VDict t \<Rightarrow> Inr t
     | _ \<Rightarrow> Inl (RuntimeError ''Telemetry profile section is missing or invalid''))"

definition require_string :: "dict \<Rightarrow> string \<Rightarrow> exn + string" where
  "require_string d k = (case dget d k of
       VStr s \<Rightarrow> if strip s = [] then Inl (RuntimeError ''Telemetry profile value must be a non-empty string'') else Inr s
     | _ \<Rightarrow> Inl (RuntimeError ''Telemetry profile value must be a non-empty string''))"

definition alert_names :: "string list" where
  "alert_names = [''service'', ''customer'', ''service-fix'']"

definition known_alert :: "val \<Rightarrow> bool" where
  "known_alert v = (case v of VStr s \<Rightarrow> s \<in> set alert_names | _ \<Rightarrow> False)"

definition require_alert_types :: "dict \<Rightarrow> exn + string list" where
  "require_alert_types d = (case dget d ''alert_types'' of
       VList xs \<Rightarrow> if xs = [] \<or> \<not> list_all known_alert xs
         then Inl (RuntimeError ''Telemetry profile alert_types are invalid'') else Inr (map the_str xs)
     | _ \<Rightarrow> Inl (RuntimeError ''Telemetry profile alert_types are invalid''))"

definition bad_delta :: "val \<Rightarrow> bool" where
  "bad_delta v = (v \<noteq> VNone \<and> (is_bool v \<or> (case num_of v of None \<Rightarrow> True | Some q \<Rightarrow> q \<le> 0)))"

text \<open>One entry of \<open>_load_field_section\<close>; its value is the field and its rationale.\<close>

definition bad_include :: "string list \<Rightarrow> string \<Rightarrow> string list \<Rightarrow> bool" where
  "bad_include names name include =
     (\<not> list_all (\<lambda>i. i \<in> set names) include \<or> name \<in> set include)"

definition self_driving_mixed :: "string \<Rightarrow> string list \<Rightarrow> bool" where
  "self_driving_mixed name include = list_ex (\<lambda>i.
     (name \<in> set self_driving_fields \<or> i \<in> set self_driving_fields) \<and> {name, i} \<noteq> set self_driving_fields) include"

definition load_field ::
  "field_definition list \<Rightarrow> bool \<Rightarrow> string \<Rightarrow> val \<Rightarrow> exn + tele_field \<times> string" where
  "load_field catalog require_rationale name raw =
     (case map_of (map (\<lambda>d. (fd_name d, d)) catalog) name of
        None \<Rightarrow> Inl (RuntimeError ''Telemetry profile field is not in the pinned catalog'')
      | Some definition_of \<Rightarrow> (case raw of
          VDict spec \<Rightarrow>
            if \<not> set (keys spec) \<subseteq> set ([''include_fields'', ''interval_seconds'', ''minimum_delta''] @
                (if require_rationale then [''rationale''] else []))
            then Inl (RuntimeError ''Telemetry profile field has unknown keys'')
            else (case dget spec ''interval_seconds'' of
              VInt interval \<Rightarrow>
                if interval \<le> 0 then Inl (RuntimeError ''Telemetry profile field has an invalid interval'')
                else if bad_delta (dget spec ''minimum_delta'')
                then Inl (RuntimeError ''Telemetry profile field has an invalid delta'')
                else if dget spec ''minimum_delta'' \<noteq> VNone
                  \<and> fd_value_type definition_of \<notin> {''integer'', ''real'', ''Location''}
                then Inl (RuntimeError ''Telemetry profile field cannot use minimum_delta'')
                else (case dget_default spec ''include_fields'' (VList []) of
                  VList xs \<Rightarrow>
                    if \<not> list_all is_str xs \<or> \<not> distinct xs
                    then Inl (RuntimeError ''Telemetry profile field has invalid include_fields'')
                    else if bad_include (map fd_name catalog) name (map the_str xs)
                    then Inl (RuntimeError ''Telemetry profile field includes invalid fields'')
                    else if self_driving_mixed name (map the_str xs)
                    then Inl (RuntimeError ''Tesla permits self-driving statistic fields to include only each other'')
                    else rbind (if require_rationale then require_string spec ''rationale'' else Inr []) (\<lambda>rationale.
                      Inr (\<lparr>tf_interval = interval, tf_delta = dget spec ''minimum_delta'', tf_resend = None,
                            tf_include = map the_str xs\<rparr>, rationale))
                | _ \<Rightarrow> Inl (RuntimeError ''Telemetry profile field has invalid include_fields''))
            | _ \<Rightarrow> Inl (RuntimeError ''Telemetry profile field has an invalid interval''))
        | _ \<Rightarrow> Inl (RuntimeError ''Telemetry profile field must be a TOML inline table'')))"

definition load_field_section ::
  "dict \<Rightarrow> string \<Rightarrow> field_definition list \<Rightarrow> bool \<Rightarrow> exn + (string \<times> tele_field \<times> string) list" where
  "load_field_section document section_name catalog require_rationale =
     rbind (require_table document section_name) (\<lambda>values.
     rmap (\<lambda>(name, raw). rbind (load_field catalog require_rationale name raw) (\<lambda>r. Inr (name, r))) values)"

definition load_reason_section :: "dict \<Rightarrow> string \<Rightarrow> field_definition list \<Rightarrow> exn + (string \<times> string) list" where
  "load_reason_section document section_name catalog =
     rbind (require_table document section_name) (\<lambda>values.
     rmap (\<lambda>(name, reason).
       if name \<notin> set (map fd_name catalog) then Inl (RuntimeError ''Telemetry profile field is not in the pinned catalog'')
       else (case reason of
           VStr s \<Rightarrow> if strip s = [] then Inl (RuntimeError ''Telemetry profile field requires a rationale'') else Inr (name, s)
         | _ \<Rightarrow> Inl (RuntimeError ''Telemetry profile field requires a rationale''))) values)"

definition validate_partition ::
  "string list \<Rightarrow> string list \<Rightarrow> string list \<Rightarrow> string list \<Rightarrow> string list \<Rightarrow> string list \<Rightarrow> exn + unit" where
  "validate_partition catalog baseline overrides additions removals omissions =
     (if length (remdups baseline) \<noteq> 93
      then Inl (RuntimeError ''Pinned Tessie telemetry baseline must contain exactly 93 fields'')
      else if \<not> set overrides \<subseteq> set baseline
      then Inl (RuntimeError ''Woodhouse overrides must name Tessie baseline fields'')
      else if \<not> set removals \<subseteq> set baseline
      then Inl (RuntimeError ''Woodhouse removals must name Tessie baseline fields'')
      else if set overrides \<inter> set removals \<noteq> {}
      then Inl (RuntimeError ''A Tessie field cannot be both overridden and removed'')
      else if set additions \<inter> set baseline \<noteq> {}
      then Inl (RuntimeError ''Woodhouse additions must not already be in the Tessie baseline'')
      else if set omissions \<inter> set baseline \<noteq> {}
      then Inl (RuntimeError ''Catalog omissions must not name Tessie baseline fields'')
      else if set additions \<inter> set omissions \<noteq> {}
      then Inl (RuntimeError ''A non-baseline field cannot be both added and omitted'')
      else if set additions \<union> set omissions \<noteq> set catalog - set baseline
      then Inl (RuntimeError ''Every non-baseline catalog field requires a decision'')
      else Inr ())"

record telemetry_profile =
  fp_version :: string
  fp_schema_version :: string
  fp_baseline_name :: string
  fp_fields :: "(string \<times> tele_field) list"
  fp_excluded :: "(string \<times> string) list"
  fp_capability_omissions :: "(string \<times> string) list"
  fp_comparison :: dict
  fp_alert_types :: "string list"
  fp_delivery :: string

text \<open>The document of a configured field; a name that is not configured gives \<open>None\<close>.\<close>

definition field_document :: "(string \<times> tele_field) list \<Rightarrow> string \<Rightarrow> val" where
  "field_document fs name = (case map_of fs name of None \<Rightarrow> VNone | Some f \<Rightarrow> VDict (field_payload f))"

definition sorted_items :: "(string \<times> 'a) list \<Rightarrow> (string \<times> 'a) list" where
  "sorted_items xs = sort_key fst xs"

definition baseline_comparison_of ::
  "string \<Rightarrow> (string \<times> tele_field) list \<Rightarrow> (string \<times> tele_field) list \<Rightarrow> (string \<times> tele_field \<times> string) list \<Rightarrow>
   (string \<times> tele_field \<times> string) list \<Rightarrow> (string \<times> string) list \<Rightarrow> (string \<times> string) list \<Rightarrow> (string \<times> string) list \<Rightarrow> dict" where
  "baseline_comparison_of name baseline configured overrides additions removals omissions capability =
     [(''baseline'', VStr name), (''baseline_field_count'', VInt (int (length baseline))),
      (''woodhouse_field_count'', VInt (int (length configured))),
      (''overrides'', VDict (map (\<lambda>(n, f, reason). (n, VDict [(''baseline'', field_document baseline n),
         (''woodhouse'', field_document configured n), (''rationale'', VStr reason)])) (sorted_items overrides))),
      (''additions'', VDict (map (\<lambda>(n, f, reason). (n, VDict [(''woodhouse'', field_document configured n),
         (''rationale'', VStr reason)])) (sorted_items additions))),
      (''removals'', VDict (map (\<lambda>(n, reason). (n, VDict [(''baseline'', field_document baseline n),
         (''rationale'', VStr reason)])) (sorted_items removals))),
      (''catalog_omissions'', VDict (map (\<lambda>(n, s). (n, VStr s)) (sorted_items omissions))),
      (''capability_omissions'', VDict (map (\<lambda>(n, s). (n, VStr s)) (sorted_items capability)))]"

text \<open>What an older client cannot have: the fields to drop, and those that lose their included fields.\<close>

definition dropped_fields :: "string option \<Rightarrow> (string \<times> tele_field) list \<Rightarrow> string list" where
  "dropped_fields client configured =
     (if version_at_least client (1, 2, 0) then [] else filter (\<lambda>n. n \<in> set (keys configured)) self_driving_fields)"

definition limited_fields :: "string option \<Rightarrow> (string \<times> tele_field) list \<Rightarrow> string list" where
  "limited_fields client configured =
     (if version_at_least client (1, 3, 0) then [] else map fst (filter (\<lambda>(n, f). tf_include f \<noteq> []) configured))"

definition dropped_reason :: string where
  "dropped_reason = ''Requires Fleet Telemetry client 1.2.0 and supported HW4 firmware.''"

definition limited_reason :: string where
  "limited_reason = ''Synchronized included fields require Fleet Telemetry client 1.3.0. The included field remains independently configured.''"

definition capable_fields :: "string option \<Rightarrow> (string \<times> tele_field) list \<Rightarrow> (string \<times> tele_field) list" where
  "capable_fields client configured =
     (let kept = filter (\<lambda>(n, f). n \<notin> set (dropped_fields client configured)) configured
      in map (\<lambda>(n, f). (n, if n \<in> set (limited_fields client kept) then f\<lparr>tf_include := []\<rparr> else f)) kept)"

definition capability_omissions_of :: "string option \<Rightarrow> (string \<times> tele_field) list \<Rightarrow> (string \<times> string) list" where
  "capability_omissions_of client configured =
     (let kept = filter (\<lambda>(n, f). n \<notin> set (dropped_fields client configured)) configured
      in map (\<lambda>n. (n, dropped_reason)) (dropped_fields client configured) @
         map (\<lambda>n. (n @ ''.include_fields'', limited_reason)) (limited_fields client kept))"

definition configured_fields ::
  "(string \<times> tele_field) list \<Rightarrow> (string \<times> tele_field \<times> string) list \<Rightarrow> (string \<times> tele_field \<times> string) list \<Rightarrow>
   (string \<times> string) list \<Rightarrow> (string \<times> tele_field) list" where
  "configured_fields baseline overrides additions removals =
     dict_merge (dict_merge (filter (\<lambda>(n, f). n \<notin> set (keys removals)) baseline)
       (map (\<lambda>(n, f, reason). (n, f)) overrides)) (map (\<lambda>(n, f, reason). (n, f)) additions)"

text \<open>\<open>broad_profile\<close>; the two documents and the catalog are the resources as the parsers read them.\<close>

definition broad_profile :: "dict list \<Rightarrow> dict \<Rightarrow> dict \<Rightarrow> string option \<Rightarrow> exn + telemetry_profile" where
  "broad_profile rows baseline_document profile_document client =
     rbind (load_field_catalog rows) (\<lambda>catalog.
     rbind (require_table baseline_document ''baseline'') (\<lambda>baseline_meta.
     rbind (require_table profile_document ''profile'') (\<lambda>profile_meta.
     rbind (require_string baseline_meta ''name'') (\<lambda>baseline_name.
     rbind (require_string profile_meta ''baseline'') (\<lambda>named.
     rbind (require (named = baseline_name) (RuntimeError ''Woodhouse profile names a different Tessie baseline'')) (\<lambda>_.
     rbind (require_string profile_meta ''delivery_policy'') (\<lambda>delivery.
     rbind (require_string baseline_meta ''delivery_policy'') (\<lambda>baseline_delivery.
     rbind (if delivery \<noteq> baseline_delivery then Inl (RuntimeError ''Transport policy changes require an explicit implementation decision'')
       else rbind (require_alert_types profile_meta) (\<lambda>alerts. rbind (require_alert_types baseline_meta) (\<lambda>baseline_alerts.
         if alerts \<noteq> baseline_alerts then Inl (RuntimeError ''Transport policy changes require an explicit implementation decision'')
         else Inr alerts))) (\<lambda>alerts.
     rbind (load_field_section baseline_document ''fields'' catalog False) (\<lambda>baseline_raw.
     rbind (load_field_section profile_document ''overrides'' catalog True) (\<lambda>overrides.
     rbind (load_field_section profile_document ''additions'' catalog True) (\<lambda>additions.
     rbind (load_reason_section profile_document ''removals'' catalog) (\<lambda>removals.
     rbind (load_reason_section profile_document ''omissions'' catalog) (\<lambda>omissions.
     let baseline = map (\<lambda>(n, f, reason). (n, f)) baseline_raw
     in rbind (validate_partition (map fd_name catalog) (keys baseline) (keys overrides) (keys additions) (keys removals)
            (keys omissions)) (\<lambda>_.
        rbind (require_string profile_meta ''version'') (\<lambda>version.
        rbind (require_string profile_meta ''schema_version'') (\<lambda>schema_version.
        let configured = configured_fields baseline overrides additions removals;
            fields = capable_fields client configured;
            capability = capability_omissions_of client configured
        in Inr \<lparr>fp_version = version, fp_schema_version = schema_version, fp_baseline_name = baseline_name,
             fp_fields = fields, fp_excluded = dict_merge omissions removals, fp_capability_omissions = capability,
             fp_comparison = baseline_comparison_of baseline_name baseline fields overrides additions removals omissions capability,
             fp_alert_types = alerts, fp_delivery = delivery\<rparr>)))))))))))))))))"

definition field_config_hash :: "telemetry_lib \<Rightarrow> telemetry_profile \<Rightarrow> string" where
  "field_config_hash lib p = sha256_json lib (VDict
     [(''alert_types'', VList (map VStr (fp_alert_types p))), (''delivery_policy'', VStr (fp_delivery p)),
      (''fields'', VDict (sorted_items (fields_payload (fp_fields p)))), (''baseline'', VStr (fp_baseline_name p)),
      (''schema_version'', VStr (fp_schema_version p)), (''version'', VStr (fp_version p))])"

definition build_config :: "trust_profile \<Rightarrow> telemetry_profile \<Rightarrow> tele_config" where
  "build_config t p =
     \<lparr>tc_hostname = tp_hostname t, tc_ca = tp_ca_pem t, tc_fields = fp_fields p, tc_port = VInt (tp_port t),
      tc_alert_types = fp_alert_types p, tc_exp = None, tc_delivery = Some (fp_delivery p)\<rparr>"

definition telemetry_config_hash :: "telemetry_lib \<Rightarrow> telemetry_profile \<Rightarrow> trust_profile \<Rightarrow> string" where
  "telemetry_config_hash lib p t = sha256_json lib (VDict
     [(''field_config_hash'', VStr (field_config_hash lib p)), (''hostname'', VStr (tp_hostname t)), (''port'', VInt (tp_port t)),
      (''trust_profile_hash'', VStr (tp_ca_hash t)), (''trust_profile_id'', VStr (tp_profile_id t))])"

subsection \<open>Comparing with the configuration of a vehicle\<close>

definition safe_config_document :: "telemetry_lib \<Rightarrow> tele_config \<Rightarrow> string option \<Rightarrow> exn + dict" where
  "safe_config_document lib c profile_id =
     rbind (rbind (encode_ascii (tc_ca c)) (tl_certificates lib)) (\<lambda>cs.
     if cs = [] then Inl (ValueError ''Telemetry configuration CA is empty'')
     else Inr [(''hostname'', VStr (tc_hostname c)), (''port'', tc_port c),
       (''ca'', VDict [(''profile_id'', opt_str profile_id), (''sha256'', VStr (ca_digest lib cs)),
          (''certificate_count'', VInt (int (length cs))), (''contains_non_ca'', VBool (list_ex (\<lambda>x. ct_ca x \<noteq> Some True) cs))]),
       (''fields'', VDict (sorted_items (fields_payload (tc_fields c)))),
       (''alert_types'', VList (map VStr (sort (tc_alert_types c)))), (''delivery_policy'', opt_str (tc_delivery c))])"

definition parse_field :: "val \<Rightarrow> exn + tele_field" where
  "parse_field raw = (case raw of
       VDict v \<Rightarrow> (case dget v ''interval_seconds'' of
           VInt interval \<Rightarrow>
             if dget v ''minimum_delta'' \<noteq> VNone \<and> (\<not> is_number (dget v ''minimum_delta'') \<or> is_bool (dget v ''minimum_delta''))
             then Inl (ValueError ''Tesla telemetry response delta is invalid'')
             else if dget v ''resend_interval_seconds'' \<noteq> VNone
               \<and> (\<not> is_int (dget v ''resend_interval_seconds'') \<or> is_bool (dget v ''resend_interval_seconds''))
             then Inl (ValueError ''Tesla telemetry response resend interval is invalid'')
             else (case dget_default v ''include_fields'' (VList []) of
                 VList xs \<Rightarrow> if list_all is_str xs
                   then Inr \<lparr>tf_interval = interval, tf_delta = dget v ''minimum_delta'',
                     tf_resend = field_int v ''resend_interval_seconds'', tf_include = map the_str xs\<rparr>
                   else Inl (ValueError ''Tesla telemetry response include_fields is invalid'')
               | _ \<Rightarrow> Inl (ValueError ''Tesla telemetry response include_fields is invalid''))
         | _ \<Rightarrow> Inl (ValueError ''Tesla telemetry response interval is invalid''))
     | _ \<Rightarrow> Inl (ValueError ''Tesla telemetry response field is invalid''))"

definition incomplete_config :: exn where
  "incomplete_config = ValueError ''Tesla telemetry response config is incomplete''"

definition parse_tesla_config :: "dict \<Rightarrow> exn + tele_config option" where
  "parse_tesla_config document = (case dget document ''config'' of
       VNone \<Rightarrow> Inr None
     | VDict raw \<Rightarrow>
         (case (dget raw ''hostname'', dget raw ''ca'', dget raw ''fields'', dget_default raw ''alert_types'' (VList [])) of
            (VStr hostname, VStr ca, VDict fs, VList alerts) \<Rightarrow>
              if \<not> is_int (dget_default raw ''port'' (VInt 443)) then Inl incomplete_config
              else rbind (rmap (\<lambda>(n, v). rbind (parse_field v) (\<lambda>f. Inr (n, f))) fs) (\<lambda>parsed.
                if \<not> list_all known_alert alerts then Inl (ValueError ''Tesla telemetry response alert_types is invalid'')
                else if dget raw ''delivery_policy'' \<noteq> VNone \<and> \<not> is_str (dget raw ''delivery_policy'')
                then Inl (ValueError ''Tesla telemetry response delivery policy is invalid'')
                else Inr (Some \<lparr>tc_hostname = hostname, tc_ca = ca, tc_fields = parsed,
                  tc_port = dget_default raw ''port'' (VInt 443), tc_alert_types = map the_str alerts, tc_exp = None,
                  tc_delivery = field_str raw ''delivery_policy''\<rparr>))
          | _ \<Rightarrow> Inl incomplete_config)
     | _ \<Rightarrow> Inl (ValueError ''Tesla telemetry response config is invalid''))"

text \<open>The changed transport keys; the certificates are compared without the identifier of the profile.\<close>

definition transport_value :: "string \<Rightarrow> dict \<Rightarrow> val" where
  "transport_value k d = (case (k = ''ca'', dget d k) of
       (True, VDict ca) \<Rightarrow> VDict (filter (\<lambda>(n, v). n \<noteq> ''profile_id'') ca)
     | (_, v) \<Rightarrow> v)"

definition transport_changes :: "dict \<Rightarrow> dict \<Rightarrow> dict" where
  "transport_changes current desired =
     map (\<lambda>k. (k, VDict [(''current'', dget current k), (''desired'', dget desired k)]))
       (filter (\<lambda>k. \<not> py_eq (transport_value k current) (transport_value k desired))
          [''hostname'', ''port'', ''ca'', ''alert_types'', ''delivery_policy''])"

definition field_changes :: "dict \<Rightarrow> dict \<Rightarrow> dict" where
  "field_changes current desired =
     (let added = map (\<lambda>k. (k, dget desired k)) (sort (filter (\<lambda>k. k \<notin> set (keys current)) (keys desired)));
          removed = map (\<lambda>k. (k, dget current k)) (sort (filter (\<lambda>k. k \<notin> set (keys desired)) (keys current)));
          changed = map (\<lambda>k. (k, VDict [(''current'', dget current k), (''desired'', dget desired k)]))
            (filter (\<lambda>k. \<not> py_eq (dget current k) (dget desired k))
               (sort (filter (\<lambda>k. k \<in> set (keys desired)) (keys current))))
      in if added = [] \<and> removed = [] \<and> changed = [] then []
         else [(''fields'', VDict [(''added'', VDict added), (''removed'', VDict removed), (''changed'', VDict changed)])])"

definition config_diff :: "telemetry_lib \<Rightarrow> tele_config option \<Rightarrow> tele_config \<Rightarrow> string \<Rightarrow> exn + dict" where
  "config_diff lib current desired profile_id =
     rbind (safe_config_document lib desired (Some profile_id)) (\<lambda>desired_safe.
     case current of
       None \<Rightarrow> Inr [(''status'', VStr ''absent''), (''desired'', VDict desired_safe)]
     | Some c \<Rightarrow> rbind (safe_config_document lib c None) (\<lambda>current_safe.
         let changes = transport_changes current_safe desired_safe @
               field_changes (the_dict (dget current_safe ''fields'')) (the_dict (dget desired_safe ''fields''))
         in Inr [(''status'', VStr (if changes = [] then ''in_sync'' else ''drifted'')), (''changes'', VDict changes)]))"

end
