(* ===== verification/McpPolicy.thy ===== *)
theory McpPolicy
  imports TeslaRequests
begin

text \<open>
  \<open>mcp_gateway/mcp_policy.py\<close>: the private policy of every operation behind the MCP tools and the
  validation of its arguments.  The type validation of the request classes is Pydantic's; it is the
  argument \<open>typed\<close> (class name and values, whether they validate).  Descriptions are left out.
\<close>

subsection \<open>Specifications\<close>

datatype risk = ReadOnly | NormalRisk | SecuritySensitive

record tool_spec =
  ts_matrix_name :: string
  ts_name :: string
  ts_client_method :: string
  ts_required_scope :: string
  ts_vehicle_scoped :: bool
  ts_write :: bool
  ts_risk :: risk
  ts_wake_behavior :: string
  ts_retry_policy :: string
  ts_request_type :: "string option"
  ts_extra_schema :: "dict option"

definition vehicle_reads :: "(string \<times> string \<times> string \<times> dict option) list" where
  "vehicle_reads = [
    (''drivers'', ''drivers'', ''never'', None),
    (''fleet_status'', ''fleet_status'', ''never'', None),
    (''fleet_telemetry_config get'', ''fleet_telemetry_config_get'', ''never'', None),
    (''fleet_telemetry_errors'', ''fleet_telemetry_errors'', ''never'', None),
    (''mobile_enabled'', ''mobile_enabled'', ''requires_awake'', None),
    (''nearby_charging_sites'', ''nearby_charging_sites'', ''requires_awake'', Some [(''properties'', VDict [(''count'', VDict [(''type'', VStr ''integer''), (''minimum'', VInt 1)]), (''radius'', VDict [(''type'', VStr ''number''), (''minimum'', VInt 0)]), (''detail'', VDict [(''type'', VStr ''boolean'')])])]),
    (''recent_alerts'', ''recent_alerts'', ''requires_awake'', None),
    (''release_notes'', ''release_notes'', ''requires_awake'', Some [(''properties'', VDict [(''staged'', VDict [(''type'', VStr ''boolean'')]), (''language'', VDict [(''type'', VStr ''string'')])])]),
    (''service_data'', ''service_data'', ''requires_awake'', None),
    (''vehicle'', ''vehicle'', ''never'', None),
    (''vehicle_data'', ''vehicle_data'', ''requires_awake'', Some [(''properties'', VDict [(''endpoints'', VDict [(''type'', VStr ''array''), (''items'', VDict [(''type'', VStr ''string'')]), (''minItems'', VInt 1), (''uniqueItems'', VBool True)])]), (''required'', VList [VStr ''endpoints''])])]"

definition account_reads :: "(string \<times> string) list" where
  "account_reads = [(''feature_config'', ''feature_config''), (''me'', ''me''), (''orders'', ''orders'')]"

definition command_request_types :: "(string \<times> string) list" where
  "command_request_types = [
    (''actuate_trunk'', ''ActuateTrunkRequest''), (''add_charge_schedule'', ''ChargeScheduleRequest''),
    (''add_precondition_schedule'', ''PreconditionScheduleRequest''),
    (''adjust_volume'', ''AdjustVolumeRequest''), (''guest_mode'', ''EnableRequest''),
    (''navigation_gps_request'', ''NavigationGPSRequest''),
    (''navigation_request'', ''NavigationRequest''),
    (''navigation_sc_request'', ''NavigationSuperchargerRequest''),
    (''navigation_waypoints_request'', ''NavigationWaypointRequest''),
    (''parental_controls_activate'', ''PinRequest''),
    (''parental_controls_deactivate'', ''PinRequest''),
    (''parental_controls_enable_setting'', ''ParentalSettingRequest''),
    (''parental_controls_set_speed_limit'', ''SpeedLimitRequest''),
    (''remote_auto_seat_climate_request'', ''AutoSeatClimateRequest''),
    (''remote_auto_steering_wheel_heat_climate_request'', ''BoolRequest''),
    (''remote_boombox'', ''SoundRequest''), (''remote_seat_cooler_request'', ''SeatCoolerRequest''),
    (''remote_seat_heater_request'', ''SeatHeaterRequest''),
    (''remote_steering_wheel_heat_level_request'', ''LevelRequest''),
    (''remote_steering_wheel_heater_request'', ''BoolRequest''),
    (''remove_charge_schedule'', ''ScheduleIDRequest''),
    (''remove_precondition_schedule'', ''ScheduleIDRequest''),
    (''schedule_software_update'', ''SoftwareUpdateRequest''),
    (''set_bioweapon_mode'', ''OnWithOverrideRequest''),
    (''set_cabin_overheat_protection'', ''CabinOverheatRequest''),
    (''set_charge_limit'', ''ChargeLimitRequest''), (''set_charging_amps'', ''ChargingAmpsRequest''),
    (''set_climate_keeper_mode'', ''ClimateKeeperRequest''),
    (''set_cop_temp'', ''CabinOverheatTemperatureRequest''), (''set_pin_to_drive'', ''SetPinRequest''),
    (''set_preconditioning_max'', ''OnWithOverrideRequest''), (''set_sentry_mode'', ''BoolRequest''),
    (''set_temps'', ''TemperatureRequest''), (''set_valet_mode'', ''SetPinRequest''),
    (''set_vehicle_name'', ''VehicleNameRequest''), (''speed_limit_activate'', ''PinRequest''),
    (''speed_limit_clear_pin'', ''PinRequest''), (''speed_limit_deactivate'', ''PinRequest''),
    (''speed_limit_set_limit'', ''SpeedLimitRequest''), (''sun_roof_control'', ''SunRoofRequest''),
    (''trigger_homelink'', ''HomeLinkRequest''), (''upcoming_calendar_entries'', ''CalendarRequest''),
    (''window_control'', ''WindowControlRequest'')]"

definition excluded_commands :: "string list" where
  "excluded_commands = [
    ''clear_pin_to_drive_admin'', ''erase_user_data'', ''parental_controls_clear_pin_admin'',
    ''reset_pin_to_drive_pin'', ''reset_valet_pin'', ''speed_limit_clear_pin_admin'',
    ''set_scheduled_charging'', ''set_scheduled_departure'']"

definition security_sensitive :: "string list" where
  "security_sensitive = [
    ''actuate_trunk'', ''cancel_software_update'', ''door_unlock'', ''guest_mode'',
    ''parental_controls_activate'', ''parental_controls_deactivate'',
    ''parental_controls_enable_setting'', ''parental_controls_set_speed_limit'',
    ''remote_start_drive'', ''schedule_software_update'', ''set_pin_to_drive'', ''set_valet_mode'',
    ''speed_limit_activate'', ''speed_limit_clear_pin'', ''speed_limit_deactivate'',
    ''speed_limit_set_limit'', ''sun_roof_control'', ''trigger_homelink'', ''window_control'']"

definition charging_command :: "string \<Rightarrow> bool" where
  "charging_command name =
     (name \<in> set command_names \<and> (contains ''charge'' name \<or> contains ''charging'' name))"

definition vehicle_read_spec :: "string \<times> string \<times> string \<times> dict option \<Rightarrow> tool_spec" where
  "vehicle_read_spec r = (case r of (matrix_name, client_method, wake, schema) \<Rightarrow>
     \<lparr>ts_matrix_name = matrix_name, ts_name = ''tesla_'' @ client_method, ts_client_method = client_method,
      ts_required_scope = ''vehicle_device_data'', ts_vehicle_scoped = True, ts_write = False, ts_risk = ReadOnly,
      ts_wake_behavior = wake, ts_retry_policy = ''safe_read'', ts_request_type = None, ts_extra_schema = schema\<rparr>)"

definition account_read_spec :: "string \<times> string \<Rightarrow> tool_spec" where
  "account_read_spec r = (case r of (matrix_name, client_method) \<Rightarrow>
     \<lparr>ts_matrix_name = matrix_name, ts_name = ''tesla_'' @ client_method, ts_client_method = client_method,
      ts_required_scope = ''user_data'', ts_vehicle_scoped = False, ts_write = False, ts_risk = ReadOnly,
      ts_wake_behavior = ''never'', ts_retry_policy = ''safe_read'', ts_request_type = None, ts_extra_schema = None\<rparr>)"

definition charging_history_schema :: dict where
  "charging_history_schema = [(''properties'', VDict [
     (''start_time'', VDict [(''type'', VStr ''string''), (''format'', VStr ''date-time'')]),
     (''end_time'', VDict [(''type'', VStr ''string''), (''format'', VStr ''date-time'')]),
     (''page'', VDict [(''type'', VStr ''integer''), (''minimum'', VInt 1)]),
     (''page_size'', VDict [(''type'', VStr ''integer''), (''minimum'', VInt 1), (''maximum'', VInt 100)]),
     (''sort_by'', VDict [(''type'', VStr ''string'')]),
     (''sort_order'', VDict [(''type'', VStr ''string''), (''enum'', VList [VStr ''asc'', VStr ''desc''])])])]"

definition charging_invoice_schema :: dict where
  "charging_invoice_schema = [(''properties'', VDict [(''invoice_id'', VDict [(''type'', VStr ''string'')])]),
     (''required'', VList [VStr ''invoice_id''])]"

definition fixed_specs :: "tool_spec list" where
  "fixed_specs =
     [\<lparr>ts_matrix_name = ''list'', ts_name = ''tesla_list_vehicles'', ts_client_method = ''list_vehicles'',
       ts_required_scope = ''vehicle_device_data'', ts_vehicle_scoped = False, ts_write = False, ts_risk = ReadOnly,
       ts_wake_behavior = ''never'', ts_retry_policy = ''safe_read'', ts_request_type = None, ts_extra_schema = None\<rparr>,
      \<lparr>ts_matrix_name = ''charging_history'', ts_name = ''tesla_charging_history'', ts_client_method = ''charging_history'',
       ts_required_scope = ''vehicle_charging_cmds'', ts_vehicle_scoped = True, ts_write = False, ts_risk = ReadOnly,
       ts_wake_behavior = ''never'', ts_retry_policy = ''safe_read'', ts_request_type = None,
       ts_extra_schema = Some charging_history_schema\<rparr>,
      \<lparr>ts_matrix_name = ''charging_invoice'', ts_name = ''tesla_charging_invoice'', ts_client_method = ''charging_invoice'',
       ts_required_scope = ''vehicle_charging_cmds'', ts_vehicle_scoped = False, ts_write = False, ts_risk = ReadOnly,
       ts_wake_behavior = ''never'', ts_retry_policy = ''safe_read'', ts_request_type = None,
       ts_extra_schema = Some charging_invoice_schema\<rparr>,
      \<lparr>ts_matrix_name = ''wake_up'', ts_name = ''tesla_wake_up'', ts_client_method = ''wake_up'',
       ts_required_scope = ''vehicle_device_data'', ts_vehicle_scoped = True, ts_write = True, ts_risk = NormalRisk,
       ts_wake_behavior = ''explicit'', ts_retry_policy = ''never'', ts_request_type = None, ts_extra_schema = None\<rparr>]"

definition command_spec :: "string \<Rightarrow> tool_spec" where
  "command_spec command =
     \<lparr>ts_matrix_name = command, ts_name = ''tesla_'' @ command, ts_client_method = command,
      ts_required_scope = (if charging_command command then ''vehicle_charging_cmds'' else ''vehicle_cmds''),
      ts_vehicle_scoped = True, ts_write = True,
      ts_risk = (if command \<in> set security_sensitive then SecuritySensitive else NormalRisk),
      ts_wake_behavior = ''auto_if_needed'', ts_retry_policy = ''never'',
      ts_request_type = map_of command_request_types command, ts_extra_schema = None\<rparr>"

text \<open>\<open>_build_specs\<close>, and the lookup by name.\<close>

definition mcp_tool_specs :: "tool_spec list" where
  "mcp_tool_specs = sort_key ts_name
     (map vehicle_read_spec vehicle_reads @ map account_read_spec account_reads @ fixed_specs
      @ map command_spec (filter (\<lambda>c. c \<notin> set excluded_commands) command_names))"

definition mcp_tool :: "string \<Rightarrow> tool_spec option" where
  "mcp_tool name = map_of (map (\<lambda>s. (ts_name s, s)) mcp_tool_specs) name"

definition analytics_operations :: "string list" where
  "analytics_operations = [''get_analytics_schema'', ''run_analytics_query'']"

subsection \<open>Validation\<close>

definition expected_type :: "val \<Rightarrow> val \<Rightarrow> bool" where
  "expected_type expected v =
     ((expected = VStr ''string'' \<and> is_str v) \<or> (expected = VStr ''boolean'' \<and> is_bool v)
      \<or> (expected = VStr ''integer'' \<and> is_int v \<and> \<not> is_bool v)
      \<or> (expected = VStr ''number'' \<and> is_number v \<and> \<not> is_bool v)
      \<or> (expected = VStr ''object'' \<and> is_dict v) \<or> (expected = VStr ''array'' \<and> is_list v))"

definition in_bounds :: "dict \<Rightarrow> val \<Rightarrow> bool" where
  "in_bounds schema v =
     (case (if is_bool v then None else num_of v) of
        None \<Rightarrow> True
      | Some q \<Rightarrow>
          (case num_of (dget schema ''minimum'') of None \<Rightarrow> True | Some m \<Rightarrow> m \<le> q) \<and>
          (case num_of (dget schema ''maximum'') of None \<Rightarrow> True | Some m \<Rightarrow> q \<le> m))"

fun repeats :: "val list \<Rightarrow> bool" where
  "repeats [] = False"
| "repeats (x # xs) = (list_ex (py_eq x) xs \<or> repeats xs)"

text \<open>\<open>_matches_schema\<close>; item schemas nest, so the value decreases.\<close>

function matches_schema :: "val \<Rightarrow> dict \<Rightarrow> bool" where
  "matches_schema v schema =
     (expected_type (dget schema ''type'') v \<and>
      (case map_of schema ''const'' of None \<Rightarrow> True | Some c \<Rightarrow> py_eq v c) \<and>
      (case dget schema ''enum'' of VList allowed \<Rightarrow> list_ex (py_eq v) allowed | _ \<Rightarrow> True) \<and>
      in_bounds schema v \<and>
      (case v of
         VList xs \<Rightarrow>
           (case dget schema ''minItems'' of VInt n \<Rightarrow> n \<le> int (length xs)
              | VBool b \<Rightarrow> (if b then 1 else 0) \<le> length xs | _ \<Rightarrow> True) \<and>
           \<not> (dget schema ''uniqueItems'' = VBool True \<and> repeats xs) \<and>
           (case dget schema ''items'' of
              VDict item_schema \<Rightarrow> \<not> list_ex (\<lambda>x. \<not> matches_schema x item_schema) xs | _ \<Rightarrow> True)
       | _ \<Rightarrow> True))"
  by pat_completeness auto

termination
  by (relation "measure (\<lambda>(v, schema). size v)") (auto simp: less_Suc_eq_le size_list_estimation')

declare matches_schema.simps [simp del]

definition invalid_arguments :: "string \<Rightarrow> exn" where
  "invalid_arguments m = MCPToolError ''invalid_arguments'' m None"

definition mismatch :: exn where
  "mismatch = invalid_arguments ''Tool arguments do not match the typed request''"

definition request_field_names_of :: "tool_spec \<Rightarrow> string list" where
  "request_field_names_of spec =
     (case Option.bind (ts_request_type spec) request_fields of None \<Rightarrow> [] | Some fs \<Rightarrow> map fst fs)"

text \<open>The properties and the required names of the extra schema.\<close>

definition check_extra_schema :: "dict \<Rightarrow> dict \<Rightarrow> exn + string list" where
  "check_extra_schema schema values =
     (case dget_default schema ''properties'' (VDict []) of
        VDict properties \<Rightarrow>
          (case dget_default schema ''required'' (VList []) of
             VList required \<Rightarrow>
               if \<not> list_all (\<lambda>k. py_str k \<in> set (keys values)) required then Inl mismatch
               else (case find (\<lambda>(k, s). k \<in> set (keys values) \<and>
                        (case s of VDict ps \<Rightarrow> \<not> matches_schema (dget values k) ps | _ \<Rightarrow> True)) properties of
                   Some (k, s) \<Rightarrow> Inl (invalid_arguments (''Invalid value for '' @ k))
                 | None \<Rightarrow> Inr (keys properties))
           | _ \<Rightarrow> Inl (AssertionError ''Invalid internal operation policy''))
      | _ \<Rightarrow> Inl (AssertionError ''Invalid internal operation policy''))"

definition validate_arguments :: "(string \<Rightarrow> dict \<Rightarrow> bool) \<Rightarrow> tool_spec \<Rightarrow> dict \<Rightarrow> exn + unit" where
  "validate_arguments typed spec values =
     (if ts_vehicle_scoped spec \<and> dget values ''vehicle_id'' \<noteq> VNone \<and> \<not> is_str (dget values ''vehicle_id'')
      then Inl (invalid_arguments ''Invalid value for vehicle_id'')
      else if (case ts_request_type spec of None \<Rightarrow> False
          | Some cls \<Rightarrow> \<not> typed cls (filter (\<lambda>(k, v). k \<in> set (request_field_names_of spec)) values))
      then Inl mismatch
      else rbind (case ts_extra_schema spec of None \<Rightarrow> Inr [] | Some schema \<Rightarrow>
             if schema = [] then Inr [] else check_extra_schema schema values) (\<lambda>extra.
        let allowed = (if ts_vehicle_scoped spec then [''vehicle_id''] else []) @ request_field_names_of spec @ extra
              @ (if ts_risk spec = SecuritySensitive then [''explicit_current_turn_intent''] else [])
        in if ts_risk spec = SecuritySensitive \<and> dget values ''explicit_current_turn_intent'' \<noteq> VBool True
           then Inl (invalid_arguments ''Explicit current-turn intent is required'')
           else if \<not> list_all (\<lambda>(k, v). k \<in> set allowed) values then Inl mismatch
           else Inr ()))"

end
