(* ===== verification/Redaction.thy ===== *)
theory Redaction
  imports Errors
begin

text \<open>
  What leaves the trust boundary without its secrets: \<open>tesla_client/redaction.py\<close> (the parameters
  kept in an audit record) and \<open>_json_object\<close> of \<open>mcp_tools.py\<close> (the answer to the MCP client).
\<close>

definition redacted_text :: string where
  "redacted_text = ''[REDACTED]''"

definition audit_secret_keys :: "string list" where
  "audit_secret_keys =
     [''access_token'', ''authorization'', ''calendar_data'', ''client_secret'', ''code'', ''id_token'', ''lat'',
      ''latitude'', ''lon'', ''longitude'', ''password'', ''pin'', ''refresh_token'', ''routable_message'',
      ''token'', ''vin'']"

text \<open>\<open>redact_mapping\<close> and \<open>_redact\<close>; a value outside JSON becomes the name of its type.\<close>

fun redact_value :: "val \<Rightarrow> val" where
  "redact_value (VDict d) =
     VDict (map (\<lambda>(k, v). (k, if casefold k \<in> set audit_secret_keys then VStr redacted_text else redact_value v)) d)"
| "redact_value (VList xs) = VList (map redact_value xs)"
| "redact_value (VBytes b) = VStr ''<bytes>''"
| "redact_value (VTime t) = VStr ''<datetime>''"
| "redact_value v = v"

definition redact_mapping :: "dict \<Rightarrow> dict" where
  "redact_mapping d =
     map (\<lambda>(k, v). (k, if casefold k \<in> set audit_secret_keys then VStr redacted_text else redact_value v)) d"

definition audit_whole_values :: "(string \<times> string list) list" where
  "audit_whole_values = [(''navigation_request'', [''value'']), (''navigation_waypoints_request'', [''waypoints''])]"

text \<open>\<open>_redact_command_parameters\<close>: some parameters are free text and are redacted as a whole.\<close>

definition redact_command_parameters :: "string \<Rightarrow> dict \<Rightarrow> dict" where
  "redact_command_parameters client_method values =
     (let whole = (case map_of audit_whole_values client_method of None \<Rightarrow> [] | Some ks \<Rightarrow> ks)
      in fold (\<lambda>k d. if k \<in> set (keys values) then AList.update k (VStr redacted_text) d else d) whole
           (redact_mapping values))"

definition response_secret_keys :: "string list" where
  "response_secret_keys =
     [''access_token'', ''authorization'', ''client_secret'', ''id_token'', ''private_key'', ''refresh_token'']"

text \<open>\<open>_json_object\<close> and \<open>_json_value\<close>.\<close>

fun response_value_of :: "val \<Rightarrow> val" where
  "response_value_of (VDict d) =
     VDict (map (\<lambda>(k, v). (k, if casefold k \<in> set response_secret_keys then VStr redacted_text else response_value_of v)) d)"
| "response_value_of (VList xs) = VList (map response_value_of xs)"
| "response_value_of (VBytes b) = VStr (py_str (VBytes b))"
| "response_value_of (VTime t) = VStr (py_str (VTime t))"
| "response_value_of v = v"

definition response_object :: "dict \<Rightarrow> dict" where
  "response_object d =
     map (\<lambda>(k, v). (k, if casefold k \<in> set response_secret_keys then VStr redacted_text else response_value_of v)) d"

subsection \<open>Nothing secret is left\<close>

text \<open>Under every secret key, at any depth, there is only the redaction mark.\<close>

fun no_secret :: "string list \<Rightarrow> val \<Rightarrow> bool" where
  "no_secret secrets (VDict d) =
     list_all (\<lambda>(k, v). if casefold k \<in> set secrets then v = VStr redacted_text else no_secret secrets v) d"
| "no_secret secrets (VList xs) = list_all (no_secret secrets) xs"
| "no_secret secrets _ = True"

text \<open>Two values that differ only under secret keys.\<close>

fun alike :: "string list \<Rightarrow> val \<Rightarrow> val \<Rightarrow> bool" where
  "alike secrets (VDict d) v =
     (case v of VDict d' \<Rightarrow> keys d = keys d' \<and>
        list_all2 (\<lambda>(k, x) (k', x'). casefold k \<in> set secrets \<or> alike secrets x x') d d' | _ \<Rightarrow> False)"
| "alike secrets (VList xs) v =
     (case v of VList ys \<Rightarrow> list_all2 (alike secrets) xs ys | _ \<Rightarrow> False)"
| "alike secrets u v = (u = v)"

lemma redact_alike: "alike audit_secret_keys u v \<Longrightarrow> redact_value u = redact_value v"
proof (induction audit_secret_keys u v rule: alike.induct)
  case (1 d v)
  from "1.prems" obtain d' where v: "v = VDict d'" by (cases v) auto
  let ?r = "\<lambda>(k, v). (k, if casefold k \<in> set audit_secret_keys then VStr redacted_text else redact_value v)"
  from "1.prems" have ks: "keys d = keys d'"
    and al: "list_all2 (\<lambda>(k, x) (k', x'). casefold k \<in> set audit_secret_keys \<or> alike audit_secret_keys x x') d d'"
    by (simp_all add: v)
  have "map ?r d = map ?r d'"
  proof (rule nth_equalityI)
    show "length (map ?r d) = length (map ?r d')" using al by (simp add: list_all2_lengthD)
    fix i assume "i < length (map ?r d)"
    then have i: "i < length d" "i < length d'" using al by (simp_all add: list_all2_lengthD)
    obtain k x where x: "d ! i = (k, x)" by (cases "d ! i")
    obtain k' x' where x': "d' ! i = (k', x')" by (cases "d' ! i")
    from arg_cong [OF ks, of "\<lambda>l. l ! i"] i x x' have k: "k' = k" by simp
    from list_all2_nthD [OF al i(1)] x x' have "casefold k \<in> set audit_secret_keys \<or> alike audit_secret_keys x x'" by simp
    moreover from x x' i have "(k, x) \<in> set d" "(k', x') \<in> set d'" by (metis nth_mem)+
    ultimately show "map ?r d ! i = map ?r d' ! i"
      using "1.hyps" [OF v, of "(k, x)" "(k', x')"] i x x' k by auto
  qed
  then show ?case by (simp add: v)
next
  case (2 xs v)
  from "2.prems" obtain ys where v: "v = VList ys" by (cases v) auto
  with "2.prems" have al: "list_all2 (alike audit_secret_keys) xs ys" by simp
  have "map redact_value xs = map redact_value ys"
    using al "2.hyps" [OF v] by (induction rule: list_all2_induct) auto
  then show ?case by (simp add: v)
qed auto

lemma redacted_is_clean: "no_secret audit_secret_keys (redact_value v)"
proof (induction v rule: redact_value.induct)
  case (1 d)
  have "no_secret audit_secret_keys (redact_value x)" if "(k, x) \<in> set d" "casefold k \<notin> set audit_secret_keys" for k x
    using 1 [OF that(1) refl that(2)] .
  then show ?case by (auto simp: list_all_iff)
qed (auto simp: list_all_iff)

lemma response_is_clean: "no_secret response_secret_keys (response_value_of v)"
proof (induction v rule: response_value_of.induct)
  case (1 d)
  have "no_secret response_secret_keys (response_value_of x)" if "(k, x) \<in> set d" "casefold k \<notin> set response_secret_keys" for k x
    using 1 [OF that(1) refl that(2)] .
  then show ?case by (auto simp: list_all_iff)
qed (auto simp: list_all_iff)

text \<open>The keys whose values a command's record hides as a whole.\<close>

definition whole_keys :: "string \<Rightarrow> string list" where
  "whole_keys client_method = (case map_of audit_whole_values client_method of None \<Rightarrow> [] | Some ks \<Rightarrow> ks)"

lemma update_present:
  "distinct (keys d) \<Longrightarrow> k \<in> set (keys d) \<Longrightarrow> AList.update k v d = map (\<lambda>(j, x). (j, if j = k then v else x)) d"
proof (induction d)
  case (Cons p d)
  obtain j x where p: "p = (j, x)" by (cases p)
  show ?case
  proof (cases "j = k")
    case True
    with Cons.prems(1) p have "k \<notin> fst ` set d" by auto
    then have "map (\<lambda>(j, x). (j, if j = k then v else x)) d = d" by (intro map_idI) (auto simp: image_iff)
    with True p show ?thesis by simp
  next
    case False
    with Cons p show ?thesis by auto
  qed
qed simp

lemma mark_whole:
  "distinct (keys d) \<Longrightarrow> K = set (keys d) \<Longrightarrow> fold (\<lambda>k d. if k \<in> K then AList.update k v d else d) ks d =
     map (\<lambda>(j, x). (j, if j \<in> set ks then v else x)) d"
proof (induction ks arbitrary: d)
  case Nil
  show ?case by (simp add: case_prod_unfold)
next
  case (Cons k ks)
  let ?d = "map (\<lambda>(j, x). (j, if j = k then v else x)) d"
  have ks: "keys ?d = keys d" by (simp add: comp_def case_prod_unfold)
  have "(if k \<in> K then AList.update k v d else d) = ?d"
  proof (cases "k \<in> K")
    case True
    with update_present [OF Cons.prems(1)] Cons.prems(2) show ?thesis by simp
  next
    case False
    with Cons.prems(2) have "?d = d" by (intro map_idI) (auto simp: image_iff)
    with False show ?thesis by simp
  qed
  then have "fold (\<lambda>k d. if k \<in> K then AList.update k v d else d) (k # ks) d =
      fold (\<lambda>k d. if k \<in> K then AList.update k v d else d) ks ?d" by simp
  also have "\<dots> = map (\<lambda>(j, x). (j, if j \<in> set ks then v else x)) ?d"
    using Cons.prems unfolding ks [symmetric] by (rule Cons.IH)
  also have "\<dots> = map (\<lambda>(j, x). (j, if j \<in> set (k # ks) then v else x)) d"
    by (auto simp: comp_def)
  finally show ?case .
qed

lemma redact_command_parameters_eq:
  assumes "distinct (keys values)"
  shows "redact_command_parameters m values = map (\<lambda>(k, v). (k,
    if k \<in> set (whole_keys m) \<or> casefold k \<in> set audit_secret_keys then VStr redacted_text else redact_value v)) values"
proof -
  have ks: "keys (redact_mapping values) = keys values" by (simp add: redact_mapping_def comp_def case_prod_unfold)
  with mark_whole [where d = "redact_mapping values" and K = "set (keys values)" and v = "VStr redacted_text" and ks = "whole_keys m"] assms
  show ?thesis unfolding redact_command_parameters_def whole_keys_def [symmetric] Let_def
    by (auto simp: redact_mapping_def comp_def case_prod_unfold)
qed

text \<open>C16: The parameters kept in the audit record of a command hide the secrets: under every sensitive key, at any depth, and
  under the free-text parameters of the navigation requests there is only the redaction mark, and two commands whose
  parameters differ only there are recorded alike.\<close>
theorem audit_redaction_hides_secrets:
  assumes "distinct (keys values)" and "keys values' = keys values"
    and "list_all2 (\<lambda>(k, x) (k', x'). casefold k \<in> set audit_secret_keys \<or> k \<in> set (whole_keys m) \<or> alike audit_secret_keys x x')
      values values'"
  shows "redact_command_parameters m values = redact_command_parameters m values' \<and>
    no_secret audit_secret_keys (VDict (redact_command_parameters m values)) \<and>
    list_all (\<lambda>(k, v). k \<notin> set (whole_keys m) \<or> v = VStr redacted_text) (redact_command_parameters m values)"
proof -
  let ?r = "\<lambda>(k, v). (k, if k \<in> set (whole_keys m) \<or> casefold k \<in> set audit_secret_keys then VStr redacted_text else redact_value v)"
  have "map ?r values = map ?r values'"
  proof (rule nth_equalityI)
    from assms(3) show "length (map ?r values) = length (map ?r values')" by (simp add: list_all2_lengthD)
    fix i
    assume "i < length (map ?r values)"
    then have i: "i < length values" "i < length values'" using assms(3) by (simp_all add: list_all2_lengthD)
    from arg_cong [OF assms(2), of "\<lambda>l. l ! i"] i have "fst (values' ! i) = fst (values ! i)" by simp
    with list_all2_nthD [OF assms(3) i(1)] i show "map ?r values ! i = map ?r values' ! i"
      by (auto simp: case_prod_unfold dest: redact_alike)
  qed
  moreover have "no_secret audit_secret_keys (VDict (map ?r values))"
    by (auto simp: list_all_iff redacted_is_clean)
  moreover have "list_all (\<lambda>(k, v). k \<notin> set (whole_keys m) \<or> v = VStr redacted_text) (map ?r values)"
    by (auto simp: list_all_iff)
  ultimately show ?thesis using assms(1,2) by (simp add: redact_command_parameters_eq)
qed

theorem audit_redaction_hides_secrets_witness:
  "redact_command_parameters ''navigation_request'' [(''value'', VStr ''Home''), (''pin'', VStr ''1234'')] =
     redact_command_parameters ''navigation_request'' [(''value'', VStr ''Work''), (''pin'', VStr ''9876'')] \<and>
   no_secret audit_secret_keys (VDict (redact_command_parameters ''navigation_request'' [(''value'', VStr ''Home''), (''pin'', VStr ''1234'')])) \<and>
   list_all (\<lambda>(k, v). k \<notin> set (whole_keys ''navigation_request'') \<or> v = VStr redacted_text)
     (redact_command_parameters ''navigation_request'' [(''value'', VStr ''Home''), (''pin'', VStr ''1234'')])"
  by (rule audit_redaction_hides_secrets) code_simp+

end
