(* ===== verification/McpTools.thy ===== *)
theory McpTools
  imports AuthCore Onboarding FleetEndpoints McpPolicy Redaction
begin

text \<open>
  \<open>mcp_gateway/mcp_tools.py\<close>: the service that runs one MCP operation for an authenticated user.
  The world is the onboarding database and the events that left the process.  The audit store and
  the analytics provider are interfaces (records of operations), as they are in the code.
\<close>

subsection \<open>The world and the environment of the service\<close>

record gateway_world = net +
  w_db :: onboarding_db
  w_draws :: nat

type_synonym 'a gateway = "(gateway_world, exn, 'a) oper"

text \<open>\<open>CommandAuditStore\<close>: begin (identifier, time, owner, vehicle, tool, parameters, correlation,
  source) and complete (identifier, result, error category).\<close>

record audit_store =
  au_begin :: "string \<Rightarrow> int \<Rightarrow> string \<Rightarrow> string \<Rightarrow> string \<Rightarrow> dict \<Rightarrow> string \<Rightarrow> string \<Rightarrow> unit onboarding"
  au_complete :: "string \<Rightarrow> string \<Rightarrow> string option \<Rightarrow> unit onboarding"

text \<open>\<open>AnalyticsProvider\<close>: the schema and a query, for a context and a correlation identifier.\<close>

record analytics_provider =
  an_schema :: "user_context \<Rightarrow> string \<Rightarrow> exn + dict"
  an_query :: "user_context \<Rightarrow> string \<Rightarrow> string \<Rightarrow> exn + dict"

record mcp_env =
  me_net :: net_env
  me_store :: store_env
  me_api :: tesla_api
  me_others :: "onboarding_db \<Rightarrow> onboarding_db"
  me_fleet :: fleet_client
  me_commands :: fleet_client
  me_audit :: audit_store
  me_analytics :: "analytics_provider option"
  me_typed :: "string \<Rightarrow> dict \<Rightarrow> bool"
  me_token :: "nat \<Rightarrow> string"
  me_now :: "event list \<Rightarrow> int"
  me_base64 :: "string \<Rightarrow> string"

text \<open>An operation on the database alone, and a fresh \<open>secrets.token_hex(16)\<close>.\<close>

definition on_db :: "'a onboarding \<Rightarrow> 'a gateway" where
  "on_db m w = (case m (w_db w) of (r, db) \<Rightarrow> (r, w\<lparr>w_db := db\<rparr>))"

definition draw :: "mcp_env \<Rightarrow> string gateway" where
  "draw env w = (Inr (me_token env (w_draws w)), w\<lparr>w_draws := w_draws w + 1\<rparr>)"

definition now_of :: "mcp_env \<Rightarrow> int gateway" where
  "now_of env w = (Inr (me_now env (w_events w)), w)"

definition pause :: "rat \<Rightarrow> unit gateway" where
  "pause d w = (Inr (), emit (Slept d) w)"

text \<open>\<open>try: m except Exception\<close>; \<^const>\<open>NoReturn\<close> is not an exception.\<close>

definition catch_all :: "'a gateway \<Rightarrow> (exn \<Rightarrow> 'a gateway) \<Rightarrow> 'a gateway" where
  "catch_all m h = ocatch m (\<lambda>e. if e = NoReturn then oraise e else h e)"

text \<open>The per-user client over the onboarding service.\<close>

definition access_of :: "mcp_env \<Rightarrow> string \<Rightarrow> bool \<Rightarrow> access_context gateway" where
  "access_of env user force_refresh = obind (now_of env) (\<lambda>now.
     on_db (access_for_user (me_store env) (me_api env) (me_others env) now user force_refresh))"

definition per_user :: "mcp_env \<Rightarrow> string \<Rightarrow> (string \<Rightarrow> string \<Rightarrow> 'a gateway) \<Rightarrow> 'a gateway" where
  "per_user env user operation = execute (access_of env) user operation"

definition mcp_error :: "string \<Rightarrow> string \<Rightarrow> exn" where
  "mcp_error category m = MCPToolError category m None"

subsection \<open>Results\<close>

text \<open>What an operation returns, as \<open>asdict\<close> shows it.\<close>

datatype mcp_result =
    ResultVehicle tesla_vehicle
  | ResultCommand command_result
  | ResultObject dict
  | ResultList "dict list" "pagination option"
  | ResultValue val
  | ResultStatus fleet_status
  | ResultData tesla_vehicle dict
  | ResultBinary binary_document
  | ResultItems "dict list"

definition vehicle_dict :: "tesla_vehicle \<Rightarrow> dict" where
  "vehicle_dict v =
     [(''vin'', VStr (tv_vin v)), (''tesla_vehicle_id'', VStr (tv_tesla_vehicle_id v)),
      (''display_name'', opt_str (tv_display_name v)), (''state'', opt_str (tv_state v)), (''raw'', VDict (tv_raw v))]"

definition pagination_dict :: "pagination \<Rightarrow> dict" where
  "pagination_dict p =
     [(''current'', opt_int (pg_current p)), (''per_page'', opt_int (pg_per_page p)), (''count'', opt_int (pg_count p)),
      (''pages'', opt_int (pg_pages p)), (''next_page'', opt_int (pg_next_page p)),
      (''previous_page'', opt_int (pg_previous_page p))]"

definition serialize :: "mcp_env \<Rightarrow> mcp_result \<Rightarrow> dict" where
  "serialize env r = (case r of
       ResultBinary b \<Rightarrow> [(''content_type'', VStr (bd_content_type b)),
         (''content_base64'', VStr (me_base64 env (bd_content b)))]
     | ResultItems ds \<Rightarrow> [(''items'', VList (map (\<lambda>d. VDict (response_object d)) ds))]
     | ResultVehicle v \<Rightarrow> response_object (vehicle_dict v)
     | ResultCommand c \<Rightarrow> response_object [(''successful'', VBool (cr_successful c)), (''reason'', opt_str (cr_reason c)),
         (''raw'', VDict (cr_raw c))]
     | ResultObject d \<Rightarrow> response_object [(''data'', VDict d)]
     | ResultList ds p \<Rightarrow> response_object [(''items'', VList (map VDict ds)),
         (''pagination'', case p of None \<Rightarrow> VNone | Some q \<Rightarrow> VDict (pagination_dict q))]
     | ResultValue v \<Rightarrow> response_object [(''value'', v)]
     | ResultStatus s \<Rightarrow> response_object [(''vin'', VStr (fs_vin s)), (''key_paired'', opt_bool (fs_key_paired s)),
         (''vehicle_command_protocol_required'', opt_bool (fs_protocol_required s)),
         (''firmware_version'', opt_str (fs_firmware_version s)),
         (''fleet_telemetry_version'', opt_str (fs_telemetry_version s)),
         (''total_number_of_keys'', opt_int (fs_total_number_of_keys s)), (''raw'', VDict (fs_raw s))]
     | ResultData v sections \<Rightarrow> response_object [(''vehicle'', VDict (vehicle_dict v)), (''sections'', VDict sections)])"

subsection \<open>The selected vehicle\<close>

definition resolve_vehicle :: "string \<Rightarrow> val \<Rightarrow> vehicle_record option gateway" where
  "resolve_vehicle owner selected = (case selected of
       VNone \<Rightarrow> oret None
     | VStr s \<Rightarrow>
         if s = [] then oraise (mcp_error ''invalid_vehicle'' ''vehicle_id must be a non-empty string'')
         else obind (ocatch (on_db (reading (get_vehicle owner s)))
             (\<lambda>e. (case e of
                CrossUserAccessError m \<Rightarrow> oraise (mcp_error ''vehicle_not_owned'' ''Vehicle is not owned by this user'')
              | _ \<Rightarrow> if is_onboarding_error e
                     then oraise (mcp_error ''vehicle_not_owned'' ''Vehicle is not owned by this user'') else oraise e)))
           (\<lambda>v. oret (Some v))
     | _ \<Rightarrow> oraise (mcp_error ''invalid_vehicle'' ''vehicle_id must be a non-empty string''))"

definition eligible_vehicle :: "string \<Rightarrow> vehicle_record gateway" where
  "eligible_vehicle owner =
     obind (on_db (reading (list_vehicle_records owner))) (\<lambda>rs.
     case filter (\<lambda>r. vr_authorization_status r = ''active'') rs of
       [] \<Rightarrow> oraise (mcp_error ''no_eligible_vehicle'' ''No eligible Tesla vehicle is connected'')
     | [v] \<Rightarrow> oret v
     | vs \<Rightarrow> oraise (mcp_error ''vehicle_ambiguous'' (''Multiple eligible vehicles exist; choose one vehicle_id: '' @
               join '', '' (sort (map vr_vehicle_id vs)))))"

text \<open>A vehicle-scoped operation without a selected vehicle takes the only eligible one.\<close>

definition choose_vehicle :: "string \<Rightarrow> tool_spec \<Rightarrow> vehicle_record option \<Rightarrow> vehicle_record option gateway" where
  "choose_vehicle user spec selected =
     (if ts_vehicle_scoped spec \<and> selected = None then obind (eligible_vehicle user) (\<lambda>v. oret (Some v))
      else oret selected)"

subsection \<open>Running an operation\<close>

definition optional_datetime :: "net_env \<Rightarrow> val \<Rightarrow> exn + string option" where
  "optional_datetime env v = (case v of
       VNone \<Rightarrow> Inr None
     | VStr s \<Rightarrow> (case ne_iso env (replace_all ''Z'' ''+00:00'' s) of
           None \<Rightarrow> Inl (mcp_error ''invalid_arguments'' ''Timestamp must be ISO-8601'') | Some t \<Rightarrow> Inr (Some t))
     | _ \<Rightarrow> Inl (mcp_error ''invalid_arguments'' ''Timestamp must be an ISO-8601 string''))"

definition live_vehicle :: "mcp_env \<Rightarrow> string \<Rightarrow> string \<Rightarrow> tesla_vehicle gateway" where
  "live_vehicle env user vin =
     per_user env user (\<lambda>token base. fleet_vehicle (me_net env) (me_fleet env) token base vin)"

definition run_list_vehicles :: "nat \<Rightarrow> mcp_env \<Rightarrow> string \<Rightarrow> mcp_result gateway" where
  "run_list_vehicles fuel env user =
     obind (per_user env user (\<lambda>token base. fleet_list_vehicles fuel (me_net env) (me_fleet env) token base)) (\<lambda>live.
     obind (on_db (reading (list_vehicle_records user))) (\<lambda>rs.
     let owned = map_of (rev (map (\<lambda>r. (vr_vin r, r)) rs))
     in oret (ResultItems (concat (map (\<lambda>v. case owned (tv_vin v) of
          None \<Rightarrow> []
        | Some r \<Rightarrow> if vr_authorization_status r \<noteq> ''active'' then [] else
            [[(''vehicle_id'', VStr (vr_vehicle_id r)), (''display_name'', opt_str (tv_display_name v)),
              (''state'', opt_str (tv_state v)), (''authorization_status'', VStr (vr_authorization_status r)),
              (''virtual_key_status'', VStr (vr_virtual_key_status r))]]) live)))))"

text \<open>The account reads, called by name.\<close>

definition run_account_read :: "mcp_env \<Rightarrow> string \<Rightarrow> string \<Rightarrow> mcp_result gateway" where
  "run_account_read env user client_method =
     (let n = me_net env; c = me_fleet env
      in per_user env user (\<lambda>token base.
        if client_method = ''feature_config'' then obind (fleet_feature_config n c token base) (\<lambda>d. oret (ResultObject d))
        else if client_method = ''me'' then obind (fleet_me n c token base) (\<lambda>d. oret (ResultObject d))
        else if client_method = ''orders'' then obind (fleet_orders n c token base) (\<lambda>(ds, p). oret (ResultList ds p))
        else oraise AttributeError))"

definition run_vehicle_data :: "mcp_env \<Rightarrow> string \<Rightarrow> string \<Rightarrow> val \<Rightarrow> mcp_result gateway" where
  "run_vehicle_data env user vin endpoints = (case endpoints of
       VList xs \<Rightarrow>
         obind (olift (vehicle_data_query (map py_str xs))) (\<lambda>es.
         per_user env user (\<lambda>token base.
           obind (fleet_vehicle_data (me_net env) (me_fleet env) token base vin es) (\<lambda>(v, sections).
           oret (ResultData v sections))))
     | _ \<Rightarrow> oraise (mcp_error ''invalid_arguments'' ''endpoints must be an array''))"

definition run_charging_history :: "mcp_env \<Rightarrow> string \<Rightarrow> string \<Rightarrow> dict \<Rightarrow> mcp_result gateway" where
  "run_charging_history env user vin values =
     obind (olift (optional_datetime (me_net env) (dget values ''start_time''))) (\<lambda>start.
     obind (olift (optional_datetime (me_net env) (dget values ''end_time''))) (\<lambda>stop.
     per_user env user (\<lambda>token base.
       obind (fleet_charging_history (me_net env) (me_fleet env) token base
         \<lparr>ch_vin = Some vin, ch_start_time = start, ch_end_time = stop, ch_page = field_int values ''page'',
          ch_page_size = field_int values ''page_size'', ch_sort_by = field_str values ''sort_by'',
          ch_sort_order = dget values ''sort_order''\<rparr>) (\<lambda>d. oret (ResultObject d)))))"

text \<open>The methods of a vehicle without a request, called by name with the arguments they take.\<close>

definition run_vehicle_read :: "mcp_env \<Rightarrow> string \<Rightarrow> string \<Rightarrow> string \<Rightarrow> dict \<Rightarrow> mcp_result gateway" where
  "run_vehicle_read env user client_method vin values =
     (let n = me_net env; c = me_fleet env
      in per_user env user (\<lambda>token base.
        if client_method = ''drivers'' then obind (fleet_drivers n c token base vin) (\<lambda>(ds, p). oret (ResultList ds p))
        else if client_method = ''fleet_telemetry_config_get''
        then obind (fleet_telemetry_config_get n c token base vin) (\<lambda>d. oret (ResultObject d))
        else if client_method = ''fleet_telemetry_errors''
        then obind (fleet_telemetry_errors n c token base vin) (\<lambda>v. oret (ResultValue v))
        else if client_method = ''mobile_enabled''
        then obind (fleet_mobile_enabled n c token base vin) (\<lambda>d. oret (ResultObject d))
        else if client_method = ''nearby_charging_sites''
        then obind (fleet_nearby_charging_sites n c token base vin (dget values ''count'') (dget values ''radius'')
               (dget values ''detail'')) (\<lambda>d. oret (ResultObject d))
        else if client_method = ''recent_alerts''
        then obind (fleet_recent_alerts n c token base vin) (\<lambda>v. oret (ResultValue v))
        else if client_method = ''release_notes''
        then obind (fleet_release_notes n c token base vin (dget values ''staged'') (dget values ''language''))
               (\<lambda>v. oret (ResultValue v))
        else if client_method = ''service_data''
        then obind (fleet_service_data n c token base vin) (\<lambda>v. oret (ResultValue v))
        else if client_method = ''vehicle'' then obind (fleet_vehicle n c token base vin) (\<lambda>v. oret (ResultVehicle v))
        else if client_method = ''wake_up'' then obind (fleet_wake_up n c token base vin) (\<lambda>v. oret (ResultVehicle v))
        else oraise AttributeError))"

text \<open>\<open>_request_instance\<close> keeps the arguments the request class knows.\<close>

definition request_instance :: "tool_spec \<Rightarrow> dict \<Rightarrow> exn + tesla_request option" where
  "request_instance spec values = (case ts_request_type spec of
       None \<Rightarrow> Inr None
     | Some cls \<Rightarrow> rbind (make_request cls (filter (\<lambda>(k, v). k \<in> set (request_field_names_of spec)) values))
         (\<lambda>r. Inr (Some r)))"

text \<open>\<open>_execute\<close>; the caller has already chosen the vehicle of a vehicle-scoped operation.\<close>

definition run_operation ::
  "nat \<Rightarrow> mcp_env \<Rightarrow> string \<Rightarrow> tool_spec \<Rightarrow> vehicle_record option \<Rightarrow> dict \<Rightarrow> mcp_result gateway" where
  "run_operation fuel env user spec selected values =
     obind (choose_vehicle user spec selected) (\<lambda>vehicle.
     if ts_client_method spec = ''list_vehicles'' then run_list_vehicles fuel env user
     else if ts_client_method spec = ''charging_invoice''
     then (case map_of values ''invoice_id'' of
         None \<Rightarrow> oraise (KeyError ''invoice_id'')
       | Some i \<Rightarrow> per_user env user (\<lambda>token base.
           obind (fleet_charging_invoice (me_net env) (me_fleet env) token base (py_str i)) (\<lambda>b. oret (ResultBinary b))))
     else case vehicle of
       None \<Rightarrow> run_account_read env user (ts_client_method spec)
     | Some v \<Rightarrow>
         if ts_client_method spec = ''fleet_status''
         then per_user env user (\<lambda>token base.
           obind (fleet_fleet_status (me_net env) (me_fleet env) token base [vr_vin v]) (\<lambda>statuses.
           case map_of statuses (vr_vin v) of
             None \<Rightarrow> oraise (KeyError (vr_vin v)) | Some s \<Rightarrow> oret (ResultStatus s)))
         else if ts_client_method spec = ''vehicle_data''
         then (case map_of values ''endpoints'' of
             None \<Rightarrow> oraise (KeyError ''endpoints'') | Some es \<Rightarrow> run_vehicle_data env user (vr_vin v) es)
         else if ts_client_method spec = ''charging_history'' then run_charging_history env user (vr_vin v) values
         else obind (olift (request_instance spec values)) (\<lambda>rq.
           if ts_client_method spec \<in> set command_names
           then per_user env user (\<lambda>token base.
             obind (call_command (me_net env) (me_commands env) token base (vr_vin v) (ts_client_method spec) rq) (\<lambda>c.
             oret (ResultCommand c)))
           else if rq \<noteq> None then oraise TypeError
           else run_vehicle_read env user (ts_client_method spec) (vr_vin v) values))"

subsection \<open>Audited writes\<close>

definition error_category :: "exn \<Rightarrow> string" where
  "error_category e = (case e of
       TeslaError c m category s r \<Rightarrow> category
     | MCPToolError category m r \<Rightarrow> category
     | _ \<Rightarrow> ''internal_error'')"

definition begin_audit ::
  "mcp_env \<Rightarrow> string \<Rightarrow> string \<Rightarrow> string \<Rightarrow> string \<Rightarrow> dict \<Rightarrow> string \<Rightarrow> string \<Rightarrow> unit gateway" where
  "begin_audit env audit_id user vid tool params correlation failure =
     catch_all (obind (now_of env) (\<lambda>now.
         on_db (au_begin (me_audit env) audit_id now user vid tool params correlation ''chatgpt-mcp'')))
       (\<lambda>e. oraise (mcp_error ''audit_unavailable'' failure))"

definition finalize_audit :: "mcp_env \<Rightarrow> string \<Rightarrow> string \<Rightarrow> string option \<Rightarrow> unit gateway" where
  "finalize_audit env audit_id result category =
     catch_all (on_db (au_complete (me_audit env) audit_id result category))
       (\<lambda>e. oraise (mcp_error ''command_result_indeterminate''
         ''Command may have executed but its audit could not be finalized; do not retry''))"

text \<open>\<open>except Exception\<close>: record the failure, then raise it again.\<close>

definition record_failure :: "mcp_env \<Rightarrow> string \<Rightarrow> 'a gateway \<Rightarrow> 'a gateway" where
  "record_failure env audit_id m = catch_all m (\<lambda>e.
     obind (finalize_audit env audit_id ''failure'' (Some (error_category e))) (\<lambda>_. oraise e))"

text \<open>The polls after a wake-up, each after ten seconds.\<close>

primrec poll_online :: "nat \<Rightarrow> mcp_env \<Rightarrow> string \<Rightarrow> string \<Rightarrow> bool gateway" where
  "poll_online 0 env user vin = oret False"
| "poll_online (Suc polls) env user vin =
     obind (pause 10) (\<lambda>_.
     obind (live_vehicle env user vin) (\<lambda>v.
     if tv_state v = Some ''online'' then oret True else poll_online polls env user vin))"

definition wake_poll_attempts :: nat where
  "wake_poll_attempts = 6"

definition ensure_vehicle_online :: "mcp_env \<Rightarrow> string \<Rightarrow> tool_spec \<Rightarrow> vehicle_record \<Rightarrow> string option gateway" where
  "ensure_vehicle_online env user spec vehicle =
     obind (live_vehicle env user (vr_vin vehicle)) (\<lambda>live.
     if tv_state live = Some ''online'' then oret None
     else
       obind (draw env) (\<lambda>a.
       obind (draw env) (\<lambda>c.
       let audit_id = ''audit_'' @ a; correlation = ''corr_'' @ c
       in obind (begin_audit env audit_id user (vr_vehicle_id vehicle) ''tesla_wake_up''
              [(''automatic_for'', VStr (ts_name spec))] correlation
              ''Command was not sent because its automatic wake could not be audited'') (\<lambda>_.
          obind (record_failure env audit_id (per_user env user (\<lambda>token base.
              fleet_wake_up (me_net env) (me_fleet env) token base (vr_vin vehicle)))) (\<lambda>woken.
          obind (finalize_audit env audit_id ''success'' None) (\<lambda>_.
          if tv_state woken = Some ''online'' then oret (Some correlation)
          else obind (poll_online wake_poll_attempts env user (vr_vin vehicle)) (\<lambda>online.
            if online then oret (Some correlation)
            else oraise (mcp_error ''vehicle_unavailable''
              ''Vehicle did not come online within 60 seconds; command was not sent''))))))))"

definition is_command :: "tool_spec \<Rightarrow> bool" where
  "is_command spec = (ts_client_method spec \<in> set command_names)"

text \<open>The body of the first \<open>try\<close>: pairing, wake-up, then the operation itself.\<close>

definition attempt_write ::
  "nat \<Rightarrow> mcp_env \<Rightarrow> string \<Rightarrow> tool_spec \<Rightarrow> vehicle_record \<Rightarrow> dict \<Rightarrow> (string option \<times> mcp_result) gateway" where
  "attempt_write fuel env user spec vehicle values =
     (if is_command spec \<and> vr_protocol_required vehicle = Some True \<and> vr_virtual_key_status vehicle \<noteq> ''paired''
      then oraise (mcp_error ''virtual_key_not_paired'' ''The selected vehicle still requires Virtual Key pairing'')
      else obind (if is_command spec then ensure_vehicle_online env user spec vehicle else oret None) (\<lambda>wake.
        obind (run_operation fuel env user spec (Some vehicle) values) (\<lambda>result. oret (wake, result))))"

definition was_successful :: "mcp_result \<Rightarrow> bool" where
  "was_successful r = (case r of ResultCommand c \<Rightarrow> cr_successful c | _ \<Rightarrow> True)"

definition execute_audited ::
  "nat \<Rightarrow> mcp_env \<Rightarrow> string \<Rightarrow> tool_spec \<Rightarrow> vehicle_record \<Rightarrow> dict \<Rightarrow> string \<Rightarrow> dict gateway" where
  "execute_audited fuel env user spec vehicle values correlation =
     obind (draw env) (\<lambda>a.
     let audit_id = ''audit_'' @ a
     in obind (begin_audit env audit_id user (vr_vehicle_id vehicle) (ts_name spec)
            (redact_command_parameters (ts_client_method spec) values) correlation
            ''Command was not sent because its audit record could not be created'') (\<lambda>_.
        obind (record_failure env audit_id (attempt_write fuel env user spec vehicle values)) (\<lambda>(wake, result).
        obind (finalize_audit env audit_id (if was_successful result then ''success'' else ''rejected'')
            (if was_successful result then None else Some ''tesla_rejected'')) (\<lambda>_.
        oret (dict_merge (serialize env result) ((''correlation_id'', VStr correlation) #
          (case wake of None \<Rightarrow> [] | Some c \<Rightarrow> [(''wake_correlation_id'', VStr c)])))))))"

subsection \<open>The call\<close>

definition run_analytics :: "mcp_env \<Rightarrow> user_context \<Rightarrow> string \<Rightarrow> dict \<Rightarrow> string \<Rightarrow> exn + dict" where
  "run_analytics env ctx name values correlation = (case me_analytics env of
       None \<Rightarrow> Inl (mcp_error ''analytics_unavailable'' ''Historical analytics is unavailable'')
     | Some a \<Rightarrow>
         if name = ''get_analytics_schema'' \<and> values \<noteq> []
         then Inl (mcp_error ''invalid_arguments'' ''Schema operation takes no arguments'')
         else if name = ''run_analytics_query'' \<and> (set (keys values) \<noteq> {''sql''} \<or> \<not> is_str (dget values ''sql''))
         then Inl (mcp_error ''invalid_arguments'' ''Analytics query requires one SQL string'')
         else (case (if name = ''get_analytics_schema'' then an_schema a ctx correlation
                     else an_query a ctx (the_str (dget values ''sql'')) correlation) of
             Inr d \<Rightarrow> Inr (AList.update ''correlation_id'' (VStr correlation) d)
           | Inl e \<Rightarrow> (case e of AnalyticsQueryError category m \<Rightarrow> Inl (mcp_error category m) | _ \<Rightarrow> Inl e)))"

text \<open>The scopes of the stored tokens that an operation needs.\<close>

definition missing_scope :: "tool_spec \<Rightarrow> dict \<Rightarrow> string list \<Rightarrow> string option" where
  "missing_scope spec arguments scopes =
     (if ts_required_scope spec \<notin> set scopes
      then Some (''Reconnect Tesla with the required '' @ ts_required_scope spec @ '' scope'')
      else if is_command spec \<and> ''vehicle_device_data'' \<notin> set scopes
      then Some ''Reconnect Tesla with the required vehicle_device_data scope for command wake checks''
      else if ts_client_method spec = ''vehicle_data''
        \<and> (case dget_default arguments ''endpoints'' (VList []) of VList es \<Rightarrow> VStr ''location_data'' \<in> set es | _ \<Rightarrow> False)
        \<and> ''vehicle_location'' \<notin> set scopes
      then Some ''Reconnect Tesla with the required vehicle_location scope''
      else None)"

text \<open>The end of \<open>_call\<close>: an audited write, or a read.\<close>

definition run_chosen ::
  "nat \<Rightarrow> mcp_env \<Rightarrow> string \<Rightarrow> tool_spec \<Rightarrow> dict \<Rightarrow> string \<Rightarrow> vehicle_record option \<Rightarrow> dict gateway" where
  "run_chosen fuel env user spec values correlation vehicle =
     (if ts_write spec
      then (case vehicle of
          None \<Rightarrow> oraise (mcp_error ''vehicle_required'' ''A write operation requires a vehicle'')
        | Some v \<Rightarrow> execute_audited fuel env user spec v values correlation)
      else obind (run_operation fuel env user spec vehicle values) (\<lambda>r.
        oret (AList.update ''correlation_id'' (VStr correlation) (serialize env r))))"

definition call_tool ::
  "nat \<Rightarrow> mcp_env \<Rightarrow> string \<Rightarrow> tool_spec \<Rightarrow> dict \<Rightarrow> string \<Rightarrow> dict gateway" where
  "call_tool fuel env user spec arguments correlation =
     (if ts_risk spec = SecuritySensitive \<and> dget arguments ''explicit_current_turn_intent'' \<noteq> VBool True
      then oraise (mcp_error ''explicit_intent_required''
        ''This security-sensitive operation requires unambiguous current-turn intent'')
      else obind (olift (validate_arguments (me_typed env) spec arguments)) (\<lambda>_.
        let values = AList.delete ''explicit_current_turn_intent'' arguments
        in obind (on_db (reading (get_connection (me_store env) user))) (\<lambda>conn.
           case missing_scope spec arguments (token_scopes (co_tokens conn)) of
             Some m \<Rightarrow> oraise (mcp_error ''missing_tesla_scope'' m)
           | None \<Rightarrow>
             obind (resolve_vehicle user (dget values ''vehicle_id'')) (\<lambda>selected.
             obind (choose_vehicle user spec selected)
               (run_chosen fuel env user spec (AList.delete ''vehicle_id'' values) correlation)))))"

definition with_correlation :: "string \<Rightarrow> exn \<Rightarrow> exn" where
  "with_correlation correlation e = (case e of
       MCPToolError c m None \<Rightarrow> MCPToolError c m (Some correlation)
     | TeslaError c m k s None \<Rightarrow> TeslaError c m k s (Some correlation)
     | _ \<Rightarrow> e)"

definition mcp_call :: "nat \<Rightarrow> mcp_env \<Rightarrow> user_context \<Rightarrow> string \<Rightarrow> val \<Rightarrow> dict gateway" where
  "mcp_call fuel env ctx name arguments =
     obind (draw env) (\<lambda>c.
     let correlation = ''corr_'' @ c
     in ocatch (case arguments of
           VDict values \<Rightarrow>
             if name \<in> set analytics_operations then olift (run_analytics env ctx name values correlation)
             else (case mcp_tool name of
                 None \<Rightarrow> oraise (mcp_error ''unknown_tool'' ''Unknown MCP tool'')
               | Some spec \<Rightarrow> call_tool fuel env (ctx_user_id ctx) spec values correlation)
         | _ \<Rightarrow> oraise (mcp_error ''invalid_arguments'' ''Tool arguments must be a JSON object''))
       (\<lambda>e. oraise (with_correlation correlation e)))"

end
