(* ===== verification/TelemetryControl.thy ===== *)
theory TelemetryControl
  imports TelemetryConfig McpTools
begin

text \<open>
  \<open>mcp_gateway/telemetry_control.py\<close>: inspecting, applying, verifying, removing and reconciling the
  telemetry configuration of a vehicle.  The world, the onboarding store and the per-user clients are
  those of the MCP service; the signed client is the one that goes through the command proxy.
\<close>

subsection \<open>The service\<close>

text \<open>\<open>kc_time\<close> is \<open>fromisoformat\<close> with naive times read as UTC, in microseconds.\<close>

record telemetry_control =
  kc_env :: mcp_env
  kc_lib :: telemetry_lib
  kc_trust :: trust_profile
  kc_receiver_version :: string
  kc_sync_attempts :: int
  kc_sync_delay :: rat
  kc_catalog :: "dict list"
  kc_baseline :: dict
  kc_profile :: dict
  kc_time :: "string \<Rightarrow> int option"

definition check_telemetry_control :: "int \<Rightarrow> rat \<Rightarrow> exn + unit" where
  "check_telemetry_control tries delay =
     (if tries < 1 \<or> tries > 60 then Inl (ValueError ''Telemetry sync attempts must be between 1 and 60'')
      else if delay < 0 \<or> delay > 30 then Inl (ValueError ''Telemetry sync delay must be between zero and 30 seconds'')
      else Inr ())"

definition control_error :: "string \<Rightarrow> string \<Rightarrow> exn" where
  "control_error = TelemetryConfigurationError"

definition config_error_category :: "exn \<Rightarrow> string" where
  "config_error_category e = (case e of
       TelemetryConfigurationError category m \<Rightarrow> category
     | CrossUserAccessError m \<Rightarrow> ''cross_user_access_denied''
     | _ \<Rightarrow> if is_reauthorization_required e then ''reauthorization_required''
       else if is_onboarding_error e then ''onboarding_error''
       else (case e of TeslaError c m category s r \<Rightarrow> category | _ \<Rightarrow> ''unexpected_error''))"

subsection \<open>Tesla's errors\<close>

text \<open>The word characters of a regular expression over text.\<close>

definition word_char :: "char \<Rightarrow> bool" where
  "word_char c = (let n = code c in is_alnum c \<or> c = CHR ''_'' \<or> n \<in> {170, 178, 179, 181, 185, 186, 188, 189, 190}
     \<or> (192 \<le> n \<and> n \<noteq> 215 \<and> n \<noteq> 247))"

definition vin_char :: "char \<Rightarrow> bool" where
  "vin_char c = (is_alnum c \<and> c \<notin> set ''IOQioq'')"

definition token_char :: "char \<Rightarrow> bool" where
  "token_char c = (is_alnum c \<or> c = CHR ''_'' \<or> c = CHR ''-'')"

text \<open>\<open>\\b\<close> between the character before, if any, and the text after.\<close>

definition boundary :: "char option \<Rightarrow> string \<Rightarrow> bool" where
  "boundary prev rest =
     ((case prev of None \<Rightarrow> False | Some c \<Rightarrow> word_char c) \<noteq> (case rest of [] \<Rightarrow> False | c # cs \<Rightarrow> word_char c))"

text \<open>\<open>_VIN\<close> at the start of the text: how many characters it takes.\<close>

definition match_vin :: "char option \<Rightarrow> string \<Rightarrow> nat option" where
  "match_vin prev s =
     (if boundary prev s \<and> 17 \<le> length s \<and> list_all vin_char (take 17 s) \<and> boundary (Some (s ! 16)) (drop 17 s)
      then Some 17 else None)"

text \<open>The longest non-empty prefix of the token characters at \<open>n\<close> that ends at a word boundary.\<close>

definition last_boundary :: "string \<Rightarrow> nat \<Rightarrow> nat option" where
  "last_boundary s n =
     find (\<lambda>k. boundary (Some (s ! (k - 1))) (drop k s))
       (rev [Suc n..<Suc (n + length (takeWhile token_char (drop n s)))])"

definition match_token :: "char option \<Rightarrow> string \<Rightarrow> nat option" where
  "match_token prev s =
     (if boundary prev s \<and> starts_with ''eyJ'' s
      then let a = 3 + length (takeWhile token_char (drop 3 s))
        in if a < 11 \<or> \<not> starts_with ''.'' (drop a s) then None
           else let b = Suc a + length (takeWhile token_char (drop (Suc a) s))
             in (case (if Suc a < b \<and> starts_with ''.'' (drop b s) then last_boundary s (Suc b) else None) of
                   Some k \<Rightarrow> Some k
                 | None \<Rightarrow> last_boundary s (Suc a))
      else None)"

text \<open>\<open>pattern.sub\<close>, from left to right, with the character before.\<close>

function substitute :: "(char option \<Rightarrow> string \<Rightarrow> nat option) \<Rightarrow> string \<Rightarrow> char option \<Rightarrow> string \<Rightarrow> string" where
  "substitute match new prev [] = []"
| "substitute match new prev (c # cs) = (case match prev (c # cs) of
       Some (Suc k) \<Rightarrow> new @ substitute match new (Some (last (take (Suc k) (c # cs)))) (drop (Suc k) (c # cs))
     | _ \<Rightarrow> c # substitute match new (Some c) cs)"
  by pat_completeness auto

termination
  by (relation "measure (\<lambda>(match, new, prev, s). length s)") auto

definition safe_text :: "string \<Rightarrow> string \<Rightarrow> string" where
  "safe_text vin s =
     take 512 (substitute match_token ''[REDACTED_TOKEN]'' None
       (substitute match_vin ''[REDACTED_VIN]'' None (replace_all vin ''[REDACTED_VIN]'' s)))"

definition safe_error :: "string \<Rightarrow> dict \<Rightarrow> dict" where
  "safe_error vin item = concat (map (\<lambda>k. (case dget item k of
       VStr s \<Rightarrow> [(k, VStr (safe_text vin s))]
     | v \<Rightarrow> if is_number v then [(k, v)] else [])) [''created_at'', ''error_name'', ''error''])"

definition safe_error_summary :: "val \<Rightarrow> string \<Rightarrow> val" where
  "safe_error_summary v vin = (case v of
       VList xs \<Rightarrow> VList (map (\<lambda>x. VDict (safe_error vin (the_dict x))) (filter is_dict (drop (length xs - 20) xs)))
     | _ \<Rightarrow> VList [])"

text \<open>An error of the last fifteen minutes, or one whose time cannot be told.\<close>

definition relevant_error :: "(string \<Rightarrow> int option) \<Rightarrow> int \<Rightarrow> val \<Rightarrow> bool" where
  "relevant_error time now item = (case item of
       VDict d \<Rightarrow> (case dget d ''created_at'' of
           VStr s \<Rightarrow> (case time (replace_all ''Z'' ''+00:00'' s) of
               None \<Rightarrow> True | Some created \<Rightarrow> now - 15 * 60 * 1000000 \<le> created)
         | _ \<Rightarrow> True)
     | _ \<Rightarrow> False)"

definition has_relevant_errors :: "(string \<Rightarrow> int option) \<Rightarrow> int \<Rightarrow> val \<Rightarrow> bool" where
  "has_relevant_errors time now v = (case v of VList xs \<Rightarrow> list_ex (relevant_error time now) xs | _ \<Rightarrow> False)"

subsection \<open>Plans\<close>

definition parse_config :: "dict \<Rightarrow> exn + tele_config option" where
  "parse_config d = (case parse_tesla_config d of
       Inl (ValueError m) \<Rightarrow> Inl (control_error ''invalid_tesla_configuration'' ''Tesla returned an invalid telemetry configuration'')
     | r \<Rightarrow> r)"

definition diff_config :: "telemetry_lib \<Rightarrow> tele_config option \<Rightarrow> tele_config \<Rightarrow> string \<Rightarrow> exn + dict" where
  "diff_config lib current desired profile_id = (case config_diff lib current desired profile_id of
       Inl (ValueError m) \<Rightarrow> Inl (control_error ''invalid_tesla_configuration'' ''Tesla returned an invalid telemetry configuration'')
     | r \<Rightarrow> r)"

definition eligible_for_telemetry :: "telemetry_control \<Rightarrow> string \<Rightarrow> string \<Rightarrow> vehicle_record gateway" where
  "eligible_for_telemetry kc user vid =
     obind (on_db (reading (get_vehicle user vid))) (\<lambda>v.
     if vr_authorization_status v \<noteq> ''active''
     then oraise (control_error ''vehicle_not_active'' ''Tesla no longer returns the selected vehicle'')
     else if vr_virtual_key_status v \<noteq> ''paired''
     then oraise (control_error ''virtual_key_required'' ''Pair the application Virtual Key before configuration'')
     else obind (on_db (reading (get_connection (me_store (kc_env kc)) user))) (\<lambda>conn.
       if \<not> {''vehicle_device_data'', ''vehicle_location''} \<subseteq> set (token_scopes (co_tokens conn))
       then oraise (control_error ''missing_tesla_scope'' ''Reconnect Tesla with the required telemetry scopes'')
       else oret v))"

definition capability_profile :: "telemetry_control \<Rightarrow> string \<Rightarrow> vehicle_record \<Rightarrow> (fleet_status \<times> telemetry_profile) gateway" where
  "capability_profile kc user v =
     obind (per_user (kc_env kc) user (\<lambda>token base.
       fleet_fleet_status (me_net (kc_env kc)) (me_fleet (kc_env kc)) token base [vr_vin v])) (\<lambda>statuses.
     case map_of statuses (vr_vin v) of
       None \<Rightarrow> oraise (control_error ''fleet_status_missing_vehicle'' ''Tesla fleet_status omitted the selected vehicle'')
     | Some st \<Rightarrow>
         if \<not> supports_broad_profile (fs_telemetry_version st)
         then oraise (control_error ''telemetry_client_upgrade_required''
           ''The actual Fleet Telemetry client reported by Tesla must be 1.0.0 or later'')
         else obind (olift (broad_profile (kc_catalog kc) (kc_baseline kc) (kc_profile kc) (fs_telemetry_version st))) (\<lambda>p.
           oret (st, p)))"

definition desired_config :: "telemetry_control \<Rightarrow> telemetry_profile \<Rightarrow> tele_config" where
  "desired_config kc p = build_config (kc_trust kc) p"

definition desired_hash :: "telemetry_control \<Rightarrow> telemetry_profile \<Rightarrow> string" where
  "desired_hash kc p = telemetry_config_hash (kc_lib kc) p (kc_trust kc)"

definition read_config :: "telemetry_control \<Rightarrow> string \<Rightarrow> string \<Rightarrow> dict gateway" where
  "read_config kc user vin = per_user (kc_env kc) user (\<lambda>token base.
     fleet_telemetry_config_get (me_net (kc_env kc)) (me_fleet (kc_env kc)) token base vin)"

definition read_errors :: "telemetry_control \<Rightarrow> string \<Rightarrow> string \<Rightarrow> val gateway" where
  "read_errors kc user vin = per_user (kc_env kc) user (\<lambda>token base.
     fleet_telemetry_errors (me_net (kc_env kc)) (me_fleet (kc_env kc)) token base vin)"

subsection \<open>Waiting for the vehicle\<close>

primrec wait_until_synced :: "nat \<Rightarrow> telemetry_control \<Rightarrow> string \<Rightarrow> vehicle_record \<Rightarrow> tele_config \<Rightarrow> dict gateway" where
  "wait_until_synced 0 kc user v desired =
     oraise (control_error ''sync_timeout'' ''Tesla did not report the expected synchronized configuration'')"
| "wait_until_synced (Suc left) kc user v desired =
     obind (read_config kc user (vr_vin v)) (\<lambda>response.
     obind (olift (parse_config response)) (\<lambda>current.
     obind (olift (diff_config (kc_lib kc) current desired (tp_profile_id (kc_trust kc)))) (\<lambda>difference.
     if dget response ''synced'' = VBool True \<and> dget difference ''status'' = VStr ''in_sync''
     then obind (read_errors kc user (vr_vin v)) (\<lambda>errors.
       obind (now_of (kc_env kc)) (\<lambda>now.
       if has_relevant_errors (kc_time kc) now errors
       then oraise (control_error ''tesla_reported_errors'' ''Tesla reports telemetry configuration errors'')
       else oret [(''synced'', VBool True), (''errors'', safe_error_summary errors (vr_vin v))]))
     else if 0 < left then obind (pause (kc_sync_delay kc)) (\<lambda>_. wait_until_synced left kc user v desired)
     else wait_until_synced left kc user v desired)))"

subsection \<open>Changes, under audit\<close>

definition audited_change ::
  "telemetry_control \<Rightarrow> string \<Rightarrow> string \<Rightarrow> string \<Rightarrow> string option \<Rightarrow> string \<Rightarrow> 'a gateway \<Rightarrow> 'a gateway" where
  "audited_change kc user vid operation desired source body =
     obind (draw (kc_env kc)) (\<lambda>a.
     let audit_id = ''tca_'' @ a; store = me_store (kc_env kc)
     in obind (now_of (kc_env kc)) (\<lambda>now.
        obind (on_db (begin_config_audit store audit_id now user vid operation desired source)) (\<lambda>_.
        obind (catch_all body (\<lambda>e.
          obind (on_db (complete_config_audit store audit_id ''failed'' (Some (config_error_category e)))) (\<lambda>_. oraise e))) (\<lambda>x.
        obind (on_db (complete_config_audit store audit_id ''succeeded'' None)) (\<lambda>_. oret x)))))"

definition synced_state :: "telemetry_control \<Rightarrow> string \<Rightarrow> telemetry_profile \<Rightarrow> bool \<Rightarrow> config_state" where
  "synced_state kc vid p opt_in =
     \<lparr>cs_vehicle_id = vid, cs_profile_version = Some (fp_version p), cs_config_hash = Some (desired_hash kc p),
      cs_field_config_hash = Some (field_config_hash (kc_lib kc) p), cs_trust_profile_id = Some (tp_profile_id (kc_trust kc)),
      cs_trust_profile_hash = Some (tp_ca_hash (kc_trust kc)), cs_status = ''synced'', cs_opt_in = opt_in\<rparr>"

text \<open>Waiting, then recording the configuration as synchronized.\<close>

definition verify_and_save ::
  "telemetry_control \<Rightarrow> string \<Rightarrow> string \<Rightarrow> vehicle_record \<Rightarrow> telemetry_profile \<Rightarrow> bool \<Rightarrow> dict gateway" where
  "verify_and_save kc user vid v p opt_in =
     obind (wait_until_synced (nat (kc_sync_attempts kc)) kc user v (desired_config kc p)) (\<lambda>verified.
     obind (on_db (save_telemetry_configuration (me_store (kc_env kc)) user vid (synced_state kc vid p opt_in))) (\<lambda>_.
     oret verified))"

definition synced_document :: "string \<Rightarrow> string \<Rightarrow> string \<Rightarrow> dict \<Rightarrow> dict" where
  "synced_document st vid digest verified =
     [(''status'', VStr st), (''vehicle_id'', VStr vid), (''config_hash'', VStr digest), (''tesla'', VDict verified)]"

definition control_apply ::
  "telemetry_control \<Rightarrow> user_context \<Rightarrow> string \<Rightarrow> string \<Rightarrow> bool \<Rightarrow> bool \<Rightarrow> string \<Rightarrow> dict gateway" where
  "control_apply kc ctx vid expected confirm opt_in source =
     (if \<not> confirm
      then oraise (control_error ''confirmation_required'' ''Explicit vehicle configuration approval is required'')
      else
        let user = ctx_user_id ctx; env = kc_env kc
        in obind (eligible_for_telemetry kc user vid) (\<lambda>v.
           obind (capability_profile kc user v) (\<lambda>(st, p).
           if \<not> ascii expected then oraise TypeError
           else if expected \<noteq> desired_hash kc p
           then oraise (control_error ''stale_plan'' ''The telemetry plan changed; inspect it again before applying'')
           else obind (audited_change kc user vid ''apply'' (Some (desired_hash kc p)) source
                (obind (per_user env user (\<lambda>token base. fleet_telemetry_config_create (me_net env) (me_commands env) token base
                   (config_request_payload [vr_vin v] (desired_config kc p)))) (\<lambda>response.
                 if (is_dict (dget response ''skipped_vehicles'') \<or> is_list (dget response ''skipped_vehicles''))
                   \<and> truthy (dget response ''skipped_vehicles'')
                 then oraise (control_error ''vehicle_skipped'' ''Tesla did not accept the selected vehicle configuration'')
                 else verify_and_save kc user vid v p opt_in))) (\<lambda>verified.
             oret (synced_document ''synced'' vid (desired_hash kc p) verified)))))"

definition control_verify :: "telemetry_control \<Rightarrow> user_context \<Rightarrow> string \<Rightarrow> dict gateway" where
  "control_verify kc ctx vid =
     (let user = ctx_user_id ctx
      in obind (eligible_for_telemetry kc user vid) (\<lambda>v.
         obind (capability_profile kc user v) (\<lambda>(st, p).
         obind (on_db (reading (get_telemetry_configuration user vid))) (\<lambda>prior.
         obind (audited_change kc user vid ''verify'' (Some (desired_hash kc p)) ''operator-verify''
           (verify_and_save kc user vid v p (cs_opt_in prior))) (\<lambda>verified.
         oret (synced_document ''verified'' vid (desired_hash kc p) verified))))))"

definition removed_state :: "string \<Rightarrow> config_state" where
  "removed_state vid = \<lparr>cs_vehicle_id = vid, cs_profile_version = None, cs_config_hash = None, cs_field_config_hash = None,
     cs_trust_profile_id = None, cs_trust_profile_hash = None, cs_status = ''removed'', cs_opt_in = False\<rparr>"

definition control_remove :: "telemetry_control \<Rightarrow> user_context \<Rightarrow> string \<Rightarrow> bool \<Rightarrow> string \<Rightarrow> dict gateway" where
  "control_remove kc ctx vid confirm source =
     (if \<not> confirm then oraise (control_error ''confirmation_required'' ''Explicit telemetry removal approval is required'')
      else
        let user = ctx_user_id ctx; env = kc_env kc
        in obind (eligible_for_telemetry kc user vid) (\<lambda>v.
           obind (audited_change kc user vid ''remove'' None source
             (obind (per_user env user (\<lambda>token base.
                fleet_telemetry_config_delete (me_net env) (me_fleet env) token base (vr_vin v))) (\<lambda>_.
              on_db (save_telemetry_configuration (me_store env) user vid (removed_state vid))))) (\<lambda>_.
           oret [(''status'', VStr ''removed''), (''vehicle_id'', VStr vid)])))"

definition control_repair :: "telemetry_control \<Rightarrow> user_context \<Rightarrow> string \<Rightarrow> string \<Rightarrow> bool \<Rightarrow> dict gateway" where
  "control_repair kc ctx vid expected confirm =
     obind (on_db (reading (get_telemetry_configuration (ctx_user_id ctx) vid))) (\<lambda>state.
     control_apply kc ctx vid expected confirm (cs_opt_in state) ''operator-repair'')"

subsection \<open>Reconciling the transport, the canary first\<close>

text \<open>One vehicle: the entry of the report, and whether its configuration is in sync.\<close>

definition reconcile_vehicle :: "telemetry_control \<Rightarrow> user_context \<Rightarrow> vehicle_record \<Rightarrow> (dict \<times> bool) gateway" where
  "reconcile_vehicle kc ctx v =
     (let user = ctx_user_id ctx; vid = vr_vehicle_id v;
          entry = (\<lambda>s. [(''vehicle_id'', VStr vid), (''status'', VStr s)])
      in obind (on_db (reading (get_telemetry_configuration user vid))) (\<lambda>state.
         obind (capability_profile kc user v) (\<lambda>(st, p).
         if \<not> cs_opt_in state then oret (entry ''opt_in_required'', False)
         else if cs_field_config_hash state \<noteq> Some (field_config_hash (kc_lib kc) p)
         then oret (entry ''field_drift_blocked'', False)
         else catch_all (obind (control_apply kc ctx vid (desired_hash kc p) True True ''transport-reconciler'') (\<lambda>d. oret (d, True)))
           (\<lambda>e. if (case e of CrossUserAccessError m \<Rightarrow> True | _ \<Rightarrow> False) \<or> is_onboarding_error e \<or> is_reauthorization_required e
                then oraise e
                else oret (entry ''failed'' @ [(''error_category'', VStr (config_error_category e))], False)))))"

fun reconcile_rest :: "telemetry_control \<Rightarrow> user_context \<Rightarrow> vehicle_record list \<Rightarrow> (dict \<times> bool) list gateway" where
  "reconcile_rest kc ctx [] = oret []"
| "reconcile_rest kc ctx (v # vs) =
     obind (reconcile_vehicle kc ctx v) (\<lambda>r. obind (reconcile_rest kc ctx vs) (\<lambda>rs. oret (r # rs)))"

definition reconcile_transport :: "telemetry_control \<Rightarrow> user_context \<Rightarrow> string \<Rightarrow> dict gateway" where
  "reconcile_transport kc ctx canary_id =
     obind (on_db (reading (list_vehicle_records (ctx_user_id ctx)))) (\<lambda>all.
     let vs = filter (\<lambda>v. vr_authorization_status v = ''active'') all
     in case map_of (rev (map (\<lambda>v. (vr_vehicle_id v, v)) vs)) canary_id of
          None \<Rightarrow> oraise (control_error ''invalid_canary'' ''Canary vehicle is not eligible'')
        | Some canary \<Rightarrow>
            obind (reconcile_vehicle kc ctx canary) (\<lambda>first.
            obind (if snd first then reconcile_rest kc ctx (filter (\<lambda>v. vr_vehicle_id v \<noteq> canary_id) vs) else oret []) (\<lambda>rest.
            let results = first # rest;
                ready = (length results = length (filter (\<lambda>v. vr_vehicle_id v \<noteq> canary_id) vs) + 1 \<and> list_all snd results)
            in oret [(''status'', VStr (if ready then ''ready_for_server_cutover'' else ''blocked'')),
                (''trust_profile_id'', VStr (tp_profile_id (kc_trust kc))), (''trust_profile_hash'', VStr (tp_ca_hash (kc_trust kc))),
                (''vehicles'', VList (map (\<lambda>r. VDict (fst r)) results))])))"

subsection \<open>Inspecting\<close>

definition state_document :: "config_state \<Rightarrow> dict" where
  "state_document s =
     [(''status'', VStr (cs_status s)), (''profile_version'', opt_str (cs_profile_version s)),
      (''config_hash'', opt_str (cs_config_hash s)), (''field_config_hash'', opt_str (cs_field_config_hash s)),
      (''trust_profile_id'', opt_str (cs_trust_profile_id s)), (''trust_profile_hash'', opt_str (cs_trust_profile_hash s)),
      (''transport_maintenance_opt_in'', VBool (cs_opt_in s))]"

definition capability_status :: "fleet_status \<Rightarrow> vehicle_record \<Rightarrow> string" where
  "capability_status st stored =
     (if vr_telemetry_version stored \<noteq> fs_telemetry_version st then ''stored_fleet_status_stale''
      else if version_at_least (fs_firmware_version st) (2026, 26, 6) \<and> \<not> version_at_least (fs_telemetry_version st) (1, 3, 0)
      then ''firmware_client_capability_mismatch''
      else if \<not> version_at_least (fs_telemetry_version st) (1, 3, 0) then ''client_capability_limited'' else ''healthy'')"

definition has_include_fields :: "(string \<times> tele_field) list \<Rightarrow> bool" where
  "has_include_fields fs = list_ex (\<lambda>(n, f). tf_include f \<noteq> []) fs"

definition capability_document ::
  "telemetry_control \<Rightarrow> fleet_status \<Rightarrow> telemetry_profile \<Rightarrow> vehicle_record \<Rightarrow> tele_config option \<Rightarrow> dict" where
  "capability_document kc st p v current =
     [(''vehicle_firmware'', opt_str (fs_firmware_version st)), (''fleet_telemetry_client'', opt_str (fs_telemetry_version st)),
      (''stored_fleet_telemetry_client'', opt_str (vr_telemetry_version v)),
      (''telemetry_receiver_version'', VStr (kc_receiver_version kc)), (''minimum_client_for_include_fields'', VStr ''1.3.0''),
      (''include_fields_supported'', VBool (\<not> list_ex (\<lambda>(k, r). ends_with ''.include_fields'' k) (fp_capability_omissions p))),
      (''include_fields_requested'', VBool (has_include_fields (fp_fields p))),
      (''tesla_config_contains_include_fields'', VBool (case current of None \<Rightarrow> False | Some c \<Rightarrow> has_include_fields (tc_fields c))),
      (''status'', VStr (capability_status st v)),
      (''ingestion_evidence'', VStr ''Query telemetry_capability_diagnostics to compare recent incoming connection metadata and synchronized payloads.'')]"

definition control_inspect :: "telemetry_control \<Rightarrow> user_context \<Rightarrow> string \<Rightarrow> dict gateway" where
  "control_inspect kc ctx vid =
     (let user = ctx_user_id ctx; trust = kc_trust kc
      in obind (eligible_for_telemetry kc user vid) (\<lambda>v.
         obind (capability_profile kc user v) (\<lambda>(st, p).
         obind (read_config kc user (vr_vin v)) (\<lambda>response.
         obind (olift (parse_config response)) (\<lambda>current.
         obind (read_errors kc user (vr_vin v)) (\<lambda>errors.
         obind (on_db (reading (get_telemetry_configuration user vid))) (\<lambda>state.
         obind (olift (diff_config (kc_lib kc) current (desired_config kc p) (tp_profile_id trust))) (\<lambda>difference.
         oret
           [(''vehicle_id'', VStr (vr_vehicle_id v)), (''display_name'', opt_str (vr_display_name v)),
            (''profile_version'', VStr (fp_version p)), (''schema_version'', VStr (fp_schema_version p)),
            (''desired_config_hash'', VStr (desired_hash kc p)), (''field_config_hash'', VStr (field_config_hash (kc_lib kc) p)),
            (''trust_profile'', VDict [(''id'', VStr (tp_profile_id trust)), (''sha256'', VStr (tp_ca_hash trust)),
               (''hostname'', VStr (tp_hostname trust)), (''port'', VInt (tp_port trust))]),
            (''field_count'', VInt (int (length (fp_fields p)))), (''baseline_comparison'', VDict (fp_comparison p)),
            (''intentional_exclusions'', VDict (map (\<lambda>(k, r). (k, VStr r)) (fp_excluded p))),
            (''capability_omissions'', VDict (map (\<lambda>(k, r). (k, VStr r)) (fp_capability_omissions p))),
            (''capability'', VDict (capability_document kc st p v current)),
            (''tesla'', VDict [(''synced'', dget response ''synced''), (''limit_reached'', dget response ''limit_reached''),
               (''key_paired'', dget response ''key_paired''), (''update_available'', dget response ''update_available''),
               (''errors'', safe_error_summary errors (vr_vin v))]),
            (''persisted'', VDict (state_document state)), (''diff'', VDict difference)]))))))))"

end
