(* ===== verification/TelemetryConfigGuarantees.thy ===== *)
theory TelemetryConfigGuarantees
  imports TelemetryConfig
begin

text \<open>
  What the comparison of telemetry configurations decides, that a configuration Tesla echoes is in
  sync, and that the profile decides every field of the catalog exactly once.
\<close>

subsection \<open>Lookups in sorted documents\<close>

lemma map_of_filter_key: "map_of xs k = (case filter (\<lambda>p. fst p = k) xs of [] \<Rightarrow> None | p # ps \<Rightarrow> Some (snd p))"
  by (induction xs) auto

lemma map_of_sorted_items: "map_of (sorted_items xs) k = map_of xs k"
  by (simp add: map_of_filter_key [of "sort_key fst xs"] map_of_filter_key [of xs] sort_key_stable sorted_items_def)

lemma keys_sorted_items: "set (keys (sorted_items xs)) = set (keys xs)"
  by (simp add: sorted_items_def)

lemma map_of_fields_payload: "map_of (fields_payload fs) n = map_option (\<lambda>f. VDict (field_payload f)) (map_of fs n)"
  by (induction fs) (auto simp: fields_payload_def)

lemma keys_fields_payload: "keys (fields_payload fs) = keys fs"
  by (auto simp: fields_payload_def)

lemma py_eq_refl: "py_eq v v"
  by (simp add: py_eq_def)

lemma py_eq_simps:
  "py_eq (VStr s) (VStr t) \<longleftrightarrow> s = t" "py_eq (VBool b) (VBool c) \<longleftrightarrow> b = c" "py_eq (VInt i) (VInt j) \<longleftrightarrow> i = j"
  "py_eq (opt_str x) (opt_str y) \<longleftrightarrow> x = y"
  by (auto simp: py_eq_def opt_str_def split: option.split)

lemma py_eq_texts: "py_eq (VList (map VStr xs)) (VList (map VStr ys)) \<longleftrightarrow> xs = ys"
proof -
  have "map comparable (map VStr zs) = map VStr zs" for zs by (simp add: comp_def)
  moreover have "map VStr xs = map VStr ys \<longleftrightarrow> xs = ys" by (rule inj_map_eq_map) (simp add: inj_on_def)
  ultimately show ?thesis by (simp add: py_eq_def del: map_map)
qed

subsection \<open>In sync\<close>

definition same_field :: "tele_field option \<Rightarrow> tele_field option \<Rightarrow> bool" where
  "same_field = rel_option (\<lambda>f g. py_eq (VDict (field_payload f)) (VDict (field_payload g)))"

text \<open>What the comparison sees of the certificates: the digest, their number and whether all are authorities.\<close>

definition certificate_view :: "telemetry_lib \<Rightarrow> tele_config \<Rightarrow> (string \<times> nat \<times> bool) option" where
  "certificate_view lib c = (case rbind (encode_ascii (tc_ca c)) (tl_certificates lib) of
       Inl e \<Rightarrow> None
     | Inr cs \<Rightarrow> Some (ca_digest lib cs, length cs, list_all (\<lambda>x. ct_ca x = Some True) cs))"

definition same_configuration :: "telemetry_lib \<Rightarrow> tele_config \<Rightarrow> tele_config \<Rightarrow> bool" where
  "same_configuration lib c d \<longleftrightarrow> tc_hostname c = tc_hostname d \<and> py_eq (tc_port c) (tc_port d) \<and>
     certificate_view lib c = certificate_view lib d \<and> sort (tc_alert_types c) = sort (tc_alert_types d) \<and>
     tc_delivery c = tc_delivery d \<and> (\<forall>n. same_field (map_of (tc_fields c) n) (map_of (tc_fields d) n))"

lemma field_changes_empty:
  "field_changes cur des = [] \<longleftrightarrow> (\<forall>n. rel_option py_eq (map_of cur n) (map_of des n))"
proof -
  have "field_changes cur des = [] \<longleftrightarrow> set (keys des) \<subseteq> set (keys cur) \<and> set (keys cur) \<subseteq> set (keys des) \<and>
      (\<forall>k \<in> set (keys cur) \<inter> set (keys des). py_eq (dget cur k) (dget des k))"
  proof -
    have e: "sort xs = [] \<longleftrightarrow> xs = []" for xs :: "string list" by (metis set_empty set_sort)
    show ?thesis by (auto simp: field_changes_def Let_def e filter_empty_conv)
  qed
  also have "\<dots> \<longleftrightarrow> (\<forall>n. rel_option py_eq (map_of cur n) (map_of des n))"
  proof (intro iffI allI)
    fix n
    assume *: "set (keys des) \<subseteq> set (keys cur) \<and> set (keys cur) \<subseteq> set (keys des) \<and>
      (\<forall>k \<in> set (keys cur) \<inter> set (keys des). py_eq (dget cur k) (dget des k))"
    show "rel_option py_eq (map_of cur n) (map_of des n)"
    proof (cases "n \<in> set (keys cur)")
      case True
      with * have "n \<in> set (keys des)" by blast
      with True obtain v w where "map_of cur n = Some v" "map_of des n = Some w" by (metis map_of_eq_None_iff not_None_eq set_map)
      with * True \<open>n \<in> set (keys des)\<close> show ?thesis by (force simp: dget_def)
    next
      case False
      with * have "n \<notin> set (keys des)" by blast
      with False have "map_of cur n = None" "map_of des n = None" by (simp_all add: map_of_eq_None_iff)
      then show ?thesis by simp
    qed
  next
    assume *: "\<forall>n. rel_option py_eq (map_of cur n) (map_of des n)"
    have k: "n \<in> set (keys cur) \<longleftrightarrow> n \<in> set (keys des)" for n
      using * [rule_format, of n] map_of_eq_None_iff [of cur n] map_of_eq_None_iff [of des n]
      by (cases "map_of cur n"; cases "map_of des n") auto
    have "py_eq (dget cur n) (dget des n)" if "n \<in> set (keys cur)" for n
      using * [rule_format, of n] that map_of_eq_None_iff [of cur n]
      by (cases "map_of cur n"; cases "map_of des n") (auto simp: dget_def)
    with k show "set (keys des) \<subseteq> set (keys cur) \<and> set (keys cur) \<subseteq> set (keys des) \<and>
      (\<forall>k \<in> set (keys cur) \<inter> set (keys des). py_eq (dget cur k) (dget des k))" by blast
  qed
  finally show ?thesis .
qed

lemma safe_document_eq_Inr:
  "safe_config_document lib c tid = Inr d \<longleftrightarrow> (\<exists>cs. rbind (encode_ascii (tc_ca c)) (tl_certificates lib) = Inr cs \<and> cs \<noteq> [] \<and>
     d = [(''hostname'', VStr (tc_hostname c)), (''port'', tc_port c),
       (''ca'', VDict [(''profile_id'', opt_str tid), (''sha256'', VStr (ca_digest lib cs)),
          (''certificate_count'', VInt (int (length cs))), (''contains_non_ca'', VBool (list_ex (\<lambda>x. ct_ca x \<noteq> Some True) cs))]),
       (''fields'', VDict (sorted_items (fields_payload (tc_fields c)))),
       (''alert_types'', VList (map VStr (sort (tc_alert_types c)))), (''delivery_policy'', opt_str (tc_delivery c))])"
  unfolding safe_config_document_def
  by (cases "rbind (encode_ascii (tc_ca c)) (tl_certificates lib)") (auto simp: inr_simps result_simps)

lemma changes_empty:
  assumes "safe_config_document lib c None = Inr cur" and "safe_config_document lib d (Some tid) = Inr des"
  shows "transport_changes cur des @ field_changes (the_dict (dget cur ''fields'')) (the_dict (dget des ''fields'')) = [] \<longleftrightarrow>
    same_configuration lib c d"
proof -
  from assms(1) obtain cs where cs: "rbind (encode_ascii (tc_ca c)) (tl_certificates lib) = Inr cs" "cs \<noteq> []" and
    cur: "cur = [(''hostname'', VStr (tc_hostname c)), (''port'', tc_port c),
       (''ca'', VDict [(''profile_id'', opt_str None), (''sha256'', VStr (ca_digest lib cs)),
          (''certificate_count'', VInt (int (length cs))), (''contains_non_ca'', VBool (list_ex (\<lambda>x. ct_ca x \<noteq> Some True) cs))]),
       (''fields'', VDict (sorted_items (fields_payload (tc_fields c)))),
       (''alert_types'', VList (map VStr (sort (tc_alert_types c)))), (''delivery_policy'', opt_str (tc_delivery c))]"
    unfolding safe_document_eq_Inr by blast
  from assms(2) obtain ds where ds: "rbind (encode_ascii (tc_ca d)) (tl_certificates lib) = Inr ds" "ds \<noteq> []" and
    des: "des = [(''hostname'', VStr (tc_hostname d)), (''port'', tc_port d),
       (''ca'', VDict [(''profile_id'', opt_str (Some tid)), (''sha256'', VStr (ca_digest lib ds)),
          (''certificate_count'', VInt (int (length ds))), (''contains_non_ca'', VBool (list_ex (\<lambda>x. ct_ca x \<noteq> Some True) ds))]),
       (''fields'', VDict (sorted_items (fields_payload (tc_fields d)))),
       (''alert_types'', VList (map VStr (sort (tc_alert_types d)))), (''delivery_policy'', opt_str (tc_delivery d))]"
    unfolding safe_document_eq_Inr by blast
  have nonca: "list_ex (\<lambda>x. ct_ca x \<noteq> Some True) xs \<longleftrightarrow> \<not> list_all (\<lambda>x. ct_ca x = Some True) xs" for xs
    by (simp add: list_ex_iff list_all_iff)
  have ca: "py_eq (VDict [(''sha256'', VStr a), (''certificate_count'', VInt m), (''contains_non_ca'', VBool p)])
      (VDict [(''sha256'', VStr b), (''certificate_count'', VInt n), (''contains_non_ca'', VBool q)]) \<longleftrightarrow> a = b \<and> m = n \<and> p = q"
    for a b m n p q
    by (auto simp: py_eq_def)
  have fields: "field_changes (the_dict (dget cur ''fields'')) (the_dict (dget des ''fields'')) = [] \<longleftrightarrow>
      (\<forall>n. same_field (map_of (tc_fields c) n) (map_of (tc_fields d) n))"
    by (simp add: field_changes_empty cur des dget_def map_of_sorted_items map_of_fields_payload same_field_def option.rel_map)
  have transport: "transport_changes cur des = [] \<longleftrightarrow> tc_hostname c = tc_hostname d \<and> py_eq (tc_port c) (tc_port d) \<and>
      certificate_view lib c = certificate_view lib d \<and> sort (tc_alert_types c) = sort (tc_alert_types d) \<and>
      tc_delivery c = tc_delivery d"
    by (auto simp: transport_changes_def transport_value_def cur des dget_def py_eq_simps py_eq_texts ca certificate_view_def cs(1) ds(1)
      nonca)
  show ?thesis using fields transport unfolding same_configuration_def by simp
qed

lemma diff_status:
  assumes "config_diff lib (Some c) desired tid = Inr d"
  shows "dget d ''status'' = VStr ''in_sync'' \<longleftrightarrow> same_configuration lib c desired"
proof -
  from assms obtain cur des where "safe_config_document lib c None = Inr cur" "safe_config_document lib desired (Some tid) = Inr des"
    and d: "d = [(''status'', VStr (if transport_changes cur des @ field_changes (the_dict (dget cur ''fields'')) (the_dict (dget des ''fields'')) = []
        then ''in_sync'' else ''drifted'')),
      (''changes'', VDict (transport_changes cur des @ field_changes (the_dict (dget cur ''fields'')) (the_dict (dget des ''fields''))))]"
    by (auto simp: config_diff_def inr_simps Let_def)
  from changes_empty [OF this(1,2)] show ?thesis unfolding d dget_def by simp
qed

lemma diff_absent: "config_diff lib None desired tid = Inr d \<Longrightarrow> dget d ''status'' \<noteq> VStr ''in_sync''"
  by (auto simp: config_diff_def inr_simps dget_def)

text \<open>C6: The comparison reports a vehicle as in sync exactly when its configuration agrees with the desired one in
  host, port, certificates, alert types and delivery policy, and field by field, whatever the order of the fields.\<close>

theorem in_sync_iff:
  assumes "config_diff lib current desired tid = Inr d"
  shows "dget d ''status'' = VStr ''in_sync'' \<longleftrightarrow> (\<exists>c. current = Some c \<and> same_configuration lib c desired)"
  using assms diff_status diff_absent by (cases current) auto

subsection \<open>A configuration that Tesla echoes\<close>

definition delta_ok :: "val \<Rightarrow> bool" where
  "delta_ok v = (v = VNone \<or> is_number v \<and> \<not> is_bool v)"

definition config_ok :: "tele_config \<Rightarrow> bool" where
  "config_ok c \<longleftrightarrow> list_all (\<lambda>(n, f). delta_ok (tf_delta f)) (tc_fields c) \<and>
     list_all (\<lambda>a. a \<in> set alert_names) (tc_alert_types c) \<and> is_int (tc_port c)"

lemma parse_field_payload:
  assumes "delta_ok (tf_delta f)"
  shows "parse_field (VDict (field_payload f)) = Inr f"
proof -
  have texts: "list_all is_str (map VStr xs)" "map the_str (map VStr xs) = xs" for xs :: "string list"
    by (induction xs) simp_all
  show ?thesis
    using assms texts(1) [of "tf_include f"] texts(2) [of "tf_include f"]
    by (cases "tf_delta f"; cases "tf_resend f"; cases "tf_include f = []")
      (simp_all add: parse_field_def field_payload_def dget_def dget_default_def delta_ok_def field_int_def)
qed

lemma rmap_map: "(\<And>x. x \<in> set xs \<Longrightarrow> f (g x) = Inr (h x)) \<Longrightarrow> rmap f (map g xs) = Inr (map h xs)"
  by (induction xs) (simp_all add: result_simps)

lemma parse_fields_payload:
  assumes "list_all (\<lambda>(n, f). delta_ok (tf_delta f)) fs"
  shows "rmap (\<lambda>(n, v). rbind (parse_field v) (\<lambda>f. Inr (n, f))) (fields_payload fs) = Inr fs"
proof -
  have "rmap (\<lambda>(n, v). rbind (parse_field v) (\<lambda>f. Inr (n, f))) (fields_payload fs) = Inr (map (\<lambda>x. x) fs)"
    unfolding fields_payload_def
  proof (rule rmap_map)
    fix x
    assume "x \<in> set fs"
    with assms have "delta_ok (tf_delta (snd x))" by (auto simp: list_all_iff)
    then show "(case case x of (n, f) \<Rightarrow> (n, VDict (field_payload f)) of (n, v) \<Rightarrow> rbind (parse_field v) (\<lambda>f. Inr (n, f))) = Inr x"
      by (cases x) (simp add: parse_field_payload result_simps)
  qed
  then show ?thesis by simp
qed

lemma parse_config_payload:
  assumes "config_ok c"
  shows "parse_tesla_config [(''config'', VDict (config_payload c))] = Inr (Some (c\<lparr>tc_exp := None\<rparr>))"
proof -
  have alerts: "list_all known_alert (map VStr (tc_alert_types c))" "map the_str (map VStr xs) = xs" for xs
    using assms by (auto simp: config_ok_def list_all_iff known_alert_def comp_def)
  have fs: "rmap (\<lambda>(n, v). rbind (parse_field v) (\<lambda>f. Inr (n, f))) (fields_payload (tc_fields c)) = Inr (tc_fields c)"
    and port: "is_int (tc_port c)"
    using assms parse_fields_payload by (auto simp: config_ok_def)
  show ?thesis
    using alerts(1) port
    by (cases "tc_alert_types c = []"; cases "tc_exp c"; cases "tc_delivery c")
      (simp_all add: parse_tesla_config_def config_payload_def dget_def dget_default_def fs field_str_def alerts(2) result_simps
        del: map_map)
qed

lemma same_configuration_refl: "same_configuration lib (c\<lparr>tc_exp := None\<rparr>) c"
proof -
  have "same_field x x" for x by (cases x) (simp_all add: same_field_def py_eq_refl)
  then show ?thesis by (simp add: same_configuration_def py_eq_refl certificate_view_def)
qed

lemma echo_in_sync:
  assumes "config_ok c" and "safe_config_document lib c (Some tid) = Inr des"
  shows "\<exists>cur d. parse_tesla_config [(''config'', VDict (config_payload c))] = Inr (Some cur) \<and>
    config_diff lib (Some cur) c tid = Inr d \<and> dget d ''status'' = VStr ''in_sync''"
proof -
  let ?cur = "c\<lparr>tc_exp := None\<rparr>"
  from assms(2) obtain cur where cur: "safe_config_document lib ?cur None = Inr cur"
    unfolding safe_document_eq_Inr by auto
  have "\<exists>d. config_diff lib (Some ?cur) c tid = Inr d" using cur assms(2) by (simp add: config_diff_def Let_def result_simps)
  then obtain d where "config_diff lib (Some ?cur) c tid = Inr d" by blast
  moreover from diff_status [OF this] same_configuration_refl have "dget d ''status'' = VStr ''in_sync''" by blast
  ultimately show ?thesis using parse_config_payload [OF assms(1)] by blast
qed

subsection \<open>The profile decides every field\<close>

lemma keys_dict_merge: "set (keys (dict_merge a b)) = set (keys a) \<union> set (keys b)"
proof (induction b arbitrary: a)
  case (Cons x b)
  show ?case
  proof (cases x)
    case (Pair k v)
    have "set (keys (AList.update k v a)) = insert k (set (keys a))" by (auto simp: update_keys)
    then show ?thesis unfolding Pair dict_merge_Cons Cons.IH by simp
  qed
qed simp

lemma load_field_eq_Inr:
  assumes "load_field catalog rr name raw = Inr (f, reason)"
  shows "name \<in> set (map fd_name catalog)" and "delta_ok (tf_delta f)"
proof -
  from assms show "name \<in> set (map fd_name catalog)"
    by (auto simp: load_field_def split: option.split_asm dest!: map_of_SomeD)
  from assms have "\<not> bad_delta (tf_delta f)"
    by (auto simp: load_field_def inr_simps split: option.split_asm)
  then show "delta_ok (tf_delta f)"
    by (cases "tf_delta f") (auto simp: delta_ok_def bad_delta_def)
qed

lemma load_section_eq_Inr:
  assumes "load_field_section document s catalog rr = Inr xs"
  shows "set (keys xs) \<subseteq> set (map fd_name catalog)" and "list_all (\<lambda>(n, f, r). delta_ok (tf_delta f)) xs"
proof -
  from assms obtain vs where vs: "rmap (\<lambda>(name, raw). rbind (load_field catalog rr name raw) (\<lambda>r. Inr (name, r))) vs = Inr xs"
    by (auto simp: load_field_section_def inr_simps)
  have each: "n \<in> set (map fd_name catalog) \<and> delta_ok (tf_delta f)" if x: "(n, f, r) \<in> set xs" for n f r
  proof -
    from rmap_Inr_set [OF vs x] obtain raw where "load_field catalog rr n raw = Inr (f, r)" by (auto simp: inr_simps)
    from load_field_eq_Inr [OF this] show ?thesis by blast
  qed
  show "set (keys xs) \<subseteq> set (map fd_name catalog)"
  proof
    fix n
    assume "n \<in> set (keys xs)"
    then obtain f r where "(n, f, r) \<in> set xs" by auto
    with each show "n \<in> set (map fd_name catalog)" by blast
  qed
  show "list_all (\<lambda>(n, f, r). delta_ok (tf_delta f)) xs" unfolding list_all_iff using each by blast
qed

lemma known_alert_str: "\<forall>x \<in> set xs. known_alert x \<Longrightarrow> \<forall>x \<in> set xs. the_str x \<in> set alert_names"
proof
  fix x
  assume "\<forall>x \<in> set xs. known_alert x" and "x \<in> set xs"
  then have "known_alert x" by blast
  then show "the_str x \<in> set alert_names" by (cases x) (simp_all add: known_alert_def)
qed

text \<open>What a profile was built from.\<close>

lemma broad_profile_built:
  assumes "broad_profile rows bd pd client = Inr p"
  obtains catalog baseline overrides additions removals omissions where
    "load_field_catalog rows = Inr catalog"
    "load_field_section bd ''fields'' catalog False = Inr baseline"
    "load_field_section pd ''overrides'' catalog True = Inr overrides"
    "load_field_section pd ''additions'' catalog True = Inr additions"
    "validate_partition (map fd_name catalog) (keys baseline) (keys overrides) (keys additions) (keys removals) (keys omissions) = Inr ()"
    "fp_fields p = capable_fields client (configured_fields (map (\<lambda>(n, f, r). (n, f)) baseline) overrides additions removals)"
    "fp_excluded p = dict_merge omissions removals"
    "fp_capability_omissions p =
       capability_omissions_of client (configured_fields (map (\<lambda>(n, f, r). (n, f)) baseline) overrides additions removals)"
    "list_all (\<lambda>a. a \<in> set alert_names) (fp_alert_types p)"
proof -
  have k: "fst \<circ> (\<lambda>(n, f, r). (n, f)) = (fst :: string \<times> tele_field \<times> string \<Rightarrow> string)" by auto
  from assms obtain catalog profile_meta alerts baseline overrides additions removals omissions where
    *: "load_field_catalog rows = Inr catalog" "require_alert_types profile_meta = Inr alerts"
    "load_field_section bd ''fields'' catalog False = Inr baseline"
    "load_field_section pd ''overrides'' catalog True = Inr overrides"
    "load_field_section pd ''additions'' catalog True = Inr additions"
    "validate_partition (map fd_name catalog) (keys baseline) (keys overrides) (keys additions) (keys removals) (keys omissions) = Inr ()"
    and p: "fp_fields p = capable_fields client (configured_fields (map (\<lambda>(n, f, r). (n, f)) baseline) overrides additions removals)"
    "fp_excluded p = dict_merge omissions removals"
    "fp_capability_omissions p =
       capability_omissions_of client (configured_fields (map (\<lambda>(n, f, r). (n, f)) baseline) overrides additions removals)"
    "fp_alert_types p = alerts"
    unfolding broad_profile_def Let_def
    by (simp add: inr_simps k) (elim exE conjE, hypsubst, rule that, assumption+, simp_all)
  from *(2) have "list_all (\<lambda>a. a \<in> set alert_names) alerts"
    by (auto simp: require_alert_types_def inr_simps list_all_iff dest!: known_alert_str)
  with * p show thesis by (intro that) simp_all
qed

lemma keys_configured:
  assumes "set (keys overrides) \<subseteq> set (keys baseline)" and "set (keys overrides) \<inter> set (keys removals) = {}"
  shows "set (keys (configured_fields baseline overrides additions removals)) =
    set (keys baseline) - set (keys removals) \<union> set (keys additions)"
proof -
  have k: "set (keys (map (\<lambda>(n, f, r). (n, f)) xs)) = set (keys xs)" for xs :: "(string \<times> tele_field \<times> string) list"
    by (induction xs) auto
  have b: "set (keys (filter (\<lambda>(n, f). n \<notin> set (keys removals)) baseline)) = set (keys baseline) - set (keys removals)" by force
  show ?thesis unfolding configured_fields_def keys_dict_merge k b using assms by blast
qed

lemma keys_capable:
  "set (keys (capable_fields client configured)) = set (keys configured) - set (dropped_fields client configured)"
  by (force simp: capable_fields_def Let_def)

lemma dropped_configured: "set (dropped_fields client configured) \<subseteq> set (keys configured)"
  by (auto simp: dropped_fields_def)

lemma map_of_constant: "map_of (map (\<lambda>n. (g n, c)) xs) k = (if k \<in> g ` set xs then Some c else None)"
  by (induction xs) auto

lemma capability_dropped:
  "map_of (capability_omissions_of client configured) n = Some dropped_reason \<longleftrightarrow> n \<in> set (dropped_fields client configured)"
proof -
  have "dropped_reason \<noteq> limited_reason" by (simp add: dropped_reason_def limited_reason_def)
  then show ?thesis
    by (auto simp: capability_omissions_of_def Let_def map_add_def map_of_constant [where g = "\<lambda>n. n"] map_of_constant
      split: option.split if_splits)
qed

text \<open>A profile decides every field of the catalog exactly once: it is configured, or excluded with a reason, or
  left out because the client of the vehicle is too old; and it names no field outside the catalog.\<close>

theorem every_catalog_field_is_decided:
  assumes "broad_profile rows bd pd client = Inr p" and "load_field_catalog rows = Inr catalog"
  shows "set (map fd_name catalog) = set (keys (fp_fields p)) \<union> set (keys (fp_excluded p)) \<union>
      {n. map_of (fp_capability_omissions p) n = Some dropped_reason} \<and>
    set (keys (fp_fields p)) \<inter> set (keys (fp_excluded p)) = {} \<and>
    set (keys (fp_fields p)) \<inter> {n. map_of (fp_capability_omissions p) n = Some dropped_reason} = {} \<and>
    set (keys (fp_excluded p)) \<inter> {n. map_of (fp_capability_omissions p) n = Some dropped_reason} = {}"
proof -
  obtain catalog' baseline overrides additions removals omissions where
    c: "load_field_catalog rows = Inr catalog'"
    and base: "load_field_section bd ''fields'' catalog' False = Inr baseline"
    and valid: "validate_partition (map fd_name catalog') (keys baseline) (keys overrides) (keys additions) (keys removals) (keys omissions) = Inr ()"
    and p: "fp_fields p = capable_fields client (configured_fields (map (\<lambda>(n, f, r). (n, f)) baseline) overrides additions removals)"
      "fp_excluded p = dict_merge omissions removals"
      "fp_capability_omissions p =
         capability_omissions_of client (configured_fields (map (\<lambda>(n, f, r). (n, f)) baseline) overrides additions removals)"
    by (rule broad_profile_built [OF assms(1)])
  let ?base = "map (\<lambda>(n, f, r). (n, f)) baseline" and ?B = "set (keys baseline)" and ?C = "set (map fd_name catalog')"
  let ?configured = "configured_fields ?base overrides additions removals"
  have kb: "set (keys ?base) = ?B" by force
  have eq: "catalog' = catalog" using c assms(2) by simp
  have sub: "?B \<subseteq> ?C" by (rule load_section_eq_Inr(1) [OF base])
  from valid have v: "set (keys overrides) \<subseteq> ?B" "set (keys removals) \<subseteq> ?B" "set (keys overrides) \<inter> set (keys removals) = {}"
    "set (keys additions) \<inter> ?B = {}" "set (keys omissions) \<inter> ?B = {}" "set (keys additions) \<inter> set (keys omissions) = {}"
    "set (keys additions) \<union> set (keys omissions) = ?C - ?B"
    by (simp_all add: validate_partition_def split: if_splits)
  have conf: "set (keys ?configured) = ?B - set (keys removals) \<union> set (keys additions)"
    using keys_configured [of overrides ?base removals additions] v(1,3) unfolding kb by blast
  have dropped: "{n. map_of (fp_capability_omissions p) n = Some dropped_reason} = set (dropped_fields client ?configured)"
    unfolding p(3) capability_dropped by simp
  have fs: "set (keys (fp_fields p)) = set (keys ?configured) - set (dropped_fields client ?configured)"
    unfolding p(1) keys_capable ..
  have ex: "set (keys (fp_excluded p)) = set (keys omissions) \<union> set (keys removals)" unfolding p(2) keys_dict_merge ..
  note d = dropped_configured [of client ?configured]
  show ?thesis unfolding dropped fs ex eq [symmetric] using d conf v sub by blast
qed

subsection \<open>The configuration of a profile\<close>

definition all_deltas_ok :: "(string \<times> tele_field) list \<Rightarrow> bool" where
  "all_deltas_ok fs = list_all (\<lambda>(n, f). delta_ok (tf_delta f)) fs"

lemma deltas_update: "all_deltas_ok d \<Longrightarrow> delta_ok (tf_delta f) \<Longrightarrow> all_deltas_ok (AList.update k f d)"
  by (induction d) (auto simp: all_deltas_ok_def)

lemma deltas_merge: "all_deltas_ok a \<Longrightarrow> all_deltas_ok b \<Longrightarrow> all_deltas_ok (dict_merge a b)"
proof (induction b arbitrary: a)
  case (Cons x b)
  then have "delta_ok (tf_delta (snd x))" "all_deltas_ok b" by (auto simp: all_deltas_ok_def)
  with Cons show ?case by (cases x) (simp add: deltas_update)
qed simp

lemma deltas_capable: "all_deltas_ok fs \<Longrightarrow> all_deltas_ok (capable_fields client fs)"
  by (auto simp: all_deltas_ok_def capable_fields_def Let_def list_all_iff)

lemma built_config_ok:
  assumes "broad_profile rows bd pd client = Inr p"
  shows "config_ok (build_config t p)"
proof -
  obtain catalog baseline overrides additions removals omissions where
    s: "load_field_section bd ''fields'' catalog False = Inr baseline"
      "load_field_section pd ''overrides'' catalog True = Inr overrides"
      "load_field_section pd ''additions'' catalog True = Inr additions"
    and p: "fp_fields p = capable_fields client (configured_fields (map (\<lambda>(n, f, r). (n, f)) baseline) overrides additions removals)"
      "list_all (\<lambda>a. a \<in> set alert_names) (fp_alert_types p)"
    by (rule broad_profile_built [OF assms])
  have ok: "all_deltas_ok (map (\<lambda>(n, f, r). (n, f)) xs)" if "list_all (\<lambda>(n, f, r). delta_ok (tf_delta f)) xs" for xs :: "(string \<times> tele_field \<times> string) list"
    using that by (auto simp: all_deltas_ok_def list_all_iff)
  have "all_deltas_ok (filter (\<lambda>(n, f). n \<notin> set (keys removals)) (map (\<lambda>(n, f, r). (n, f)) baseline))"
    using ok [OF load_section_eq_Inr(2) [OF s(1)]] by (auto simp: all_deltas_ok_def list_all_iff)
  then have "all_deltas_ok (fp_fields p)" unfolding p(1) configured_fields_def
    by (intro deltas_capable deltas_merge ok load_section_eq_Inr(2) [OF s(2)] load_section_eq_Inr(2) [OF s(3)])
  with p(2) show ?thesis by (simp add: config_ok_def build_config_def all_deltas_ok_def)
qed

text \<open>C7: When Tesla answers the configuration of a profile as it was sent, it is read back and found in sync.\<close>

theorem applied_profile_is_in_sync:
  assumes "broad_profile rows bd pd client = Inr p"
    and "safe_config_document lib (build_config t p) (Some tid) = Inr des"
  shows "\<exists>cur d. parse_tesla_config [(''config'', VDict (config_payload (build_config t p)))] = Inr (Some cur) \<and>
    config_diff lib (Some cur) (build_config t p) tid = Inr d \<and> dget d ''status'' = VStr ''in_sync''"
  using echo_in_sync [OF built_config_ok [OF assms(1)] assms(2)] .

subsection \<open>Witnesses\<close>

definition field_name :: "nat \<Rightarrow> string" where
  "field_name i = replicate (Suc i) (CHR ''x'')"

definition all_indices :: "nat list" where "all_indices = [0..<239]"

definition base_indices :: "nat list" where "base_indices = [0..<93]"

definition rest_indices :: "nat list" where "rest_indices = [93..<239]"

lemma indices [simp]:
  "set all_indices = {i. i < 239}" "set base_indices = {i. i < 93}" "set rest_indices = {i. 93 \<le> i \<and> i < 239}"
  "distinct all_indices" "distinct base_indices" "length all_indices = 239" "length base_indices = 93"
  unfolding all_indices_def base_indices_def rest_indices_def by (auto simp only: set_upt distinct_upt length_upt atLeastLessThan_iff)

definition demo_rows :: "dict list" where
  "demo_rows = map (\<lambda>i. [(''Field'', VStr (field_name i)), (''Category'', VStr ''c''), (''Type'', VStr ''real''),
     (''Description'', VStr ''d'')]) all_indices"

definition demo_catalog :: "field_definition list" where
  "demo_catalog = map (\<lambda>i. \<lparr>fd_name = field_name i, fd_category = ''c'', fd_value_type = ''real'', fd_description = ''d''\<rparr>) all_indices"

definition demo_meta :: dict where
  "demo_meta = [(''name'', VStr ''b''), (''baseline'', VStr ''b''), (''delivery_policy'', VStr ''latest''),
     (''alert_types'', VList [VStr ''service'']), (''version'', VStr ''1''), (''schema_version'', VStr ''1'')]"

definition demo_baseline :: dict where
  "demo_baseline = [(''baseline'', VDict demo_meta),
     (''fields'', VDict (map (\<lambda>i. (field_name i, VDict [(''interval_seconds'', VInt 60)])) base_indices))]"

definition demo_profile :: dict where
  "demo_profile = [(''profile'', VDict demo_meta), (''overrides'', VDict []), (''additions'', VDict []), (''removals'', VDict []),
     (''omissions'', VDict (map (\<lambda>i. (field_name i, VStr ''r'')) rest_indices))]"

lemma field_name_inject: "field_name i = field_name j \<longleftrightarrow> i = j"
  by (metis field_name_def length_replicate nat.inject)

lemma field_name_strip: "strip (field_name i) = field_name i"
proof -
  have "last (replicate (Suc i) (CHR ''x'')) = CHR ''x''" by (rule last_replicate) simp
  then show ?thesis by (simp add: strip_eq_self_iff field_name_def is_space_def del: replicate_Suc)
qed

lemma demo_catalog_loaded: "load_field_catalog demo_rows = Inr demo_catalog"
proof -
  have "rmap (\<lambda>row.
       rbind (csv_text row ''Field'') (\<lambda>n. rbind (csv_text row ''Category'') (\<lambda>c.
       rbind (csv_text row ''Type'') (\<lambda>t. rbind (csv_text row ''Description'') (\<lambda>d.
       Inr \<lparr>fd_name = n, fd_category = c, fd_value_type = t, fd_description = d\<rparr>))))) demo_rows = Inr demo_catalog"
    unfolding demo_rows_def demo_catalog_def
    by (rule rmap_map) (simp add: csv_text_def field_name_strip strip_eq_self_iff is_space_def result_simps)
  moreover have "distinct (map fd_name demo_catalog)"
    by (auto simp: demo_catalog_def comp_def distinct_map inj_on_def field_name_inject)
  ultimately show ?thesis
    by (simp add: load_field_catalog_def distinct_remdups_id demo_catalog_def result_simps)
qed

definition demo_definition :: "nat \<Rightarrow> field_definition" where
  "demo_definition i = \<lparr>fd_name = field_name i, fd_category = ''c'', fd_value_type = ''real'', fd_description = ''d''\<rparr>"

lemma demo_names: "map fd_name demo_catalog = map field_name all_indices"
  by (simp add: demo_catalog_def)

lemma demo_lookup:
  assumes "i < 239"
  shows "map_of (map (\<lambda>d. (fd_name d, d)) demo_catalog) (field_name i) = Some (demo_definition i)"
proof (rule map_of_is_SomeI)
  show "distinct (map fst (map (\<lambda>d. (fd_name d, d)) demo_catalog))"
    by (auto simp: demo_catalog_def comp_def distinct_map inj_on_def field_name_inject)
  show "(field_name i, demo_definition i) \<in> set (map (\<lambda>d. (fd_name d, d)) demo_catalog)"
    using assms by (auto simp: demo_catalog_def demo_definition_def image_iff)
qed

definition demo_field :: tele_field where
  "demo_field = \<lparr>tf_interval = 60, tf_delta = VNone, tf_resend = None, tf_include = []\<rparr>"

lemma demo_load_field:
  "i < 239 \<Longrightarrow> load_field demo_catalog False (field_name i) (VDict [(''interval_seconds'', VInt 60)]) = Inr (demo_field, [])"
  by (simp add: load_field_def demo_lookup dget_def dget_default_def bad_delta_def bad_include_def self_driving_mixed_def
    demo_field_def result_simps)

lemma demo_sections:
  "load_field_section demo_baseline ''fields'' demo_catalog False = Inr (map (\<lambda>i. (field_name i, demo_field, [])) base_indices)"
  "load_field_section demo_profile ''overrides'' demo_catalog True = Inr []"
  "load_field_section demo_profile ''additions'' demo_catalog True = Inr []"
  "load_reason_section demo_profile ''removals'' demo_catalog = Inr []"
  "load_reason_section demo_profile ''omissions'' demo_catalog = Inr (map (\<lambda>i. (field_name i, ''r'')) rest_indices)"
proof -
  have "rmap (\<lambda>(name, raw). rbind (load_field demo_catalog False name raw) (\<lambda>r. Inr (name, r)))
      (map (\<lambda>i. (field_name i, VDict [(''interval_seconds'', VInt 60)])) base_indices) =
      Inr (map (\<lambda>i. (field_name i, demo_field, [])) base_indices)"
    by (rule rmap_map) (simp add: demo_load_field result_simps)
  then show "load_field_section demo_baseline ''fields'' demo_catalog False = Inr (map (\<lambda>i. (field_name i, demo_field, [])) base_indices)"
    by (simp add: load_field_section_def require_table_def demo_baseline_def dget_def result_simps)
  show "load_field_section demo_profile ''overrides'' demo_catalog True = Inr []"
    "load_field_section demo_profile ''additions'' demo_catalog True = Inr []"
    "load_reason_section demo_profile ''removals'' demo_catalog = Inr []"
    by (simp_all add: load_field_section_def load_reason_section_def require_table_def demo_profile_def dget_def result_simps)
  have r: "strip ''r'' = ''r''" by code_simp
  have "rmap (\<lambda>(name, reason).
       if name \<notin> set (map fd_name demo_catalog) then Inl (RuntimeError ''Telemetry profile field is not in the pinned catalog'')
       else (case reason of
           VStr s \<Rightarrow> if strip s = [] then Inl (RuntimeError ''Telemetry profile field requires a rationale'') else Inr (name, s)
         | _ \<Rightarrow> Inl (RuntimeError ''Telemetry profile field requires a rationale'')))
      (map (\<lambda>i. (field_name i, VStr ''r'')) rest_indices) = Inr (map (\<lambda>i. (field_name i, ''r'')) rest_indices)"
    by (rule rmap_map) (auto simp: demo_names r)
  then show "load_reason_section demo_profile ''omissions'' demo_catalog = Inr (map (\<lambda>i. (field_name i, ''r'')) rest_indices)"
    by (simp add: load_reason_section_def require_table_def demo_profile_def dget_def result_simps)
qed

lemma demo_valid:
  "validate_partition (map fd_name demo_catalog) (map field_name base_indices) [] [] [] (map field_name rest_indices) = Inr ()"
proof -
  have "distinct (map field_name base_indices)" by (simp add: distinct_map inj_on_def field_name_inject)
  then have n: "length (remdups (map field_name base_indices)) = 93" by (simp add: distinct_remdups_id)
  have s: "set (map field_name rest_indices) = set (map field_name all_indices) - set (map field_name base_indices)"
  proof (intro equalityI subsetI)
    fix x
    assume "x \<in> set (map field_name all_indices) - set (map field_name base_indices)"
    then obtain i where "x = field_name i" "i < 239" "\<not> i < 93" by auto
    then show "x \<in> set (map field_name rest_indices)" by simp
  qed (auto simp: field_name_inject)
  have d: "set (map field_name rest_indices) \<inter> set (map field_name base_indices) = {}" by (auto simp: field_name_inject)
  show ?thesis unfolding validate_partition_def demo_names list.set(1) n s [symmetric] using d by simp
qed

definition demo_telemetry :: telemetry_profile where
  "demo_telemetry = (let fs = map (\<lambda>i. (field_name i, demo_field)) base_indices in
     \<lparr>fp_version = ''1'', fp_schema_version = ''1'', fp_baseline_name = ''b'', fp_fields = capable_fields None fs,
      fp_excluded = map (\<lambda>i. (field_name i, ''r'')) rest_indices,
      fp_capability_omissions = capability_omissions_of None fs,
      fp_comparison = baseline_comparison_of ''b'' fs (capable_fields None fs) [] [] [] (map (\<lambda>i. (field_name i, ''r'')) rest_indices)
        (capability_omissions_of None fs),
      fp_alert_types = [''service''], fp_delivery = ''latest''\<rparr>)"

lemma demo_broad: "broad_profile demo_rows demo_baseline demo_profile None = Inr demo_telemetry"
proof -
  have t: "strip ''b'' = ''b''" "strip ''latest'' = ''latest''" "strip ''1'' = ''1''" by code_simp+
  have meta: "require_table demo_baseline ''baseline'' = Inr demo_meta" "require_table demo_profile ''profile'' = Inr demo_meta"
    "require_string demo_meta ''name'' = Inr ''b''" "require_string demo_meta ''baseline'' = Inr ''b''"
    "require_string demo_meta ''delivery_policy'' = Inr ''latest''" "require_alert_types demo_meta = Inr [''service'']"
    "require_string demo_meta ''version'' = Inr ''1''" "require_string demo_meta ''schema_version'' = Inr ''1''"
    by (simp_all add: require_table_def require_string_def require_alert_types_def demo_baseline_def demo_profile_def demo_meta_def
      dget_def t known_alert_def alert_names_def)
  show ?thesis
    using demo_valid
    by (simp add: broad_profile_def demo_catalog_loaded meta demo_sections require_def result_simps comp_def configured_fields_def
      demo_telemetry_def Let_def filter_True)
qed

definition demo_lib :: telemetry_lib where
  "demo_lib = \<lparr>tl_certificates = (\<lambda>s. Inr [\<lparr>ct_pem = s, ct_der = s, ct_ca = Some True\<rparr>]),
     tl_certificate = (\<lambda>s. Inr \<lparr>ct_pem = s, ct_der = s, ct_ca = Some True\<rparr>), tl_sha256 = (\<lambda>s. s), tl_json = (\<lambda>v. ''{}'')\<rparr>"

definition demo_trust :: trust_profile where
  "demo_trust = \<lparr>tp_profile_id = ''t'', tp_hostname = ''telemetry.example'', tp_port = 443, tp_ca_pem = ''CA'', tp_ca_hash = ''CA''\<rparr>"

definition demo_config :: tele_config where
  "demo_config = build_config demo_trust demo_telemetry"

lemma demo_safe: "tc_ca c = ''CA'' \<Longrightarrow> \<exists>des. safe_config_document demo_lib c tid = Inr des"
proof -
  assume ca: "tc_ca c = ''CA''"
  have "encode_ascii ''CA'' = Inr ''CA''" by code_simp
  with ca show ?thesis by (simp add: safe_config_document_def demo_lib_def result_simps)
qed

lemma demo_config_ca: "tc_ca demo_config = ''CA''" "tc_hostname demo_config = ''telemetry.example''"
  by (simp_all add: demo_config_def build_config_def demo_trust_def)

theorem in_sync_iff_witness:
  "\<exists>d. config_diff demo_lib (Some (demo_config\<lparr>tc_hostname := ''old.example''\<rparr>)) demo_config ''t'' = Inr d \<and>
     dget d ''status'' \<noteq> VStr ''in_sync''"
proof -
  let ?old = "demo_config\<lparr>tc_hostname := ''old.example''\<rparr>"
  obtain cur des where "safe_config_document demo_lib ?old None = Inr cur"
    "safe_config_document demo_lib demo_config (Some ''t'') = Inr des"
    using demo_safe [of ?old None] demo_safe [of demo_config "Some ''t''"] demo_config_ca(1) by auto
  then obtain d where d: "config_diff demo_lib (Some ?old) demo_config ''t'' = Inr d" by (simp add: config_diff_def Let_def result_simps)
  have "\<not> same_configuration demo_lib ?old demo_config" by (simp add: same_configuration_def demo_config_ca(2))
  with in_sync_iff [OF d] have "dget d ''status'' \<noteq> VStr ''in_sync''" by simp
  with d show ?thesis by blast
qed

theorem every_catalog_field_is_decided_witness:
  "set (map fd_name demo_catalog) = set (keys (fp_fields demo_telemetry)) \<union> set (keys (fp_excluded demo_telemetry)) \<union>
     {n. map_of (fp_capability_omissions demo_telemetry) n = Some dropped_reason} \<and> length demo_catalog = 239"
  using every_catalog_field_is_decided [OF demo_broad demo_catalog_loaded] by (simp add: demo_catalog_def)

theorem applied_profile_is_in_sync_witness:
  "\<exists>cur d. parse_tesla_config [(''config'', VDict (config_payload demo_config))] = Inr (Some cur) \<and>
     config_diff demo_lib (Some cur) demo_config ''t'' = Inr d \<and> dget d ''status'' = VStr ''in_sync''"
proof -
  obtain des where "safe_config_document demo_lib (build_config demo_trust demo_telemetry) (Some ''t'') = Inr des"
    using demo_safe [OF demo_config_ca(1)] unfolding demo_config_def by blast
  from applied_profile_is_in_sync [OF demo_broad this] show ?thesis unfolding demo_config_def .
qed

end
