(* ===== verification/StateFrame.thy ===== *)
theory StateFrame
  imports Errors
begin

text \<open>
  What an operation may change: a reflexive and transitive relation between the state before and after
  is kept by every way of composing operations.  The interface is stated once and interpreted for the
  worlds of the components.
\<close>

locale state_frame =
  fixes rel :: "'s \<Rightarrow> 's \<Rightarrow> bool"
  assumes rel_refl: "rel s s"
    and rel_trans: "rel s t \<Longrightarrow> rel t u \<Longrightarrow> rel s u"
begin

definition stays :: "('s, exn, 'a) oper \<Rightarrow> bool" where
  "stays m \<longleftrightarrow> (\<forall>s. rel s (snd (m s)))"

lemma staysI: "(\<And>s. rel s (snd (m s))) \<Longrightarrow> stays m"
  by (simp add: stays_def)

lemma staysD: "stays m \<Longrightarrow> rel s (snd (m s))"
  by (simp add: stays_def)

lemma stays_pure: "stays (oret x)" "stays (oraise e)" "stays (olift r)"
  by (simp_all add: stays_def oper_simps rel_refl)

text \<open>The continuation may rely on what the first operation returned.\<close>

lemma stays_obind_result:
  assumes m: "stays m" and f: "\<And>x s t. m s = (Inr x, t) \<Longrightarrow> stays (f x)"
  shows "stays (obind m f)"
proof (rule staysI)
  fix s
  obtain r t where ms: "m s = (r, t)" by (cases "m s")
  with staysD [OF m, of s] have st: "rel s t" by simp
  show "rel s (snd (obind m f s))"
  proof (cases r)
    case (Inl e)
    with ms st show ?thesis by (simp add: obind_def)
  next
    case (Inr x)
    with f [OF ms [unfolded Inr]] st have "rel s (snd (f x t))" using rel_trans staysD by blast
    with ms Inr show ?thesis by (simp add: obind_def)
  qed
qed

lemma stays_obind: "stays m \<Longrightarrow> (\<And>x. stays (f x)) \<Longrightarrow> stays (obind m f)"
  by (rule stays_obind_result)

lemma stays_ocatch: "stays m \<Longrightarrow> (\<And>e. stays (h e)) \<Longrightarrow> stays (ocatch m h)"
proof (rule staysI)
  fix s
  assume m: "stays m" and h: "\<And>e. stays (h e)"
  obtain r t where ms: "m s = (r, t)" by (cases "m s")
  with staysD [OF m, of s] have st: "rel s t" by simp
  show "rel s (snd (ocatch m h s))"
  proof (cases r)
    case (Inl e)
    from st staysD [OF h, of t e] have "rel s (snd (h e t))" by (rule rel_trans)
    with ms Inl show ?thesis by (simp add: ocatch_def)
  next
    case (Inr x)
    with ms st show ?thesis by (simp add: ocatch_def)
  qed
qed

lemma stays_finally:
  assumes m: "stays m" and c: "stays c"
  shows "stays (finally_do m c)"
proof (rule staysI)
  fix s
  obtain r t where ms: "m s = (r, t)" by (cases "m s")
  obtain q u where cs: "c t = (q, u)" by (cases "c t")
  from staysD [OF m, of s] staysD [OF c, of t] ms cs have "rel s u" using rel_trans by (metis snd_conv)
  then show "rel s (snd (finally_do m c s))" by (cases q) (simp_all add: finally_do_def ms cs)
qed

lemma stays_if: "stays m \<Longrightarrow> stays n \<Longrightarrow> stays (if b then m else n)"
  by simp

lemma stays_option: "stays m \<Longrightarrow> (\<And>x. stays (f x)) \<Longrightarrow> stays (case x of None \<Rightarrow> m | Some y \<Rightarrow> f y)"
  by (cases x) simp_all

lemma stays_prod: "(\<And>a b. stays (f a b)) \<Longrightarrow> stays (case p of (a, b) \<Rightarrow> f a b)"
  by (cases p) simp

lemma stays_sum: "(\<And>a. stays (f a)) \<Longrightarrow> (\<And>b. stays (g b)) \<Longrightarrow> stays (case r of Inl a \<Rightarrow> f a | Inr b \<Rightarrow> g b)"
  by (cases r) simp_all

lemma stays_Let: "(\<And>y. stays (f y)) \<Longrightarrow> stays (let y = x in f y)"
  by simp

lemmas stays_rules = stays_pure stays_obind stays_ocatch stays_finally stays_if stays_option stays_prod stays_Let

end

end
