(* ===== verification/Frames.thy ===== *)
theory Frames
  imports StateFrame McpTools FleetGuarantees
begin

text \<open>
  The interface of \<open>StateFrame\<close> for the events a Fleet API call emits.
\<close>

subsection \<open>Operations with the tokens of a user\<close>

context state_frame begin

lemma stays_execute: "(\<And>u b. stays (access u b)) \<Longrightarrow> (\<And>t b. stays (op t b)) \<Longrightarrow> stays (execute access user op)"
  unfolding execute_def by (intro stays_rules)

end

subsection \<open>The events of a Fleet API call\<close>

text \<open>The call appends events, whose requests satisfy \<open>P\<close>, and leaves the rest of the world alone.\<close>

definition emitted :: "(http_request \<Rightarrow> bool) \<Rightarrow> 'w net_scheme \<Rightarrow> 'w net_scheme \<Rightarrow> bool" where
  "emitted P w w' \<longleftrightarrow> (\<exists>new. w' = w\<lparr>w_events := w_events w @ new\<rparr> \<and>
     list_all (\<lambda>e. case e of Sent q \<Rightarrow> P q | Slept d \<Rightarrow> True) new)"

lemma emitted_refl: "emitted P w w"
  unfolding emitted_def by (intro exI [of _ "[]"]) simp

lemma emitted_trans:
  assumes "emitted P w w'" and "emitted P w' w''"
  shows "emitted P w w''"
proof -
  from assms(1) obtain a where a: "w' = w\<lparr>w_events := w_events w @ a\<rparr>" "list_all (\<lambda>e. case e of Sent q \<Rightarrow> P q | Slept d \<Rightarrow> True) a"
    unfolding emitted_def by blast
  from assms(2) obtain b where b: "w'' = w'\<lparr>w_events := w_events w' @ b\<rparr>" "list_all (\<lambda>e. case e of Sent q \<Rightarrow> P q | Slept d \<Rightarrow> True) b"
    unfolding emitted_def by blast
  from a b show ?thesis unfolding emitted_def by (intro exI [of _ "a @ b"]) simp
qed

interpretation em: state_frame "emitted P" for P
  by unfold_locales (rule emitted_refl, erule (1) emitted_trans)

lemma emitted_emit: "(\<And>q. e = Sent q \<Longrightarrow> P q) \<Longrightarrow> emitted P w (emit e w)"
  unfolding emitted_def emit_def by (intro exI [of _ "[e]"]) (simp split: event.split)

lemma exchange_emits: "P rq \<Longrightarrow> em.stays P (exchange env m rq)"
  by (rule em.staysI) (auto simp: exchange_def split: wire_answer.split intro!: emitted_emit)

text \<open>A request of the client, told apart by its method, or by its method and the end of its URL.\<close>

lemma transport_emits:
  assumes "\<And>q. hq_method q = verb \<Longrightarrow> P q"
  shows "em.stays P (transport_request env tr verb url headers None body)"
proof (cases tr)
  case Direct
  show ?thesis unfolding transport_request_def Direct transport.case direct_request_def
    by (intro em.stays_rules exchange_emits assms) simp
next
  case (CommandProxy origin)
  show ?thesis
  proof (cases "verb = ''POST''")
    case True
    show ?thesis unfolding transport_request_def CommandProxy transport.case proxy_request_def Let_def
      by (intro em.stays_rules exchange_emits assms) (simp_all add: True)
  next
    case False
    then show ?thesis unfolding transport_request_def CommandProxy transport.case proxy_request_def
      by (simp add: em.stays_pure em.stays_obind)
  qed
qed

lemma attempts_emits:
  assumes "em.stays P (transport_request env tr verb url (auth_headers token) None body :: ('w, http_response) fleet_call)"
  shows "em.stays P (attempts env tr verb url token body safe n left :: ('w, http_response) fleet_call)"
proof (induction left arbitrary: n)
  case 0
  have "attempts env tr verb url token body safe n 0 =
      (transport_request env tr verb url (auth_headers token) None body :: ('w, http_response) fleet_call)"
    by (simp add: fun_eq_iff)
  with assms show ?case by simp
next
  case (Suc left)
  show ?case
  proof (rule em.staysI)
    fix w :: "'w net_scheme"
    obtain r t where x: "transport_request env tr verb url (auth_headers token) None body w = (r, t)"
      by (cases "transport_request env tr verb url (auth_headers token) None body w")
    with em.staysD [OF assms, of w] have wt: "emitted P w t" by simp
    have "emitted P t (emit (Slept (retry_pause n)) t)" by (rule emitted_emit) simp
    with wt have "emitted P w (emit (Slept (retry_pause n)) t)" by (rule emitted_trans)
    then have go: "emitted P w (snd (attempts env tr verb url token body safe (Suc n) left (emit (Slept (retry_pause n)) t)))"
      using em.staysD [OF Suc.IH] by (rule emitted_trans)
    show "emitted P w (snd (attempts env tr verb url token body safe n (Suc left) w))"
      using wt go by (cases r; cases safe) (simp_all add: x)
  qed
qed

lemma request_emits:
  assumes "\<And>q. hq_method q = verb \<Longrightarrow> P q"
  shows "em.stays P (request env c verb base path token body safe)"
  unfolding request_def by (intro em.stays_rules attempts_emits transport_emits assms)

lemma calls_emit:
  assumes "\<And>q. hq_method q = verb \<Longrightarrow> P q"
  shows "em.stays P (request_json env c verb base path token body safe)"
    and "em.stays P (object_call env c verb base path token body)"
    and "em.stays P (list_call env c verb base path token)"
    and "em.stays P (value_call env c verb base path token body)"
  unfolding object_call_def list_call_def value_call_def request_json_def
  by (intro em.stays_rules request_emits assms; assumption)+

lemma transport_emits_path:
  assumes "base \<in> set known_base_urls" and "list_all path_char rest"
    and "\<And>q pre. hq_method q = verb \<Longrightarrow> hq_url q = pre @ ''/'' @ rest \<Longrightarrow> P q"
  shows "em.stays P (transport_request env tr verb (base @ ''/'' @ rest) headers None body)"
proof (cases tr)
  case Direct
  show ?thesis unfolding transport_request_def Direct transport.case direct_request_def
    by (intro em.stays_rules exchange_emits assms(3)) (auto simp only: http_request.select_convs)
next
  case (CommandProxy origin)
  from client_url_path [OF assms(1,2)] obtain u where u: "urlsplit (base @ ''/'' @ rest) = Inr u"
    "url_path u = ''/'' @ rest" by blast
  have *: "em.stays P (exchange env m \<lparr>hq_transport = CommandProxy origin, hq_method = ''POST'', hq_url = origin @ ''/'' @ rest,
      hq_headers = headers, hq_form = None, hq_json = j\<rparr>)" if "verb = ''POST''" for j m
    using that by (intro exchange_emits assms(3)) (auto simp only: http_request.select_convs)
  have ob: "obind (olift (Inr u)) f = f u" for f :: "split_url \<Rightarrow> ('a net_scheme, exn, http_response) oper"
    by (simp add: fun_eq_iff obind_def olift_def)
  show ?thesis
  proof (cases "verb = ''POST''")
    case True
    show ?thesis unfolding transport_request_def CommandProxy transport.case proxy_request_def Let_def u ob
      by (intro em.stays_rules *) (rule True)+
  next
    case False
    then show ?thesis unfolding transport_request_def CommandProxy transport.case proxy_request_def
      by (simp add: em.stays_pure em.stays_obind)
  qed
qed

lemma request_emits_path:
  assumes "list_all path_char rest"
    and "\<And>q pre. hq_method q = verb \<Longrightarrow> hq_url q = pre @ ''/'' @ rest \<Longrightarrow> P q"
  shows "em.stays P (request_json env c verb base_url (''/'' @ rest) token body safe :: ('w, dict) fleet_call)"
proof -
  have "em.stays P (request env c verb base_url (''/'' @ rest) token body safe :: ('w, http_response) fleet_call)"
  proof (cases "normalize_base_url base_url")
    case (Inl e)
    then show ?thesis by (simp add: em.stays_def request_def obind_def olift_def emitted_refl)
  next
    case (Inr base)
    then have known: "base \<in> set known_base_urls" by (simp add: normalize_base_url_def Let_def split: if_splits)
    have eq: "request env c verb base_url (''/'' @ rest) token body safe =
        (attempts env (fc_transport c) verb (base @ ''/'' @ rest) token body safe 0 (fc_max_read_retries c)
          :: ('w, http_response) fleet_call)"
      by (simp add: fun_eq_iff request_def obind_def olift_def Inr)
    show ?thesis unfolding eq by (rule attempts_emits, rule transport_emits_path [OF known assms])
  qed
  then show ?thesis unfolding request_json_def by (intro em.stays_rules)
qed

end
