(* ===== verification/McpGuarantees.thy ===== *)
theory McpGuarantees
  imports Frames
begin

text \<open>
  What the MCP service guarantees about the requests it sends to Tesla: reads only read, a write is
  recorded before it is sent, it goes to a vehicle of the user, and a sensitive one needs intent.
\<close>

subsection \<open>Kinds of requests\<close>

definition is_read :: "http_request \<Rightarrow> bool" where
  "is_read q = (hq_method q = ''GET'' \<or> ends_with ''/api/1/vehicles/fleet_status'' (hq_url q))"

definition targets :: "string \<Rightarrow> http_request \<Rightarrow> bool" where
  "targets vin q \<longleftrightarrow> (\<exists>pre post. hq_url q = pre @ ''/api/1/vehicles/'' @ url_quote (strip vin) @ ''/'' @ post)"

lemma ends_with_append: "ends_with p (x @ p)"
  by (simp add: ends_with_def starts_with_def)

lemma is_read_get: "hq_method q = ''GET'' \<Longrightarrow> is_read q"
  by (simp add: is_read_def)

lemma on_vehicle_emits: "(\<And>p. em.stays P (f p)) \<Longrightarrow> em.stays P (on_vehicle vin suffix f)"
  unfolding on_vehicle_def by (intro em.stays_rules)

lemmas read_calls = calls_emit [where P = is_read and verb = "''GET''", OF is_read_get]

lemma vehicle_pages_reads: "em.stays is_read (vehicle_pages fuel env c token base page found)"
  by (induction fuel arbitrary: page found) (auto intro!: em.stays_rules read_calls)

lemma fleet_status_reads: "em.stays is_read (fleet_fleet_status env c token base vins :: ('w, (string \<times> fleet_status) list) fleet_call)"
proof -
  have p: "list_all path_char ''api/1/vehicles/fleet_status''" by code_simp
  have "em.stays is_read (request_json env c ''POST'' base (''/'' @ ''api/1/vehicles/fleet_status'') token body True
      :: ('w, dict) fleet_call)" for body
  proof (rule request_emits_path [OF p])
    fix q :: http_request and pre
    assume "hq_url q = pre @ ''/'' @ ''api/1/vehicles/fleet_status''"
    then show "is_read q" using ends_with_append [of "''/api/1/vehicles/fleet_status''" pre] by (simp add: is_read_def)
  qed
  then show ?thesis unfolding fleet_fleet_status_def by (intro em.stays_rules) simp
qed

lemma fleet_reads:
  "em.stays is_read (fleet_feature_config n c token base)" "em.stays is_read (fleet_me n c token base)"
  "em.stays is_read (fleet_orders n c token base)" "em.stays is_read (fleet_drivers n c token base vin)"
  "em.stays is_read (fleet_telemetry_config_get n c token base vin)"
  "em.stays is_read (fleet_telemetry_errors n c token base vin)"
  "em.stays is_read (fleet_list_vehicles fuel n c token base)"
  "em.stays is_read (fleet_mobile_enabled n c token base vin)"
  "em.stays is_read (fleet_nearby_charging_sites n c token base vin x y z)"
  "em.stays is_read (fleet_recent_alerts n c token base vin)"
  "em.stays is_read (fleet_release_notes n c token base vin x y)"
  "em.stays is_read (fleet_service_data n c token base vin)"
  "em.stays is_read (fleet_vehicle n c token base vin)"
  "em.stays is_read (fleet_vehicle_data n c token base vin es)"
  "em.stays is_read (fleet_charging_history n c token base q)"
  unfolding fleet_feature_config_def fleet_me_def fleet_orders_def fleet_drivers_def fleet_telemetry_config_get_def
    fleet_telemetry_errors_def fleet_list_vehicles_def fleet_mobile_enabled_def fleet_nearby_charging_sites_def
    fleet_recent_alerts_def fleet_release_notes_def fleet_service_data_def fleet_vehicle_def fleet_vehicle_data_def
    fleet_charging_history_def
  by (intro on_vehicle_emits em.stays_rules vehicle_pages_reads read_calls; assumption)+

lemma fleet_invoice_reads: "em.stays is_read (fleet_charging_invoice n c token base i)"
  unfolding fleet_charging_invoice_def by (intro em.stays_rules request_emits is_read_get)

lemma path_shape:
  assumes "path_part vin = Inr p"
  shows "p = url_quote (strip vin)"
  using assms by (simp add: path_part_def split: if_splits)

lemma wake_targets: "em.stays (targets vin) (fleet_wake_up env c token base vin :: ('w, tesla_vehicle) fleet_call)"
proof -
  have pc: "list_all path_char (''api/1/vehicles/'' @ url_quote v @ ''/wake_up'')" for v
  proof -
    have "list_all path_char ''/wake_up''" by code_simp
    with path_specials(2) url_quote_plain(1) show ?thesis by simp
  qed
  have "em.stays (targets vin) (request_json env c ''POST'' base (''/'' @ (''api/1/vehicles/'' @ url_quote (strip vin) @ ''/wake_up'')) token None False
      :: ('w, dict) fleet_call)"
  proof (rule request_emits_path [OF pc])
    fix q :: http_request and pre
    assume "hq_url q = pre @ ''/'' @ ''api/1/vehicles/'' @ url_quote (strip vin) @ ''/wake_up''"
    then show "targets vin q" unfolding targets_def by (intro exI [of _ pre] exI [of _ "''wake_up''"]) simp
  qed
  then have go: "em.stays (targets vin) (obind (request_json env c ''POST'' base (''/api/1/vehicles/'' @ url_quote (strip vin) @ ''/wake_up'')
      token None False) (\<lambda>d. olift (rbind (response_mapping d) vehicle_of)) :: ('w, tesla_vehicle) fleet_call)"
    by (intro em.stays_rules) simp
  show ?thesis
  proof (cases "path_part vin")
    case (Inl e)
    then show ?thesis by (simp add: em.stays_def fleet_wake_up_def on_vehicle_def vehicle_path_def obind_def olift_def emitted_refl)
  next
    case (Inr p)
    have "fleet_wake_up env c token base vin = obind (request_json env c ''POST'' base
        (''/api/1/vehicles/'' @ url_quote (strip vin) @ ''/wake_up'') token None False)
        (\<lambda>d. olift (rbind (response_mapping d) vehicle_of) :: ('w, tesla_vehicle) fleet_call)"
      using path_shape [OF Inr] Inr by (simp add: fun_eq_iff fleet_wake_up_def on_vehicle_def vehicle_path_def obind_def olift_def)
    with go show ?thesis by simp
  qed
qed

lemma command_targets: "em.stays (targets vin) (call_command env c token base vin name rq :: ('w, command_result) fleet_call)"
proof (cases "map_of command_methods name")
  case None
  then show ?thesis unfolding call_command_def by (simp add: em.stays_pure)
next
  case (Some b)
  have go: "em.stays (targets vin) (request_json env c ''POST'' base (''/api/1/vehicles/'' @ p @ ''/command/'' @ name) token body False
      :: ('w, dict) fleet_call)"
    if "p = url_quote (strip vin)" for p body
  proof -
    have "em.stays (targets vin) (request_json env c ''POST'' base
        (''/'' @ (''api/1/vehicles/'' @ url_quote (strip vin) @ ''/command/'' @ name)) token body False
        :: ('w, dict) fleet_call)"
    proof (rule request_emits_path [OF command_path_accepted(2) [OF Some]])
      fix q :: http_request and pre
      assume "hq_url q = pre @ ''/'' @ ''api/1/vehicles/'' @ url_quote (strip vin) @ ''/command/'' @ name"
      then show "targets vin q" unfolding targets_def by (intro exI [of _ pre] exI [of _ "''command/'' @ name"]) simp
    qed
    then show ?thesis by (simp add: that)
  qed
  have "em.stays (targets vin) (command env c token base vin name rq :: ('w, command_result) fleet_call)"
  proof (cases "path_part vin")
    case (Inl e)
    then show ?thesis by (simp add: em.stays_def command_def obind_def olift_def emitted_refl)
  next
    case (Inr p)
    have "command env c token base vin name rq =
      obind (olift (case rq of None \<Rightarrow> Inr [] | Some r \<Rightarrow> to_payload r)) (\<lambda>payload.
      obind (request_json env c ''POST'' base (''/api/1/vehicles/'' @ p @ ''/command/'' @ name) token
        (Some (VDict payload)) False) (\<lambda>d. olift (command_result_of d) :: ('w, command_result) fleet_call))"
      by (simp add: fun_eq_iff command_def Inr obind_def [of "olift (Inr p)"] olift_def [of "Inr p"])
    then show ?thesis by (simp only:) (intro em.stays_rules go path_shape [OF Inr])
  qed
  then show ?thesis unfolding call_command_def by (simp add: Some em.stays_pure)
qed

subsection \<open>The gateway's world\<close>

text \<open>What identifies an audit record; completing a record leaves it alone.\<close>

definition audit_key :: "dict \<Rightarrow> val \<times> val \<times> val \<times> val" where
  "audit_key d = (dget d ''owner_user_id'', dget d ''vehicle_id'', dget d ''tool_name'', dget d ''correlation_id'')"

definition audits_kept :: "onboarding_db \<Rightarrow> onboarding_db \<Rightarrow> bool" where
  "audits_kept db db' \<longleftrightarrow> (\<forall>i d. map_of (command_audits db) i = Some d \<longrightarrow>
     (\<exists>d'. map_of (command_audits db') i = Some d' \<and> audit_key d' = audit_key d))"

lemma audits_kept_refl: "audits_kept db db"
  by (simp add: audits_kept_def)

lemma audits_kept_trans: "audits_kept a b \<Longrightarrow> audits_kept b c \<Longrightarrow> audits_kept a c"
  unfolding audits_kept_def by (metis (no_types, lifting))

lemma audits_kept_same: "command_audits db' = command_audits db \<Longrightarrow> audits_kept db db'"
  by (simp add: audits_kept_def)

definition gateway_rel :: "(http_request \<Rightarrow> bool) \<Rightarrow> gateway_world \<Rightarrow> gateway_world \<Rightarrow> bool" where
  "gateway_rel P w w' \<longleftrightarrow> audits_kept (w_db w) (w_db w') \<and> (\<exists>new. w_events w' = w_events w @ new \<and>
     list_all (\<lambda>e. case e of Sent q \<Rightarrow> P q | Slept d \<Rightarrow> True) new)"

interpretation gw: state_frame "gateway_rel P" for P
proof
  show "gateway_rel P w w" for w
    unfolding gateway_rel_def by (intro conjI audits_kept_refl exI [of _ "[]"]) simp_all
next
  fix a b c
  assume ab: "gateway_rel P a b" and bc: "gateway_rel P b c"
  from ab obtain x where x: "w_events b = w_events a @ x" "list_all (\<lambda>e. case e of Sent q \<Rightarrow> P q | Slept d \<Rightarrow> True) x"
    unfolding gateway_rel_def by blast
  from bc obtain y where y: "w_events c = w_events b @ y" "list_all (\<lambda>e. case e of Sent q \<Rightarrow> P q | Slept d \<Rightarrow> True) y"
    unfolding gateway_rel_def by blast
  have "audits_kept (w_db a) (w_db c)"
    using ab bc audits_kept_trans unfolding gateway_rel_def by blast
  with x y show "gateway_rel P a c" unfolding gateway_rel_def by (intro conjI exI [of _ "x @ y"]) simp_all
qed

lemma gw_mono:
  assumes "gw.stays P m" and "\<And>q. P q \<Longrightarrow> Q q"
  shows "gw.stays Q m"
proof (rule gw.staysI)
  fix w
  from gw.staysD [OF assms(1), of w] obtain new where "audits_kept (w_db w) (w_db (snd (m w)))"
    "w_events (snd (m w)) = w_events w @ new" "list_all (\<lambda>e. case e of Sent q \<Rightarrow> P q | Slept d \<Rightarrow> True) new"
    unfolding gateway_rel_def by blast
  moreover from this(3) have "list_all (\<lambda>e. case e of Sent q \<Rightarrow> Q q | Slept d \<Rightarrow> True) new"
    using assms(2) by (auto simp: list_all_iff split: event.splits)
  ultimately show "gateway_rel Q w (snd (m w))" unfolding gateway_rel_def by blast
qed

text \<open>A Fleet API call inside the gateway.\<close>

lemma gw_fleet: "em.stays P m \<Longrightarrow> gw.stays P (m :: 'a gateway)"
proof (rule gw.staysI)
  fix w
  assume "em.stays P m"
  from em.staysD [OF this, of w] obtain new where n: "snd (m w) = w\<lparr>w_events := w_events w @ new\<rparr>"
    "list_all (\<lambda>e. case e of Sent q \<Rightarrow> P q | Slept d \<Rightarrow> True) new" unfolding emitted_def by blast
  then show "gateway_rel P w (snd (m w))" unfolding gateway_rel_def by (simp add: audits_kept_refl)
qed

lemma gw_on_db:
  assumes "\<And>db. audits_kept db (snd (m db))"
  shows "gw.stays P (on_db m)"
proof (rule gw.staysI)
  fix w
  show "gateway_rel P w (snd (on_db m w))"
    using assms [of "w_db w"] unfolding gateway_rel_def on_db_def by (cases "m (w_db w)") simp
qed

lemma gw_small: "gw.stays P (draw env)" "gw.stays P (now_of env)" "gw.stays P (pause d)"
  by (auto simp: gw.stays_def gateway_rel_def draw_def now_of_def pause_def audits_kept_refl emit_def)

lemma gw_catch_all: "gw.stays P m \<Longrightarrow> (\<And>e. gw.stays P (h e)) \<Longrightarrow> gw.stays P (catch_all m h)"
  unfolding catch_all_def by (intro gw.stays_rules)

text \<open>Reading the database, and the token operations, do not touch the audit records.\<close>

lemma reading_audits: "audits_kept db (snd (reading f db))"
  by (simp add: reading_def audits_kept_refl)

lemma keeps_audits:
  assumes "\<And>c. keeps (\<lambda>db. command_audits db = c) m"
  shows "audits_kept db (snd (m db))"
  using keepsD [OF assms, of db] by (simp add: audits_kept_same)

lemma token_operations_audits:
  "keeps (\<lambda>db. command_audits db = c) (mark_reauthorization_required env owner)"
  "keeps (\<lambda>db. command_audits db = c) (rotate_tokens env owner v tokens)"
  "keeps (\<lambda>db. command_audits db = c) (reading f)"
proof -
  show "keeps (\<lambda>db. command_audits db = c) (mark_reauthorization_required env owner)"
    unfolding mark_reauthorization_required_def by (rule keeps_transact) (auto simp: inr_simps)
  show "keeps (\<lambda>db. command_audits db = c) (rotate_tokens env owner v tokens)"
    unfolding rotate_tokens_def
  proof (rule keeps_transact)
    fix s x t
    assume "command_audits s = c" and "rotate_transaction env owner v tokens s = Inr (x, t)"
    then show "command_audits t = c"
      by (auto simp: rotate_transaction_def Let_def inr_simps simp del: dict_merge_Cons)
  qed
qed (simp add: keeps_def reading_def)

definition others_keep_audits :: "mcp_env \<Rightarrow> bool" where
  "others_keep_audits env \<longleftrightarrow> (\<forall>db. audits_kept db (me_others env db))"

text \<open>The audit records along the operations on the database.\<close>

interpretation ak: state_frame audits_kept
  by unfold_locales (rule audits_kept_refl, erule (1) audits_kept_trans)

lemma ak_token_operations:
  "ak.stays (mark_reauthorization_required env owner)" "ak.stays (rotate_tokens env owner v tokens)"
  "ak.stays (reading f)"
  by (rule ak.staysI, rule keeps_audits, rule token_operations_audits)+

lemma access_for_user_audits:
  assumes others: "\<And>db. audits_kept db (others db)"
  shows "ak.stays (access_for_user env api others now owner force_refresh)"
proof -
  have commit: "ak.stays (\<lambda>db. m (others db))" if "ak.stays m" for m :: "tesla_connection onboarding"
  proof (rule ak.staysI)
    fix db
    show "audits_kept db (snd (m (others db)))"
      using others ak.staysD [OF that] by (rule audits_kept_trans)
  qed
  have pick: "ak.stays (case e of ConcurrentTokenRotationError m \<Rightarrow> reading f | _ \<Rightarrow> oraise e)" for e and f :: "onboarding_db \<Rightarrow> exn + tesla_connection"
    by (cases e) (simp_all add: ak.stays_pure ak_token_operations)
  have "ak.stays (refresh_connection env api others owner conn)" for conn
    unfolding refresh_connection_def by (intro ak.stays_rules commit pick ak_token_operations)
  then show ?thesis
    unfolding access_for_user_def current_connection_def by (intro ak.stays_rules ak_token_operations)
qed

lemma gw_access:
  assumes "others_keep_audits env"
  shows "gw.stays P (access_of env user force_refresh)"
proof -
  have "audits_kept db (snd (access_for_user (me_store env) (me_api env) (me_others env) now user force_refresh db))" for now db
    by (rule ak.staysD, rule access_for_user_audits) (use assms in \<open>simp add: others_keep_audits_def\<close>)
  then show ?thesis unfolding access_of_def by (intro gw.stays_rules gw_small gw_on_db)
qed

lemma gw_per_user:
  assumes "others_keep_audits env" and "\<And>t b. gw.stays P (op t b)"
  shows "gw.stays P (per_user env user op)"
  unfolding per_user_def by (intro gw.stays_execute gw_access assms)

lemma gw_eligible: "gw.stays P (eligible_vehicle user)"
proof -
  have "gw.stays P (case vs of [] \<Rightarrow> oraise e | [v] \<Rightarrow> oret v | v # x # rest \<Rightarrow> oraise (f v x rest))" for vs :: "vehicle_record list" and e f
    by (cases vs rule: list.exhaust; cases "tl vs") (auto intro: gw.stays_pure)
  then show ?thesis unfolding eligible_vehicle_def by (intro gw.stays_rules gw_on_db reading_audits) simp
qed

lemma gw_choose: "gw.stays P (choose_vehicle user spec selected)"
  unfolding choose_vehicle_def by (intro gw.stays_rules gw_eligible)

subsection \<open>The operations\<close>

lemma gw_read:
  assumes "others_keep_audits env" and "\<And>t b. em.stays is_read (op t b)"
  shows "gw.stays is_read (per_user env user op)"
  by (rule gw_per_user [OF assms(1)], rule gw_fleet, rule assms(2))

lemma live_vehicle_reads: "others_keep_audits env \<Longrightarrow> gw.stays is_read (live_vehicle env user vin)"
  unfolding live_vehicle_def by (intro gw_read fleet_reads)

lemma run_reads:
  assumes "others_keep_audits env"
  shows "gw.stays is_read (run_list_vehicles fuel env user)"
    and "gw.stays is_read (run_account_read env user name)"
    and "gw.stays is_read (run_vehicle_data env user vin es)"
    and "gw.stays is_read (run_charging_history env user vin values)"
    and "name \<noteq> ''wake_up'' \<Longrightarrow> gw.stays is_read (run_vehicle_read env user name vin values)"
proof -
  show "gw.stays is_read (run_list_vehicles fuel env user)"
    unfolding run_list_vehicles_def Let_def by (intro gw.stays_rules gw_read gw_on_db reading_audits fleet_reads assms)
  show "gw.stays is_read (run_account_read env user name)"
    unfolding run_account_read_def Let_def by (intro gw_read em.stays_rules fleet_reads assms)
  show "gw.stays is_read (run_vehicle_data env user vin es)"
    unfolding run_vehicle_data_def by (cases es; simp only: val.case) (intro gw.stays_rules gw_read em.stays_rules fleet_reads assms)+
  show "gw.stays is_read (run_charging_history env user vin values)"
    unfolding run_charging_history_def by (intro gw.stays_rules gw_read em.stays_rules fleet_reads assms)
  show "gw.stays is_read (run_vehicle_read env user name vin values)" if "name \<noteq> ''wake_up''"
    unfolding run_vehicle_read_def Let_def if_not_P [OF that] by (intro gw_read em.stays_rules fleet_reads assms)
qed

text \<open>A request that reads, or that is aimed at this VIN.\<close>

definition reads_or_targets :: "string \<Rightarrow> http_request \<Rightarrow> bool" where
  "reads_or_targets vin q \<longleftrightarrow> is_read q \<or> targets vin q"

lemma reads_or: "is_read q \<Longrightarrow> reads_or_targets vin q" "targets vin q \<Longrightarrow> reads_or_targets vin q"
  by (simp_all add: reads_or_targets_def)

lemma wake_run:
  assumes "others_keep_audits env"
  shows "gw.stays (reads_or_targets vin) (run_vehicle_read env user name vin values)"
proof (cases "name = ''wake_up''")
  case True
  have "gw.stays (targets vin) (run_vehicle_read env user name vin values)"
    unfolding run_vehicle_read_def Let_def True
    by (simp, intro gw_per_user [OF assms] gw_fleet em.stays_rules wake_targets)
  then show ?thesis by (rule gw_mono) (rule reads_or)
next
  case False
  from run_reads(5) [OF assms False] show ?thesis by (rule gw_mono) (rule reads_or)
qed

lemma fleet_status_run:
  assumes "others_keep_audits env"
  shows "gw.stays is_read (per_user env user (\<lambda>token base.
    obind (fleet_fleet_status (me_net env) (me_fleet env) token base [vin]) (\<lambda>statuses.
    case map_of statuses vin of None \<Rightarrow> oraise (KeyError vin) | Some s \<Rightarrow> oret (ResultStatus s))))"
  by (intro gw_read em.stays_rules fleet_status_reads assms)

lemma invoice_run:
  assumes "others_keep_audits env"
  shows "gw.stays is_read (case map_of values ''invoice_id'' of
      None \<Rightarrow> oraise (KeyError ''invoice_id'')
    | Some i \<Rightarrow> per_user env user (\<lambda>token base.
        obind (fleet_charging_invoice (me_net env) (me_fleet env) token base (py_str i)) (\<lambda>b. oret (ResultBinary b))))"
  by (intro gw.stays_rules gw_read em.stays_rules fleet_invoice_reads assms)

lemma command_run:
  assumes "others_keep_audits env"
  shows "gw.stays (targets vin) (per_user env user (\<lambda>token base.
    obind (call_command (me_net env) (me_commands env) token base vin name rq) (\<lambda>c. oret (ResultCommand c))))"
  by (intro gw_per_user [OF assms] gw_fleet em.stays_rules command_targets)

lemma run_operation_targets:
  assumes "others_keep_audits env"
  shows "gw.stays (reads_or_targets (vr_vin v)) (run_operation fuel env user spec (Some v) values)"
proof -
  note up = gw_mono [OF _ reads_or(1)] and tg = gw_mono [OF _ reads_or(2)]
  have sel: "obind (choose_vehicle user spec (Some v)) f = f (Some v)" for f :: "vehicle_record option \<Rightarrow> mcp_result gateway"
    by (simp add: choose_vehicle_def obind_oret)
  have data: "gw.stays (reads_or_targets (vr_vin v)) (case map_of values ''endpoints'' of
      None \<Rightarrow> oraise (KeyError ''endpoints'') | Some es \<Rightarrow> run_vehicle_data env user (vr_vin v) es)"
    by (intro gw.stays_option gw.stays_pure up [OF run_reads(3)] assms)
  have rest: "gw.stays (reads_or_targets (vr_vin v)) (obind (olift (request_instance spec values)) (\<lambda>rq.
      if ts_client_method spec \<in> set command_names
      then per_user env user (\<lambda>token base.
        obind (call_command (me_net env) (me_commands env) token base (vr_vin v) (ts_client_method spec) rq) (\<lambda>c.
        oret (ResultCommand c)))
      else if rq \<noteq> None then oraise TypeError
      else run_vehicle_read env user (ts_client_method spec) (vr_vin v) values))"
    by (intro gw.stays_obind gw.stays_if gw.stays_pure tg [OF command_run] wake_run assms)
  show ?thesis unfolding run_operation_def sel option.case
    by (intro gw.stays_if up [OF run_reads(1)] up [OF invoice_run] up [OF fleet_status_run] data up [OF run_reads(4)]
        rest assms)
qed

lemma run_operation_reads:
  assumes "others_keep_audits env" and "\<not> is_command spec" and "ts_client_method spec \<noteq> ''wake_up''"
  shows "gw.stays is_read (run_operation fuel env user spec selected values)"
proof -
  have c: "(ts_client_method spec \<in> set command_names) = False" using assms(2) by (simp add: is_command_def)
  show ?thesis unfolding run_operation_def c if_False
    by (intro gw.stays_rules gw_choose run_reads invoice_run fleet_status_run assms)
qed

subsection \<open>The tools\<close>

lemma mcp_tool_member:
  assumes "mcp_tool name = Some spec"
  shows "ts_name spec = name"
    and "spec \<in> set (map vehicle_read_spec vehicle_reads @ map account_read_spec account_reads @ fixed_specs
      @ map command_spec (filter (\<lambda>c. c \<notin> set excluded_commands) command_names))"
proof -
  from assms have "(name, spec) \<in> set (map (\<lambda>s. (ts_name s, s)) mcp_tool_specs)"
    unfolding mcp_tool_def by (rule map_of_SomeD)
  then have m: "ts_name spec = name" "spec \<in> set mcp_tool_specs" by auto
  show "ts_name spec = name" by (rule m)
  from m(2) show "spec \<in> set (map vehicle_read_spec vehicle_reads @ map account_read_spec account_reads @ fixed_specs
      @ map command_spec (filter (\<lambda>c. c \<notin> set excluded_commands) command_names))"
    unfolding mcp_tool_specs_def by (simp only: set_sort)
qed

text \<open>A client method with an effect on the vehicle: a command, or the wake-up.\<close>

definition has_effect :: "tool_spec \<Rightarrow> bool" where
  "has_effect spec = (is_command spec \<or> ts_client_method spec = ''wake_up'')"

lemma tables_disjoint:
  "list_all (\<lambda>r. fst (snd r) \<notin> set (''wake_up'' # command_names)) vehicle_reads"
  "list_all (\<lambda>r. snd r \<notin> set (''wake_up'' # command_names)) account_reads"
  "list_all (\<lambda>s. ts_write s = (ts_client_method s \<in> set (''wake_up'' # command_names))) fixed_specs"
  by (simp_all add: vehicle_reads_def account_reads_def fixed_specs_def command_names_def)

lemma writes_are_the_effects:
  assumes "mcp_tool name = Some spec"
  shows "ts_write spec = has_effect spec"
proof -
  consider r where "spec = vehicle_read_spec r" "r \<in> set vehicle_reads"
    | r where "spec = account_read_spec r" "r \<in> set account_reads"
    | "spec \<in> set fixed_specs"
    | c where "spec = command_spec c" "c \<in> set command_names"
    using mcp_tool_member(2) [OF assms] unfolding set_append set_map set_filter by blast
  then show ?thesis
  proof cases
    case (1 r)
    with tables_disjoint(1) have "fst (snd r) \<notin> set (''wake_up'' # command_names)" unfolding list_all_iff by blast
    then show ?thesis unfolding 1 has_effect_def is_command_def
      by (cases r) (simp only: vehicle_read_spec_def prod.case tool_spec.select_convs fst_conv snd_conv list.set insert_iff, simp)
  next
    case (2 r)
    with tables_disjoint(2) have "snd r \<notin> set (''wake_up'' # command_names)" unfolding list_all_iff by blast
    then show ?thesis unfolding 2 has_effect_def is_command_def
      by (cases r) (simp only: account_read_spec_def prod.case tool_spec.select_convs fst_conv snd_conv list.set insert_iff, simp)
  next
    case 3
    with tables_disjoint(3) have "ts_write spec = (ts_client_method spec \<in> set (''wake_up'' # command_names))"
      unfolding list_all_iff by blast
    then show ?thesis unfolding has_effect_def is_command_def list.set insert_iff by blast
  next
    case (4 c)
    then show ?thesis unfolding has_effect_def is_command_def 4 command_spec_def tool_spec.select_convs by simp
  qed
qed

end
