(* ===== verification/McpAudit.thy ===== *)
theory McpAudit
  imports McpGuarantees "HOL-Library.Multiset"
begin

text \<open>
  The audit log as the MCP service relies on it, and what follows for a tool call: the requests that
  have an effect on a vehicle are recorded before they are sent, and go to a vehicle of the caller.
\<close>

subsection \<open>The audit log\<close>

definition recorded :: "onboarding_db \<Rightarrow> string \<Rightarrow> string \<Rightarrow> string \<Rightarrow> string \<Rightarrow> string \<Rightarrow> bool" where
  "recorded db i owner vid tool correlation \<longleftrightarrow> (\<exists>d. map_of (command_audits db) i = Some d \<and>
     audit_key d = (VStr owner, VStr vid, VStr tool, VStr correlation))"

lemma recorded_kept: "recorded db i u v t c \<Longrightarrow> audits_kept db db' \<Longrightarrow> recorded db' i u v t c"
  unfolding recorded_def audits_kept_def by fastforce

lemma begin_audit_quiet: "w_events (snd (begin_audit env i u vid tool ps c failure w)) = w_events w"
proof -
  obtain r db where a: "au_begin (me_audit env) i (me_now env (w_events w)) u vid tool ps c ''chatgpt-mcp'' (w_db w) = (r, db)"
    by fastforce
  have run: "obind (now_of env) (\<lambda>now. on_db (au_begin (me_audit env) i now u vid tool ps c ''chatgpt-mcp'')) w
      = (r, w\<lparr>w_db := db\<rparr>)"
    by (simp add: obind_def now_of_def on_db_def a)
  show ?thesis by (cases r) (simp_all add: begin_audit_def catch_all_def ocatch_def oraise_def run)
qed

locale audit_log =
  fixes au :: audit_store
  assumes begin_keeps: "ak.stays (au_begin au i now u vid tool ps c src)"
    and begin_records: "au_begin au i now u vid tool ps c src db = (Inr x, db') \<Longrightarrow>
      map_of (command_audits db) i = None \<and> recorded db' i u vid tool c"
    and complete_keeps: "ak.stays (au_complete au i result category)"
begin

lemma begin_audit_stays:
  assumes "me_audit env = au"
  shows "gw.stays P (begin_audit env i u vid tool ps c failure)"
  unfolding begin_audit_def assms
  by (intro gw_catch_all gw.stays_rules gw_small gw_on_db ak.staysD begin_keeps)

lemma begin_audit_records:
  assumes "me_audit env = au" and "begin_audit env i u vid tool ps c failure w = (Inr x, w')"
  shows "map_of (command_audits (w_db w)) i = None" and "recorded (w_db w') i u vid tool c"
    and "w_events w' = w_events w"
proof -
  obtain r db where a: "au_begin au i (me_now env (w_events w)) u vid tool ps c ''chatgpt-mcp'' (w_db w) = (r, db)"
    by fastforce
  have run: "obind (now_of env) (\<lambda>now. on_db (au_begin (me_audit env) i now u vid tool ps c ''chatgpt-mcp'')) w
      = (r, w\<lparr>w_db := db\<rparr>)"
    by (simp add: obind_def now_of_def on_db_def assms(1) a)
  show "map_of (command_audits (w_db w)) i = None" "recorded (w_db w') i u vid tool c" "w_events w' = w_events w"
  proof (atomize (full), cases r)
    case (Inl e)
    with assms(2) run show "map_of (command_audits (w_db w)) i = None \<and> recorded (w_db w') i u vid tool c \<and> w_events w' = w_events w"
      by (simp add: begin_audit_def catch_all_def ocatch_def oraise_def split: if_splits)
  next
    case (Inr y)
    with assms(2) run have "w' = w\<lparr>w_db := db\<rparr>" by (simp add: begin_audit_def catch_all_def ocatch_def)
    with begin_records [OF a [unfolded Inr]]
    show "map_of (command_audits (w_db w)) i = None \<and> recorded (w_db w') i u vid tool c \<and> w_events w' = w_events w" by simp
  qed
qed

lemma finalize_stays: "me_audit env = au \<Longrightarrow> gw.stays P (finalize_audit env i result category)"
  unfolding finalize_audit_def by (simp, intro gw_catch_all gw.stays_rules gw_on_db ak.staysD complete_keeps)

lemma record_failure_stays:
  "me_audit env = au \<Longrightarrow> gw.stays P m \<Longrightarrow> gw.stays P (record_failure env i m)"
  unfolding record_failure_def by (intro gw_catch_all gw.stays_rules finalize_stays)

lemma poll_stays: "others_keep_audits env \<Longrightarrow> gw.stays is_read (poll_online polls env user vin)"
  by (induction polls) (auto intro!: gw.stays_rules gw_small live_vehicle_reads)

lemma ensure_online_stays:
  assumes au: "me_audit env = au" and ot: "others_keep_audits env"
  shows "gw.stays (reads_or_targets (vr_vin v)) (ensure_vehicle_online env user spec v)"
proof -
  note up = gw_mono [OF _ reads_or(1)] and tg = gw_mono [OF _ reads_or(2)]
  have wake: "gw.stays (targets (vr_vin v)) (per_user env user (\<lambda>token base.
      fleet_wake_up (me_net env) (me_fleet env) token base (vr_vin v)))"
    by (intro gw_per_user [OF ot] gw_fleet wake_targets)
  show ?thesis unfolding ensure_vehicle_online_def Let_def
    by (intro gw.stays_obind gw.stays_if gw.stays_pure gw_small up [OF live_vehicle_reads] begin_audit_stays record_failure_stays
        finalize_stays tg [OF wake] up [OF poll_stays] au ot)
qed

lemma attempt_write_stays:
  assumes au: "me_audit env = au" and ot: "others_keep_audits env"
  shows "gw.stays (reads_or_targets (vr_vin v)) (attempt_write fuel env user spec v values)"
  unfolding attempt_write_def
  by (intro gw.stays_obind gw.stays_if gw.stays_pure ensure_online_stays run_operation_targets au ot)

lemma execute_audited_outcome:
  assumes au: "me_audit env = au" and ot: "others_keep_audits env"
    and w': "w' = snd (execute_audited fuel env user spec v values c w)"
  obtains "w_events w' = w_events w"
  | new i where "w_events w' = w_events w @ new" "\<And>q. Sent q \<in> set new \<Longrightarrow> reads_or_targets (vr_vin v) q"
      "map_of (command_audits (w_db w)) i = None" "recorded (w_db w') i user (vr_vehicle_id v) (ts_name spec) c"
proof -
  let ?i = "''audit_'' @ me_token env (w_draws w)"
  let ?w = "w\<lparr>w_draws := w_draws w + 1\<rparr>"
  let ?opening = "begin_audit env ?i user (vr_vehicle_id v) (ts_name spec)
    (redact_command_parameters (ts_client_method spec) values) c
    ''Command was not sent because its audit record could not be created''"
  let ?rest = "obind (record_failure env ?i (attempt_write fuel env user spec v values)) (\<lambda>(wake, result).
    obind (finalize_audit env ?i (if was_successful result then ''success'' else ''rejected'')
        (if was_successful result then None else Some ''tesla_rejected'')) (\<lambda>_.
    oret (dict_merge (serialize env result) ((''correlation_id'', VStr c) #
      (case wake of None \<Rightarrow> [] | Some x \<Rightarrow> [(''wake_correlation_id'', VStr x)])))))"
  have run: "w' = snd (obind ?opening (\<lambda>_. ?rest) ?w)"
    by (simp add: w' execute_audited_def obind_def [of "draw env"] draw_def Let_def)
  show thesis
  proof (cases "fst (?opening ?w)")
    case (Inl e)
    with run have "w' = snd (?opening ?w)" by (cases "?opening ?w") (simp add: obind_def)
    then have "w_events w' = w_events w" by (simp add: begin_audit_quiet)
    then show thesis by (rule that(1))
  next
    case (Inr x)
    then obtain t where b: "?opening ?w = (Inr x, t)" by (cases "?opening ?w") simp
    with run have last: "w' = snd (?rest t)" by (simp add: obind_def)
    have "gw.stays (reads_or_targets (vr_vin v)) ?rest"
      by (intro gw.stays_obind gw.stays_prod gw.stays_pure record_failure_stays attempt_write_stays finalize_stays au ot)
    from gw.staysD [OF this, of t] obtain new where n: "audits_kept (w_db t) (w_db w')" "w_events w' = w_events t @ new"
        "list_all (\<lambda>e. case e of Sent q \<Rightarrow> reads_or_targets (vr_vin v) q | Slept d \<Rightarrow> True) new"
      unfolding gateway_rel_def last by blast
    note rec = begin_audit_records [OF au b]
    show thesis
    proof (rule that(2))
      from n(2) rec(3) show "w_events w' = w_events w @ new" by simp
      from n(3) show "Sent q \<in> set new \<Longrightarrow> reads_or_targets (vr_vin v) q" for q by (auto simp: list_all_iff)
      from rec(1) show "map_of (command_audits (w_db w)) ?i = None" by simp
      from rec(2) n(1) show "recorded (w_db w') ?i user (vr_vehicle_id v) (ts_name spec) c" by (rule recorded_kept)
    qed
  qed
qed

end

subsection \<open>The vehicle of a call\<close>

interpretation still: state_frame "(=)"
  by unfold_locales simp_all

lemma obind_still:
  assumes "still.stays m" and "Q w" and "\<And>x. m w = (Inr x, w) \<Longrightarrow> Q (snd (f x w))"
  shows "Q (snd (obind m f w))"
  using assms still.staysD [OF assms(1), of w] by (cases "m w"; cases "fst (m w)") (auto simp: obind_def)

lemma still_reading: "still.stays (on_db (reading f))"
  by (simp add: still.stays_def on_db_def reading_def)

text \<open>A vehicle of the registry that belongs to this user.\<close>

definition vehicle_of_user :: "onboarding_db \<Rightarrow> string \<Rightarrow> vehicle_record \<Rightarrow> bool" where
  "vehicle_of_user db user v \<longleftrightarrow> vr_owner v = user \<and>
     (\<exists>d. (vr_vehicle_id v, d) \<in> set (vehicles db) \<and> vehicle_from_data (vr_vehicle_id v) d = Inr v)"

lemma vehicle_from_data_id: "vehicle_from_data k d = Inr v \<Longrightarrow> vr_vehicle_id v = k"
  by (auto simp: vehicle_from_data_def inr_simps)

lemma vehicle_from_data_owner:
  "vehicle_from_data k d = Inr v \<Longrightarrow> dget d ''owner_user_id'' = VStr u \<Longrightarrow> vr_owner v = u"
  by (auto simp: vehicle_from_data_def required_value_def inr_simps dget_def split: option.splits if_splits)

lemma resolve_still: "still.stays (resolve_vehicle user selected)"
proof -
  have "still.stays ((case e of CrossUserAccessError m \<Rightarrow> oraise a | _ \<Rightarrow> if b then oraise c else oraise d) :: vehicle_record gateway)" for e a b c d
    by (cases e) (simp_all add: still.stays_pure)
  then show ?thesis unfolding resolve_vehicle_def
    by (cases selected; simp only: val.case) (intro still.stays_rules still_reading; assumption)+
qed

lemma eligible_still: "still.stays (eligible_vehicle user)"
proof -
  have "still.stays ((case vs of [] \<Rightarrow> oraise e | [v] \<Rightarrow> oret v | v # x # rest \<Rightarrow> oraise (f v x rest)) :: vehicle_record gateway)"
    for vs :: "vehicle_record list" and e f
    by (cases vs rule: list.exhaust; cases "tl vs") (auto intro: still.stays_pure)
  then show ?thesis unfolding eligible_vehicle_def by (intro still.stays_rules still_reading) simp
qed

lemma resolve_owned:
  assumes "resolve_vehicle user selected w = (Inr (Some v), w')"
  shows "vehicle_of_user (w_db w) user v"
proof -
  from assms obtain s where "get_vehicle user s (w_db w) = Inr v"
    by (auto simp: resolve_vehicle_def oper_simps obind_eq_Inr ocatch_def on_db_def reading_def
      split: val.splits if_splits sum.splits exn.splits)
  then show ?thesis
    by (auto simp: get_vehicle_def vehicle_of_user_def require_vehicle_owner_def inr_simps dest: vehicle_from_data_id map_of_SomeD
      split: if_splits)
qed

lemma eligible_owned:
  assumes "eligible_vehicle user w = (Inr v, w')"
  shows "vehicle_of_user (w_db w) user v" and "vr_authorization_status v = ''active''"
proof -
  from assms obtain rs where rs: "list_vehicle_records user (w_db w) = Inr rs"
    and pick: "(case filter (\<lambda>r. vr_authorization_status r = ''active'') rs of
       [] \<Rightarrow> oraise (mcp_error ''no_eligible_vehicle'' ''No eligible Tesla vehicle is connected'')
     | [v] \<Rightarrow> oret v
     | vs \<Rightarrow> oraise (mcp_error ''vehicle_ambiguous'' (''Multiple eligible vehicles exist; choose one vehicle_id: '' @
               join '', '' (sort (map vr_vehicle_id vs))))) w = (Inr v, w')"
    unfolding eligible_vehicle_def obind_eq_Inr by (auto simp: on_db_def reading_def)
  have one: "filter (\<lambda>r. vr_authorization_status r = ''active'') rs = [v]"
  proof (cases "filter (\<lambda>r. vr_authorization_status r = ''active'') rs")
    case Nil
    with pick show ?thesis by (simp add: oraise_def)
  next
    case (Cons x xs)
    with pick show ?thesis by (cases xs) (simp_all add: oraise_def oret_def)
  qed
  have "v \<in> set (filter (\<lambda>r. vr_authorization_status r = ''active'') rs)" by (subst one) simp
  then have v: "v \<in> set rs" "vr_authorization_status v = ''active''" by simp_all
  obtain k d where "(k, d) \<in> set (vehicles (w_db w))" "dget d ''owner_user_id'' = VStr user" "vehicle_from_data k d = Inr v"
    using rmap_Inr_set [OF rs(1) [unfolded list_vehicle_records_def] v(1)] by auto
  then show "vehicle_of_user (w_db w) user v"
    unfolding vehicle_of_user_def using vehicle_from_data_id vehicle_from_data_owner by blast
  show "vr_authorization_status v = ''active''" by (rule v)
qed

lemma choose_still: "still.stays (choose_vehicle user spec selected)"
  unfolding choose_vehicle_def by (intro still.stays_rules eligible_still)

lemma choose_owned:
  assumes "choose_vehicle user spec selected w = (Inr (Some v), w')"
    and "\<And>x. selected = Some x \<Longrightarrow> vehicle_of_user (w_db w) user x"
  shows "vehicle_of_user (w_db w) user v"
  using assms by (auto simp: choose_vehicle_def obind_eq_Inr oret_def split: if_splits dest: eligible_owned(1))

subsection \<open>A tool call\<close>

text \<open>Every request with an effect goes to a vehicle of the user and is on record under the correlation.\<close>

definition effects_recorded :: "string \<Rightarrow> string \<Rightarrow> string \<Rightarrow> gateway_world \<Rightarrow> gateway_world \<Rightarrow> bool" where
  "effects_recorded user tool correlation w w' \<longleftrightarrow> (\<exists>new. w_events w' = w_events w @ new \<and>
     (\<forall>q. Sent q \<in> set new \<longrightarrow> \<not> is_read q \<longrightarrow> (\<exists>v i. vehicle_of_user (w_db w) user v \<and> targets (vr_vin v) q \<and>
        map_of (command_audits (w_db w)) i = None \<and> recorded (w_db w') i user (vr_vehicle_id v) tool correlation)))"

lemma effects_none: "w_events w' = w_events w \<Longrightarrow> effects_recorded user tool c w w'"
  unfolding effects_recorded_def by (intro exI [of _ "[]"]) simp

lemma reads_recorded:
  assumes "gateway_rel is_read w w'"
  shows "effects_recorded user tool c w w'"
proof -
  from assms obtain new where "w_events w' = w_events w @ new"
    "list_all (\<lambda>e. case e of Sent q \<Rightarrow> is_read q | Slept d \<Rightarrow> True) new" unfolding gateway_rel_def by blast
  then show ?thesis unfolding effects_recorded_def by (intro exI [of _ new]) (auto simp: list_all_iff)
qed

context audit_log
begin

lemma run_chosen_records:
  assumes au: "me_audit env = au" and ot: "others_keep_audits env" and spec: "mcp_tool tool = Some spec"
    and owned: "\<And>v. vehicle = Some v \<Longrightarrow> vehicle_of_user (w_db w) user v"
  shows "effects_recorded user tool c w (snd (run_chosen fuel env user spec vals c vehicle w))"
proof (cases "ts_write spec")
  case False
  with writes_are_the_effects [OF spec] have "\<not> is_command spec" "ts_client_method spec \<noteq> ''wake_up''"
    by (simp_all add: has_effect_def)
  then have "gw.stays is_read (run_chosen fuel env user spec vals c vehicle)"
    unfolding run_chosen_def if_not_P [OF False] by (intro gw.stays_rules run_operation_reads ot)
  then show ?thesis by (rule reads_recorded [OF gw.staysD])
next
  case wr: True
  show ?thesis
  proof (cases vehicle)
    case None
    with wr show ?thesis by (simp add: run_chosen_def oraise_def effects_none)
  next
    case (Some v)
    have run: "run_chosen fuel env user spec vals c vehicle = execute_audited fuel env user spec v vals c"
      by (simp add: run_chosen_def wr Some)
    show ?thesis unfolding run
    proof (rule execute_audited_outcome [OF au ot refl])
      assume "w_events (snd (execute_audited fuel env user spec v vals c w)) = w_events w"
      then show "effects_recorded user tool c w (snd (execute_audited fuel env user spec v vals c w))" by (rule effects_none)
    next
      fix new i
      assume "w_events (snd (execute_audited fuel env user spec v vals c w)) = w_events w @ new"
        and aim: "\<And>q. Sent q \<in> set new \<Longrightarrow> reads_or_targets (vr_vin v) q"
        and "map_of (command_audits (w_db w)) i = None"
        and "recorded (w_db (snd (execute_audited fuel env user spec v vals c w))) i user (vr_vehicle_id v) (ts_name spec) c"
      then show "effects_recorded user tool c w (snd (execute_audited fuel env user spec v vals c w))"
        unfolding effects_recorded_def using owned [OF Some] mcp_tool_member(1) [OF spec]
        by (intro exI [of _ new] conjI allI impI) (auto simp: reads_or_targets_def dest!: aim)
    qed
  qed
qed

lemma call_tool_records:
  assumes au: "me_audit env = au" and ot: "others_keep_audits env" and spec: "mcp_tool tool = Some spec"
  shows "effects_recorded user tool c w (snd (call_tool fuel env user spec arguments c w))"
proof (cases "ts_risk spec = SecuritySensitive \<and> dget arguments ''explicit_current_turn_intent'' \<noteq> VBool True")
  case True
  then show ?thesis by (simp add: call_tool_def oraise_def effects_none)
next
  case False
  note step = obind_still [where Q = "\<lambda>w'. effects_recorded user tool c w w'"]
  have none: "effects_recorded user tool c w w" by (rule effects_none) simp
  have chosen: "effects_recorded user tool c w (snd (obind (choose_vehicle user spec selected) (run_chosen fuel env user spec vals c) w))"
    if "\<And>v. selected = Some v \<Longrightarrow> vehicle_of_user (w_db w) user v" for selected vals
  proof (rule step [OF choose_still none], rule run_chosen_records [OF au ot spec])
    fix x v
    assume "choose_vehicle user spec selected w = (Inr x, w)" and "x = Some v"
    then show "vehicle_of_user (w_db w) user v" using choose_owned that by simp
  qed
  show ?thesis unfolding call_tool_def if_not_P [OF False] Let_def
  proof (rule step [OF _ none], rule still.stays_pure, rule step [OF still_reading none])
    fix conn
    show "effects_recorded user tool c w (snd ((case missing_scope spec arguments (token_scopes (co_tokens conn)) of
          Some m \<Rightarrow> oraise (mcp_error ''missing_tesla_scope'' m)
        | None \<Rightarrow> obind (resolve_vehicle user (dget (AList.delete ''explicit_current_turn_intent'' arguments) ''vehicle_id''))
            (\<lambda>selected. obind (choose_vehicle user spec selected) (run_chosen fuel env user spec
              (AList.delete ''vehicle_id'' (AList.delete ''explicit_current_turn_intent'' arguments)) c))) w))"
    proof (cases "missing_scope spec arguments (token_scopes (co_tokens conn))")
      case None
      show ?thesis unfolding None option.case
        by (rule step [OF resolve_still none], rule chosen) (simp add: resolve_owned)
    next
      case (Some m)
      with none show ?thesis by (simp add: oraise_def)
    qed
  qed
qed

end

subsection \<open>The Firestore audit log\<close>

definition firestore_audit :: "store_env \<Rightarrow> audit_store" where
  "firestore_audit se = \<lparr>au_begin = begin_command_audit se, au_complete = complete_command_audit se\<rparr>"

interpretation fs_audit: audit_log "firestore_audit se" for se
proof
  show "ak.stays (au_begin (firestore_audit se) i now u vid tool ps c src)" for i now u vid tool ps c src
  proof (rule ak.staysI)
    fix db
    show "audits_kept db (snd (au_begin (firestore_audit se) i now u vid tool ps c src db))"
      by (cases "map_of (command_audits db) i")
        (auto simp: firestore_audit_def begin_command_audit_def transact_def create_doc_def result_simps audits_kept_def
          update_conv')
  qed
  show "ak.stays (au_complete (firestore_audit se) i result category)" for i result category
  proof (rule ak.staysI)
    fix db
    have key: "audit_key (dict_merge d [(''result'', a), (''error_category'', b), (''completed_at'', x)]) = audit_key d" for d a b x
      by (simp add: audit_key_def dget_def)
    show "audits_kept db (snd (au_complete (firestore_audit se) i result category db))"
    proof (cases "map_of (command_audits db) i")
      case None
      then show ?thesis
        by (simp add: firestore_audit_def complete_command_audit_def transact_def update_doc_def result_simps audits_kept_refl)
    next
      case (Some d)
      then show ?thesis unfolding audits_kept_def
        by (auto simp: firestore_audit_def complete_command_audit_def transact_def update_doc_def result_simps update_conv' key
          simp del: dict_merge_Cons)
    qed
  qed
  show "map_of (command_audits db) i = None \<and> recorded db' i u vid tool c"
    if "au_begin (firestore_audit se) i now u vid tool ps c src db = (Inr x, db')" for i now u vid tool ps c src db x db'
    using that by (auto simp: firestore_audit_def begin_command_audit_def transact_eq_Inr inr_simps recorded_def update_conv'
      audit_key_def dget_def)
qed

lemma effects_recorded_world:
  assumes "w_events v = w_events w" and "w_db v = w_db w"
  shows "effects_recorded user tool c v w' = effects_recorded user tool c w w'"
  by (simp add: effects_recorded_def assms)

text \<open>The call up to the tool: the correlation identifier is drawn first.\<close>

lemma mcp_call_cases:
  obtains "snd (mcp_call fuel env ctx tool arguments w) = w\<lparr>w_draws := w_draws w + 1\<rparr>"
  | spec vals where "mcp_tool tool = Some spec" "arguments = VDict vals"
    "snd (mcp_call fuel env ctx tool arguments w) =
       snd (call_tool fuel env (ctx_user_id ctx) spec vals (''corr_'' @ me_token env (w_draws w)) (w\<lparr>w_draws := w_draws w + 1\<rparr>))"
proof -
  let ?c = "''corr_'' @ me_token env (w_draws w)" and ?w = "w\<lparr>w_draws := w_draws w + 1\<rparr>"
  have run: "snd (mcp_call fuel env ctx tool arguments w) = snd ((case arguments of
      VDict vals \<Rightarrow>
        if tool \<in> set analytics_operations then olift (run_analytics env ctx tool vals ?c)
        else (case mcp_tool tool of
            None \<Rightarrow> oraise (mcp_error ''unknown_tool'' ''Unknown MCP tool'')
          | Some spec \<Rightarrow> call_tool fuel env (ctx_user_id ctx) spec vals ?c)
    | _ \<Rightarrow> oraise (mcp_error ''invalid_arguments'' ''Tool arguments must be a JSON object'')) ?w)" (is "_ = snd ?out")
  proof -
    have "snd (ocatch m (\<lambda>e. oraise (f e)) v) = snd (m v)" for m :: "dict gateway" and f v
      by (cases "m v"; cases "fst (m v)") (simp_all add: ocatch_def oraise_def)
    then show ?thesis unfolding mcp_call_def Let_def obind_def [of "draw env"] draw_def by simp
  qed
  show thesis
  proof (cases "\<exists>vals spec. arguments = VDict vals \<and> tool \<notin> set analytics_operations \<and> mcp_tool tool = Some spec")
    case True
    then obtain vals spec where "arguments = VDict vals" "tool \<notin> set analytics_operations" "mcp_tool tool = Some spec" by blast
    with run show thesis by (intro that(2)) simp_all
  next
    case False
    then have "snd ?out = ?w"
      by (auto simp: oraise_def olift_def split: val.split option.split)
    with run show thesis by (intro that(1)) simp
  qed
qed

text \<open>C1: Every request of a tool call that is not a read goes to a vehicle of the registry that belongs to the
  caller, and the audit log holds afterwards a record, new with this call, of that owner, vehicle, tool and
  correlation identifier; whatever the tool, the arguments and the answers of Tesla.\<close>

theorem effects_are_recorded_on_own_vehicles:
  assumes "me_audit env = firestore_audit se" and "others_keep_audits env"
    and "mcp_call fuel env ctx tool arguments w = (r, w')"
  shows "\<exists>new. w_events w' = w_events w @ new \<and> (\<forall>q. Sent q \<in> set new \<longrightarrow> \<not> is_read q \<longrightarrow>
    (\<exists>v i. vehicle_of_user (w_db w) (ctx_user_id ctx) v \<and> targets (vr_vin v) q \<and> map_of (command_audits (w_db w)) i = None \<and>
      recorded (w_db w') i (ctx_user_id ctx) (vr_vehicle_id v) tool (''corr_'' @ me_token env (w_draws w))))"
proof -
  let ?c = "''corr_'' @ me_token env (w_draws w)" and ?w = "w\<lparr>w_draws := w_draws w + 1\<rparr>"
  have same: "effects_recorded u t c ?w v = effects_recorded u t c w v" for u t c v
    by (rule effects_recorded_world) simp_all
  have "effects_recorded (ctx_user_id ctx) tool ?c ?w (snd (mcp_call fuel env ctx tool arguments w))"
  proof (rule mcp_call_cases)
    assume "snd (mcp_call fuel env ctx tool arguments w) = ?w"
    then show ?thesis by (simp add: effects_none)
  next
    fix spec vals
    assume "mcp_tool tool = Some spec" and
      run: "snd (mcp_call fuel env ctx tool arguments w) = snd (call_tool fuel env (ctx_user_id ctx) spec vals ?c ?w)"
    then show ?thesis unfolding run by (intro fs_audit.call_tool_records [OF assms(1,2)])
  qed
  then show ?thesis unfolding same by (simp add: assms(3) effects_recorded_def)
qed

subsection \<open>No audit, no command\<close>

lemma begin_audit_refused:
  assumes "\<And>now src db. \<exists>e db'. au_begin (me_audit env) i now u vid tool ps c src db = (Inl e, db') \<and> e \<noteq> NoReturn"
  shows "\<exists>w'. begin_audit env i u vid tool ps c failure w = (Inl (mcp_error ''audit_unavailable'' failure), w')"
proof -
  from assms obtain e db' where "au_begin (me_audit env) i (me_now env (w_events w)) u vid tool ps c ''chatgpt-mcp'' (w_db w) = (Inl e, db')"
    "e \<noteq> NoReturn" by blast
  then show ?thesis by (simp add: begin_audit_def catch_all_def ocatch_def obind_def now_of_def on_db_def oraise_def)
qed

text \<open>An error, and nothing was sent.\<close>

definition refused :: "gateway_world \<Rightarrow> (exn + dict) \<times> gateway_world \<Rightarrow> bool" where
  "refused w out \<longleftrightarrow> (\<exists>e. fst out = Inl e) \<and> w_events (snd out) = w_events w"

lemma refused_oraise: "refused w (oraise e w)"
  by (simp add: refused_def oraise_def)

lemma obind_refused:
  assumes "still.stays m" and "\<And>x. m w = (Inr x, w) \<Longrightarrow> refused w (f x w)"
  shows "refused w (obind m f w)"
  using assms still.staysD [OF assms(1), of w]
  by (cases "m w"; cases "fst (m w)") (auto simp: obind_def refused_def)

lemma execute_audited_refused:
  assumes "\<And>i u vid t ps c now src db. \<exists>e db'. au_begin (me_audit env) i now u vid t ps c src db = (Inl e, db') \<and> e \<noteq> NoReturn"
  shows "refused w (execute_audited fuel env user spec v vals c w)"
proof -
  let ?i = "''audit_'' @ me_token env (w_draws w)" and ?w = "w\<lparr>w_draws := w_draws w + 1\<rparr>"
  obtain w' where b: "begin_audit env ?i user (vr_vehicle_id v) (ts_name spec)
      (redact_command_parameters (ts_client_method spec) vals) c
      ''Command was not sent because its audit record could not be created'' ?w =
      (Inl (mcp_error ''audit_unavailable'' ''Command was not sent because its audit record could not be created''), w')"
    using begin_audit_refused [OF assms] by blast
  from begin_audit_quiet [of env ?i user "vr_vehicle_id v" "ts_name spec" "redact_command_parameters (ts_client_method spec) vals" c
      "''Command was not sent because its audit record could not be created''" ?w]
  have "w_events w' = w_events w" unfolding b by simp
  with b show ?thesis
    by (simp add: execute_audited_def obind_def [of "draw env"] draw_def Let_def obind_Inl refused_def)
qed

lemma tool_name_prefix:
  assumes "mcp_tool tool = Some spec"
  shows "starts_with ''tesla_'' tool"
proof -
  have fixed: "list_all (\<lambda>s. starts_with ''tesla_'' (ts_name s)) fixed_specs"
    by (simp add: fixed_specs_def starts_with_def)
  have pre: "starts_with ''tesla_'' (''tesla_'' @ x)" for x by (simp add: starts_with_def)
  have "starts_with ''tesla_'' (ts_name spec)"
    using mcp_tool_member(2) [OF assms] fixed unfolding set_append set_map set_filter list_all_iff
    by (auto simp: vehicle_read_spec_def account_read_spec_def command_spec_def pre simp del: append.simps)
  with mcp_tool_member(1) [OF assms] show ?thesis by simp
qed

lemma tool_not_analytics: "mcp_tool tool = Some spec \<Longrightarrow> tool \<notin> set analytics_operations"
  using tool_name_prefix by (fastforce simp: analytics_operations_def starts_with_def)

lemma mcp_call_tool:
  assumes "mcp_tool tool = Some spec"
  shows "mcp_call fuel env ctx tool (VDict vals) w =
    ocatch (call_tool fuel env (ctx_user_id ctx) spec vals (''corr_'' @ me_token env (w_draws w)))
      (\<lambda>e. oraise (with_correlation (''corr_'' @ me_token env (w_draws w)) e)) (w\<lparr>w_draws := w_draws w + 1\<rparr>)"
  using tool_not_analytics [OF assms] assms
  by (simp add: mcp_call_def obind_def [of "draw env"] draw_def Let_def)

text \<open>C2: When the audit log cannot be written, a tool that writes fails and no request leaves the gateway.\<close>

theorem no_audit_no_command:
  assumes "\<And>i u vid t ps c now src db. \<exists>e db'. au_begin (me_audit env) i now u vid t ps c src db = (Inl e, db') \<and> e \<noteq> NoReturn"
    and tool: "mcp_tool tool = Some spec" and wr: "ts_write spec"
    and call: "mcp_call fuel env ctx tool (VDict vals) w = (r, w')"
  shows "(\<exists>e. r = Inl e) \<and> w_events w' = w_events w"
proof -
  let ?c = "''corr_'' @ me_token env (w_draws w)" and ?w = "w\<lparr>w_draws := w_draws w + 1\<rparr>"
  have chosen: "refused v (run_chosen fuel env user spec xs c vehicle v)" for v user xs c vehicle
    by (cases vehicle) (simp_all add: run_chosen_def wr refused_oraise execute_audited_refused [OF assms(1)])
  have scope: "refused v ((case missing_scope spec vals scopes of
        Some m \<Rightarrow> oraise (mcp_error ''missing_tesla_scope'' m)
      | None \<Rightarrow> obind (resolve_vehicle user vid) (\<lambda>selected.
          obind (choose_vehicle user spec selected) (run_chosen fuel env user spec xs c))) v)" for v scopes user vid xs c
    by (cases "missing_scope spec vals scopes")
      (simp_all add: refused_oraise obind_refused [OF resolve_still] obind_refused [OF choose_still] chosen)
  have body: "refused v (call_tool fuel env user spec vals c v)" for v user c
    unfolding call_tool_def Let_def
    by (simp add: refused_oraise obind_refused [OF still.stays_pure(3)] obind_refused [OF still_reading] scope)
  from body [of ?w "ctx_user_id ctx" ?c] obtain e t where t: "call_tool fuel env (ctx_user_id ctx) spec vals ?c ?w = (Inl e, t)"
    "w_events t = w_events ?w" unfolding refused_def by (metis prod.collapse)
  with call show ?thesis unfolding mcp_call_tool [OF tool] by (auto simp: ocatch_def oraise_def)
qed

subsection \<open>Sensitive commands need intent\<close>

lemma client_methods_distinct:
  "distinct (map (\<lambda>r. fst (snd r)) vehicle_reads @ map snd account_reads @ map ts_client_method fixed_specs @ command_names)"
  by (simp add: vehicle_reads_def account_reads_def fixed_specs_def command_names_def)

lemma tool_names_distinct: "distinct (map ts_name mcp_tool_specs)"
proof -
  let ?all = "map vehicle_read_spec vehicle_reads @ map account_read_spec account_reads @ fixed_specs
      @ map command_spec (filter (\<lambda>c. c \<notin> set excluded_commands) command_names)"
  have fixed: "map ts_name fixed_specs = map (\<lambda>s. ''tesla_'' @ ts_client_method s) fixed_specs"
    by (simp add: fixed_specs_def)
  have names: "map ts_name ?all = map (\<lambda>n. ''tesla_'' @ n) (map (\<lambda>r. fst (snd r)) vehicle_reads @ map snd account_reads
      @ map ts_client_method fixed_specs @ filter (\<lambda>c. c \<notin> set excluded_commands) command_names)"
    unfolding map_append map_map comp_def fixed
    by (simp add: vehicle_read_spec_def account_read_spec_def command_spec_def case_prod_beta)
  have "distinct (map (\<lambda>r. fst (snd r)) vehicle_reads @ map snd account_reads
      @ map ts_client_method fixed_specs @ filter (\<lambda>c. c \<notin> set excluded_commands) command_names)"
    using client_methods_distinct by auto
  then have "distinct (map ts_name ?all)" unfolding names distinct_map by (simp add: inj_on_def)
  moreover have "mset (map ts_name mcp_tool_specs) = mset (map ts_name ?all)"
    unfolding mcp_tool_specs_def mset_map mset_sort by (rule refl)
  ultimately show ?thesis using mset_eq_imp_distinct_iff by blast
qed

lemma mcp_tool_command:
  assumes "c \<in> set command_names" and "c \<notin> set excluded_commands"
  shows "mcp_tool (''tesla_'' @ c) = Some (command_spec c)"
proof -
  have "command_spec c \<in> set mcp_tool_specs" using assms by (simp add: mcp_tool_specs_def)
  moreover have "ts_name (command_spec c) = ''tesla_'' @ c" by (simp add: command_spec_def)
  ultimately have "(''tesla_'' @ c, command_spec c) \<in> set (map (\<lambda>s. (ts_name s, s)) mcp_tool_specs)" by force
  then show ?thesis unfolding mcp_tool_def
    by (rule map_of_is_SomeI [rotated]) (simp add: comp_def tool_names_distinct)
qed

lemma sensitive_are_commands: "list_all (\<lambda>c. c \<in> set command_names \<and> c \<notin> set excluded_commands) security_sensitive"
  by (simp add: security_sensitive_def command_names_def excluded_commands_def)

text \<open>C3: A security-sensitive command whose arguments do not carry the current-turn intent is refused with its
  correlation identifier, before the database or Tesla are touched.\<close>

theorem sensitive_command_needs_intent:
  assumes "c \<in> set security_sensitive" and "dget vals ''explicit_current_turn_intent'' \<noteq> VBool True"
  shows "mcp_call fuel env ctx (''tesla_'' @ c) (VDict vals) w =
    (Inl (MCPToolError ''explicit_intent_required''
       ''This security-sensitive operation requires unambiguous current-turn intent''
       (Some (''corr_'' @ me_token env (w_draws w)))),
     w\<lparr>w_draws := w_draws w + 1\<rparr>)"
proof -
  from assms(1) sensitive_are_commands have tool: "mcp_tool (''tesla_'' @ c) = Some (command_spec c)"
    by (intro mcp_tool_command) (auto simp: list_all_iff)
  show ?thesis unfolding mcp_call_tool [OF tool]
    using assms by (simp add: call_tool_def command_spec_def oraise_def ocatch_def mcp_error_def with_correlation_def)
qed

end
