(* ===== verification/McpWaiting.thy ===== *)
theory McpWaiting
  imports McpAudit
begin

text \<open>
  How long a command may wait for a sleeping vehicle: the pauses of the poll loop, and none other,
  since the reads of the vehicle's state are not retried.
\<close>

subsection \<open>Pauses\<close>

definition slept :: "event list \<Rightarrow> rat" where
  "slept es = sum_list (map (\<lambda>e. case e of Sent q \<Rightarrow> 0 | Slept d \<Rightarrow> d) es)"

definition nap_free :: "'w net_scheme \<Rightarrow> 'w net_scheme \<Rightarrow> bool" where
  "nap_free w w' \<longleftrightarrow> (\<exists>new. w_events w' = w_events w @ new \<and> slept new = 0)"

interpretation nf: state_frame nap_free
proof
  show "nap_free w w" for w :: "'w net_scheme"
    unfolding nap_free_def by (intro exI [of _ "[]"]) (simp add: slept_def)
  fix a b c :: "'w net_scheme"
  assume ab: "nap_free a b" and bc: "nap_free b c"
  from ab obtain x where x: "w_events b = w_events a @ x" "slept x = 0" unfolding nap_free_def by blast
  from bc obtain y where y: "w_events c = w_events b @ y" "slept y = 0" unfolding nap_free_def by blast
  from x y show "nap_free a c" unfolding nap_free_def by (intro exI [of _ "x @ y"]) (simp add: slept_def)
qed

lemma nap_free_same: "w_events w' = w_events w \<Longrightarrow> nap_free w w'"
  unfolding nap_free_def by (intro exI [of _ "[]"]) (simp add: slept_def)

lemma exchange_nap_free: "nf.stays (exchange env m rq)"
proof (rule nf.staysI)
  fix w :: "'w net_scheme"
  have "nap_free w (emit (Sent rq) w)" unfolding nap_free_def emit_def by (intro exI [of _ "[Sent rq]"]) (simp add: slept_def)
  then show "nap_free w (snd (exchange env m rq w))" by (simp add: exchange_def split: wire_answer.split)
qed

lemma transport_nap_free: "nf.stays (transport_request env tr verb url headers form body)"
  unfolding transport_request_def direct_request_def proxy_request_def Let_def
  by (cases tr; simp only: transport.case) (intro nf.stays_rules exchange_nap_free)+

text \<open>A call that is not retried does not pause.\<close>

lemma attempts_nap_free: "nf.stays (attempts env tr verb url token body False n left :: ('w, http_response) fleet_call)"
proof -
  have "attempts env tr verb url token body False n left =
      (transport_request env tr verb url (auth_headers token) None body :: ('w, http_response) fleet_call)"
    by (cases left) (simp_all add: fun_eq_iff split: prod.split sum.split)
  then show ?thesis by (simp add: transport_nap_free)
qed

lemma json_nap_free: "nf.stays (request_json env c verb base path token body False)"
  unfolding request_json_def request_def by (intro nf.stays_rules attempts_nap_free)

lemma vehicle_nap_free: "nf.stays (fleet_vehicle env c token base vin)" "nf.stays (fleet_wake_up env c token base vin)"
  unfolding fleet_vehicle_def fleet_wake_up_def on_vehicle_def by (intro nf.stays_rules json_nap_free)+

lemma on_db_nap_free: "nf.stays (on_db m)"
  by (rule nf.staysI) (simp add: on_db_def nap_free_same split: prod.split)

lemma small_nap_free: "nf.stays (draw env)" "nf.stays (now_of env)"
  by (auto simp: nf.stays_def draw_def now_of_def intro: nap_free_same)

lemma user_nap_free: "(\<And>t b. nf.stays (op t b)) \<Longrightarrow> nf.stays (per_user env user op)"
  unfolding per_user_def access_of_def by (intro nf.stays_execute nf.stays_rules small_nap_free on_db_nap_free)

lemma audit_nap_free:
  "nf.stays (begin_audit env i user vid tool ps c failure)" "nf.stays (finalize_audit env i result category)"
  "nf.stays m \<Longrightarrow> nf.stays (record_failure env i m)"
  unfolding begin_audit_def finalize_audit_def record_failure_def catch_all_def
  by (intro nf.stays_rules small_nap_free on_db_nap_free; assumption)+

lemma live_vehicle_nap_free: "nf.stays (live_vehicle env user vin)"
  unfolding live_vehicle_def by (intro user_nap_free vehicle_nap_free)

subsection \<open>Bounded waiting\<close>

definition waits :: "rat \<Rightarrow> 'a gateway \<Rightarrow> bool" where
  "waits n m \<longleftrightarrow> (\<forall>w. \<exists>new. w_events (snd (m w)) = w_events w @ new \<and> slept new \<le> n)"

lemma waits_free: "nf.stays m \<Longrightarrow> 0 \<le> n \<Longrightarrow> waits n m"
  unfolding waits_def nf.stays_def nap_free_def by fastforce

lemma waits_obind:
  assumes "waits a m" and "\<And>x. waits b (f x)" and "0 \<le> b"
  shows "waits (a + b) (obind m f)"
  unfolding waits_def
proof
  fix w
  obtain r t where ms: "m w = (r, t)" by (cases "m w")
  with assms(1) obtain x where x: "w_events t = w_events w @ x" "slept x \<le> a" unfolding waits_def by (metis snd_conv)
  show "\<exists>new. w_events (snd (obind m f w)) = w_events w @ new \<and> slept new \<le> a + b"
  proof (cases r)
    case (Inl e)
    with ms x assms(3) show ?thesis by (intro exI [of _ x]) (simp add: obind_def)
  next
    case (Inr v)
    from assms(2) [of v] obtain y where y: "w_events (snd (f v t)) = w_events t @ y" "slept y \<le> b" unfolding waits_def by blast
    with x have "slept (x @ y) \<le> a + b" by (simp add: slept_def)
    with ms Inr x y show ?thesis by (intro exI [of _ "x @ y"]) (simp add: obind_def)
  qed
qed

lemma waits_after: "nf.stays m \<Longrightarrow> (\<And>x. waits b (f x)) \<Longrightarrow> 0 \<le> b \<Longrightarrow> waits b (obind m f)"
  using waits_obind [of 0 m b f] waits_free [of m 0] by simp

lemma waits_if: "waits n m \<Longrightarrow> waits n k \<Longrightarrow> waits n (if b then m else k)"
  by simp

lemma waits_pause: "waits d (pause d)"
  unfolding waits_def pause_def emit_def by (auto simp: slept_def)

lemma poll_waits: "waits (10 * of_nat polls) (poll_online polls env user vin)"
proof (induction polls)
  case 0
  show ?case by (simp add: waits_free nf.stays_pure)
next
  case (Suc polls)
  have "waits (10 + 10 * of_nat polls) (poll_online (Suc polls) env user vin)"
    unfolding poll_online.simps
    by (rule waits_obind [OF waits_pause], rule waits_after [OF live_vehicle_nap_free], rule waits_if [OF waits_free Suc.IH])
      (simp_all add: nf.stays_pure)
  then show ?case by (simp add: algebra_simps)
qed

text \<open>Waiting for a vehicle that sleeps pauses for at most sixty seconds in all, whatever Tesla answers.\<close>

theorem wake_waits_at_most_a_minute:
  "\<exists>new. w_events (snd (ensure_vehicle_online env user spec v w)) = w_events w @ new \<and> slept new \<le> 60"
proof -
  have polled: "waits 60 (obind (poll_online wake_poll_attempts env user (vr_vin v)) (\<lambda>online.
      if online then oret (Some c) else oraise e))" for c e
  proof -
    have "waits (10 * of_nat wake_poll_attempts + 0) (obind (poll_online wake_poll_attempts env user (vr_vin v)) (\<lambda>online.
        if online then oret (Some c) else oraise e))"
      by (rule waits_obind [OF poll_waits]) (simp_all add: waits_free nf.stays_pure)
    then show ?thesis by (simp add: wake_poll_attempts_def)
  qed
  have "waits 60 (ensure_vehicle_online env user spec v)"
    unfolding ensure_vehicle_online_def Let_def
    by (intro waits_after live_vehicle_nap_free waits_if waits_free nf.stays_pure small_nap_free audit_nap_free user_nap_free
      vehicle_nap_free polled) simp_all
  then show ?thesis unfolding waits_def by blast
qed

end
