(* ===== verification/McpExamples.thy ===== *)
theory McpExamples
  imports McpWaiting
begin

text \<open>
  A gateway with one connected user and one online car, and the properties of the MCP service on it.
\<close>

definition gateway_store :: store_env where
  "gateway_store = demo_store\<lparr>se_decrypt := (\<lambda>u s. Inr \<lparr>access_token = s, refresh_token = ''r'',
     token_expires_at = 10 ^ 12, token_scopes = [''vehicle_device_data'', ''vehicle_cmds''], tesla_subject = ''sub''\<rparr>)\<rparr>"

definition gateway_net :: net_env where
  "gateway_net = \<lparr>ne_answer = (\<lambda>evs rq. Answered \<lparr>hr_status = 200, hr_body = hq_method rq, hr_content_type = None\<rparr>),
     ne_json = (\<lambda>b. Some (VDict [(''response'', VDict (if b = ''GET''
       then [(''vin'', VStr ''VIN1''), (''id_s'', VStr ''7''), (''state'', VStr ''online'')] else [(''result'', VBool True)]))])),
     ne_float = (\<lambda>q. []), ne_iso = (\<lambda>s. None)\<rparr>"

definition gateway_env :: mcp_env where
  "gateway_env = \<lparr>me_net = gateway_net, me_store = gateway_store, me_api = demo_api, me_others = (\<lambda>db. db),
     me_fleet = \<lparr>fc_transport = Direct, fc_max_read_retries = 2\<rparr>,
     me_commands = \<lparr>fc_transport = Direct, fc_max_read_retries = 0\<rparr>,
     me_audit = firestore_audit gateway_store, me_analytics = None, me_typed = (\<lambda>c d. True), me_token = (\<lambda>n. str_of_int (int n)),
     me_now = (\<lambda>evs. 5), me_base64 = (\<lambda>b. b)\<rparr>"

definition gateway_start :: gateway_world where
  "gateway_start = \<lparr>w_events = [], w_db = garage_db\<lparr>connections := [(''usr_1'', [(''owner_user_id'', VStr ''usr_1''),
     (''connection_id'', VStr ''conn_c''), (''encrypted_tokens'', VStr ''tok''), (''token_version'', VInt 1),
     (''base_url'', VStr demo_base), (''status'', VStr ''connected'')])]\<rparr>, w_draws = 0\<rparr>"

definition gateway_user :: user_context where
  "gateway_user = \<lparr>ctx_user_id = ''usr_1'', ctx_dataset_id = ''ds'', ctx_issuer = ''iss'', ctx_subject = ''sub''\<rparr>"

definition unaudited_env :: mcp_env where
  "unaudited_env = gateway_env\<lparr>me_audit := \<lparr>au_begin = (\<lambda>i now u vid t ps c src. oraise (LibraryError ''down'')),
     au_complete = (\<lambda>i r c. oraise (LibraryError ''down''))\<rparr>\<rparr>"

lemma horn_tool: "mcp_tool ''tesla_honk_horn'' = Some (command_spec ''honk_horn'')"
proof -
  have "''honk_horn'' \<in> set command_names" "''honk_horn'' \<notin> set excluded_commands" by code_simp+
  from mcp_tool_command [OF this] show ?thesis by simp
qed

lemma horn_is_a_write: "ts_write (command_spec ''honk_horn'')"
  by (simp add: command_spec_def)

text \<open>The car is online: the command is sent.\<close>

lemma horn_sends:
  "list_ex (\<lambda>e. case e of Sent q \<Rightarrow> \<not> is_read q | Slept d \<Rightarrow> False)
     (w_events (snd (mcp_call 1 gateway_env gateway_user ''tesla_honk_horn'' (VDict []) gateway_start)))"
proof -
  have "list_ex (\<lambda>e. case e of Sent q \<Rightarrow> \<not> is_read q | Slept d \<Rightarrow> False)
     (w_events (snd (ocatch (call_tool 1 gateway_env (ctx_user_id gateway_user) (command_spec ''honk_horn'') []
         (''corr_'' @ me_token gateway_env (w_draws gateway_start)))
       (\<lambda>e. oraise (with_correlation (''corr_'' @ me_token gateway_env (w_draws gateway_start)) e))
       (gateway_start\<lparr>w_draws := w_draws gateway_start + 1\<rparr>))))"
    by code_simp
  then show ?thesis unfolding mcp_call_tool [OF horn_tool] .
qed

theorem effects_are_recorded_on_own_vehicles_witness:
  "\<exists>q (v :: vehicle_record) i. Sent q \<in> set (w_events (snd (mcp_call 1 gateway_env gateway_user ''tesla_honk_horn'' (VDict []) gateway_start))) \<and>
     \<not> is_read q \<and> targets (vr_vin v) q \<and> vr_owner v = ''usr_1'' \<and>
     recorded (w_db (snd (mcp_call 1 gateway_env gateway_user ''tesla_honk_horn'' (VDict []) gateway_start))) i ''usr_1''
       (vr_vehicle_id v) ''tesla_honk_horn'' ''corr_0''"
proof -
  let ?out = "mcp_call 1 gateway_env gateway_user ''tesla_honk_horn'' (VDict []) gateway_start"
  have c: "''corr_'' @ me_token gateway_env (w_draws gateway_start) = ''corr_0''" by code_simp
  have u: "ctx_user_id gateway_user = ''usr_1''" "w_events gateway_start = []" by (simp_all add: gateway_user_def gateway_start_def)
  have au: "me_audit gateway_env = firestore_audit gateway_store" "others_keep_audits gateway_env"
    by (simp_all add: gateway_env_def others_keep_audits_def audits_kept_refl)
  obtain e where e: "e \<in> set (w_events (snd ?out))" "case e of Sent q \<Rightarrow> \<not> is_read q | Slept d \<Rightarrow> False"
    using horn_sends unfolding list_ex_iff by blast
  obtain q where q: "Sent q \<in> set (w_events (snd ?out))" "\<not> is_read q"
  proof (cases e)
    case (Sent q)
    with e show thesis by (intro that [of q]) simp_all
  qed (use e in simp)
  from effects_are_recorded_on_own_vehicles [OF au prod.collapse [symmetric], of 1 gateway_user "''tesla_honk_horn''" "VDict []" gateway_start]
  obtain v i where v: "vehicle_of_user (w_db gateway_start) ''usr_1'' v" "targets (vr_vin v) q"
    "recorded (w_db (snd ?out)) i ''usr_1'' (vr_vehicle_id v) ''tesla_honk_horn'' ''corr_0''"
    unfolding c u append_Nil using q by blast
  from v(1) have "vr_owner v = ''usr_1''" unfolding vehicle_of_user_def by (rule conjunct1)
  with q v(2,3) show ?thesis 
    by - (rule exI [of _ q], rule exI [of _ v], rule exI [of _ i], intro conjI)
qed

theorem no_audit_no_command_witness:
  "w_events (snd (mcp_call 1 unaudited_env gateway_user ''tesla_honk_horn'' (VDict []) gateway_start)) = []"
proof -
  have "\<exists>e db'. au_begin (me_audit unaudited_env) i now u vid t ps c src db = (Inl e, db') \<and> e \<noteq> NoReturn"
    for i u vid t ps c now src db
    by (simp add: unaudited_env_def oraise_def)
  from no_audit_no_command [OF this horn_tool horn_is_a_write prod.collapse [symmetric], of 1 gateway_user "[]" gateway_start]
  show ?thesis by (simp add: gateway_start_def)
qed

theorem sensitive_command_needs_intent_witness:
  "fst (mcp_call 1 gateway_env gateway_user ''tesla_door_unlock'' (VDict []) gateway_start) =
     Inl (MCPToolError ''explicit_intent_required''
       ''This security-sensitive operation requires unambiguous current-turn intent''
       (Some (''corr_'' @ me_token gateway_env (w_draws gateway_start))))"
proof -
  have c: "''door_unlock'' \<in> set security_sensitive" and v: "dget [] ''explicit_current_turn_intent'' \<noteq> VBool True"
    by (simp_all add: security_sensitive_def dget_def)
  from sensitive_command_needs_intent [OF c v, of 1 gateway_env gateway_user gateway_start] show ?thesis by simp
qed

end
