(* ===== verification/TelemetryControlGuarantees.thy ===== *)
theory TelemetryControlGuarantees
  imports TelemetryControl TelemetryConfigGuarantees McpExamples VehicleOwnership
begin

text \<open>
  What the telemetry control plane guarantees: a configuration is recorded as synchronized only when
  Tesla reported it so, and the reconciler touches no other vehicle before its canary is in sync.
\<close>

subsection \<open>The plans\<close>

lemma parse_config_eq_Inr: "parse_config d = Inr c \<longleftrightarrow> parse_tesla_config d = Inr c"
  by (auto simp: parse_config_def split: sum.splits exn.splits)

lemma diff_config_eq_Inr: "diff_config lib c des i = Inr d \<longleftrightarrow> config_diff lib c des i = Inr d"
  by (auto simp: diff_config_def split: sum.splits exn.splits)

subsection \<open>What the control plane sends\<close>

definition sent_only :: "(http_request \<Rightarrow> bool) \<Rightarrow> gateway_world \<Rightarrow> gateway_world \<Rightarrow> bool" where
  "sent_only P w w' \<longleftrightarrow> (\<exists>new. w_events w' = w_events w @ new \<and>
     list_all (\<lambda>e. case e of Sent q \<Rightarrow> P q | Slept d \<Rightarrow> True) new)"

interpretation so: state_frame "sent_only P" for P
proof
  show "sent_only P w w" for w
    unfolding sent_only_def by (intro exI [of _ "[]"]) simp
next
  fix a b c
  assume "sent_only P a b" and "sent_only P b c"
  then obtain x y where "w_events b = w_events a @ x" "list_all (\<lambda>e. case e of Sent q \<Rightarrow> P q | Slept d \<Rightarrow> True) x"
    "w_events c = w_events b @ y" "list_all (\<lambda>e. case e of Sent q \<Rightarrow> P q | Slept d \<Rightarrow> True) y"
    unfolding sent_only_def by blast
  then show "sent_only P a c" unfolding sent_only_def by (intro exI [of _ "x @ y"]) simp
qed

lemma sent_only_mono: "sent_only P w w' \<Longrightarrow> (\<And>q. P q \<Longrightarrow> Q q) \<Longrightarrow> sent_only Q w w'"
  unfolding sent_only_def list_all_iff by (erule exE, rule exI) (auto split: event.splits)

lemma so_mono: "so.stays P m \<Longrightarrow> (\<And>q. P q \<Longrightarrow> Q q) \<Longrightarrow> so.stays Q m"
  unfolding so.stays_def by (blast intro: sent_only_mono)

lemma emitted_mono: "emitted P w w' \<Longrightarrow> (\<And>q. P q \<Longrightarrow> Q q) \<Longrightarrow> emitted Q w w'"
  unfolding emitted_def list_all_iff by (erule exE, rule exI) (auto split: event.splits)

lemma em_mono: "em.stays P m \<Longrightarrow> (\<And>q. P q \<Longrightarrow> Q q) \<Longrightarrow> em.stays Q m"
  unfolding em.stays_def by (blast intro: emitted_mono)

lemma so_small: "so.stays P (on_db m)" "so.stays P (draw env)" "so.stays P (now_of env)" "so.stays P (pause d)"
  by (auto simp: so.stays_def sent_only_def draw_def now_of_def pause_def emit_def on_db_def split: prod.split)

lemma so_catch_all: "so.stays P m \<Longrightarrow> (\<And>e. so.stays P (h e)) \<Longrightarrow> so.stays P (catch_all m h)"
  unfolding catch_all_def by (intro so.stays_rules)

lemma so_fleet: "em.stays P m \<Longrightarrow> so.stays P (m :: 'a gateway)"
proof (rule so.staysI)
  fix w
  assume "em.stays P m"
  from em.staysD [OF this, of w] show "sent_only P w (snd (m w))" unfolding emitted_def sent_only_def by fastforce
qed

lemma so_per_user: "(\<And>t b. so.stays P (op t b)) \<Longrightarrow> so.stays P (per_user env user op)"
  unfolding per_user_def access_of_def by (intro so.stays_execute so.stays_rules so_small)

lemma so_reads:
  "so.stays is_read (read_config kc user vin)" "so.stays is_read (read_errors kc user vin)"
  "so.stays is_read (eligible_for_telemetry kc user vid)" "so.stays is_read (capability_profile kc user v)"
  unfolding read_config_def read_errors_def eligible_for_telemetry_def capability_profile_def
  by (intro so.stays_rules so_small so_per_user so_fleet fleet_reads fleet_status_reads)+

lemma wait_reads: "so.stays is_read (wait_until_synced left kc user v desired)"
  by (induction left) (auto intro!: so.stays_rules so_small so_reads)

lemma verify_reads: "so.stays is_read (verify_and_save kc user vid v p opt_in)"
  unfolding verify_and_save_def by (intro so.stays_rules so_small wait_reads)

lemma so_audited_change: "so.stays P body \<Longrightarrow> so.stays P (audited_change kc user vid operation desired source body)"
  unfolding audited_change_def Let_def by (intro so.stays_rules so_small so_catch_all)

text \<open>A request that carries the wanted configuration for this one VIN.\<close>

definition configures :: "telemetry_control \<Rightarrow> string \<Rightarrow> telemetry_profile \<Rightarrow> http_request \<Rightarrow> bool" where
  "configures kc vin p q \<longleftrightarrow> hq_method q = ''POST'' \<and> hq_json q = Some (VDict (config_request_payload [vin] (desired_config kc p)))"

lemma transport_emits_json:
  assumes "truthy body" and "\<And>q. hq_method q = ''POST'' \<Longrightarrow> hq_json q = Some body \<Longrightarrow> P q"
  shows "em.stays P (transport_request env tr ''POST'' url headers None (Some body))"
proof (cases tr)
  case Direct
  show ?thesis unfolding transport_request_def Direct transport.case direct_request_def
    by (intro em.stays_rules exchange_emits assms(2)) simp_all
next
  case (CommandProxy origin)
  show ?thesis unfolding transport_request_def CommandProxy transport.case proxy_request_def Let_def
    by (intro em.stays_rules exchange_emits assms(2)) (simp_all add: assms(1))
qed

lemma create_configures:
  "em.stays (configures kc vin p)
     (fleet_telemetry_config_create env c token base (config_request_payload [vin] (desired_config kc p)))"
proof -
  have "truthy (VDict (config_request_payload [vin] cfg))" for cfg by (simp add: config_request_payload_def)
  then show ?thesis
    unfolding fleet_telemetry_config_create_def object_call_def request_json_def request_def
    by (intro em.stays_rules attempts_emits transport_emits_json) (auto simp: configures_def)
qed

text \<open>Reads, and the planned configuration for the VIN that the record of the caller's own, active and paired vehicle has in
  the database.\<close>

definition own_configuration ::
  "telemetry_control \<Rightarrow> string \<Rightarrow> string \<Rightarrow> string \<Rightarrow> onboarding_db \<Rightarrow> http_request \<Rightarrow> bool" where
  "own_configuration kc user vid expected db q \<longleftrightarrow> is_read q \<or> (\<exists>(v :: vehicle_record) p. get_vehicle user vid db = Inr v \<and>
     vr_authorization_status v = ''active'' \<and> vr_virtual_key_status v = ''paired'' \<and> expected = desired_hash kc p \<and>
     configures kc (vr_vin v) p q)"

lemma eligible_facts:
  assumes "eligible_for_telemetry kc user vid w = (Inr v, w')"
  shows "get_vehicle user vid (w_db w) = Inr v" and "vr_authorization_status v = ''active''"
    and "vr_virtual_key_status v = ''paired''"
  using assms by (auto simp: eligible_for_telemetry_def obind_eq_Inr on_db_def reading_def oper_simps split: if_splits)

lemma eligible_world: "eligible_for_telemetry kc user vid w = (r, w') \<Longrightarrow> w' = w"
  by (auto simp: eligible_for_telemetry_def obind_def on_db_def reading_def oraise_def oret_def split: sum.splits if_splits)

lemma so_if: "(b \<Longrightarrow> so.stays P m) \<Longrightarrow> (\<not> b \<Longrightarrow> so.stays P n) \<Longrightarrow> so.stays P (if b then m else n)"
  by simp

text \<open>The part of \<open>apply\<close> after the vehicle was found eligible, and its body under the audit.\<close>

definition create_and_verify :: "telemetry_control \<Rightarrow> string \<Rightarrow> string \<Rightarrow> vehicle_record \<Rightarrow> telemetry_profile \<Rightarrow> bool \<Rightarrow> dict gateway" where
  "create_and_verify kc user vid v p opt_in =
     obind (per_user (kc_env kc) user (\<lambda>token base. fleet_telemetry_config_create (me_net (kc_env kc)) (me_commands (kc_env kc))
         token base (config_request_payload [vr_vin v] (desired_config kc p)))) (\<lambda>response.
       if (is_dict (dget response ''skipped_vehicles'') \<or> is_list (dget response ''skipped_vehicles''))
         \<and> truthy (dget response ''skipped_vehicles'')
       then oraise (control_error ''vehicle_skipped'' ''Tesla did not accept the selected vehicle configuration'')
       else verify_and_save kc user vid v p opt_in)"

definition planned_apply ::
  "telemetry_control \<Rightarrow> string \<Rightarrow> string \<Rightarrow> string \<Rightarrow> bool \<Rightarrow> string \<Rightarrow> vehicle_record \<Rightarrow> dict gateway" where
  "planned_apply kc user vid expected opt_in source v = obind (capability_profile kc user v) (\<lambda>(st, p).
     if \<not> ascii expected then oraise TypeError
     else if expected \<noteq> desired_hash kc p
     then oraise (control_error ''stale_plan'' ''The telemetry plan changed; inspect it again before applying'')
     else obind (audited_change kc user vid ''apply'' (Some (desired_hash kc p)) source (create_and_verify kc user vid v p opt_in))
       (\<lambda>verified. oret (synced_document ''synced'' vid (desired_hash kc p) verified)))"

lemma control_apply_eq:
  "control_apply kc ctx vid expected confirm opt_in source =
     (if \<not> confirm
      then oraise (control_error ''confirmation_required'' ''Explicit vehicle configuration approval is required'')
      else obind (eligible_for_telemetry kc (ctx_user_id ctx) vid) (planned_apply kc (ctx_user_id ctx) vid expected opt_in source))"
  unfolding control_apply_def planned_apply_def [abs_def] create_and_verify_def Let_def ..

lemma create_sends: "so.stays (\<lambda>q. is_read q \<or> configures kc (vr_vin v) p q) (create_and_verify kc user vid v p opt_in)"
  unfolding create_and_verify_def
  by (intro so.stays_rules so_per_user so_fleet so_mono [OF verify_reads]) (rule em_mono [OF create_configures], simp_all)

lemma planned_sends:
  assumes "get_vehicle user vid db = Inr v" "vr_authorization_status v = ''active''" "vr_virtual_key_status v = ''paired''"
  shows "so.stays (own_configuration kc user vid expected db) (planned_apply kc user vid expected opt_in source v)"
  unfolding planned_apply_def
  by (intro so.stays_obind so.stays_prod so_if so.stays_pure so_audited_change so_mono [OF so_reads(4)] so_mono [OF create_sends])
    (use assms in \<open>auto simp: own_configuration_def\<close>)

lemma apply_sends:
  assumes "control_apply kc ctx vid expected confirm opt_in source w = (r, w')"
  shows "if confirm then sent_only (own_configuration kc (ctx_user_id ctx) vid expected (w_db w)) w w' else w' = w"
proof -
  obtain q w1 where e: "eligible_for_telemetry kc (ctx_user_id ctx) vid w = (q, w1)" by fastforce
  note eligible_world [OF e]
  moreover have "sent_only (own_configuration kc (ctx_user_id ctx) vid expected (w_db w)) w
      (snd (planned_apply kc (ctx_user_id ctx) vid expected opt_in source v w))" if "q = Inr v" for v
    using eligible_facts [OF e [unfolded that]] planned_sends so.staysD by blast
  ultimately show ?thesis using assms e so.rel_refl
    by (cases q) (auto simp: control_apply_eq obind_def oraise_def split: if_splits)
qed

subsection \<open>Synchronized means confirmed\<close>

text \<open>Between two moments Tesla answered with the configuration that was wanted, called it
  synchronized, and then had no recent error to report.\<close>

definition confirmed ::
  "telemetry_control \<Rightarrow> string \<Rightarrow> vehicle_record \<Rightarrow> tele_config \<Rightarrow> gateway_world \<Rightarrow> gateway_world \<Rightarrow> bool" where
  "confirmed kc user v desired w w' \<longleftrightarrow> (\<exists>w1 w2 w3 response c errors.
     sent_only is_read w w1 \<and> read_config kc user (vr_vin v) w1 = (Inr response, w2) \<and>
     dget response ''synced'' = VBool True \<and> parse_tesla_config response = Inr (Some c) \<and> same_configuration (kc_lib kc) c desired \<and>
     read_errors kc user (vr_vin v) w2 = (Inr errors, w3) \<and>
     \<not> has_relevant_errors (kc_time kc) (me_now (kc_env kc) (w_events w3)) errors \<and> w' = w3)"

lemma wait_confirmed: "wait_until_synced left kc user v desired w = (Inr d, w') \<Longrightarrow> confirmed kc user v desired w w'"
proof (induction left arbitrary: w)
  case 0
  then show ?case by (simp add: oraise_def)
next
  case (Suc left)
  from Suc.prems obtain response w1 current difference where r: "read_config kc user (vr_vin v) w = (Inr response, w1)"
    and c: "parse_tesla_config response = Inr current"
    and diff: "config_diff (kc_lib kc) current desired (tp_profile_id (kc_trust kc)) = Inr difference"
    and go: "(if dget response ''synced'' = VBool True \<and> dget difference ''status'' = VStr ''in_sync''
       then obind (read_errors kc user (vr_vin v)) (\<lambda>errors.
         obind (now_of (kc_env kc)) (\<lambda>now.
         if has_relevant_errors (kc_time kc) now errors
         then oraise (control_error ''tesla_reported_errors'' ''Tesla reports telemetry configuration errors'')
         else oret [(''synced'', VBool True), (''errors'', safe_error_summary errors (vr_vin v))]))
       else if 0 < left then obind (pause (kc_sync_delay kc)) (\<lambda>_. wait_until_synced left kc user v desired)
       else wait_until_synced left kc user v desired) w1 = (Inr d, w')"
    unfolding wait_until_synced.simps obind_eq_Inr olift_def parse_config_eq_Inr [symmetric] diff_config_eq_Inr [symmetric] by auto
  show ?case
  proof (cases "dget response ''synced'' = VBool True \<and> dget difference ''status'' = VStr ''in_sync''")
    case True
    with diff diff_absent diff_status obtain x where x: "current = Some x" "same_configuration (kc_lib kc) x desired"
      by (cases current) blast+
    from go [unfolded if_P [OF True]] obtain errors w2 where "read_errors kc user (vr_vin v) w1 = (Inr errors, w2)"
      "\<not> has_relevant_errors (kc_time kc) (me_now (kc_env kc) (w_events w2)) errors" "w' = w2"
      by (auto simp: obind_eq_Inr now_of_def oraise_def oret_def split: if_splits)
    with x r c True so.rel_refl [of is_read w] show ?thesis unfolding confirmed_def by blast
  next
    case False
    from so.staysD [OF so_reads(1), of w kc user "vr_vin v"] r have sent: "sent_only is_read w w1" by simp
    have later: "confirmed kc user v desired w w'" if "sent_only is_read w1 w2" "confirmed kc user v desired w2 w'" for w2
      using that so.rel_trans [OF so.rel_trans [OF sent]] unfolding confirmed_def by blast
    show ?thesis
    proof (cases "0 < left")
      case True
      from go [unfolded if_not_P [OF False] if_P [OF True] obind_eq_Inr] obtain u w2 where
        w2: "pause (kc_sync_delay kc) w1 = (Inr u, w2)" and rest: "wait_until_synced left kc user v desired w2 = (Inr d, w')" by blast
      from so.staysD [OF so_small(4), of is_read w1 "kc_sync_delay kc"] w2 have "sent_only is_read w1 w2" by simp
      then show ?thesis using Suc.IH [OF rest] by (rule later)
    next
      case F: False
      from go [unfolded if_not_P [OF False] if_not_P [OF F]] have "wait_until_synced left kc user v desired w1 = (Inr d, w')" .
      from later [OF so.rel_refl Suc.IH [OF this]] show ?thesis .
    qed
  qed
qed

lemma config_fields_distinct: "distinct (keys (config_fields srv c))"
  by (simp add: config_fields_def)

lemma config_fields_keep: "map_of (config_fields srv c) k = None \<Longrightarrow> map_of (dict_merge data (config_fields srv c)) k = map_of data k"
  by (simp add: map_of_dict_merge [OF config_fields_distinct] map_add_def)

lemma config_fields_set: "map_of (config_fields srv c) k = Some v \<Longrightarrow> map_of (dict_merge data (config_fields srv c)) k = Some v"
  by (simp add: map_of_dict_merge [OF config_fields_distinct] map_add_def)

lemma config_fields_others:
  "map_of (config_fields srv c) ''owner_user_id'' = None" "map_of (config_fields srv c) ''connection_id'' = None"
  "map_of (config_fields srv c) ''vin'' = None" "map_of (config_fields srv c) ''tesla_vehicle_id'' = None"
  "map_of (config_fields srv c) ''virtual_key_status'' = None" "map_of (config_fields srv c) ''display_name'' = None"
  "map_of (config_fields srv c) ''state'' = None" "map_of (config_fields srv c) ''authorization_status'' = None"
  "map_of (config_fields srv c) ''vehicle_command_protocol_required'' = None" "map_of (config_fields srv c) ''firmware_version'' = None"
  "map_of (config_fields srv c) ''fleet_telemetry_version'' = None" "map_of (config_fields srv c) ''total_number_of_keys'' = None"
  by (simp_all add: config_fields_def)

lemmas keeps_vehicle = config_fields_others [THEN config_fields_keep]

lemma vehicle_merge: "vehicle_from_data vid (dict_merge data (config_fields srv c)) = vehicle_from_data vid data"
  by (simp only: vehicle_from_data_def required_value_def field_str_def field_bool_def field_int_def dget_def dget_default_def
      keeps_vehicle)

lemma config_fields_values:
  "map_of (config_fields srv c) ''telemetry_config_version'' = Some (opt_str (cs_profile_version c))"
  "map_of (config_fields srv c) ''telemetry_config_hash'' = Some (opt_str (cs_config_hash c))"
  "map_of (config_fields srv c) ''telemetry_field_config_hash'' = Some (opt_str (cs_field_config_hash c))"
  "map_of (config_fields srv c) ''telemetry_trust_profile_id'' = Some (opt_str (cs_trust_profile_id c))"
  "map_of (config_fields srv c) ''telemetry_trust_profile_hash'' = Some (opt_str (cs_trust_profile_hash c))"
  "map_of (config_fields srv c) ''telemetry_config_status'' = Some (VStr (cs_status c))"
  "map_of (config_fields srv c) ''telemetry_transport_maintenance_opt_in'' = Some (VBool (cs_opt_in c))"
  by (simp_all add: config_fields_def)

lemmas sets_configuration = config_fields_values [THEN config_fields_set]

lemma saved_configuration:
  assumes "save_telemetry_configuration env owner vid c db = (Inr (), db')" and "cs_vehicle_id c = vid"
  shows "get_telemetry_configuration owner vid db' = Inr c"
proof -
  from assms(1) obtain data r x where data: "map_of (vehicles db) vid = Some data"
    and r: "vehicle_from_data vid data = Inr r" "require_vehicle_owner r owner = Inr x"
    and db': "db' = db\<lparr>vehicles := AList.update vid (dict_merge data (config_fields (se_server_time env) c)) (vehicles db)\<rparr>"
    by (auto simp: save_telemetry_configuration_def inr_simps split: option.split_asm sum.split_asm)
  have lookup: "map_of (vehicles db') vid = Some (dict_merge data (config_fields (se_server_time env) c))"
    by (simp add: db' map_of_update)
  show ?thesis
    by (cases c) (use assms(2) in \<open>simp add: get_telemetry_configuration_def lookup vehicle_merge r result_simps
      sets_configuration dget_default_def\<close>)
qed

subsection \<open>Applying a configuration\<close>

text \<open>Completing the audit record does not touch the vehicles.\<close>

lemma complete_keeps_configuration:
  assumes "complete_config_audit env i result category db = (r, db')"
  shows "get_telemetry_configuration owner vid db' = get_telemetry_configuration owner vid db"
proof -
  from assms have "vehicles db' = vehicles db"
    by (cases r) (auto simp: complete_config_audit_def transact_eq_Inl transact_eq_Inr inr_simps)
  then show ?thesis by (simp add: get_telemetry_configuration_def)
qed

lemma audited_change_eq_Inr:
  assumes "audited_change kc user vid operation desired source body w = (Inr x, w')"
  shows "\<exists>w1 w2. sent_only is_read w w1 \<and> body w1 = (Inr x, w2) \<and> w_events w' = w_events w2 \<and>
    get_telemetry_configuration owner i (w_db w') = get_telemetry_configuration owner i (w_db w2)"
proof -
  from assms obtain a now u y w0 w1 w2 where a: "draw (kc_env kc) w = (Inr a, w0)"
    and b: "on_db (begin_config_audit (me_store (kc_env kc)) (''tca_'' @ a) now user vid operation desired source) w0 = (Inr u, w1)"
    and c: "catch_all body (\<lambda>e. obind (on_db (complete_config_audit (me_store (kc_env kc)) (''tca_'' @ a) ''failed''
      (Some (config_error_category e)))) (\<lambda>_. oraise e)) w1 = (Inr y, w2)"
    and d: "obind (on_db (complete_config_audit (me_store (kc_env kc)) (''tca_'' @ a) ''succeeded'' None)) (\<lambda>_. oret y) w2 = (Inr x, w')"
    by (auto simp: audited_change_def obind_eq_Inr now_of_def Let_def)
  from c have body: "body w1 = (Inr y, w2)"
    by (auto simp: catch_all_def ocatch_def obind_def oraise_def split: prod.splits sum.splits if_splits)
  from so.staysD [OF so_small(2), of is_read w "kc_env kc"] a so.staysD [OF so_small(1), of is_read w0] b
  have "sent_only is_read w w1" by (metis so.rel_trans snd_conv)
  moreover from d obtain v where "on_db (complete_config_audit (me_store (kc_env kc)) (''tca_'' @ a) ''succeeded'' None) w2 = (Inr v, w')" "y = x"
    by (auto simp: obind_eq_Inr oret_def)
  moreover from this(1) complete_keeps_configuration have
    "w_events w' = w_events w2 \<and> get_telemetry_configuration owner i (w_db w') = get_telemetry_configuration owner i (w_db w2)"
    by (auto simp: on_db_def split: prod.splits)
  ultimately show ?thesis using body by blast
qed

lemma verify_and_save_eq_Inr:
  assumes "verify_and_save kc user vid v p opt_in w = (Inr d, w')"
  shows "\<exists>w1. confirmed kc user v (desired_config kc p) w w1 \<and> w_events w' = w_events w1 \<and>
    get_telemetry_configuration user vid (w_db w') = Inr (synced_state kc vid p opt_in)"
proof -
  from assms obtain x w1 w2 where w: "wait_until_synced (nat (kc_sync_attempts kc)) kc user v (desired_config kc p) w = (Inr x, w1)"
    and s: "on_db (save_telemetry_configuration (me_store (kc_env kc)) user vid (synced_state kc vid p opt_in)) w1 = (Inr (), w')"
    by (auto simp: verify_and_save_def obind_eq_Inr oret_def)
  obtain r db where r: "save_telemetry_configuration (me_store (kc_env kc)) user vid (synced_state kc vid p opt_in) (w_db w1) = (r, db)"
    by fastforce
  with s have "r = Inr ()" and w': "w' = w1\<lparr>w_db := db\<rparr>" by (simp_all add: on_db_def)
  with r have "get_telemetry_configuration user vid db = Inr (synced_state kc vid p opt_in)"
    by (intro saved_configuration) (auto simp: synced_state_def)
  with w' wait_confirmed [OF w] show ?thesis by (intro exI [of _ w1]) simp
qed

text \<open>What a successful configuration went through, and what it leaves behind: the caller's own, active and paired vehicle, the
  plan made for it, the configuration sent for its VIN and not skipped, then the confirmation.\<close>

definition applied :: "telemetry_control \<Rightarrow> string \<Rightarrow> string \<Rightarrow> string \<Rightarrow> bool \<Rightarrow> gateway_world \<Rightarrow> gateway_world \<Rightarrow> bool" where
  "applied kc user vid expected opt_in w w' \<longleftrightarrow> (\<exists>v st p w1 w2 response w3 w4.
     get_vehicle user vid (w_db w) = Inr v \<and> vr_authorization_status v = ''active'' \<and> vr_virtual_key_status v = ''paired'' \<and>
     capability_profile kc user v w = (Inr (st, p), w1) \<and> expected = desired_hash kc p \<and> sent_only is_read w w2 \<and>
     per_user (kc_env kc) user (\<lambda>token base. fleet_telemetry_config_create (me_net (kc_env kc)) (me_commands (kc_env kc))
       token base (config_request_payload [vr_vin v] (desired_config kc p))) w2 = (Inr response, w3) \<and>
     \<not> (is_list (dget response ''skipped_vehicles'') \<and> truthy (dget response ''skipped_vehicles'')) \<and>
     confirmed kc user v (desired_config kc p) w3 w4 \<and> w_events w' = w_events w4 \<and>
     get_telemetry_configuration user vid (w_db w') = Inr (synced_state kc vid p opt_in))"

lemma apply_outcome:
  assumes "control_apply kc ctx vid expected confirm opt_in source w = (Inr d, w')"
  shows "confirm" and "applied kc (ctx_user_id ctx) vid expected opt_in w w'"
proof -
  let ?user = "ctx_user_id ctx" and ?env = "kc_env kc"
  from assms show confirm by (auto simp: control_apply_eq oraise_def split: if_splits)
  from assms obtain v u where v: "eligible_for_telemetry kc ?user vid w = (Inr v, u)"
    and "planned_apply kc ?user vid expected opt_in source v u = (Inr d, w')"
    by (auto simp: control_apply_eq obind_eq_Inr oraise_def split: if_splits)
  then have "planned_apply kc ?user vid expected opt_in source v w = (Inr d, w')" using eligible_world by blast
  then obtain st p verified w1 where p: "capability_profile kc ?user v w = (Inr (st, p), w1)" and hash: "expected = desired_hash kc p"
    and change: "audited_change kc ?user vid ''apply'' (Some (desired_hash kc p)) source
        (create_and_verify kc ?user vid v p opt_in) w1 = (Inr verified, w')"
    by (auto simp: planned_apply_def obind_eq_Inr oraise_def oret_def split: if_splits)
  from audited_change_eq_Inr [OF change, of ?user vid] obtain w2 w5 where a: "sent_only is_read w1 w2"
    and b: "create_and_verify kc ?user vid v p opt_in w2 = (Inr verified, w5)" and same: "w_events w' = w_events w5"
      "get_telemetry_configuration ?user vid (w_db w') = get_telemetry_configuration ?user vid (w_db w5)" by blast
  from b obtain response w3 where c: "per_user ?env ?user (\<lambda>token base. fleet_telemetry_config_create (me_net ?env) (me_commands ?env)
        token base (config_request_payload [vr_vin v] (desired_config kc p))) w2 = (Inr response, w3)"
    and taken: "\<not> (is_list (dget response ''skipped_vehicles'') \<and> truthy (dget response ''skipped_vehicles''))"
    and e: "verify_and_save kc ?user vid v p opt_in w3 = (Inr verified, w5)"
    by (auto simp: create_and_verify_def obind_eq_Inr oraise_def split: if_splits)
  from verify_and_save_eq_Inr [OF e] obtain w4 where f: "confirmed kc ?user v (desired_config kc p) w3 w4"
    "w_events w5 = w_events w4" "get_telemetry_configuration ?user vid (w_db w5) = Inr (synced_state kc vid p opt_in)" by blast
  from so.staysD [OF so_reads(4), of w kc ?user v] p a have "sent_only is_read w w2" using so.rel_trans by (metis snd_conv)
  with eligible_facts [OF v] p hash c taken f same show "applied kc ?user vid expected opt_in w w'"
    unfolding applied_def
    by (intro exI [of _ v] exI [of _ st] exI [of _ p] exI [of _ w1] exI [of _ w2] exI [of _ response] exI [of _ w3] exI [of _ w4]) simp
qed

subsection \<open>The vehicles keep their VINs\<close>

text \<open>No vehicle document disappears, and each keeps its VIN: what the operations of the store do, those of other requests too.\<close>

definition vins_kept :: "onboarding_db \<Rightarrow> onboarding_db \<Rightarrow> bool" where
  "vins_kept db db' \<longleftrightarrow> (\<forall>vid d. map_of (vehicles db) vid = Some d \<longrightarrow>
     (\<exists>d'. map_of (vehicles db') vid = Some d' \<and> dget d' ''vin'' = dget d ''vin''))"

definition others_keep_vins :: "mcp_env \<Rightarrow> bool" where
  "others_keep_vins env \<longleftrightarrow> (\<forall>db. vins_kept db (me_others env db))"

lemma vins_kept_same: "vehicles db' = vehicles db \<Longrightarrow> vins_kept db db'"
  by (simp add: vins_kept_def)

interpretation vk: state_frame vins_kept
proof
  show "vins_kept a c" if "vins_kept a b" "vins_kept b c" for a b c
    unfolding vins_kept_def
  proof (intro allI impI)
    fix vid d
    assume "map_of (vehicles a) vid = Some d"
    with that(1) obtain e where e: "map_of (vehicles b) vid = Some e" "dget e ''vin'' = dget d ''vin''" unfolding vins_kept_def by blast
    with that(2) obtain g where "map_of (vehicles c) vid = Some g" "dget g ''vin'' = dget e ''vin''" unfolding vins_kept_def by blast
    with e show "\<exists>g. map_of (vehicles c) vid = Some g \<and> dget g ''vin'' = dget d ''vin''" by simp
  qed
qed (simp add: vins_kept_same)

interpretation vw: state_frame "\<lambda>w w' :: gateway_world. vins_kept (w_db w) (w_db w')"
  by unfold_locales (rule vk.rel_refl, erule (1) vk.rel_trans)

lemma vk_keeps: "(\<And>c. keeps (\<lambda>db. vehicles db = c) m) \<Longrightarrow> vk.stays m"
  by (intro vk.staysI vins_kept_same) (simp add: keeps_def)

lemma same_ownership_vins:
  assumes "same_ownership db db'"
  shows "vins_kept db db'"
  unfolding vins_kept_def
proof (intro allI impI)
  fix vid d
  assume "map_of (vehicles db) vid = Some d"
  with assms obtain d' where "map_of (vehicles db') vid = Some d'" "dget d' ''vin'' = dget d ''vin''"
    unfolding same_ownership_def by blast
  then show "\<exists>d'. map_of (vehicles db') vid = Some d' \<and> dget d' ''vin'' = dget d ''vin''" by blast
qed

lemma vk_operations:
  "vk.stays (mark_reauthorization_required env owner)" "vk.stays (rotate_tokens env owner n tokens)" "vk.stays (reading f)"
  "vk.stays (begin_config_audit env i now owner vid operation desired source)" "vk.stays (complete_config_audit env i result category)"
  "vk.stays (save_telemetry_configuration env owner vid c)"
proof -
  show "vk.stays (mark_reauthorization_required env owner)"
    by (rule vk_keeps) (unfold mark_reauthorization_required_def, rule keeps_transact, auto simp: inr_simps)
  show "vk.stays (rotate_tokens env owner n tokens)"
    by (rule vk_keeps) (unfold rotate_tokens_def, rule keeps_transact,
      auto simp: rotate_transaction_def Let_def inr_simps simp del: dict_merge_Cons)
  show "vk.stays (reading f)" by (simp add: vk.stays_def reading_def vk.rel_refl)
  show "vk.stays (begin_config_audit env i now owner vid operation desired source)"
    by (rule vk_keeps) (unfold begin_config_audit_def, rule keeps_transact, auto simp: inr_simps)
  show "vk.stays (complete_config_audit env i result category)"
    by (rule vk_keeps) (unfold complete_config_audit_def, rule keeps_transact, auto simp: inr_simps)
  show "vk.stays (save_telemetry_configuration env owner vid c)"
  proof (rule vk.staysI)
    fix db
    from config_same [OF prod.collapse [symmetric]]
    show "vins_kept db (snd (save_telemetry_configuration env owner vid c db))" by (rule same_ownership_vins)
  qed
qed

lemma vk_access:
  assumes "\<And>db. vins_kept db (others db)"
  shows "vk.stays (access_for_user env api others now owner force_refresh)"
proof -
  have commit: "vk.stays (\<lambda>db. m (others db))" if "vk.stays m" for m :: "tesla_connection onboarding"
    by (rule vk.staysI) (rule vk.rel_trans [OF assms vk.staysD [OF that]])
  have pick: "vk.stays (case e of ConcurrentTokenRotationError m \<Rightarrow> reading f | _ \<Rightarrow> oraise e)" for e and f :: "onboarding_db \<Rightarrow> exn + tesla_connection"
    by (cases e) (simp_all add: vk.stays_pure vk_operations)
  have "vk.stays (refresh_connection env api others owner conn)" for conn
    unfolding refresh_connection_def by (intro vk.stays_rules commit pick vk_operations)
  then show ?thesis
    unfolding access_for_user_def current_connection_def by (intro vk.stays_rules vk_operations)
qed

lemma vw_small:
  "vk.stays m \<Longrightarrow> vw.stays (on_db m)" "vw.stays (draw env)" "vw.stays (now_of env)" "vw.stays (pause d)"
  "em.stays P n \<Longrightarrow> vw.stays (n :: 'a gateway)" "vw.stays k \<Longrightarrow> (\<And>e. vw.stays (h e)) \<Longrightarrow> vw.stays (catch_all k h)"
proof -
  show "vw.stays (on_db m)" if "vk.stays m"
  proof (rule vw.staysI)
    fix w :: gateway_world
    from vk.staysD [OF that, of "w_db w"] show "vins_kept (w_db w) (w_db (snd (on_db m w)))"
      by (cases "m (w_db w)") (simp add: on_db_def)
  qed
  show "vw.stays (n :: 'a gateway)" if "em.stays P n"
  proof (rule vw.staysI)
    fix w :: gateway_world
    from em.staysD [OF that, of w] show "vins_kept (w_db w) (w_db (snd (n w)))" unfolding emitted_def by (auto intro: vins_kept_same)
  qed
  show "vw.stays (catch_all k h)" if "vw.stays k" "\<And>e. vw.stays (h e)"
    unfolding catch_all_def by (intro vw.stays_rules that)
qed (simp_all add: vw.stays_def draw_def now_of_def pause_def emit_def vk.rel_refl)

lemma vw_per_user:
  assumes "others_keep_vins env" and "\<And>t b. em.stays P (op t b)"
  shows "vw.stays (per_user env user op)"
proof -
  have access: "vk.stays (access_for_user (me_store env) (me_api env) (me_others env) now u f)" for now u f
    by (rule vk_access) (use assms(1) in \<open>simp add: others_keep_vins_def\<close>)
  show ?thesis unfolding per_user_def access_of_def
    by (intro vw.stays_execute vw.stays_rules vw_small(1,3) access vw_small(5) [OF assms(2)])
qed

lemma vw_reads:
  assumes "others_keep_vins (kc_env kc)"
  shows "vw.stays (read_config kc user vin)" "vw.stays (read_errors kc user vin)"
    "vw.stays (eligible_for_telemetry kc user vid)" "vw.stays (capability_profile kc user v)"
  unfolding read_config_def read_errors_def eligible_for_telemetry_def capability_profile_def
  by (intro vw.stays_rules vw_small(1-4) vk_operations vw_per_user [where P = is_read, OF assms] fleet_reads fleet_status_reads)+

lemma vw_wait: "others_keep_vins (kc_env kc) \<Longrightarrow> vw.stays (wait_until_synced left kc user v desired)"
  by (induction left) (auto intro!: vw.stays_rules vw_small(1-4) vw_reads)

lemma vw_apply:
  assumes "others_keep_vins (kc_env kc)"
  shows "vw.stays (control_apply kc ctx vid expected confirm opt_in source)"
proof -
  have create: "vw.stays (create_and_verify kc user vid v p opt_in)" for user v p
    unfolding create_and_verify_def verify_and_save_def
    by (intro vw.stays_rules vw_per_user [OF assms create_configures] vw_wait assms vw_small(1) vk_operations)
  have "vw.stays (audited_change kc user vid operation desired source m)" if "vw.stays m" for user operation desired and m :: "dict gateway"
    unfolding audited_change_def Let_def by (intro vw.stays_rules vw_small(1-4,6) vk_operations that)
  from this [OF create] have "vw.stays (planned_apply kc user vid expected opt_in source v)" for user v
    unfolding planned_apply_def by (intro vw.stays_rules vw_reads assms; assumption)
  then show ?thesis unfolding control_apply_eq by (intro vw.stays_rules vw_reads assms)
qed

subsection \<open>The canary\<close>

text \<open>A listed vehicle is known: its document has its VIN.\<close>

definition known_vehicle :: "onboarding_db \<Rightarrow> vehicle_record \<Rightarrow> bool" where
  "known_vehicle db v \<longleftrightarrow> (\<exists>d. map_of (vehicles db) (vr_vehicle_id v) = Some d \<and> py_str (dget d ''vin'') = vr_vin v)"

lemma record_vin: "vehicle_from_data vid d = Inr v \<Longrightarrow> vr_vehicle_id v = vid \<and> vr_vin v = py_str (dget d ''vin'')"
  by (auto simp: vehicle_from_data_def required_value_def dget_def inr_simps split: option.splits)

lemma list_all2_member: "list_all2 P xs ys \<Longrightarrow> y \<in> set ys \<Longrightarrow> \<exists>x. x \<in> set xs \<and> P x y"
  by (induction rule: list_all2_induct) auto

lemma listed_known:
  assumes "list_vehicle_records owner db = Inr vs" and "distinct (keys (vehicles db))" and "v \<in> set vs"
  shows "known_vehicle db v"
proof -
  from assms(1) have "list_all2 (\<lambda>(k, d) v. vehicle_from_data k d = Inr v)
      (filter (\<lambda>(k, d). dget d ''owner_user_id'' = VStr owner) (vehicles db)) vs"
    by (simp add: list_vehicle_records_def rmap_eq_Inr case_prod_unfold list_all2_conv_all_nth)
  with assms(3) obtain x where "x \<in> set (vehicles db)" "vehicle_from_data (fst x) (snd x) = Inr v"
    by (auto simp: case_prod_unfold dest!: list_all2_member)
  then obtain k d where "(k, d) \<in> set (vehicles db)" "vehicle_from_data k d = Inr v"
    using that [of "fst x" "snd x"] by simp
  with assms(2) record_vin show ?thesis by (auto simp: known_vehicle_def)
qed

lemma known_kept: "known_vehicle db v \<Longrightarrow> vins_kept db db' \<Longrightarrow> known_vehicle db' v"
  unfolding known_vehicle_def vins_kept_def by metis

lemma known_vin: "known_vehicle db v \<Longrightarrow> get_vehicle user (vr_vehicle_id v) db = Inr v' \<Longrightarrow> vr_vin v' = vr_vin v"
  by (auto simp: known_vehicle_def get_vehicle_def inr_simps dest: record_vin)

text \<open>Reads, and a wanted configuration for this vehicle.\<close>

definition configuration_of :: "telemetry_control \<Rightarrow> vehicle_record \<Rightarrow> http_request \<Rightarrow> bool" where
  "configuration_of kc v q \<longleftrightarrow> is_read q \<or> (\<exists>p. configures kc (vr_vin v) p q)"

text \<open>One vehicle was brought to its configuration, and nothing else was sent.\<close>

definition rolled_out :: "telemetry_control \<Rightarrow> string \<Rightarrow> vehicle_record \<Rightarrow> gateway_world \<Rightarrow> gateway_world \<Rightarrow> bool" where
  "rolled_out kc user v w w' \<longleftrightarrow> sent_only (configuration_of kc v) w w' \<and>
     (\<exists>digest w0. sent_only is_read w w0 \<and> applied kc user (vr_vehicle_id v) digest True w0 w')"

text \<open>The vehicles, one after the other.\<close>

fun rollout :: "telemetry_control \<Rightarrow> string \<Rightarrow> vehicle_record list \<Rightarrow> gateway_world \<Rightarrow> gateway_world \<Rightarrow> bool" where
  "rollout kc user [] w w' \<longleftrightarrow> w' = w"
| "rollout kc user (v # vs) w w' \<longleftrightarrow> (\<exists>w1. rolled_out kc user v w w1 \<and> rollout kc user vs w1 w')"

lemma reconcile_vehicle_steps:
  assumes "reconcile_vehicle kc ctx v w = (r, w')"
  obtains (unsent) "sent_only is_read w w'" "\<And>d. r \<noteq> Inr (d, True)"
  | (changed) st p w1 r1 where "capability_profile kc (ctx_user_id ctx) v w = (Inr (st, p), w1)"
    "control_apply kc ctx (vr_vehicle_id v) (desired_hash kc p) True True ''transport-reconciler'' w1 = (r1, w')"
    "\<And>d. r = Inr (d, True) \<Longrightarrow> r1 = Inr d"
proof -
  let ?user = "ctx_user_id ctx" and ?vid = "vr_vehicle_id v"
  obtain q where a: "on_db (reading (get_telemetry_configuration ?user ?vid)) w = (q, w)" by (simp add: on_db_def reading_def)
  obtain c w1 where b: "capability_profile kc ?user v w = (c, w1)" by fastforce
  with so.staysD [OF so_reads(4), of w kc ?user v] have sent: "sent_only is_read w w1" by simp
  show thesis
  proof (cases "\<exists>state st p. q = Inr state \<and> c = Inr (st, p) \<and> cs_opt_in state \<and>
      cs_field_config_hash state = Some (field_config_hash (kc_lib kc) p)")
    case True
    then obtain state st p where t: "q = Inr state" "c = Inr (st, p)" "cs_opt_in state"
      "cs_field_config_hash state = Some (field_config_hash (kc_lib kc) p)" by blast
    obtain r1 w2 where e: "control_apply kc ctx ?vid (desired_hash kc p) True True ''transport-reconciler'' w1 = (r1, w2)" by fastforce
    from assms a b t e have "w' = w2" "\<And>d. r = Inr (d, True) \<Longrightarrow> r1 = Inr d"
      by (auto simp: reconcile_vehicle_def Let_def obind_def catch_all_def ocatch_def oraise_def oret_def split: sum.splits if_splits)
    with b t e show thesis by (intro changed [of st p w1 r1]) simp_all
  next
    case False
    with assms a b so.rel_refl sent show thesis
      by (intro unsent) (auto simp: reconcile_vehicle_def Let_def obind_def oraise_def oret_def split: sum.splits if_splits)
  qed
qed

lemma reconcile_vehicle_known:
  assumes others: "others_keep_vins (kc_env kc)" and known: "known_vehicle (w_db w) v"
    and run: "reconcile_vehicle kc ctx v w = (r, w')"
  shows "sent_only (configuration_of kc v) w w'" and "vins_kept (w_db w) (w_db w')"
    and "\<And>d. r = Inr (d, True) \<Longrightarrow> rolled_out kc (ctx_user_id ctx) v w w'"
proof -
  have reads: "sent_only is_read a b \<Longrightarrow> sent_only (configuration_of kc v) a b" for a b :: gateway_world
    by (erule sent_only_mono) (simp add: configuration_of_def)
  have "vw.stays (reconcile_vehicle kc ctx v)"
    unfolding reconcile_vehicle_def Let_def
    by (intro vw.stays_rules vw_small(1,6) vk_operations vw_reads vw_apply others)
  from vw.staysD [OF this, of w] run show "vins_kept (w_db w) (w_db w')" by simp
  from run have "sent_only (configuration_of kc v) w w' \<and> (\<forall>d. r = Inr (d, True) \<longrightarrow> rolled_out kc (ctx_user_id ctx) v w w')"
  proof (cases rule: reconcile_vehicle_steps)
    case unsent
    with reads show ?thesis by blast
  next
    case (changed st p w1 r1)
    from so.staysD [OF so_reads(4), of w kc "ctx_user_id ctx" v] vw.staysD [OF vw_reads(4) [OF others], of w "ctx_user_id ctx" v] changed(1)
    have first: "sent_only is_read w w1" and "vins_kept (w_db w) (w_db w1)" by simp_all
    with known known_kept known_vin have vin: "get_vehicle user (vr_vehicle_id v) (w_db w1) = Inr v' \<Longrightarrow> vr_vin v' = vr_vin v" for user v'
      by blast
    from apply_sends [OF changed(2)]
    have "sent_only (own_configuration kc (ctx_user_id ctx) (vr_vehicle_id v) (desired_hash kc p) (w_db w1)) w1 w'" by simp
    then have "sent_only (configuration_of kc v) w1 w'"
      by (rule sent_only_mono) (auto simp: own_configuration_def configuration_of_def dest!: vin)
    with first reads so.rel_trans have sent: "sent_only (configuration_of kc v) w w'" by blast
    moreover have "rolled_out kc (ctx_user_id ctx) v w w'" if "r = Inr (d, True)" for d
      using sent first apply_outcome(2) [OF changed(2) [unfolded changed(3) [OF that]]] unfolding rolled_out_def by blast
    ultimately show ?thesis by blast
  qed
  then show "sent_only (configuration_of kc v) w w'" "\<And>d. r = Inr (d, True) \<Longrightarrow> rolled_out kc (ctx_user_id ctx) v w w'" by blast+
qed

lemma reconcile_rest_known:
  assumes others: "others_keep_vins (kc_env kc)" and "\<And>v. v \<in> set vs \<Longrightarrow> known_vehicle (w_db w) v"
    and "reconcile_rest kc ctx vs w = (r, w')"
  shows "sent_only (\<lambda>q. list_ex (\<lambda>v. configuration_of kc v q) vs) w w' \<and>
    (\<forall>rs. r = Inr rs \<longrightarrow> list_all snd rs \<longrightarrow> rollout kc (ctx_user_id ctx) vs w w')"
  using assms(2,3)
proof (induction vs arbitrary: w r w')
  case Nil
  then show ?case by (simp add: oret_def so.rel_refl)
next
  case (Cons v vs)
  obtain r1 w1 where a: "reconcile_vehicle kc ctx v w = (r1, w1)" by fastforce
  obtain r2 w2 where b: "reconcile_rest kc ctx vs w1 = (r2, w2)" by fastforce
  note one = reconcile_vehicle_known [OF others Cons.prems(1) [OF list.set_intros(1)] a]
  have "known_vehicle (w_db w1) u" if "u \<in> set vs" for u
    using Cons.prems(1) [of u] that one(2) known_kept by auto
  from Cons.IH [OF this b] have two: "sent_only (\<lambda>q. list_ex (\<lambda>v. configuration_of kc v q) vs) w1 w2"
    "\<And>rs. r2 = Inr rs \<Longrightarrow> list_all snd rs \<Longrightarrow> rollout kc (ctx_user_id ctx) vs w1 w2" by blast+
  have left: "sent_only (\<lambda>q. list_ex (\<lambda>v. configuration_of kc v q) (v # vs)) w w1" using one(1) by (rule sent_only_mono) simp
  have "sent_only (\<lambda>q. list_ex (\<lambda>v. configuration_of kc v q) (v # vs)) w1 w2" using two(1) by (rule sent_only_mono) simp
  with left have both: "sent_only (\<lambda>q. list_ex (\<lambda>v. configuration_of kc v q) (v # vs)) w w2" by (rule so.rel_trans)
  show ?case
  proof (cases r1)
    case (Inl e)
    with Cons.prems(2) a left show ?thesis by (auto simp: obind_def)
  next
    case (Inr x)
    with Cons.prems(2) a b both one(3) two(2) show ?thesis
      by (cases x; cases r2) (auto simp: obind_def oret_def)
  qed
qed

text \<open>The server may be switched over.\<close>

definition cutover_ready :: "exn + dict \<Rightarrow> bool" where
  "cutover_ready r \<longleftrightarrow> (case r of Inl e \<Rightarrow> False | Inr d \<Rightarrow> dget d ''status'' = VStr ''ready_for_server_cutover'')"

lemma map_of_listed: "map_of (rev (map (\<lambda>v. (f v, v)) vs)) k = Some v \<Longrightarrow> v \<in> set vs \<and> f v = k"
  by (drule map_of_SomeD) auto

lemma map_of_unlisted: "map_of (rev (map (\<lambda>v. (f v, v)) vs)) k = None \<Longrightarrow> \<not> list_ex (\<lambda>v. f v = k) vs"
  by (auto simp: map_of_eq_None_iff list_ex_iff image_image)

text \<open>The reconciler without the look-up of the canary.\<close>

lemma reconcile_outcome:
  fixes w w' :: gateway_world
  assumes others: "others_keep_vins (kc_env kc)" and known: "\<And>v. v \<in> set vs \<Longrightarrow> known_vehicle (w_db w) v"
    and canary: "canary \<in> set vs" "vr_vehicle_id canary = canary_id"
    and run: "obind (reconcile_vehicle kc ctx canary) (\<lambda>first.
      obind (if snd first then reconcile_rest kc ctx (filter (\<lambda>v. vr_vehicle_id v \<noteq> canary_id) vs) else oret []) (\<lambda>rest.
      let results = first # rest;
          ready = (length results = length (filter (\<lambda>v. vr_vehicle_id v \<noteq> canary_id) vs) + 1 \<and> list_all snd results)
      in oret [(''status'', VStr (if ready then ''ready_for_server_cutover'' else ''blocked'')),
          (''trust_profile_id'', VStr (tp_profile_id (kc_trust kc))), (''trust_profile_hash'', VStr (tp_ca_hash (kc_trust kc))),
          (''vehicles'', VList (map (\<lambda>r. VDict (fst r)) results))])) w = (r, w')"
  shows "\<exists>w1. sent_only (configuration_of kc canary) w w1 \<and> (w' = w1 \<and> \<not> cutover_ready r \<or>
    rolled_out kc (ctx_user_id ctx) canary w w1 \<and>
    sent_only (\<lambda>q. list_ex (\<lambda>v. configuration_of kc v q) (filter (\<lambda>v. vr_vehicle_id v \<noteq> canary_id) vs)) w1 w' \<and>
    (if cutover_ready r then rollout kc (ctx_user_id ctx) (filter (\<lambda>v. vr_vehicle_id v \<noteq> canary_id) vs) w1 w' else True))"
proof -
  obtain r1 w1 where a: "reconcile_vehicle kc ctx canary w = (r1, w1)" by fastforce
  note one = reconcile_vehicle_known [OF others known [OF canary(1)] a]
  show ?thesis
  proof (cases "\<exists>d. r1 = Inr (d, True)")
    case False
    with run a have "w' = w1" "\<not> cutover_ready r"
      by (auto simp: obind_def oret_def cutover_ready_def Let_def dget_def split: sum.splits)
    with one(1) show ?thesis by blast
  next
    case True
    then obtain d where d: "r1 = Inr (d, True)" ..
    obtain r2 w2 where b: "reconcile_rest kc ctx (filter (\<lambda>v. vr_vehicle_id v \<noteq> canary_id) vs) w1 = (r2, w2)" by fastforce
    have "known_vehicle (w_db w1) v" if "v \<in> set (filter (\<lambda>v. vr_vehicle_id v \<noteq> canary_id) vs)" for v
      using that known one(2) known_kept by auto
    note two = reconcile_rest_known [OF others this b]
    from run a b d have "w' = w2" "\<And>rs. r2 = Inr rs \<Longrightarrow> cutover_ready r \<Longrightarrow> list_all snd rs" "\<And>e. r2 = Inl e \<Longrightarrow> \<not> cutover_ready r"
      by (auto simp: obind_def oret_def cutover_ready_def Let_def dget_def split: sum.splits if_splits)
    with one(1) one(3) [OF d] two show ?thesis by (cases r2) auto
  qed
qed


text \<open>C5: The reconciler works through the active vehicles that the database lists for the caller, the canary first: up to a
  point it sends only reads and wanted configurations for the VIN of the canary, and it stops there, reporting that the
  server may not be switched over, unless the canary's configuration was applied, confirmed by Tesla and recorded.  After
  that it sends only reads and wanted configurations for the VINs of the other vehicles, and it reports that the server may be
  switched over only when each of them was brought to its configuration in turn.  An unknown canary: nothing is sent.\<close>

theorem canary_protects_the_others:
  assumes "others_keep_vins (kc_env kc)" and "distinct (keys (vehicles (w_db w)))"
    and "list_vehicle_records (ctx_user_id ctx) (w_db w) = Inr all"
    and "vs = filter (\<lambda>v. vr_authorization_status v = ''active'') all" and "others = filter (\<lambda>v. vr_vehicle_id v \<noteq> canary_id) vs"
  shows "case reconcile_transport kc ctx canary_id w of (r, w') \<Rightarrow>
    if list_ex (\<lambda>v. vr_vehicle_id v = canary_id) vs
    then \<exists>canary w1. canary \<in> set vs \<and> vr_vehicle_id canary = canary_id \<and> sent_only (configuration_of kc canary) w w1 \<and>
      (w' = w1 \<and> \<not> cutover_ready r \<or>
       rolled_out kc (ctx_user_id ctx) canary w w1 \<and> sent_only (\<lambda>q. list_ex (\<lambda>v. configuration_of kc v q) others) w1 w' \<and>
       (if cutover_ready r then rollout kc (ctx_user_id ctx) others w1 w' else True))
    else w' = w \<and> \<not> cutover_ready r"
proof -
  obtain r w' where run: "reconcile_transport kc ctx canary_id w = (r, w')" by fastforce
  have l: "on_db (reading (list_vehicle_records (ctx_user_id ctx))) w = (Inr all, w)"
    by (simp add: on_db_def reading_def assms(3))
  show ?thesis
  proof (cases "map_of (rev (map (\<lambda>v. (vr_vehicle_id v, v)) vs)) canary_id")
    case None
    with run l assms(4) have "w' = w" "\<not> cutover_ready r"
      by (auto simp: reconcile_transport_def obind_def Let_def oraise_def cutover_ready_def)
    with map_of_unlisted [OF None] run show ?thesis by simp
  next
    case (Some canary)
    note c = map_of_listed [OF Some]
    have "known_vehicle (w_db w) v" if "v \<in> set vs" for v
      using that assms(4) listed_known [OF assms(3,2)] by simp
    note known = this
    from run have "obind (reconcile_vehicle kc ctx canary) (\<lambda>first.
      obind (if snd first then reconcile_rest kc ctx (filter (\<lambda>v. vr_vehicle_id v \<noteq> canary_id) vs) else oret []) (\<lambda>rest.
      let results = first # rest;
          ready = (length results = length (filter (\<lambda>v. vr_vehicle_id v \<noteq> canary_id) vs) + 1 \<and> list_all snd results)
      in oret [(''status'', VStr (if ready then ''ready_for_server_cutover'' else ''blocked'')),
          (''trust_profile_id'', VStr (tp_profile_id (kc_trust kc))), (''trust_profile_hash'', VStr (tp_ca_hash (kc_trust kc))),
          (''vehicles'', VList (map (\<lambda>r. VDict (fst r)) results))])) w = (r, w')"
      by (simp add: reconcile_transport_def Let_def obind_def [of "on_db (reading (list_vehicle_records (ctx_user_id ctx)))"] l
        assms(4) [symmetric] Some cong: if_cong)
    note outcome = reconcile_outcome [OF assms(1) known c [THEN conjunct1] c [THEN conjunct2] this]
    then have "\<exists>w1. sent_only (configuration_of kc canary) w w1 \<and> (w' = w1 \<and> \<not> cutover_ready r \<or>
       rolled_out kc (ctx_user_id ctx) canary w w1 \<and> sent_only (\<lambda>q. list_ex (\<lambda>v. configuration_of kc v q) others) w1 w' \<and>
       (if cutover_ready r then rollout kc (ctx_user_id ctx) others w1 w' else True))" unfolding assms(5) by blast
    moreover have "list_ex (\<lambda>v. vr_vehicle_id v = canary_id) vs" using c by (auto simp: list_ex_iff)
    ultimately show ?thesis unfolding run prod.case using c by (simp only: if_True) blast
  qed
qed

subsection \<open>Witness\<close>

definition demo_control :: telemetry_control where
  "demo_control = \<lparr>kc_env = gateway_env, kc_lib = demo_lib, kc_trust = demo_trust, kc_receiver_version = ''1'', kc_sync_attempts = 2,
     kc_sync_delay = 1, kc_catalog = demo_rows, kc_baseline = demo_baseline, kc_profile = demo_profile, kc_time = (\<lambda>s. None)\<rparr>"

definition demo_vehicle :: vehicle_record where
  "demo_vehicle = discovered_record ''usr_1'' ''conn_c'' ''veh_A'' demo_car None"

lemma demo_listed: "list_vehicle_records (ctx_user_id gateway_user) (w_db gateway_start) = Inr [demo_vehicle]"
  unfolding demo_vehicle_def by code_simp

theorem canary_protects_the_others_witness:
  "case reconcile_transport demo_control gateway_user ''veh_A'' gateway_start of (r, w') \<Rightarrow>
    \<exists>w1. sent_only (configuration_of demo_control demo_vehicle) gateway_start w1 \<and>
      (w' = w1 \<and> \<not> cutover_ready r \<or>
       rolled_out demo_control ''usr_1'' demo_vehicle gateway_start w1 \<and> sent_only (\<lambda>q. False) w1 w')"
proof -
  have others: "others_keep_vins (kc_env demo_control)"
    by (simp add: others_keep_vins_def demo_control_def gateway_env_def vk.rel_refl)
  have keys: "distinct (keys (vehicles (w_db gateway_start)))"
    using garage_values(2) by (simp add: gateway_start_def)
  have v: "vr_authorization_status demo_vehicle = ''active''" "vr_vehicle_id demo_vehicle = ''veh_A''" "ctx_user_id gateway_user = ''usr_1''"
    by (simp_all add: demo_vehicle_def gateway_user_def)
  then have vs: "[demo_vehicle] = filter (\<lambda>v. vr_authorization_status v = ''active'') [demo_vehicle]"
    "[] = filter (\<lambda>v. vr_vehicle_id v \<noteq> ''veh_A'') [demo_vehicle]" by simp_all
  obtain r w' where run: "reconcile_transport demo_control gateway_user ''veh_A'' gateway_start = (r, w')" by fastforce
  from canary_protects_the_others [OF others keys demo_listed vs, unfolded run prod.case]
  have "\<exists>canary w1. canary = demo_vehicle \<and> sent_only (configuration_of demo_control canary) gateway_start w1 \<and>
      (w' = w1 \<and> \<not> cutover_ready r \<or>
       rolled_out demo_control ''usr_1'' canary gateway_start w1 \<and> sent_only (\<lambda>q. False) w1 w')"
    by (auto simp: v)
  then show ?thesis unfolding run prod.case by blast
qed

end
