(* ===== verification/CertificateModel.thy ===== *)
theory CertificateModel
  imports TelemetryConfig Url
begin

text \<open>
  \<open>certificate_renewer/main.py\<close>: the scheduled renewal of the receiver's TLS certificate.  What the job
  does outside the process is a list of events; Secret Manager, the Compute API, the programs it runs, the
  clocks and the X.509, JSON, tar and hash libraries answer as functions of the events so far.  Times are in
  microseconds, and the output of a program is read byte by byte.
\<close>

subsection \<open>The world\<close>

text \<open>A file of the temporary directory; a link holds the path it resolves to.\<close>

datatype node = Regular string | Link string | Directory

type_synonym file_tree = "(string \<times> node) list"

datatype cert_event =
    SecretRead string
  | SecretAdded string string
  | SecretsListed string
  | SecretDestroyed string
  | StatusRead string
  | ResetPosted string
  | Executed "string list"
  | Paused rat

record cert_world =
  cw_events :: "cert_event list"
  cw_files :: file_tree

type_synonym 'a renewal = "(cert_world, exn, 'a) oper"

datatype secret_answer = SecretFound string string | SecretMissing | SecretFailed exn

record process =
  pr_returncode :: int
  pr_stdout :: string
  pr_stderr :: string

record leaf =
  lf_names :: "string list option"
  lf_not_before :: int
  lf_not_after :: int
  lf_fingerprint :: string
  lf_key :: string

record tar_archive =
  ta_sizes :: "int list"
  ta_extract :: "string \<Rightarrow> exn + file_tree"

record cert_env =
  ce_access :: "cert_event list \<Rightarrow> string \<Rightarrow> secret_answer"
  ce_add :: "cert_event list \<Rightarrow> string \<Rightarrow> string \<Rightarrow> exn + string"
  ce_versions :: "cert_event list \<Rightarrow> string \<Rightarrow> exn + (string \<times> string) list"
  ce_destroy :: "cert_event list \<Rightarrow> string \<Rightarrow> exn + unit"
  ce_status :: "cert_event list \<Rightarrow> string \<Rightarrow> exn + int \<times> val option"
  ce_reset :: "cert_event list \<Rightarrow> string \<Rightarrow> exn + int"
  ce_execute :: "cert_event list \<Rightarrow> file_tree \<Rightarrow> string list \<Rightarrow> exn + process \<times> file_tree"
  ce_clock :: "cert_event list \<Rightarrow> int"
  ce_monotonic :: "cert_event list \<Rightarrow> rat"
  ce_leaf :: "string \<Rightarrow> exn + leaf"
  ce_private :: "string \<Rightarrow> exn + string"
  ce_chain :: "string \<Rightarrow> exn + certificate list"
  ce_sha256 :: "string \<Rightarrow> string"
  ce_dumps :: "val \<Rightarrow> string"
  ce_loads :: "string \<Rightarrow> exn + val"
  ce_isoformat :: "int \<Rightarrow> string"
  ce_untar :: "string \<Rightarrow> exn + tar_archive"
  ce_tar :: "file_tree \<Rightarrow> string \<Rightarrow> exn + string"
  ce_root :: string
  ce_credentials :: "exn + unit"

definition effect :: "cert_event \<Rightarrow> (cert_event list \<Rightarrow> exn + 'a) \<Rightarrow> 'a renewal" where
  "effect e answer w = (answer (cw_events w), w\<lparr>cw_events := cw_events w @ [e]\<rparr>)"

definition clock :: "cert_env \<Rightarrow> int renewal" where
  "clock env w = (Inr (ce_clock env (cw_events w)), w)"

definition monotonic :: "cert_env \<Rightarrow> rat renewal" where
  "monotonic env w = (Inr (ce_monotonic env (cw_events w)), w)"

definition execute_program :: "cert_env \<Rightarrow> string list \<Rightarrow> process renewal" where
  "execute_program env args w = (let w' = w\<lparr>cw_events := cw_events w @ [Executed args]\<rparr>
     in case ce_execute env (cw_events w) (cw_files w) args of
          Inl e \<Rightarrow> (Inl e, w')
        | Inr (p, fs) \<Rightarrow> (Inr p, w'\<lparr>cw_files := fs\<rparr>))"

definition files_of :: "(file_tree \<Rightarrow> exn + 'a) \<Rightarrow> 'a renewal" where
  "files_of f w = (f (cw_files w), w)"

definition change_files :: "(file_tree \<Rightarrow> exn + file_tree) \<Rightarrow> unit renewal" where
  "change_files f w = (case f (cw_files w) of Inl e \<Rightarrow> (Inl e, w) | Inr fs \<Rightarrow> (Inr (), w\<lparr>cw_files := fs\<rparr>))"

definition write_file :: "string \<Rightarrow> string \<Rightarrow> unit renewal" where
  "write_file path content = change_files (\<lambda>fs. Inr (AList.update path (Regular content) fs))"

definition read_file :: "file_tree \<Rightarrow> string \<Rightarrow> exn + string" where
  "read_file fs path = (case map_of fs path of
       Some (Regular c) \<Rightarrow> Inr c
     | Some (Link t) \<Rightarrow> (case map_of fs t of
           Some (Regular c) \<Rightarrow> Inr c
         | Some Directory \<Rightarrow> Inl (LibraryError ''OSError'')
         | _ \<Rightarrow> Inl (LibraryError ''FileNotFoundError''))
     | Some Directory \<Rightarrow> Inl (LibraryError ''OSError'')
     | None \<Rightarrow> Inl (LibraryError ''FileNotFoundError''))"

subsection \<open>Settings\<close>

record renewer_settings =
  rs_project_id :: string
  rs_zone :: string
  rs_instance :: string
  rs_hostname :: string
  rs_acme_email :: string
  rs_cloudflare_api_token :: string
  rs_cert_secret :: string
  rs_key_secret :: string
  rs_state_secret :: string
  rs_release_secret :: string
  rs_trust_profile_secret :: string
  rs_trust_profile_id :: string
  rs_trust_readiness_secret :: string
  rs_deployment_timeout :: int

definition required_env :: "(string \<times> string) list \<Rightarrow> string \<Rightarrow> exn + string" where
  "required_env vars name =
     (let value = strip (case map_of vars name of None \<Rightarrow> [] | Some v \<Rightarrow> v)
      in if value = [] then Inl (ValueError (name @ '' is required'')) else Inr value)"

definition host_edge :: "char \<Rightarrow> bool" where
  "host_edge c = ((CHR ''a'' \<le> c \<and> c \<le> CHR ''z'') \<or> (CHR ''0'' \<le> c \<and> c \<le> CHR ''9''))"

definition validated_hostname :: "string \<Rightarrow> exn + string" where
  "validated_hostname s =
     (if s \<noteq> [] \<and> host_edge (hd s) \<and> host_edge (last s) \<and> list_all (\<lambda>c. host_edge c \<or> c \<in> set ''.-'') s
      then Inr s else Inl (ValueError ''TELEMETRY_HOSTNAME is invalid''))"

definition settings_from_environment :: "(string \<times> string) list \<Rightarrow> exn + renewer_settings" where
  "settings_from_environment vars =
     rbind (case int_of_str (case map_of vars ''DEPLOYMENT_TIMEOUT_SECONDS'' of None \<Rightarrow> ''600'' | Some v \<Rightarrow> v) of
         None \<Rightarrow> Inl (ValueError ''invalid literal for int()'') | Some i \<Rightarrow> Inr i) (\<lambda>timeout.
     if timeout < 120 \<or> timeout > 1200
     then Inl (ValueError ''DEPLOYMENT_TIMEOUT_SECONDS must be between 120 and 1200'')
     else
       rbind (required_env vars ''GOOGLE_CLOUD_PROJECT'') (\<lambda>project.
       rbind (required_env vars ''TELEMETRY_EDGE_ZONE'') (\<lambda>zone.
       rbind (required_env vars ''TELEMETRY_EDGE_INSTANCE'') (\<lambda>inst.
       rbind (rbind (required_env vars ''TELEMETRY_HOSTNAME'') validated_hostname) (\<lambda>hostname.
       rbind (required_env vars ''ACME_EMAIL'') (\<lambda>email.
       rbind (required_env vars ''CLOUDFLARE_API_TOKEN'') (\<lambda>token.
       rbind (required_env vars ''TLS_CERT_SECRET'') (\<lambda>cert.
       rbind (required_env vars ''TLS_KEY_SECRET'') (\<lambda>key.
       rbind (required_env vars ''ACME_STATE_SECRET'') (\<lambda>st.
       rbind (required_env vars ''TLS_RELEASE_SECRET'') (\<lambda>release.
       rbind (required_env vars ''TELEMETRY_TRUST_PROFILE_SECRET'') (\<lambda>trust.
       rbind (required_env vars ''TELEMETRY_TRUST_PROFILE_ID'') (\<lambda>trust_id.
       rbind (required_env vars ''TELEMETRY_TRUST_READINESS_SECRET'') (\<lambda>readiness.
       Inr \<lparr>rs_project_id = project, rs_zone = zone, rs_instance = inst, rs_hostname = hostname, rs_acme_email = email,
         rs_cloudflare_api_token = token, rs_cert_secret = cert, rs_key_secret = key, rs_state_secret = st,
         rs_release_secret = release, rs_trust_profile_secret = trust, rs_trust_profile_id = trust_id,
         rs_trust_readiness_secret = readiness, rs_deployment_timeout = timeout\<rparr>))))))))))))))"

subsection \<open>Secret Manager\<close>

record secret_value =
  sv_data :: string
  sv_version :: string

definition secret_parent :: "string \<Rightarrow> string \<Rightarrow> string" where
  "secret_parent project secret = ''projects/'' @ project @ ''/secrets/'' @ secret"

definition secret_version_name :: "string \<Rightarrow> string \<Rightarrow> string \<Rightarrow> string" where
  "secret_version_name project secret version = secret_parent project secret @ ''/versions/'' @ version"

definition read_secret :: "cert_env \<Rightarrow> string \<Rightarrow> string \<Rightarrow> string \<Rightarrow> bool \<Rightarrow> secret_value option renewal" where
  "read_secret env project secret version missing_ok =
     (let name = secret_version_name project secret version
      in effect (SecretRead name) (\<lambda>evs. case ce_access env evs name of
           SecretFound d n \<Rightarrow> Inr (Some \<lparr>sv_data = d, sv_version = after_last (CHR ''/'') n\<rparr>)
         | SecretMissing \<Rightarrow> if missing_ok then Inr None else Inl (LibraryError ''NotFound'')
         | SecretFailed e \<Rightarrow> Inl e))"

definition add_secret_version :: "cert_env \<Rightarrow> string \<Rightarrow> string \<Rightarrow> string \<Rightarrow> string renewal" where
  "add_secret_version env project secret payload =
     effect (SecretAdded (secret_parent project secret) payload)
       (\<lambda>evs. rbind (ce_add env evs (secret_parent project secret) payload) (\<lambda>n. Inr (after_last (CHR ''/'') n)))"

definition secret_version_number :: "string \<Rightarrow> exn + int" where
  "secret_version_number name =
     (let version = after_last (CHR ''/'') name;
          invalid = ValueError ''Secret Manager returned an invalid version name''
      in if version = [] \<or> \<not> list_all is_decimal version then Inl invalid
         else (case int_of_str version of
             None \<Rightarrow> Inl (ValueError ''Exceeds the limit for integer string conversion'')
           | Some n \<Rightarrow> if n < 1 then Inl invalid else Inr n))"

text \<open>\<open>upper\<close>; only the letters of \<open>DESTROYED\<close> matter here, and no other character becomes one of them.\<close>

definition upper_ascii :: "string \<Rightarrow> string" where
  "upper_ascii s = map (\<lambda>c. if CHR ''a'' \<le> c \<and> c \<le> CHR ''z'' then char_of (of_char c - (32 :: nat)) else c) s"

definition version_is_destroyed :: "string \<Rightarrow> bool" where
  "version_is_destroyed state = (let s = upper_ascii state in s = ''DESTROYED'' \<or> ends_with ''.DESTROYED'' s)"

fun destroy_older :: "cert_env \<Rightarrow> int \<Rightarrow> (string \<times> string) list \<Rightarrow> unit renewal" where
  "destroy_older env retained [] = oret ()"
| "destroy_older env retained ((name, state) # rest) =
     obind (olift (secret_version_number name)) (\<lambda>n.
     if n \<ge> retained \<or> version_is_destroyed state then destroy_older env retained rest
     else obind (effect (SecretDestroyed name) (\<lambda>evs. ce_destroy env evs name)) (\<lambda>_. destroy_older env retained rest))"

text \<open>The versions of a release: certificate, key, ACME state and manifest.\<close>

record release_versions =
  rv_cert :: string
  rv_key :: string
  rv_state :: string
  rv_release :: string

definition prune_secret :: "cert_env \<Rightarrow> string \<Rightarrow> string \<times> string \<Rightarrow> unit renewal" where
  "prune_secret env project sv = (case sv of (secret, retained) \<Rightarrow>
     obind (olift (secret_version_number retained)) (\<lambda>n.
     obind (effect (SecretsListed (secret_parent project secret)) (\<lambda>evs. ce_versions env evs (secret_parent project secret)))
       (\<lambda>versions. destroy_older env n versions)))"

fun prune_secrets :: "cert_env \<Rightarrow> string \<Rightarrow> (string \<times> string) list \<Rightarrow> unit renewal" where
  "prune_secrets env project [] = oret ()"
| "prune_secrets env project (sv # rest) = obind (prune_secret env project sv) (\<lambda>_. prune_secrets env project rest)"

definition retained_versions :: "renewer_settings \<Rightarrow> release_versions \<Rightarrow> (string \<times> string) list" where
  "retained_versions st r = [(rs_cert_secret st, rv_cert r), (rs_key_secret st, rv_key r), (rs_state_secret st, rv_state r),
     (rs_release_secret st, rv_release r)]"

definition prune_old_release_versions :: "cert_env \<Rightarrow> renewer_settings \<Rightarrow> release_versions \<Rightarrow> unit renewal" where
  "prune_old_release_versions env st r = prune_secrets env (rs_project_id st) (retained_versions st r)"

end
