(* ===== verification/CertificateRenewer.thy ===== *)
theory CertificateRenewer
  imports CertificateModel
begin

text \<open>
  The stored ACME state, the run of Certbot, the checks of a certificate, the release and its deployment,
  and \<open>renew_certificate\<close> itself.
\<close>

subsection \<open>The stored ACME state\<close>

definition cert_name :: string where "cert_name = ''telemetry-edge''"

definition max_state_bytes :: int where "max_state_bytes = 60000"

definition max_extracted_state_bytes :: int where "max_extracted_state_bytes = 5000000"

definition config_dir :: "cert_env \<Rightarrow> string" where "config_dir env = ce_root env @ ''/letsencrypt''"

definition credentials_file :: "cert_env \<Rightarrow> string" where "credentials_file env = ce_root env @ ''/cloudflare.ini''"

definition extract_state :: "cert_env \<Rightarrow> string \<Rightarrow> string \<Rightarrow> unit renewal" where
  "extract_state env payload destination =
     (if max_state_bytes < int (length payload) then oraise (ValueError ''stored ACME state exceeds its size limit'')
      else obind (olift (ce_untar env payload)) (\<lambda>archive.
        if max_extracted_state_bytes < sum_list (ta_sizes archive)
        then oraise (ValueError ''stored ACME state expands beyond its size limit'')
        else obind (olift (ta_extract archive destination)) (\<lambda>new. change_files (\<lambda>fs. Inr (dict_merge fs new)))))"

text \<open>The entries of a directory, \<open>resolve\<close>, and the two tests of the file system.\<close>

definition in_directory :: "string \<Rightarrow> string \<Rightarrow> bool" where
  "in_directory dir path = (starts_with (dir @ ''/'') path \<and> drop (length dir + 1) path \<noteq> [] \<and>
     CHR ''/'' \<notin> set (drop (length dir + 1) path))"

definition resolve_path :: "file_tree \<Rightarrow> string \<Rightarrow> string" where
  "resolve_path fs path = (case map_of fs path of Some (Link t) \<Rightarrow> t | _ \<Rightarrow> path)"

definition is_directory :: "file_tree \<Rightarrow> string \<Rightarrow> bool" where
  "is_directory fs path = (map_of fs (resolve_path fs path) = Some Directory)"

definition is_regular :: "file_tree \<Rightarrow> string \<Rightarrow> bool" where
  "is_regular fs path = (case map_of fs (resolve_path fs path) of Some (Regular c) \<Rightarrow> True | _ \<Rightarrow> False)"

definition live_targets :: "file_tree \<Rightarrow> string \<Rightarrow> string list" where
  "live_targets fs dir = concat (map (\<lambda>(p, n). case n of Link t \<Rightarrow> if in_directory dir p then [t] else [] | _ \<Rightarrow> []) fs)"

definition prune_certificate_history :: "string \<Rightarrow> file_tree \<Rightarrow> file_tree" where
  "prune_certificate_history config fs =
     (let live = config @ ''/live/'' @ cert_name; archive = config @ ''/archive/'' @ cert_name
      in if \<not> is_directory fs live \<or> \<not> is_directory fs archive then fs
         else fold (\<lambda>p cur. if is_regular cur p \<and> resolve_path cur p \<notin> set (live_targets fs live) then AList.delete p cur else cur)
           (filter (in_directory archive) (map fst fs)) fs)"

definition archive_state :: "cert_env \<Rightarrow> string \<Rightarrow> string renewal" where
  "archive_state env config =
     obind (change_files (\<lambda>fs. Inr (prune_certificate_history config fs))) (\<lambda>_.
     obind (files_of (\<lambda>fs. ce_tar env fs config)) (\<lambda>payload.
     if max_state_bytes < int (length payload) then oraise (ValueError ''ACME state exceeds the Secret Manager payload budget'')
     else oret payload))"

subsection \<open>Certbot\<close>

definition certbot_arguments :: "cert_env \<Rightarrow> renewer_settings \<Rightarrow> string list" where
  "certbot_arguments env st =
     [''certbot'', ''certonly'', ''--server'', ''https://acme-v02.api.letsencrypt.org/directory'', ''--dns-cloudflare'',
      ''--dns-cloudflare-credentials'', credentials_file env, ''--dns-cloudflare-propagation-seconds'', ''60'',
      ''--config-dir'', config_dir env, ''--work-dir'', ce_root env @ ''/work'', ''--logs-dir'', ce_root env @ ''/logs'',
      ''--cert-name'', cert_name, ''--domain'', rs_hostname st, ''--email'', rs_acme_email st, ''--agree-tos'',
      ''--no-eff-email'', ''--non-interactive'', ''--force-renewal'']"

definition certbot_patterns :: "(string \<times> string list) list" where
  "certbot_patterns =
     [(''dns_provider_authorization'', [''invalid request headers'', ''authentication error'', ''invalid api token'',
         ''invalid access token'', ''insufficient permissions'', ''permission denied'', ''error determining zone_id'']),
      (''dns_provider_unavailable'', [''api.cloudflare.com'', ''cloudflare api error'', ''cloudflare.exceptions'']),
      (''dns_propagation'', [''dns problem'', ''unauthorized'', ''incorrect txt record'', ''propagation'']),
      (''acme_rate_limited'', [''rate limit'', ''too many certificates'', ''too many failed authorizations'']),
      (''acme_unavailable'', [''connectionerror'', ''connection refused'', ''connection reset'', ''name or service not known'',
         ''temporary failure in name resolution'', ''read timed out'', ''connect timeout'', ''service unavailable'']),
      (''acme_state_invalid'', [''renewal configuration file'', ''expected cert.pem to be a symlink'', ''parsefailures'',
         ''malformed'', ''no such file or directory''])]"

definition certbot_failure_category :: "string \<Rightarrow> string" where
  "certbot_failure_category output =
     (let normalized = lower output
      in case find (\<lambda>(category, needles). list_ex (\<lambda>n. contains n normalized) needles) certbot_patterns of
           None \<Rightarrow> ''certbot_failed'' | Some (category, needles) \<Rightarrow> category)"

definition run_certbot :: "cert_env \<Rightarrow> renewer_settings \<Rightarrow> unit renewal" where
  "run_certbot env st =
     obind (ocatch (execute_program env (certbot_arguments env st))
       (\<lambda>e. if e = LibraryError ''TimeoutExpired'' then oraise (CertbotError ''certbot_timeout'' (- 1)) else oraise e)) (\<lambda>p.
     if pr_returncode p \<noteq> 0
     then oraise (CertbotError (certbot_failure_category (pr_stdout p @ [CHR 0x0A] @ pr_stderr p)) (pr_returncode p))
     else oret ())"

subsection \<open>Certificates\<close>

record material =
  ma_fullchain :: string
  ma_private_key :: string
  ma_leaf_sha256 :: string
  ma_fullchain_sha256 :: string
  ma_not_before :: int
  ma_not_after :: int

definition day :: int where "day = 24 * 60 * 60 * 1000000"

definition minimum_activation_remaining :: int where "minimum_activation_remaining = 7 * day"

definition validate_certificate :: "cert_env \<Rightarrow> int \<Rightarrow> string \<Rightarrow> string \<Rightarrow> int option \<Rightarrow> exn + material" where
  "validate_certificate env now fullchain hostname minimum =
     (case pem_blocks fullchain of
        first # second # rest \<Rightarrow>
          rbind (ce_leaf env first) (\<lambda>lf.
          case lf_names lf of
            None \<Rightarrow> Inl (LibraryError ''ExtensionNotFound'')
          | Some names \<Rightarrow>
              if hostname \<notin> set names then Inl (ValueError ''certificate SAN does not contain the telemetry hostname'')
              else if (case minimum of None \<Rightarrow> False | Some m \<Rightarrow> lf_not_after lf < now + m)
              then Inl (ValueError ''certificate validity is shorter than the deployment safety window'')
              else Inr \<lparr>ma_fullchain = fullchain, ma_private_key = [], ma_leaf_sha256 = lf_fingerprint lf,
                ma_fullchain_sha256 = ce_sha256 env fullchain, ma_not_before = lf_not_before lf, ma_not_after = lf_not_after lf\<rparr>)
      | _ \<Rightarrow> Inl (ValueError ''certificate chain is incomplete''))"

definition validate_material :: "cert_env \<Rightarrow> int \<Rightarrow> string \<Rightarrow> string \<Rightarrow> string \<Rightarrow> exn + material" where
  "validate_material env now fullchain private_key hostname =
     rbind (validate_certificate env now fullchain hostname (Some minimum_activation_remaining)) (\<lambda>m.
     rbind (ce_leaf env (hd (pem_blocks fullchain))) (\<lambda>lf.
     rbind (ce_private env private_key) (\<lambda>key.
     if lf_key lf \<noteq> key then Inl (ValueError ''certificate and private key do not match'')
     else Inr (m\<lparr>ma_private_key := private_key\<rparr>))))"

definition load_and_validate_material :: "cert_env \<Rightarrow> renewer_settings \<Rightarrow> material renewal" where
  "load_and_validate_material env st =
     (let live = config_dir env @ ''/live/'' @ cert_name
      in obind (files_of (\<lambda>fs. read_file fs (live @ ''/fullchain.pem''))) (\<lambda>fullchain.
         obind (files_of (\<lambda>fs. read_file fs (live @ ''/privkey.pem''))) (\<lambda>private_key.
         obind (clock env) (\<lambda>now. olift (validate_material env now fullchain private_key (rs_hostname st))))))"

text \<open>\<open>timedelta / int\<close> rounds to the nearest microsecond, half to even.\<close>

definition divide_time :: "int \<Rightarrow> int \<Rightarrow> int" where
  "divide_time l d = (let q = l div d; r = l mod d in if d < 2 * r \<or> (2 * r = d \<and> odd q) then q + 1 else q)"

definition certificate_is_due :: "material \<Rightarrow> int \<Rightarrow> bool" where
  "certificate_is_due m now =
     (let lifetime = ma_not_after m - ma_not_before m
      in lifetime \<le> 0 \<or> ma_not_after m - now < divide_time lifetime (if lifetime \<le> 10 * day then 2 else 3))"

subsection \<open>The trust profile\<close>

record cert_trust =
  cp_profile_id :: string
  cp_pem :: string
  cp_sha256 :: string

definition load_trust_profile :: "cert_env \<Rightarrow> string \<Rightarrow> string \<Rightarrow> exn + cert_trust" where
  "load_trust_profile env profile_id pem =
     rbind (ce_chain env pem) (\<lambda>cs.
     if cs = [] then Inl (ValueError ''telemetry trust profile is empty'')
     else if \<not> list_all (\<lambda>c. ct_ca c = Some True) cs
     then Inl (ValueError ''telemetry trust profile contains a non-CA certificate'')
     else Inr \<lparr>cp_profile_id = profile_id, cp_pem = concat (map ct_pem cs),
       cp_sha256 = ce_sha256 env (concat (sort (map ct_der cs)))\<rparr>)"

definition verify_arguments :: "cert_env \<Rightarrow> bool \<Rightarrow> string list" where
  "verify_arguments env partial =
     [''openssl'', ''verify''] @ (if partial then [''-partial_chain''] else []) @
     [''-CAfile'', ce_root env @ ''/configured-trust.pem'', ''-untrusted'', ce_root env @ ''/candidate-chain.pem'',
      ce_root env @ ''/candidate-leaf.pem'']"

definition validate_candidate :: "cert_env \<Rightarrow> material \<Rightarrow> cert_trust \<Rightarrow> unit renewal" where
  "validate_candidate env m trust =
     (case pem_blocks (ma_fullchain m) of
        [] \<Rightarrow> oraise (LibraryError ''IndexError'')
      | first # rest \<Rightarrow>
          obind (write_file (ce_root env @ ''/candidate-leaf.pem'') first) (\<lambda>_.
          obind (write_file (ce_root env @ ''/candidate-chain.pem'') (join [CHR 0x0A] rest)) (\<lambda>_.
          obind (write_file (ce_root env @ ''/configured-trust.pem'') (cp_pem trust)) (\<lambda>_.
          obind (execute_program env (verify_arguments env False)) (\<lambda>p.
          obind (if pr_returncode p \<noteq> 0 then execute_program env (verify_arguments env True) else oret p) (\<lambda>p.
          if pr_returncode p \<noteq> 0
          then oraise (ValueError ''certificate candidate is outside the configured telemetry trust profile'')
          else oret ()))))))"

subsection \<open>Releases\<close>

definition release_document ::
  "cert_env \<Rightarrow> renewer_settings \<Rightarrow> material \<Rightarrow> string \<Rightarrow> string \<Rightarrow> string \<Rightarrow> cert_trust \<Rightarrow> string" where
  "release_document env st m cert_version key_version state_version trust =
     ce_dumps env (VDict
       [(''cert_secret'', VStr (rs_cert_secret st)), (''cert_version'', VStr cert_version),
        (''fullchain_sha256'', VStr (ma_fullchain_sha256 m)), (''hostname'', VStr (rs_hostname st)),
        (''key_secret'', VStr (rs_key_secret st)), (''key_version'', VStr key_version), (''leaf_sha256'', VStr (ma_leaf_sha256 m)),
        (''not_after'', VStr (ce_isoformat env (ma_not_after m))), (''state_version'', VStr state_version),
        (''trust_profile_id'', VStr (cp_profile_id trust)), (''trust_profile_sha256'', VStr (cp_sha256 trust))])"

definition nonempty_text :: "val \<Rightarrow> bool" where
  "nonempty_text v = (case v of VStr s \<Rightarrow> s \<noteq> [] | _ \<Rightarrow> False)"

definition parse_release :: "cert_env \<Rightarrow> secret_value option \<Rightarrow> renewer_settings \<Rightarrow> exn + dict option" where
  "parse_release env value st = (case value of
       None \<Rightarrow> Inr None
     | Some sv \<Rightarrow>
         rbind (ce_loads env (sv_data sv)) (\<lambda>document. case document of
             VDict d \<Rightarrow>
               if dget d ''hostname'' \<noteq> VStr (rs_hostname st) then Inl (ValueError ''active TLS release manifest is invalid'')
               else if \<not> list_all (\<lambda>k. nonempty_text (dget d k))
                 [''cert_version'', ''key_version'', ''state_version'', ''leaf_sha256'', ''fullchain_sha256'']
               then Inl (ValueError ''active TLS release manifest is incomplete'')
               else Inr (Some (AList.update ''release_version'' (VStr (sv_version sv)) d))
           | _ \<Rightarrow> Inl (ValueError ''active TLS release manifest is invalid'')))"

definition versions_of :: "dict \<Rightarrow> release_versions" where
  "versions_of d = \<lparr>rv_cert = the_str (dget d ''cert_version''), rv_key = the_str (dget d ''key_version''),
     rv_state = the_str (dget d ''state_version''), rv_release = the_str (dget d ''release_version'')\<rparr>"

definition active_release_material :: "cert_env \<Rightarrow> renewer_settings \<Rightarrow> dict \<Rightarrow> material renewal" where
  "active_release_material env st active =
     obind (read_secret env (rs_project_id st) (rs_cert_secret st) (the_str (dget active ''cert_version'')) False) (\<lambda>value.
     case value of
       None \<Rightarrow> oraise (ValueError ''active TLS release certificate is missing'')
     | Some sv \<Rightarrow>
         obind (clock env) (\<lambda>now.
         obind (olift (validate_certificate env now (sv_data sv) (rs_hostname st) None)) (\<lambda>m.
         if VStr (ma_leaf_sha256 m) \<noteq> dget active ''leaf_sha256'' \<or> VStr (ma_fullchain_sha256 m) \<noteq> dget active ''fullchain_sha256''
         then oraise (ValueError ''active TLS release material does not match its manifest'')
         else oret m)))"

text \<open>The approval of a changed trust profile.\<close>

definition approves :: "val \<Rightarrow> cert_trust \<Rightarrow> bool" where
  "approves document trust = (case document of
       VDict d \<Rightarrow> dget d ''ready'' = VBool True \<and> dget d ''trust_profile_id'' = VStr (cp_profile_id trust) \<and>
         dget d ''trust_profile_sha256'' = VStr (cp_sha256 trust) \<and>
         (case dget d ''required_vehicle_count'' of VInt n \<Rightarrow> 0 \<le> n | VBool b \<Rightarrow> True | _ \<Rightarrow> False)
     | _ \<Rightarrow> False)"

definition require_trust_cutover_readiness :: "cert_env \<Rightarrow> renewer_settings \<Rightarrow> cert_trust \<Rightarrow> unit renewal" where
  "require_trust_cutover_readiness env st trust =
     obind (read_secret env (rs_project_id st) (rs_trust_readiness_secret st) ''latest'' True) (\<lambda>value.
     case value of
       None \<Rightarrow> oraise (ValueError ''telemetry trust-profile cutover is not approved'')
     | Some sv \<Rightarrow>
         obind (olift (ce_loads env (sv_data sv))) (\<lambda>document.
         if approves document trust then oret ()
         else oraise (ValueError ''telemetry trust-profile cutover approval does not match'')))"

subsection \<open>Deployment\<close>

definition compute_url :: "renewer_settings \<Rightarrow> string \<Rightarrow> string" where
  "compute_url st suffix = ''https://compute.googleapis.com/compute/v1/projects/'' @ url_quote (rs_project_id st) @ ''/zones/'' @
     url_quote (rs_zone st) @ ''/instances/'' @ url_quote (rs_instance st) @ ''/'' @ suffix"

text \<open>The loop over the guest attributes; \<open>get\<close> exists for mappings only.\<close>

fun status_item :: "val list \<Rightarrow> exn + string option" where
  "status_item [] = Inr None"
| "status_item (VDict d # rest) =
     (if dget d ''namespace'' = VStr ''telemetry-edge'' \<and> dget d ''key'' = VStr ''status''
      then Inr (case dget d ''value'' of VStr s \<Rightarrow> Some s | _ \<Rightarrow> None)
      else status_item rest)"
| "status_item (v # rest) = Inl AttributeError"

definition status_of_document :: "val \<Rightarrow> exn + string option" where
  "status_of_document document = (case document of
       VDict d \<Rightarrow> (case dget_default d ''queryValue'' (VDict []) of
           VDict q \<Rightarrow> (case dget_default q ''items'' (VList []) of
               VList xs \<Rightarrow> status_item xs
             | VDict e \<Rightarrow> if e = [] then Inr None else Inl AttributeError
             | VStr s \<Rightarrow> if s = [] then Inr None else Inl AttributeError
             | _ \<Rightarrow> Inl TypeError)
         | _ \<Rightarrow> Inl AttributeError)
     | _ \<Rightarrow> Inl AttributeError)"

definition guest_status :: "cert_env \<Rightarrow> renewer_settings \<Rightarrow> string option renewal" where
  "guest_status env st =
     (let url = compute_url st ''getGuestAttributes''
      in obind (effect (StatusRead url) (\<lambda>evs. ce_status env evs url)) (\<lambda>(code, body).
         if code = 404 then oret None
         else if 400 \<le> code then oraise (LibraryError ''HTTPError'')
         else (case body of None \<Rightarrow> oraise (ValueError ''json'') | Some v \<Rightarrow> olift (status_of_document v))))"

definition connect_arguments :: "string \<Rightarrow> string list" where
  "connect_arguments hostname =
     [''openssl'', ''s_client'', ''-connect'', hostname @ '':443'', ''-servername'', hostname, ''-showcerts'']"

definition public_leaf_fingerprint :: "cert_env \<Rightarrow> string \<Rightarrow> string option renewal" where
  "public_leaf_fingerprint env hostname =
     obind (execute_program env (connect_arguments hostname)) (\<lambda>p.
     case pem_blocks (pr_stdout p @ pr_stderr p) of
       [] \<Rightarrow> oret None
     | first # rest \<Rightarrow> obind (olift (ce_leaf env first)) (\<lambda>lf. oret (Some (lf_fingerprint lf))))"

definition release_marker :: "string \<Rightarrow> string \<Rightarrow> string" where
  "release_marker release_version leaf_sha256 = '':tls='' @ release_version @ '':'' @ take 16 leaf_sha256"

text \<open>The receiver reports the release, and the public endpoint serves its certificate.\<close>

definition release_is_serving :: "cert_env \<Rightarrow> renewer_settings \<Rightarrow> string \<Rightarrow> string \<Rightarrow> bool renewal" where
  "release_is_serving env st marker leaf_sha256 =
     obind (guest_status env st) (\<lambda>status.
     if \<not> contains marker (case status of None \<Rightarrow> [] | Some s \<Rightarrow> s) then oret False
     else obind (public_leaf_fingerprint env (rs_hostname st)) (\<lambda>served. oret (served = Some leaf_sha256)))"

definition deployment_timed_out :: exn where
  "deployment_timed_out = RuntimeError ''certificate_deployment_verification_timed_out''"

text \<open>The polling loop; each turn consumes one unit of fuel.\<close>

primrec poll_deployment :: "nat \<Rightarrow> cert_env \<Rightarrow> renewer_settings \<Rightarrow> string \<Rightarrow> string \<Rightarrow> rat \<Rightarrow> unit renewal" where
  "poll_deployment 0 env st marker leaf_sha256 deadline = oraise NoReturn"
| "poll_deployment (Suc fuel) env st marker leaf_sha256 deadline =
     obind (monotonic env) (\<lambda>now.
     if \<not> now < deadline then oraise deployment_timed_out
     else obind (effect (Paused 10) (\<lambda>evs. Inr ())) (\<lambda>_.
          obind (release_is_serving env st marker leaf_sha256) (\<lambda>serving.
          if serving then oret () else poll_deployment fuel env st marker leaf_sha256 deadline)))"

definition deploy_release :: "nat \<Rightarrow> cert_env \<Rightarrow> renewer_settings \<Rightarrow> string \<Rightarrow> string \<Rightarrow> unit renewal" where
  "deploy_release fuel env st release_version leaf_sha256 =
     (let marker = release_marker release_version leaf_sha256; url = compute_url st ''reset''
      in obind (release_is_serving env st marker leaf_sha256) (\<lambda>serving.
         if serving then oret ()
         else obind (effect (ResetPosted url) (\<lambda>evs. ce_reset env evs url)) (\<lambda>code.
              if 400 \<le> code then oraise (LibraryError ''HTTPError'')
              else obind (monotonic env) (\<lambda>now.
                   poll_deployment fuel env st marker leaf_sha256 (now + of_int (rs_deployment_timeout st))))))"

subsection \<open>The renewal\<close>

text \<open>\<open>except (FileNotFoundError, OSError, ValueError, x509.ExtensionNotFound)\<close>.\<close>

definition unusable_state :: "exn \<Rightarrow> bool" where
  "unusable_state e = (case e of
       ValueError m \<Rightarrow> True
     | LibraryError n \<Rightarrow> n \<in> {''FileNotFoundError'', ''OSError'', ''ExtensionNotFound''}
     | _ \<Rightarrow> False)"

definition same_trust :: "dict option \<Rightarrow> cert_trust \<Rightarrow> bool" where
  "same_trust active trust = (case active of
       None \<Rightarrow> False
     | Some d \<Rightarrow> dget d ''trust_profile_id'' = VStr (cp_profile_id trust) \<and>
         dget d ''trust_profile_sha256'' = VStr (cp_sha256 trust))"

text \<open>The stored material if it is usable and not yet due.\<close>

definition stored_material :: "cert_env \<Rightarrow> renewer_settings \<Rightarrow> material option renewal" where
  "stored_material env st =
     ocatch (obind (load_and_validate_material env st) (\<lambda>m.
       obind (clock env) (\<lambda>now. oret (if certificate_is_due m now then None else Some m))))
       (\<lambda>e. if unusable_state e then oret None else oraise e)"

definition remove_credentials :: "cert_env \<Rightarrow> unit renewal" where
  "remove_credentials env = change_files (\<lambda>fs. Inr (AList.delete (credentials_file env) fs))"

definition obtain_material :: "cert_env \<Rightarrow> renewer_settings \<Rightarrow> material renewal" where
  "obtain_material env st =
     finally_do
       (obind (stored_material env st) (\<lambda>stored. case stored of
          Some m \<Rightarrow> oret m
        | None \<Rightarrow>
            obind (write_file (credentials_file env)
              (''dns_cloudflare_api_token = '' @ rs_cloudflare_api_token st @ [CHR 0x0A])) (\<lambda>_.
            finally_do (obind (run_certbot env st) (\<lambda>_. load_and_validate_material env st)) (remove_credentials env))))
       (remove_credentials env)"

definition publish_release :: "cert_env \<Rightarrow> renewer_settings \<Rightarrow> material \<Rightarrow> cert_trust \<Rightarrow> release_versions renewal" where
  "publish_release env st m trust =
     (let project = rs_project_id st
      in obind (add_secret_version env project (rs_cert_secret st) (ma_fullchain m)) (\<lambda>cert_version.
         obind (add_secret_version env project (rs_key_secret st) (ma_private_key m)) (\<lambda>key_version.
         obind (archive_state env (config_dir env)) (\<lambda>archive.
         obind (add_secret_version env project (rs_state_secret st) archive) (\<lambda>state_version.
         obind (add_secret_version env project (rs_release_secret st)
           (release_document env st m cert_version key_version state_version trust)) (\<lambda>release_version.
         oret \<lparr>rv_cert = cert_version, rv_key = key_version, rv_state = state_version, rv_release = release_version\<rparr>))))))"

text \<open>Deploying a release, and only then destroying what is older.\<close>

definition activate :: "nat \<Rightarrow> cert_env \<Rightarrow> renewer_settings \<Rightarrow> release_versions \<Rightarrow> string \<Rightarrow> string \<Rightarrow> string renewal" where
  "activate fuel env st versions leaf_sha256 outcome =
     obind (deploy_release fuel env st (rv_release versions) leaf_sha256) (\<lambda>_.
     obind (prune_old_release_versions env st versions) (\<lambda>_. oret outcome))"

definition renew_from_state :: "nat \<Rightarrow> cert_env \<Rightarrow> renewer_settings \<Rightarrow> dict option \<Rightarrow> cert_trust \<Rightarrow> string renewal" where
  "renew_from_state fuel env st active trust =
     obind (change_files (\<lambda>fs. Inr (AList.update (config_dir env) Directory fs))) (\<lambda>_.
     obind (read_secret env (rs_project_id st) (rs_state_secret st) ''latest'' True) (\<lambda>stored.
     obind (case stored of None \<Rightarrow> oret () | Some sv \<Rightarrow> extract_state env (sv_data sv) (config_dir env)) (\<lambda>_.
     obind (obtain_material env st) (\<lambda>m.
     obind (validate_candidate env m trust) (\<lambda>_.
     obind (if same_trust active trust then oret () else require_trust_cutover_readiness env st trust) (\<lambda>_.
     case active of
       Some d \<Rightarrow>
         if dget d ''leaf_sha256'' = VStr (ma_leaf_sha256 m) \<and> same_trust active trust
         then activate fuel env st (versions_of d) (ma_leaf_sha256 m) ''healthy''
         else obind (publish_release env st m trust) (\<lambda>v. activate fuel env st v (ma_leaf_sha256 m) ''renewed'')
     | None \<Rightarrow> obind (publish_release env st m trust) (\<lambda>v. activate fuel env st v (ma_leaf_sha256 m) ''renewed'')))))))"

text \<open>The active release, when its trust profile is the configured one and it is not due.\<close>

definition renew_in_directory :: "nat \<Rightarrow> cert_env \<Rightarrow> renewer_settings \<Rightarrow> dict option \<Rightarrow> cert_trust \<Rightarrow> string renewal" where
  "renew_in_directory fuel env st active trust = (case active of
       Some d \<Rightarrow>
         if same_trust active trust
         then obind (active_release_material env st d) (\<lambda>m.
              obind (clock env) (\<lambda>now.
              if \<not> certificate_is_due m now
              then obind (validate_candidate env m trust) (\<lambda>_. activate fuel env st (versions_of d) (ma_leaf_sha256 m) ''healthy'')
              else renew_from_state fuel env st active trust))
         else renew_from_state fuel env st active trust
     | None \<Rightarrow> renew_from_state fuel env st active trust)"

definition in_temporary_directory :: "cert_env \<Rightarrow> 'a renewal \<Rightarrow> 'a renewal" where
  "in_temporary_directory env m =
     finally_do (obind (change_files (\<lambda>fs. Inr [(ce_root env, Directory)])) (\<lambda>_. m)) (change_files (\<lambda>fs. Inr []))"

definition renew_certificate :: "nat \<Rightarrow> cert_env \<Rightarrow> renewer_settings \<Rightarrow> string renewal" where
  "renew_certificate fuel env st =
     (let project = rs_project_id st
      in obind (read_secret env project (rs_release_secret st) ''latest'' True) (\<lambda>active_value.
         obind (olift (parse_release env active_value st)) (\<lambda>active.
         obind (read_secret env project (rs_trust_profile_secret st) ''latest'' False) (\<lambda>trust_value.
         case trust_value of
           None \<Rightarrow> oraise (ValueError ''telemetry trust profile is missing'')
         | Some sv \<Rightarrow>
             obind (olift (load_trust_profile env (rs_trust_profile_id st) (sv_data sv))) (\<lambda>trust.
             in_temporary_directory env (renew_in_directory fuel env st active trust))))))"

subsection \<open>The job\<close>

definition exception_name :: "exn \<Rightarrow> string" where
  "exception_name e = (case e of
       ValueError m \<Rightarrow> ''ValueError'' | RuntimeError m \<Rightarrow> ''RuntimeError'' | KeyError k \<Rightarrow> ''KeyError''
     | AttributeError \<Rightarrow> ''AttributeError'' | TypeError \<Rightarrow> ''TypeError'' | CertbotError c n \<Rightarrow> ''CertbotError''
     | LibraryError n \<Rightarrow> n | _ \<Rightarrow> ''Exception'')"

definition log_event :: "string \<Rightarrow> string \<Rightarrow> string option \<Rightarrow> string option \<Rightarrow> dict" where
  "log_event status severity error_type error_category =
     [(''event'', VStr ''telemetry_certificate_check''), (''service'', VStr ''telemetry-certificate-renewer''),
      (''severity'', VStr severity), (''status'', VStr status)] @
     (case error_type of None \<Rightarrow> [] | Some t \<Rightarrow> [(''error_type'', VStr t)]) @
     (case error_category of None \<Rightarrow> [] | Some c \<Rightarrow> [(''error_category'', VStr c)])"

definition failure_category :: "exn \<Rightarrow> string option" where
  "failure_category e =
     (if e = deployment_timed_out then Some ''certificate_deployment_verification_timeout''
      else (case e of CertbotError category n \<Rightarrow> Some category | _ \<Rightarrow> None))"

text \<open>The event that is logged and the exit status.\<close>

definition renewer_main :: "nat \<Rightarrow> cert_env \<Rightarrow> (string \<times> string) list \<Rightarrow> cert_world \<Rightarrow> (dict \<times> int) \<times> cert_world" where
  "renewer_main fuel env vars w =
     (case obind (olift (settings_from_environment vars)) (\<lambda>st. obind (olift (ce_credentials env)) (\<lambda>_. renew_certificate fuel env st)) w of
        (Inl e, w') \<Rightarrow> ((log_event ''failed'' ''ERROR'' (Some (exception_name e)) (failure_category e), 1), w')
      | (Inr status, w') \<Rightarrow> ((log_event status ''INFO'' None None, 0), w'))"

end
