(* ===== verification/CertificateGuarantees.thy ===== *)
theory CertificateGuarantees
  imports CertificateRenewer StateFrame
begin

text \<open>
  What the renewal job guarantees: no version of a secret is destroyed before the release that replaces it
  is seen serving, and only older versions are; nothing is published but validated material that the trust
  profile accepts; the polling ends.
\<close>

subsection \<open>The events of an operation\<close>

definition grows :: "(cert_event \<Rightarrow> bool) \<Rightarrow> cert_world \<Rightarrow> cert_world \<Rightarrow> bool" where
  "grows P w w' \<longleftrightarrow> (\<exists>new. cw_events w' = cw_events w @ new \<and> list_all P new)"

interpretation ev: state_frame "grows P" for P
proof
  show "grows P w w" for w unfolding grows_def by (intro exI [of _ "[]"]) simp
next
  fix a b c
  assume "grows P a b" and "grows P b c"
  then obtain x y where "cw_events b = cw_events a @ x" "list_all P x" "cw_events c = cw_events b @ y" "list_all P y"
    unfolding grows_def by blast
  then show "grows P a c" unfolding grows_def by (intro exI [of _ "x @ y"]) simp
qed

lemma ev_effect: "P e \<Longrightarrow> ev.stays P (effect e answer)"
  unfolding ev.stays_def grows_def effect_def by simp

lemma ev_execute: "P (Executed args) \<Longrightarrow> ev.stays P (execute_program env args)"
  unfolding ev.stays_def grows_def execute_program_def by (simp add: Let_def split: sum.split)

lemma ev_small: "ev.stays P (clock env)" "ev.stays P (monotonic env)" "ev.stays P (files_of f)" "ev.stays P (change_files g)"
    "ev.stays P (write_file path content)"
  unfolding ev.stays_def grows_def clock_def monotonic_def files_of_def change_files_def write_file_def
  by (simp_all split: sum.split)

text \<open>Events that neither add nor destroy a version of a secret.\<close>

definition harmless :: "cert_event \<Rightarrow> bool" where
  "harmless e = (case e of SecretAdded p x \<Rightarrow> False | SecretDestroyed n \<Rightarrow> False | _ \<Rightarrow> True)"

lemma harmless_simps [simp]:
  "harmless (SecretRead n)" "harmless (SecretsListed n)" "harmless (StatusRead u)" "harmless (ResetPosted u)"
  "harmless (Executed a)" "harmless (Paused d)" "\<not> harmless (SecretAdded p x)" "\<not> harmless (SecretDestroyed n)"
  by (simp_all add: harmless_def)

lemma read_harmless: "ev.stays harmless (read_secret env project secret version missing_ok)"
  unfolding read_secret_def Let_def by (intro ev_effect) simp

lemma load_harmless: "ev.stays harmless (load_and_validate_material env st)"
  unfolding load_and_validate_material_def Let_def by (intro ev.stays_rules ev_small)

lemma obtain_harmless: "ev.stays harmless (obtain_material env st)"
  unfolding obtain_material_def stored_material_def run_certbot_def remove_credentials_def
  by (intro ev.stays_finally ev.stays_rules ev_small load_harmless ev_execute harmless_simps)

lemma validate_harmless: "ev.stays harmless (validate_candidate env m trust)"
  unfolding validate_candidate_def
  by (cases "pem_blocks (ma_fullchain m)"; simp only: list.case)
    (intro ev.stays_rules ev_small ev_execute harmless_simps)+

lemma readiness_harmless: "ev.stays harmless (require_trust_cutover_readiness env st trust)"
  unfolding require_trust_cutover_readiness_def by (intro ev.stays_rules read_harmless)

lemma active_harmless: "ev.stays harmless (active_release_material env st active)"
  unfolding active_release_material_def by (intro ev.stays_rules ev_small read_harmless)

lemma extract_harmless: "ev.stays harmless (extract_state env payload destination)"
  unfolding extract_state_def by (intro ev.stays_rules ev_small)

lemma serving_harmless: "ev.stays harmless (release_is_serving env st marker leaf)"
proof -
  have "ev.stays harmless (case pem_blocks x of [] \<Rightarrow> oret None | first # rest \<Rightarrow> obind (olift (ce_leaf env first)) (\<lambda>lf. oret (Some (lf_fingerprint lf))))" for x
    by (cases "pem_blocks x"; simp only: list.case) (intro ev.stays_rules)+
  then show ?thesis unfolding release_is_serving_def guest_status_def public_leaf_fingerprint_def Let_def
    by (intro ev.stays_rules ev_effect ev_execute harmless_simps)
qed

lemma poll_harmless: "ev.stays harmless (poll_deployment fuel env st marker leaf deadline)"
  by (induction fuel) (auto intro!: ev.stays_rules ev_small ev_effect serving_harmless)

lemma deploy_harmless: "ev.stays harmless (deploy_release fuel env st version leaf)"
  unfolding deploy_release_def Let_def by (intro ev.stays_rules ev_small ev_effect harmless_simps serving_harmless poll_harmless)

subsection \<open>Deployment and pruning\<close>

lemma poll_serving:
  "poll_deployment fuel env st marker leaf deadline w = (Inr u, w') \<Longrightarrow>
     \<exists>w1. release_is_serving env st marker leaf w1 = (Inr True, w')"
proof (induction fuel arbitrary: w)
  case (Suc fuel)
  from Suc.prems show ?case
    by (auto simp: obind_eq_Inr oraise_def oret_def monotonic_def effect_def split: if_splits intro: Suc.IH)
qed (simp add: oraise_def)

lemma deploy_serving:
  "deploy_release fuel env st version leaf w = (Inr u, w') \<Longrightarrow>
     \<exists>w1. release_is_serving env st (release_marker version leaf) leaf w1 = (Inr True, w')"
  by (auto simp: deploy_release_def Let_def obind_eq_Inr oraise_def oret_def split: if_splits intro: poll_serving)

text \<open>An operation that adds events, each in order after those before it.\<close>

definition grows_by :: "(cert_event list \<Rightarrow> cert_event \<Rightarrow> bool) \<Rightarrow> cert_world \<Rightarrow> cert_world \<Rightarrow> bool" where
  "grows_by R w w' \<longleftrightarrow> (\<exists>new. cw_events w' = cw_events w @ new \<and> (\<forall>x e y. new = x @ e # y \<longrightarrow> R (cw_events w @ x) e))"

interpretation eb: state_frame "grows_by R" for R
proof
  show "grows_by R w w" for w unfolding grows_by_def by (intro exI [of _ "[]"]) simp
next
  fix a b c
  assume "grows_by R a b" and "grows_by R b c"
  then obtain m n where m: "cw_events b = cw_events a @ m" "\<And>x e y. m = x @ e # y \<Longrightarrow> R (cw_events a @ x) e"
    and n: "cw_events c = cw_events b @ n" "\<And>x e y. n = x @ e # y \<Longrightarrow> R (cw_events b @ x) e"
    unfolding grows_by_def by blast
  have "R (cw_events a @ x) e" if "m @ n = x @ e # y" for x e y
  proof -
    from that consider z where "m = x @ e # z" | z where "x = m @ z" "n = z @ e # y"
      by (auto simp: append_eq_append_conv2 append_eq_Cons_conv)
    then show ?thesis using m n by cases auto
  qed
  with m(1) n(1) show "grows_by R a c" unfolding grows_by_def by (intro exI [of _ "m @ n"]) simp
qed

lemma eb_effect: "R (cw_events w) e \<Longrightarrow> grows_by R w (snd (effect e answer w))"
  unfolding grows_by_def effect_def by (auto simp: Cons_eq_append_conv)

text \<open>A version that was listed before under a secret of the release, with a lower number than the release retains.\<close>

definition superseded :: "cert_env \<Rightarrow> renewer_settings \<Rightarrow> release_versions \<Rightarrow> cert_event list \<Rightarrow> string \<Rightarrow> bool" where
  "superseded env st v evs name \<longleftrightarrow> (\<exists>secret retained x y versions state n k. (secret, retained) \<in> set (retained_versions st v) \<and>
     evs = x @ SecretsListed (secret_parent (rs_project_id st) secret) # y \<and>
     ce_versions env x (secret_parent (rs_project_id st) secret) = Inr versions \<and> (name, state) \<in> set versions \<and>
     \<not> version_is_destroyed state \<and>
     secret_version_number name = Inr n \<and> secret_version_number retained = Inr k \<and> n < k)"

definition prunes :: "cert_env \<Rightarrow> renewer_settings \<Rightarrow> release_versions \<Rightarrow> cert_event list \<Rightarrow> cert_event \<Rightarrow> bool" where
  "prunes env st v evs e = (case e of
       SecretsListed p \<Rightarrow> p \<in> set (map (\<lambda>sv. secret_parent (rs_project_id st) (fst sv)) (retained_versions st v))
     | SecretDestroyed name \<Rightarrow> superseded env st v evs name
     | _ \<Rightarrow> False)"

lemma destroy_older_prunes:
  assumes "(secret, retained) \<in> set (retained_versions st v)" and "secret_version_number retained = Inr k"
    and "ce_versions env x (secret_parent (rs_project_id st) secret) = Inr all" and "set versions \<subseteq> set all"
    and "cw_events w = x @ SecretsListed (secret_parent (rs_project_id st) secret) # y"
  shows "grows_by (prunes env st v) w (snd (destroy_older env k versions w))"
  using assms(4,5)
proof (induction versions arbitrary: w y)
  case Nil
  show ?case by (simp add: oret_def eb.rel_refl)
next
  case (Cons p rest)
  obtain name state where p: "p = (name, state)" by (cases p)
  note rest = Cons.IH [OF _ Cons.prems(2)]
  show ?case
  proof (cases "\<exists>n. secret_version_number name = Inr n \<and> n < k \<and> \<not> version_is_destroyed state")
    case False
    have "snd (destroy_older env k (p # rest) w) = w \<or>
        snd (destroy_older env k (p # rest) w) = snd (destroy_older env k rest w)"
      using False by (cases "secret_version_number name") (auto simp: p obind_def olift_def)
    with rest Cons.prems(1) eb.rel_refl show ?thesis by (metis set_subset_Cons subset_trans)
  next
    case True
    then obtain n where n: "secret_version_number name = Inr n" "n < k" "\<not> version_is_destroyed state" by blast
    obtain r w1 where d: "effect (SecretDestroyed name) (\<lambda>evs. ce_destroy env evs name) w = (r, w1)" by fastforce
    have "superseded env st v (cw_events w) name"
      using assms(1-3) Cons.prems n unfolding superseded_def p by (simp add: Cons.prems(2)) blast
    with d eb_effect [of "prunes env st v" w "SecretDestroyed name" "\<lambda>evs. ce_destroy env evs name"]
    have one: "grows_by (prunes env st v) w w1" by (simp add: prunes_def)
    have w1: "cw_events w1 = x @ SecretsListed (secret_parent (rs_project_id st) secret) # (y @ [SecretDestroyed name])"
      using d Cons.prems(2) by (auto simp: effect_def)
    have "snd (destroy_older env k (p # rest) w) = w1 \<or>
        snd (destroy_older env k (p # rest) w) = snd (destroy_older env k rest w1)"
      using n d by (cases r) (auto simp: p obind_def olift_def)
    with one eb.rel_trans [OF one Cons.IH [OF _ w1]] Cons.prems(1) show ?thesis by auto
  qed
qed

lemma prune_secret_prunes:
  assumes "sv \<in> set (retained_versions st v)"
  shows "eb.stays (prunes env st v) (prune_secret env (rs_project_id st) sv)"
proof (rule eb.staysI)
  fix w
  obtain secret retained where sv: "sv = (secret, retained)" by (cases sv)
  let ?p = "secret_parent (rs_project_id st) secret"
  show "grows_by (prunes env st v) w (snd (prune_secret env (rs_project_id st) sv w))"
  proof (cases "secret_version_number retained")
    case (Inl e)
    then show ?thesis by (simp add: prune_secret_def sv obind_def olift_def eb.rel_refl)
  next
    case (Inr k)
    obtain r w1 where l: "effect (SecretsListed ?p) (\<lambda>evs. ce_versions env evs ?p) w = (r, w1)" by fastforce
    have "prunes env st v (cw_events w) (SecretsListed ?p)" using assms by (force simp: prunes_def sv)
    with l eb_effect [of "prunes env st v" w "SecretsListed ?p" "\<lambda>evs. ce_versions env evs ?p"]
    have one: "grows_by (prunes env st v) w w1" by simp
    show ?thesis
    proof (cases r)
      case (Inl e)
      with Inr l one show ?thesis by (simp add: prune_secret_def sv obind_def olift_def)
    next
      case R: (Inr all)
      with l have a: "ce_versions env (cw_events w) ?p = Inr all" "cw_events w1 = cw_events w @ SecretsListed ?p # []"
        by (auto simp: effect_def)
      from destroy_older_prunes [OF assms [unfolded sv] Inr a(1) subset_refl a(2)] one
      show ?thesis using Inr R l eb.rel_trans by (simp add: prune_secret_def sv obind_def olift_def)
    qed
  qed
qed

lemma prune_stays: "eb.stays (prunes env st v) (prune_old_release_versions env st v)"
proof -
  have "set svs \<subseteq> set (retained_versions st v) \<Longrightarrow> eb.stays (prunes env st v) (prune_secrets env (rs_project_id st) svs)" for svs
    by (induction svs) (auto intro!: eb.stays_pure eb.stays_obind prune_secret_prunes)
  then show ?thesis unfolding prune_old_release_versions_def by blast
qed

subsection \<open>Nothing is destroyed before it is replaced\<close>

text \<open>The release that stays: the one that was active when the run started, with the versions its manifest names, or one that
  this run published, each part under the version Secret Manager gave it, which the manifest names.\<close>

definition added_as ::
  "cert_env \<Rightarrow> renewer_settings \<Rightarrow> cert_event list \<Rightarrow> cert_event list \<Rightarrow> string \<Rightarrow> string \<Rightarrow> string \<Rightarrow> bool" where
  "added_as env st old evs secret payload version \<longleftrightarrow> (\<exists>x y name. evs = old @ x @ SecretAdded (secret_parent (rs_project_id st) secret) payload # y \<and>
     ce_add env (old @ x) (secret_parent (rs_project_id st) secret) payload = Inr name \<and> version = after_last (CHR ''/'') name)"

definition published ::
  "cert_env \<Rightarrow> renewer_settings \<Rightarrow> cert_event list \<Rightarrow> cert_event list \<Rightarrow> material \<Rightarrow> cert_trust \<Rightarrow> release_versions \<Rightarrow> bool" where
  "published env st old evs m trust v \<longleftrightarrow> added_as env st old evs (rs_cert_secret st) (ma_fullchain m) (rv_cert v) \<and>
     added_as env st old evs (rs_key_secret st) (ma_private_key m) (rv_key v) \<and>
     (\<exists>archive. added_as env st old evs (rs_state_secret st) archive (rv_state v)) \<and>
     added_as env st old evs (rs_release_secret st)
       (release_document env st m (rv_cert v) (rv_key v) (rv_state v) trust) (rv_release v)"

definition active_release :: "cert_env \<Rightarrow> renewer_settings \<Rightarrow> cert_world \<Rightarrow> dict \<Rightarrow> bool" where
  "active_release env st w d \<longleftrightarrow> (\<exists>value w1. read_secret env (rs_project_id st) (rs_release_secret st) ''latest'' True w = (Inr value, w1) \<and>
     parse_release env value st = Inr (Some d))"

definition names_versions :: "dict \<Rightarrow> release_versions \<Rightarrow> bool" where
  "names_versions d v \<longleftrightarrow> dget d ''cert_version'' = VStr (rv_cert v) \<and> dget d ''key_version'' = VStr (rv_key v) \<and>
     dget d ''state_version'' = VStr (rv_state v) \<and> dget d ''release_version'' = VStr (rv_release v)"

definition release_stays ::
  "cert_env \<Rightarrow> renewer_settings \<Rightarrow> cert_world \<Rightarrow> release_versions \<Rightarrow> string \<Rightarrow> cert_event list \<Rightarrow> bool" where
  "release_stays env st w v leaf_sha256 evs \<longleftrightarrow>
     (\<exists>d. active_release env st w d \<and> names_versions d v \<and> dget d ''leaf_sha256'' = VStr leaf_sha256) \<or>
     (\<exists>m trust. published env st (cw_events w) evs m trust v \<and> ma_leaf_sha256 m = leaf_sha256)"

text \<open>The events of the operation: first none that destroys; then, once the release that stays was seen serving, only the
  pruning of what is older than that release.\<close>

definition destroys :: "cert_event \<Rightarrow> bool" where
  "destroys e = (case e of SecretDestroyed n \<Rightarrow> True | _ \<Rightarrow> False)"

definition seen_serving :: "cert_env \<Rightarrow> renewer_settings \<Rightarrow> release_versions \<Rightarrow> string \<Rightarrow> cert_event list \<Rightarrow> bool" where
  "seen_serving env st v leaf_sha256 evs \<longleftrightarrow> (\<exists>w w'. release_is_serving env st (release_marker (rv_release v) leaf_sha256) leaf_sha256 w
     = (Inr True, w') \<and> cw_events w' = evs)"

definition replaces_from :: "cert_env \<Rightarrow> renewer_settings \<Rightarrow> cert_world \<Rightarrow> cert_world \<Rightarrow> cert_world \<Rightarrow> bool" where
  "replaces_from env st w0 w w' \<longleftrightarrow> (\<exists>w1. grows (\<lambda>e. \<not> destroys e) w w1 \<and>
     (cw_events w' = cw_events w1 \<or>
      (\<exists>v leaf_sha256. release_stays env st w0 v leaf_sha256 (cw_events w1) \<and> seen_serving env st v leaf_sha256 (cw_events w1) \<and>
         grows_by (prunes env st v) w1 w')))"

definition replaces_first :: "cert_env \<Rightarrow> renewer_settings \<Rightarrow> cert_world \<Rightarrow> cert_world \<Rightarrow> bool" where
  "replaces_first env st w w' \<longleftrightarrow> replaces_from env st w w w'"

lemma replaces_keeping: "grows (\<lambda>e. \<not> destroys e) w w' \<Longrightarrow> replaces_from env st w0 w w'"
  unfolding replaces_from_def by blast

lemma replaces_after: "grows (\<lambda>e. \<not> destroys e) w w1 \<Longrightarrow> replaces_from env st w0 w1 w' \<Longrightarrow> replaces_from env st w0 w w'"
  unfolding replaces_from_def using ev.rel_trans by blast

text \<open>The run has come from its start to here.\<close>

definition comes_from :: "cert_world \<Rightarrow> cert_world \<Rightarrow> bool" where
  "comes_from w0 w \<longleftrightarrow> (\<exists>x. cw_events w = cw_events w0 @ x)"

lemma comes_on: "comes_from w0 w \<Longrightarrow> grows P w w1 \<Longrightarrow> comes_from w0 w1"
  unfolding comes_from_def grows_def by auto

lemma replaces_obind:
  assumes w: "comes_from w0 w" and m: "ev.stays (\<lambda>e. \<not> destroys e) m"
    and f: "\<And>x w1. m w = (Inr x, w1) \<Longrightarrow> comes_from w0 w1 \<Longrightarrow> replaces_from env st w0 w1 (snd (f x w1))"
  shows "replaces_from env st w0 w (snd (obind m f w))"
proof -
  obtain r w1 where mw: "m w = (r, w1)" by fastforce
  with ev.staysD [OF m, of w] have g: "grows (\<lambda>e. \<not> destroys e) w w1" by simp
  show ?thesis
  proof (cases r)
    case (Inl e)
    with mw replaces_keeping [OF g] show ?thesis by (simp add: obind_def)
  next
    case (Inr x)
    with mw replaces_after [OF g f] comes_on [OF w g] show ?thesis by (simp add: obind_def)
  qed
qed

lemma keeping: "ev.stays harmless m \<Longrightarrow> ev.stays (\<lambda>e. \<not> destroys e) m"
  unfolding ev.stays_def grows_def list_all_iff harmless_def destroys_def by (fastforce split: cert_event.splits)

lemma stays_longer: "release_stays env st w0 v leaf evs \<Longrightarrow> release_stays env st w0 v leaf (evs @ later)"
proof -
  have "added_as env st old evs secret payload n \<Longrightarrow> added_as env st old (evs @ later) secret payload n" for old secret payload n
    unfolding added_as_def by fastforce
  then show "release_stays env st w0 v leaf evs \<Longrightarrow> release_stays env st w0 v leaf (evs @ later)"
    unfolding release_stays_def published_def by blast
qed

lemma replaces_activate:
  assumes "release_stays env st w0 v leaf (cw_events w)"
  shows "replaces_from env st w0 w (snd (activate fuel env st v leaf outcome w))"
proof -
  obtain r w1 where d: "deploy_release fuel env st (rv_release v) leaf w = (r, w1)" by fastforce
  from ev.staysD [OF keeping [OF deploy_harmless], of w fuel env st "rv_release v" leaf] d
  have g: "grows (\<lambda>e. \<not> destroys e) w w1" by simp
  show ?thesis
  proof (cases r)
    case (Inl e)
    with d replaces_keeping [OF g] show ?thesis by (simp add: activate_def obind_def)
  next
    case (Inr u)
    obtain q w2 where p: "prune_old_release_versions env st v w1 = (q, w2)" by fastforce
    with Inr d have out: "snd (activate fuel env st v leaf outcome w) = w2"
      by (cases q) (simp_all add: activate_def obind_def oret_def)
    from eb.staysD [OF prune_stays, of env st v w1] p have "grows_by (prunes env st v) w1 w2" by simp
    moreover from deploy_serving [OF d [unfolded Inr]] have "seen_serving env st v leaf (cw_events w1)"
      unfolding seen_serving_def by blast
    moreover from stays_longer [OF assms] g have "release_stays env st w0 v leaf (cw_events w1)" unfolding grows_def by auto
    ultimately show ?thesis using g unfolding out replaces_from_def by blast
  qed
qed

lemma publish_keeps: "ev.stays (\<lambda>e. \<not> destroys e) (publish_release env st m trust)"
  unfolding publish_release_def add_secret_version_def archive_state_def Let_def
  by (intro ev.stays_rules ev_small ev_effect) (simp_all add: destroys_def)

lemma add_eq_Inr:
  assumes "add_secret_version env (rs_project_id st) secret payload w = (Inr n, w')" and "cw_events w = old @ x"
  shows "\<exists>y. cw_events w' = old @ y \<and> (\<forall>later. added_as env st old (old @ y @ later) secret payload n)"
proof -
  from assms(1) obtain name where "ce_add env (cw_events w) (secret_parent (rs_project_id st) secret) payload = Inr name"
    "n = after_last (CHR ''/'') name" "cw_events w' = cw_events w @ [SecretAdded (secret_parent (rs_project_id st) secret) payload]"
    by (auto simp: add_secret_version_def effect_def inr_simps)
  with assms(2) show ?thesis unfolding added_as_def
    by (intro exI [of _ "x @ [SecretAdded (secret_parent (rs_project_id st) secret) payload]"]) auto
qed

lemma publish_published:
  assumes "publish_release env st m trust w = (Inr v, w')" and "comes_from w0 w"
  shows "published env st (cw_events w0) (cw_events w') m trust v"
proof -
  let ?add = "added_as env st (cw_events w0) (cw_events w')"
  from assms(1) obtain c k archive s r w1 w2 w3 w4 where
    1: "add_secret_version env (rs_project_id st) (rs_cert_secret st) (ma_fullchain m) w = (Inr c, w1)" and
    2: "add_secret_version env (rs_project_id st) (rs_key_secret st) (ma_private_key m) w1 = (Inr k, w2)" and
    a: "archive_state env (config_dir env) w2 = (Inr archive, w3)" and
    3: "add_secret_version env (rs_project_id st) (rs_state_secret st) archive w3 = (Inr s, w4)" and
    4: "add_secret_version env (rs_project_id st) (rs_release_secret st) (release_document env st m c k s trust) w4 = (Inr r, w')" and
    v: "v = \<lparr>rv_cert = c, rv_key = k, rv_state = s, rv_release = r\<rparr>"
    unfolding publish_release_def Let_def obind_eq_Inr oret_def by auto
  from assms(2) obtain x where x: "cw_events w = cw_events w0 @ x" unfolding comes_from_def by blast
  from add_eq_Inr [OF 1 x] obtain x1 where x1: "cw_events w1 = cw_events w0 @ x1"
    "\<And>later. added_as env st (cw_events w0) (cw_events w0 @ x1 @ later) (rs_cert_secret st) (ma_fullchain m) c" by blast
  from add_eq_Inr [OF 2 x1(1)] obtain x2 where x2: "cw_events w2 = cw_events w0 @ x2"
    "\<And>later. added_as env st (cw_events w0) (cw_events w0 @ x2 @ later) (rs_key_secret st) (ma_private_key m) k" by blast
  from a have "cw_events w3 = cw_events w2" by (auto simp: archive_state_def files_of_def change_files_def obind_eq_Inr olift_def oret_def oraise_def
      split: if_splits sum.splits)
  with x2(1) have x3: "cw_events w3 = cw_events w0 @ x2" by simp
  from add_eq_Inr [OF 3 x3] obtain x4 where x4: "cw_events w4 = cw_events w0 @ x4"
    "\<And>later. added_as env st (cw_events w0) (cw_events w0 @ x4 @ later) (rs_state_secret st) archive s" by blast
  from add_eq_Inr [OF 4 x4(1)] obtain x5 where x5: "cw_events w' = cw_events w0 @ x5"
    "\<And>later. added_as env st (cw_events w0) (cw_events w0 @ x5 @ later) (rs_release_secret st) (release_document env st m c k s trust) r" by blast
  have g: "\<exists>y. cw_events wb = cw_events wa @ y" if "add_secret_version env p q t wa = (z, wb)" for p q t wa z wb
    using that by (auto simp: add_secret_version_def effect_def)
  from g [OF 2] g [OF 3] g [OF 4] x1(1) x2(1) x3 x4(1) x5(1) obtain y1 y2 y3 where
    "x2 = x1 @ y1" "x4 = x2 @ y2" "x5 = x4 @ y3" by auto
  with x1(2) [of "y1 @ y2 @ y3"] x2(2) [of "y2 @ y3"] x4(2) [of y3] x5(2) [of "[]"] x5(1) show ?thesis
    unfolding published_def v by auto
qed

lemma replaces_publish:
  assumes "comes_from w0 w"
  shows "replaces_from env st w0 w (snd (obind (publish_release env st m trust)
    (\<lambda>v. activate fuel env st v (ma_leaf_sha256 m) outcome) w))"
proof (rule replaces_obind [OF assms publish_keeps])
  fix v w1
  assume "publish_release env st m trust w = (Inr v, w1)"
  from publish_published [OF this assms] have "release_stays env st w0 v (ma_leaf_sha256 m) (cw_events w1)"
    unfolding release_stays_def by blast
  then show "replaces_from env st w0 w1 (snd (activate fuel env st v (ma_leaf_sha256 m) outcome w1))"
    by (rule replaces_activate)
qed

lemma active_versions:
  assumes "active_release env st w0 d"
  shows "names_versions d (versions_of d)"
proof -
  have same: "nonempty_text v \<Longrightarrow> VStr (the_str v) = v" for v
    by (cases v) (simp_all add: nonempty_text_def)
  from assms have
    "nonempty_text (dget d ''cert_version'')" "nonempty_text (dget d ''key_version'')" "nonempty_text (dget d ''state_version'')"
    "VStr (the_str (dget d ''release_version'')) = dget d ''release_version''"
    unfolding active_release_def parse_release_def
    by (auto simp: inr_simps split: option.splits val.splits if_splits)
  with same show ?thesis by (simp add: names_versions_def versions_of_def)
qed

lemma active_stays:
  "active_release env st w0 d \<Longrightarrow> dget d ''leaf_sha256'' = VStr leaf \<Longrightarrow> release_stays env st w0 (versions_of d) leaf evs"
  unfolding release_stays_def using active_versions by blast

lemma active_material_leaf:
  "active_release_material env st d w = (Inr m, w') \<Longrightarrow> dget d ''leaf_sha256'' = VStr (ma_leaf_sha256 m)"
  by (auto simp: active_release_material_def obind_eq_Inr oraise_def oret_def split: option.splits if_splits)

lemmas keeping_rules = read_harmless [THEN keeping] obtain_harmless [THEN keeping] validate_harmless [THEN keeping]
  readiness_harmless [THEN keeping] active_harmless [THEN keeping] extract_harmless [THEN keeping] ev_small
  ev.stays_if ev.stays_option ev.stays_pure

lemma state_renewal_replaces:
  assumes active: "\<And>d. active = Some d \<Longrightarrow> active_release env st w0 d" and "comes_from w0 w"
  shows "replaces_from env st w0 w (snd (renew_from_state fuel env st active trust w))"
  unfolding renew_from_state_def
proof (intro replaces_obind assms(2))
  fix m w7
  assume here: "comes_from w0 w7"
  show "replaces_from env st w0 w7 (snd ((case active of
       Some d \<Rightarrow>
         if dget d ''leaf_sha256'' = VStr (ma_leaf_sha256 m) \<and> same_trust active trust
         then activate fuel env st (versions_of d) (ma_leaf_sha256 m) ''healthy''
         else obind (publish_release env st m trust) (\<lambda>v. activate fuel env st v (ma_leaf_sha256 m) ''renewed'')
     | None \<Rightarrow> obind (publish_release env st m trust) (\<lambda>v. activate fuel env st v (ma_leaf_sha256 m) ''renewed'')) w7))"
    using replaces_publish [OF here] active_stays [OF active] replaces_activate by (cases active) auto
qed (assumption | intro keeping_rules)+

lemma directory_renewal_replaces:
  assumes active: "\<And>d. active = Some d \<Longrightarrow> active_release env st w0 d" and w: "comes_from w0 w"
  shows "replaces_from env st w0 w (snd (renew_in_directory fuel env st active trust w))"
proof (cases "\<exists>d. active = Some d \<and> same_trust active trust")
  case False
  then have "renew_in_directory fuel env st active trust = renew_from_state fuel env st active trust"
    by (cases active) (simp_all add: renew_in_directory_def)
  then show ?thesis using state_renewal_replaces [OF assms] by simp
next
  case True
  then obtain d where d: "active = Some d" "same_trust active trust" by blast
  show ?thesis unfolding renew_in_directory_def d(1) option.case if_P [OF d(2) [unfolded d(1)]]
  proof (intro replaces_obind w)
    fix m w1 now w2
    assume m: "active_release_material env st d w = (Inr m, w1)" and w2: "comes_from w0 w2"
    note stays = active_stays [OF active [OF d(1)] active_material_leaf [OF m]]
    have "replaces_from env st w0 w2 (snd (obind (validate_candidate env m trust)
        (\<lambda>_. activate fuel env st (versions_of d) (ma_leaf_sha256 m) ''healthy'') w2))"
      by (intro replaces_obind w2 replaces_activate stays keeping_rules)
    moreover have "replaces_from env st w0 w2 (snd (renew_from_state fuel env st (Some d) trust w2))"
      by (rule state_renewal_replaces [OF _ w2]) (use active d(1) in simp)
    ultimately show "replaces_from env st w0 w2 (snd ((if \<not> certificate_is_due m now
        then obind (validate_candidate env m trust) (\<lambda>_. activate fuel env st (versions_of d) (ma_leaf_sha256 m) ''healthy'')
        else renew_from_state fuel env st (Some d) trust) w2))"
      by simp
  qed (rule active_harmless [THEN keeping], assumption, rule ev_small)
qed

lemma temporary_directory_replaces:
  assumes "\<And>w. comes_from w0 w \<Longrightarrow> replaces_from env st w0 w (snd (m w))" and "comes_from w0 w"
  shows "replaces_from env st w0 w (snd (in_temporary_directory env m w))"
proof -
  let ?w = "w\<lparr>cw_files := [(ce_root env, Directory)]\<rparr>"
  have "cw_events (snd (in_temporary_directory env m w)) = cw_events (snd (m ?w))"
    by (cases "m ?w") (simp add: in_temporary_directory_def finally_do_def obind_def change_files_def)
  moreover from assms have "replaces_from env st w0 ?w (snd (m ?w))" by (simp add: comes_from_def)
  ultimately show ?thesis unfolding replaces_from_def grows_def grows_by_def by simp
qed

lemma renewal_replaces: "replaces_first env st w (snd (renew_certificate fuel env st w))"
  unfolding replaces_first_def renew_certificate_def Let_def
proof (intro replaces_obind)
  fix av w1 active w2 tv w3
  assume a: "read_secret env (rs_project_id st) (rs_release_secret st) ''latest'' True w = (Inr av, w1)"
    "olift (parse_release env av st) w1 = (Inr active, w2)" and here: "comes_from w w3"
  then have active: "active = Some d \<Longrightarrow> active_release env st w d" for d
    by (auto simp: active_release_def olift_def)
  have go: "replaces_from env st w w3 (snd (obind (olift (load_trust_profile env (rs_trust_profile_id st) (sv_data sv)))
      (\<lambda>trust. in_temporary_directory env (renew_in_directory fuel env st active trust)) w3))" for sv
    by (intro replaces_obind here ev.stays_pure temporary_directory_replaces directory_renewal_replaces active; assumption)
  have "replaces_from env st w w3 (snd (oraise e w3))" for e
    by (rule replaces_keeping) (simp add: oraise_def ev.rel_refl)
  with go show "replaces_from env st w w3 (snd ((case tv of None \<Rightarrow> oraise (ValueError ''telemetry trust profile is missing'')
     | Some sv \<Rightarrow> obind (olift (load_trust_profile env (rs_trust_profile_id st) (sv_data sv))) (\<lambda>trust.
         in_temporary_directory env (renew_in_directory fuel env st active trust))) w3))"
    by (cases tv) simp_all
qed (simp add: comes_from_def | assumption | intro keeping_rules)+

subsection \<open>Nothing is published but trusted material\<close>

definition adds :: "cert_event \<Rightarrow> bool" where
  "adds e = (case e of SecretAdded p x \<Rightarrow> True | _ \<Rightarrow> False)"

text \<open>What a release may add: its certificate, key, state and manifest, each to its own secret.\<close>

definition part_of_release :: "cert_env \<Rightarrow> renewer_settings \<Rightarrow> material \<Rightarrow> cert_trust \<Rightarrow> cert_event \<Rightarrow> bool" where
  "part_of_release env st m trust e = (case e of
       SecretAdded parent payload \<Rightarrow>
         (parent = secret_parent (rs_project_id st) (rs_cert_secret st) \<and> payload = ma_fullchain m) \<or>
         (parent = secret_parent (rs_project_id st) (rs_key_secret st) \<and> payload = ma_private_key m) \<or>
         parent = secret_parent (rs_project_id st) (rs_state_secret st) \<or>
         (parent = secret_parent (rs_project_id st) (rs_release_secret st) \<and>
           (\<exists>a b c. payload = release_document env st m a b c trust))
     | _ \<Rightarrow> True)"

text \<open>The material was validated, the trust profile accepts it, and a change of the profile is approved.\<close>

definition publishable :: "cert_env \<Rightarrow> renewer_settings \<Rightarrow> dict option \<Rightarrow> cert_trust \<Rightarrow> material \<Rightarrow> cert_event list \<Rightarrow> bool" where
  "publishable env st active trust m evs \<longleftrightarrow>
     (\<exists>now fullchain key. validate_material env now fullchain key (rs_hostname st) = Inr m) \<and>
     (\<exists>w1 w2 w3. validate_candidate env m trust w1 = (Inr (), w2) \<and>
       (if same_trust active trust then w3 = w2 else require_trust_cutover_readiness env st trust w2 = (Inr (), w3)) \<and>
       cw_events w3 = evs)"

definition publishes_trusted :: "cert_env \<Rightarrow> renewer_settings \<Rightarrow> dict option \<Rightarrow> cert_trust \<Rightarrow> cert_world \<Rightarrow> cert_world \<Rightarrow> bool" where
  "publishes_trusted env st active trust w w' \<longleftrightarrow> (\<exists>before after. cw_events w' = cw_events w @ before @ after \<and>
     list_all (\<lambda>e. \<not> adds e) before \<and>
     (after = [] \<or> (\<exists>m. publishable env st active trust m (cw_events w @ before) \<and>
        list_all (part_of_release env st m trust) after)))"

lemma validated_now: "load_and_validate_material env st w = (Inr m, w') \<Longrightarrow>
    \<exists>now fullchain key. validate_material env now fullchain key (rs_hostname st) = Inr m"
  by (auto simp: load_and_validate_material_def Let_def obind_eq_Inr olift_def)

lemma finally_result: "finally_do m c w = (Inr x, w') \<Longrightarrow> \<exists>w1. m w = (Inr x, w1)"
  by (auto simp: finally_eq_Inr)

lemma obtained_is_valid:
  assumes "obtain_material env st w = (Inr m, w')"
  shows "\<exists>now fullchain key. validate_material env now fullchain key (rs_hostname st) = Inr m"
proof -
  from finally_result [OF assms [unfolded obtain_material_def], unfolded obind_eq_Inr [of "stored_material env st"]]
  obtain stored w1 w2 where
    stored: "stored_material env st w = (Inr stored, w1)" and
    rest: "(case stored of Some m \<Rightarrow> oret m
        | None \<Rightarrow> obind (write_file (credentials_file env)
              (''dns_cloudflare_api_token = '' @ rs_cloudflare_api_token st @ [CHR 0x0A])) (\<lambda>_.
            finally_do (obind (run_certbot env st) (\<lambda>_. load_and_validate_material env st)) (remove_credentials env))) w1 = (Inr m, w2)"
    by (elim exE conjE)
  show ?thesis
  proof (cases stored)
    case None
    with rest obtain u w3 where "finally_do (obind (run_certbot env st) (\<lambda>_. load_and_validate_material env st)) (remove_credentials env) w3
        = (Inr m, w2)"
      by (auto simp: obind_eq_Inr)
    from finally_result [OF this] show ?thesis by (auto simp: obind_eq_Inr intro: validated_now)
  next
    case (Some x)
    with rest have "x = m" by (simp add: oret_def)
    with stored Some obtain w3 where "load_and_validate_material env st w = (Inr m, w3)"
      by (auto simp: stored_material_def ocatch_def obind_eq_Inr obind_def oret_def oraise_def
        split: prod.splits sum.splits if_splits)
    then show ?thesis by (rule validated_now)
  qed
qed

lemma no_adds: "ev.stays harmless m \<Longrightarrow> ev.stays (\<lambda>e. \<not> adds e) m"
  unfolding ev.stays_def grows_def list_all_iff harmless_def adds_def by (fastforce split: cert_event.splits)

lemma grows_by_grows: "eb.stays R m \<Longrightarrow> (\<And>evs e. R evs e \<Longrightarrow> P e) \<Longrightarrow> ev.stays P m"
proof (rule ev.staysI)
  fix w
  assume m: "eb.stays R m" and P: "\<And>evs e. R evs e \<Longrightarrow> P e"
  from eb.staysD [OF m, of w] obtain new where new: "cw_events (snd (m w)) = cw_events w @ new"
    "\<And>x e y. new = x @ e # y \<Longrightarrow> R (cw_events w @ x) e" unfolding grows_by_def by blast
  then have "list_all P new" using P unfolding list_all_iff by (blast dest: split_list)
  with new(1) show "grows P w (snd (m w))" unfolding grows_def by blast
qed

lemma prune_adds_nothing: "ev.stays (\<lambda>e. \<not> adds e) (prune_old_release_versions env st v)"
  by (rule grows_by_grows [OF prune_stays]) (auto simp: prunes_def adds_def split: cert_event.splits)

lemma activate_adds_nothing: "ev.stays (\<lambda>e. \<not> adds e) (activate fuel env st v leaf outcome)"
  unfolding activate_def by (intro ev.stays_obind ev.stays_pure no_adds deploy_harmless prune_adds_nothing)

lemma publish_adds: "ev.stays (part_of_release env st m trust) (publish_release env st m trust)"
  unfolding publish_release_def add_secret_version_def archive_state_def Let_def
  by (intro ev.stays_rules ev_small ev_effect) (auto simp: part_of_release_def)

lemma no_add_is_part: "ev.stays (\<lambda>e. \<not> adds e) m \<Longrightarrow> ev.stays (part_of_release env st mat trust) m"
  unfolding ev.stays_def grows_def list_all_iff part_of_release_def adds_def by (fastforce split: cert_event.splits)

lemma trusted_quiet: "grows (\<lambda>e. \<not> adds e) w w' \<Longrightarrow> publishes_trusted env st active trust w w'"
  unfolding grows_def publishes_trusted_def by (elim exE, rule exI, rule exI [of _ "[]"]) auto

lemma trusted_after:
  assumes "grows (\<lambda>e. \<not> adds e) w w1" and "publishes_trusted env st active trust w1 w'"
  shows "publishes_trusted env st active trust w w'"
proof -
  from assms(1) obtain x where x: "cw_events w1 = cw_events w @ x" "list_all (\<lambda>e. \<not> adds e) x" unfolding grows_def by blast
  from assms(2) obtain y z where "cw_events w' = cw_events w1 @ y @ z" "list_all (\<lambda>e. \<not> adds e) y"
    "z = [] \<or> (\<exists>m. publishable env st active trust m (cw_events w1 @ y) \<and> list_all (part_of_release env st m trust) z)"
    unfolding publishes_trusted_def by blast
  with x show ?thesis unfolding publishes_trusted_def by (intro exI [of _ "x @ y"] exI [of _ z]) simp
qed

lemma trusted_obind:
  assumes m: "ev.stays (\<lambda>e. \<not> adds e) m"
    and f: "\<And>x w1. m w = (Inr x, w1) \<Longrightarrow> publishes_trusted env st active trust w1 (snd (f x w1))"
  shows "publishes_trusted env st active trust w (snd (obind m f w))"
proof -
  obtain r w1 where mw: "m w = (r, w1)" by fastforce
  with ev.staysD [OF m, of w] have g: "grows (\<lambda>e. \<not> adds e) w w1" by simp
  show ?thesis
  proof (cases r)
    case (Inl e)
    with mw trusted_quiet [OF g] show ?thesis by (simp add: obind_def)
  next
    case (Inr x)
    with mw trusted_after [OF g f] show ?thesis by (simp add: obind_def)
  qed
qed

lemma publication_is_trusted:
  assumes "publishable env st active trust m (cw_events w)"
  shows "publishes_trusted env st active trust w
    (snd (obind (publish_release env st m trust) (\<lambda>v. activate fuel env st v leaf outcome) w))"
proof -
  have "ev.stays (part_of_release env st m trust) (obind (publish_release env st m trust) (\<lambda>v. activate fuel env st v leaf outcome))"
    by (intro ev.stays_obind publish_adds no_add_is_part activate_adds_nothing)
  from ev.staysD [OF this, of w] obtain z where
    "cw_events (snd (obind (publish_release env st m trust) (\<lambda>v. activate fuel env st v leaf outcome) w)) = cw_events w @ z"
    "list_all (part_of_release env st m trust) z" unfolding grows_def by blast
  with assms show ?thesis unfolding publishes_trusted_def by (intro exI [of _ "[]"] exI [of _ z]) auto
qed

lemma state_renewal_trusted:
  "publishes_trusted env st active trust w (snd (renew_from_state fuel env st active trust w))"
  unfolding renew_from_state_def
proof (intro trusted_obind)
  fix m w5 w6 w7 u u' w4
  assume m: "obtain_material env st w4 = (Inr m, w5)" and c: "validate_candidate env m trust w5 = (Inr u, w6)"
    and a: "(if same_trust active trust then oret () else require_trust_cutover_readiness env st trust) w6 = (Inr u', w7)"
  have "publishable env st active trust m (cw_events w7)"
    unfolding publishable_def using obtained_is_valid [OF m] c a by (auto simp: oret_def split: if_splits)
  note pub = publication_is_trusted [OF this]
  have quiet: "publishes_trusted env st active trust w7 (snd (activate fuel env st v leaf outcome w7))" for v leaf outcome
    by (rule trusted_quiet) (rule ev.staysD [OF activate_adds_nothing])
  show "publishes_trusted env st active trust w7 (snd ((case active of
       Some d \<Rightarrow>
         if dget d ''leaf_sha256'' = VStr (ma_leaf_sha256 m) \<and> same_trust active trust
         then activate fuel env st (versions_of d) (ma_leaf_sha256 m) ''healthy''
         else obind (publish_release env st m trust) (\<lambda>v. activate fuel env st v (ma_leaf_sha256 m) ''renewed'')
     | None \<Rightarrow> obind (publish_release env st m trust) (\<lambda>v. activate fuel env st v (ma_leaf_sha256 m) ''renewed'')) w7))"
    using pub quiet by (cases active) simp_all
qed (intro no_adds ev_small read_harmless obtain_harmless validate_harmless readiness_harmless extract_harmless
    ev.stays_option ev.stays_if ev.stays_pure)+

lemma directory_renewal_trusted:
  "publishes_trusted env st active trust w (snd (renew_in_directory fuel env st active trust w))"
proof (cases "\<exists>d. active = Some d \<and> same_trust active trust")
  case False
  then have "renew_in_directory fuel env st active trust = renew_from_state fuel env st active trust"
    by (cases active) (simp_all add: renew_in_directory_def)
  then show ?thesis by (simp add: state_renewal_trusted)
next
  case True
  then obtain d where d: "active = Some d" "same_trust active trust" by blast
  have quiet: "publishes_trusted env st active trust w1 (snd (obind (validate_candidate env m trust)
      (\<lambda>_. activate fuel env st v leaf outcome) w1))" for m v leaf outcome w1
    by (rule trusted_quiet, rule ev.staysD, intro ev.stays_obind no_adds [OF validate_harmless] activate_adds_nothing)
  have choice: "publishes_trusted env st active trust w1 (snd ((if \<not> certificate_is_due m now
        then obind (validate_candidate env m trust) (\<lambda>_. activate fuel env st (versions_of d) (ma_leaf_sha256 m) ''healthy'')
        else renew_from_state fuel env st active trust) w1))" for m now w1
    using quiet state_renewal_trusted by simp
  show ?thesis unfolding renew_in_directory_def d(1) option.case if_P [OF d(2) [unfolded d(1)]]
    by (intro trusted_obind no_adds active_harmless ev_small choice [unfolded d(1)])
qed

lemma temporary_directory_trusted:
  assumes "\<And>w. publishes_trusted env st active trust w (snd (m w))"
  shows "publishes_trusted env st active trust w (snd (in_temporary_directory env m w))"
proof -
  have "cw_events (snd (in_temporary_directory env m w)) = cw_events (snd (m (w\<lparr>cw_files := [(ce_root env, Directory)]\<rparr>)))"
    by (cases "m (w\<lparr>cw_files := [(ce_root env, Directory)]\<rparr>)")
      (simp add: in_temporary_directory_def finally_do_def obind_def change_files_def)
  with assms [of "w\<lparr>cw_files := [(ce_root env, Directory)]\<rparr>"] show ?thesis unfolding publishes_trusted_def by simp
qed

subsection \<open>The polling ends\<close>

text \<open>The monotonic clock does not go backwards and a pause takes at least its time.\<close>

definition clock_runs :: "cert_env \<Rightarrow> bool" where
  "clock_runs env \<longleftrightarrow> (\<forall>evs e. ce_monotonic env evs \<le> ce_monotonic env (evs @ [e])) \<and>
     (\<forall>evs d. ce_monotonic env evs + d \<le> ce_monotonic env (evs @ [Paused d]))"

lemma clock_forward: "clock_runs env \<Longrightarrow> ce_monotonic env evs \<le> ce_monotonic env (evs @ new)"
proof (induction new rule: rev_induct)
  case (snoc e new)
  then have "ce_monotonic env (evs @ new) \<le> ce_monotonic env ((evs @ new) @ [e])" unfolding clock_runs_def by blast
  with snoc show ?case by (metis append.assoc order_trans)
qed simp

lemma later_clock: "clock_runs env \<Longrightarrow> grows P w w' \<Longrightarrow> ce_monotonic env (cw_events w) \<le> ce_monotonic env (cw_events w')"
  unfolding grows_def using clock_forward by fastforce

lemma obind_cong_at: "(\<And>x w1. m w = (Inr x, w1) \<Longrightarrow> f x w1 = g x w1) \<Longrightarrow> obind m f w = obind m g w"
  by (auto simp: obind_def split: prod.split sum.split)

lemma poll_fuel:
  assumes "clock_runs env"
  shows "deadline \<le> ce_monotonic env (cw_events w) + 10 * of_nat n \<Longrightarrow>
    poll_deployment (Suc n + k) env st marker leaf deadline w = poll_deployment (Suc n) env st marker leaf deadline w"
proof (induction n arbitrary: w)
  case 0
  then show ?case by (simp add: obind_def monotonic_def)
next
  case (Suc n)
  have rest: "(if serving then oret () else poll_deployment (Suc n + k) env st marker leaf deadline) w2 =
      (if serving then oret () else poll_deployment (Suc n) env st marker leaf deadline) w2"
    if "effect (Paused 10) (\<lambda>evs. Inr ()) w = (Inr u, w1)" "release_is_serving env st marker leaf w1 = (Inr serving, w2)"
    for u serving w1 w2
  proof (cases serving)
    case False
    from that(1) assms have "ce_monotonic env (cw_events w) + 10 \<le> ce_monotonic env (cw_events w1)"
      by (auto simp: effect_def clock_runs_def)
    moreover from later_clock [OF assms ev.staysD [OF serving_harmless, of w1 env st marker leaf]] that(2)
    have "ce_monotonic env (cw_events w1) \<le> ce_monotonic env (cw_events w2)" by simp
    ultimately have "deadline \<le> ce_monotonic env (cw_events w2) + 10 * of_nat n"
      using Suc.prems by (simp add: algebra_simps)
    from Suc.IH [OF this] False show ?thesis by simp
  qed simp
  have step: "poll_deployment (Suc f) env st marker leaf deadline w = obind (monotonic env) (\<lambda>now.
     if \<not> now < deadline then oraise deployment_timed_out
     else obind (effect (Paused 10) (\<lambda>evs. Inr ())) (\<lambda>_.
          obind (release_is_serving env st marker leaf) (\<lambda>serving.
          if serving then oret () else poll_deployment f env st marker leaf deadline))) w" for f
    by simp
  have "poll_deployment (Suc (Suc n + k)) env st marker leaf deadline w = poll_deployment (Suc (Suc n)) env st marker leaf deadline w"
    unfolding step [of "Suc n + k"] step [of "Suc n"]
  proof (rule obind_cong_at)
    fix now w1
    assume "monotonic env w = (Inr now, w1)"
    then have w1: "w1 = w" by (simp add: monotonic_def)
    have "obind (effect (Paused 10) (\<lambda>evs. Inr ())) (\<lambda>_. obind (release_is_serving env st marker leaf) (\<lambda>serving.
          if serving then oret () else poll_deployment (Suc n + k) env st marker leaf deadline)) w =
        obind (effect (Paused 10) (\<lambda>evs. Inr ())) (\<lambda>_. obind (release_is_serving env st marker leaf) (\<lambda>serving.
          if serving then oret () else poll_deployment (Suc n) env st marker leaf deadline)) w"
      by (intro obind_cong_at rest; assumption)
    then show "(if \<not> now < deadline then oraise deployment_timed_out
       else obind (effect (Paused 10) (\<lambda>evs. Inr ())) (\<lambda>_. obind (release_is_serving env st marker leaf) (\<lambda>serving.
          if serving then oret () else poll_deployment (Suc n + k) env st marker leaf deadline))) w1 =
      (if \<not> now < deadline then oraise deployment_timed_out
       else obind (effect (Paused 10) (\<lambda>evs. Inr ())) (\<lambda>_. obind (release_is_serving env st marker leaf) (\<lambda>serving.
          if serving then oret () else poll_deployment (Suc n) env st marker leaf deadline))) w1"
      unfolding w1 by (cases "now < deadline") (simp_all only: not_True_eq_False not_False_eq_True if_True if_False simp_thms)
  qed
  then show ?case by (simp only: add_Suc)
qed

lemma deploy_fuel:
  assumes "clock_runs env" and "rs_deployment_timeout st \<le> 1200"
  shows "deploy_release (121 + k) env st version leaf = deploy_release 121 env st version leaf"
proof
  fix w
  have poll: "poll_deployment (121 + k) env st marker leaf (now + of_int (rs_deployment_timeout st)) w2 =
      poll_deployment 121 env st marker leaf (now + of_int (rs_deployment_timeout st)) w2"
    if "monotonic env w1 = (Inr now, w2)" for w1 w2 now marker
  proof -
    have "of_int (rs_deployment_timeout st) \<le> (of_int 1200 :: rat)" using assms(2) by (simp only: of_int_le_iff)
    with that have "now + of_int (rs_deployment_timeout st) \<le> ce_monotonic env (cw_events w2) + 10 * of_nat 120"
      by (auto simp: monotonic_def)
    from poll_fuel [OF assms(1) this] show ?thesis by simp
  qed
  show "deploy_release (121 + k) env st version leaf w = deploy_release 121 env st version leaf w"
    unfolding deploy_release_def Let_def
  proof (rule obind_cong_at)
    fix serving w1
    let ?reset = "effect (ResetPosted (compute_url st ''reset'')) (\<lambda>evs. ce_reset env evs (compute_url st ''reset''))"
    have "obind ?reset (\<lambda>code. if 400 \<le> code then oraise (LibraryError ''HTTPError'')
              else obind (monotonic env) (\<lambda>now. poll_deployment (121 + k) env st (release_marker version leaf) leaf
                (now + of_int (rs_deployment_timeout st)))) w1 =
        obind ?reset (\<lambda>code. if 400 \<le> code then oraise (LibraryError ''HTTPError'')
              else obind (monotonic env) (\<lambda>now. poll_deployment 121 env st (release_marker version leaf) leaf
                (now + of_int (rs_deployment_timeout st)))) w1"
    proof (rule obind_cong_at)
      fix code w2
      show "(if 400 \<le> code then oraise (LibraryError ''HTTPError'')
          else obind (monotonic env) (\<lambda>now. poll_deployment (121 + k) env st (release_marker version leaf) leaf
            (now + of_int (rs_deployment_timeout st)))) w2 =
        (if 400 \<le> code then oraise (LibraryError ''HTTPError'')
          else obind (monotonic env) (\<lambda>now. poll_deployment 121 env st (release_marker version leaf) leaf
            (now + of_int (rs_deployment_timeout st)))) w2"
        by (cases "400 \<le> code"; simp only: if_True if_False) (intro obind_cong_at poll)
    qed
    then show "(if serving then oret () else obind ?reset (\<lambda>code. if 400 \<le> code then oraise (LibraryError ''HTTPError'')
              else obind (monotonic env) (\<lambda>now. poll_deployment (121 + k) env st (release_marker version leaf) leaf
                (now + of_int (rs_deployment_timeout st))))) w1 =
        (if serving then oret () else obind ?reset (\<lambda>code. if 400 \<le> code then oraise (LibraryError ''HTTPError'')
              else obind (monotonic env) (\<lambda>now. poll_deployment 121 env st (release_marker version leaf) leaf
                (now + of_int (rs_deployment_timeout st))))) w1"
      by (cases serving) (simp_all only: if_True if_False)
  qed
qed

lemma renewal_fuel:
  assumes "clock_runs env" and "rs_deployment_timeout st \<le> 1200"
  shows "renew_certificate (121 + k) env st = renew_certificate 121 env st"
  unfolding renew_certificate_def renew_in_directory_def renew_from_state_def activate_def deploy_fuel [OF assms] ..

lemma timeout_bound: "settings_from_environment vars = Inr st \<Longrightarrow> 120 \<le> rs_deployment_timeout st \<and> rs_deployment_timeout st \<le> 1200"
  by (auto simp: settings_from_environment_def inr_simps split: option.splits)

subsection \<open>The properties\<close>


text \<open>The active release and the trust profile that a run starts from.\<close>

definition starts_with_release :: "cert_env \<Rightarrow> renewer_settings \<Rightarrow> dict option \<Rightarrow> cert_trust \<Rightarrow> cert_world \<Rightarrow> bool" where
  "starts_with_release env st active trust w \<longleftrightarrow> (\<exists>value w1 sv w2.
     read_secret env (rs_project_id st) (rs_release_secret st) ''latest'' True w = (Inr value, w1) \<and>
     parse_release env value st = Inr active \<and>
     read_secret env (rs_project_id st) (rs_trust_profile_secret st) ''latest'' False w1 = (Inr (Some sv), w2) \<and>
     load_trust_profile env (rs_trust_profile_id st) (sv_data sv) = Inr trust)"

text \<open>C9: The job adds versions of secrets only for material that it validated (a chain for the host that is valid for another
  week, with its private key), that \<open>openssl\<close> accepts under the configured trust profile and, when the active release was made
  under another profile, after the cutover was approved; and then it adds the parts of one release only.\<close>

theorem published_only_when_trusted:
  "case renew_certificate fuel env st w of (r, w') \<Rightarrow>
     grows (\<lambda>e. \<not> adds e) w w' \<or>
     (\<exists>active trust. starts_with_release env st active trust w \<and> publishes_trusted env st active trust w w')"
proof -
  let ?p = "rs_project_id st"
  obtain r1 w1 where a: "read_secret env ?p (rs_release_secret st) ''latest'' True w = (r1, w1)" by fastforce
  with ev.staysD [OF no_adds [OF read_harmless], of w env ?p "rs_release_secret st" "''latest''" True]
  have g1: "grows (\<lambda>e. \<not> adds e) w w1" by simp
  show ?thesis
  proof (cases "\<exists>value active. r1 = Inr value \<and> parse_release env value st = Inr active")
    case False
    with a have "snd (renew_certificate fuel env st w) = w1"
      by (cases r1; cases "parse_release env (projr r1) st") (auto simp: renew_certificate_def Let_def obind_def olift_def)
    with g1 show ?thesis by (cases "renew_certificate fuel env st w") simp
  next
    case True
    then obtain av active where v: "r1 = Inr av" "parse_release env av st = Inr active" by blast
    obtain r2 w2 where b: "read_secret env ?p (rs_trust_profile_secret st) ''latest'' False w1 = (r2, w2)" by fastforce
    with ev.staysD [OF no_adds [OF read_harmless], of w1 env ?p "rs_trust_profile_secret st" "''latest''" False]
    have "grows (\<lambda>e. \<not> adds e) w1 w2" by simp
    with g1 have g2: "grows (\<lambda>e. \<not> adds e) w w2" by (rule ev.rel_trans)
    show ?thesis
    proof (cases "\<exists>sv trust. r2 = Inr (Some sv) \<and> load_trust_profile env (rs_trust_profile_id st) (sv_data sv) = Inr trust")
      case False
      with a v b have "snd (renew_certificate fuel env st w) = w2"
        by (cases r2; cases "projr r2"; cases "load_trust_profile env (rs_trust_profile_id st) (sv_data (the (projr r2)))")
          (auto simp: renew_certificate_def Let_def obind_def olift_def oraise_def)
      with g2 show ?thesis by (cases "renew_certificate fuel env st w") simp
    next
      case True
      then obtain sv trust where t: "r2 = Inr (Some sv)" "load_trust_profile env (rs_trust_profile_id st) (sv_data sv) = Inr trust" by blast
      from a v b t have start: "starts_with_release env st active trust w" unfolding starts_with_release_def by blast
      have "renew_certificate fuel env st w = in_temporary_directory env (renew_in_directory fuel env st active trust) w2"
        using a v b t by (simp add: renew_certificate_def Let_def obind_def olift_def)
      then have "publishes_trusted env st active trust w (snd (renew_certificate fuel env st w))"
        using trusted_after [OF g2 temporary_directory_trusted [OF directory_renewal_trusted]] by simp
      with start show ?thesis by (cases "renew_certificate fuel env st w") auto
    qed
  qed
qed

text \<open>C15: The job ends: whatever the other services answer, the polling of a deployment takes at most 121 turns, because the
  settings bound its time by twenty minutes and every turn pauses for ten seconds.\<close>

theorem renewal_ends:
  assumes "clock_runs env"
  shows "renewer_main (121 + k) env vars w = renewer_main 121 env vars w"
  unfolding renewer_main_def
  by (cases "settings_from_environment vars")
    (simp_all add: obind_def olift_def renewal_fuel [OF assms] timeout_bound)

end
