(* ===== verification/CertificateExamples.thy ===== *)
theory CertificateExamples
  imports CertificateGuarantees
begin

text \<open>
  A run of the job on a concrete platform: there is no release yet, the cutover is approved, Certbot issues a
  certificate, and the receiver serves it after a reset.
\<close>

definition demo_block :: string where
  "demo_block = pem_begin @ '' x'' @ pem_end"

definition issue_files :: "file_tree \<Rightarrow> file_tree" where
  "issue_files fs = dict_merge fs
     [(''/t/letsencrypt/live/telemetry-edge/fullchain.pem'', Regular (demo_block @ demo_block)),
      (''/t/letsencrypt/live/telemetry-edge/privkey.pem'', Regular ''KEY'')]"

fun paused_time :: "cert_event list \<Rightarrow> rat" where
  "paused_time [] = 0"
| "paused_time (Paused d # evs) = max 0 d + paused_time evs"
| "paused_time (e # evs) = paused_time evs"

definition was_reset :: "cert_event list \<Rightarrow> bool" where
  "was_reset evs = list_ex (\<lambda>e. case e of ResetPosted u \<Rightarrow> True | _ \<Rightarrow> False) evs"

definition demo_cert_env :: cert_env where
  "demo_cert_env = \<lparr>
     ce_access = (\<lambda>evs name. if contains ''/trust/'' name then SecretFound ''CA'' (name @ ''/1'')
       else if contains ''/ready/'' name then SecretFound ''READY'' (name @ ''/1'') else SecretMissing),
     ce_add = (\<lambda>evs parent payload. Inr (parent @ ''/versions/2'')),
     ce_versions = (\<lambda>evs parent. Inr [(parent @ ''/versions/1'', ''ENABLED''), (parent @ ''/versions/2'', ''ENABLED'')]),
     ce_destroy = (\<lambda>evs name. Inr ()),
     ce_status = (\<lambda>evs url. Inr (200, Some (VDict [(''queryValue'', VDict [(''items'', VList [VDict
       [(''namespace'', VStr ''telemetry-edge''), (''key'', VStr ''status''),
        (''value'', VStr (if was_reset evs then ''ok:tls=2:LEAF'' else ''ok''))]])])]))),
     ce_reset = (\<lambda>evs url. Inr 200),
     ce_execute = (\<lambda>evs fs args. Inr (\<lparr>pr_returncode = 0, pr_stdout = demo_block, pr_stderr = []\<rparr>,
       if hd args = ''certbot'' then issue_files fs else fs)),
     ce_clock = (\<lambda>evs. 0), ce_monotonic = paused_time,
     ce_leaf = (\<lambda>s. Inr \<lparr>lf_names = Some [''t.example''], lf_not_before = 0, lf_not_after = 90 * day, lf_fingerprint = ''LEAF'',
       lf_key = ''PUB''\<rparr>),
     ce_private = (\<lambda>s. Inr ''PUB''), ce_chain = (\<lambda>s. Inr [\<lparr>ct_pem = s, ct_der = s, ct_ca = Some True\<rparr>]),
     ce_sha256 = (\<lambda>s. s), ce_dumps = (\<lambda>v. ''DOC''),
     ce_loads = (\<lambda>s. Inr (VDict [(''ready'', VBool True), (''trust_profile_id'', VStr ''prod''),
       (''trust_profile_sha256'', VStr ''CA''), (''required_vehicle_count'', VInt 1)])),
     ce_isoformat = (\<lambda>t. []), ce_untar = (\<lambda>s. Inr \<lparr>ta_sizes = [], ta_extract = (\<lambda>d. Inr [])\<rparr>),
     ce_tar = (\<lambda>fs d. Inr ''TAR''), ce_root = ''/t'', ce_credentials = Inr ()\<rparr>"

definition demo_vars :: "(string \<times> string) list" where
  "demo_vars = [(''GOOGLE_CLOUD_PROJECT'', ''p''), (''TELEMETRY_EDGE_ZONE'', ''z''), (''TELEMETRY_EDGE_INSTANCE'', ''i''),
     (''TELEMETRY_HOSTNAME'', ''t.example''), (''ACME_EMAIL'', ''a''), (''CLOUDFLARE_API_TOKEN'', ''c''),
     (''TLS_CERT_SECRET'', ''cert''), (''TLS_KEY_SECRET'', ''key''), (''ACME_STATE_SECRET'', ''state''),
     (''TLS_RELEASE_SECRET'', ''release''), (''TELEMETRY_TRUST_PROFILE_SECRET'', ''trust''),
     (''TELEMETRY_TRUST_PROFILE_ID'', ''prod''), (''TELEMETRY_TRUST_READINESS_SECRET'', ''ready'')]"

definition demo_start :: cert_world where
  "demo_start = \<lparr>cw_events = [], cw_files = []\<rparr>"

lemma demo_clock: "clock_runs demo_cert_env"
proof -
  have "paused_time (evs @ [e]) = paused_time evs + paused_time [e]" for evs e
    by (induction evs rule: paused_time.induct) (simp_all add: algebra_simps)
  moreover have "0 \<le> paused_time [e]" for e by (cases e) simp_all
  ultimately show ?thesis by (simp add: clock_runs_def demo_cert_env_def)
qed

subsection \<open>The run, step by step\<close>

definition demo_settings :: renewer_settings where
  "demo_settings = \<lparr>rs_project_id = ''p'', rs_zone = ''z'', rs_instance = ''i'', rs_hostname = ''t.example'', rs_acme_email = ''a'',
     rs_cloudflare_api_token = ''c'', rs_cert_secret = ''cert'', rs_key_secret = ''key'', rs_state_secret = ''state'',
     rs_release_secret = ''release'', rs_trust_profile_secret = ''trust'', rs_trust_profile_id = ''prod'',
     rs_trust_readiness_secret = ''ready'', rs_deployment_timeout = 600\<rparr>"

definition demo_cert_trust :: cert_trust where
  "demo_cert_trust = \<lparr>cp_profile_id = ''prod'', cp_pem = ''CA'', cp_sha256 = ''CA''\<rparr>"

definition demo_material :: material where
  "demo_material = \<lparr>ma_fullchain = demo_block @ demo_block, ma_private_key = ''KEY'', ma_leaf_sha256 = ''LEAF'',
     ma_fullchain_sha256 = demo_block @ demo_block, ma_not_before = 0, ma_not_after = 90 * day\<rparr>"

definition demo_versions :: release_versions where
  "demo_versions = \<lparr>rv_cert = ''2'', rv_key = ''2'', rv_state = ''2'', rv_release = ''2''\<rparr>"

definition demo_w1 :: cert_world where "demo_w1 = snd (read_secret demo_cert_env ''p'' ''release'' ''latest'' True demo_start)"
definition demo_w2 :: cert_world where "demo_w2 = snd (read_secret demo_cert_env ''p'' ''trust'' ''latest'' False demo_w1)"
definition demo_w3 :: cert_world where
  "demo_w3 = demo_w2\<lparr>cw_files := [(''/t'', Directory), (''/t/letsencrypt'', Directory)]\<rparr>"
definition demo_w4 :: cert_world where "demo_w4 = snd (read_secret demo_cert_env ''p'' ''state'' ''latest'' True demo_w3)"
definition demo_w5 :: cert_world where "demo_w5 = snd (obtain_material demo_cert_env demo_settings demo_w4)"
definition demo_w6 :: cert_world where "demo_w6 = snd (validate_candidate demo_cert_env demo_material demo_cert_trust demo_w5)"
definition demo_w7 :: cert_world where
  "demo_w7 = snd (require_trust_cutover_readiness demo_cert_env demo_settings demo_cert_trust demo_w6)"
definition demo_w8 :: cert_world where
  "demo_w8 = snd (publish_release demo_cert_env demo_settings demo_material demo_cert_trust demo_w7)"
definition demo_w9 :: cert_world where "demo_w9 = snd (deploy_release 121 demo_cert_env demo_settings ''2'' ''LEAF'' demo_w8)"
definition demo_w10 :: cert_world where
  "demo_w10 = snd (prune_old_release_versions demo_cert_env demo_settings demo_versions demo_w9)"

lemma step_result: "fst (m w) = r \<Longrightarrow> w' = snd (m w) \<Longrightarrow> m w = (r, w')"
  by (cases "m w") simp

lemma demo_steps:
  "settings_from_environment demo_vars = Inr demo_settings"
  "read_secret demo_cert_env ''p'' ''release'' ''latest'' True demo_start = (Inr None, demo_w1)"
  "read_secret demo_cert_env ''p'' ''trust'' ''latest'' False demo_w1 = (Inr (Some \<lparr>sv_data = ''CA'', sv_version = ''1''\<rparr>), demo_w2)"
  "load_trust_profile demo_cert_env ''prod'' ''CA'' = Inr demo_cert_trust"
  "read_secret demo_cert_env ''p'' ''state'' ''latest'' True demo_w3 = (Inr None, demo_w4)"
  "obtain_material demo_cert_env demo_settings demo_w4 = (Inr demo_material, demo_w5)"
  "validate_candidate demo_cert_env demo_material demo_cert_trust demo_w5 = (Inr (), demo_w6)"
  "require_trust_cutover_readiness demo_cert_env demo_settings demo_cert_trust demo_w6 = (Inr (), demo_w7)"
  "publish_release demo_cert_env demo_settings demo_material demo_cert_trust demo_w7 = (Inr demo_versions, demo_w8)"
  "deploy_release 121 demo_cert_env demo_settings ''2'' ''LEAF'' demo_w8 = (Inr (), demo_w9)"
  "prune_old_release_versions demo_cert_env demo_settings demo_versions demo_w9 = (Inr (), demo_w10)"
proof -
  show "settings_from_environment demo_vars = Inr demo_settings" by code_simp
  show "load_trust_profile demo_cert_env ''prod'' ''CA'' = Inr demo_cert_trust" by code_simp
  show "read_secret demo_cert_env ''p'' ''release'' ''latest'' True demo_start = (Inr None, demo_w1)"
    by (rule step_result, code_simp, rule demo_w1_def)
  show "read_secret demo_cert_env ''p'' ''trust'' ''latest'' False demo_w1 = (Inr (Some \<lparr>sv_data = ''CA'', sv_version = ''1''\<rparr>), demo_w2)"
    by (rule step_result, code_simp, rule demo_w2_def)
  show "read_secret demo_cert_env ''p'' ''state'' ''latest'' True demo_w3 = (Inr None, demo_w4)"
    by (rule step_result, code_simp, rule demo_w4_def)
  show "obtain_material demo_cert_env demo_settings demo_w4 = (Inr demo_material, demo_w5)"
    by (rule step_result, code_simp, rule demo_w5_def)
  show "validate_candidate demo_cert_env demo_material demo_cert_trust demo_w5 = (Inr (), demo_w6)"
    by (rule step_result, code_simp, rule demo_w6_def)
  show "require_trust_cutover_readiness demo_cert_env demo_settings demo_cert_trust demo_w6 = (Inr (), demo_w7)"
    by (rule step_result, code_simp, rule demo_w7_def)
  show "publish_release demo_cert_env demo_settings demo_material demo_cert_trust demo_w7 = (Inr demo_versions, demo_w8)"
    by (rule step_result, code_simp, rule demo_w8_def)
  show "deploy_release 121 demo_cert_env demo_settings ''2'' ''LEAF'' demo_w8 = (Inr (), demo_w9)"
    by (rule step_result, code_simp, rule demo_w9_def)
  show "prune_old_release_versions demo_cert_env demo_settings demo_versions demo_w9 = (Inr (), demo_w10)"
    by (rule step_result, code_simp, rule demo_w10_def)
qed

text \<open>The release is published and deployed, and the four versions it replaces are destroyed.\<close>

lemma demo_run:
  "renew_certificate 121 demo_cert_env demo_settings demo_start = (Inr ''renewed'', demo_w10\<lparr>cw_files := []\<rparr>)"
proof -
  have files: "change_files (\<lambda>fs. Inr [(ce_root demo_cert_env, Directory)]) demo_w2 = (Inr (), demo_w2\<lparr>cw_files := [(''/t'', Directory)]\<rparr>)"
    "change_files (\<lambda>fs. Inr (AList.update (config_dir demo_cert_env) Directory fs)) (demo_w2\<lparr>cw_files := [(''/t'', Directory)]\<rparr>) =
      (Inr (), demo_w3)"
    by (simp_all add: change_files_def demo_cert_env_def config_dir_def demo_w3_def)
  have parts: "rs_project_id demo_settings = ''p''" "rs_release_secret demo_settings = ''release''"
    "rs_trust_profile_secret demo_settings = ''trust''" "rs_trust_profile_id demo_settings = ''prod''"
    "rs_state_secret demo_settings = ''state''" "rv_release demo_versions = ''2''" "ma_leaf_sha256 demo_material = ''LEAF''"
    by (simp_all add: demo_settings_def demo_versions_def demo_material_def)
  have state: "renew_from_state 121 demo_cert_env demo_settings None demo_cert_trust (demo_w2\<lparr>cw_files := [(''/t'', Directory)]\<rparr>) =
      (Inr ''renewed'', demo_w10)"
    by (simp add: renew_from_state_def obind_Inr files parts demo_steps oper_simps same_trust_def activate_def)
  show ?thesis
    by (simp add: renew_certificate_def Let_def obind_Inr files parts demo_steps oper_simps parse_release_def in_temporary_directory_def
      finally_do_def renew_in_directory_def state) (simp add: change_files_def)
qed

lemma demo_destroyed:
  "filter destroys (cw_events demo_w10) =
     map (\<lambda>s. SecretDestroyed (''projects/p/secrets/'' @ s @ ''/versions/1'')) [''cert'', ''key'', ''state'', ''release'']"
  by code_simp

theorem renewal_ends_witness:
  "fst (renewer_main 1000 demo_cert_env demo_vars demo_start) = (log_event ''renewed'' ''INFO'' None None, 0)"
proof -
  have "ce_credentials demo_cert_env = Inr ()" by (simp add: demo_cert_env_def)
  then have "fst (renewer_main 121 demo_cert_env demo_vars demo_start) = (log_event ''renewed'' ''INFO'' None None, 0)"
    by (simp add: renewer_main_def demo_steps(1) obind_def olift_def demo_run)
  with renewal_ends [OF demo_clock, of 879 demo_vars demo_start] show ?thesis by simp
qed

end
