(* ===== verification/BrowserAuth.thy ===== *)
theory BrowserAuth
  imports IdentityStore Oidc OnboardingStore
begin

text \<open>
  \<open>mcp_gateway/browser_auth.py\<close>: the sign-in of a browser and its opaque sessions.  The login states, the
  sessions and the identities are Firestore collections; the token endpoint, the URL that Authlib builds and
  \<open>sha256\<close> are arguments.  Times are in microseconds.
\<close>

subsection \<open>Configuration\<close>

record browser_config =
  bc_issuer :: string
  bc_audience :: string
  bc_client_id :: string
  bc_client_secret :: string
  bc_redirect_uri :: string
  bc_scopes :: "string list"

text \<open>\<open>BrowserOIDCConfig.__post_init__\<close>.\<close>

definition https_url_checked :: "string \<Rightarrow> string \<Rightarrow> exn + unit" where
  "https_url_checked label url =
     rbind (urlsplit url) (\<lambda>u.
     if scheme u \<noteq> ''https'' \<or> netloc u = []
     then Inl (ValueError (''OIDC '' @ label @ '' must be an HTTPS URL'')) else Inr ())"

definition make_browser_config :: "browser_config \<Rightarrow> exn + browser_config" where
  "make_browser_config c =
     (let iss = rstrip_by (\<lambda>x. x = CHR ''/'') (bc_issuer c) @ ''/''
      in rbind (https_url_checked ''issuer'' iss) (\<lambda>_.
         rbind (https_url_checked ''redirect URI'' (bc_redirect_uri c)) (\<lambda>_.
         if bc_audience c = [] \<or> bc_client_id c = [] \<or> bc_client_secret c = []
         then Inl (ValueError ''OIDC browser client configuration is incomplete'')
         else Inr (c\<lparr>bc_issuer := iss\<rparr>))))"

definition authorization_endpoint :: "browser_config \<Rightarrow> string" where
  "authorization_endpoint c = bc_issuer c @ ''authorize''"

definition token_endpoint :: "browser_config \<Rightarrow> string" where
  "token_endpoint c = bc_issuer c @ ''oauth/token''"

subsection \<open>State\<close>

record pending_login =
  pl_code_verifier :: string
  pl_nonce :: string
  pl_binding_hash :: string
  pl_expires :: int

record browser_session =
  bs_issuer :: string
  bs_subject :: string
  bs_csrf_token :: string
  bs_expires :: int

record browser_db =
  bd_identities :: auth_db
  bd_logins :: collection
  bd_sessions :: collection
  bd_draws :: nat

type_synonym 'a browser = "(browser_db, exn, 'a) oper"

text \<open>\<open>be_fetch\<close> is \<open>fetch_token\<close> for a code and its verifier: a document, one of the errors the client
  knows (\<open>None\<close>), or another exception.\<close>

record browser_env =
  be_config :: browser_config
  be_hash :: "string \<Rightarrow> string"
  be_server_time :: int
  be_token :: "nat \<Rightarrow> string"
  be_authorize :: "string \<Rightarrow> string \<Rightarrow> string \<Rightarrow> string"
  be_fetch :: "string \<Rightarrow> string \<Rightarrow> exn + val option"
  be_decode :: "string \<Rightarrow> string \<Rightarrow> exn + dict"
  be_access_verifier :: access_verifier
  be_id_verifier :: id_verifier

definition login_state_lifetime :: int where "login_state_lifetime = 10 * 60 * 1000000"

definition web_session_lifetime :: int where "web_session_lifetime = 12 * 60 * 60 * 1000000"

text \<open>\<open>secrets.token_urlsafe\<close>.\<close>

definition fresh_token :: "browser_env \<Rightarrow> string browser" where
  "fresh_token env db = (Inr (be_token env (bd_draws db)), db\<lparr>bd_draws := bd_draws db + 1\<rparr>)"

subsection \<open>The Firestore store\<close>

definition create_login :: "browser_env \<Rightarrow> string \<Rightarrow> pending_login \<Rightarrow> unit browser" where
  "create_login env state login = transact (\<lambda>db.
     rbind (create_doc (bd_logins db) (be_hash env state)
       [(''code_verifier'', VStr (pl_code_verifier login)), (''nonce'', VStr (pl_nonce login)),
        (''browser_binding_hash'', VStr (pl_binding_hash login)), (''expires_at'', VTime (pl_expires login)),
        (''created_at'', VTime (be_server_time env))]) (\<lambda>c. Inr ((), db\<lparr>bd_logins := c\<rparr>)))"

definition invalid_login_state :: exn where
  "invalid_login_state = BrowserAuthenticationError ''Platform login state is invalid''"

definition login_of_data :: "dict \<Rightarrow> exn + pending_login" where
  "login_of_data d =
     (case (dget d ''code_verifier'', dget d ''nonce'', dget d ''browser_binding_hash'', dget d ''expires_at'') of
        (VStr v, VStr n, VStr b, VTime e) \<Rightarrow>
          Inr \<lparr>pl_code_verifier = v, pl_nonce = n, pl_binding_hash = b, pl_expires = e\<rparr>
      | _ \<Rightarrow> Inl invalid_login_state)"

definition consume_login :: "browser_env \<Rightarrow> string \<Rightarrow> int \<Rightarrow> pending_login browser" where
  "consume_login env state now = transact (\<lambda>db.
     case map_of (bd_logins db) (be_hash env state) of
       None \<Rightarrow> Inl invalid_login_state
     | Some data \<Rightarrow>
         rbind (login_of_data data) (\<lambda>login.
         if pl_expires login \<le> now then Inl (BrowserAuthenticationError ''Platform login state has expired'')
         else Inr (login, db\<lparr>bd_logins := AList.delete (be_hash env state) (bd_logins db)\<rparr>)))"

definition session_document :: "int \<Rightarrow> browser_session \<Rightarrow> dict" where
  "session_document srv s =
     [(''issuer'', VStr (bs_issuer s)), (''subject'', VStr (bs_subject s)), (''csrf_token'', VStr (bs_csrf_token s)),
      (''expires_at'', VTime (bs_expires s)), (''created_at'', VTime srv)]"

definition create_session :: "browser_env \<Rightarrow> string \<Rightarrow> browser_session \<Rightarrow> unit browser" where
  "create_session env token session = transact (\<lambda>db.
     rbind (create_doc (bd_sessions db) (be_hash env token) (session_document (be_server_time env) session))
       (\<lambda>c. Inr ((), db\<lparr>bd_sessions := c\<rparr>)))"

definition session_from_data :: "dict \<Rightarrow> exn + browser_session" where
  "session_from_data d =
     (case (dget d ''issuer'', dget d ''subject'', dget d ''csrf_token'', dget d ''expires_at'') of
        (VStr i, VStr s, VStr c, VTime e) \<Rightarrow>
          if i = [] \<or> s = [] \<or> c = [] then Inl (BrowserAuthenticationError ''Browser session is invalid'')
          else Inr \<lparr>bs_issuer = i, bs_subject = s, bs_csrf_token = c, bs_expires = e\<rparr>
      | _ \<Rightarrow> Inl (BrowserAuthenticationError ''Browser session is invalid''))"

definition delete_session :: "browser_env \<Rightarrow> string \<Rightarrow> unit browser" where
  "delete_session env token db = (Inr (), db\<lparr>bd_sessions := AList.delete (be_hash env token) (bd_sessions db)\<rparr>)"

definition get_session :: "browser_env \<Rightarrow> string \<Rightarrow> int \<Rightarrow> browser_session browser" where
  "get_session env token now db = (case map_of (bd_sessions db) (be_hash env token) of
       None \<Rightarrow> (Inl (InvalidTokenError ''Browser session is not valid''), db)
     | Some data \<Rightarrow>
         (case session_from_data data of
            Inl e \<Rightarrow> (Inl e, db)
          | Inr session \<Rightarrow>
              if bs_expires session \<le> now
              then obind (delete_session env token) (\<lambda>_. oraise (InvalidTokenError ''Browser session has expired'')) db
              else (Inr session, db)))"

subsection \<open>The service\<close>

text \<open>\<open>compare_digest\<close> takes ASCII text only.\<close>

definition require_browser_binding :: "browser_env \<Rightarrow> pending_login \<Rightarrow> string \<Rightarrow> exn + unit" where
  "require_browser_binding env login token =
     (let invalid = BrowserAuthenticationError ''Platform login browser binding is invalid''
      in if token = [] then Inl invalid
         else if \<not> list_all (\<lambda>c. of_char c < (128 :: nat)) (pl_binding_hash login @ be_hash env token) then Inl TypeError
         else if pl_binding_hash login \<noteq> be_hash env token then Inl invalid else Inr ())"

definition required_token :: "dict \<Rightarrow> string \<Rightarrow> exn + string" where
  "required_token tokens name = (case dget tokens name of
       VStr s \<Rightarrow> if s = [] then Inl (BrowserAuthenticationError ''Platform token response is incomplete'') else Inr s
     | _ \<Rightarrow> Inl (BrowserAuthenticationError ''Platform token response is incomplete''))"

definition exchange_browser_code :: "browser_env \<Rightarrow> string \<Rightarrow> string \<Rightarrow> exn + dict" where
  "exchange_browser_code env auth_code verifier =
     rbind (be_fetch env auth_code verifier) (\<lambda>answer. case answer of
         None \<Rightarrow> Inl (BrowserAuthenticationError ''Platform sign-in could not be completed'')
       | Some (VDict d) \<Rightarrow> Inr d
       | Some v \<Rightarrow> Inl (BrowserAuthenticationError ''Platform token response is invalid''))"

definition on_identities :: "(auth_db, exn, 'a) oper \<Rightarrow> 'a browser" where
  "on_identities m db = (case m (bd_identities db) of (r, ids) \<Rightarrow> (r, db\<lparr>bd_identities := ids\<rparr>))"

definition resolve_identity :: "browser_env \<Rightarrow> verified_identity \<Rightarrow> user_context browser" where
  "resolve_identity env i = on_identities (fs_resolve_or_bind (be_hash env) (be_server_time env) i)"

text \<open>The authorization URL and the token that binds the browser.\<close>

definition browser_start :: "browser_env \<Rightarrow> int \<Rightarrow> (string \<times> string) browser" where
  "browser_start env now =
     obind (fresh_token env) (\<lambda>state.
     obind (fresh_token env) (\<lambda>nonce.
     obind (fresh_token env) (\<lambda>verifier.
     obind (fresh_token env) (\<lambda>binding.
     obind (create_login env state \<lparr>pl_code_verifier = verifier, pl_nonce = nonce, pl_binding_hash = be_hash env binding,
       pl_expires = now + login_state_lifetime\<rparr>) (\<lambda>_.
     oret (be_authorize env state nonce verifier, binding))))))"

record login_result =
  lr_session_token :: string
  lr_csrf_token :: string
  lr_context :: user_context

definition browser_complete :: "browser_env \<Rightarrow> int \<Rightarrow> string \<Rightarrow> string \<Rightarrow> string \<Rightarrow> login_result browser" where
  "browser_complete env now state auth_code binding =
     obind (consume_login env state now) (\<lambda>pending.
     obind (olift (require_browser_binding env pending binding)) (\<lambda>_.
     obind (olift (exchange_browser_code env auth_code (pl_code_verifier pending))) (\<lambda>tokens.
     obind (olift (required_token tokens ''access_token'')) (\<lambda>access_token.
     obind (olift (required_token tokens ''id_token'')) (\<lambda>id_token.
     obind (olift (verify_access_token (be_decode env) (be_access_verifier env) access_token)) (\<lambda>access_identity.
     obind (olift (verify_id_token (be_decode env) (be_id_verifier env) id_token (pl_nonce pending))) (\<lambda>i.
     if identity_key access_identity \<noteq> identity_key i
     then oraise (BrowserAuthenticationError ''Platform token identities do not match'')
     else obind (resolve_identity env i) (\<lambda>context.
          obind (fresh_token env) (\<lambda>session_token.
          obind (fresh_token env) (\<lambda>csrf_token.
          obind (create_session env session_token \<lparr>bs_issuer = issuer i, bs_subject = subject i, bs_csrf_token = csrf_token,
            bs_expires = now + web_session_lifetime\<rparr>) (\<lambda>_.
          oret \<lparr>lr_session_token = session_token, lr_csrf_token = csrf_token, lr_context = context\<rparr>)))))))))))"

definition browser_cancel :: "browser_env \<Rightarrow> int \<Rightarrow> string \<Rightarrow> string \<Rightarrow> unit browser" where
  "browser_cancel env now state binding =
     obind (consume_login env state now) (\<lambda>pending. olift (require_browser_binding env pending binding))"

definition authenticate_session :: "browser_env \<Rightarrow> int \<Rightarrow> string \<Rightarrow> (user_context \<times> browser_session) browser" where
  "authenticate_session env now token =
     obind (get_session env token now) (\<lambda>session.
     obind (olift (make_identity (bs_issuer session) (bs_subject session) None False)) (\<lambda>i.
     obind (resolve_identity env i) (\<lambda>context. oret (context, session))))"

definition browser_logout :: "browser_env \<Rightarrow> string \<Rightarrow> unit browser" where
  "browser_logout env token = delete_session env token"

definition session_binding :: "browser_env \<Rightarrow> string \<Rightarrow> string" where
  "session_binding env token = be_hash env token"

end
