(* ===== verification/HttpBoundary.thy ===== *)
theory HttpBoundary
  imports Errors Url
begin

text \<open>
  \<open>mcp_gateway/http_boundary.py\<close>, \<open>mcp_auth.py\<close> and \<open>onboarding_web.py\<close>: the bound on request bodies, the
  access log, the answers and their headers, the metadata of the protected resource, and what the page
  templates are given.  A byte is a character of code below 256.
\<close>

subsection \<open>Answers\<close>

text \<open>A page is a template with what it is rendered from.\<close>

datatype page =
    OnboardingPage "dict list" "string option" "string option"
      \<comment> \<open>vehicles, form token, message\<close>
  | ErrorPage string string string
      \<comment> \<open>title, message, where to go on\<close>
  | TelemetryPage dict "string option"
      \<comment> \<open>the plan and its form, message\<close>

datatype web_body = JsonBody val | PageBody page | TextBody string | NoBody

record web_response =
  rs_status :: int
  rs_headers :: "(string \<times> string) list"
  rs_body :: web_body

definition html_security_headers :: "(string \<times> string) list" where
  "html_security_headers =
     [(''Cache-Control'', ''no-store''), (''Referrer-Policy'', ''no-referrer''), (''X-Content-Type-Options'', ''nosniff''),
      (''X-Frame-Options'', ''DENY''),
      (''Content-Security-Policy'', ''default-src 'none'; style-src 'unsafe-inline'; form-action 'self'; base-uri 'none'; frame-ancestors 'none'' @ [CHR 0x27])]"

definition no_store_headers :: "(string \<times> string) list" where
  "no_store_headers =
     [(''Cache-Control'', ''no-store''), (''Referrer-Policy'', ''no-referrer''), (''X-Content-Type-Options'', ''nosniff'')]"

definition json_response :: "int \<Rightarrow> val \<Rightarrow> (string \<times> string) list \<Rightarrow> web_response" where
  "json_response status document headers =
     \<lparr>rs_status = status, rs_headers = dict_merge no_store_headers headers, rs_body = JsonBody document\<rparr>"

definition set_cookies :: "string list \<Rightarrow> (string \<times> string) list" where
  "set_cookies cookies = map (Pair ''Set-Cookie'') cookies"

definition html_response :: "int \<Rightarrow> page \<Rightarrow> string list \<Rightarrow> web_response" where
  "html_response status body cookies =
     \<lparr>rs_status = status, rs_headers = html_security_headers @ set_cookies cookies, rs_body = PageBody body\<rparr>"

definition redirect_response :: "string \<Rightarrow> int \<Rightarrow> string list \<Rightarrow> web_response" where
  "redirect_response location status cookies =
     \<lparr>rs_status = status, rs_headers = [(''Cache-Control'', ''no-store''), (''Referrer-Policy'', ''no-referrer''),
        (''location'', location)] @ set_cookies cookies, rs_body = NoBody\<rparr>"

text \<open>\<open>parse\<close> is \<open>SimpleCookie.load\<close>: the morsels, or nothing where it raises.\<close>

definition cookie_token :: "(string \<Rightarrow> (string \<times> string) list option) \<Rightarrow> string option \<Rightarrow> string \<Rightarrow> string option" where
  "cookie_token parse header name = (case header of
       None \<Rightarrow> None
     | Some text \<Rightarrow> if text = [] then None
         else (case parse text of
             None \<Rightarrow> None
           | Some morsels \<Rightarrow> (case map_of morsels name of
               None \<Rightarrow> None | Some token \<Rightarrow> if token = [] then None else Some token)))"

subsection \<open>The bound on request bodies\<close>

datatype asgi_message =
    HttpDisconnect
  | HttpRequest string bool
      \<comment> \<open>body, whether more follows\<close>
  | OtherMessage

definition max_request_bytes :: nat where "max_request_bytes = 1048576"

definition max_form_bytes :: int where "max_form_bytes = 16384"

definition request_body_timeout_seconds :: rat where "request_body_timeout_seconds = 15"

text \<open>\<open>int\<close> of bytes: ASCII white space only around the digits.\<close>

definition int_of_bytes :: "string \<Rightarrow> int option" where
  "int_of_bytes s = (if list_ex (\<lambda>c. (128 :: nat) \<le> of_char c \<or> ((28 :: nat) \<le> of_char c \<and> of_char c \<le> (31 :: nat))) s then None else int_of_str s)"

definition request_content_length :: "(string \<times> string) list \<Rightarrow> int option" where
  "request_content_length headers =
     (case map snd (filter (\<lambda>(name, v). lower name = ''content-length'') headers) of
        [] \<Rightarrow> Some 0
      | [v] \<Rightarrow> (case int_of_bytes v of None \<Rightarrow> None | Some n \<Rightarrow> if 0 \<le> n then Some n else None)
      | _ \<Rightarrow> None)"

text \<open>The messages that arrive before the deadline, with the time of their arrival, are read in turn; what is
  left over is still to be received.\<close>

type_synonym inbox = "(rat \<times> asgi_message) list"

datatype body_read = BodyComplete string | BodyDisconnected | BodyTooLarge | BodyTimeout

fun read_body :: "nat \<Rightarrow> rat \<Rightarrow> string \<Rightarrow> inbox \<Rightarrow> body_read \<times> inbox" where
  "read_body limit deadline body [] = (BodyTimeout, [])"
| "read_body limit deadline body ((t, m) # later) =
     (if deadline \<le> t then (BodyTimeout, (t, m) # later)
      else (case m of
          HttpDisconnect \<Rightarrow> (BodyDisconnected, later)
        | HttpRequest chunk continues \<Rightarrow>
            if limit < length (body @ chunk) then (BodyTooLarge, later)
            else if \<not> continues then (BodyComplete (body @ chunk), later)
            else read_body limit deadline (body @ chunk) later
        | OtherMessage \<Rightarrow> read_body limit deadline body later))"

text \<open>What the application sees: one replayed message, then whatever else arrives.\<close>

definition refuse :: "int \<Rightarrow> string \<Rightarrow> web_response" where
  "refuse status error = json_response status (VDict [(''error'', VStr error)]) []"

definition request_body_boundary ::
  "(asgi_message list \<Rightarrow> 'w \<Rightarrow> (exn + web_response) \<times> 'w) \<Rightarrow> nat \<Rightarrow> rat \<Rightarrow> (string \<times> string) list \<Rightarrow> inbox \<Rightarrow>
   'w \<Rightarrow> (exn + web_response) \<times> 'w" where
  "request_body_boundary app limit timeout headers arriving w = (case request_content_length headers of
       None \<Rightarrow> (Inr (refuse 400 ''invalid_content_length''), w)
     | Some n \<Rightarrow>
         if int limit < n then (Inr (refuse 413 ''body_too_large''), w)
         else (case read_body limit timeout [] arriving of
             (BodyTimeout, later) \<Rightarrow> (Inr (refuse 408 ''request_timeout''), w)
           | (BodyTooLarge, later) \<Rightarrow> (Inr (refuse 413 ''body_too_large''), w)
           | (BodyDisconnected, later) \<Rightarrow> app (HttpDisconnect # map snd later) w
           | (BodyComplete body, later) \<Rightarrow> app (HttpRequest body False # map snd later) w))"

text \<open>The access log: the path without its query, and the status of the answer or 500.\<close>

definition access_log_entry :: "string \<Rightarrow> string \<Rightarrow> rat \<Rightarrow> int list \<Rightarrow> dict" where
  "access_log_entry verb path duration_ms started =
     [(''duration_ms'', VFloat duration_ms), (''event'', VStr ''gateway_http_request''), (''method'', VStr verb),
      (''path'', VStr path), (''status'', VInt (if started = [] then 500 else last started))]"

subsection \<open>The protected resource\<close>

record mcp_authorization =
  ma_resource_url :: string
  ma_authorization_server :: string
  ma_scopes :: "string list"

definition mcp_access_scope :: string where "mcp_access_scope = ''mcp:access''"

definition safe_https_url :: "string \<Rightarrow> string \<Rightarrow> exn + unit" where
  "safe_https_url label url = rbind (urlsplit url) (\<lambda>u.
     if scheme u \<noteq> ''https'' \<or> netloc u = [] \<or> str_given (url_username u) \<or> str_given (url_password u)
       \<or> CHR 0x0D \<in> set url \<or> CHR 0x0A \<in> set url
     then Inl (ValueError (label @ '' must be a safe HTTPS URL'')) else Inr ())"

definition make_mcp_authorization :: "mcp_authorization \<Rightarrow> exn + mcp_authorization" where
  "make_mcp_authorization a =
     rbind (safe_https_url ''MCP resource URL'' (ma_resource_url a)) (\<lambda>_.
     rbind (safe_https_url ''OAuth authorization server'' (ma_authorization_server a)) (\<lambda>_.
     if ma_scopes a = [] \<or> list_ex (\<lambda>s. s = [] \<or> list_ex is_space s) (ma_scopes a)
     then Inl (ValueError ''OAuth scopes must be non-empty tokens'') else Inr a))"

text \<open>The properties parse the URL again; it parsed when the settings were made.\<close>

definition public_authority :: "mcp_authorization \<Rightarrow> exn + string" where
  "public_authority a = rbind (urlsplit (ma_resource_url a)) (\<lambda>u. Inr (netloc u))"

definition public_origin :: "mcp_authorization \<Rightarrow> exn + string" where
  "public_origin a = rbind (urlsplit (ma_resource_url a)) (\<lambda>u. Inr (scheme u @ ''://'' @ netloc u))"

definition metadata_url :: "mcp_authorization \<Rightarrow> exn + string" where
  "metadata_url a = rbind (urlsplit (ma_resource_url a)) (\<lambda>u.
     Inr (scheme u @ ''://'' @ netloc u @ ''/.well-known/oauth-protected-resource''))"

definition remove_suffix :: "string \<Rightarrow> string \<Rightarrow> string" where
  "remove_suffix p s = (if ends_with p s then take (length s - length p) s else s)"

definition metadata_document :: "mcp_authorization \<Rightarrow> dict" where
  "metadata_document a =
     [(''resource'', VStr (ma_resource_url a)),
      (''authorization_servers'', VList [VStr (rstrip_by (\<lambda>c. c = CHR ''/'') (ma_authorization_server a) @ ''/'')]),
      (''scopes_supported'', VList (map VStr (ma_scopes a))),
      (''resource_documentation'', VStr (remove_suffix ''/mcp'' (ma_resource_url a) @ ''/onboarding''))]"

definition quoted_char :: "char \<Rightarrow> string" where
  "quoted_char c = (if c = CHR 0x5C then [CHR 0x5C, CHR 0x5C] else if c = CHR 0x22 then [CHR 0x5C, CHR 0x22]
     else if c = CHR 0x0D \<or> c = CHR 0x0A then '' '' else [c])"

definition quoted_text :: "string \<Rightarrow> string" where
  "quoted_text s = concat (map quoted_char s)"

definition quotation :: "string \<Rightarrow> string \<Rightarrow> string" where
  "quotation name v = name @ ''='' @ [CHR 0x22] @ v @ [CHR 0x22]"

definition challenge :: "mcp_authorization \<Rightarrow> string option \<Rightarrow> string option \<Rightarrow> exn + string" where
  "challenge a error description = rbind (metadata_url a) (\<lambda>url.
     Inr (''Bearer '' @ join '', '' (
       [quotation ''resource_metadata'' url, quotation ''scope'' (join '' '' (ma_scopes a))]
       @ (case error of None \<Rightarrow> [] | Some e \<Rightarrow> [quotation ''error'' (quoted_text e)])
       @ (case description of None \<Rightarrow> [] | Some d \<Rightarrow> [quotation ''error_description'' (quoted_text d)]))))"

subsection \<open>What the templates are given\<close>

definition pairing_prefix :: string where "pairing_prefix = ''https://www.tesla.com/_ak/''"

definition presented_vehicle :: "dict \<Rightarrow> dict" where
  "presented_vehicle v =
     (let shown = (if truthy (dget v ''virtual_key_pairing_url'') then py_str (dget v ''virtual_key_pairing_url'') else [])
      in dict_merge v
           [(''encoded_id'', VStr (url_quote (py_str (dget_default v ''vehicle_id'' (VStr []))))),
            (''safe_pairing_url'', if starts_with pairing_prefix shown then VStr shown else VNone)])"

definition onboarding_page :: "dict list \<Rightarrow> string option \<Rightarrow> string option \<Rightarrow> page" where
  "onboarding_page vehicle_documents csrf_token message =
     OnboardingPage (map presented_vehicle vehicle_documents) csrf_token message"

text \<open>The JSON texts that the template shows are given by their documents.\<close>

definition telemetry_page :: "dict \<Rightarrow> string \<Rightarrow> string option \<Rightarrow> page" where
  "telemetry_page document csrf_token message =
     (let persisted = dget_default document ''persisted'' (VDict []); diff = dget_default document ''diff'' (VDict [])
      in TelemetryPage
          [(''document_json'', VDict document), (''persisted_json'', persisted),
           (''vehicle_id'', VStr (py_str (dget_default document ''vehicle_id'' (VStr [])))),
           (''encoded_id'', VStr (url_quote (py_str (dget_default document ''vehicle_id'' (VStr []))))),
           (''display_name'', VStr (if truthy (dget document ''display_name'') then py_str (dget document ''display_name'') else ''Tesla vehicle'')),
           (''desired_hash'', VStr (py_str (dget_default document ''desired_config_hash'' (VStr [])))),
           (''status'', case diff of VDict d \<Rightarrow> dget d ''status'' | _ \<Rightarrow> VStr ''unknown''),
           (''transport_opt_in'', VBool (case persisted of
              VDict d \<Rightarrow> truthy (dget_default d ''transport_maintenance_opt_in'' (VBool False)) | _ \<Rightarrow> False)),
           (''csrf_token'', VStr csrf_token)] message)"

subsection \<open>What passes the boundary\<close>

text \<open>The body that a sequence of messages carries.\<close>

fun carried :: "asgi_message list \<Rightarrow> string" where
  "carried [] = []"
| "carried (HttpRequest chunk continues # ms) = chunk @ carried ms"
| "carried (m # ms) = carried ms"

abbreviation before_the_end :: "rat \<Rightarrow> rat \<times> asgi_message \<Rightarrow> bool" where
  "before_the_end deadline \<equiv> (\<lambda>(t, m). t < deadline \<and> (case m of
     HttpRequest chunk continues \<Rightarrow> continues | HttpDisconnect \<Rightarrow> False | OtherMessage \<Rightarrow> True))"

text \<open>A body is complete exactly when its last chunk arrived in time and the whole keeps within the limit.\<close>

lemma read_body_complete:
  "read_body limit deadline body arriving = (BodyComplete whole, later) \<longleftrightarrow>
     (\<exists>ms t chunk. arriving = ms @ (t, HttpRequest chunk False) # later \<and> t < deadline \<and>
        list_all (before_the_end deadline) ms \<and> whole = body @ carried (map snd ms) @ chunk \<and> length whole \<le> limit)"
    (is "?read \<longleftrightarrow> (\<exists>ms t chunk. ?complete body arriving ms t chunk)")
proof
  show "?read \<Longrightarrow> \<exists>ms t chunk. ?complete body arriving ms t chunk"
  proof (induction arriving arbitrary: body)
    case (Cons p rest)
    obtain t m where p: "p = (t, m)" by (cases p)
    from Cons.prems p have t: "t < deadline" by (auto split: if_splits)
    have step: "\<exists>ms u c. ?complete body (p # rest) ms u c"
      if "before_the_end deadline (t, m)" "read_body limit deadline (body @ carried [m]) rest = (BodyComplete whole, later)"
    proof -
      from Cons.IH [OF that(2)] obtain ms u c where "?complete (body @ carried [m]) rest ms u c" by blast
      with that(1) p show ?thesis
        by (intro exI [of _ "(t, m) # ms"] exI [of _ u] exI [of _ c]) (simp split: asgi_message.splits)
    qed
    show ?case
    proof (cases m)
      case HttpDisconnect
      with Cons.prems p t show ?thesis by simp
    next
      case OtherMessage
      with Cons.prems p t show ?thesis by (intro step) simp_all
    next
      case (HttpRequest chunk continues)
      show ?thesis
      proof (cases continues)
        case True
        with Cons.prems p t HttpRequest show ?thesis by (intro step) (simp_all split: if_splits)
      next
        case False
        with Cons.prems p t HttpRequest show ?thesis
          by (intro exI [of _ "[]"] exI [of _ t] exI [of _ chunk]) (auto split: if_splits)
      qed
    qed
  qed simp
next
  assume "\<exists>ms t chunk. ?complete body arriving ms t chunk"
  then obtain ms t chunk where "?complete body arriving ms t chunk" by blast
  then show ?read
  proof (induction ms arbitrary: body arriving)
    case (Cons p ms)
    then show ?case by (cases p) (auto split: asgi_message.splits)
  qed auto
qed

text \<open>The application behind the boundary is called exactly for requests whose announced length is at most the
  limit and whose body arrived before the deadline within the limit: it then sees the whole body in one
  message, however it was cut into chunks, followed by the messages still to come.\<close>
theorem boundary_passes_whole_bodies:
  "request_body_boundary (\<lambda>ms seen. (Inr answer, seen @ [ms])) limit timeout headers arriving []
      = (Inr answer, [HttpRequest body False # pending]) \<longleftrightarrow>
     (\<exists>n. request_content_length headers = Some n \<and> n \<le> int limit) \<and> length body \<le> limit \<and>
     (\<exists>ms t chunk later. arriving = ms @ (t, HttpRequest chunk False) # later \<and> t < timeout \<and>
        list_all (\<lambda>(u, m). u < timeout \<and> (case m of
          HttpRequest c continues \<Rightarrow> continues | HttpDisconnect \<Rightarrow> False | OtherMessage \<Rightarrow> True)) ms \<and>
        body = carried (map snd ms) @ chunk \<and> pending = map snd later)"
proof -
  have "request_body_boundary (\<lambda>ms seen. (Inr answer, seen @ [ms])) limit timeout headers arriving []
      = (Inr answer, [HttpRequest body False # pending]) \<longleftrightarrow>
    (\<exists>n. request_content_length headers = Some n \<and> n \<le> int limit) \<and>
    (\<exists>later. read_body limit timeout [] arriving = (BodyComplete body, later) \<and> pending = map snd later)"
    by (auto simp: request_body_boundary_def split: option.splits prod.splits body_read.splits)
  then show ?thesis by (auto simp: read_body_complete)
qed

end
