(* ===== verification/GatewayApp.thy ===== *)
theory GatewayApp
  imports BrowserAuth HttpBoundary TelemetryControl
begin

text \<open>
  \<open>mcp_gateway/app.py\<close>: the handlers of the gateway's HTTP routes over the services they call.  The world is
  that of the Tesla services together with the browser sign-in and its identities.
\<close>

subsection \<open>The world, the runtime and the request\<close>

record app_world =
  aw_gateway :: gateway_world
  aw_browser :: browser_db

type_synonym 'a app = "(app_world, exn, 'a) oper"

definition on_gateway :: "'a gateway \<Rightarrow> 'a app" where
  "on_gateway m w = (case m (aw_gateway w) of (r, g) \<Rightarrow> (r, w\<lparr>aw_gateway := g\<rparr>))"

definition on_browser :: "'a browser \<Rightarrow> 'a app" where
  "on_browser m w = (case m (aw_browser w) of (r, b) \<Rightarrow> (r, w\<lparr>aw_browser := b\<rparr>))"

record web_request =
  rq_method :: string
  rq_path :: string
  rq_headers :: "(string \<times> string) list"
  rq_query :: "(string \<times> string) list"
  rq_messages :: "asgi_message list"

record tesla_runtime =
  tr_env :: mcp_env
  tr_app_domain :: string
  tr_public_key_pem :: string
  tr_telemetry :: "telemetry_control option"

text \<open>\<open>gr_verify\<close> is the verifier of bearer tokens, \<open>gr_cookies\<close> the standard library's cookie parser, \<open>gr_json\<close>
  \<open>json.loads\<close> of UTF-8 bytes (nothing where either raises), \<open>gr_now\<close> the clock and \<open>gr_mcp\<close> the mounted
  application of the MCP library.\<close>

record gateway_runtime =
  gr_verify :: "string \<Rightarrow> exn + verified_identity"
  gr_hash :: "string \<Rightarrow> string"
  gr_server_time :: int
  gr_tesla :: "tesla_runtime option"
  gr_authorization :: "mcp_authorization option"
  gr_browser :: "browser_env option"
  gr_cookies :: "string \<Rightarrow> (string \<times> string) list option"
  gr_json :: "string \<Rightarrow> val option"
  gr_now :: "app_world \<Rightarrow> int"
  gr_mcp :: "(web_request \<Rightarrow> web_response app) option"

definition clock :: "gateway_runtime \<Rightarrow> int app" where
  "clock rt w = (Inr (gr_now rt w), w)"

definition header_value :: "web_request \<Rightarrow> string \<Rightarrow> string option" where
  "header_value q name = map_of (map (\<lambda>(k, v). (lower k, v)) (rq_headers q)) name"

text \<open>\<open>Request.body\<close>: the chunks up to the last one; a disconnect raises.\<close>

fun message_body :: "string \<Rightarrow> asgi_message list \<Rightarrow> exn + string" where
  "message_body body [] = Inl NoReturn"
| "message_body body (HttpDisconnect # ms) = Inl (LibraryError ''ClientDisconnect'')"
| "message_body body (HttpRequest chunk continues # ms) =
     (if continues then message_body (body @ chunk) ms else Inr (body @ chunk))"
| "message_body body (OtherMessage # ms) = message_body body ms"

definition request_body :: "web_request \<Rightarrow> exn + string" where
  "request_body q = message_body [] (rq_messages q)"

subsection \<open>Query and form parameters\<close>

definition required_query_value :: "web_request \<Rightarrow> string \<Rightarrow> exn + string" where
  "required_query_value q name = (case map snd (filter (\<lambda>(k, v). k = name) (rq_query q)) of
       [v] \<Rightarrow> if v = [] then Inl (InvalidOAuthStateError ''OAuth callback parameter is invalid'') else Inr v
     | _ \<Rightarrow> Inl (InvalidOAuthStateError ''OAuth callback parameter is invalid''))"

definition optional_query_value :: "web_request \<Rightarrow> string \<Rightarrow> string option" where
  "optional_query_value q name = (case required_query_value q name of Inl e \<Rightarrow> None | Inr v \<Rightarrow> Some v)"

text \<open>What \<open>bytes.decode("utf-8")\<close> accepts.\<close>

definition continuation :: "nat \<Rightarrow> bool" where "continuation b \<longleftrightarrow> 128 \<le> b \<and> b < 192"

fun utf8_valid :: "nat list \<Rightarrow> bool" where
  "utf8_valid [] = True"
| "utf8_valid (a # bs) =
     (if a < 128 then utf8_valid bs
      else if 194 \<le> a \<and> a < 224 then (case bs of b # cs \<Rightarrow> continuation b \<and> utf8_valid cs | _ \<Rightarrow> False)
      else if 224 \<le> a \<and> a < 240 then (case bs of
          b # c # ds \<Rightarrow> continuation b \<and> (a = 224 \<longrightarrow> 160 \<le> b) \<and> (a = 237 \<longrightarrow> b < 160) \<and> continuation c \<and> utf8_valid ds
        | _ \<Rightarrow> False)
      else if 240 \<le> a \<and> a < 245 then (case bs of
          b # c # d # es \<Rightarrow> continuation b \<and> (a = 240 \<longrightarrow> 144 \<le> b) \<and> (a = 244 \<longrightarrow> b < 144) \<and> continuation c \<and>
            continuation d \<and> utf8_valid es
        | _ \<Rightarrow> False)
      else False)"

definition decode_text :: "string \<Rightarrow> string option" where
  "decode_text s = (let bytes = map of_char s in if utf8_valid bytes then Some (utf8_decode bytes) else None)"

text \<open>\<open>parse_qs(text, strict_parsing=True, max_num_fields=8)\<close>, \<open>None\<close> where it raises a \<open>ValueError\<close>.\<close>

definition plus_decoded :: "string \<Rightarrow> string" where
  "plus_decoded s = unquote (map (\<lambda>c. if c = CHR ''+'' then CHR '' '' else c) s)"

definition parse_strict :: "string \<Rightarrow> (string \<times> string) list option" where
  "parse_strict text =
     (let parts = (if text = [] then [] else split_at (CHR ''&'') text)
      in if 8 < length parts \<or> list_ex (\<lambda>p. CHR ''='' \<notin> set p) parts then None
         else Some (concat (map (\<lambda>p. case partition_at (CHR ''='') p of (k, eq, v) \<Rightarrow>
           if v = [] then [] else [(plus_decoded k, plus_decoded v)]) parts)))"

text \<open>The fields that occur once.\<close>

definition single_fields :: "(string \<times> string) list \<Rightarrow> (string \<times> string) list" where
  "single_fields fs = filter (\<lambda>(k, v). length (filter (\<lambda>(j, u). j = k) fs) = 1) fs"

definition form_field :: "(string \<times> string) list \<Rightarrow> string \<Rightarrow> string" where
  "form_field form name = (case map_of form name of None \<Rightarrow> [] | Some v \<Rightarrow> v)"

subsection \<open>Cookies\<close>

definition session_cookie_name :: string where "session_cookie_name = ''__Host-tpp_session''"

definition login_cookie_name :: string where "login_cookie_name = ''__Host-tpp_login''"

definition cookie_text :: "string \<Rightarrow> string \<Rightarrow> int \<Rightarrow> string" where
  "cookie_text name token max_age =
     name @ ''='' @ token @ ''; Path=/; Max-Age='' @ str_of_int max_age @ ''; Secure; HttpOnly; SameSite=Lax''"

definition session_cookie :: "string \<Rightarrow> string" where
  "session_cookie token = cookie_text session_cookie_name token (web_session_lifetime div 1000000)"

definition login_cookie :: "string \<Rightarrow> string" where
  "login_cookie token = cookie_text login_cookie_name token 600"

definition expired_session_cookie :: string where "expired_session_cookie = cookie_text session_cookie_name [] 0"

definition expired_login_cookie :: string where "expired_login_cookie = cookie_text login_cookie_name [] 0"

subsection \<open>Common answers\<close>

definition error_page :: "string \<Rightarrow> string \<Rightarrow> page" where
  "error_page title message = ErrorPage title message ''/''"

definition json_error :: "int \<Rightarrow> string \<Rightarrow> web_response" where
  "json_error st error = json_response st (VDict [(''error'', VStr error)]) []"

definition sign_in_unconfigured :: web_response where
  "sign_in_unconfigured = html_response 503 (error_page ''Sign-in is not configured''
     ''The operator has not enabled browser onboarding.'') []"

definition tesla_unavailable :: web_response where
  "tesla_unavailable = html_response 503 (error_page ''Tesla setup is unavailable''
     ''The Tesla integration is not configured.'') []"

definition tesla_not_configured :: web_response where
  "tesla_not_configured = json_error 503 ''tesla_not_configured''"

definition invalid_request :: web_response where
  "invalid_request = html_response 400 (error_page ''Invalid request'' ''Return to onboarding and try again.'') []"

subsection \<open>Sessions, forms and bearer tokens\<close>

definition optional_browser_session ::
  "gateway_runtime \<Rightarrow> web_request \<Rightarrow> (user_context \<times> browser_session \<times> string) option app" where
  "optional_browser_session rt q = (case gr_browser rt of
       None \<Rightarrow> oret None
     | Some be \<Rightarrow> (case cookie_token (gr_cookies rt) (header_value q ''cookie'') session_cookie_name of
           None \<Rightarrow> oret None
         | Some token \<Rightarrow>
             obind (clock rt) (\<lambda>now.
             ocatch (obind (on_browser (authenticate_session be now token)) (\<lambda>(ctx, session). oret (Some (ctx, session, token))))
               (\<lambda>e. if is_authentication_error e \<or> (case e of BrowserAuthenticationError m \<Rightarrow> True | _ \<Rightarrow> False)
                    then oret None else oraise e))))"

text \<open>The fields of a form, or nothing where the reader answers 400.\<close>

definition read_form :: "web_request \<Rightarrow> exn + (string \<times> string) list option" where
  "read_form q =
     (let content_type = casefold (strip (fst (partition_at (CHR '';'')
            (case header_value q ''content-type'' of None \<Rightarrow> [] | Some t \<Rightarrow> t))))
      in case header_value q ''content-length'' of
           None \<Rightarrow> Inr None
         | Some announced \<Rightarrow>
             if content_type \<noteq> ''application/x-www-form-urlencoded'' then Inr None
             else (case int_of_str announced of
                 None \<Rightarrow> Inr None
               | Some n \<Rightarrow>
                   if n < 0 \<or> max_form_bytes < n then Inr None
                   else rbind (request_body q) (\<lambda>body.
                     if int (length body) \<noteq> n then Inr None
                     else Inr (map_option single_fields (Option.bind (decode_text body) parse_strict)))))"

definition require_form_session ::
  "gateway_runtime \<Rightarrow> web_request \<Rightarrow> (web_response + user_context \<times> browser_session \<times> string \<times> (string \<times> string) list) app" where
  "require_form_session rt q =
     obind (optional_browser_session rt q) (\<lambda>s. case s of
       None \<Rightarrow> oret (Inl (html_response 401 (error_page ''Sign-in required'' ''Sign in before continuing.'') [expired_session_cookie]))
     | Some (ctx, session, token) \<Rightarrow>
         obind (olift (read_form q)) (\<lambda>form. case form of
           None \<Rightarrow> oret (Inl invalid_request)
         | Some fs \<Rightarrow>
             if map_of fs ''csrf_token'' \<noteq> Some (bs_csrf_token session)
             then oret (Inl (html_response 403 (error_page ''Request expired'' ''Return to onboarding and try again.'') []))
             else oret (Inr (ctx, session, token, fs))))"

definition authorize_api :: "gateway_runtime \<Rightarrow> web_request \<Rightarrow> val \<Rightarrow> (web_response + user_context) app" where
  "authorize_api rt q payload =
     ocatch (obind (olift (assert_no_caller_identity_claims payload)) (\<lambda>_.
         obind (on_browser (on_identities (gateway_authorize (gr_verify rt) (fs_resolve_or_bind (gr_hash rt) (gr_server_time rt))
           (header_value q ''authorization'') payload))) (\<lambda>ctx. oret (Inr ctx))))
       (\<lambda>e. case e of
          CallerIdentityClaimError m \<Rightarrow> oret (Inl (json_error 400 ''caller_identity_fields_forbidden''))
        | _ \<Rightarrow> if is_authentication_error e
               then oret (Inl (json_response 401 (VDict [(''error'', VStr ''unauthorized'')])
                 [(''WWW-Authenticate'', quotation ''Bearer realm'' ''mcp-gateway'')]))
               else oraise e)"

definition json_body :: "gateway_runtime \<Rightarrow> web_request \<Rightarrow> exn + (web_response + val)" where
  "json_body rt q =
     (let refused = Inr (Inl (json_error 400 ''invalid_json_request''))
      in case header_value q ''content-length'' of
           None \<Rightarrow> refused
         | Some announced \<Rightarrow> (case int_of_str announced of
               None \<Rightarrow> refused
             | Some n \<Rightarrow>
                 if n < 0 \<or> int max_request_bytes < n then refused
                 else rbind (request_body q) (\<lambda>body.
                   if int (length body) \<noteq> n then refused
                   else (case gr_json rt body of None \<Rightarrow> refused | Some v \<Rightarrow> Inr (Inr v)))))"

text \<open>\<open>if isinstance(x, Response): return x\<close>.\<close>

definition or_answer :: "(web_response + 'a) app \<Rightarrow> ('a \<Rightarrow> web_response app) \<Rightarrow> web_response app" where
  "or_answer m f = obind m (\<lambda>x. case x of Inl response \<Rightarrow> oret response | Inr y \<Rightarrow> f y)"

subsection \<open>Handlers that need no sign-in\<close>

type_synonym handler = "gateway_runtime \<Rightarrow> web_request \<Rightarrow> string list \<Rightarrow> web_response app"

definition health_document :: dict where
  "health_document = [(''phase'', VStr ''official-mcp-asgi''), (''service'', VStr ''mcp-gateway''), (''status'', VStr ''ok'')]"

definition health :: handler where
  "health rt q ps = oret (json_response 200 (VDict health_document) [])"

definition oauth_resource_metadata :: handler where
  "oauth_resource_metadata rt q ps = (case gr_authorization rt of
       None \<Rightarrow> oret (json_error 404 ''oauth_not_configured'')
     | Some a \<Rightarrow> oret (json_response 200 (VDict (metadata_document a)) []))"

definition tesla_public_key :: handler where
  "tesla_public_key rt q ps = (case gr_tesla rt of
       None \<Rightarrow> oret tesla_not_configured
     | Some t \<Rightarrow> oret \<lparr>rs_status = 200, rs_headers = [(''Cache-Control'', ''public, max-age=300'')],
         rs_body = TextBody (tr_public_key_pem t)\<rparr>)"

subsection \<open>The onboarding page and the platform sign-in\<close>

definition onboarding_message :: "web_request \<Rightarrow> string option" where
  "onboarding_message q =
     (if optional_query_value q ''connected'' = Some ''1''
      then Some ''Tesla authorization succeeded. Pair and verify each vehicle below.''
      else if optional_query_value q ''refreshed'' = Some ''1''
      then Some ''The selected vehicle's Virtual Key status was refreshed.''
      else if optional_query_value q ''tesla'' = Some ''denied''
      then Some ''Tesla authorization was cancelled; no connection changes were made.''
      else None)"

definition onboarding :: handler where
  "onboarding rt q ps = (case gr_browser rt of
       None \<Rightarrow> oret sign_in_unconfigured
     | Some be \<Rightarrow>
         obind (optional_browser_session rt q) (\<lambda>s. case s of
           None \<Rightarrow> oret (html_response 200 (onboarding_page [] None None) [])
         | Some (ctx, session, token) \<Rightarrow> (case gr_tesla rt of
               None \<Rightarrow> oret tesla_unavailable
             | Some t \<Rightarrow>
                 obind (on_gateway (on_db (list_vehicle_documents (tr_app_domain t) (ctx_user_id ctx)))) (\<lambda>documents.
                 oret (html_response 200 (onboarding_page documents (Some (bs_csrf_token session)) (onboarding_message q)) [])))))"

definition start_platform_login :: handler where
  "start_platform_login rt q ps = (case gr_browser rt of
       None \<Rightarrow> oret sign_in_unconfigured
     | Some be \<Rightarrow>
         obind (clock rt) (\<lambda>now.
         obind (on_browser (browser_start be now)) (\<lambda>(url, binding).
         oret (redirect_response url 302 [login_cookie binding]))))"

text \<open>The body of the \<open>try\<close>: an error from the identity provider cancels the login.\<close>

definition finish_platform_login :: "gateway_runtime \<Rightarrow> browser_env \<Rightarrow> web_request \<Rightarrow> login_result app" where
  "finish_platform_login rt be q =
     (let binding = (case cookie_token (gr_cookies rt) (header_value q ''cookie'') login_cookie_name of None \<Rightarrow> [] | Some b \<Rightarrow> b)
      in if optional_query_value q ''error'' \<noteq> None
         then obind (case optional_query_value q ''state'' of
                None \<Rightarrow> oret ()
              | Some state \<Rightarrow> obind (clock rt) (\<lambda>now. on_browser (browser_cancel be now state binding))) (\<lambda>_.
              oraise (BrowserAuthenticationError ''The identity provider denied sign-in''))
         else obind (olift (required_query_value q ''state'')) (\<lambda>state.
              obind (olift (required_query_value q ''code'')) (\<lambda>auth_code.
              obind (clock rt) (\<lambda>now.
              on_browser (browser_complete be now state auth_code binding)))))"

definition complete_platform_login :: handler where
  "complete_platform_login rt q ps = (case gr_browser rt of
       None \<Rightarrow> oret sign_in_unconfigured
     | Some be \<Rightarrow>
         ocatch (obind (finish_platform_login rt be q) (\<lambda>r.
             oret (redirect_response ''/onboarding'' 302 [session_cookie (lr_session_token r), expired_login_cookie])))
           (\<lambda>e. if is_authentication_error e
                then oret (html_response 403 (error_page ''Account not approved''
                  ''Ask the operator to add this verified email before signing in.'') [expired_login_cookie])
                else (case e of BrowserAuthenticationError m \<Rightarrow>
                    oret (html_response 400 (error_page ''Sign-in failed'' ''Start a fresh sign-in and try again.'') [expired_login_cookie])
                  | _ \<Rightarrow> oraise e)))"

definition logout :: handler where
  "logout rt q ps = or_answer (require_form_session rt q) (\<lambda>(ctx, session, token, form).
     obind (case gr_browser rt of None \<Rightarrow> oret () | Some be \<Rightarrow> on_browser (browser_logout be token)) (\<lambda>_.
     oret (redirect_response ''/'' 303 [expired_session_cookie])))"

subsection \<open>Connecting a Tesla account in the browser\<close>

definition start_tesla :: "tesla_runtime \<Rightarrow> user_context \<Rightarrow> string \<Rightarrow> string option \<Rightarrow> string app" where
  "start_tesla t ctx completion_mode binding =
     (let env = tr_env t
      in on_gateway (obind (now_of env) (\<lambda>now. obind (draw env) (\<lambda>state. obind (draw env) (\<lambda>nonce.
         on_db (start_authorization (me_store env) (me_api env) state nonce (ctx_user_id ctx) now completion_mode binding))))))"

definition start_browser_tesla_oauth :: handler where
  "start_browser_tesla_oauth rt q ps = or_answer (require_form_session rt q) (\<lambda>(ctx, session, token, form).
     case (gr_tesla rt, gr_browser rt) of
       (Some t, Some be) \<Rightarrow>
         obind (start_tesla t ctx ''browser'' (Some (session_binding be token))) (\<lambda>location.
         oret (redirect_response location 302 []))
     | _ \<Rightarrow> oret tesla_unavailable)"

definition refresh_status :: "tesla_runtime \<Rightarrow> user_context \<Rightarrow> string \<Rightarrow> dict app" where
  "refresh_status t ctx vid =
     (let env = tr_env t
      in on_gateway (obind (now_of env) (\<lambda>now.
         on_db (refresh_fleet_status (me_store env) (me_api env) (me_others env) (tr_app_domain t) (ctx_user_id ctx) vid now))))"

definition refresh_browser_pairing :: handler where
  "refresh_browser_pairing rt q ps = or_answer (require_form_session rt q) (\<lambda>(ctx, session, token, form).
     case gr_tesla rt of
       None \<Rightarrow> oret tesla_unavailable
     | Some t \<Rightarrow>
         ocatch (obind (refresh_status t ctx (hd ps)) (\<lambda>_. oret (redirect_response ''/onboarding?refreshed=1'' 303 [])))
           (\<lambda>e. case e of
              CrossUserAccessError m \<Rightarrow> oret (html_response 403 (error_page ''Vehicle unavailable''
                ''That vehicle is not available to this account.'') [])
            | _ \<Rightarrow>
                if is_reauthorization_required e
                then oret (html_response 401 (ErrorPage ''Tesla reconnection required''
                  ''Authorize Tesla again before refreshing vehicle status.'' ''/onboarding'') [])
                else if is_tesla_api_error e \<or> is_onboarding_error e
                then oret (html_response 502 (ErrorPage ''Status refresh failed''
                  ''Tesla did not return a usable status. Wait briefly and try again.'' ''/onboarding'') [])
                else oraise e))"

subsection \<open>Telemetry pages\<close>

definition handled_by_telemetry_pages :: "exn \<Rightarrow> bool" where
  "handled_by_telemetry_pages e = ((case e of CrossUserAccessError m \<Rightarrow> True | TelemetryConfigurationError c m \<Rightarrow> True | _ \<Rightarrow> False)
     \<or> is_tesla_api_error e \<or> is_onboarding_error e)"

definition browser_telemetry_failure :: "exn \<Rightarrow> string \<Rightarrow> web_response" where
  "browser_telemetry_failure e retry_path = (case e of
       CrossUserAccessError m \<Rightarrow> html_response 403 (ErrorPage ''Vehicle unavailable''
         ''That vehicle is not available to this account.'' ''/onboarding'') []
     | TelemetryConfigurationError category m \<Rightarrow> html_response 409 (ErrorPage ''Telemetry operation stopped safely''
         (''Woodhouse rejected the operation ('' @ category @ ''). Inspect the current plan and Tesla errors before retrying.'') retry_path) []
     | _ \<Rightarrow>
         if is_reauthorization_required e
         then html_response 401 (ErrorPage ''Tesla reconnection required''
           ''Authorize Tesla again before changing telemetry configuration.'' ''/onboarding'') []
         else if is_onboarding_error e
         then html_response 502 (ErrorPage ''Telemetry setup unavailable''
           ''Woodhouse could not resolve a usable Tesla connection or vehicle record. Refresh onboarding before retrying.''
           ''/onboarding'') []
         else html_response 502 (ErrorPage ''Tesla telemetry operation failed''
           (''Tesla did not complete the operation ('' @ (case e of TeslaError c m category s r \<Rightarrow> category | _ \<Rightarrow> [])
             @ ''). Inspect Tesla telemetry errors before retrying.'') retry_path) [])"

definition on_telemetry_failure :: "string \<Rightarrow> web_response app \<Rightarrow> web_response app" where
  "on_telemetry_failure retry_path m =
     ocatch m (\<lambda>e. if handled_by_telemetry_pages e then oret (browser_telemetry_failure e retry_path) else oraise e)"

definition telemetry_message :: "web_request \<Rightarrow> string option" where
  "telemetry_message q = map_option snd (find (\<lambda>(name, text). optional_query_value q name = Some ''1'')
     [(''configured'', ''Tesla accepted and synchronized this exact telemetry configuration.''),
      (''verified'', ''Tesla still reports the exact configuration in sync; Woodhouse recorded its trusted profile provenance.''),
      (''removed'', ''The telemetry configuration was removed from this vehicle.''),
      (''reconciled'', ''All required opted-in vehicles are ready for transport cutover.'')])"

definition telemetry_control_of :: "gateway_runtime \<Rightarrow> telemetry_control option" where
  "telemetry_control_of rt = Option.bind (gr_tesla rt) tr_telemetry"

definition telemetry_path :: "string \<Rightarrow> string" where
  "telemetry_path vid = ''/onboarding/vehicles/'' @ vid @ ''/telemetry''"

definition inspect_browser_telemetry :: handler where
  "inspect_browser_telemetry rt q ps =
     obind (optional_browser_session rt q) (\<lambda>s. case s of
       None \<Rightarrow> oret (html_response 401 (error_page ''Sign-in required'' ''Sign in before inspecting telemetry.'') [expired_session_cookie])
     | Some (ctx, session, token) \<Rightarrow> (case telemetry_control_of rt of
           None \<Rightarrow> oret (html_response 503 (ErrorPage ''Telemetry setup unavailable''
             ''The operator has not enabled Fleet Telemetry control.'' ''/onboarding'') [])
         | Some kc \<Rightarrow>
             on_telemetry_failure (telemetry_path (hd ps)) (obind (on_gateway (control_inspect kc ctx (hd ps))) (\<lambda>document.
               oret (html_response 200 (telemetry_page document (bs_csrf_token session) (telemetry_message q)) [])))))"

text \<open>What a form asks the control service for: the result to show, or an answer at once.\<close>

definition telemetry_operation ::
  "telemetry_control \<Rightarrow> user_context \<Rightarrow> string \<Rightarrow> string \<Rightarrow> (string \<times> string) list \<Rightarrow> (web_response + string) app" where
  "telemetry_operation kc ctx vid operation form =
     (if operation = ''apply''
      then obind (on_gateway (control_apply kc ctx vid (form_field form ''expected_config_hash'') (map_of form ''confirm'' = Some ''yes'')
             (map_of form ''transport_maintenance_opt_in'' = Some ''yes'') ''operator-onboarding'')) (\<lambda>_. oret (Inr ''configured''))
      else if operation = ''verify''
      then obind (on_gateway (control_verify kc ctx vid)) (\<lambda>_. oret (Inr ''verified''))
      else if operation = ''remove''
      then obind (on_gateway (control_remove kc ctx vid (map_of form ''confirm'' = Some ''yes'') ''operator-onboarding'')) (\<lambda>_. oret (Inr ''removed''))
      else if operation = ''reconcile''
      then (if map_of form ''confirm'' \<noteq> Some ''yes''
            then oret (Inl (html_response 400 (ErrorPage ''Confirmation required''
              ''Select and approve the transport migration canary before continuing.'' (telemetry_path vid)) []))
            else obind (on_gateway (reconcile_transport kc ctx vid)) (\<lambda>report.
              if dget report ''status'' \<noteq> VStr ''ready_for_server_cutover''
              then oret (Inl (html_response 409 (ErrorPage ''Transport cutover blocked''
                ''At least one required vehicle is not opted in, has field drift, or failed Tesla synchronization. The old server trust must remain active.''
                (telemetry_path vid)) []))
              else oret (Inr ''reconciled'')))
      else oret (Inl (json_error 404 ''not_found'')))"

definition mutate_browser_telemetry :: handler where
  "mutate_browser_telemetry rt q ps = or_answer (require_form_session rt q) (\<lambda>(ctx, session, token, form).
     case telemetry_control_of rt of
       None \<Rightarrow> oret (html_response 503 (error_page ''Telemetry setup unavailable'' ''Telemetry control is not configured.'') [])
     | Some kc \<Rightarrow>
         on_telemetry_failure (telemetry_path (hd ps)) (or_answer (telemetry_operation kc ctx (hd ps) (hd (tl ps)) form) (\<lambda>result.
           oret (redirect_response (telemetry_path (hd ps) @ ''?'' @ result @ ''=1'') 303 []))))"

subsection \<open>The programmatic Tesla routes\<close>

text \<open>A route of the programmatic surface: the Tesla services, then the bearer token and the payload.\<close>

definition with_bearer :: "gateway_runtime \<Rightarrow> web_request \<Rightarrow> val \<Rightarrow> (user_context \<Rightarrow> web_response app) \<Rightarrow> web_response app" where
  "with_bearer rt q payload f = or_answer (authorize_api rt q payload) f"

definition start_tesla_oauth :: handler where
  "start_tesla_oauth rt q ps = (case gr_tesla rt of
       None \<Rightarrow> oret tesla_not_configured
     | Some t \<Rightarrow> with_bearer rt q (VDict []) (\<lambda>ctx.
         obind (start_tesla t ctx ''api'' None) (\<lambda>location. oret (redirect_response location 302 []))))"

definition session_binding_of :: "gateway_runtime \<Rightarrow> (user_context \<times> browser_session \<times> string) option \<Rightarrow> string option" where
  "session_binding_of rt s = (case (gr_browser rt, s) of
       (Some be, Some (ctx, session, token)) \<Rightarrow> Some (session_binding be token) | _ \<Rightarrow> None)"

definition connected_document :: "tesla_runtime \<Rightarrow> onboarding_result \<Rightarrow> val" where
  "connected_document t r = VDict
     [(''status'', VStr ''connected''), (''connection_id'', VStr (or_connection_id r)), (''region'', VStr (or_region r)),
      (''fleet_api_base_url'', VStr (or_base_url r)),
      (''vehicles'', VList (map (\<lambda>v. VDict (public_document (tr_app_domain t) v)) (or_vehicles r)))]"

text \<open>The body of the \<open>try\<close>: a declined authorization, or a completed one.\<close>

definition finish_tesla_oauth ::
  "tesla_runtime \<Rightarrow> web_request \<Rightarrow> string option \<Rightarrow> (pending_authorization + onboarding_result) app" where
  "finish_tesla_oauth t q binding =
     (let env = tr_env t
      in obind (olift (required_query_value q ''state'')) (\<lambda>state.
         if optional_query_value q ''error'' \<noteq> None
         then obind (on_gateway (obind (now_of env) (\<lambda>now. on_db (decline (me_store env) state binding now)))) (\<lambda>p. oret (Inl p))
         else obind (olift (required_query_value q ''code'')) (\<lambda>auth_code.
              obind (on_gateway (obind (now_of env) (\<lambda>now.
                on_db (callback (me_store env) (me_api env) state auth_code binding now)))) (\<lambda>r. oret (Inr r)))))"

definition tesla_oauth_answer ::
  "tesla_runtime \<Rightarrow> (user_context \<times> browser_session \<times> string) option \<Rightarrow> pending_authorization + onboarding_result \<Rightarrow> web_response" where
  "tesla_oauth_answer t s outcome = (case outcome of
       Inl pending \<Rightarrow>
         if pa_completion_mode pending = ''browser'' then redirect_response ''/onboarding?tesla=denied'' 303 []
         else json_error 400 ''tesla_authorization_denied''
     | Inr r \<Rightarrow>
         if or_completion_mode r = ''browser''
         then (case s of
             Some (ctx, session, token) \<Rightarrow>
               if ctx_user_id ctx = or_owner r then redirect_response ''/onboarding?connected=1'' 303 []
               else html_response 403 (error_page ''Sign-in required'' ''Sign in again before viewing the connected vehicles.'') []
           | None \<Rightarrow> html_response 403 (error_page ''Sign-in required'' ''Sign in again before viewing the connected vehicles.'') [])
         else json_response 200 (connected_document t r) [])"

definition complete_tesla_oauth :: handler where
  "complete_tesla_oauth rt q ps = (case gr_tesla rt of
       None \<Rightarrow> oret tesla_not_configured
     | Some t \<Rightarrow>
         obind (optional_browser_session rt q) (\<lambda>s.
         ocatch (obind (finish_tesla_oauth t q (session_binding_of rt s)) (\<lambda>outcome. oret (tesla_oauth_answer t s outcome)))
           (\<lambda>e. case e of
              InvalidOAuthStateError m \<Rightarrow> oret (json_error 400 ''invalid_oauth_state'')
            | _ \<Rightarrow>
                if is_tesla_authentication_error e then oret (json_error 502 ''tesla_authorization_failed'')
                else if is_tesla_api_error e \<or> is_onboarding_error e then oret (json_error 502 ''tesla_onboarding_failed'')
                else oraise e)))"

definition list_tesla_vehicles :: handler where
  "list_tesla_vehicles rt q ps = (case gr_tesla rt of
       None \<Rightarrow> oret tesla_not_configured
     | Some t \<Rightarrow> with_bearer rt q (VDict []) (\<lambda>ctx.
         obind (on_gateway (on_db (list_vehicle_documents (tr_app_domain t) (ctx_user_id ctx)))) (\<lambda>documents.
         oret (json_response 200 (VDict [(''vehicles'', VList (map VDict documents))]) []))))"

definition refresh_tesla_fleet_status :: handler where
  "refresh_tesla_fleet_status rt q ps = (case gr_tesla rt of
       None \<Rightarrow> oret tesla_not_configured
     | Some t \<Rightarrow> or_answer (olift (json_body rt q)) (\<lambda>payload. with_bearer rt q payload (\<lambda>ctx.
         ocatch (obind (refresh_status t ctx (hd ps)) (\<lambda>vehicle.
             oret (json_response 200 (VDict [(''vehicle'', VDict vehicle)]) [])))
           (\<lambda>e. if is_reauthorization_required e then oret (json_error 401 ''tesla_reauthorization_required'')
                else (case e of
                    CrossUserAccessError m \<Rightarrow> oret (json_error 403 ''vehicle_forbidden'')
                  | _ \<Rightarrow> if is_tesla_api_error e \<or> is_onboarding_error e then oret (json_error 502 ''tesla_fleet_status_failed'')
                         else oraise e)))))"

definition rotated_document :: "string \<times> int \<times> int \<Rightarrow> val" where
  "rotated_document r = (case r of (st, version, expires) \<Rightarrow>
     VDict [(''status'', VStr st), (''token_version'', VInt version), (''access_token_expires_at'', VTime expires)])"

definition rotate_tesla_refresh_token :: handler where
  "rotate_tesla_refresh_token rt q ps = (case gr_tesla rt of
       None \<Rightarrow> oret tesla_not_configured
     | Some t \<Rightarrow> or_answer (olift (json_body rt q)) (\<lambda>payload. with_bearer rt q payload (\<lambda>ctx.
         let env = tr_env t
         in ocatch (obind (on_gateway (on_db (rotate_refresh_token (me_store env) (me_api env) (me_others env) (ctx_user_id ctx)))) (\<lambda>r.
               oret (json_response 200 (rotated_document r) [])))
             (\<lambda>e. if is_reauthorization_required e then oret (json_error 401 ''tesla_reauthorization_required'')
                  else if is_tesla_api_error e \<or> is_onboarding_error e then oret (json_error 502 ''tesla_refresh_failed'')
                  else oraise e))))"

subsection \<open>Routes\<close>

text \<open>A template matches a path segment by segment; a parameter is a non-empty segment.\<close>

datatype segment = Fixed string | Parameter

definition fits :: "segment list \<Rightarrow> string list \<Rightarrow> bool" where
  "fits template path \<longleftrightarrow>
     list_all2 (\<lambda>t s. case t of Fixed u \<Rightarrow> s = u | Parameter \<Rightarrow> s \<noteq> []) template path"

definition parameters :: "segment list \<Rightarrow> string list \<Rightarrow> string list" where
  "parameters template path = map snd (filter (\<lambda>(t, s). t = Parameter) (zip template path))"

definition fixed_path :: "string \<Rightarrow> segment list" where
  "fixed_path p = map Fixed (split_at (CHR ''/'') p)"

abbreviation reading_verbs :: "string list" where "reading_verbs \<equiv> [''GET'', ''HEAD'']"

definition browser_forms :: "(segment list \<times> handler) list" where
  "browser_forms =
     [(fixed_path ''/auth/logout'', logout), (fixed_path ''/onboarding/tesla/start'', start_browser_tesla_oauth),
      (fixed_path ''/onboarding/vehicles'' @ [Parameter, Fixed ''refresh''], refresh_browser_pairing),
      (fixed_path ''/onboarding/vehicles'' @ [Parameter, Fixed ''telemetry'', Parameter], mutate_browser_telemetry)]"

definition bearer_routes :: "(segment list \<times> string list \<times> handler) list" where
  "bearer_routes =
     [(fixed_path ''/tesla/oauth/start'', reading_verbs, start_tesla_oauth),
      (fixed_path ''/tesla/vehicles'', reading_verbs, list_tesla_vehicles),
      (fixed_path ''/tesla/oauth/refresh'', [''POST''], rotate_tesla_refresh_token),
      (fixed_path ''/tesla/vehicles'' @ [Parameter, Fixed ''fleet-status''], [''POST''], refresh_tesla_fleet_status)]"

definition public_routes :: "(segment list \<times> handler) list" where
  "public_routes =
     [(fixed_path ''/health'', health), (fixed_path ''/healthz'', health), (fixed_path ''/'', onboarding),
      (fixed_path ''/onboarding'', onboarding),
      (fixed_path ''/.well-known/oauth-protected-resource'', oauth_resource_metadata),
      (fixed_path ''/.well-known/oauth-protected-resource/mcp'', oauth_resource_metadata),
      (fixed_path ''/auth/login'', start_platform_login), (fixed_path ''/auth/callback'', complete_platform_login),
      (fixed_path ''/onboarding/vehicles'' @ [Parameter, Fixed ''telemetry''], inspect_browser_telemetry),
      (fixed_path ''/.well-known/appspecific/com.tesla.3p.public-key.pem'', tesla_public_key),
      (fixed_path ''/oauth/callback'', complete_tesla_oauth)]"

text \<open>No two templates match the same path, so the order of the table does not matter.\<close>

definition app_routes :: "(segment list \<times> string list \<times> handler) list" where
  "app_routes = map (\<lambda>(p, h). (p, reading_verbs, h)) public_routes @ map (\<lambda>(p, h). (p, [''POST''], h)) browser_forms @ bearer_routes"

definition unavailable_mcp :: handler where
  "unavailable_mcp rt q ps = oret (json_error 503 ''tesla_mcp_not_configured'')"

definition plain_answer :: "int \<Rightarrow> string \<Rightarrow> web_response" where
  "plain_answer st text = \<lparr>rs_status = st, rs_headers = [], rs_body = TextBody text\<rparr>"

text \<open>The first route that matches path and method; then the mounted MCP application, which takes every
  other path; without it a path that matched only with another method is 405, and any other 404.\<close>

definition dispatch :: "gateway_runtime \<Rightarrow> web_request \<Rightarrow> web_response app" where
  "dispatch rt q =
     (let path = split_at (CHR ''/'') (rq_path q);
          routes = app_routes @ (case gr_mcp rt of
            None \<Rightarrow> [(fixed_path ''/mcp'', [''GET'', ''HEAD'', ''POST'', ''DELETE''], unavailable_mcp)] | Some m \<Rightarrow> [])
      in case find (\<lambda>(p, verbs, h). fits p path \<and> rq_method q \<in> set verbs) routes of
           Some (p, verbs, h) \<Rightarrow> h rt q (parameters p path)
         | None \<Rightarrow> (case gr_mcp rt of
             Some mcp \<Rightarrow> mcp q
           | None \<Rightarrow> if list_ex (\<lambda>(p, verbs, h). fits p path) routes then oret (plain_answer 405 ''Method Not Allowed'')
                     else oret (plain_answer 404 ''Not Found'')))"

text \<open>The whole application: the boundary, then the routes.\<close>

definition gateway_application :: "gateway_runtime \<Rightarrow> web_request \<Rightarrow> inbox \<Rightarrow> web_response app" where
  "gateway_application rt q arriving =
     request_body_boundary (\<lambda>ms. dispatch rt (q\<lparr>rq_messages := ms\<rparr>)) max_request_bytes request_body_timeout_seconds
       (rq_headers q) arriving"

end
