(* ===== verification/BrowserAuthGuarantees.thy ===== *)
theory BrowserAuthGuarantees
  imports BrowserAuth IdentityLife StateFrame
begin

text \<open>
  What a browser has to present to get a session, how often a login state counts, and how long a session
  lives.
\<close>

subsection \<open>The stores\<close>

lemma consume_login_eq_Inr:
  "consume_login env state now db = (Inr login, db') \<longleftrightarrow>
     (\<exists>data. map_of (bd_logins db) (be_hash env state) = Some data \<and> login_of_data data = Inr login \<and>
        now < pl_expires login \<and> db' = db\<lparr>bd_logins := AList.delete (be_hash env state) (bd_logins db)\<rparr>)"
  by (auto simp: consume_login_def transact_eq_Inr inr_simps linorder_not_le split: option.splits)

lemma consume_login_eq_Inl: "consume_login env state now db = (Inl e, db') \<Longrightarrow> db' = db"
  by (simp add: consume_login_def transact_eq_Inl)

lemma consume_login_absent:
  "map_of (bd_logins db) (be_hash env state) = None \<Longrightarrow> consume_login env state now db = (Inl invalid_login_state, db)"
  by (simp add: consume_login_def transact_def)

lemma require_browser_binding_eq_Inr:
  "require_browser_binding env login token = Inr u \<longleftrightarrow> token \<noteq> [] \<and> pl_binding_hash login = be_hash env token \<and>
     list_all (\<lambda>c. of_char c < (128 :: nat)) (be_hash env token)"
  by (auto simp: require_browser_binding_def Let_def inr_simps)

lemma create_session_eq_Inr:
  "create_session env token s db = (Inr u, db') \<longleftrightarrow> map_of (bd_sessions db) (be_hash env token) = None \<and>
     db' = db\<lparr>bd_sessions := AList.update (be_hash env token) (session_document (be_server_time env) s) (bd_sessions db)\<rparr>"
  by (auto simp: create_session_def transact_eq_Inr inr_simps)

lemma create_session_eq_Inl: "create_session env token s db = (Inl e, db') \<Longrightarrow> db' = db"
  by (simp add: create_session_def transact_eq_Inl)

lemma resolve_identity_eq_Inr:
  "resolve_identity env i db = (Inr c, db') \<longleftrightarrow> (\<exists>ids. fs_resolve_or_bind (be_hash env) (be_server_time env) i
     (bd_identities db) = (Inr c, ids) \<and> db' = db\<lparr>bd_identities := ids\<rparr>)"
  by (auto simp: resolve_identity_def on_identities_def split: prod.splits)

lemma resolve_identity_frame:
  "resolve_identity env i db = (r, db') \<Longrightarrow> bd_sessions db' = bd_sessions db \<and> bd_logins db' = bd_logins db"
  by (auto simp: resolve_identity_def on_identities_def split: prod.splits)

lemma fresh_token_eq: "fresh_token env db = (r, db') \<longleftrightarrow>
    r = Inr (be_token env (bd_draws db)) \<and> db' = db\<lparr>bd_draws := bd_draws db + 1\<rparr>"
  by (auto simp: fresh_token_def)

text \<open>An identity that has resolved resolves again, to the same user, and writes nothing.\<close>

lemma resolve_again:
  assumes "fs_resolve_or_bind H srv i db = (Inr c, db')" and "identity_key j = identity_key i"
  shows "fs_resolve_or_bind H srv' j db' = (Inr c, db')"
  using assms(1)
proof (cases rule: fs_resolve_cases)
  case (existing b)
  then show ?thesis
    using fs_resolve_existing [of db H j b srv'] resolve_existing_key [OF assms(2), of db b] assms(2)
    by (simp add: identity_key_def)
next
  case first
  then show ?thesis using bind_then_resolve [OF first(2) assms(2)] by simp
qed

subsection \<open>A completed sign-in\<close>

lemma browser_complete_eq_Inr:
  assumes "browser_complete env now state auth_code binding db = (Inr r, db')"
  obtains data login tokens access_token id_token access_identity i ids where
    "map_of (bd_logins db) (be_hash env state) = Some data" "login_of_data data = Inr login" "now < pl_expires login"
    "binding \<noteq> []" "pl_binding_hash login = be_hash env binding"
    "exchange_browser_code env auth_code (pl_code_verifier login) = Inr tokens"
    "required_token tokens ''access_token'' = Inr access_token" "required_token tokens ''id_token'' = Inr id_token"
    "verify_access_token (be_decode env) (be_access_verifier env) access_token = Inr access_identity"
    "verify_id_token (be_decode env) (be_id_verifier env) id_token (pl_nonce login) = Inr i"
    "identity_key access_identity = identity_key i"
    "fs_resolve_or_bind (be_hash env) (be_server_time env) i (bd_identities db) = (Inr (lr_context r), ids)"
    "map_of (bd_sessions db) (be_hash env (lr_session_token r)) = None"
    "lr_session_token r = be_token env (bd_draws db)" "lr_csrf_token r = be_token env (bd_draws db + 1)"
    "db' = db\<lparr>bd_identities := ids, bd_logins := AList.delete (be_hash env state) (bd_logins db),
      bd_sessions := AList.update (be_hash env (lr_session_token r)) (session_document (be_server_time env)
        \<lparr>bs_issuer = issuer i, bs_subject = subject i, bs_csrf_token = lr_csrf_token r,
         bs_expires = now + web_session_lifetime\<rparr>) (bd_sessions db), bd_draws := bd_draws db + 2\<rparr>"
proof -
  from assms obtain login d1 tokens access_token id_token access_identity i c d2 u
    where 1: "consume_login env state now db = (Inr login, d1)"
      "require_browser_binding env login binding = Inr ()"
      "exchange_browser_code env auth_code (pl_code_verifier login) = Inr tokens"
      "required_token tokens ''access_token'' = Inr access_token" "required_token tokens ''id_token'' = Inr id_token"
      "verify_access_token (be_decode env) (be_access_verifier env) access_token = Inr access_identity"
      "verify_id_token (be_decode env) (be_id_verifier env) id_token (pl_nonce login) = Inr i"
      "identity_key access_identity = identity_key i" "resolve_identity env i d1 = (Inr c, d2)"
      "create_session env (be_token env (bd_draws d2)) \<lparr>bs_issuer = issuer i, bs_subject = subject i,
         bs_csrf_token = be_token env (bd_draws d2 + 1), bs_expires = now + web_session_lifetime\<rparr>
         (d2\<lparr>bd_draws := bd_draws d2 + 2\<rparr>) = (Inr u, db')"
      "r = \<lparr>lr_session_token = be_token env (bd_draws d2), lr_csrf_token = be_token env (bd_draws d2 + 1), lr_context = c\<rparr>"
    by (auto simp: browser_complete_def obind_eq_Inr oper_simps fresh_token_eq numeral_2_eq_2 split: if_splits)
  show thesis
    using 1 by (auto simp: consume_login_eq_Inr require_browser_binding_eq_Inr resolve_identity_eq_Inr
      create_session_eq_Inr numeral_2_eq_2 intro!: that)
qed

lemma resolve_identity_sessions: "resolve_identity env i d = (r, d') \<Longrightarrow> bd_sessions d' = bd_sessions d"
  by (simp add: resolve_identity_frame)

lemma consume_login_sessions: "consume_login env state now d = (r, d') \<Longrightarrow> bd_sessions d' = bd_sessions d"
  by (cases r) (auto simp: consume_login_eq_Inr dest: consume_login_eq_Inl)

lemma if_app: "(if b then f else g) x = (if b then f x else g x)"
  by simp

lemma browser_complete_eq_Inl:
  assumes "browser_complete env now state auth_code binding db = (Inl e, db')"
  shows "bd_sessions db' = bd_sessions db"
  using assms
  by (fastforce simp: browser_complete_def obind_eq_Inl oper_simps fresh_token_eq if_app
      dest: consume_login_sessions create_session_eq_Inl resolve_identity_sessions split: if_splits)

subsection \<open>The life of a login state\<close>

text \<open>New login states stand under the hashes of tokens drawn since.\<close>

definition logins_drawn :: "browser_env \<Rightarrow> browser_db \<Rightarrow> browser_db \<Rightarrow> bool" where
  "logins_drawn env d d' \<longleftrightarrow> bd_draws d \<le> bd_draws d' \<and>
     (\<forall>k. map_of (bd_logins d) k = None \<longrightarrow> map_of (bd_logins d') k \<noteq> None \<longrightarrow>
       (\<exists>n. bd_draws d \<le> n \<and> n < bd_draws d' \<and> k = be_hash env (be_token env n)))"

lemma logins_drawn_trans: "logins_drawn env a b \<Longrightarrow> logins_drawn env b c \<Longrightarrow> logins_drawn env a c"
  unfolding logins_drawn_def by (metis le_trans less_le_trans)

interpretation bf: state_frame "logins_drawn env" for env
  by unfold_locales (simp add: logins_drawn_def, erule (1) logins_drawn_trans)

lemma same_logins_drawn: "bd_logins d' = bd_logins d \<Longrightarrow> bd_draws d \<le> bd_draws d' \<Longrightarrow> logins_drawn env d d'"
  by (simp add: logins_drawn_def)

lemma fresh_token_drawn: "bf.stays env (fresh_token env)"
  by (rule bf.staysI) (simp add: fresh_token_def same_logins_drawn)

lemma create_session_drawn: "bf.stays env (create_session env token s)"
  by (rule bf.staysI)
    (simp add: create_session_def transact_def create_doc_def same_logins_drawn split: option.split)

lemma consume_login_drawn: "bf.stays env (consume_login env state now)"
proof (rule bf.staysI)
  fix d :: browser_db
  obtain r d' where c: "consume_login env state now d = (r, d')" by (cases "consume_login env state now d")
  then have "logins_drawn env d d'"
    by (cases r) (auto simp: consume_login_eq_Inr logins_drawn_def dest!: consume_login_eq_Inl split: if_splits)
  with c show "logins_drawn env d (snd (consume_login env state now d))" by simp
qed

lemma resolve_identity_drawn: "bf.stays env (resolve_identity env i)"
  by (rule bf.staysI) (simp add: resolve_identity_def on_identities_def same_logins_drawn split: prod.split)

lemma delete_session_drawn: "bf.stays env (delete_session env token)"
  by (rule bf.staysI) (simp add: delete_session_def same_logins_drawn)

lemma get_session_drawn: "bf.stays env (get_session env token now)"
  by (rule bf.staysI)
    (simp add: get_session_def obind_def delete_session_def oper_simps same_logins_drawn split: option.split sum.split)

text \<open>A sign-in starts by drawing the state under which it stores the login.\<close>

lemma browser_start_drawn: "bf.stays env (browser_start env now)"
proof (rule bf.staysI)
  fix d :: browser_db
  define login where "login = \<lparr>pl_code_verifier = be_token env (bd_draws d + 2), pl_nonce = be_token env (bd_draws d + 1),
    pl_binding_hash = be_hash env (be_token env (bd_draws d + 3)), pl_expires = now + login_state_lifetime\<rparr>"
  have "snd (browser_start env now d) = snd (create_login env (be_token env (bd_draws d)) login (d\<lparr>bd_draws := bd_draws d + 4\<rparr>))"
    by (simp add: browser_start_def obind_def fresh_token_def oper_simps login_def numeral_eq_Suc split: prod.split sum.split)
  then show "logins_drawn env d (snd (browser_start env now d))"
    by (simp add: create_login_def transact_def create_doc_def logins_drawn_def split: option.split)
      (metis le_refl less_add_same_cancel1 zero_less_numeral)
qed

lemmas operations_drawn = bf.stays_rules fresh_token_drawn create_session_drawn consume_login_drawn
  resolve_identity_drawn delete_session_drawn get_session_drawn browser_start_drawn

text \<open>One request to the service, at whatever time and with whatever arguments.\<close>

inductive browser_step :: "browser_env \<Rightarrow> browser_db \<Rightarrow> browser_db \<Rightarrow> bool" for env where
  start: "browser_start env now d = (r, d') \<Longrightarrow> browser_step env d d'"
| complete: "browser_complete env now state c b d = (r, d') \<Longrightarrow> browser_step env d d'"
| cancel: "browser_cancel env now state b d = (r, d') \<Longrightarrow> browser_step env d d'"
| authenticate: "authenticate_session env now token d = (r, d') \<Longrightarrow> browser_step env d d'"
| logout: "browser_logout env token d = (r, d') \<Longrightarrow> browser_step env d d'"

inductive_cases browser_stepE: "browser_step env d d'"

lemma browser_operations_drawn:
  "bf.stays env (browser_complete env now state c b)" "bf.stays env (browser_cancel env now state b)"
  "bf.stays env (authenticate_session env now token)" "bf.stays env (browser_logout env token)"
  unfolding browser_complete_def browser_cancel_def authenticate_session_def browser_logout_def
  by (intro operations_drawn)+

lemma browser_step_drawn: "browser_step env d d' \<Longrightarrow> logins_drawn env d d'"
  by (erule browser_stepE)
    (metis snd_conv bf.staysD browser_start_drawn browser_operations_drawn)+

lemma browser_reachable_drawn: "(browser_step env)\<^sup>*\<^sup>* d d' \<Longrightarrow> logins_drawn env d d'"
  by (induction rule: rtranclp_induct) (auto intro: bf.rel_refl bf.rel_trans browser_step_drawn)

subsection \<open>Properties\<close>

text \<open>C17: A browser session exists only for a browser that finished the sign-in it started: completing a sign-in
  leaves the sessions as they are unless an unexpired login stood under the state, the browser presented the
  token whose hash is bound to it, and both tokens of the exchange with that login's verifier verify, name the
  same identity and carry the login's nonce; then the login is gone and exactly one session, of that
  identity, is new.\<close>
theorem session_needs_the_browser_that_started:
  "case browser_complete env now state auth_code binding db of
     (Inl e, db') \<Rightarrow> bd_sessions db' = bd_sessions db
   | (Inr r, db') \<Rightarrow> \<exists>data login tokens access_token id_token access_identity i.
       map_of (bd_logins db) (be_hash env state) = Some data \<and> login_of_data data = Inr login \<and>
       now < pl_expires login \<and> binding \<noteq> [] \<and> pl_binding_hash login = be_hash env binding \<and>
       exchange_browser_code env auth_code (pl_code_verifier login) = Inr tokens \<and>
       dget tokens ''access_token'' = VStr access_token \<and> dget tokens ''id_token'' = VStr id_token \<and>
       verify_access_token (be_decode env) (be_access_verifier env) access_token = Inr access_identity \<and>
       verify_id_token (be_decode env) (be_id_verifier env) id_token (pl_nonce login) = Inr i \<and>
       identity_key access_identity = identity_key i \<and>
       map_of (bd_logins db') (be_hash env state) = None \<and>
       map_of (bd_sessions db) (be_hash env (lr_session_token r)) = None \<and>
       map_of (bd_sessions db') = (map_of (bd_sessions db))(be_hash env (lr_session_token r) \<mapsto>
         session_document (be_server_time env) \<lparr>bs_issuer = issuer i, bs_subject = subject i,
           bs_csrf_token = lr_csrf_token r, bs_expires = now + web_session_lifetime\<rparr>)"
proof -
  obtain res db' where c: "browser_complete env now state auth_code binding db = (res, db')"
    by (cases "browser_complete env now state auth_code binding db")
  show ?thesis
  proof (cases res)
    case (Inl e)
    with c browser_complete_eq_Inl show ?thesis by auto
  next
    case (Inr r)
    have token: "required_token t n = Inr x \<Longrightarrow> dget t n = VStr x" for t n x
      by (auto simp: required_token_def split: val.splits if_splits)
    from c Inr show ?thesis
      by (auto elim!: browser_complete_eq_Inr dest!: token)
  qed
qed

text \<open>A login state completes at most one sign-in: after it has completed one, no attempt with the same state,
  by whatever browser and with whatever code, completes another, whatever requests the service answered in
  between; the drawn tokens have distinct hashes.\<close>
theorem login_state_completes_once:
  assumes "browser_complete env now state c b db = (Inr r, db1)" and "(browser_step env)\<^sup>*\<^sup>* db1 db2"
    and "state = be_token env n" and "n < bd_draws db" and "inj (\<lambda>k. be_hash env (be_token env k))"
  shows "browser_complete env now' state c' b' db2 = (Inl invalid_login_state, db2)"
proof -
  from assms(1) obtain gone: "map_of (bd_logins db1) (be_hash env state) = None" "bd_draws db \<le> bd_draws db1"
    by (rule browser_complete_eq_Inr) auto
  have "map_of (bd_logins db2) (be_hash env state) = None"
  proof (rule ccontr)
    assume "map_of (bd_logins db2) (be_hash env state) \<noteq> None"
    with gone browser_reachable_drawn [OF assms(2)] obtain k where k: "bd_draws db1 \<le> k"
      "be_hash env (be_token env n) = be_hash env (be_token env k)"
      unfolding logins_drawn_def assms(3) by blast
    then have "n = k" using assms(5) by (auto dest: injD)
    with k(1) gone(2) assms(4) show False by simp
  qed
  then show ?thesis by (simp add: browser_complete_def obind_def consume_login_absent)
qed

text \<open>A completed sign-in gives a session that lives twelve hours: until then it authenticates its owner, with
  the user, dataset and form token that the sign-in returned, and writes nothing; from then on it is refused
  and removed, and after a logout it is refused at once.\<close>
theorem session_lives_twelve_hours:
  assumes "browser_complete env now state c b db = (Inr r, db')" and "\<And>n. be_token env n \<noteq> []"
  shows "(\<exists>i :: verified_identity. authenticate_session env t (lr_session_token r) db' =
      (if t < now + 12 * 60 * 60 * 1000000
       then (Inr (lr_context r, \<lparr>bs_issuer = issuer i, bs_subject = subject i, bs_csrf_token = lr_csrf_token r,
              bs_expires = now + web_session_lifetime\<rparr>), db')
       else (Inl (InvalidTokenError ''Browser session has expired''), snd (browser_logout env (lr_session_token r) db')))) \<and>
    fst (authenticate_session env t (lr_session_token r) (snd (browser_logout env (lr_session_token r) db'))) =
      Inl (InvalidTokenError ''Browser session is not valid'')"
proof -
  from assms(1) obtain i ids and login :: pending_login and id_token where s:
    "verify_id_token (be_decode env) (be_id_verifier env) id_token (pl_nonce login) = Inr i"
    "fs_resolve_or_bind (be_hash env) (be_server_time env) i (bd_identities db) = (Inr (lr_context r), ids)"
    "lr_csrf_token r = be_token env (bd_draws db + 1)" "bd_identities db' = ids"
    "map_of (bd_sessions db') (be_hash env (lr_session_token r)) = Some (session_document (be_server_time env)
        \<lparr>bs_issuer = issuer i, bs_subject = subject i, bs_csrf_token = lr_csrf_token r,
         bs_expires = now + web_session_lifetime\<rparr>)"
  proof (rule browser_complete_eq_Inr, goal_cases)
    case (1 data login tokens access_token id_token access_identity i ids)
    show ?case by (rule 1(1) [OF 1(11) 1(13)]) (use 1(16,17) in simp_all)
  qed
  have ne: "issuer i \<noteq> []" "subject i \<noteq> []" using s(1) by (auto simp: id_token_eq_Inr identity_of_claims_eq_Inr)
  let ?s = "\<lparr>bs_issuer = issuer i, bs_subject = subject i, bs_csrf_token = lr_csrf_token r,
      bs_expires = now + web_session_lifetime\<rparr>"
  have read: "session_from_data (session_document (be_server_time env) ?s) = Inr ?s"
    using ne assms(2) s(3) by (simp add: session_from_data_def session_document_def dget_def)
  have "resolve_identity env \<lparr>issuer = issuer i, subject = subject i, email = None, email_verified = False\<rparr> db' =
      (Inr (lr_context r), db')"
    using resolve_again [OF s(2), of "\<lparr>issuer = issuer i, subject = subject i, email = None, email_verified = False\<rparr>"]
      s(4) by (simp add: resolve_identity_eq_Inr identity_key_def)
  then have "\<exists>i :: verified_identity. authenticate_session env t (lr_session_token r) db' =
      (if t < now + 12 * 60 * 60 * 1000000
       then (Inr (lr_context r, \<lparr>bs_issuer = issuer i, bs_subject = subject i, bs_csrf_token = lr_csrf_token r,
              bs_expires = now + web_session_lifetime\<rparr>), db')
       else (Inl (InvalidTokenError ''Browser session has expired''), snd (browser_logout env (lr_session_token r) db')))"
    by (intro exI [of _ i]) (simp add: authenticate_session_def get_session_def obind_def s(5)
      read [unfolded web_session_lifetime_def, simplified] make_identity_def ne
      oper_simps web_session_lifetime_def browser_logout_def delete_session_def)
  moreover have "fst (authenticate_session env t (lr_session_token r) (snd (browser_logout env (lr_session_token r) db'))) =
      Inl (InvalidTokenError ''Browser session is not valid'')"
    by (simp add: authenticate_session_def get_session_def obind_def browser_logout_def delete_session_def)
  ultimately show ?thesis ..
qed

subsection \<open>Examples\<close>

text \<open>Ann signs in: identity keys and hashes are the texts themselves, every token draw is a longer text.\<close>

definition demo_browser :: browser_env where
  "demo_browser = \<lparr>be_config = \<lparr>bc_issuer = ''https://id/'', bc_audience = ''a'', bc_client_id = ''c'',
       bc_client_secret = ''s'', bc_redirect_uri = ''https://g/cb'', bc_scopes = [''openid'']\<rparr>,
     be_hash = id, be_server_time = 5, be_token = (\<lambda>n. replicate (n + 1) CHR ''t''),
     be_authorize = (\<lambda>state nonce verifier. ''https://id/authorize?state='' @ state),
     be_fetch = (\<lambda>code verifier. Inr (Some (VDict [(''access_token'', VStr ''A''), (''id_token'', VStr verifier)]))),
     be_decode = (\<lambda>token audience. Inr [(''iss'', VStr ''iss''), (''sub'', VStr ''sub''), (''nonce'', VStr ''tt''),
       (''scope'', VStr ''openid''), (''email'', VStr ''ann@x.org''), (''email_verified'', VBool True)]),
     be_access_verifier = \<lparr>av_issuer = ''iss'', av_audience = ''a'', av_required_scopes = [''openid'']\<rparr>,
     be_id_verifier = \<lparr>iv_issuer = ''iss'', iv_audience = ''c''\<rparr>\<rparr>"

definition demo_browser_db :: browser_db where
  "demo_browser_db = snd (browser_start demo_browser 0
     \<lparr>bd_identities = invited_db, bd_logins = [], bd_sessions = [], bd_draws = 0\<rparr>)"

definition demo_signed_in :: browser_db where
  "demo_signed_in = snd (browser_complete demo_browser 1 ''t'' ''code'' ''tttt'' demo_browser_db)"

definition demo_login :: login_result where
  "demo_login = \<lparr>lr_session_token = ''ttttt'', lr_csrf_token = ''tttttt'', lr_context = \<lparr>ctx_user_id = ''usr_1'',
     ctx_dataset_id = ''ds_1'', ctx_issuer = ''iss'', ctx_subject = ''sub''\<rparr>\<rparr>"

lemma demo_completes: "browser_complete demo_browser 1 ''t'' ''code'' ''tttt'' demo_browser_db = (Inr demo_login, demo_signed_in)"
  by code_simp


text \<open>The witnesses.\<close>

lemma demo_hashes: "inj (\<lambda>k. be_hash demo_browser (be_token demo_browser k))"
  by (rule injI, drule arg_cong [where f = length]) (simp add: demo_browser_def)

theorem login_state_completes_once_witness:
  "browser_complete demo_browser 2 ''t'' ''again'' ''tttt'' demo_signed_in = (Inl invalid_login_state, demo_signed_in)"
proof (rule login_state_completes_once [OF demo_completes rtranclp.rtrancl_refl _ _ demo_hashes])
  show "''t'' = be_token demo_browser 0" by (simp add: demo_browser_def)
  show "0 < bd_draws demo_browser_db" by code_simp
qed

theorem session_lives_twelve_hours_witness:
  "fst (authenticate_session demo_browser 43200000001 ''ttttt'' demo_signed_in) =
     Inl (InvalidTokenError ''Browser session has expired'') \<and>
   (\<exists>s. authenticate_session demo_browser 43200000000 ''ttttt'' demo_signed_in = (Inr (lr_context demo_login, s), demo_signed_in))"
proof -
  have token: "be_token demo_browser n \<noteq> []" for n by (simp add: demo_browser_def)
  show ?thesis
    using session_lives_twelve_hours [OF demo_completes token, of 43200000001]
      session_lives_twelve_hours [OF demo_completes token, of 43200000000]
    by (auto simp: demo_login_def)
qed

end
