(* ===== verification/GatewayAppGuarantees.thy ===== *)
theory GatewayAppGuarantees
  imports GatewayApp BrowserAuthGuarantees TelemetryControlGuarantees
begin

text \<open>
  Complete mediation: every way through the routes that touches the Tesla services, their database or the
  network goes through a live session, a form token, a bearer token or a pending authorization.
\<close>

subsection \<open>What leaves the Tesla side alone\<close>

definition same_gateway :: "app_world \<Rightarrow> app_world \<Rightarrow> bool" where
  "same_gateway w w' \<longleftrightarrow> aw_gateway w' = aw_gateway w"

interpretation sg: state_frame same_gateway
  by unfold_locales (simp_all add: same_gateway_def)

lemma sg_browser: "sg.stays (on_browser m)"
  by (rule sg.staysI) (simp add: same_gateway_def on_browser_def split: prod.split)

lemma sg_clock: "sg.stays (clock rt)"
  by (rule sg.staysI) (simp add: same_gateway_def clock_def)

lemma sg_or_answer: "sg.stays m \<Longrightarrow> (\<And>x. sg.stays (f x)) \<Longrightarrow> sg.stays (or_answer m f)"
  unfolding or_answer_def by (intro sg.stays_obind) (auto intro: sg.stays_sum sg.stays_pure)

lemma sg_session: "sg.stays (optional_browser_session rt q)"
  unfolding optional_browser_session_def by (intro sg.stays_rules sg_browser sg_clock)

lemma sg_form: "sg.stays (require_form_session rt q)"
  unfolding require_form_session_def by (intro sg.stays_rules sg_session)

lemma sg_authorize: "sg.stays (authorize_api rt q payload)"
  unfolding authorize_api_def
  by (intro sg.stays_ocatch sg.stays_obind sg.stays_pure sg_browser) (auto split: exn.split intro: sg.stays_pure sg.stays_if)

text \<open>Reading the store changes nothing.\<close>

lemma sg_documents: "sg.stays (on_gateway (on_db (list_vehicle_documents domain user)))"
  by (rule sg.staysI) (simp add: same_gateway_def on_gateway_def on_db_def list_vehicle_documents_def obind_def
      reading_def oper_simps split: sum.split)

subsection \<open>Who may act\<close>

text \<open>The session that a request's cookie opens at this moment.\<close>

definition live_session ::
  "gateway_runtime \<Rightarrow> web_request \<Rightarrow> app_world \<Rightarrow> user_context \<Rightarrow> browser_session \<Rightarrow> bool" where
  "live_session rt q w ctx session \<longleftrightarrow> (\<exists>be token b.
     gr_browser rt = Some be \<and> cookie_token (gr_cookies rt) (header_value q ''cookie'') session_cookie_name = Some token \<and>
     authenticate_session be (gr_now rt w) token (aw_browser w) = (Inr (ctx, session), b))"

text \<open>A submitted form that carries the token of the session.\<close>

definition carries_token :: "web_request \<Rightarrow> browser_session \<Rightarrow> bool" where
  "carries_token q session \<longleftrightarrow>
     (\<exists>form. read_form q = Inr (Some form) \<and> map_of form ''csrf_token'' = Some (bs_csrf_token session))"

text \<open>A bearer token that verifies and resolves to a user.\<close>

definition bearer_user :: "gateway_runtime \<Rightarrow> web_request \<Rightarrow> app_world \<Rightarrow> user_context \<Rightarrow> bool" where
  "bearer_user rt q w ctx \<longleftrightarrow> (\<exists>token i ids. bearer_token (header_value q ''authorization'') = Inr token \<and>
     gr_verify rt token = Inr i \<and>
     fs_resolve_or_bind (gr_hash rt) (gr_server_time rt) i (bd_identities (aw_browser w)) = (Inr ctx, ids))"

text \<open>An authorization that was started and not used.\<close>

definition pending_oauth :: "gateway_runtime \<Rightarrow> web_request \<Rightarrow> app_world \<Rightarrow> bool" where
  "pending_oauth rt q w \<longleftrightarrow> (\<exists>t state p g. gr_tesla rt = Some t \<and> required_query_value q ''state'' = Inr state \<and>
     consume_oauth_state (me_store (tr_env t)) state (me_now (tr_env t) (w_events (aw_gateway w))) (w_db (aw_gateway w)) = (Inr p, g))"

lemma session_result:
  assumes "optional_browser_session rt q w = (Inr (Some (ctx, session, token)), w')"
  shows "live_session rt q w ctx session"
  using assms
  by (auto simp: optional_browser_session_def live_session_def oper_simps obind_def ocatch_def clock_def on_browser_def
      split: option.splits prod.splits sum.splits if_splits exn.splits)

lemma form_result:
  assumes "require_form_session rt q w = (Inr (Inr (ctx, session, token, form)), w')"
  shows "live_session rt q w ctx session" and "carries_token q session"
proof -
  from assms obtain w0 where "optional_browser_session rt q w = (Inr (Some (ctx, session, token)), w0)"
    and f: "read_form q = Inr (Some form)" "map_of form ''csrf_token'' = Some (bs_csrf_token session)"
    by (auto simp: require_form_session_def obind_eq_Inr oper_simps split: option.splits if_splits)
  then show "live_session rt q w ctx session" by (blast intro: session_result)
  from f show "carries_token q session" by (auto simp: carries_token_def)
qed

lemma authorize_result:
  assumes "authorize_api rt q payload w = (Inr (Inr ctx), w')"
  shows "bearer_user rt q w ctx"
  using assms
  by (auto simp: authorize_api_def bearer_user_def gateway_authorize_def authenticate_bearer_def oper_simps obind_def ocatch_def
      on_browser_def on_identities_def split: option.splits prod.splits sum.splits if_splits exn.splits)

subsection \<open>The handlers\<close>

text \<open>A handler is guarded by a condition when it leaves the Tesla side alone wherever the condition fails.\<close>

definition guarded :: "(gateway_runtime \<Rightarrow> web_request \<Rightarrow> app_world \<Rightarrow> bool) \<Rightarrow> handler \<Rightarrow> bool" where
  "guarded P h \<longleftrightarrow> (\<forall>rt q ps w. aw_gateway (snd (h rt q ps w)) = aw_gateway w \<or> P rt q w)"

lemma guardedI: "(\<And>rt q ps w. \<not> P rt q w \<Longrightarrow> aw_gateway (snd (h rt q ps w)) = aw_gateway w) \<Longrightarrow> guarded P h"
  by (auto simp: guarded_def)

lemma stays_guarded: "(\<And>rt q ps. sg.stays (h rt q ps)) \<Longrightarrow> guarded P h"
  by (auto simp: guarded_def sg.stays_def same_gateway_def)

text \<open>Only an answer of the guard that lets the request pass reaches the rest of the handler.\<close>

lemma or_answer_unchanged:
  assumes "sg.stays m" and "\<And>x w'. m w = (Inr (Inr x), w') \<Longrightarrow> False"
  shows "aw_gateway (snd (or_answer m f w)) = aw_gateway w"
proof -
  obtain r w' where m: "m w = (r, w')" by (cases "m w")
  with sg.staysD [OF assms(1), of w] have "aw_gateway w' = aw_gateway w" by (simp add: same_gateway_def)
  then show ?thesis using m assms(2)
    by (cases r) (auto simp: or_answer_def obind_def oper_simps split: sum.split)
qed

definition form_user :: "gateway_runtime \<Rightarrow> web_request \<Rightarrow> app_world \<Rightarrow> bool" where
  "form_user rt q w \<longleftrightarrow> (\<exists>ctx session. live_session rt q w ctx session \<and> carries_token q session)"

definition session_user :: "gateway_runtime \<Rightarrow> web_request \<Rightarrow> app_world \<Rightarrow> bool" where
  "session_user rt q w \<longleftrightarrow> (\<exists>ctx session. live_session rt q w ctx session)"

definition token_user :: "gateway_runtime \<Rightarrow> web_request \<Rightarrow> app_world \<Rightarrow> bool" where
  "token_user rt q w \<longleftrightarrow> (\<exists>ctx. bearer_user rt q w ctx)"

lemma form_guard:
  assumes "\<And>rt q ps. h rt q ps = or_answer (require_form_session rt q) (f rt q ps)"
  shows "guarded form_user h"
proof (rule guardedI, unfold assms, rule or_answer_unchanged [OF sg_form])
  fix rt q w x w'
  assume no: "\<not> form_user rt q w" and m: "require_form_session rt q w = (Inr (Inr x), w')"
  obtain ctx session token form where "x = (ctx, session, token, form)" by (cases x)
  with m no form_result show False unfolding form_user_def by blast
qed

lemma forms_guarded: "guarded form_user logout" "guarded form_user start_browser_tesla_oauth"
  "guarded form_user refresh_browser_pairing" "guarded form_user mutate_browser_telemetry"
  by (rule form_guard, simp only: logout_def start_browser_tesla_oauth_def refresh_browser_pairing_def
    mutate_browser_telemetry_def)+

lemma bearer_unchanged:
  "\<not> token_user rt q w \<Longrightarrow> aw_gateway (snd (with_bearer rt q payload f w)) = aw_gateway w"
  unfolding with_bearer_def token_user_def by (rule or_answer_unchanged [OF sg_authorize]) (blast dest: authorize_result)

lemma json_then_bearer_unchanged:
  "\<not> token_user rt q w \<Longrightarrow>
     aw_gateway (snd (or_answer (olift r) (\<lambda>payload. with_bearer rt q payload (f payload)) w)) = aw_gateway w"
  by (auto simp: or_answer_def obind_def oper_simps bearer_unchanged split: sum.split)

lemma bearers_guarded: "guarded token_user start_tesla_oauth" "guarded token_user list_tesla_vehicles"
  "guarded token_user rotate_tesla_refresh_token" "guarded token_user refresh_tesla_fleet_status"
  by (rule guardedI, simp add: start_tesla_oauth_def list_tesla_vehicles_def rotate_tesla_refresh_token_def
    refresh_tesla_fleet_status_def oper_simps bearer_unchanged json_then_bearer_unchanged split: option.split)+

lemma publics_guarded: "guarded P health" "guarded P oauth_resource_metadata" "guarded P start_platform_login"
  "guarded P complete_platform_login" "guarded P onboarding" "guarded P tesla_public_key"
proof -
  show "guarded P health" "guarded P oauth_resource_metadata" "guarded P tesla_public_key"
    by (rule stays_guarded, simp add: health_def oauth_resource_metadata_def tesla_public_key_def sg.stays_pure split: option.split)+
  show "guarded P start_platform_login" unfolding start_platform_login_def
    by (rule stays_guarded) (intro sg.stays_rules sg_browser sg_clock)
  show "guarded P complete_platform_login" unfolding complete_platform_login_def finish_platform_login_def Let_def
    by (rule stays_guarded, intro sg.stays_rules sg_browser sg_clock) (simp add: sg.stays_pure split: exn.split)
  show "guarded P onboarding" unfolding onboarding_def
    by (rule stays_guarded) (intro sg.stays_rules sg_browser sg_clock sg_session sg_documents)
qed

lemma inspect_guarded: "guarded session_user inspect_browser_telemetry"
proof (rule guardedI)
  fix rt q ps w
  assume no: "\<not> session_user rt q w"
  obtain r w' where s: "optional_browser_session rt q w = (r, w')" by (cases "optional_browser_session rt q w")
  with sg.staysD [OF sg_session, of w rt q] have same: "aw_gateway w' = aw_gateway w" by (simp add: same_gateway_def)
  have "r \<noteq> Inr (Some x)" for x
    by (cases x) (use no s in \<open>auto simp: session_user_def dest: session_result\<close>)
  with s same show "aw_gateway (snd (inspect_browser_telemetry rt q ps w)) = aw_gateway w"
    by (auto simp: inspect_browser_telemetry_def obind_def oper_simps split: sum.split option.split)
qed

text \<open>The inspection sends only reads.\<close>

interpretation sr: state_frame "\<lambda>w w' :: app_world. sent_only is_read (aw_gateway w) (aw_gateway w')"
  by unfold_locales (rule so.rel_refl, erule (1) so.rel_trans)

lemma sr_gateway: "so.stays is_read m \<Longrightarrow> sr.stays (on_gateway m)"
proof (rule sr.staysI)
  fix w :: app_world
  assume m: "so.stays is_read m"
  obtain r g where g: "m (aw_gateway w) = (r, g)" by fastforce
  from so.staysD [OF m, of "aw_gateway w"] have "sent_only is_read (aw_gateway w) g" unfolding g by simp
  then show "sent_only is_read (aw_gateway w) (aw_gateway (snd (on_gateway m w)))" by (simp add: on_gateway_def g)
qed

lemma sr_quiet: "sg.stays m \<Longrightarrow> sr.stays m"
  unfolding sg.stays_def sr.stays_def same_gateway_def using so.rel_refl by metis

lemma control_inspect_reads: "so.stays is_read (control_inspect kc ctx vid)"
  unfolding control_inspect_def Let_def by (intro so.stays_rules so_small so_reads)

lemma inspect_reads: "sr.stays (inspect_browser_telemetry rt q ps)"
  unfolding inspect_browser_telemetry_def on_telemetry_failure_def
  by (intro sr.stays_rules sr_quiet [OF sg_session] sr_gateway control_inspect_reads)

lemma tail_unchanged:
  assumes "\<And>e. sg.stays (h e)"
  shows "aw_gateway (snd (ocatch (obind m (\<lambda>x. oret (f x))) h w)) = aw_gateway (snd (m w))"
proof -
  obtain r w' where m: "m w = (r, w')" by (cases "m w")
  show ?thesis
    using sg.staysD [OF assms, of w'] by (cases r) (auto simp: m ocatch_def obind_def oper_simps same_gateway_def)
qed

text \<open>A callback without a pending authorization changes nothing.\<close>

lemma oauth_unchanged:
  assumes "\<not> (\<exists>state p g. required_query_value q ''state'' = Inr state \<and> consume_oauth_state (me_store (tr_env t)) state
      (me_now (tr_env t) (w_events (aw_gateway w))) (w_db (aw_gateway w)) = (Inr p, g))"
  shows "aw_gateway (snd (finish_tesla_oauth t q binding w)) = aw_gateway w"
proof (cases "required_query_value q ''state''")
  case (Inl e)
  then show ?thesis by (simp add: finish_tesla_oauth_def obind_def oper_simps Let_def)
next
  case (Inr state)
  let ?consume = "consume_oauth_state (me_store (tr_env t)) state (me_now (tr_env t) (w_events (aw_gateway w)))"
  obtain r db where c: "?consume (w_db (aw_gateway w)) = (r, db)" by (cases "?consume (w_db (aw_gateway w))")
  with assms Inr obtain e where "r = Inl e" by (cases r) auto
  with c have "?consume (w_db (aw_gateway w)) = (Inl e, w_db (aw_gateway w))"
    by (simp add: consume_oauth_state_def transact_eq_Inl split: if_splits)
  with Inr show ?thesis
    by (auto simp: finish_tesla_oauth_def obind_def oper_simps Let_def on_gateway_def on_db_def now_of_def decline_def
        callback_def split: sum.split option.split)
qed

lemma oauth_guarded: "guarded pending_oauth complete_tesla_oauth"
proof (rule guardedI)
  fix rt q ps w
  assume no: "\<not> pending_oauth rt q w"
  show "aw_gateway (snd (complete_tesla_oauth rt q ps w)) = aw_gateway w"
  proof (cases "gr_tesla rt")
    case None
    then show ?thesis by (simp add: complete_tesla_oauth_def oper_simps)
  next
    case (Some t)
    obtain r w' where s: "optional_browser_session rt q w = (r, w')" by (cases "optional_browser_session rt q w")
    with sg.staysD [OF sg_session, of w rt q] have same: "aw_gateway w' = aw_gateway w" by (simp add: same_gateway_def)
    have fin: "aw_gateway (snd (finish_tesla_oauth t q b w')) = aw_gateway w" for b
      using oauth_unchanged [of q t w' b] no Some same unfolding pending_oauth_def by auto
    show ?thesis
    proof (cases r)
      case (Inl e)
      with s same Some show ?thesis by (simp add: complete_tesla_oauth_def obind_def)
    next
      case (Inr x)
      with s Some have "complete_tesla_oauth rt q ps w =
          ocatch (obind (finish_tesla_oauth t q (session_binding_of rt x)) (\<lambda>outcome. oret (tesla_oauth_answer t x outcome)))
           (\<lambda>e. case e of
              InvalidOAuthStateError m \<Rightarrow> oret (json_error 400 ''invalid_oauth_state'')
            | _ \<Rightarrow>
                if is_tesla_authentication_error e then oret (json_error 502 ''tesla_authorization_failed'')
                else if is_tesla_api_error e \<or> is_onboarding_error e then oret (json_error 502 ''tesla_onboarding_failed'')
                else oraise e) w'"
        by (simp add: complete_tesla_oauth_def obind_def)
      then show ?thesis
        by (simp only:, subst tail_unchanged) (auto simp: fin sg.stays_pure split: exn.split)
    qed
  qed
qed

subsection \<open>The routes\<close>

abbreviation path_of :: "web_request \<Rightarrow> string list" where
  "path_of q \<equiv> split_at (CHR ''/'') (rq_path q)"

definition inspection_path :: "segment list" where
  "inspection_path = fixed_path ''/onboarding/vehicles'' @ [Parameter, Fixed ''telemetry'']"

definition callback_path :: "segment list" where
  "callback_path = fixed_path ''/oauth/callback''"

text \<open>What allows a request to reach the Tesla side, by the table its route is in.\<close>

definition may_act :: "gateway_runtime \<Rightarrow> web_request \<Rightarrow> app_world \<Rightarrow> app_world \<Rightarrow> bool" where
  "may_act rt q w w' \<longleftrightarrow>
     (rq_method q = ''POST'' \<and> list_ex (\<lambda>(p, h). fits p (path_of q)) browser_forms \<and> form_user rt q w) \<or>
     (rq_method q \<in> {''GET'', ''HEAD''} \<and> fits inspection_path (path_of q) \<and> session_user rt q w \<and>
       sent_only is_read (aw_gateway w) (aw_gateway w')) \<or>
     (list_ex (\<lambda>(p, verbs, h). fits p (path_of q) \<and> rq_method q \<in> set verbs) bearer_routes \<and> token_user rt q w) \<or>
     (rq_method q \<in> {''GET'', ''HEAD''} \<and> fits callback_path (path_of q) \<and> pending_oauth rt q w)"

lemma forms_of_table: "(p, h) \<in> set browser_forms \<Longrightarrow> guarded form_user h"
  unfolding browser_forms_def by (simp only: list.set insert_iff empty_iff prod.inject) (elim disjE conjE FalseE; simp only: forms_guarded)

lemma bearers_of_table: "(p, verbs, h) \<in> set bearer_routes \<Longrightarrow> guarded token_user h"
  unfolding bearer_routes_def by (simp only: list.set insert_iff empty_iff prod.inject) (elim disjE conjE FalseE; simp only: bearers_guarded)

lemma public_of_table:
  "(p, h) \<in> set public_routes \<Longrightarrow> guarded (\<lambda>rt q w. False) h \<or> (p = inspection_path \<and> h = inspect_browser_telemetry) \<or>
     (p = callback_path \<and> h = complete_tesla_oauth)"
  unfolding public_routes_def inspection_path_def callback_path_def
  by (simp only: list.set insert_iff empty_iff prod.inject) (elim disjE conjE FalseE; simp only: publics_guarded simp_thms)

lemma routes_guarded:
  assumes "(p, verbs, h) \<in> set app_routes" and "rq_method q \<in> set verbs" and fits: "fits p (path_of q)"
    and w': "w' = snd (h rt q ps w)"
  shows "aw_gateway w' = aw_gateway w \<or> may_act rt q w w'"
proof -
  from assms(1) consider "(p, h) \<in> set public_routes" "verbs = reading_verbs"
    | "(p, h) \<in> set browser_forms" "verbs = [''POST'']" | "(p, verbs, h) \<in> set bearer_routes"
    by (auto simp: app_routes_def)
  then show ?thesis
  proof cases
    case 1
    with assms(2) have verb: "rq_method q \<in> {''GET'', ''HEAD''}" by simp
    from public_of_table [OF 1(1)] consider "guarded (\<lambda>rt q w. False) h" | "p = inspection_path" "h = inspect_browser_telemetry"
      | "p = callback_path" "h = complete_tesla_oauth" by blast
    then show ?thesis
    proof cases
      case 1
      with w' show ?thesis by (auto simp: guarded_def)
    next
      case 2
      with inspect_guarded w' have "aw_gateway w' = aw_gateway w \<or> session_user rt q w" by (auto simp: guarded_def)
      moreover from sr.staysD [OF inspect_reads] 2 w' have "sent_only is_read (aw_gateway w) (aw_gateway w')" by simp
      ultimately show ?thesis using verb fits 2(1) unfolding may_act_def by blast
    next
      case 3
      with oauth_guarded w' have "aw_gateway w' = aw_gateway w \<or> pending_oauth rt q w" by (auto simp: guarded_def)
      then show ?thesis using verb fits 3(1) unfolding may_act_def by blast
    qed
  next
    case 2
    with forms_of_table [OF 2(1)] w' have "aw_gateway w' = aw_gateway w \<or> form_user rt q w" by (auto simp: guarded_def)
    with 2 assms(2) fits show ?thesis by (auto simp: may_act_def list_ex_iff)
  next
    case 3
    with bearers_of_table [OF 3] w' have "aw_gateway w' = aw_gateway w \<or> token_user rt q w" by (auto simp: guarded_def)
    with 3 assms(2) fits show ?thesis unfolding may_act_def list_ex_iff by blast
  qed
qed

lemma find_SomeD: "find P xs = Some x \<Longrightarrow> x \<in> set xs \<and> P x"
  by (induction xs) (auto split: if_splits)

text \<open>C18: Every effect on the Tesla side is authorized: whatever request the routes answer, the Tesla database is
  unchanged and nothing is sent, except in five cases: a form posted to one of the four form routes, by a live
  session, with the token of that session; the telemetry inspection, a reading request that needs a live session but no form
  token, and then only reads are sent; a route of the programmatic surface whose bearer token verifies and resolves to a
  user; the callback, when an authorization is pending under the state of its query; and, for a path and method
  that no route of this application takes, the mounted MCP application, whose own token check is not part of these routes.\<close>
theorem every_effect_is_authorized:
  "case dispatch rt q w of (r, w') \<Rightarrow>
     aw_gateway w' = aw_gateway w \<or>
     (\<exists>ctx session. rq_method q = ''POST'' \<and> list_ex (\<lambda>(p, h). fits p (split_at (CHR ''/'') (rq_path q))) browser_forms \<and>
        live_session rt q w ctx session \<and> carries_token q session) \<or>
     (\<exists>ctx session. rq_method q \<in> {''GET'', ''HEAD''} \<and> fits inspection_path (split_at (CHR ''/'') (rq_path q)) \<and>
        live_session rt q w ctx session \<and> sent_only is_read (aw_gateway w) (aw_gateway w')) \<or>
     (\<exists>ctx. list_ex (\<lambda>(p, verbs, h). fits p (split_at (CHR ''/'') (rq_path q)) \<and> rq_method q \<in> set verbs) bearer_routes \<and>
        bearer_user rt q w ctx) \<or>
     (rq_method q \<in> {''GET'', ''HEAD''} \<and> fits callback_path (split_at (CHR ''/'') (rq_path q)) \<and> pending_oauth rt q w) \<or>
     (\<exists>mcp. gr_mcp rt = Some mcp \<and> dispatch rt q w = mcp q w \<and>
        \<not> list_ex (\<lambda>(p, verbs, h). fits p (split_at (CHR ''/'') (rq_path q)) \<and> rq_method q \<in> set verbs) app_routes)"
proof -
  let ?routes = "app_routes @ (case gr_mcp rt of
      None \<Rightarrow> [(fixed_path ''/mcp'', [''GET'', ''HEAD'', ''POST'', ''DELETE''], unavailable_mcp)] | Some m \<Rightarrow> [])"
  let ?find = "find (\<lambda>(p, verbs, h). fits p (path_of q) \<and> rq_method q \<in> set verbs) ?routes"
  obtain r w' where run: "dispatch rt q w = (r, w')" by fastforce
  have "aw_gateway w' = aw_gateway w \<or> may_act rt q w w' \<or> (\<exists>mcp. gr_mcp rt = Some mcp \<and> dispatch rt q w = mcp q w \<and>
      \<not> list_ex (\<lambda>(p, verbs, h). fits p (path_of q) \<and> rq_method q \<in> set verbs) app_routes)"
  proof (cases ?find)
    case None
    show ?thesis
    proof (cases "gr_mcp rt")
      case None
      with \<open>?find = None\<close> run have "w' = w"
        by (simp add: dispatch_def Let_def oper_simps split: if_splits)
      then show ?thesis by simp
    next
      case (Some mcp)
      with None have "dispatch rt q w = mcp q w" by (simp add: dispatch_def Let_def)
      moreover from None have "\<not> list_ex (\<lambda>(p, verbs, h). fits p (path_of q) \<and> rq_method q \<in> set verbs) app_routes"
        unfolding find_None_iff list_ex_iff by auto
      ultimately show ?thesis using Some by blast
    qed
  next
    case (Some x)
    obtain p verbs h where x: "x = (p, verbs, h)" by (cases x)
    from Some run have d: "w' = snd (h rt q (parameters p (path_of q)) w)" by (simp add: dispatch_def Let_def x)
    from Some have f: "(p, verbs, h) \<in> set ?routes" "rq_method q \<in> set verbs" "fits p (path_of q)"
      by (auto simp: x dest!: find_SomeD)
    then consider "(p, verbs, h) \<in> set app_routes" | "h = unavailable_mcp" by (auto split: option.splits)
    then show ?thesis
    proof cases
      case 1
      from routes_guarded [OF this f(2,3) d] show ?thesis by blast
    next
      case 2
      then show ?thesis by (simp add: d unavailable_mcp_def oper_simps)
    qed
  qed
  with run show ?thesis
    unfolding may_act_def form_user_def session_user_def token_user_def by auto
qed

text \<open>A callback of the platform sign-in without a query is not answered by the handler: the missing state raises
  an error of the Tesla onboarding, which neither of its clauses catches, before any login is looked at.\<close>
theorem platform_callback_without_state_is_unhandled:
  "complete_platform_login rt (q\<lparr>rq_query := []\<rparr>) ps w = (case gr_browser rt of
       None \<Rightarrow> (Inr sign_in_unconfigured, w)
     | Some be \<Rightarrow> (Inl (InvalidOAuthStateError ''OAuth callback parameter is invalid''), w))"
  by (simp add: complete_platform_login_def finish_platform_login_def optional_query_value_def required_query_value_def
      ocatch_def obind_def oper_simps Let_def split: option.split)

end
