(* ===== verification/AnalyticsCatalog.thy ===== *)
theory AnalyticsCatalog
  imports TelemetryConfig TelemetryModels
begin

text \<open>
  \<open>analytics/telemetry_fields.py\<close> and \<open>analytics/catalog.py\<close>: the pinned telemetry fields with their collection
  decision, the sample columns made from them, and the tables and views that a user may query.
\<close>

subsection \<open>The pinned fields\<close>

definition analytics_client_version :: string where "analytics_client_version = ''1.3.0''"

definition dashboard_categories :: "(string \<times> string) list" where
  "dashboard_categories =
     [(''Charging'', ''charging_samples''), (''Climate'', ''climate_samples''), (''Driving'', ''driving_samples''),
      (''Location'', ''location_samples''), (''Media'', ''media_samples'')]"

record catalog_entry =
  ce_field_name :: string
  ce_category :: string
  ce_value_type :: string
  ce_description :: string
  ce_configured :: bool
  ce_interval :: "int option"
  ce_minimum_delta :: "rat option"
  ce_include :: "string list"
  ce_exclusion_reason :: "string option"
  ce_profile_version :: string
  ce_schema_version :: string
  ce_client_version :: string

text \<open>\<open>float(config.minimum_delta)\<close>; the loader lets only numbers through.\<close>

definition delta_of :: "val \<Rightarrow> rat option" where
  "delta_of v = (case v of VInt i \<Rightarrow> Some (of_int i) | VFloat q \<Rightarrow> Some q | _ \<Rightarrow> None)"

definition catalog_entry_of :: "telemetry_profile \<Rightarrow> field_definition \<Rightarrow> catalog_entry" where
  "catalog_entry_of p d =
     (let config = map_of (fp_fields p) (fd_name d)
      in \<lparr>ce_field_name = fd_name d, ce_category = fd_category d, ce_value_type = fd_value_type d,
          ce_description = fd_description d, ce_configured = (config \<noteq> None),
          ce_interval = map_option tf_interval config, ce_minimum_delta = Option.bind config (\<lambda>f. delta_of (tf_delta f)),
          ce_include = (case config of None \<Rightarrow> [] | Some f \<Rightarrow> tf_include f),
          ce_exclusion_reason = map_of (fp_excluded p) (fd_name d), ce_profile_version = fp_version p,
          ce_schema_version = fp_schema_version p, ce_client_version = analytics_client_version\<rparr>)"

text \<open>\<open>rows\<close> is the pinned field file, \<open>baseline\<close> and \<open>profile\<close> the two profile documents.\<close>

definition telemetry_catalog_entries :: "dict list \<Rightarrow> dict \<Rightarrow> dict \<Rightarrow> exn + catalog_entry list" where
  "telemetry_catalog_entries rows baseline profile =
     rbind (broad_profile rows baseline profile (Some analytics_client_version)) (\<lambda>p.
     rbind (load_field_catalog rows) (\<lambda>ds. Inr (map (catalog_entry_of p) ds)))"

subsection \<open>Column names\<close>

definition ascii_upper :: "char \<Rightarrow> bool" where "ascii_upper c \<longleftrightarrow> (65 :: nat) \<le> of_char c \<and> of_char c \<le> (90 :: nat)"

definition ascii_lower :: "char \<Rightarrow> bool" where "ascii_lower c \<longleftrightarrow> (97 :: nat) \<le> of_char c \<and> of_char c \<le> (122 :: nat)"

definition ascii_digit :: "char \<Rightarrow> bool" where "ascii_digit c \<longleftrightarrow> (48 :: nat) \<le> of_char c \<and> of_char c \<le> (57 :: nat)"

text \<open>An underscore before every capital that a small letter follows, then one between a small letter or a
  digit and the capital after it; both substitutions go on behind what they matched.\<close>

function split_words :: "string \<Rightarrow> string" where
  "split_words (c # u # l # s) =
     (if c \<noteq> CHR 0x0A \<and> ascii_upper u \<and> ascii_lower l
      then c # CHR ''_'' # u # takeWhile ascii_lower (l # s) @ split_words (dropWhile ascii_lower (l # s))
      else c # split_words (u # l # s))"
| "split_words [a, b] = [a, b]"
| "split_words [a] = [a]"
| "split_words [] = []"
  by pat_completeness auto

termination
proof (relation "measure length", simp_all, goal_cases)
  case (1 c u l s)
  then show ?case using length_dropWhile_le [of ascii_lower s] by simp
qed

fun split_capitals :: "string \<Rightarrow> string" where
  "split_capitals (a # b # s) =
     (if (ascii_lower a \<or> ascii_digit a) \<and> ascii_upper b then a # CHR ''_'' # b # split_capitals s
      else a # split_capitals (b # s))"
| "split_capitals s = s"

definition snake_case :: "string \<Rightarrow> string" where
  "snake_case s = lower (split_capitals (split_words s))"

subsection \<open>Sample columns\<close>

record sample_column =
  sc_name :: string
  sc_field_name :: string
  sc_field_type :: string
  sc_expression :: string
  sc_description :: string

definition sample_columns :: "catalog_entry \<Rightarrow> sample_column list" where
  "sample_columns e =
     (let base = snake_case (ce_field_name e); field = ce_field_name e; kind = ce_value_type e;
          description = ce_description e @ '' NULL means this field was not emitted in the sample.'';
          one = (\<lambda>t x d. [\<lparr>sc_name = base, sc_field_name = field, sc_field_type = t, sc_expression = x, sc_description = d\<rparr>])
      in if kind = ''Location''
         then [\<lparr>sc_name = base @ ''_latitude'', sc_field_name = field, sc_field_type = ''FLOAT64'', sc_expression = ''latitude'',
                sc_description = ''Latitude component. '' @ description\<rparr>,
               \<lparr>sc_name = base @ ''_longitude'', sc_field_name = field, sc_field_type = ''FLOAT64'', sc_expression = ''longitude'',
                sc_description = ''Longitude component. '' @ description\<rparr>]
         else if kind = ''boolean'' then one ''BOOLEAN'' ''boolean_value'' description
         else if kind = ''integer'' then one ''INTEGER'' ''CAST(numeric_value AS INT64)'' description
         else if kind = ''real'' then one ''FLOAT64'' ''numeric_value'' description
         else if kind \<in> {''enum'', ''string''} then one ''STRING'' ''string_value'' description
         else one ''STRING'' ''COALESCE(string_value, CAST(numeric_value AS STRING), TO_JSON_STRING(value_json))''
           (''Tesla-reported '' @ kind @ '' representation; intentionally not normalized. '' @ description))"

record category_sample =
  cs_category :: string
  cs_view_name :: string
  cs_sample_fields :: "catalog_entry list"
  cs_columns :: "sample_column list"

definition category_sample_of :: "catalog_entry list \<Rightarrow> string \<times> string \<Rightarrow> exn + category_sample" where
  "category_sample_of entries target = (case target of (category, view_name) \<Rightarrow>
     let chosen = filter (\<lambda>e. ce_configured e \<and> ce_category e = category) entries;
         cols = concat (map sample_columns chosen)
     in if \<not> distinct (map sc_name cols) then Inl (RuntimeError (''Telemetry columns collide in category '' @ category))
        else Inr \<lparr>cs_category = category, cs_view_name = view_name, cs_sample_fields = chosen, cs_columns = cols\<rparr>)"

definition category_sample_specs :: "catalog_entry list \<Rightarrow> exn + category_sample list" where
  "category_sample_specs entries = rmap (category_sample_of entries) dashboard_categories"

subsection \<open>The catalog\<close>

record analytics_column =
  an_name :: string
  an_field_type :: string
  an_description :: string

record analytics_object =
  ao_name :: string
  ao_kind :: string
  ao_description :: string
  ao_columns :: "analytics_column list"
  ao_join_keys :: "string list"
  ao_partition_hint :: "string option"

definition columns :: "(string \<times> string \<times> string) list \<Rightarrow> analytics_column list" where
  "columns = map (\<lambda>(n, t, d). \<lparr>an_name = n, an_field_type = t, an_description = d\<rparr>)"

definition raw_telemetry_table :: string where "raw_telemetry_table = ''raw_telemetry_events''"

text \<open>The descriptions of the columns of \<^const>\<open>raw_telemetry_schema\<close>.\<close>

definition raw_telemetry_descriptions :: "(string \<times> string) list" where
  "raw_telemetry_descriptions = [
     (''source_timestamp'', ''Timestamp supplied by the vehicle.''),
     (''ingested_at'', ''Timestamp at which telemetry-edge accepted the record.''),
     (''processed_at'', ''Timestamp at which telemetry-processor handled this delivery.''),
     (''vehicle_id'', ''Opaque internal vehicle ID.''), (''vin'', ''VIN retained for source provenance.''),
     (''tesla_vehicle_id'', ''Tesla account vehicle identifier.''), (''record_type'', ''Tesla record type.''),
     (''payload'', ''Complete decoded Tesla payload.''),
     (''telemetry_config_version'', ''Server-recorded source configuration version when available.''),
     (''telemetry_config_hash'', ''Server-recorded source configuration hash when available.''),
     (''transport_message_id'', ''Tesla Fleet Telemetry transaction ID.''),
     (''pubsub_message_id'', ''Google Pub/Sub message ID.''),
     (''pubsub_publish_time'', ''Google Pub/Sub publish timestamp.''),
     (''pubsub_delivery_attempt'', ''Approximate Pub/Sub delivery attempt when supplied.''),
     (''telemetry_client_version'', ''Vehicle Fleet Telemetry client version.''),
     (''telemetry_receiver_version'', ''Pinned Tesla Fleet Telemetry receiver version.''),
     (''receiver_record_version'', ''Receiver transport record version when supplied.'')]"

definition raw_object :: analytics_object where
  "raw_object = \<lparr>ao_name = raw_telemetry_table, ao_kind = ''table'',
     ao_description = ''Permanent append-only decoded Fleet Telemetry deliveries; raw truth is authoritative.'',
     ao_columns = columns (map (\<lambda>(n, t, m). (n, t, the (map_of raw_telemetry_descriptions n))) raw_telemetry_schema),
     ao_join_keys = [''vehicle_id''], ao_partition_hint = Some ''Filter source_timestamp to prune the daily partition.''\<rparr>"

definition telemetry_field_catalog_object :: analytics_object where
  "telemetry_field_catalog_object = \<lparr>ao_name = ''telemetry_field_catalog'', ao_kind = ''view'',
     ao_description = ''Pinned Tesla field taxonomy and reviewed Woodhouse collection policy.'',
     ao_columns = columns [
         (''field_name'', ''STRING'', ''Tesla Fleet Telemetry field name.''),
         (''category'', ''STRING'', ''Tesla's documented field category.''),
         (''value_type'', ''STRING'', ''Tesla's documented value type.''),
         (''description'', ''STRING'', ''Tesla's documented field meaning.''),
         (''configured'', ''BOOLEAN'', ''Whether the full broad-v4 profile requests this field; not proof of emission.''),
         (''interval_seconds'', ''INTEGER'', ''Requested minimum emission interval.''),
         (''minimum_delta'', ''FLOAT64'', ''Requested change threshold when configured.''),
         (''include_fields'', ''ARRAY<STRING>'', ''Fields requested in synchronized delivery.''),
         (''exclusion_reason'', ''STRING'', ''Reviewed reason an unconfigured field is omitted.''),
         (''profile_version'', ''STRING'', ''Woodhouse field profile version.''),
         (''schema_version'', ''STRING'', ''Pinned Tesla field schema snapshot.''),
         (''target_client_version'', ''STRING'', ''Fleet Telemetry client capability target used to expand the profile.'')],
     ao_join_keys = [''field_name''], ao_partition_hint = None\<rparr>"

definition telemetry_observations_object :: analytics_object where
  "telemetry_observations_object = \<lparr>ao_name = ''telemetry_observations'', ao_kind = ''view'',
     ao_description = ''One typed row per Fleet Telemetry datum after exact Pub/Sub redelivery de-duplication; Tesla resend observations remain visible.'',
     ao_columns = columns [
         (''source_timestamp'', ''TIMESTAMP'', ''Vehicle observation time.''),
         (''ingested_at'', ''TIMESTAMP'', ''Telemetry-edge acceptance time.''),
         (''processed_at'', ''TIMESTAMP'', ''Processor handling time.''),
         (''vehicle_id'', ''STRING'', ''Opaque internal vehicle identifier.''),
         (''record_type'', ''STRING'', ''Tesla record type.''),
         (''field_name'', ''STRING'', ''Fleet Telemetry field name.''),
         (''is_invalid'', ''BOOLEAN'', ''Tesla marked this field value invalid.''),
         (''numeric_value'', ''FLOAT64'', ''Numeric representation when available.''),
         (''string_value'', ''STRING'', ''String or enum representation when available.''),
         (''boolean_value'', ''BOOLEAN'', ''Boolean representation when available.''),
         (''latitude'', ''FLOAT64'', ''Latitude for a Location value.''),
         (''longitude'', ''FLOAT64'', ''Longitude for a Location value.''),
         (''value_json'', ''JSON'', ''Complete typed protobuf value object.''),
         (''telemetry_config_version'', ''STRING'', ''Trusted source profile version.''),
         (''telemetry_config_hash'', ''STRING'', ''Trusted source profile hash.''),
         (''transport_message_id'', ''STRING'', ''Tesla transaction identifier.''),
         (''pubsub_message_id'', ''STRING'', ''Google Pub/Sub message identifier.''),
         (''telemetry_client_version'', ''STRING'', ''Vehicle telemetry client version.''),
         (''telemetry_receiver_version'', ''STRING'', ''Pinned receiver build version.''),
         (''receiver_record_version'', ''INTEGER'', ''Receiver-decoded record protocol version.'')],
     ao_join_keys = [''vehicle_id''], ao_partition_hint = Some ''Always filter source_timestamp for bounded historical scans.''\<rparr>"

definition vehicle_state_changes_object :: analytics_object where
  "vehicle_state_changes_object = \<lparr>ao_name = ''vehicle_state_changes'', ao_kind = ''view'',
     ao_description = ''Successive valid field changes with previous typed values for transition analysis.'',
     ao_columns = columns [
         (''source_timestamp'', ''TIMESTAMP'', ''Time of the new state.''),
         (''vehicle_id'', ''STRING'', ''Opaque internal vehicle identifier.''),
         (''field_name'', ''STRING'', ''Changed Fleet Telemetry field.''),
         (''numeric_value'', ''FLOAT64'', ''New numeric value.''),
         (''previous_numeric_value'', ''FLOAT64'', ''Previous numeric value.''),
         (''string_value'', ''STRING'', ''New string or enum value.''),
         (''previous_string_value'', ''STRING'', ''Previous string or enum value.''),
         (''boolean_value'', ''BOOLEAN'', ''New boolean value.''),
         (''previous_boolean_value'', ''BOOLEAN'', ''Previous boolean value.''),
         (''latitude'', ''FLOAT64'', ''New location latitude.''),
         (''longitude'', ''FLOAT64'', ''New location longitude.''),
         (''previous_latitude'', ''FLOAT64'', ''Previous location latitude.''),
         (''previous_longitude'', ''FLOAT64'', ''Previous location longitude.''),
         (''value_json'', ''JSON'', ''Complete new typed value.''),
         (''previous_value_json'', ''JSON'', ''Complete previous typed value.''),
         (''pubsub_message_id'', ''STRING'', ''Source delivery identifier.'')],
     ao_join_keys = [''vehicle_id''], ao_partition_hint = Some ''Filter source_timestamp and field_name before transition analysis.''\<rparr>"

definition drive_metric_boundaries_object :: analytics_object where
  "drive_metric_boundaries_object = \<lparr>ao_name = ''drive_metric_boundaries'', ao_kind = ''view'',
     ao_description = ''Selected start/end state for each Gear-defined drive with inspectable provenance.'',
     ao_columns = columns [
         (''drive_id'', ''STRING'', ''Deterministic vehicle/start-time drive identifier.''),
         (''vehicle_id'', ''STRING'', ''Opaque internal vehicle identifier.''),
         (''started_at'', ''TIMESTAMP'', ''Driving Gear transition.''),
         (''ended_at'', ''TIMESTAMP'', ''Subsequent non-driving Gear transition.''),
         (''boundary_name'', ''STRING'', ''start or end.''),
         (''field_name'', ''STRING'', ''Boundary metric: odometer, energy, SOC, or location.''),
         (''boundary_at'', ''TIMESTAMP'', ''Actual Gear boundary timestamp.''),
         (''selected_observation_at'', ''TIMESTAMP'', ''Chosen metric observation timestamp.''),
         (''observation_offset_milliseconds'', ''INTEGER'', ''Signed observation age at boundary.''),
         (''selected_numeric_value'', ''FLOAT64'', ''Chosen numeric boundary value.''),
         (''selected_latitude'', ''FLOAT64'', ''Chosen boundary latitude.''),
         (''selected_longitude'', ''FLOAT64'', ''Chosen boundary longitude.''),
         (''inference_method'', ''STRING'', ''Exact, as-of state, stationary, or sparse fallback method.''),
         (''boundary_message_id'', ''STRING'', ''Pub/Sub delivery containing the Gear transition.''),
         (''observation_message_id'', ''STRING'', ''Pub/Sub delivery containing the chosen value.'')],
     ao_join_keys = [''drive_id'', ''vehicle_id''], ao_partition_hint = Some ''Filter started_at for bounded boundary diagnostics.''\<rparr>"

definition drives_object :: analytics_object where
  "drives_object = \<lparr>ao_name = ''drives'', ao_kind = ''view'',
     ao_description = ''Drive sessions reconstructed from forward/reverse Gear transitions and nearby observations.'',
     ao_columns = columns [
         (''drive_id'', ''STRING'', ''Deterministic vehicle/start-time drive identifier.''),
         (''vehicle_id'', ''STRING'', ''Opaque internal vehicle identifier.''),
         (''started_at'', ''TIMESTAMP'', ''First driving Gear transition.''),
         (''ended_at'', ''TIMESTAMP'', ''First subsequent non-driving Gear transition.''),
         (''is_ongoing'', ''BOOLEAN'', ''No ending Gear transition has arrived yet.''),
         (''duration_seconds'', ''INTEGER'', ''Observed session duration.''),
         (''start_odometer_miles'', ''FLOAT64'', ''Odometer selected at the Gear start boundary.''),
         (''end_odometer_miles'', ''FLOAT64'', ''Odometer selected at the Gear end boundary.''),
         (''distance_miles'', ''FLOAT64'', ''Non-negative odometer delta.''),
         (''route_distance_miles'', ''FLOAT64'', ''Plausibility-filtered GPS polyline distance.''),
         (''route_point_count'', ''INTEGER'', ''Location points available for route distance.''),
         (''route_rejected_segment_count'', ''INTEGER'', ''GPS segments rejected above the 200 mph plausibility ceiling.''),
         (''route_quality'', ''STRING'', ''Usable, insufficient, zero, or rejected route evidence.''),
         (''best_available_distance_miles'', ''FLOAT64'', ''Odometer distance, otherwise positive GPS route distance.''),
         (''distance_method'', ''STRING'', ''Odometer, GPS fallback, or unavailable.''),
         (''start_energy_kwh'', ''FLOAT64'', ''EnergyRemaining selected at the start boundary.''),
         (''end_energy_kwh'', ''FLOAT64'', ''EnergyRemaining selected at the end boundary.''),
         (''energy_used_kwh'', ''FLOAT64'', ''Non-negative EnergyRemaining decrease.''),
         (''start_soc_percent'', ''FLOAT64'', ''Usable SOC selected at the start boundary.''),
         (''end_soc_percent'', ''FLOAT64'', ''Usable SOC selected at the end boundary.''),
         (''efficiency_wh_per_mile'', ''FLOAT64'', ''Energy used divided by distance.''),
         (''maximum_speed_mph'', ''FLOAT64'', ''Maximum observed VehicleSpeed.''),
         (''start_latitude'', ''FLOAT64'', ''First observed session latitude.''),
         (''start_longitude'', ''FLOAT64'', ''First observed session longitude.''),
         (''end_latitude'', ''FLOAT64'', ''Last observed session latitude.''),
         (''end_longitude'', ''FLOAT64'', ''Last observed session longitude.''),
         (''observation_count'', ''INTEGER'', ''Typed observations assigned to the session.''),
         (''largest_sample_gap_seconds'', ''INTEGER'', ''Largest source-time gap in the session.''),
         (''telemetry_config_hash'', ''STRING'', ''Most recent profile hash in the session.''),
         (''boundary_quality'', ''STRING'', ''Exact, stationary inference, or sparse fallback.'')],
     ao_join_keys = [''vehicle_id''], ao_partition_hint = Some ''Filter started_at for trip/date questions.''\<rparr>"

definition charge_sessions_object :: analytics_object where
  "charge_sessions_object = \<lparr>ao_name = ''charge_sessions'', ao_kind = ''view'',
     ao_description = ''Charging sessions from authoritative DetailedChargeState with bounded ChargeState fallback.'',
     ao_columns = columns [
         (''charge_session_id'', ''STRING'', ''Deterministic vehicle/start-time identifier.''),
         (''vehicle_id'', ''STRING'', ''Opaque internal vehicle identifier.''),
         (''started_at'', ''TIMESTAMP'', ''Observed transition into charging.''),
         (''ended_at'', ''TIMESTAMP'', ''First observed transition out of charging.''),
         (''is_ongoing'', ''BOOLEAN'', ''No ending transition has arrived yet.''),
         (''duration_seconds'', ''INTEGER'', ''Observed session duration.''),
         (''start_soc_percent'', ''FLOAT64'', ''First usable SOC observation.''),
         (''end_soc_percent'', ''FLOAT64'', ''Last usable SOC observation.''),
         (''soc_added_percent'', ''FLOAT64'', ''Non-negative SOC increase.''),
         (''start_soc_observed_at'', ''TIMESTAMP'', ''Source time of selected start SOC.''),
         (''end_soc_observed_at'', ''TIMESTAMP'', ''Source time of selected end SOC.''),
         (''start_soc_observation_offset_milliseconds'', ''INTEGER'', ''Signed selected-SOC offset from charge start.''),
         (''end_soc_observation_offset_milliseconds'', ''INTEGER'', ''Signed selected-SOC offset from charge end.''),
         (''ac_energy_counter_kwh'', ''FLOAT64'', ''Measured AC session-counter increase.''),
         (''ac_energy_tail_kwh'', ''FLOAT64'', ''Bounded post-counter AC power integral.''),
         (''ac_energy_added_kwh'', ''FLOAT64'', ''Measured AC counter increase plus any defensible bounded tail.''),
         (''ac_energy_upper_bound_kwh'', ''FLOAT64'', ''Power/duration plausibility bound.''),
         (''dc_energy_counter_kwh'', ''FLOAT64'', ''Measured battery-side counter increase.''),
         (''dc_energy_tail_kwh'', ''FLOAT64'', ''Bounded post-counter DC power integral.''),
         (''dc_energy_added_kwh'', ''FLOAT64'', ''Measured battery-side counter increase plus any defensible DC tail.''),
         (''dc_energy_upper_bound_kwh'', ''FLOAT64'', ''Power/input plausibility bound.''),
         (''battery_energy_added_kwh'', ''FLOAT64'', ''Battery-side energy added for AC or DC.''),
         (''charging_efficiency_percent'', ''FLOAT64'', ''Battery energy divided by AC wall energy.''),
         (''start_energy_remaining_kwh'', ''FLOAT64'', ''Battery energy at session start.''),
         (''end_energy_remaining_kwh'', ''FLOAT64'', ''Battery energy at session end.''),
         (''start_odometer_miles'', ''FLOAT64'', ''Odometer at charge start.''),
         (''end_odometer_miles'', ''FLOAT64'', ''Odometer at charge end.''),
         (''distance_since_previous_charge_miles'', ''FLOAT64'', ''Odometer distance since the previous charge ended.''),
         (''maximum_ac_power_kw'', ''FLOAT64'', ''Maximum observed AC charging power.''),
         (''maximum_dc_power_kw'', ''FLOAT64'', ''Maximum observed DC charging power.''),
         (''maximum_voltage'', ''FLOAT64'', ''Maximum observed charger voltage.''),
         (''start_latitude'', ''FLOAT64'', ''First observed charging latitude.''),
         (''start_longitude'', ''FLOAT64'', ''First observed charging longitude.''),
         (''end_latitude'', ''FLOAT64'', ''Charge-end latitude when available.''),
         (''end_longitude'', ''FLOAT64'', ''Charge-end longitude when available.''),
         (''observation_count'', ''INTEGER'', ''Typed observations assigned to the session.''),
         (''state_source'', ''STRING'', ''Detailed state or coarse fallback session source.''),
         (''soc_boundary_method'', ''STRING'', ''Start SOC boundary inference provenance.''),
         (''end_soc_boundary_method'', ''STRING'', ''End SOC boundary inference provenance.''),
         (''odometer_boundary_method'', ''STRING'', ''Start odometer inference provenance.''),
         (''end_odometer_boundary_method'', ''STRING'', ''End odometer inference provenance.''),
         (''location_boundary_method'', ''STRING'', ''Start location inference provenance.''),
         (''end_location_boundary_method'', ''STRING'', ''End location inference provenance.''),
         (''ac_energy_method'', ''STRING'', ''Exact, observed, or bounded power integration.''),
         (''dc_energy_method'', ''STRING'', ''Battery counter boundary inference provenance.''),
         (''start_ac_energy_method'', ''STRING'', ''Selected AC counter baseline provenance.''),
         (''start_dc_energy_method'', ''STRING'', ''Selected battery counter baseline provenance.''),
         (''energy_quality'', ''STRING'', ''Validated, uncertain baseline/reset, unavailable/unbounded, anomalous, or implausible.''),
         (''telemetry_config_hash'', ''STRING'', ''Most recent profile hash in the session.'')],
     ao_join_keys = [''vehicle_id''], ao_partition_hint = Some ''Filter started_at for billing or charging-history questions.''\<rparr>"

definition drive_path_points_object :: analytics_object where
  "drive_path_points_object = \<lparr>ao_name = ''drive_path_points'', ao_kind = ''view'',
     ao_description = ''Route points with GPS distance scaled to the drive odometer boundary distance.'',
     ao_columns = columns [
         (''drive_id'', ''STRING'', ''Drive identifier.''),
         (''vehicle_id'', ''STRING'', ''Opaque internal vehicle identifier.''),
         (''source_timestamp'', ''TIMESTAMP'', ''Location observation time.''),
         (''latitude'', ''FLOAT64'', ''Route latitude.''), (''longitude'', ''FLOAT64'', ''Route longitude.''),
         (''speed_mph'', ''FLOAT64'', ''Most recent speed at this point.''),
         (''soc_percent'', ''FLOAT64'', ''Most recent SOC at this point.''),
         (''distance_into_drive_miles'', ''FLOAT64'', ''Scaled distance from drive start.''),
         (''segment_distance_miles'', ''FLOAT64'', ''Raw GPS distance from prior point.''),
         (''raw_route_distance_miles'', ''FLOAT64'', ''Total unscaled GPS polyline distance.''),
         (''boundary_distance_miles'', ''FLOAT64'', ''Odometer-derived drive distance.''),
         (''best_available_distance_miles'', ''FLOAT64'', ''Drive distance used for scaling.''),
         (''distance_method'', ''STRING'', ''Odometer, GPS fallback, or unavailable.''),
         (''route_quality'', ''STRING'', ''Quality of the GPS route used for point scaling.'')],
     ao_join_keys = [''drive_id'', ''vehicle_id'', ''source_timestamp''], ao_partition_hint = Some ''Filter source_timestamp or join through a bounded drive window.''\<rparr>"

definition drive_fsd_segments_object :: analytics_object where
  "drive_fsd_segments_object = \<lparr>ao_name = ''drive_fsd_segments'', ao_kind = ''view'',
     ao_description = ''Distance buckets inferred as manual, FSD, or uncertain from cumulative counters.'',
     ao_columns = columns [
         (''drive_id'', ''STRING'', ''Drive identifier.''),
         (''segment_index'', ''INTEGER'', ''Distance-ordered segment number.''),
         (''started_at'', ''TIMESTAMP'', ''Nearest route time to inferred segment start.''),
         (''ended_at'', ''TIMESTAMP'', ''Nearest route time to inferred segment end.''),
         (''start_latitude'', ''FLOAT64'', ''Nearest route latitude at segment start.''),
         (''start_longitude'', ''FLOAT64'', ''Nearest route longitude at segment start.''),
         (''end_latitude'', ''FLOAT64'', ''Nearest route latitude at segment end.''),
         (''end_longitude'', ''FLOAT64'', ''Nearest route longitude at segment end.''),
         (''start_distance_miles'', ''FLOAT64'', ''Distance from drive start.''),
         (''end_distance_miles'', ''FLOAT64'', ''Distance from drive start.''),
         (''distance_miles'', ''FLOAT64'', ''Inferred segment distance.''),
         (''state'', ''STRING'', ''manual, fsd, or uncertain.''),
         (''confidence'', ''FLOAT64'', ''Inference confidence from zero to one.''),
         (''inference_method'', ''STRING'', ''Counter pairing/allocation method.''),
         (''transition_lower_bound_miles'', ''FLOAT64'', ''Lower distance bound for transition.''),
         (''transition_upper_bound_miles'', ''FLOAT64'', ''Upper distance bound for transition.'')],
     ao_join_keys = [''drive_id''], ao_partition_hint = Some ''Filter started_at or select bounded drive IDs.''\<rparr>"

definition drive_fsd_summary_object :: analytics_object where
  "drive_fsd_summary_object = \<lparr>ao_name = ''drive_fsd_summary'', ao_kind = ''view'',
     ao_description = ''Per-drive aggregate FSD/manual/uncertain distance with explicit confidence.'',
     ao_columns = columns [
         (''drive_id'', ''STRING'', ''Drive identifier.''),
         (''vehicle_id'', ''STRING'', ''Opaque internal vehicle identifier.''),
         (''started_at'', ''TIMESTAMP'', ''Drive start.''), (''ended_at'', ''TIMESTAMP'', ''Drive end.''),
         (''total_distance_miles'', ''FLOAT64'', ''Best available drive distance.''),
         (''fsd_distance_miles'', ''FLOAT64'', ''Distance inferred as FSD.''),
         (''manual_distance_miles'', ''FLOAT64'', ''Distance inferred as manual.''),
         (''uncertain_distance_miles'', ''FLOAT64'', ''Distance lacking counter evidence.''),
         (''fsd_percent'', ''FLOAT64'', ''FSD distance divided by drive distance.''),
         (''minimum_confidence'', ''FLOAT64'', ''Lowest segment confidence.''),
         (''segment_count'', ''INTEGER'', ''Number of inferred segments.''),
         (''classified_distance_miles'', ''FLOAT64'', ''Sum of all classification states.''),
         (''unclassified_distance_miles'', ''FLOAT64'', ''Residual distance after classification.''),
         (''classification_complete'', ''BOOLEAN'', ''Classification reconciles within 0.001 mile.'')],
     ao_join_keys = [''drive_id'', ''vehicle_id''], ao_partition_hint = Some ''Filter started_at for trip/date analysis.''\<rparr>"

definition drive_path_object :: analytics_object where
  "drive_path_object = \<lparr>ao_name = ''drive_path'', ao_kind = ''view'',
     ao_description = ''Route-friendly points annotated with inferred FSD state and confidence.'',
     ao_columns = columns [
         (''drive_id'', ''STRING'', ''Drive identifier.''),
         (''vehicle_id'', ''STRING'', ''Opaque internal vehicle identifier.''),
         (''source_timestamp'', ''TIMESTAMP'', ''Route point time.''),
         (''latitude'', ''FLOAT64'', ''Route latitude.''), (''longitude'', ''FLOAT64'', ''Route longitude.''),
         (''speed_mph'', ''FLOAT64'', ''Carried speed context.''),
         (''soc_percent'', ''FLOAT64'', ''Carried SOC context.''),
         (''distance_into_drive_miles'', ''FLOAT64'', ''Distance from drive start.''),
         (''fsd_state'', ''STRING'', ''manual, fsd, or uncertain.''),
         (''fsd_confidence'', ''FLOAT64'', ''Segment inference confidence.''),
         (''fsd_inference_method'', ''STRING'', ''Segment inference provenance.'')],
     ao_join_keys = [''drive_id'', ''vehicle_id'', ''source_timestamp''], ao_partition_hint = Some ''Filter source_timestamp or select bounded drive IDs.''\<rparr>"

definition telemetry_capability_diagnostics_object :: analytics_object where
  "telemetry_capability_diagnostics_object = \<lparr>ao_name = ''telemetry_capability_diagnostics'', ao_kind = ''view'',
     ao_description = ''Latest client/receiver/profile metadata and seven-day include-fields evidence.'',
     ao_columns = columns [
         (''vehicle_id'', ''STRING'', ''Opaque internal vehicle identifier.''),
         (''vehicle_firmware'', ''STRING'', ''Latest telemetry-reported firmware.''),
         (''telemetry_client_version'', ''STRING'', ''Latest connection client version.''),
         (''observed_client_versions'', ''ARRAY<STRING>'', ''Client versions seen in history.''),
         (''current_client_first_seen_at'', ''TIMESTAMP'', ''First row using the current client.''),
         (''current_client_last_seen_at'', ''TIMESTAMP'', ''Latest row using the current client.''),
         (''telemetry_receiver_version'', ''STRING'', ''Pinned receiver build.''),
         (''desired_profile_version'', ''STRING'', ''Trusted applied profile version.''),
         (''desired_profile_hash'', ''STRING'', ''Trusted applied profile hash.''),
         (''minimum_client_for_include_fields'', ''STRING'', ''Required client capability.''),
         (''include_fields_requested'', ''BOOLEAN'', ''Applied profile/client imply includes.''),
         (''include_fields_observed_recently'', ''BOOLEAN'', ''Recent synchronized payload evidence.''),
         (''gear_anchor_messages'', ''INTEGER'', ''Recent Gear anchor messages.''),
         (''synchronized_gear_messages'', ''INTEGER'', ''Gear messages carrying boundary fields.''),
         (''charge_anchor_messages'', ''INTEGER'', ''Recent DetailedChargeState messages.''),
         (''synchronized_charge_messages'', ''INTEGER'', ''Charge anchors carrying metrics.''),
         (''fsd_counter_messages'', ''INTEGER'', ''Recent FSD/total counter messages.''),
         (''synchronized_fsd_messages'', ''INTEGER'', ''Messages carrying both counters.''),
         (''recent_message_count'', ''INTEGER'', ''Messages in the seven-day evidence window.''),
         (''messages_with_profile_provenance'', ''INTEGER'', ''Recent messages carrying trusted config version and hash.''),
         (''capability_status'', ''STRING'', ''Healthy, limited, missing evidence, or mismatch.''),
         (''latest_telemetry_at'', ''TIMESTAMP'', ''Latest received vehicle datum time.'')],
     ao_join_keys = [''vehicle_id''], ao_partition_hint = Some ''This diagnostic intentionally considers only recent evidence.''\<rparr>"

definition media_history_object :: analytics_object where
  "media_history_object = \<lparr>ao_name = ''media_history'', ao_kind = ''view'',
     ao_description = ''Contiguous track/station and playback-state intervals reconstructed from media changes.'',
     ao_columns = columns [
         (''media_interval_id'', ''STRING'', ''Deterministic vehicle/start-time interval ID.''),
         (''vehicle_id'', ''STRING'', ''Opaque internal vehicle identifier.''),
         (''started_at'', ''TIMESTAMP'', ''First observation in the interval.''),
         (''ended_at'', ''TIMESTAMP'', ''Next media identity/state boundary when observed.''),
         (''title'', ''STRING'', ''Track or item title.''), (''artist'', ''STRING'', ''Artist.''),
         (''album'', ''STRING'', ''Album.''), (''station'', ''STRING'', ''Station when available.''),
         (''playback_source'', ''STRING'', ''Media source.''),
         (''playback_status'', ''STRING'', ''Playing, paused, stopped, or unknown enum.''),
         (''duration_ms'', ''INTEGER'', ''Reported item duration.''),
         (''start_elapsed_ms'', ''INTEGER'', ''Playback position at interval start.''),
         (''end_elapsed_ms'', ''INTEGER'', ''Latest playback position in the interval.''),
         (''maximum_audio_volume'', ''FLOAT64'', ''Maximum observed volume in the interval.''),
         (''observation_count'', ''INTEGER'', ''Media update points in the interval.'')],
     ao_join_keys = [''vehicle_id''], ao_partition_hint = Some ''Filter started_at and join by vehicle_id plus an overlapping drive window.''\<rparr>"

definition daily_vehicle_summary_object :: analytics_object where
  "daily_vehicle_summary_object = \<lparr>ao_name = ''daily_vehicle_summary'', ao_kind = ''view'',
     ao_description = ''Per-vehicle UTC daily distance, energy, efficiency, driving, charging, SOC, and temperature.'',
     ao_columns = columns [
         (''summary_date'', ''DATE'', ''UTC source date.''),
         (''vehicle_id'', ''STRING'', ''Opaque internal vehicle identifier.''),
         (''distance_miles'', ''FLOAT64'', ''Sum of reconstructed drive distance.''),
         (''odometer_distance_miles'', ''FLOAT64'', ''Sum of odometer-derived distance.''),
         (''route_fallback_distance_miles'', ''FLOAT64'', ''Distance supplied by GPS fallback.''),
         (''distance_unavailable_drive_count'', ''INTEGER'', ''Drive sessions with neither odometer nor usable GPS distance.''),
         (''drive_energy_used_kwh'', ''FLOAT64'', ''Sum of reconstructed drive energy use.''),
         (''efficiency_wh_per_mile'', ''FLOAT64'', ''Daily energy divided by distance.''),
         (''drive_count'', ''INTEGER'', ''Drive sessions starting on this date.''),
         (''driving_seconds'', ''INTEGER'', ''Total observed drive duration.''),
         (''charge_session_count'', ''INTEGER'', ''Charge sessions starting on this date.''),
         (''charge_energy_issue_count'', ''INTEGER'', ''Sessions with non-validated energy.''),
         (''ac_energy_added_kwh'', ''FLOAT64'', ''Summed validated AC session energy.''),
         (''dc_energy_added_kwh'', ''FLOAT64'', ''Summed validated DC session energy.''),
         (''minimum_soc_percent'', ''FLOAT64'', ''Minimum observed usable SOC.''),
         (''maximum_soc_percent'', ''FLOAT64'', ''Maximum observed usable SOC.''),
         (''average_outside_temp'', ''FLOAT64'', ''Average observed outside temperature.''),
         (''maximum_speed_mph'', ''FLOAT64'', ''Maximum observed speed.'')],
     ao_join_keys = [''vehicle_id''], ao_partition_hint = Some ''Filter summary_date for efficient dashboard-style questions.''\<rparr>"

definition sample_metadata_columns :: "analytics_column list" where
  "sample_metadata_columns = columns [
         (''source_timestamp'', ''TIMESTAMP'', ''Exact source time of the emitted Tesla message.''),
         (''ingested_at'', ''TIMESTAMP'', ''Latest edge acceptance time for the message.''),
         (''processed_at'', ''TIMESTAMP'', ''Latest processor handling time for the message.''),
         (''vehicle_id'', ''STRING'', ''Opaque internal vehicle identifier.''),
         (''pubsub_message_id'', ''STRING'', ''Google Pub/Sub delivery identifier.''),
         (''transport_message_id'', ''STRING'', ''Tesla transport transaction identifier.''),
         (''telemetry_config_version'', ''STRING'', ''Trusted source profile version.''),
         (''telemetry_config_hash'', ''STRING'', ''Trusted source profile hash.''),
         (''telemetry_client_version'', ''STRING'', ''Vehicle telemetry client version.''),
         (''observed_fields'', ''ARRAY<STRING>'', ''Category fields emitted in this message.''),
         (''invalid_fields'', ''ARRAY<STRING>'', ''Emitted fields Tesla marked invalid.'')]"

definition example_queries :: "(string \<times> string) list" where
  "example_queries = [
     (''Inspect configured fields and source cadence by category'',
      ''SELECT category, field_name, value_type, interval_seconds, minimum_delta FROM telemetry_field_catalog WHERE configured ORDER BY category, field_name''),
     (''Graph speed and acceleration from exact driving emissions'',
      ''SELECT source_timestamp, vehicle_id, vehicle_speed, longitudinal_acceleration FROM driving_samples WHERE source_timestamp >= TIMESTAMP_SUB(CURRENT_TIMESTAMP(), INTERVAL 1 DAY) AND (vehicle_speed IS NOT NULL OR longitudinal_acceleration IS NOT NULL) ORDER BY source_timestamp''),
     (''Daily distance and efficiency by vehicle'',
      ''SELECT summary_date, vehicle_id, distance_miles, efficiency_wh_per_mile FROM daily_vehicle_summary WHERE summary_date >= DATE_SUB(CURRENT_DATE(), INTERVAL 30 DAY) ORDER BY summary_date, vehicle_id''),
     (''Compare all owned vehicles'',
      ''SELECT vehicle_id, COUNT(*) AS drives, SUM(distance_miles) AS miles FROM drives WHERE started_at >= TIMESTAMP_SUB(CURRENT_TIMESTAMP(), INTERVAL 90 DAY) GROUP BY vehicle_id ORDER BY miles DESC''),
     (''Summarize inferred Full Self-Driving share with uncertainty'',
      ''SELECT drive_id, total_distance_miles, fsd_distance_miles, fsd_percent, uncertain_distance_miles, minimum_confidence FROM drive_fsd_summary WHERE started_at >= TIMESTAMP_SUB(CURRENT_TIMESTAMP(), INTERVAL 30 DAY) ORDER BY started_at''),
     (''Diagnose Fleet Telemetry include-fields capability'',
      ''SELECT vehicle_id, vehicle_firmware, telemetry_client_version, telemetry_receiver_version, desired_profile_version, include_fields_requested, include_fields_observed_recently, capability_status FROM telemetry_capability_diagnostics''),
     (''Reconstruct the media played during a selected drive'',
      ''SELECT d.drive_id, m.started_at, m.title, m.artist, m.album, m.station FROM drives AS d JOIN media_history AS m ON m.vehicle_id = d.vehicle_id AND m.started_at < COALESCE(d.ended_at, CURRENT_TIMESTAMP()) AND COALESCE(m.ended_at, CURRENT_TIMESTAMP()) > d.started_at WHERE d.started_at >= TIMESTAMP_SUB(CURRENT_TIMESTAMP(), INTERVAL 30 DAY) AND d.drive_id = 'replace_with_drive_id' AND m.playback_status = 'MediaStatusPlaying' ORDER BY m.started_at'')]"

definition sample_object :: "category_sample \<Rightarrow> analytics_object" where
  "sample_object spec = \<lparr>ao_name = cs_view_name spec, ao_kind = ''view'',
     ao_description = ''Sparse exact-emission '' @ lower (cs_category spec) @
       '' samples. A metric is populated only when Tesla emitted it in that message; inspect observed_fields and invalid_fields.'',
     ao_columns = sample_metadata_columns @ map (\<lambda>c. \<lparr>an_name = sc_name c, an_field_type = sc_field_type c,
       an_description = sc_description c\<rparr>) (cs_columns spec),
     ao_join_keys = [''vehicle_id'', ''source_timestamp''],
     ao_partition_hint = Some ''Filter source_timestamp for bounded dashboard and graph queries.''\<rparr>"

definition analytics_objects :: "category_sample list \<Rightarrow> analytics_object list" where
  "analytics_objects samples =
     [raw_object, telemetry_field_catalog_object, telemetry_observations_object] @ map sample_object samples @
     [vehicle_state_changes_object, drive_metric_boundaries_object, drives_object, charge_sessions_object,
      drive_path_points_object, drive_fsd_segments_object, drive_fsd_summary_object, drive_path_object,
      telemetry_capability_diagnostics_object, media_history_object, daily_vehicle_summary_object]"

definition allowed_analytics_objects :: "category_sample list \<Rightarrow> string list" where
  "allowed_analytics_objects samples = map ao_name (analytics_objects samples)"

end
