(* ===== verification/AnalyticsQuery.thy ===== *)
theory AnalyticsQuery
  imports AnalyticsCatalog AuthCore
begin

text \<open>
  \<open>analytics/query.py\<close>: one read-only query of a user, validated, estimated, run and bounded.  The SQL parser
  and the BigQuery client are arguments; what is sent to BigQuery is the state.
\<close>

subsection \<open>Parsed statements\<close>

text \<open>What the code reads of a statement of the SQL library: whether it is a query, the names of its unrecognised
  functions, the sources of its scopes (nothing where no scope could be built) and its canonical text.\<close>

datatype sql_source =
    TableSource string string string \<comment> \<open>catalog, dataset, name\<close>
  | DerivedSource

record sql_statement =
  st_query :: bool
  st_anonymous :: "string list"
  st_scopes :: "(string \<times> sql_source) list list option"
  st_canonical :: string

definition max_query_characters :: nat where "max_query_characters = 32768"
definition max_bytes_billed :: int where "max_bytes_billed = 1073741824"
definition max_result_rows :: nat where "max_result_rows = 1000"
definition max_result_bytes :: int where "max_result_bytes = 1048576"
definition query_timeout_seconds :: rat where "query_timeout_seconds = 30"
definition dry_run_timeout_seconds :: rat where "dry_run_timeout_seconds = 15"

definition safe_anonymous_functions :: "string list" where
  "safe_anonymous_functions = [''ST_GEOGFROMGEOJSON'', ''ST_GEOGFROMTEXT'', ''ST_GEOGPOINT'', ''ST_MAKELINE'']"

text \<open>\<open>str.upper\<close> on the characters up to 255: the sharp s becomes two letters, and two lower-case letters, 181 and 255,
  keep their place, since their capitals are beyond 255 (no name of the list has a character that is not ASCII).\<close>

definition upper_char :: "char \<Rightarrow> string" where
  "upper_char c = (let n = code c in
     if n = 223 then ''SS''
     else if is_lower c \<or> (224 \<le> n \<and> n \<le> 254 \<and> n \<noteq> 247) then [char_of (n - 32)] else [c])"

definition upper_text :: "string \<Rightarrow> string" where
  "upper_text s = concat (map upper_char s)"

record validated_query =
  vq_sql :: string
  vq_referenced :: "string list"

definition query_error :: "string \<Rightarrow> string \<Rightarrow> exn" where
  "query_error = AnalyticsQueryError"

text \<open>The tables of the scopes, in the order of the traversal.\<close>

fun referenced_tables :: "string list \<Rightarrow> sql_source list \<Rightarrow> exn + string list" where
  "referenced_tables allowed [] = Inr []"
| "referenced_tables allowed (DerivedSource # sources) = referenced_tables allowed sources"
| "referenced_tables allowed (TableSource cat db name # sources) =
     (if cat \<noteq> [] \<or> db \<noteq> []
      then Inl (query_error ''dataset_boundary'' ''Qualified project or dataset references are not allowed'')
      else if name \<notin> set allowed
      then Inl (query_error ''object_not_allowed'' ''Query references an object outside the authenticated analytics catalog'')
      else rbind (referenced_tables allowed sources) (\<lambda>names. Inr (List.insert name names)))"

text \<open>\<open>parser\<close> is \<open>sqlglot.parse\<close>: nothing where it raises one of the two errors the code knows.\<close>

definition validate_analytics_query ::
  "(string \<Rightarrow> sql_statement option list option) \<Rightarrow> string list \<Rightarrow> string \<Rightarrow> exn + validated_query" where
  "validate_analytics_query parser allowed sql =
     (if strip sql = [] then Inl (query_error ''invalid_sql'' ''sql must be a non-empty string'')
      else if max_query_characters < length sql then Inl (query_error ''invalid_sql'' ''sql exceeds the supported length'')
      else (case parser sql of
          None \<Rightarrow> Inl (query_error ''invalid_sql'' ''SQL could not be parsed as BigQuery SQL'')
        | Some [Some statement] \<Rightarrow>
            if \<not> st_query statement
            then Inl (query_error ''read_only_required'' ''Only SELECT or WITH queries are allowed'')
            else if list_ex (\<lambda>f. upper_text f \<notin> set safe_anonymous_functions) (st_anonymous statement)
            then Inl (query_error ''unsupported_function''
              ''Unrecognized, external, remote, or user-defined functions are not allowed'')
            else (case st_scopes statement of
                None \<Rightarrow> Inl (query_error ''invalid_sql'' ''SQL query scope could not be resolved'')
              | Some scopes \<Rightarrow>
                  rbind (referenced_tables allowed (map snd (concat scopes))) (\<lambda>names.
                  Inr \<lparr>vq_sql = st_canonical statement, vq_referenced = names\<rparr>))
        | Some statements \<Rightarrow> Inl (query_error ''invalid_sql'' ''Exactly one SQL statement is required'')))"

subsection \<open>BigQuery\<close>

text \<open>A job as it is sent: the text, the default dataset, whether it is a dry run, the cap on billed bytes and the
  timeouts.\<close>

record query_job =
  qj_sql :: string
  qj_project :: string
  qj_dataset :: string
  qj_dry_run :: bool
  qj_use_cache :: bool
  qj_maximum_bytes :: int
  qj_job_timeout_ms :: "int option"
  qj_location :: string

text \<open>A cell of a result, by the Python types the code tells apart; texts of numbers and times are the library's.\<close>

datatype bq_cell =
    CellPlain val \<comment> \<open>\<open>None\<close>, a truth value, a number or a text\<close>
  | CellTime string
  | CellDecimal string
  | CellBytes string
  | CellRecord "(string \<times> bq_cell) list"
  | CellArray "bq_cell list"
  | CellOther string

record job_answer =
  ja_bytes_processed :: "int option"
  ja_bytes_billed :: "int option"
  ja_job_id :: string
  ja_schema :: "(string \<times> string) list"
  ja_rows :: "(exn + (string \<times> bq_cell) list) list"

text \<open>\<open>bq_submit\<close> answers a job or raises; \<open>bq_result\<close> is \<open>result\<close>, whose iterator gives the rows;
  \<open>bq_tables\<close> lists the tables of a dataset.\<close>

record bigquery_env =
  bq_project :: string
  bq_location :: string
  bq_maximum_bytes :: int
  bq_submit :: "query_job list \<Rightarrow> query_job \<Rightarrow> exn + job_answer"
  bq_result :: "query_job list \<Rightarrow> exn + unit"
  bq_tables :: "string \<Rightarrow> string \<Rightarrow> exn + string list"
  bq_parse :: "string \<Rightarrow> sql_statement option list option"
  bq_samples :: "category_sample list"
  bq_base64 :: "string \<Rightarrow> string"
  bq_dumps :: "val \<Rightarrow> string"
  bq_duration_ms :: int

record bq_world =
  bw_jobs :: "query_job list"
  bw_logs :: "(string \<times> dict) list"

type_synonym 'a bq = "(bq_world, exn, 'a) oper"

definition submit :: "bigquery_env \<Rightarrow> query_job \<Rightarrow> job_answer bq" where
  "submit env j w = (bq_submit env (bw_jobs w) j, w\<lparr>bw_jobs := bw_jobs w @ [j]\<rparr>)"

definition log_analytics :: "string \<Rightarrow> dict \<Rightarrow> unit bq" where
  "log_analytics event extra w = (Inr (), w\<lparr>bw_logs := bw_logs w @ [(event, extra)]\<rparr>)"

subsection \<open>Rows\<close>

fun cell_value :: "(string \<Rightarrow> string) \<Rightarrow> bq_cell \<Rightarrow> val" where
  "cell_value b64 (CellPlain v) = v"
| "cell_value b64 (CellTime s) = VStr s"
| "cell_value b64 (CellDecimal s) = VStr s"
| "cell_value b64 (CellBytes s) = VStr (b64 s)"
| "cell_value b64 (CellRecord cells) = VDict (map (\<lambda>(k, c). (k, cell_value b64 c)) cells)"
| "cell_value b64 (CellArray cells) = VList (map (cell_value b64) cells)"
| "cell_value b64 (CellOther s) = VStr s"

definition serialized_row :: "bigquery_env \<Rightarrow> (string \<times> bq_cell) list \<Rightarrow> dict" where
  "serialized_row env row = map (\<lambda>(k, c). (k, cell_value (bq_base64 env) c)) row"

text \<open>\<open>_bounded_rows\<close>: the rows so far and their bytes; the loop stops before the row that is too much.\<close>

fun bounded_rows ::
  "bigquery_env \<Rightarrow> dict list \<Rightarrow> int \<Rightarrow> (exn + (string \<times> bq_cell) list) list \<Rightarrow> exn + dict list \<times> int \<times> bool" where
  "bounded_rows env rows taken [] = Inr (rows, taken, False)"
| "bounded_rows env rows taken (Inl e # items) = Inl e"
| "bounded_rows env rows taken (Inr item # items) =
     (if max_result_rows \<le> length rows then Inr (rows, taken, True)
      else let row = serialized_row env item; encoded = int (length (bq_dumps env (VDict row)))
        in if max_result_bytes < taken + encoded then Inr (rows, taken, True)
           else bounded_rows env (rows @ [row]) (taken + encoded + 1) items)"

subsection \<open>The service\<close>

text \<open>\<open>x or default\<close> for an optional count.\<close>

definition or_count :: "int option \<Rightarrow> int \<Rightarrow> int" where
  "or_count c d = (case c of None \<Rightarrow> d | Some n \<Rightarrow> if n = 0 then d else n)"

definition dry_run_job :: "bigquery_env \<Rightarrow> user_context \<Rightarrow> string \<Rightarrow> query_job" where
  "dry_run_job env ctx sql = \<lparr>qj_sql = sql, qj_project = bq_project env, qj_dataset = ctx_dataset_id ctx, qj_dry_run = True,
     qj_use_cache = False, qj_maximum_bytes = bq_maximum_bytes env, qj_job_timeout_ms = None, qj_location = bq_location env\<rparr>"

definition execution_job :: "bigquery_env \<Rightarrow> user_context \<Rightarrow> string \<Rightarrow> query_job" where
  "execution_job env ctx sql = \<lparr>qj_sql = sql, qj_project = bq_project env, qj_dataset = ctx_dataset_id ctx, qj_dry_run = False,
     qj_use_cache = True, qj_maximum_bytes = bq_maximum_bytes env,
     qj_job_timeout_ms = Some \<lfloor>query_timeout_seconds * 1000\<rfloor>, qj_location = bq_location env\<rparr>"

definition result_of :: "bigquery_env \<Rightarrow> unit bq" where
  "result_of env w = (bq_result env (bw_jobs w), w)"

definition run_jobs ::
  "bigquery_env \<Rightarrow> user_context \<Rightarrow> string \<Rightarrow> (int \<times> job_answer \<times> dict list \<times> int \<times> bool) bq" where
  "run_jobs env ctx sql =
     obind (submit env (dry_run_job env ctx sql)) (\<lambda>dry.
     let estimated = or_count (ja_bytes_processed dry) 0
     in if bq_maximum_bytes env < estimated
        then oraise (query_error ''query_too_expensive'' ''Dry run exceeds the query byte safety ceiling; narrow the time range'')
        else obind (submit env (execution_job env ctx sql)) (\<lambda>answer.
             obind (result_of env) (\<lambda>_.
             obind (olift (bounded_rows env [] 2 (ja_rows answer))) (\<lambda>(rows, bytes, truncated).
             oret (estimated, answer, rows, bytes, truncated)))))"

text \<open>The class name of the error, \<open>error_type\<close>, is left out of the entry.\<close>

definition failure_entry :: "string \<Rightarrow> user_context \<Rightarrow> string list \<Rightarrow> dict" where
  "failure_entry correlation ctx names =
     [(''correlation_id'', VStr correlation), (''user_id'', VStr (ctx_user_id ctx)),
      (''referenced_objects'', VList (map VStr (sort names)))]"

definition run_query :: "bigquery_env \<Rightarrow> user_context \<Rightarrow> string \<Rightarrow> string \<Rightarrow> dict bq" where
  "run_query env ctx sql correlation =
     obind (olift (validate_analytics_query (bq_parse env) (allowed_analytics_objects (bq_samples env)) sql)) (\<lambda>validated.
     obind (ocatch (run_jobs env ctx (vq_sql validated))
        (\<lambda>e. (case e of AnalyticsQueryError c m \<Rightarrow> oraise e
           | _ \<Rightarrow> obind (log_analytics ''analytics_query_failed'' (failure_entry correlation ctx (vq_referenced validated))) (\<lambda>_.
               oraise (query_error ''query_failed'' ''BigQuery rejected or could not complete the analytical query'')))))
       (\<lambda>(estimated, answer, rows, bytes, truncated).
     let processed = or_count (ja_bytes_processed answer) estimated; billed = or_count (ja_bytes_billed answer) 0;
         names = VList (map VStr (sort (vq_referenced validated)))
     in obind (log_analytics ''analytics_query_completed''
          [(''correlation_id'', VStr correlation), (''user_id'', VStr (ctx_user_id ctx)), (''job_id'', VStr (ja_job_id answer)),
           (''bytes_processed'', VInt processed), (''bytes_billed'', VInt billed), (''duration_ms'', VInt (bq_duration_ms env)),
           (''referenced_objects'', names), (''returned_rows'', VInt (int (length rows))), (''result_bytes'', VInt bytes),
           (''truncated'', VBool truncated)]) (\<lambda>_.
        oret [(''columns'', VList (map (\<lambda>(n, t). VDict [(''name'', VStr n), (''type'', VStr t)]) (ja_schema answer))),
          (''rows'', VList (map VDict rows)), (''row_count'', VInt (int (length rows))), (''truncated'', VBool truncated),
          (''bytes_processed'', VInt processed), (''bytes_billed'', VInt billed), (''duration_ms'', VInt (bq_duration_ms env)),
          (''job_id'', VStr (ja_job_id answer)), (''referenced_objects'', names)])))"

subsection \<open>The schema\<close>

definition column_document :: "analytics_column \<Rightarrow> val" where
  "column_document c = VDict [(''name'', VStr (an_name c)), (''field_type'', VStr (an_field_type c)),
     (''description'', VStr (an_description c))]"

definition object_document :: "analytics_object \<Rightarrow> val" where
  "object_document x = VDict
     [(''name'', VStr (ao_name x)), (''kind'', VStr (ao_kind x)), (''description'', VStr (ao_description x)),
      (''columns'', VList (map column_document (ao_columns x))), (''join_keys'', VList (map VStr (ao_join_keys x))),
      (''partition_hint'', opt_str (ao_partition_hint x))]"

definition get_schema :: "bigquery_env \<Rightarrow> user_context \<Rightarrow> string \<Rightarrow> dict bq" where
  "get_schema env ctx correlation w = (case bq_tables env (bq_project env) (ctx_dataset_id ctx) of
       Inl e \<Rightarrow> obind (log_analytics ''analytics_schema_failed''
           [(''correlation_id'', VStr correlation), (''user_id'', VStr (ctx_user_id ctx))]) (\<lambda>_.
         oraise (query_error ''schema_unavailable'' ''The authenticated analytics catalog could not be inspected'')) w
     | Inr names \<Rightarrow>
         let catalog = analytics_objects (bq_samples env); allowed = allowed_analytics_objects (bq_samples env);
             available = filter (\<lambda>n. n \<in> set allowed) names
         in (Inr [(''dataset_scope'', VStr ''authenticated user's private default dataset''),
             (''objects'', VList (map object_document (filter (\<lambda>x. ao_name x \<in> set available) catalog))),
             (''unavailable_catalog_objects'', VList (map VStr (sort (filter (\<lambda>n. n \<notin> set available) (remdups allowed))))),
             (''examples'', VList (map (\<lambda>(p, s). VDict [(''purpose'', VStr p), (''sql'', VStr s)]) example_queries)),
             (''query_limits'', VDict [(''maximum_bytes_billed'', VInt (bq_maximum_bytes env)),
                (''maximum_result_rows'', VInt (int max_result_rows)), (''maximum_result_bytes'', VInt max_result_bytes),
                (''timeout_seconds'', VFloat query_timeout_seconds)]),
             (''notes'', VList (map VStr
               [''Use unqualified table/view names only.'',
                ''Unavailable catalog objects require the idempotent add-user repair workflow.'',
                ''Filter source_timestamp, started_at, or summary_date for bounded scans.'',
                ''Raw telemetry is permanent truth; views are rebuildable interpretations.'']))], w))"

end
