(* ===== verification/AnalyticsQueryGuarantees.thy ===== *)
theory AnalyticsQueryGuarantees
  imports AnalyticsQuery
begin

text \<open>
  Which texts reach BigQuery, in whose dataset and in which order, and how much of a result is returned.
\<close>

subsection \<open>Validation\<close>

text \<open>A source that a query may read: no table, or an unqualified table of the catalog.\<close>

definition permitted_source :: "string list \<Rightarrow> sql_source \<Rightarrow> bool" where
  "permitted_source allowed s = (case s of
     TableSource cat db name \<Rightarrow> cat = [] \<and> db = [] \<and> name \<in> set allowed | DerivedSource \<Rightarrow> True)"

lemma referenced_tables_permitted:
  "referenced_tables allowed sources = Inr names \<Longrightarrow> list_all (permitted_source allowed) sources"
  by (induction allowed sources arbitrary: names rule: referenced_tables.induct)
    (auto simp: permitted_source_def inr_simps split: if_splits)

text \<open>The statement that a validated query is the canonical text of.\<close>

definition safe_statement :: "string list \<Rightarrow> sql_statement \<Rightarrow> bool" where
  "safe_statement allowed st \<longleftrightarrow> st_query st \<and>
     list_all (\<lambda>f. upper_text f \<in> set safe_anonymous_functions) (st_anonymous st) \<and>
     (\<exists>scopes. st_scopes st = Some scopes \<and> list_all (\<lambda>(alias, s). permitted_source allowed s) (concat scopes))"

lemma validated_eq_Inr:
  assumes "validate_analytics_query parser allowed sql = Inr v"
  obtains st where "parser sql = Some [Some st]" "safe_statement allowed st" "vq_sql v = st_canonical st"
proof -
  obtain st where "parser sql = Some [Some st]" and st: "st_query st"
    "list_all (\<lambda>f. upper_text f \<in> set safe_anonymous_functions) (st_anonymous st)"
    and r: "(case st_scopes st of None \<Rightarrow> Inl (query_error ''invalid_sql'' ''SQL query scope could not be resolved'')
        | Some scopes \<Rightarrow> rbind (referenced_tables allowed (map snd (concat scopes))) (\<lambda>names.
            Inr \<lparr>vq_sql = st_canonical st, vq_referenced = names\<rparr>)) = Inr v"
    using assms
    by (auto simp: validate_analytics_query_def list_ex_iff list_all_iff split: if_splits option.splits list.splits)
  from r obtain scopes names where "st_scopes st = Some scopes" "referenced_tables allowed (map snd (concat scopes)) = Inr names"
    "v = \<lparr>vq_sql = st_canonical st, vq_referenced = names\<rparr>"
    by (auto simp: inr_simps)
  moreover from this have "list_all (\<lambda>(alias, s). permitted_source allowed s) (concat scopes)"
    using referenced_tables_permitted by (fastforce simp: list_all_iff)
  ultimately show thesis using st \<open>parser sql = Some [Some st]\<close> by (intro that [of st]) (auto simp: safe_statement_def)
qed

subsection \<open>What is sent\<close>

text \<open>No job, the dry run alone, or the dry run and then, its estimate within the cap, the execution.\<close>

definition jobs_of :: "bigquery_env \<Rightarrow> user_context \<Rightarrow> string \<Rightarrow> query_job list \<Rightarrow> query_job list \<Rightarrow> bool" where
  "jobs_of env ctx sql before new \<longleftrightarrow> new = [dry_run_job env ctx sql] \<or>
     (\<exists>answer. new = [dry_run_job env ctx sql, execution_job env ctx sql] \<and>
        bq_submit env before (dry_run_job env ctx sql) = Inr answer \<and>
        or_count (ja_bytes_processed answer) 0 \<le> bq_maximum_bytes env)"

lemma run_jobs_sends: "\<exists>new. bw_jobs (snd (run_jobs env ctx sql w)) = bw_jobs w @ new \<and> jobs_of env ctx sql (bw_jobs w) new"
proof (cases "bq_submit env (bw_jobs w) (dry_run_job env ctx sql)")
  case (Inl e)
  then show ?thesis by (simp add: run_jobs_def submit_def obind_def jobs_of_def)
next
  case (Inr answer)
  show ?thesis
  proof (cases "bq_maximum_bytes env < or_count (ja_bytes_processed answer) 0")
    case True
    with Inr show ?thesis by (simp add: run_jobs_def submit_def obind_def jobs_of_def oper_simps)
  next
    case False
    have "bw_jobs (snd (run_jobs env ctx sql w)) = bw_jobs w @ [dry_run_job env ctx sql, execution_job env ctx sql]"
      using Inr False
      by (simp add: run_jobs_def submit_def obind_def Let_def oper_simps result_of_def split: sum.split prod.split)
    moreover have "jobs_of env ctx sql (bw_jobs w) [dry_run_job env ctx sql, execution_job env ctx sql]"
      unfolding jobs_of_def using Inr False by auto
    ultimately show ?thesis by blast
  qed
qed

lemma log_keeps_jobs: "bw_jobs (snd (obind (log_analytics event extra) (\<lambda>_. oraise e) w)) = bw_jobs w"
  "bw_jobs (snd (obind (log_analytics event extra) (\<lambda>_. oret x) w)) = bw_jobs w"
  by (simp_all add: log_analytics_def obind_def oper_simps)

lemma run_query_jobs:
  assumes "validate_analytics_query (bq_parse env) (allowed_analytics_objects (bq_samples env)) sql = Inr v"
  shows "bw_jobs (snd (run_query env ctx sql correlation w)) = bw_jobs (snd (run_jobs env ctx (vq_sql v) w))"
proof -
  obtain r w' where m: "run_jobs env ctx (vq_sql v) w = (r, w')" by (cases "run_jobs env ctx (vq_sql v) w")
  show ?thesis
  proof (cases r)
    case (Inl e)
    then show ?thesis
      by (simp add: run_query_def obind_def ocatch_def oper_simps assms m log_analytics_def split: exn.split)
  next
    case (Inr x)
    then show ?thesis
      by (cases x) (simp add: run_query_def obind_def ocatch_def oper_simps assms m log_analytics_def Let_def)
  qed
qed

text \<open>C19: Whatever text a user submits, BigQuery is sent nothing, or the canonical text of its only statement: a
  query whose unrecognised functions are on the safe list and whose tables are unqualified names of the
  catalog.  It is sent as a dry run, and then for execution if the estimate is within the cap, each time with
  the user's own dataset as the default and the cap on billed bytes.\<close>
theorem only_validated_queries_reach_bigquery:
  "case run_query env ctx sql correlation w of (r, w') \<Rightarrow> \<exists>new. bw_jobs w' = bw_jobs w @ new \<and>
     (new = [] \<or>
      (\<exists>st. bq_parse env sql = Some [Some st] \<and> safe_statement (allowed_analytics_objects (bq_samples env)) st \<and>
         jobs_of env ctx (st_canonical st) (bw_jobs w) new \<and>
         list_all (\<lambda>j. qj_sql j = st_canonical st \<and> qj_project j = bq_project env \<and> qj_dataset j = ctx_dataset_id ctx \<and>
           qj_maximum_bytes j = bq_maximum_bytes env) new))"
proof -
  let ?jobs = "bw_jobs (snd (run_query env ctx sql correlation w))"
  have "\<exists>new. ?jobs = bw_jobs w @ new \<and> (new = [] \<or>
      (\<exists>st. bq_parse env sql = Some [Some st] \<and> safe_statement (allowed_analytics_objects (bq_samples env)) st \<and>
         jobs_of env ctx (st_canonical st) (bw_jobs w) new))"
  proof (cases "validate_analytics_query (bq_parse env) (allowed_analytics_objects (bq_samples env)) sql")
    case (Inl e)
    then show ?thesis by (simp add: run_query_def obind_def oper_simps)
  next
    case (Inr v)
    from Inr obtain st where st: "bq_parse env sql = Some [Some st]"
      "safe_statement (allowed_analytics_objects (bq_samples env)) st" "vq_sql v = st_canonical st"
      by (rule validated_eq_Inr)
    with run_jobs_sends [of env ctx "st_canonical st" w] run_query_jobs [OF Inr] show ?thesis by auto
  qed
  then show ?thesis
    by (fastforce simp: jobs_of_def dry_run_job_def execution_job_def split: prod.split)
qed

subsection \<open>What is returned\<close>

text \<open>The length of the JSON array of rows, without spaces.\<close>

definition array_length :: "bigquery_env \<Rightarrow> dict list \<Rightarrow> int" where
  "array_length env rows = 2 + (\<Sum>r\<leftarrow>rows. int (length (bq_dumps env (VDict r)))) + (int (length rows) - (if rows = [] then 0 else 1))"

lemma array_length_snoc:
  "array_length env (rows @ [r]) = 2 + (\<Sum>r\<leftarrow>rows. int (length (bq_dumps env (VDict r)))) + int (length rows)
     + int (length (bq_dumps env (VDict r)))"
  by (simp add: array_length_def)

lemma bounded_rows_spec:
  assumes "taken = 2 + (\<Sum>r\<leftarrow>rows. int (length (bq_dumps env (VDict r)))) + int (length rows)"
    and "length rows \<le> max_result_rows" and "array_length env rows \<le> max_result_bytes"
  shows "case bounded_rows env rows taken items of
      Inl e \<Rightarrow> Inl e \<in> set items
    | Inr (all, bytes, truncated) \<Rightarrow> length all \<le> max_result_rows \<and> array_length env all \<le> max_result_bytes \<and>
        (\<exists>xs rest. items = map Inr xs @ rest \<and> all = rows @ map (serialized_row env) xs \<and> truncated = (rest \<noteq> []))"
  using assms
proof (induction env rows taken items rule: bounded_rows.induct)
  case (3 env rows taken item items)
  let ?row = "serialized_row env item"
  let ?encoded = "int (length (bq_dumps env (VDict ?row)))"
  show ?case
  proof (cases "max_result_rows \<le> length rows \<or> max_result_bytes < taken + ?encoded")
    case True
    with "3.prems" show ?thesis by (force simp: Let_def)
  next
    case False
    then have step: "bounded_rows env rows taken (Inr item # items) =
        bounded_rows env (rows @ [?row]) (taken + ?encoded + 1) items" by (simp add: Let_def)
    have ih: "case bounded_rows env (rows @ [?row]) (taken + ?encoded + 1) items of
        Inl e \<Rightarrow> Inl e \<in> set items
      | Inr (all, bytes, truncated) \<Rightarrow> length all \<le> max_result_rows \<and> array_length env all \<le> max_result_bytes \<and>
          (\<exists>xs rest. items = map Inr xs @ rest \<and> all = (rows @ [?row]) @ map (serialized_row env) xs \<and> truncated = (rest \<noteq> []))"
      by (rule "3.IH") (use False "3.prems" in \<open>auto simp: array_length_snoc\<close>)
    show ?thesis
    proof (cases "bounded_rows env (rows @ [?row]) (taken + ?encoded + 1) items")
      case (Inl e)
      with ih show ?thesis unfolding step by simp
    next
      case (Inr x)
      obtain all bytes truncated where x: "x = (all, bytes, truncated)" by (cases x)
      with ih Inr obtain xs rest where "length all \<le> max_result_rows" "array_length env all \<le> max_result_bytes"
        "items = map Inr xs @ rest" "all = (rows @ [?row]) @ map (serialized_row env) xs" "truncated = (rest \<noteq> [])"
        by (simp only: sum.case prod.case) (elim conjE exE, rule that)
      then have "\<exists>ys zs. Inr item # items = map Inr ys @ zs \<and> all = rows @ map (serialized_row env) ys \<and> truncated = (zs \<noteq> [])"
        by (intro exI [of _ "item # xs"] exI [of _ rest]) simp
      with \<open>length all \<le> max_result_rows\<close> \<open>array_length env all \<le> max_result_bytes\<close> Inr x show ?thesis
        by (simp only: step sum.case prod.case simp_thms)
    qed
  qed
qed auto

text \<open>C20: A result is returned as its first rows, at most a thousand and at most one MiB as JSON; it is marked
  truncated exactly when rows were left out, and an error while reading the rows is passed on.\<close>
theorem results_are_bounded:
  "case bounded_rows env [] 2 items of
     Inl e \<Rightarrow> Inl e \<in> set items
   | Inr (rows, bytes, truncated) \<Rightarrow> length rows \<le> 1000 \<and> array_length env rows \<le> 1048576 \<and>
       (\<exists>xs rest. items = map Inr xs @ rest \<and> rows = map (serialized_row env) xs \<and> truncated = (rest \<noteq> []))"
proof -
  have "case bounded_rows env [] 2 items of
      Inl e \<Rightarrow> Inl e \<in> set items
    | Inr (all, bytes, truncated) \<Rightarrow> length all \<le> max_result_rows \<and> array_length env all \<le> max_result_bytes \<and>
        (\<exists>xs rest. items = map Inr xs @ rest \<and> all = [] @ map (serialized_row env) xs \<and> truncated = (rest \<noteq> []))"
    by (rule bounded_rows_spec) (simp_all add: array_length_def max_result_bytes_def)
  then show ?thesis by (simp only: max_result_rows_def max_result_bytes_def append_Nil)
qed

subsection \<open>The catalog\<close>

lemma category_names: "category_sample_specs entries = Inr samples \<Longrightarrow> map cs_view_name samples = map snd dashboard_categories"
  by (auto simp: category_sample_specs_def dashboard_categories_def category_sample_of_def rbind_eq_Inr Let_def split: if_splits)

text \<open>Nineteen names, all different.\<close>

lemma catalog_names_distinct:
  assumes "category_sample_specs entries = Inr samples"
  shows "distinct (allowed_analytics_objects samples)" and "length (allowed_analytics_objects samples) = 19"
proof -
  have "allowed_analytics_objects samples = map ao_name ([raw_object, telemetry_field_catalog_object, telemetry_observations_object]) @
      map snd dashboard_categories @ map ao_name
        [vehicle_state_changes_object, drive_metric_boundaries_object, drives_object, charge_sessions_object,
         drive_path_points_object, drive_fsd_segments_object, drive_fsd_summary_object, drive_path_object,
         telemetry_capability_diagnostics_object, media_history_object, daily_vehicle_summary_object]"
    using category_names [OF assms]
    by (simp add: allowed_analytics_objects_def analytics_objects_def sample_object_def comp_def)
  then show "distinct (allowed_analytics_objects samples)" "length (allowed_analytics_objects samples) = 19"
    by (simp_all only:) (code_simp+)
qed

end
