(* ===== verification/AnalyticsViews.thy ===== *)
theory AnalyticsViews
  imports AnalyticsCatalog
begin

text \<open>
  \<open>analytics/view_definitions\<close>: the manifest of the views, the generated fragments of their templates, and the
  check that a rendered view refers to its own dataset and to what the manifest declares.  The manifest's TOML
  parser, the template engine and the SQL parser are arguments.
\<close>

subsection \<open>Generated fragments\<close>

definition hex_small :: "nat \<Rightarrow> char" where
  "hex_small n = (if n < 10 then char_of (48 + n) else char_of (87 + n))"

text \<open>\<open>json.dumps\<close> of a text, with everything outside printable ASCII escaped.\<close>

definition json_char :: "char \<Rightarrow> string" where
  "json_char c =
     (let n = of_char c :: nat
      in if n = 34 then [CHR 0x5C, CHR 0x22] else if n = 92 then [CHR 0x5C, CHR 0x5C]
         else if n = 8 then [CHR 0x5C, CHR ''b''] else if n = 9 then [CHR 0x5C, CHR ''t'']
         else if n = 10 then [CHR 0x5C, CHR ''n''] else if n = 12 then [CHR 0x5C, CHR ''f'']
         else if n = 13 then [CHR 0x5C, CHR ''r'']
         else if 32 \<le> n \<and> n \<le> 126 then [c]
         else [CHR 0x5C, CHR ''u'', CHR ''0'', CHR ''0'', hex_small (n div 16), hex_small (n mod 16)])"

definition string_literal :: "string \<Rightarrow> string" where
  "string_literal s = [CHR 0x22] @ concat (map json_char s) @ [CHR 0x22]"

text \<open>\<open>float_text\<close> is \<open>repr\<close> of a float.\<close>

definition field_catalog_row :: "(rat \<Rightarrow> string) \<Rightarrow> catalog_entry \<Rightarrow> string" where
  "field_catalog_row float_text e =
     ''STRUCT('' @ string_literal (ce_field_name e) @ '' AS field_name, '' @ string_literal (ce_category e) @ '' AS category, '' @
     string_literal (ce_value_type e) @ '' AS value_type, '' @ string_literal (ce_description e) @ '' AS description, '' @
     (if ce_configured e then ''TRUE'' else ''FALSE'') @ '' AS configured, '' @
     (case ce_interval e of None \<Rightarrow> ''CAST(NULL AS INT64)'' | Some i \<Rightarrow> str_of_int i) @ '' AS interval_seconds, '' @
     (case ce_minimum_delta e of None \<Rightarrow> ''CAST(NULL AS FLOAT64)'' | Some d \<Rightarrow> float_text d) @ '' AS minimum_delta, '' @
     ''ARRAY<STRING>['' @ join '', '' (map string_literal (ce_include e)) @ ''] AS include_fields, '' @
     (case ce_exclusion_reason e of None \<Rightarrow> ''CAST(NULL AS STRING)'' | Some r \<Rightarrow> string_literal r) @ '' AS exclusion_reason, '' @
     string_literal (ce_profile_version e) @ '' AS profile_version, '' @ string_literal (ce_schema_version e) @ '' AS schema_version, '' @
     string_literal (ce_client_version e) @ '' AS target_client_version)''"

definition field_catalog_rows :: "(rat \<Rightarrow> string) \<Rightarrow> catalog_entry list \<Rightarrow> string" where
  "field_catalog_rows float_text entries = join ('','' @ [CHR 0x0A] @ ''  '') (map (field_catalog_row float_text) entries)"

definition projected_column :: "sample_column \<Rightarrow> string" where
  "projected_column c =
     ''  '' @ (if sc_field_type c = ''BOOLEAN'' then ''LOGICAL_OR'' else ''MAX'') @
     ''(IF(field_name = '' @ string_literal (sc_field_name c) @ '' AND NOT is_invalid, '' @ sc_expression c @ '', NULL)) AS '' @ sc_name c"

definition category_sample_context :: "category_sample \<Rightarrow> (string \<times> string) list" where
  "category_sample_context spec =
     [(''field_names'', join '', '' (map (\<lambda>e. string_literal (ce_field_name e)) (cs_sample_fields spec))),
      (''projected_columns'', join ('','' @ [CHR 0x0A]) (map projected_column (cs_columns spec)))]"

subsection \<open>The manifest\<close>

datatype view_kind = StaticView | FieldCatalogView | CategorySampleView

record view_spec =
  vs_name :: string
  vs_file :: string
  vs_description :: string
  vs_depends_on :: "string list"
  vs_sources :: "string list"
  vs_kind :: view_kind
  vs_category :: "string option"

text \<open>The manifest's fields are texts and lists of texts; the code does not check it, so another type fails here.\<close>

definition spec_text :: "dict \<Rightarrow> string \<Rightarrow> exn + string" where
  "spec_text raw k = (case map_of raw k of None \<Rightarrow> Inl (KeyError k) | Some v \<Rightarrow> (case v of VStr s \<Rightarrow> Inr s | _ \<Rightarrow> Inl TypeError))"

definition spec_texts :: "dict \<Rightarrow> string \<Rightarrow> exn + string list" where
  "spec_texts raw k = (case dget_default raw k (VList []) of
       VList vs \<Rightarrow> if list_all is_str vs then Inr (map the_str vs) else Inl TypeError
     | _ \<Rightarrow> Inl TypeError)"

definition spec_kind :: "dict \<Rightarrow> exn + view_kind" where
  "spec_kind raw = (let k = dget_default raw ''kind'' (VStr ''static'')
     in if k = VStr ''static'' then Inr StaticView else if k = VStr ''field_catalog'' then Inr FieldCatalogView
        else if k = VStr ''category_sample'' then Inr CategorySampleView
        else Inl (ValueError ''Unsupported analytics view kind''))"

definition spec_of_table :: "dict \<Rightarrow> exn + view_spec" where
  "spec_of_table raw =
     rbind (spec_kind raw) (\<lambda>kind. rbind (spec_text raw ''name'') (\<lambda>name. rbind (spec_text raw ''file'') (\<lambda>file.
     rbind (spec_text raw ''description'') (\<lambda>description. rbind (spec_texts raw ''depends_on'') (\<lambda>deps.
     rbind (spec_texts raw ''sources'') (\<lambda>sources.
     Inr \<lparr>vs_name = name, vs_file = file, vs_description = description, vs_depends_on = deps, vs_sources = sources,
       vs_kind = kind, vs_category = (case dget raw ''category'' of VStr c \<Rightarrow> Some c | _ \<Rightarrow> None)\<rparr>))))))"

text \<open>The loop over the manifest: what a view depends on is declared, and declared before it.\<close>

fun declared_in_order :: "string list \<Rightarrow> string list \<Rightarrow> view_spec list \<Rightarrow> exn + unit" where
  "declared_in_order names seen [] = Inr ()"
| "declared_in_order names seen (spec # specs) =
     (if \<not> set (vs_depends_on spec) \<subseteq> set names then Inl (ValueError (vs_name spec @ '' has unknown dependencies''))
      else if \<not> set (vs_depends_on spec) \<subseteq> set seen then Inl (ValueError (vs_name spec @ '' is declared before dependencies''))
      else declared_in_order names (vs_name spec # seen) specs)"

definition validate_manifest :: "view_spec list \<Rightarrow> exn + unit" where
  "validate_manifest specs =
     (if \<not> distinct (map vs_name specs) then Inl (ValueError ''Analytics view names must be unique'')
      else declared_in_order (map vs_name specs) [] specs)"

definition view_specs :: "dict \<Rightarrow> exn + view_spec list" where
  "view_specs document =
     rbind (case dget_default document ''view'' (VList []) of VList vs \<Rightarrow> Inr vs | _ \<Rightarrow> Inl TypeError) (\<lambda>raws.
     rbind (rmap (\<lambda>v. case v of VDict raw \<Rightarrow> spec_of_table raw | _ \<Rightarrow> Inl AttributeError) raws) (\<lambda>specs.
     rbind (validate_manifest specs) (\<lambda>_. Inr specs)))"

subsection \<open>Rendering\<close>

record analytics_view =
  av_name :: string
  av_description :: string
  av_sql :: string

text \<open>What the code reads of a parsed view: whether it is a query, the names of its common table expressions and
  its tables (catalog, dataset, name).\<close>

record parsed_view =
  pv_query :: bool
  pv_ctes :: "string list"
  pv_tables :: "(string \<times> string \<times> string) list"

record view_lib =
  vl_manifest :: dict
  vl_render :: "string \<Rightarrow> (string \<Rightarrow> exn + string) \<Rightarrow> (string \<Rightarrow> string) \<Rightarrow> (string \<times> string) list \<Rightarrow> exn + string"
  vl_parse :: "string \<Rightarrow> exn + parsed_view"
  vl_entries :: "catalog_entry list"
  vl_float :: "rat \<Rightarrow> string"

definition safe_identifier :: "string \<Rightarrow> bool" where
  "safe_identifier s \<longleftrightarrow> s \<noteq> [] \<and>
     list_all (\<lambda>c. ascii_upper c \<or> ascii_lower c \<or> ascii_digit c \<or> c = CHR ''_'' \<or> c = CHR ''-'') s"

definition opaque_identifier :: "string \<Rightarrow> exn + string" where
  "opaque_identifier s = (if safe_identifier s then Inr s
     else Inl (ValueError ''BigQuery project and dataset identifiers must be opaque safe identifiers''))"

definition table_text :: "string \<Rightarrow> string \<Rightarrow> string \<Rightarrow> string" where
  "table_text project dataset name = ''`'' @ project @ ''.'' @ dataset @ ''.'' @ name @ ''`''"

definition view_ref :: "string list \<Rightarrow> string \<Rightarrow> string \<Rightarrow> string \<Rightarrow> string \<Rightarrow> exn + string" where
  "view_ref known project dataset prefix name =
     (if name \<in> set known then Inr (table_text project dataset (prefix @ name)) else Inl (ValueError ''Unknown analytics view reference''))"

definition template_context :: "view_lib \<Rightarrow> category_sample list \<Rightarrow> view_spec \<Rightarrow> exn + (string \<times> string) list" where
  "template_context vl samples spec = (case vs_kind spec of
       StaticView \<Rightarrow> Inr []
     | FieldCatalogView \<Rightarrow> Inr [(''field_catalog_rows'', field_catalog_rows (vl_float vl) (vl_entries vl))]
     | CategorySampleView \<Rightarrow> (case Option.bind (vs_category spec) (map_of (map (\<lambda>s. (cs_category s, s)) samples)) of
           None \<Rightarrow> Inl (ValueError ''Unknown telemetry sample category'')
         | Some s \<Rightarrow> Inr (category_sample_context s)))"

definition expected_tables :: "string \<Rightarrow> view_spec \<Rightarrow> string list" where
  "expected_tables prefix spec = map (\<lambda>n. prefix @ n) (vs_depends_on spec) @ vs_sources spec"

definition foreign_table :: "parsed_view \<Rightarrow> string \<Rightarrow> string \<Rightarrow> string \<times> string \<times> string \<Rightarrow> bool" where
  "foreign_table p project dataset t = (case t of (cat, db, name) \<Rightarrow>
     \<not> (db = [] \<and> cat = [] \<and> name \<in> set (pv_ctes p)) \<and> (cat \<noteq> project \<or> db \<noteq> dataset))"

definition own_tables :: "parsed_view \<Rightarrow> string list" where
  "own_tables p = map (\<lambda>(cat, db, name). name)
     (filter (\<lambda>(cat, db, name). \<not> (db = [] \<and> cat = [] \<and> name \<in> set (pv_ctes p))) (pv_tables p))"

definition validate_rendered_sql :: "view_lib \<Rightarrow> string \<Rightarrow> view_spec \<Rightarrow> string \<Rightarrow> string \<Rightarrow> string \<Rightarrow> exn + unit" where
  "validate_rendered_sql vl sql spec project dataset prefix =
     rbind (vl_parse vl sql) (\<lambda>p.
     if \<not> pv_query p then Inl (ValueError (''Analytics view '' @ vs_name spec @ '' must render one BigQuery query''))
     else if list_ex (foreign_table p project dataset) (pv_tables p)
     then Inl (ValueError (''Analytics view '' @ vs_name spec @ '' contains an external or unqualified reference''))
     else if set (own_tables p) \<noteq> set (expected_tables prefix spec)
     then Inl (ValueError (''Analytics view '' @ vs_name spec @ '' references other tables than the manifest declares''))
     else Inr ())"

definition rendered_view ::
  "view_lib \<Rightarrow> category_sample list \<Rightarrow> string list \<Rightarrow> string \<Rightarrow> string \<Rightarrow> string \<Rightarrow> view_spec \<Rightarrow> exn + analytics_view" where
  "rendered_view vl samples known project dataset prefix spec =
     rbind (template_context vl samples spec) (\<lambda>context.
     rbind (vl_render vl (vs_file spec) (view_ref known project dataset prefix) (table_text project dataset) context) (\<lambda>text.
     rbind (validate_rendered_sql vl (strip text) spec project dataset prefix) (\<lambda>_.
     Inr \<lparr>av_name = vs_name spec, av_description = vs_description spec, av_sql = strip text\<rparr>)))"

definition analytics_views :: "view_lib \<Rightarrow> string \<Rightarrow> string \<Rightarrow> string \<Rightarrow> exn + analytics_view list" where
  "analytics_views vl project_id dataset_id prefix =
     rbind (opaque_identifier project_id) (\<lambda>project.
     rbind (opaque_identifier dataset_id) (\<lambda>dataset.
     if prefix \<noteq> [] \<and> \<not> safe_identifier prefix
     then Inl (ValueError ''Analytics dependency prefix must contain only safe identifier characters'')
     else
       rbind (view_specs (vl_manifest vl)) (\<lambda>specs.
       rbind (category_sample_specs (vl_entries vl)) (\<lambda>samples.
       rmap (rendered_view vl samples (map vs_name specs) project dataset prefix) specs))))"

subsection \<open>What the views refer to\<close>

lemma declared_prefix:
  "declared_in_order names seen specs = Inr () \<Longrightarrow> i < length specs \<Longrightarrow>
     set (vs_depends_on (specs ! i)) \<subseteq> set seen \<union> set (map vs_name (take i specs))"
proof (induction names seen specs arbitrary: i rule: declared_in_order.induct)
  case (2 names seen spec specs)
  then show ?case by (cases i) (auto split: if_splits)
qed simp

lemma rendered_view_eq_Inr:
  assumes "rendered_view vl samples known project dataset prefix spec = Inr v"
  obtains p where "av_name v = vs_name spec" "vl_parse vl (av_sql v) = Inr p" "pv_query p"
    "list_all (\<lambda>t. \<not> foreign_table p project dataset t) (pv_tables p)"
    "set (own_tables p) = set (expected_tables prefix spec)"
  using assms
  by (auto simp: rendered_view_def validate_rendered_sql_def inr_simps list_all_iff list_ex_iff intro!: that)

lemma view_specs_ordered:
  "view_specs document = Inr specs \<Longrightarrow> distinct (map vs_name specs) \<and> declared_in_order (map vs_name specs) [] specs = Inr ()"
  by (auto simp: view_specs_def validate_manifest_def inr_simps split: if_splits)

text \<open>What one view may refer to: a common table expression of its own, or a table of the dataset that is a view
  created before it or a source that the manifest names.\<close>

definition refers_within :: "string \<Rightarrow> string \<Rightarrow> string list \<Rightarrow> parsed_view \<Rightarrow> bool" where
  "refers_within project dataset available p \<longleftrightarrow> pv_query p \<and>
     list_all (\<lambda>(cat, db, name). (cat = [] \<and> db = [] \<and> name \<in> set (pv_ctes p)) \<or>
       (cat = project \<and> db = dataset \<and> name \<in> set available)) (pv_tables p)"

lemma refers_withinI:
  assumes "pv_query p" and "list_all (\<lambda>t. \<not> foreign_table p project dataset t) (pv_tables p)"
    and "set (own_tables p) \<subseteq> set available"
  shows "refers_within project dataset available p"
  using assms
  by (force simp: refers_within_def list_all_iff foreign_table_def own_tables_def)

text \<open>C21: The views of a dataset are queries over that dataset alone, and they can be created in the order in which
  they are listed: whatever the templates render to, every table of a view is a common table expression of its
  own, a view that is listed before it under the same prefix, or a source of the manifest.\<close>
theorem views_stay_in_their_dataset:
  "case analytics_views vl project dataset prefix of
     Inl e \<Rightarrow> True
   | Inr views \<Rightarrow> safe_identifier project \<and> safe_identifier dataset \<and> distinct (map av_name views) \<and>
       (\<exists>specs. view_specs (vl_manifest vl) = Inr specs \<and> map vs_name specs = map av_name views \<and>
         list_all (\<lambda>i. \<exists>p. vl_parse vl (av_sql (views ! i)) = Inr p \<and>
           refers_within project dataset (map (\<lambda>n. prefix @ n) (map av_name (take i views)) @ vs_sources (specs ! i)) p)
           [0..<length views])"
proof (cases "analytics_views vl project dataset prefix")
  case (Inr views)
  then obtain specs samples where ids: "safe_identifier project" "safe_identifier dataset"
    and specs: "view_specs (vl_manifest vl) = Inr specs"
    and r: "rmap (rendered_view vl samples (map vs_name specs) project dataset prefix) specs = Inr views"
    by (auto simp: analytics_views_def opaque_identifier_def inr_simps split: if_splits)
  have len: "length views = length specs"
    and each: "i < length specs \<Longrightarrow> rendered_view vl samples (map vs_name specs) project dataset prefix (specs ! i) = Inr (views ! i)" for i
    using r by (auto simp: rmap_eq_Inr)
  have names: "map vs_name specs = map av_name views"
    using len by (intro nth_equalityI) (auto elim: rendered_view_eq_Inr [OF each])
  have "\<exists>p. vl_parse vl (av_sql (views ! i)) = Inr p \<and>
      refers_within project dataset (map (\<lambda>n. prefix @ n) (map av_name (take i views)) @ vs_sources (specs ! i)) p"
    if i: "i < length views" for i
  proof -
    from i len each [of i] obtain p where p: "vl_parse vl (av_sql (views ! i)) = Inr p" "pv_query p"
      "list_all (\<lambda>t. \<not> foreign_table p project dataset t) (pv_tables p)"
      "set (own_tables p) = set (expected_tables prefix (specs ! i))"
      by (auto elim: rendered_view_eq_Inr)
    have "set (vs_depends_on (specs ! i)) \<subseteq> set (map vs_name (take i specs))"
      using declared_prefix [of "map vs_name specs" "[]" specs i] view_specs_ordered [OF specs] i len by simp
    then have "set (own_tables p) \<subseteq> set (map (\<lambda>n. prefix @ n) (map av_name (take i views)) @ vs_sources (specs ! i))"
      unfolding p(4) expected_tables_def by (simp add: take_map [symmetric] names) (auto simp: take_map)
    with p show ?thesis by (intro exI [of _ p] conjI refers_withinI)
  qed
  with Inr ids specs names view_specs_ordered [OF specs] show ?thesis
    by (auto simp: list_all_iff)
qed simp

end
