(* ===== verification/BigQueryAdmin.thy ===== *)
theory BigQueryAdmin
  imports AnalyticsViews IdentityStore
begin

text \<open>
  \<open>auth/bigquery_admin.py\<close>: the dataset of one user, its raw table and its managed views.  The state is what
  BigQuery keeps of the project: datasets and, per dataset, tables and views.  Every call of the client may be
  served, refused without an effect, or served with its answer lost; which of the three is an argument, by the
  number of the call.  Labels are merged by an update, as BigQuery documents for patches; the other fields are
  replaced.
\<close>

subsection \<open>What BigQuery keeps\<close>

type_synonym labels = "string \<rightharpoonup> string"

record access_entry =
  ac_role :: "string option"
  ac_entity_type :: string
  ac_entity_id :: val

record bq_dataset =
  ds_location :: string
  ds_description :: "string option"
  ds_labels :: labels
  ds_table_expiration :: "int option"
  ds_partition_expiration :: "int option"
  ds_access :: "access_entry list"

record bq_table =
  tb_type :: "string option"
  tb_description :: "string option"
  tb_labels :: labels
  tb_view_query :: "string option"
  tb_legacy_sql :: "bool option"
  tb_expires :: "int option"
  tb_partitioning :: "(string \<times> string option) option"
  tb_clustering :: "string list option"
  tb_schema :: "(string \<times> string \<times> string) list"

record bigquery =
  bq_datasets :: "(string \<times> bq_dataset) list"
  bq_tables :: "((string \<times> string) \<times> bq_table) list"
  bq_calls :: nat

datatype answer = Served | Refused exn | Unanswered exn

text \<open>\<open>be_sha256\<close> is the hexadecimal digest of a text; \<open>be_uuid\<close> and \<open>be_now\<close> are what is drawn and what the
  clock shows at a call.\<close>

record bq_env =
  be_answer :: "nat \<Rightarrow> answer"
  be_uuid :: "nat \<Rightarrow> string"
  be_now :: "nat \<Rightarrow> int"
  be_sha256 :: "string \<Rightarrow> string"
  be_views :: view_lib

type_synonym 'a bq = "(bigquery, exn, 'a) oper"

definition not_found :: exn where "not_found = LibraryError ''NotFound''"
definition conflict :: exn where "conflict = LibraryError ''Conflict''"

definition table_at :: "bigquery \<Rightarrow> string \<Rightarrow> string \<Rightarrow> bq_table option" where
  "table_at w d n = map_of (bq_tables w) (d, n)"

definition dataset_at :: "bigquery \<Rightarrow> string \<Rightarrow> bq_dataset option" where
  "dataset_at w d = map_of (bq_datasets w) d"

text \<open>One call of the client: \<open>f\<close> is what the service does with it.\<close>

definition bq_call :: "bq_env \<Rightarrow> (bigquery \<Rightarrow> exn + 'a \<times> bigquery) \<Rightarrow> 'a bq" where
  "bq_call env f w =
     (let v = w\<lparr>bq_calls := bq_calls w + 1\<rparr>
      in case be_answer env (bq_calls w) of
           Refused e \<Rightarrow> (Inl e, v)
         | Served \<Rightarrow> (case f v of Inl e \<Rightarrow> (Inl e, v) | Inr (x, u) \<Rightarrow> (Inr x, u))
         | Unanswered e \<Rightarrow> (case f v of Inl e' \<Rightarrow> (Inl e, v) | Inr (x, u) \<Rightarrow> (Inl e, u)))"

definition put_dataset :: "string \<Rightarrow> bq_dataset \<Rightarrow> bigquery \<Rightarrow> bigquery" where
  "put_dataset d x w = w\<lparr>bq_datasets := AList.update d x (bq_datasets w)\<rparr>"

definition put_table :: "string \<Rightarrow> string \<Rightarrow> bq_table \<Rightarrow> bigquery \<Rightarrow> bigquery" where
  "put_table d n t w = w\<lparr>bq_tables := AList.update (d, n) t (bq_tables w)\<rparr>"

definition drop_table :: "string \<Rightarrow> string \<Rightarrow> bigquery \<Rightarrow> bigquery" where
  "drop_table d n w = w\<lparr>bq_tables := AList.delete (d, n) (bq_tables w)\<rparr>"

definition get_dataset :: "bq_env \<Rightarrow> string \<Rightarrow> bq_dataset bq" where
  "get_dataset env d = bq_call env (\<lambda>w. case dataset_at w d of None \<Rightarrow> Inl not_found | Some x \<Rightarrow> Inr (x, w))"

definition create_dataset :: "bq_env \<Rightarrow> string \<Rightarrow> bq_dataset \<Rightarrow> bool \<Rightarrow> unit bq" where
  "create_dataset env d x exists_ok = bq_call env (\<lambda>w. case dataset_at w d of
       None \<Rightarrow> Inr ((), put_dataset d x w)
     | Some y \<Rightarrow> if exists_ok then Inr ((), w) else Inl conflict)"

text \<open>\<open>chosen fields f new old\<close>: an update writes the fields it names.\<close>

definition chosen :: "string list \<Rightarrow> string \<Rightarrow> 'a \<Rightarrow> 'a \<Rightarrow> 'a" where
  "chosen names f new old = (if f \<in> set names then new else old)"

definition patched_dataset :: "string list \<Rightarrow> bq_dataset \<Rightarrow> bq_dataset \<Rightarrow> bq_dataset" where
  "patched_dataset names new old = old\<lparr>
     ds_description := chosen names ''description'' (ds_description new) (ds_description old),
     ds_labels := chosen names ''labels'' (ds_labels old ++ ds_labels new) (ds_labels old),
     ds_table_expiration := chosen names ''default_table_expiration_ms'' (ds_table_expiration new) (ds_table_expiration old),
     ds_partition_expiration :=
       chosen names ''default_partition_expiration_ms'' (ds_partition_expiration new) (ds_partition_expiration old),
     ds_access := chosen names ''access_entries'' (ds_access new) (ds_access old)\<rparr>"

definition update_dataset :: "bq_env \<Rightarrow> string \<Rightarrow> string list \<Rightarrow> bq_dataset \<Rightarrow> unit bq" where
  "update_dataset env d names x = bq_call env (\<lambda>w. case dataset_at w d of
       None \<Rightarrow> Inl not_found
     | Some y \<Rightarrow> Inr ((), put_dataset d (patched_dataset names x y) w))"

definition get_table :: "bq_env \<Rightarrow> string \<Rightarrow> string \<Rightarrow> bq_table bq" where
  "get_table env d n = bq_call env (\<lambda>w. case table_at w d n of None \<Rightarrow> Inl not_found | Some t \<Rightarrow> Inr (t, w))"

definition stored_table :: "bq_table \<Rightarrow> bq_table" where
  "stored_table t = t\<lparr>tb_type := Some (if tb_view_query t = None then ''TABLE'' else ''VIEW'')\<rparr>"

definition create_table :: "bq_env \<Rightarrow> string \<Rightarrow> string \<Rightarrow> bq_table \<Rightarrow> bool \<Rightarrow> unit bq" where
  "create_table env d n t exists_ok = bq_call env (\<lambda>w. case dataset_at w d of
       None \<Rightarrow> Inl not_found
     | Some x \<Rightarrow> (case table_at w d n of
           None \<Rightarrow> Inr ((), put_table d n (stored_table t) w)
         | Some y \<Rightarrow> if exists_ok then Inr ((), w) else Inl conflict))"

definition patched_table :: "string list \<Rightarrow> bq_table \<Rightarrow> bq_table \<Rightarrow> bq_table" where
  "patched_table names new old = old\<lparr>
     tb_description := chosen names ''description'' (tb_description new) (tb_description old),
     tb_labels := chosen names ''labels'' (tb_labels old ++ tb_labels new) (tb_labels old),
     tb_view_query := chosen names ''view_query'' (tb_view_query new) (tb_view_query old),
     tb_legacy_sql := chosen names ''view_use_legacy_sql'' (tb_legacy_sql new) (tb_legacy_sql old),
     tb_expires := chosen names ''expires'' (tb_expires new) (tb_expires old)\<rparr>"

definition update_table :: "bq_env \<Rightarrow> string \<Rightarrow> string \<Rightarrow> string list \<Rightarrow> bq_table \<Rightarrow> unit bq" where
  "update_table env d n names t = bq_call env (\<lambda>w. case table_at w d n of
       None \<Rightarrow> Inl not_found
     | Some y \<Rightarrow> Inr ((), put_table d n (patched_table names t y) w))"

text \<open>\<open>delete_table\<close> is always called with \<open>not_found_ok\<close>.\<close>

definition delete_table :: "bq_env \<Rightarrow> string \<Rightarrow> string \<Rightarrow> unit bq" where
  "delete_table env d n = bq_call env (\<lambda>w. Inr ((), drop_table d n w))"

definition list_tables :: "bq_env \<Rightarrow> string \<Rightarrow> string list bq" where
  "list_tables env d = bq_call env (\<lambda>w. case dataset_at w d of
       None \<Rightarrow> Inl not_found
     | Some x \<Rightarrow> Inr (map (\<lambda>((e, n), t). n) (filter (\<lambda>((e, n), t). e = d) (bq_tables w)), w))"

subsection \<open>Constants\<close>

definition user_by_email :: "string option \<Rightarrow> string \<Rightarrow> access_entry" where
  "user_by_email role account = \<lparr>ac_role = role, ac_entity_type = ''userByEmail'', ac_entity_id = VStr account\<rparr>"

definition data_viewer_access_role :: string where "data_viewer_access_role = ''READER''"
definition data_editor_access_role :: string where "data_editor_access_role = ''WRITER''"

definition dataset_description :: string where
  "dataset_description = ''Isolated Tesla history for one approved platform user.''"

definition dataset_labels :: labels where
  "dataset_labels = [''application'' \<mapsto> ''tesla-personal-platform'', ''data_class'' \<mapsto> ''restricted-user-telemetry'',
     ''managed_by'' \<mapsto> ''add-user'']"

definition raw_table_labels :: labels where
  "raw_table_labels = [''application'' \<mapsto> ''tesla-personal-platform'', ''data_class'' \<mapsto> ''restricted-user-telemetry'',
     ''managed_by'' \<mapsto> ''add-user'']"

definition analytics_view_labels :: labels where
  "analytics_view_labels = [''application'' \<mapsto> ''tesla-personal-platform'',
     ''data_class'' \<mapsto> ''restricted-user-telemetry'', ''managed_by'' \<mapsto> ''analytics-view-reconciler'',
     ''layer'' \<mapsto> ''analytics'']"

definition legacy_analytics_view_managers :: "string list" where
  "legacy_analytics_view_managers = [''add-user'', ''analytics-view-reconciler'']"

definition analytics_preflight_ttl :: int where "analytics_preflight_ttl = 3600 * 1000000"

definition restricted_dataset_access :: "access_entry list \<Rightarrow> string \<Rightarrow> string \<Rightarrow> string \<Rightarrow> string \<Rightarrow> access_entry list" where
  "restricted_dataset_access existing owner gateway processor approved_email =
     [user_by_email (Some ''OWNER'') owner, user_by_email (Some data_viewer_access_role) gateway,
      user_by_email (Some data_editor_access_role) processor,
      user_by_email (Some data_viewer_access_role) approved_email]"

definition temporary_dataset_reader_access :: "access_entry list \<Rightarrow> string \<Rightarrow> access_entry list" where
  "temporary_dataset_reader_access existing account =
     (let reader = user_by_email (Some data_viewer_access_role) account
      in if reader \<in> set existing then existing else existing @ [reader])"

definition view_labels :: "bq_env \<Rightarrow> string \<Rightarrow> string \<Rightarrow> labels" where
  "view_labels env desc sql =
     analytics_view_labels(''definition_hash'' \<mapsto> take 16 (be_sha256 env (desc @ [CHR 0x00] @ sql)))"

definition preflight_labels :: "bq_env \<Rightarrow> string \<Rightarrow> string \<Rightarrow> labels" where
  "preflight_labels env desc sql = (view_labels env desc sql)(''managed_by'' \<mapsto> ''analytics-view-preflight'')"

definition is_managed_analytics_view :: "bq_table \<Rightarrow> bool" where
  "is_managed_analytics_view t \<longleftrightarrow> tb_type t = Some ''VIEW'' \<and>
     tb_labels t ''application'' = analytics_view_labels ''application'' \<and>
     tb_labels t ''data_class'' = analytics_view_labels ''data_class'' \<and>
     tb_labels t ''layer'' = analytics_view_labels ''layer'' \<and>
     (case tb_labels t ''managed_by'' of None \<Rightarrow> False | Some m \<Rightarrow> m \<in> set legacy_analytics_view_managers)"

subsection \<open>Views\<close>

definition new_view :: "string option \<Rightarrow> labels \<Rightarrow> string \<Rightarrow> int option \<Rightarrow> bq_table" where
  "new_view desc lbs query expires = \<lparr>tb_type = None, tb_description = desc, tb_labels = lbs, tb_view_query = Some query,
     tb_legacy_sql = Some False, tb_expires = expires, tb_partitioning = None, tb_clustering = None, tb_schema = []\<rparr>"

definition shadow_view :: "bq_env \<Rightarrow> int \<Rightarrow> analytics_view \<Rightarrow> bq_table" where
  "shadow_view env expires v = new_view (Some (''Short-lived validation shadow for '' @ av_name v @ ''.''))
     (preflight_labels env (av_description v) (av_sql v)) (av_sql v) (Some expires)"

definition desired_view :: "bq_env \<Rightarrow> analytics_view \<Rightarrow> bq_table" where
  "desired_view env v = new_view (Some (av_description v)) (view_labels env (av_description v) (av_sql v)) (av_sql v) None"

text \<open>The loop of \<open>_preflight\<close>: the shadows created, and the first failure.\<close>

fun create_shadows :: "bq_env \<Rightarrow> string \<Rightarrow> string \<Rightarrow> int \<Rightarrow> analytics_view list \<Rightarrow> bigquery \<Rightarrow>
  (string list \<times> (string \<times> exn) option) \<times> bigquery" where
  "create_shadows env d prefix expires [] w = (([], None), w)"
| "create_shadows env d prefix expires (v # vs) w =
     (case create_table env d (prefix @ av_name v) (shadow_view env expires v) False w of
        (Inl e, w1) \<Rightarrow> (([], Some (av_name v, e)), w1)
      | (Inr u, w1) \<Rightarrow> (case create_shadows env d prefix expires vs w1 of
          ((created, failure), w2) \<Rightarrow> (((prefix @ av_name v) # created, failure), w2)))"

text \<open>Deletes all of them, whatever fails, and keeps the first error.\<close>

fun delete_shadows :: "bq_env \<Rightarrow> string \<Rightarrow> string list \<Rightarrow> bigquery \<Rightarrow> exn option \<times> bigquery" where
  "delete_shadows env d [] w = (None, w)"
| "delete_shadows env d (n # ns) w =
     (case delete_table env d n w of
        (Inl e, w1) \<Rightarrow> (case delete_shadows env d ns w1 of (rest, w2) \<Rightarrow> (Some e, w2))
      | (Inr u, w1) \<Rightarrow> delete_shadows env d ns w1)"

definition preflight_prefix :: "bq_env \<Rightarrow> bigquery \<Rightarrow> string" where
  "preflight_prefix env w = ''tpp_preflight_'' @ take 12 (be_uuid env (bq_calls w)) @ ''_''"

definition preflight :: "bq_env \<Rightarrow> string \<Rightarrow> string \<Rightarrow> unit bq" where
  "preflight env project d w =
     (let prefix = preflight_prefix env w
      in case analytics_views (be_views env) project d prefix of
           Inl e \<Rightarrow> (Inl e, w)
         | Inr definitions \<Rightarrow>
            (case create_shadows env d prefix (be_now env (bq_calls w) + analytics_preflight_ttl) definitions w of
               ((created, failure), w1) \<Rightarrow> (case delete_shadows env d (rev created) w1 of
                 (Some e, w2) \<Rightarrow> (Inl (AnalyticsViewReconciliationError ''preflight cleanup'' ''shadow graph''), w2)
               | (None, w2) \<Rightarrow> (case failure of
                   Some (failed_view_name, cause) \<Rightarrow> (Inl (AnalyticsViewReconciliationError ''preflight'' failed_view_name), w2)
                 | None \<Rightarrow> (Inr (), w2)))))"

record view_snapshot =
  sn_description :: "string option"
  sn_labels :: labels
  sn_view_query :: "string option"
  sn_legacy_sql :: "bool option"

definition snapshot_of :: "bq_table \<Rightarrow> view_snapshot" where
  "snapshot_of t = \<lparr>sn_description = tb_description t, sn_labels = tb_labels t, sn_view_query = tb_view_query t,
     sn_legacy_sql = tb_legacy_sql t\<rparr>"

type_synonym view_change = "string \<times> view_snapshot option"

definition view_fields :: "string list" where
  "view_fields = [''description'', ''labels'', ''view_query'', ''view_use_legacy_sql'']"

definition write_view :: "bq_env \<Rightarrow> string \<Rightarrow> string \<Rightarrow> view_snapshot \<Rightarrow> bq_table \<Rightarrow> unit bq" where
  "write_view env d n s current = update_table env d n view_fields
     (current\<lparr>tb_description := sn_description s, tb_labels := sn_labels s, tb_view_query := sn_view_query s,
        tb_legacy_sql := sn_legacy_sql s\<rparr>)"

text \<open>One turn of the loop of \<open>_promote\<close>: it finds the view or creates it and records the change, then writes
  the definition.\<close>

definition prepare_view :: "bq_env \<Rightarrow> string \<Rightarrow> string \<Rightarrow> bq_table \<Rightarrow> bigquery \<Rightarrow> (view_change list \<times> (exn + bq_table)) \<times> bigquery" where
  "prepare_view env d n desired w = (case get_table env d n w of
       (Inr current, w1) \<Rightarrow>
         if \<not> (tb_type current = None \<or> tb_type current = Some ''VIEW'')
         then (([], Inl (ValueError ''Existing canonical analytics object is not a view'')), w1)
         else (([(n, Some (snapshot_of current))], Inr current), w1)
     | (Inl e, w1) \<Rightarrow>
         if e \<noteq> not_found then (([], Inl e), w1)
         else (case create_table env d n desired False w1 of
           (Inl e, w2) \<Rightarrow> (([], Inl e), w2)
         | (Inr u, w2) \<Rightarrow> (case get_table env d n w2 of (r, w3) \<Rightarrow> (([(n, None)], r), w3))))"

definition promote_view :: "bq_env \<Rightarrow> string \<Rightarrow> analytics_view \<Rightarrow> bigquery \<Rightarrow> (view_change list \<times> (exn + unit)) \<times> bigquery" where
  "promote_view env d v w = (case prepare_view env d (av_name v) (desired_view env v) w of
       ((changes, Inl e), w1) \<Rightarrow> ((changes, Inl e), w1)
     | ((changes, Inr current), w1) \<Rightarrow>
         (case write_view env d (av_name v) (snapshot_of (desired_view env v)) current w1 of
            (r, w2) \<Rightarrow> ((changes, r), w2)))"

fun promote_views :: "bq_env \<Rightarrow> string \<Rightarrow> analytics_view list \<Rightarrow> bigquery \<Rightarrow>
  (view_change list \<times> string option) \<times> bigquery" where
  "promote_views env d [] w = (([], None), w)"
| "promote_views env d (v # vs) w =
     (case promote_view env d v w of
        ((changes, Inl e), w1) \<Rightarrow> ((changes, Some (av_name v)), w1)
      | ((changes, Inr u), w1) \<Rightarrow> (case promote_views env d vs w1 of
          ((more_changes, failed), w2) \<Rightarrow> ((changes @ more_changes, failed), w2)))"

definition rollback_view :: "bq_env \<Rightarrow> string \<Rightarrow> view_change \<Rightarrow> unit bq" where
  "rollback_view env d change = (case change of
       (n, None) \<Rightarrow> delete_table env d n
     | (n, Some s) \<Rightarrow> obind (get_table env d n) (\<lambda>current. write_view env d n s current))"

fun rollback_views :: "bq_env \<Rightarrow> string \<Rightarrow> view_change list \<Rightarrow> bigquery \<Rightarrow> exn option \<times> bigquery" where
  "rollback_views env d [] w = (None, w)"
| "rollback_views env d (c # cs) w =
     (case rollback_view env d c w of
        (Inl e, w1) \<Rightarrow> (case rollback_views env d cs w1 of (rest, w2) \<Rightarrow> (Some e, w2))
      | (Inr u, w1) \<Rightarrow> rollback_views env d cs w1)"

definition rollback_promotion :: "bq_env \<Rightarrow> string \<Rightarrow> view_change list \<Rightarrow> bigquery \<Rightarrow> exn option \<times> bigquery" where
  "rollback_promotion env d changes = rollback_views env d (rev changes)"

definition promote :: "bq_env \<Rightarrow> string \<Rightarrow> analytics_view list \<Rightarrow> unit bq" where
  "promote env d definitions w =
     (case promote_views env d definitions w of
        ((changes, None), w1) \<Rightarrow> (Inr (), w1)
      | ((changes, Some active_view_name), w1) \<Rightarrow> (case rollback_promotion env d changes w1 of
          (Some e, w2) \<Rightarrow> (Inl (AnalyticsViewReconciliationError ''promotion rollback'' active_view_name), w2)
        | (None, w2) \<Rightarrow> (Inl (AnalyticsViewReconciliationError ''promotion'' active_view_name), w2)))"

subsection \<open>Reconciliation\<close>

record view_reconciler =
  rc_project :: string
  rc_account :: string
  rc_remove_stale :: bool

fun remove_stale_views :: "bq_env \<Rightarrow> string \<Rightarrow> string list \<Rightarrow> string list \<Rightarrow> nat bq" where
  "remove_stale_views env d desired [] = oret 0"
| "remove_stale_views env d desired (n # ns) =
     (if n \<in> set desired then remove_stale_views env d desired ns
      else obind (get_table env d n) (\<lambda>t.
        if \<not> is_managed_analytics_view t then remove_stale_views env d desired ns
        else obind (delete_table env d n) (\<lambda>_. obind (remove_stale_views env d desired ns) (\<lambda>k. oret (k + 1)))))"

fun managed_view_names :: "bq_env \<Rightarrow> string \<Rightarrow> string list \<Rightarrow> string list bq" where
  "managed_view_names env d [] = oret []"
| "managed_view_names env d (n # ns) =
     obind (get_table env d n) (\<lambda>t. obind (managed_view_names env d ns) (\<lambda>names.
       oret (if is_managed_analytics_view t then n # names else names)))"

definition remove_stale :: "bq_env \<Rightarrow> string \<Rightarrow> string list \<Rightarrow> nat bq" where
  "remove_stale env d desired =
     obind (list_tables env d) (\<lambda>items.
     obind (remove_stale_views env d desired items) (\<lambda>removed.
     obind (list_tables env d) (\<lambda>items.
     obind (managed_view_names env d items) (\<lambda>names.
     if set names \<noteq> set desired then oraise (RuntimeError ''Managed analytics view postcondition failed'')
     else oret removed))))"

text \<open>The body of the \<open>try\<close>: how many views are desired and how many were removed.\<close>

definition reconcile_views :: "bq_env \<Rightarrow> view_reconciler \<Rightarrow> string \<Rightarrow> (nat \<times> nat) bq" where
  "reconcile_views env rc d =
     obind (olift (analytics_views (be_views env) (rc_project rc) d [])) (\<lambda>definitions.
     obind (preflight env (rc_project rc) d) (\<lambda>_.
     obind (promote env d definitions) (\<lambda>_.
     obind (if rc_remove_stale rc then remove_stale env d (map av_name definitions) else oret 0) (\<lambda>removed.
     oret (length definitions, removed)))))"

definition restore_access :: "bq_env \<Rightarrow> string \<Rightarrow> access_entry list \<Rightarrow> unit bq" where
  "restore_access env d permanent =
     obind (get_dataset env d) (\<lambda>restored.
     update_dataset env d [''access_entries''] (restored\<lparr>ds_access := permanent\<rparr>))"

definition reconcile :: "bq_env \<Rightarrow> view_reconciler \<Rightarrow> string \<Rightarrow> (nat \<times> nat) bq" where
  "reconcile env rc d =
     obind (get_dataset env d) (\<lambda>dataset.
     obind (update_dataset env d [''access_entries'']
       (dataset\<lparr>ds_access := temporary_dataset_reader_access (ds_access dataset) (rc_account rc)\<rparr>)) (\<lambda>_.
     finally_do (reconcile_views env rc d) (restore_access env d (ds_access dataset))))"

subsection \<open>Provisioning\<close>

record provisioner =
  pr_project :: string
  pr_location :: string
  pr_owner :: string
  pr_gateway :: string
  pr_processor :: string
  pr_admin :: string

definition mode_text :: "column_mode \<Rightarrow> string" where
  "mode_text m = (case m of Nullable \<Rightarrow> ''NULLABLE'' | Required \<Rightarrow> ''REQUIRED'')"

definition private_access :: "provisioner \<Rightarrow> allowed_user \<Rightarrow> access_entry list" where
  "private_access p u = restricted_dataset_access [] (pr_owner p) (pr_gateway p) (pr_processor p) (invitation_email u)"

definition new_dataset :: "provisioner \<Rightarrow> allowed_user \<Rightarrow> bq_dataset" where
  "new_dataset p u = \<lparr>ds_location = pr_location p, ds_description = Some dataset_description, ds_labels = dataset_labels,
     ds_table_expiration = None, ds_partition_expiration = None, ds_access = private_access p u\<rparr>"

definition new_raw_table :: bq_table where
  "new_raw_table = \<lparr>tb_type = None, tb_description = Some ''Permanent append-only Fleet Telemetry observations.'',
     tb_labels = raw_table_labels, tb_view_query = None, tb_legacy_sql = None, tb_expires = None,
     tb_partitioning = Some (''DAY'', Some ''source_timestamp''), tb_clustering = Some [''vehicle_id'', ''record_type''],
     tb_schema = map (\<lambda>(n, ty, m). (n, ty, mode_text m)) raw_telemetry_schema\<rparr>"

definition compatible_layout :: "bq_table \<Rightarrow> bool" where
  "compatible_layout t \<longleftrightarrow> tb_partitioning t = Some (''DAY'', Some ''source_timestamp'') \<and>
     tb_clustering t = Some [''vehicle_id'', ''record_type'']"

definition provision_dataset :: "bq_env \<Rightarrow> provisioner \<Rightarrow> allowed_user \<Rightarrow> unit bq" where
  "provision_dataset env p u =
     (let d = dataset_id u in
      obind (create_dataset env d (new_dataset p u) True) (\<lambda>_.
      obind (get_dataset env d) (\<lambda>current.
      if ds_location current \<noteq> pr_location p
      then oraise (ValueError (''Existing dataset '' @ d @ '' is in '' @ ds_location current @ '', not '' @ pr_location p))
      else update_dataset env d
        [''access_entries'', ''default_partition_expiration_ms'', ''default_table_expiration_ms'', ''description'', ''labels'']
        (current\<lparr>ds_table_expiration := None, ds_partition_expiration := None, ds_description := Some dataset_description,
           ds_labels := dataset_labels,
           ds_access := restricted_dataset_access (ds_access current) (pr_owner p) (pr_gateway p) (pr_processor p)
             (invitation_email u)\<rparr>))))"

definition provision_raw_table :: "bq_env \<Rightarrow> string \<Rightarrow> unit bq" where
  "provision_raw_table env d =
     obind (create_table env d raw_telemetry_table new_raw_table True) (\<lambda>_.
     obind (get_table env d raw_telemetry_table) (\<lambda>current_table.
     if \<not> compatible_layout current_table
     then oraise (ValueError (''Existing table '' @ d @ ''.'' @ raw_telemetry_table @
       '' has an incompatible partition or clustering layout''))
     else if tb_schema current_table \<noteq> tb_schema new_raw_table
     then oraise (ValueError (''Existing table '' @ d @ ''.'' @ raw_telemetry_table @
       '' has an incompatible schema; migrate it explicitly before ingestion''))
     else update_table env d raw_telemetry_table [''description'', ''expires'', ''labels'']
       (current_table\<lparr>tb_description := tb_description new_raw_table, tb_labels := raw_table_labels, tb_expires := None\<rparr>)))"

definition provisioning_reconciler :: "provisioner \<Rightarrow> view_reconciler" where
  "provisioning_reconciler p = \<lparr>rc_project = pr_project p, rc_account = pr_admin p, rc_remove_stale = False\<rparr>"

definition provision :: "bq_env \<Rightarrow> provisioner \<Rightarrow> allowed_user \<Rightarrow> unit bq" where
  "provision env p u =
     obind (provision_dataset env p u) (\<lambda>_.
     obind (provision_raw_table env (dataset_id u)) (\<lambda>_.
     obind (reconcile env (provisioning_reconciler p) (dataset_id u)) (\<lambda>_. oret ())))"

end
