(* ===== verification/BigQueryGuarantees.thy ===== *)
theory BigQueryGuarantees
  imports BigQueryAdmin StateFrame
begin

text \<open>
  What the administration of the datasets guarantees, whatever calls are refused or lose their answer: only views
  are changed, a failed promotion is reversed, the access of a dataset is restored, and a reconciliation that
  returns leaves exactly the desired views.
\<close>

subsection \<open>The calls\<close>

abbreviation counted :: "bigquery \<Rightarrow> bigquery" where
  "counted w \<equiv> w\<lparr>bq_calls := Suc (bq_calls w)\<rparr>"

lemma at_simps [simp]:
  "table_at (w\<lparr>bq_calls := k\<rparr>) = table_at w" "dataset_at (w\<lparr>bq_calls := k\<rparr>) = dataset_at w"
  "table_at (put_dataset d x w) = table_at w" "dataset_at (put_table d n t w) = dataset_at w"
  "dataset_at (drop_table d n w) = dataset_at w"
  "table_at (put_table d n t w) e m = (if e = d \<and> m = n then Some t else table_at w e m)"
  "table_at (drop_table d n w) e m = (if e = d \<and> m = n then None else table_at w e m)"
  "dataset_at (put_dataset d x w) e = (if e = d then Some x else dataset_at w e)"
  "bq_calls (put_table d n t w) = bq_calls w" "bq_calls (drop_table d n w) = bq_calls w"
  "bq_calls (put_dataset d x w) = bq_calls w"
  by (auto simp: table_at_def dataset_at_def put_dataset_def put_table_def drop_table_def fun_eq_iff)

lemma bq_call_Inr:
  "bq_call env f w = (Inr x, u) \<longleftrightarrow> be_answer env (bq_calls w) = Served \<and> f (counted w) = Inr (x, u)"
  by (auto simp: bq_call_def Let_def split: answer.splits sum.splits prod.splits)

text \<open>After a call the state is what it was, or what the service made of it.\<close>

lemma bq_call_state:
  "P (counted w) \<Longrightarrow> (\<And>x u. f (counted w) = Inr (x, u) \<Longrightarrow> P u) \<Longrightarrow> P (snd (bq_call env f w))"
  by (auto simp: bq_call_def Let_def split: answer.splits sum.splits)

lemma get_table_Inr: "get_table env d n w = (Inr t, u) \<longleftrightarrow>
    be_answer env (bq_calls w) = Served \<and> table_at w d n = Some t \<and> u = counted w"
  by (auto simp: get_table_def bq_call_Inr split: option.splits)

lemma get_dataset_Inr: "get_dataset env d w = (Inr x, u) \<longleftrightarrow>
    be_answer env (bq_calls w) = Served \<and> dataset_at w d = Some x \<and> u = counted w"
  by (auto simp: get_dataset_def bq_call_Inr split: option.splits)

lemma update_dataset_Inr: "update_dataset env d names x w = (Inr z, u) \<longleftrightarrow>
    be_answer env (bq_calls w) = Served \<and>
    (\<exists>y. dataset_at w d = Some y \<and> u = put_dataset d (patched_dataset names x y) (counted w))"
  by (auto simp: update_dataset_def bq_call_Inr split: option.splits)

lemma update_table_Inr: "update_table env d n names t w = (Inr z, u) \<longleftrightarrow>
    be_answer env (bq_calls w) = Served \<and>
    (\<exists>y. table_at w d n = Some y \<and> u = put_table d n (patched_table names t y) (counted w))"
  by (auto simp: update_table_def bq_call_Inr split: option.splits)

lemma delete_table_Inr: "delete_table env d n w = (Inr z, u) \<longleftrightarrow>
    be_answer env (bq_calls w) = Served \<and> u = drop_table d n (counted w)"
  by (auto simp: delete_table_def bq_call_Inr)

lemma create_table_Inr: "create_table env d n t False w = (Inr z, u) \<longleftrightarrow>
    be_answer env (bq_calls w) = Served \<and> dataset_at w d \<noteq> None \<and> table_at w d n = None \<and>
    u = put_table d n (stored_table t) (counted w)"
  by (auto simp: create_table_def bq_call_Inr split: option.splits)

lemma list_tables_Inr: "list_tables env d w = (Inr items, u) \<longleftrightarrow>
    be_answer env (bq_calls w) = Served \<and> dataset_at w d \<noteq> None \<and> u = counted w \<and>
    items = map (\<lambda>((e, n), t). n) (filter (\<lambda>((e, n), t). e = d) (bq_tables w))"
  by (auto simp: list_tables_def bq_call_Inr split: option.splits)

lemmas calls_Inr = get_table_Inr get_dataset_Inr update_dataset_Inr update_table_Inr delete_table_Inr create_table_Inr
  list_tables_Inr

lemma listed_names:
  "set (map (\<lambda>((e, n), t). n) (filter (\<lambda>((e, n), t). e = d) (bq_tables w))) = {n. table_at w d n \<noteq> None}"
  by (force simp: table_at_def map_of_eq_None_iff)

subsection \<open>Only views are changed\<close>

definition viewlike :: "bq_table \<Rightarrow> bool" where
  "viewlike t \<longleftrightarrow> tb_type t = None \<or> tb_type t = Some ''VIEW''"

definition view_slot :: "bigquery \<Rightarrow> string \<Rightarrow> string \<Rightarrow> bool" where
  "view_slot w d n \<longleftrightarrow> (case table_at w d n of None \<Rightarrow> True | Some t \<Rightarrow> viewlike t)"

text \<open>Of the dataset \<open>d\<close> only views change or appear; the other datasets and what they hold stay as they are.\<close>

definition only_views_change :: "string \<Rightarrow> bigquery \<Rightarrow> bigquery \<Rightarrow> bool" where
  "only_views_change d w w' \<longleftrightarrow>
     (\<forall>n. if view_slot w d n then view_slot w' d n else table_at w' d n = table_at w d n) \<and>
     (\<forall>e. e \<noteq> d \<longrightarrow> table_at w' e = table_at w e \<and> dataset_at w' e = dataset_at w e)"

lemma view_slot_later: "only_views_change d w w' \<Longrightarrow> view_slot w d n \<Longrightarrow> view_slot w' d n"
  unfolding only_views_change_def by metis

interpretation ov: state_frame "only_views_change d" for d
proof
  show "only_views_change d w w" for w by (simp add: only_views_change_def)
next
  fix a b c
  assume ab: "only_views_change d a b" and bc: "only_views_change d b c"
  have "if view_slot a d n then view_slot c d n else table_at c d n = table_at a d n" for n
  proof (cases "view_slot a d n")
    case True
    with ab bc show ?thesis by (simp add: view_slot_later)
  next
    case False
    with ab have same: "table_at b d n = table_at a d n" by (metis only_views_change_def)
    with False have "\<not> view_slot b d n" by (simp add: view_slot_def)
    with bc have "table_at c d n = table_at b d n" by (metis only_views_change_def)
    with False same show ?thesis by simp
  qed
  with ab bc show "only_views_change d a c" by (simp add: only_views_change_def)
qed

lemma ov_same_tables:
  "table_at w' = table_at w \<Longrightarrow> (\<And>e. e \<noteq> d \<Longrightarrow> dataset_at w' e = dataset_at w e) \<Longrightarrow> only_views_change d w w'"
  by (simp add: only_views_change_def view_slot_def)

lemma ov_call: "(\<And>x u. f (counted w) = Inr (x, u) \<Longrightarrow> only_views_change d w u) \<Longrightarrow> only_views_change d w (snd (bq_call env f w))"
  by (rule bq_call_state) (auto simp: ov_same_tables)

lemma ov_reads [intro, simp]:
  "ov.stays d (get_table env d n)" "ov.stays d (get_dataset env d)" "ov.stays d (list_tables env d)"
  "ov.stays d (update_dataset env d names x)"
  unfolding get_table_def get_dataset_def list_tables_def update_dataset_def
  by (auto intro!: ov.staysI ov_call simp: ov_same_tables split: option.splits)

lemma ov_create_dataset [intro, simp]: "ov.stays d (create_dataset env d x exists_ok)"
  unfolding create_dataset_def
  by (auto intro!: ov.staysI ov_call simp: ov_same_tables split: option.splits if_splits)

lemma ov_put: "view_slot w d n \<Longrightarrow> viewlike t \<Longrightarrow> only_views_change d w (put_table d n t (counted w))"
  by (auto simp: only_views_change_def view_slot_def)

lemma ov_drop: "view_slot w d n \<Longrightarrow> only_views_change d w (drop_table d n (counted w))"
  by (auto simp: only_views_change_def view_slot_def)

lemma viewlike_patched: "viewlike t \<Longrightarrow> viewlike (patched_table names x t)"
  by (simp add: viewlike_def patched_table_def)

lemma ov_update_table: "view_slot w d n \<Longrightarrow> only_views_change d w (snd (update_table env d n names t w))"
  unfolding update_table_def
  by (rule ov_call) (auto split: option.splits simp: view_slot_def intro!: ov_put viewlike_patched)

lemma ov_delete_table: "view_slot w d n \<Longrightarrow> only_views_change d w (snd (delete_table env d n w))"
  unfolding delete_table_def by (rule ov_call) (auto intro: ov_drop)

lemma ov_create_view: "tb_view_query t \<noteq> None \<Longrightarrow> ov.stays d (create_table env d n t False)"
  unfolding create_table_def
  by (rule ov.staysI, rule ov_call)
    (auto split: option.splits simp: stored_table_def viewlike_def view_slot_def intro!: ov_put)

text \<open>The names that were recorded as changed are names of views, or free.\<close>

lemma ov_get_table: "get_table env d n w = (r, w') \<Longrightarrow> only_views_change d w w'"
  using ov.staysD [OF ov_reads(1), of d w env n] by simp

lemma ov_create_table: "create_table env d n t False w = (r, w') \<Longrightarrow> tb_view_query t \<noteq> None \<Longrightarrow> only_views_change d w w'"
  using ov.staysD [OF ov_create_view, of t d w env n] by simp

lemma slot_after_get: "get_table env d n w = (Inr t, w') \<Longrightarrow> viewlike t \<Longrightarrow> view_slot w' d n"
  by (auto simp: get_table_Inr view_slot_def)

lemma slot_after_create: "create_table env d n t False w = (Inr u, w') \<Longrightarrow> tb_view_query t \<noteq> None \<Longrightarrow> view_slot w' d n"
  by (auto simp: create_table_Inr view_slot_def stored_table_def viewlike_def)

lemma ov_write_view: "write_view env d n s t w = (r, w') \<Longrightarrow> view_slot w d n \<Longrightarrow> only_views_change d w w'"
  by (metis ov_update_table snd_conv write_view_def)

lemma ov_prepare_view:
  assumes p: "prepare_view env d n desired w = ((changes, r), w')" and q: "tb_view_query desired \<noteq> None"
  shows "only_views_change d w w' \<and> list_all (\<lambda>(m, s). view_slot w' d m) changes \<and> (\<forall>t. r = Inr t \<longrightarrow> view_slot w' d n)"
proof (cases "get_table env d n w")
  case (Pair a w1)
  note w1 = ov_get_table [OF Pair]
  show ?thesis
  proof (cases a)
    case (Inr t)
    with p Pair w1 slot_after_get [OF Pair [unfolded Inr]] show ?thesis
      by (auto simp: prepare_view_def viewlike_def split: if_splits)
  next
    case (Inl e)
    obtain b w2 where c: "create_table env d n desired False w1 = (b, w2)" by fastforce
    obtain k w3 where g: "get_table env d n w2 = (k, w3)" by fastforce
    note w2 = ov_create_table [OF c q] and w3 = ov_get_table [OF g]
    from w1 w2 w3 have steps: "only_views_change d w w2" "only_views_change d w w3" by (meson ov.rel_trans)+
    have slot: "view_slot w3 d n" if "b = Inr u" for u
      using slot_after_create [OF c [unfolded that] q] w3 by (rule view_slot_later [rotated])
    from p Pair Inl c g w1 steps slot show ?thesis
      by (auto simp: prepare_view_def split: if_splits sum.splits)
  qed
qed

lemma ov_promote_view:
  assumes "promote_view env d v w = ((changes, r), w')"
  shows "only_views_change d w w' \<and> list_all (\<lambda>(n, s). view_slot w' d n) changes"
proof -
  obtain cs a w1 where p: "prepare_view env d (av_name v) (desired_view env v) w = ((cs, a), w1)"
    by (metis surj_pair)
  have q: "tb_view_query (desired_view env v) \<noteq> None" by (simp add: desired_view_def new_view_def)
  note prep = ov_prepare_view [OF p q]
  show ?thesis
  proof (cases a)
    case (Inl e)
    with assms p prep show ?thesis by (simp add: promote_view_def)
  next
    case (Inr t)
    obtain b w2 where u: "write_view env d (av_name v) (snapshot_of (desired_view env v)) t w1 = (b, w2)" by fastforce
    from prep Inr have w2: "only_views_change d w1 w2" using ov_write_view [OF u] by blast
    with prep have "only_views_change d w w2" using ov.rel_trans by blast
    moreover have "list_all (\<lambda>(n, s). view_slot w2 d n) cs"
      using prep view_slot_later [OF w2] by (auto simp: list_all_iff)
    ultimately show ?thesis using assms p Inr u by (simp add: promote_view_def)
  qed
qed

lemma ov_promote_views:
  "promote_views env d vs w = ((changes, failed), w') \<Longrightarrow>
     only_views_change d w w' \<and> list_all (\<lambda>(n, s). view_slot w' d n) changes"
proof (induction vs arbitrary: w changes failed w')
  case Nil
  then show ?case by (simp add: ov.rel_refl)
next
  case (Cons v vs)
  obtain cs r w1 where p: "promote_view env d v w = ((cs, r), w1)" by (metis surj_pair)
  note one = ov_promote_view [OF p]
  show ?case
  proof (cases r)
    case (Inl e)
    with Cons.prems p one show ?thesis by simp
  next
    case (Inr u)
    obtain more f w2 where ps: "promote_views env d vs w1 = ((more, f), w2)" by (metis surj_pair)
    note rest = Cons.IH [OF ps]
    have "list_all (\<lambda>(n, s). view_slot w2 d n) cs"
      using one rest view_slot_later [of d w1 w2] by (auto simp: list_all_iff)
    with Cons.prems p Inr ps one rest show ?thesis by (auto intro: ov.rel_trans)
  qed
qed

lemma ov_rollback_view:
  assumes "view_slot w d (fst c)"
  shows "only_views_change d w (snd (rollback_view env d c w))"
proof (cases c)
  case (Pair n s)
  show ?thesis
  proof (cases s)
    case None
    with assms Pair show ?thesis by (simp add: rollback_view_def ov_delete_table)
  next
    case (Some x)
    obtain a w1 where g: "get_table env d n w = (a, w1)" by fastforce
    note w1 = ov_get_table [OF g]
    show ?thesis
    proof (cases a)
      case (Inl e)
      with w1 g Pair Some show ?thesis by (simp add: rollback_view_def obind_def)
    next
      case (Inr t)
      obtain r w2 where u: "write_view env d n x t w1 = (r, w2)" by fastforce
      from assms Pair w1 have "view_slot w1 d n" by (auto intro: view_slot_later)
      with w1 ov_write_view [OF u] have "only_views_change d w w2" by (meson ov.rel_trans)
      with g u Pair Some Inr show ?thesis by (simp add: rollback_view_def obind_def)
    qed
  qed
qed

lemma ov_rollback_views:
  "list_all (\<lambda>(n, s). view_slot w d n) cs \<Longrightarrow> only_views_change d w (snd (rollback_views env d cs w))"
proof (induction cs arbitrary: w)
  case Nil
  then show ?case by (simp add: ov.rel_refl)
next
  case (Cons c cs)
  obtain r w1 where b: "rollback_view env d c w = (r, w1)" by fastforce
  with ov_rollback_view [of w d c env] Cons.prems have w1: "only_views_change d w w1" by (cases c) auto
  with Cons.prems have "list_all (\<lambda>(n, s). view_slot w1 d n) cs" using view_slot_later [OF w1] by (auto simp: list_all_iff)
  from Cons.IH [OF this] w1 have "only_views_change d w (snd (rollback_views env d cs w1))" by (meson ov.rel_trans)
  with b show ?case by (auto split: sum.split prod.split)
qed

lemma ov_promote: "ov.stays d (promote env d definitions)"
proof (rule ov.staysI)
  fix w
  obtain changes failed w1 where p: "promote_views env d definitions w = ((changes, failed), w1)" by (metis surj_pair)
  note steps = ov_promote_views [OF p]
  then have "only_views_change d w1 (snd (rollback_promotion env d changes w1))"
    unfolding rollback_promotion_def by (intro ov_rollback_views) (simp add: list_all_rev)
  with steps have "only_views_change d w (snd (rollback_promotion env d changes w1))" by (meson ov.rel_trans)
  with p steps show "only_views_change d w (snd (promote env d definitions w))"
    by (auto simp: promote_def split: option.split prod.split)
qed

lemma ov_create_shadows:
  "create_shadows env d prefix expires vs w = ((created, failure), w') \<Longrightarrow>
     only_views_change d w w' \<and> list_all (view_slot w' d) created"
proof (induction vs arbitrary: w created failure w')
  case Nil
  then show ?case by (simp add: ov.rel_refl)
next
  case (Cons v vs)
  have q: "tb_view_query (shadow_view env expires v) \<noteq> None" by (simp add: shadow_view_def new_view_def)
  obtain r w1 where c: "create_table env d (prefix @ av_name v) (shadow_view env expires v) False w = (r, w1)" by fastforce
  note w1 = ov_create_table [OF c q]
  show ?case
  proof (cases r)
    case (Inl e)
    with Cons.prems c w1 show ?thesis by simp
  next
    case (Inr u)
    obtain more f w2 where cs: "create_shadows env d prefix expires vs w1 = ((more, f), w2)" by (metis surj_pair)
    note rest = Cons.IH [OF cs]
    have "view_slot w2 d (prefix @ av_name v)"
      using rest slot_after_create [OF c [unfolded Inr] q] view_slot_later by blast
    with Cons.prems c Inr cs w1 rest show ?thesis by (auto intro: ov.rel_trans)
  qed
qed

lemma ov_delete_shadows:
  "list_all (view_slot w d) ns \<Longrightarrow> only_views_change d w (snd (delete_shadows env d ns w))"
proof (induction ns arbitrary: w)
  case Nil
  then show ?case by (simp add: ov.rel_refl)
next
  case (Cons n ns)
  obtain r w1 where b: "delete_table env d n w = (r, w1)" by fastforce
  with ov_delete_table [of w d n env] Cons.prems have w1: "only_views_change d w w1" by simp
  with Cons.prems have "list_all (view_slot w1 d) ns" using view_slot_later [OF w1] by (auto simp: list_all_iff)
  from Cons.IH [OF this] w1 have "only_views_change d w (snd (delete_shadows env d ns w1))" by (meson ov.rel_trans)
  with b show ?case by (auto split: sum.split prod.split)
qed

lemma ov_preflight: "ov.stays d (preflight env project d)"
proof (rule ov.staysI)
  fix w
  let ?prefix = "preflight_prefix env w"
  show "only_views_change d w (snd (preflight env project d w))"
  proof (cases "analytics_views (be_views env) project d ?prefix")
    case (Inl e)
    then show ?thesis by (simp add: preflight_def Let_def ov.rel_refl)
  next
    case (Inr vs)
    obtain created failure w1 where
      c: "create_shadows env d ?prefix (be_now env (bq_calls w) + analytics_preflight_ttl) vs w = ((created, failure), w1)"
      by (metis surj_pair)
    note made = ov_create_shadows [OF c]
    then have "only_views_change d w1 (snd (delete_shadows env d (rev created) w1))"
      by (intro ov_delete_shadows) (simp add: list_all_rev)
    with made have "only_views_change d w (snd (delete_shadows env d (rev created) w1))" by (meson ov.rel_trans)
    with Inr c show ?thesis by (auto simp: preflight_def Let_def split: option.split prod.split)
  qed
qed

lemma ov_remove_stale_views: "ov.stays d (remove_stale_views env d desired ns)"
proof (induction ns)
  case Nil
  then show ?case by (simp add: ov.stays_pure)
next
  case (Cons n ns)
  have "only_views_change d w (snd (obind (get_table env d n) (\<lambda>t.
        if \<not> is_managed_analytics_view t then remove_stale_views env d desired ns
        else obind (delete_table env d n) (\<lambda>_. obind (remove_stale_views env d desired ns) (\<lambda>k. oret (k + 1)))) w))"
    (is "only_views_change d w (snd (obind _ ?rest w))") for w
  proof (cases "get_table env d n w")
    case (Pair r w1)
    note w1 = ov_get_table [OF Pair]
    show ?thesis
    proof (cases r)
      case (Inl e)
      with Pair w1 show ?thesis by (simp add: obind_def)
    next
      case (Inr t)
      have "only_views_change d w1 (snd (?rest t w1))"
      proof (cases "is_managed_analytics_view t")
        case True
        then have "viewlike t" by (simp add: is_managed_analytics_view_def viewlike_def)
        then have slot: "view_slot w1 d n" by (rule slot_after_get [OF Pair [unfolded Inr]])
        obtain a w2 where del: "delete_table env d n w1 = (a, w2)" by fastforce
        with ov_delete_table [OF slot, of env] have w2: "only_views_change d w1 w2" by simp
        have "ov.stays d (obind (remove_stale_views env d desired ns) (\<lambda>k. oret (k + 1)))"
          by (intro ov.stays_rules Cons.IH)
        from ov.staysD [OF this, of w2] w2
        have "only_views_change d w1 (snd (obind (remove_stale_views env d desired ns) (\<lambda>k. oret (k + 1)) w2))"
          by (meson ov.rel_trans)
        with True del w2 show ?thesis by (cases a) (simp_all add: obind_def [of "delete_table env d n"])
      next
        case False
        with ov.staysD [OF Cons.IH] show ?thesis by simp
      qed
      with w1 have "only_views_change d w (snd (?rest t w1))" by (rule ov.rel_trans)
      with Pair Inr show ?thesis by (simp only: obind_Inr)
    qed
  qed
  with Cons.IH show ?case by (auto intro: ov.staysI)
qed

lemma ov_managed_view_names: "ov.stays d (managed_view_names env d ns)"
  by (induction ns) (auto intro!: ov.stays_rules)

lemma ov_reconcile_views: "ov.stays d (reconcile_views env rc d)"
  unfolding reconcile_views_def remove_stale_def
  by (intro ov.stays_rules ov_preflight ov_promote ov_remove_stale_views ov_managed_view_names ov_reads)

lemma ov_reconcile: "ov.stays d (reconcile env rc d)"
  unfolding reconcile_def restore_access_def
  by (intro ov.stays_rules ov_reconcile_views ov_reads)

text \<open>C12: A reconciliation of a dataset never touches a table: whatever calls fail, and however it ends, every object of the
  dataset that is not a view is exactly what it was, the raw telemetry among them, and nothing but views appears; and every
  other dataset, with everything it holds, stays as it is.\<close>
theorem reconciliation_never_touches_tables:
  "case reconcile env rc d w of (result, w') \<Rightarrow>
     (\<forall>n. case table_at w d n of
        Some t \<Rightarrow> (if viewlike t then case table_at w' d n of None \<Rightarrow> True | Some t' \<Rightarrow> viewlike t' else table_at w' d n = Some t)
      | None \<Rightarrow> (case table_at w' d n of None \<Rightarrow> True | Some t' \<Rightarrow> viewlike t')) \<and>
     (\<forall>e. if e = d then True else table_at w' e = table_at w e \<and> dataset_at w' e = dataset_at w e)"
proof (cases "reconcile env rc d w")
  case (Pair result w')
  with ov.staysD [OF ov_reconcile, of d w env rc] have ov: "only_views_change d w w'" by simp
  have "case table_at w d n of
        Some t \<Rightarrow> (if viewlike t then case table_at w' d n of None \<Rightarrow> True | Some t' \<Rightarrow> viewlike t' else table_at w' d n = Some t)
      | None \<Rightarrow> (case table_at w' d n of None \<Rightarrow> True | Some t' \<Rightarrow> viewlike t')" for n
  proof -
    from ov have "if view_slot w d n then view_slot w' d n else table_at w' d n = table_at w d n"
      unfolding only_views_change_def by blast
    then show ?thesis by (cases "table_at w d n") (auto simp: view_slot_def split: if_splits)
  qed
  with ov Pair show ?thesis by (simp add: only_views_change_def)
qed

subsection \<open>A failed promotion is reversed\<close>

text \<open>\<open>agrees t t'\<close>: everything of \<open>t\<close> is in \<open>t'\<close>; only labels may have been added.\<close>

definition same_shell :: "bq_table \<Rightarrow> bq_table \<Rightarrow> bool" where
  "same_shell t t' \<longleftrightarrow> tb_type t' = tb_type t \<and> tb_expires t' = tb_expires t \<and> tb_partitioning t' = tb_partitioning t \<and>
     tb_clustering t' = tb_clustering t \<and> tb_schema t' = tb_schema t"

definition agrees :: "bq_table \<Rightarrow> bq_table \<Rightarrow> bool" where
  "agrees t t' \<longleftrightarrow> same_shell t t' \<and> snapshot_of t' = (snapshot_of t)\<lparr>sn_labels := tb_labels t'\<rparr> \<and>
     tb_labels t \<subseteq>\<^sub>m tb_labels t'"

definition alike :: "(string \<times> string) set \<Rightarrow> bigquery \<Rightarrow> bigquery \<Rightarrow> bool" where
  "alike X w w' \<longleftrightarrow> (\<forall>e n. (e, n) \<in> X \<or> rel_option agrees (table_at w e n) (table_at w' e n))"

lemma shell_refl [simp]: "same_shell t t"
  by (simp add: same_shell_def)

lemma rel_refls [simp]: "rel_option agrees x x" "rel_option same_shell x x"
  by (auto intro!: option.rel_refl simp: agrees_def snapshot_of_def)

lemma alike_same: "(\<And>e n. (e, n) \<notin> X \<Longrightarrow> table_at w' e n = table_at w e n) \<Longrightarrow> alike X w w'"
  unfolding alike_def by (metis rel_refls(1))

lemma patched_view_shell: "same_shell t (patched_table view_fields x t)"
  by (simp add: same_shell_def patched_table_def chosen_def view_fields_def)

lemma write_view_state:
  assumes "write_view env d n s t w = (r, w')"
  shows "(\<forall>e m. (e, m) \<noteq> (d, n) \<longrightarrow> table_at w' e m = table_at w e m) \<and> rel_option same_shell (table_at w d n) (table_at w' d n)"
proof -
  have "(\<forall>e m. (e, m) \<noteq> (d, n) \<longrightarrow> table_at (snd (write_view env d n s t w)) e m = table_at w e m) \<and>
      rel_option same_shell (table_at w d n) (table_at (snd (write_view env d n s t w)) d n)"
    unfolding write_view_def update_table_def
    by (rule bq_call_state)
      (auto split: option.splits simp: patched_view_shell)
  with assms show ?thesis by simp
qed

lemma get_table_state:
  assumes "get_table env d n w = (r, w')"
  shows "table_at w' = table_at w"
proof -
  have "table_at (snd (get_table env d n w)) = table_at w"
    unfolding get_table_def by (rule bq_call_state) (auto split: option.splits)
  with assms show ?thesis by simp
qed

lemma create_table_state:
  assumes "create_table env d n t False w = (r, w')"
  shows "(\<forall>e m. (e, m) \<noteq> (d, n) \<longrightarrow> table_at w' e m = table_at w e m) \<and>
    (table_at w d n \<noteq> None \<longrightarrow> table_at w' d n = table_at w d n)"
proof -
  have "(\<forall>e m. (e, m) \<noteq> (d, n) \<longrightarrow> table_at (snd (create_table env d n t False w)) e m = table_at w e m) \<and>
      (table_at w d n \<noteq> None \<longrightarrow> table_at (snd (create_table env d n t False w)) d n = table_at w d n)"
    unfolding create_table_def by (rule bq_call_state) (auto split: option.splits)
  with assms show ?thesis by simp
qed

text \<open>What one turn of the promotion leaves, by the change it recorded.\<close>

definition free_slot :: "bigquery \<Rightarrow> string \<Rightarrow> string \<Rightarrow> (string \<times> string) set" where
  "free_slot w d n = (if table_at w d n = None then {(d, n)} else {})"

text \<open>A call between two states was served, but its answer was lost.\<close>

definition answer_lost :: "bq_env \<Rightarrow> bigquery \<Rightarrow> bigquery \<Rightarrow> bool" where
  "answer_lost env w w' \<longleftrightarrow> (\<exists>k e. bq_calls w \<le> k \<and> k < bq_calls w' \<and> be_answer env k = Unanswered e)"

lemma answer_lost_mono: "answer_lost env v v' \<Longrightarrow> bq_calls w \<le> bq_calls v \<Longrightarrow> bq_calls v' \<le> bq_calls w' \<Longrightarrow> answer_lost env w w'"
  unfolding answer_lost_def by (meson less_le_trans order_trans)

interpretation calls: state_frame "\<lambda>w w'. bq_calls w \<le> bq_calls w'"
  by unfold_locales simp_all

lemma calls_count [intro, simp]:
  "calls.stays (get_table env d n)" "calls.stays (create_table env d n t exists_ok)" "calls.stays (update_table env d n names t)"
  "calls.stays (delete_table env d n)" "calls.stays (write_view env d n s t)"
  unfolding get_table_def create_table_def update_table_def delete_table_def write_view_def
  by (auto intro!: calls.staysI bq_call_state [where P = "\<lambda>u. bq_calls _ \<le> bq_calls u"] split: option.splits if_splits)

lemma calls_eq: "calls.stays m \<Longrightarrow> m w = (r, w') \<Longrightarrow> bq_calls w \<le> bq_calls w'"
  by (metis calls.staysD snd_conv)

lemmas calls_steps = calls_eq [OF calls_count(1)] calls_eq [OF calls_count(2)] calls_eq [OF calls_count(5)]

lemma calls_promote_view: "promote_view env d v w = (r, w') \<Longrightarrow> bq_calls w \<le> bq_calls w'"
  unfolding promote_view_def prepare_view_def
  by (auto dest!: calls_steps split: sum.splits prod.splits if_splits)

lemma calls_rollback: "rollback_views env d cs w = (r, w') \<Longrightarrow> bq_calls w \<le> bq_calls w'"
proof (induction cs arbitrary: w r)
  case (Cons c cs)
  have "calls.stays (rollback_view env d c)"
    unfolding rollback_view_def by (intro calls.stays_rules calls_count)
  with Cons show ?case by (auto dest!: calls_eq split: sum.splits prod.splits) (metis order_trans)+
qed simp

text \<open>A creation that raised left something only when its answer was lost.\<close>

lemma create_table_lost:
  assumes "create_table env d n t False w = (Inl e, w')" and "table_at w d n = None"
  shows "table_at w' d n = None \<or> table_at w' d n = Some (stored_table t) \<and> answer_lost env w w'"
  using assms
  by (auto simp: create_table_def bq_call_def Let_def answer_lost_def split: answer.splits sum.splits option.splits if_splits)

definition turn_left ::
  "bq_env \<Rightarrow> bq_table \<Rightarrow> bigquery \<Rightarrow> string \<Rightarrow> string \<Rightarrow> view_change list \<Rightarrow> bool \<Rightarrow> bigquery \<Rightarrow> bool" where
  "turn_left env desired w d n changes ok w' \<longleftrightarrow> (\<forall>e m. (e, m) \<noteq> (d, n) \<longrightarrow> table_at w' e m = table_at w e m) \<and>
     (case table_at w d n of
        None \<Rightarrow> changes = [(n, None)] \<and> table_at w' d n \<noteq> None \<or> \<not> ok \<and> changes = [] \<and>
          (table_at w' d n = None \<or> table_at w' d n = Some (stored_table desired) \<and> answer_lost env w w')
      | Some t \<Rightarrow> (\<exists>t'. table_at w' d n = Some t' \<and>
          (changes = [(n, Some (snapshot_of t))] \<and> same_shell t t' \<or> \<not> ok \<and> changes = [] \<and> t' = t)))"

lemma prepare_view_left:
  assumes "prepare_view env d n desired w = ((changes, r), w')"
  shows "turn_left env desired w d n changes (\<exists>t. r = Inr t) w'"
proof (cases "get_table env d n w")
  case (Pair a w1)
  note t1 = get_table_state [OF Pair]
  show ?thesis
  proof (cases a)
    case (Inr t)
    with Pair have "table_at w d n = Some t" by (simp add: get_table_Inr)
    with assms Pair Inr t1 show ?thesis
      by (auto simp: prepare_view_def turn_left_def same_shell_def split: if_splits)
  next
    case (Inl e)
    obtain b w2 where c: "create_table env d n desired False w1 = (b, w2)" by fastforce
    obtain k w3 where g: "get_table env d n w2 = (k, w3)" by fastforce
    note t2 = create_table_state [OF c] and t3 = get_table_state [OF g]
    have new: "table_at w1 d n = None \<and> table_at w2 d n \<noteq> None" if "b = Inr u" for u
      using c that by (auto simp: create_table_Inr)
    show ?thesis
    proof (cases b)
      case (Inl x)
      have "table_at w d n = None \<Longrightarrow> table_at w2 d n = None \<or> table_at w2 d n = Some (stored_table desired) \<and> answer_lost env w w2"
        using create_table_lost [OF c [unfolded Inl]] t1 calls_steps(1) [OF Pair] answer_lost_mono [of env w1 w2 w w2] by auto
      with assms Pair \<open>a = Inl e\<close> Inl c t1 t2 show ?thesis
        by (auto simp: prepare_view_def turn_left_def split: if_splits option.split)
    next
      case (Inr u)
      with assms Pair \<open>a = Inl e\<close> c g t1 t2 t3 new [OF Inr] show ?thesis
        by (auto simp: prepare_view_def turn_left_def split: if_splits option.split)
    qed
  qed
qed

lemma promote_view_left:
  assumes "promote_view env d v w = ((changes, r), w')"
  shows "turn_left env (desired_view env v) w d (av_name v) changes (r = Inr ()) w'"
proof -
  obtain cs a w1 where p: "prepare_view env d (av_name v) (desired_view env v) w = ((cs, a), w1)"
    by (metis surj_pair)
  note left = prepare_view_left [OF p]
  show ?thesis
  proof (cases a)
    case (Inl e)
    with assms p left show ?thesis by (auto simp: promote_view_def)
  next
    case (Inr t)
    obtain b w2 where u: "write_view env d (av_name v) (snapshot_of (desired_view env v)) t w1 = (b, w2)" by fastforce
    from write_view_state [OF u] left Inr have "turn_left env (desired_view env v) w d (av_name v) cs (b = Inr ()) w2"
      by (auto simp: turn_left_def same_shell_def option_rel_Some1 split: option.splits)
    with assms p Inr u show ?thesis by (simp add: promote_view_def)
  qed
qed

lemma rollback_append: "rollback_views env d (xs @ ys) w = (None, w') \<longleftrightarrow>
    (\<exists>u. rollback_views env d xs w = (None, u) \<and> rollback_views env d ys u = (None, w'))"
  by (induction xs arbitrary: w) (auto split: sum.splits prod.splits)

lemma rollback_single: "rollback_views env d [c] w = (None, w') \<longleftrightarrow> rollback_view env d c w = (Inr (), w')"
  by (auto split: sum.splits prod.splits)

text \<open>Writing the snapshot of a view over what became of it gives the view back.\<close>

lemma snapshot_written_back:
  assumes shell: "same_shell t t'" and "agrees t' t2"
  shows "agrees t (patched_table view_fields (t2\<lparr>tb_description := sn_description (snapshot_of t),
     tb_labels := sn_labels (snapshot_of t), tb_view_query := sn_view_query (snapshot_of t),
     tb_legacy_sql := sn_legacy_sql (snapshot_of t)\<rparr>) t2)"
  using assms
  by (simp add: agrees_def same_shell_def snapshot_of_def patched_table_def chosen_def view_fields_def)

lemma turn_rolled_back:
  assumes left: "turn_left env desired w d n changes ok w1" and later: "alike X w1 w2" and X: "changes = [] \<or> (d, n) \<notin> X"
    and undone: "rollback_views env d (rev changes) w2 = (None, w3)"
  shows "alike (X \<union> (if changes = [] then free_slot w d n else {})) w w3"
proof -
  have others: "(e, m) \<noteq> (d, n) \<Longrightarrow> (e, m) \<in> X \<or> rel_option agrees (table_at w e m) (table_at w2 e m)" for e m
  proof -
    assume "(e, m) \<noteq> (d, n)"
    with left have "table_at w1 e m = table_at w e m" by (simp add: turn_left_def)
    with later show ?thesis unfolding alike_def by metis
  qed
  consider "changes = []" | "changes = [(n, None)]" "table_at w d n = None"
    | t t' where "changes = [(n, Some (snapshot_of t))]" "table_at w d n = Some t" "table_at w1 d n = Some t'" "same_shell t t'"
    using left by (auto simp: turn_left_def split: option.splits if_splits)
  then show ?thesis
  proof cases
    case 1
    with undone have "w3 = w2" by simp
    with 1 others left later show ?thesis
      by (auto simp: alike_def free_slot_def turn_left_def split: option.splits if_splits) metis+
  next
    case 2
    with undone have "w3 = drop_table d n (counted w2)"
      by (auto simp: rollback_single rollback_view_def delete_table_Inr simp del: rollback_views.simps)
    with 2 others show ?thesis by (auto simp: alike_def)
  next
    case 3
    have "rel_option agrees (table_at w1 d n) (table_at w2 d n)"
      using later X 3(1) unfolding alike_def by (metis list.distinct(1))
    with 3 obtain t2 where t2: "table_at w2 d n = Some t2" "agrees t' t2" by (auto simp: option_rel_Some1)
    with 3 undone have "w3 = put_table d n (patched_table view_fields (t2\<lparr>tb_description := sn_description (snapshot_of t),
       tb_labels := sn_labels (snapshot_of t), tb_view_query := sn_view_query (snapshot_of t),
       tb_legacy_sql := sn_legacy_sql (snapshot_of t)\<rparr>) t2) (counted (counted w2))"
      by (auto simp: rollback_single rollback_view_def obind_eq_Inr get_table_Inr write_view_def update_table_Inr
          simp del: rollback_views.simps)
    with 3 others snapshot_written_back [OF 3(4) t2(2)] show ?thesis by (auto simp: alike_def)
  qed
qed

lemma free_slot_before: "turn_left env desired w d n changes ok w1 \<Longrightarrow> free_slot w1 d m \<subseteq> free_slot w d m"
  by (cases "m = n") (auto simp: turn_left_def free_slot_def split: option.splits if_splits)

lemma alike_mono: "alike X w w' \<Longrightarrow> X \<subseteq> Y \<Longrightarrow> alike Y w w'"
  by (auto simp: alike_def)

lemma promotion_rolled_back:
  "promote_views env d vs w = ((changes, failed), w1) \<Longrightarrow> rollback_views env d (rev changes) w1 = (None, w2) \<Longrightarrow>
     alike (case failed of None \<Rightarrow> {} | Some n \<Rightarrow> free_slot w d n) w w2"
proof (induction vs arbitrary: w changes w2)
  case Nil
  then show ?case by (auto intro: alike_same)
next
  case (Cons v vs)
  obtain cs r u where p: "promote_view env d v w = ((cs, r), u)" by (metis surj_pair)
  note left = promote_view_left [OF p]
  show ?case
  proof (cases r)
    case (Inl e)
    with Cons.prems p have "changes = cs" "failed = Some (av_name v)" "w1 = u" by simp_all
    have "alike {} u u" by (rule alike_same) simp
    then have "alike ({} \<union> (if cs = [] then free_slot w d (av_name v) else {})) w w2"
      by (rule turn_rolled_back [OF left]) (use Cons.prems(2) \<open>changes = cs\<close> \<open>w1 = u\<close> in simp_all)
    then have "alike (free_slot w d (av_name v)) w w2" by (rule alike_mono) (simp split: if_splits)
    with \<open>failed = Some (av_name v)\<close> show ?thesis by simp
  next
    case (Inr x)
    then obtain more where ps: "promote_views env d vs u = ((more, failed), w1)" and ch: "changes = cs @ more"
      using Cons.prems(1) p by (auto split: prod.splits)
    from Cons.prems(2) obtain u2 where undone1: "rollback_views env d (rev more) w1 = (None, u2)"
      and undone2: "rollback_views env d (rev cs) u2 = (None, w2)"
      by (auto simp: ch rollback_append)
    let ?X = "case failed of None \<Rightarrow> {} | Some n \<Rightarrow> free_slot u d n"
    from left Inr have "cs \<noteq> []" and "table_at u d (av_name v) \<noteq> None"
      by (auto simp: turn_left_def split: option.splits if_splits)
    moreover from this(2) have "(d, av_name v) \<notin> ?X" by (auto simp: free_slot_def split: option.splits if_splits)
    ultimately have "alike ?X w w2"
      using turn_rolled_back [OF left Cons.IH [OF ps undone1] _ undone2] by simp
    then show ?thesis by (rule alike_mono) (use free_slot_before [OF left] in \<open>auto split: option.splits\<close>)
  qed
qed

lemma rollback_view_others:
  assumes "rollback_view env d c w = (r, w')" and "n \<noteq> fst c"
  shows "table_at w' d n = table_at w d n"
proof -
  have wr: "table_at u' d n = table_at u d n" if "write_view env d (fst c) x t u = (q, u')" for x t u q u'
    using write_view_state [OF that] assms(2) by blast
  have del: "table_at (snd (delete_table env d (fst c) w)) d n = table_at w d n"
    unfolding delete_table_def by (rule bq_call_state) (use assms(2) in auto)
  show ?thesis
  proof (cases "snd c")
    case None
    with assms(1) del show ?thesis by (cases c) (auto simp: rollback_view_def)
  next
    case (Some x)
    obtain a w1 where g: "get_table env d (fst c) w = (a, w1)" by fastforce
    with assms(1) Some wr get_table_state [OF g] show ?thesis
      by (cases c; cases a) (auto simp: rollback_view_def obind_def)
  qed
qed

lemma rollback_others:
  "rollback_views env d cs w = (r, w') \<Longrightarrow> n \<notin> fst ` set cs \<Longrightarrow> table_at w' d n = table_at w d n"
  by (induction cs arbitrary: w r) (auto dest!: rollback_view_others split: sum.splits prod.splits)

lemma turn_changes: "turn_left env desired w d n changes ok w' \<Longrightarrow> fst ` set changes \<subseteq> {n}"
  by (auto simp: turn_left_def split: option.splits)

text \<open>The name at which the promotion failed, if it was free: it is free again, or its creation lost its answer.\<close>

lemma failed_slot:
  "promote_views env d vs w = ((changes, Some n), w1) \<Longrightarrow> rollback_views env d (rev changes) w1 = (None, w2) \<Longrightarrow>
     table_at w d n = None \<Longrightarrow> table_at w2 d n = None \<or>
     (\<exists>v. v \<in> set vs \<and> av_name v = n \<and> table_at w2 d n = Some (stored_table (desired_view env v)) \<and> answer_lost env w w2)"
proof (induction vs arbitrary: w changes w2)
  case (Cons v vs)
  obtain cs r u where p: "promote_view env d v w = ((cs, r), u)" by (metis surj_pair)
  note left = promote_view_left [OF p]
  have gone: "table_at u2' d (av_name v) = None" if "cs = [(av_name v, None)]" "rollback_views env d (rev cs) u2 = (None, u2')" for u2 u2'
    using that by (auto simp: rollback_single rollback_view_def delete_table_Inr simp del: rollback_views.simps)
  show ?case
  proof (cases r)
    case (Inl e)
    with Cons.prems(1,3) p have now: "changes = cs" "n = av_name v" "w1 = u" "table_at w d (av_name v) = None" by simp_all
    with left Inl consider "cs = [(av_name v, None)]"
      | "cs = []" "table_at u d n = None \<or> table_at u d n = Some (stored_table (desired_view env v)) \<and> answer_lost env w u"
      by (auto simp: turn_left_def)
    then show ?thesis
    proof cases
      case 1
      from Cons.prems(2) have "rollback_views env d (rev cs) u = (None, w2)" unfolding now(1,3) .
      from gone [OF 1 this] now(2) show ?thesis by simp
    next
      case 2
      with Cons.prems(2) now show ?thesis by auto
    qed
  next
    case (Inr x)
    then obtain rest where ps: "promote_views env d vs u = ((rest, Some n), w1)" and ch: "changes = cs @ rest"
      using Cons.prems(1) p by (auto split: prod.splits)
    from Cons.prems(2) obtain u2 where undone1: "rollback_views env d (rev rest) w1 = (None, u2)"
      and undone2: "rollback_views env d (rev cs) u2 = (None, w2)"
      by (auto simp: ch rollback_append)
    show ?thesis
    proof (cases "n = av_name v")
      case True
      with left Inr Cons.prems(3) have one: "cs = [(av_name v, None)]" by (auto simp: turn_left_def)
      from gone [OF one undone2] True show ?thesis by simp
    next
      case False
      with left Cons.prems(3) have "table_at u d n = None" by (simp add: turn_left_def)
      from Cons.IH [OF ps undone1 this] have "table_at u2 d n = None \<or> (\<exists>v. v \<in> set vs \<and> av_name v = n \<and>
          table_at u2 d n = Some (stored_table (desired_view env v)) \<and> answer_lost env u u2)" .
      moreover from rollback_others [OF undone2, of n] turn_changes [OF left] False have "table_at w2 d n = table_at u2 d n" by auto
      moreover from calls_promote_view [OF p] calls_rollback [OF undone2] have "answer_lost env u u2 \<Longrightarrow> answer_lost env w w2"
        using answer_lost_mono by blast
      ultimately show ?thesis by auto
    qed
  qed
qed simp

text \<open>C10: When a promotion fails, with the error of the promotion itself, which is raised when its reversal raised nothing,
  every object of every dataset is what it was before, up to added labels: its kind, description, query, dialect,
  expiry and layout.  The one exception is the view at which the promotion failed, if its name was free: it may remain as it
  was created, but only when the answer of a call of this promotion was lost.\<close>
theorem failed_promotion_is_reversed:
  assumes "promote env d definitions w = (Inl (AnalyticsViewReconciliationError ''promotion'' failed), w')"
  shows "rel_option agrees (table_at w e n) (table_at w' e n) \<or>
    (e = d \<and> n = failed \<and> table_at w d n = None \<and> (\<exists>v k x. v \<in> set definitions \<and> av_name v = n \<and>
       table_at w' d n = Some (stored_table (desired_view env v)) \<and>
       bq_calls w \<le> k \<and> k < bq_calls w' \<and> be_answer env k = Unanswered x))"
proof -
  obtain changes f w1 where p: "promote_views env d definitions w = ((changes, f), w1)" by (metis surj_pair)
  with assms have f: "f = Some failed" and undone: "rollback_views env d (rev changes) w1 = (None, w')"
    by (auto simp: promote_def rollback_promotion_def split: option.splits prod.splits)
  with promotion_rolled_back [OF p] have alike: "alike (free_slot w d failed) w w'" by simp
  show ?thesis
  proof (cases "e = d \<and> n = failed \<and> table_at w d failed = None")
    case True
    with failed_slot [OF p [unfolded f] undone] show ?thesis by (auto simp: answer_lost_def)
  next
    case False
    with alike show ?thesis by (auto simp: alike_def free_slot_def split: if_splits)
  qed
qed

subsection \<open>The access of a dataset is restored\<close>

definition same_datasets :: "bigquery \<Rightarrow> bigquery \<Rightarrow> bool" where
  "same_datasets w w' \<longleftrightarrow> dataset_at w' = dataset_at w"

interpretation ds: state_frame same_datasets
  by unfold_locales (simp_all add: same_datasets_def)

lemma ds_call: "(\<And>x u. f (counted w) = Inr (x, u) \<Longrightarrow> same_datasets w u) \<Longrightarrow> same_datasets w (snd (bq_call env f w))"
  by (rule bq_call_state) (auto simp: same_datasets_def)

lemma ds_calls [intro, simp]:
  "ds.stays (get_table env d n)" "ds.stays (get_dataset env d)" "ds.stays (list_tables env d)"
  "ds.stays (create_table env d n t exists_ok)" "ds.stays (update_table env d n names t)" "ds.stays (delete_table env d n)"
  unfolding get_table_def get_dataset_def list_tables_def create_table_def update_table_def delete_table_def
  by (auto intro!: ds.staysI ds_call simp: same_datasets_def split: option.splits if_splits)

lemma ds_eq: "ds.stays m \<Longrightarrow> m w = (r, w') \<Longrightarrow> same_datasets w w'"
  by (metis ds.staysD snd_conv)

lemmas ds_steps = ds_eq [OF ds_calls(1)] ds_eq [OF ds_calls(4)] ds_eq [OF ds_calls(5)] ds_eq [OF ds_calls(6)]

lemma ds_create_shadows: "same_datasets w (snd (create_shadows env d prefix expires vs w))"
proof (induction vs arbitrary: w)
  case (Cons v vs)
  obtain r w1 where c: "create_table env d (prefix @ av_name v) (shadow_view env expires v) False w = (r, w1)" by fastforce
  from ds_steps(2) [OF c] Cons.IH [of w1] c show ?case
    by (auto simp: same_datasets_def split: sum.splits prod.splits)
qed (simp add: same_datasets_def)

lemma ds_delete_shadows: "same_datasets w (snd (delete_shadows env d ns w))"
proof (induction ns arbitrary: w)
  case (Cons n ns)
  obtain r w1 where c: "delete_table env d n w = (r, w1)" by fastforce
  from ds_steps(4) [OF c] Cons.IH [of w1] c show ?case
    by (auto simp: same_datasets_def split: sum.splits prod.splits)
qed (simp add: same_datasets_def)

lemma ds_preflight: "ds.stays (preflight env project d)"
proof (rule ds.staysI)
  fix w
  show "same_datasets w (snd (preflight env project d w))"
    using ds_create_shadows [of w env d] ds_delete_shadows [of _ env d]
    by (auto simp: preflight_def Let_def same_datasets_def split: sum.splits prod.splits option.splits) (metis snd_conv)+
qed

lemma ds_promote_view: "same_datasets w (snd (promote_view env d v w))"
  unfolding promote_view_def prepare_view_def write_view_def
  by (auto dest!: ds_steps simp: same_datasets_def split: sum.splits prod.splits if_splits)

lemma ds_promote_views: "same_datasets w (snd (promote_views env d vs w))"
proof (induction vs arbitrary: w)
  case (Cons v vs)
  obtain cs r w1 where c: "promote_view env d v w = ((cs, r), w1)" by (metis surj_pair)
  from ds_promote_view [of w env d v] Cons.IH [of w1] c show ?case
    by (auto simp: same_datasets_def split: sum.splits prod.splits)
qed (simp add: same_datasets_def)

lemma ds_rollback_view: "ds.stays (rollback_view env d c)"
  unfolding rollback_view_def write_view_def by (intro ds.stays_rules ds_calls)

lemma ds_rollback_views: "same_datasets w (snd (rollback_views env d cs w))"
proof (induction cs arbitrary: w)
  case (Cons c cs)
  obtain r w1 where b: "rollback_view env d c w = (r, w1)" by fastforce
  from ds_eq [OF ds_rollback_view b] Cons.IH [of w1] b show ?case
    by (auto simp: same_datasets_def split: sum.splits prod.splits)
qed (simp add: same_datasets_def)

lemma ds_promote: "ds.stays (promote env d definitions)"
proof (rule ds.staysI)
  fix w
  show "same_datasets w (snd (promote env d definitions w))"
    using ds_promote_views [of w env d definitions] ds_rollback_views [of _ env d]
    by (auto simp: promote_def rollback_promotion_def same_datasets_def split: prod.splits option.splits) (metis snd_conv)+
qed

lemma ds_remove_stale_views: "ds.stays (remove_stale_views env d desired ns)"
  by (induction ns) (auto intro!: ds.stays_rules)

lemma ds_managed_view_names: "ds.stays (managed_view_names env d ns)"
  by (induction ns) (auto intro!: ds.stays_rules)

lemma ds_reconcile_views: "ds.stays (reconcile_views env rc d)"
  unfolding reconcile_views_def remove_stale_def
  by (intro ds.stays_rules ds_preflight ds_promote ds_remove_stale_views ds_managed_view_names ds_calls)

text \<open>A served call fails only for a dataset that does not exist.\<close>

lemma get_dataset_Inl:
  "get_dataset env d w = (Inl e, w') \<Longrightarrow> same_datasets w w' \<and> bq_calls w' = Suc (bq_calls w) \<and>
     (be_answer env (bq_calls w) = Served \<longrightarrow> dataset_at w d = None)"
  by (auto simp: get_dataset_def bq_call_def Let_def same_datasets_def split: answer.splits sum.splits option.splits)

lemma update_dataset_Inl:
  "update_dataset env d names x w = (Inl e, w') \<Longrightarrow> bq_calls w' = Suc (bq_calls w) \<and>
     (be_answer env (bq_calls w) = Served \<longrightarrow> dataset_at w d = None)"
  by (auto simp: update_dataset_def bq_call_def Let_def split: answer.splits sum.splits option.splits)

lemma access_written_back:
  "patched_dataset [''access_entries''] (z\<lparr>ds_access := ds_access y\<rparr>) (patched_dataset [''access_entries''] (y\<lparr>ds_access := a\<rparr>) y) = y"
  by (simp add: patched_dataset_def chosen_def)

lemma access_restored:
  assumes run: "reconcile env rc d w = (result, w')" and served: "be_answer env (bq_calls w' - 1) = Served"
  shows "dataset_at w' = dataset_at w"
proof (cases "get_dataset env d w")
  case (Pair a w1)
  show ?thesis
  proof (cases a)
    case (Inl e)
    with run Pair get_dataset_Inl show ?thesis by (auto simp: reconcile_def obind_Inl same_datasets_def)
  next
    case (Inr y)
    with Pair have y: "dataset_at w d = Some y" and w1: "w1 = counted w" by (auto simp: get_dataset_Inr)
    let ?grant = "update_dataset env d [''access_entries'']
       (y\<lparr>ds_access := temporary_dataset_reader_access (ds_access y) (rc_account rc)\<rparr>)"
    obtain b w2 where grant: "?grant w1 = (b, w2)" by fastforce
    show ?thesis
    proof (cases b)
      case (Inl e)
      with run Pair \<open>a = Inr y\<close> grant have "w' = w2" by (auto simp: reconcile_def obind_def)
      with update_dataset_Inl [OF grant [unfolded Inl]] served y w1 show ?thesis by auto
    next
      case (Inr u)
      obtain x w3 where body: "reconcile_views env rc d w2 = (x, w3)" by fastforce
      obtain c w4 where restore: "restore_access env d (ds_access y) w3 = (c, w4)" by fastforce
      from run Pair \<open>a = Inr y\<close> grant Inr body restore have "w' = w4"
        by (auto simp: reconcile_def obind_def finally_do_def split: sum.splits)
      have d3: "dataset_at w3 = (dataset_at w)(d \<mapsto> patched_dataset [''access_entries'']
          (y\<lparr>ds_access := temporary_dataset_reader_access (ds_access y) (rc_account rc)\<rparr>) y)"
        using grant Inr w1 y ds_eq [OF ds_reconcile_views body] by (auto simp: update_dataset_Inr same_datasets_def fun_eq_iff)
      show ?thesis
      proof (cases c)
        case (Inl e)
        with restore consider "get_dataset env d w3 = (Inl e, w4)"
            | z v where "get_dataset env d w3 = (Inr z, v)" "update_dataset env d [''access_entries''] (z\<lparr>ds_access := ds_access y\<rparr>) v = (Inl e, w4)"
          by (auto simp: restore_access_def obind_eq_Inl)
        then have False
          using served \<open>w' = w4\<close> d3 by cases (auto dest!: get_dataset_Inl update_dataset_Inl simp: get_dataset_Inr)
        then show ?thesis ..
      next
        case (Inr u)
        with restore d3 \<open>w' = w4\<close> y show ?thesis
          by (auto simp: restore_access_def obind_eq_Inr get_dataset_Inr update_dataset_Inr fun_eq_iff access_written_back)
      qed
    qed
  qed
qed

text \<open>C11: A reconciliation gives its service account access to the dataset and takes it away again, however the
  work in between ends: provided that the last of its calls was served, every dataset is exactly what it was before, its
  access list included.\<close>
theorem dataset_access_is_restored:
  assumes "reconcile env rc d w = (result, w')" and "be_answer env (bq_calls w' - 1) = Served"
  shows "dataset_at w' = dataset_at w"
  using assms by (rule access_restored)

subsection \<open>A reconciliation that returns leaves exactly the desired views\<close>

lemma views_distinct:
  assumes "analytics_views vl project dataset prefix = Inr views"
  shows "distinct (map av_name views)"
proof -
  obtain specs samples where specs: "view_specs (vl_manifest vl) = Inr specs"
    and r: "rmap (rendered_view vl samples (map vs_name specs) project dataset prefix) specs = Inr views"
    using assms by (auto simp: analytics_views_def opaque_identifier_def inr_simps split: if_splits)
  have "vs_name (specs ! i) = av_name (views ! i)" if "i < length specs" for i
  proof -
    from r that have "rendered_view vl samples (map vs_name specs) project dataset prefix (specs ! i) = Inr (views ! i)"
      by (simp add: rmap_eq_Inr)
    then show ?thesis by (rule rendered_view_eq_Inr) simp
  qed
  with r have "map vs_name specs = map av_name views" by (auto simp: map_equality_iff rmap_eq_Inr)
  with view_specs_ordered [OF specs] show ?thesis by metis
qed

definition carries :: "bq_env \<Rightarrow> analytics_view \<Rightarrow> bq_table \<Rightarrow> bool" where
  "carries env v t \<longleftrightarrow> viewlike t \<and> tb_description t = Some (av_description v) \<and> tb_view_query t = Some (av_sql v) \<and>
     tb_legacy_sql t = Some False \<and> view_labels env (av_description v) (av_sql v) \<subseteq>\<^sub>m tb_labels t"

definition managed_at :: "bigquery \<Rightarrow> string \<Rightarrow> string \<Rightarrow> bool" where
  "managed_at w d n \<longleftrightarrow> (case table_at w d n of None \<Rightarrow> False | Some t \<Rightarrow> is_managed_analytics_view t)"

lemma shadows_made:
  "create_shadows env d prefix expires vs w = ((created, None), w') \<Longrightarrow>
     (\<forall>e n. if e = d \<and> n \<in> set created then table_at w e n = None else table_at w' e n = table_at w e n)"
proof (induction vs arbitrary: w created)
  case (Cons v vs)
  then obtain w1 more where c: "create_table env d (prefix @ av_name v) (shadow_view env expires v) False w = (Inr (), w1)"
    and cs: "create_shadows env d prefix expires vs w1 = ((more, None), w')" and created: "created = (prefix @ av_name v) # more"
    by (auto split: prod.splits sum.splits)
  from c Cons.IH [OF cs] show ?case by (auto simp: created create_table_Inr split: if_splits)
qed simp

lemma shadows_gone:
  "delete_shadows env d ns w = (None, w') \<Longrightarrow> table_at w' e n = (if e = d \<and> n \<in> set ns then None else table_at w e n)"
  by (induction ns arbitrary: w) (auto simp: delete_table_Inr split: prod.splits sum.splits)

lemma preflight_passed: "preflight env project d w = (Inr u, w') \<Longrightarrow> table_at w' = table_at w"
  by (auto simp: preflight_def Let_def fun_eq_iff shadows_gone split: sum.splits prod.splits option.splits dest!: shadows_made)

lemma promote_view_defines:
  assumes "promote_view env d v w = ((changes, Inr u), w')"
  obtains t where "table_at w' d (av_name v) = Some t" "carries env v t"
proof -
  from assms obtain current w1 where p: "prepare_view env d (av_name v) (desired_view env v) w = ((changes, Inr current), w1)"
    and wr: "write_view env d (av_name v) (snapshot_of (desired_view env v)) current w1 = (Inr u, w')"
    by (auto simp: promote_view_def split: sum.splits prod.splits)
  have q: "tb_view_query (desired_view env v) \<noteq> None" by (simp add: desired_view_def new_view_def)
  from ov_prepare_view [OF p q] have "view_slot w1 d (av_name v)" by simp
  with wr obtain y where y: "viewlike y" and w': "w' = put_table d (av_name v)
      (patched_table view_fields (current\<lparr>tb_description := Some (av_description v),
        tb_labels := view_labels env (av_description v) (av_sql v), tb_view_query := Some (av_sql v),
        tb_legacy_sql := Some False\<rparr>) y) (counted w1)"
    by (auto simp: write_view_def update_table_Inr view_slot_def snapshot_of_def desired_view_def new_view_def)
  show ?thesis
    by (rule that, simp only: w' at_simps simp_thms if_True)
      (use y in \<open>simp add: carries_def viewlike_def patched_table_def chosen_def view_fields_def\<close>)
qed

lemma promoted_views:
  "promote_views env d vs w = ((changes, None), w') \<Longrightarrow> distinct (map av_name vs) \<Longrightarrow>
     (\<forall>v\<in>set vs. \<exists>t. table_at w' d (av_name v) = Some t \<and> carries env v t) \<and>
     (\<forall>e n. (e, n) \<notin> {d} \<times> av_name ` set vs \<longrightarrow> table_at w' e n = table_at w e n)"
proof (induction vs arbitrary: w changes)
  case (Cons v vs)
  then obtain cs more w1 where p: "promote_view env d v w = ((cs, Inr ()), w1)"
    and ps: "promote_views env d vs w1 = ((more, None), w')"
    by (auto split: prod.splits sum.splits)
  from promote_view_defines [OF p] obtain t where t: "table_at w1 d (av_name v) = Some t" "carries env v t" .
  from Cons.IH [OF ps] Cons.prems(2) promote_view_left [OF p] t show ?case
    by (auto simp: turn_left_def)
qed simp

lemma promoted:
  assumes "promote env d vs w = (Inr u, w')" and "distinct (map av_name vs)"
  shows "(\<forall>v\<in>set vs. \<exists>t. table_at w' d (av_name v) = Some t \<and> carries env v t) \<and>
     (\<forall>e n. (e, n) \<notin> {d} \<times> av_name ` set vs \<longrightarrow> table_at w' e n = table_at w e n)"
proof -
  from assms(1) obtain changes where "promote_views env d vs w = ((changes, None), w')"
    by (auto simp: promote_def split: prod.splits option.splits)
  from promoted_views [OF this assms(2)] show ?thesis .
qed

lemma stale_views_removed:
  "remove_stale_views env d desired ns w = (Inr k, w') \<Longrightarrow>
     table_at w' e n = table_at w e n \<or> e = d \<and> n \<notin> set desired \<and> managed_at w d n \<and> table_at w' d n = None"
proof (induction ns arbitrary: w k)
  case (Cons m ns)
  show ?case
  proof (cases "m \<in> set desired")
    case True
    with Cons show ?thesis by simp
  next
    case False
    with Cons.prems obtain t where t: "table_at w d m = Some t"
      and rest: "if is_managed_analytics_view t
        then \<exists>j. remove_stale_views env d desired ns (drop_table d m (counted (counted w))) = (Inr j, w')
        else remove_stale_views env d desired ns (counted w) = (Inr k, w')"
      by (auto simp: obind_eq_Inr get_table_Inr delete_table_Inr oper_simps split: if_splits)
    show ?thesis
    proof (cases "is_managed_analytics_view t")
      case True
      with rest obtain j where "remove_stale_views env d desired ns (drop_table d m (counted (counted w))) = (Inr j, w')"
        by auto
      from Cons.IH [OF this] True False t show ?thesis by (auto simp: managed_at_def split: if_splits)
    next
      case False
      with rest Cons.IH [of "counted w" k] show ?thesis by (simp add: managed_at_def)
    qed
  qed
qed (simp add: oper_simps)

lemma managed_names_listed:
  "managed_view_names env d ns w = (Inr names, w') \<Longrightarrow>
     table_at w' = table_at w \<and> set names = {n \<in> set ns. managed_at w d n}"
proof (induction ns arbitrary: w names)
  case (Cons n ns)
  from Cons.prems obtain t more where t: "table_at w d n = Some t"
    and rest: "managed_view_names env d ns (counted w) = (Inr more, w')"
    and names: "names = (if is_managed_analytics_view t then n # more else more)"
    by (auto simp: obind_eq_Inr get_table_Inr oper_simps)
  have "managed_at (counted w) d = managed_at w d" by (simp add: managed_at_def fun_eq_iff)
  with Cons.IH [OF rest] have "table_at w' = table_at w" "set more = {n \<in> set ns. managed_at w d n}" by simp_all
  moreover have "managed_at w d n = is_managed_analytics_view t" by (simp add: managed_at_def t)
  ultimately show ?case by (auto simp: names)
qed (simp add: oper_simps)

lemma stale_removed:
  assumes "remove_stale env d desired w = (Inr k, w')"
  shows "{n. managed_at w' d n} = set desired"
    and "table_at w' e n = table_at w e n \<or> e = d \<and> n \<notin> set desired \<and> managed_at w d n \<and> table_at w' d n = None"
proof -
  from assms obtain items w2 names where r: "remove_stale_views env d desired items (counted w) = (Inr k, w2)"
    and m: "managed_view_names env d (map (\<lambda>((e, n), t). n) (filter (\<lambda>((e, n), t). e = d) (bq_tables w2))) (counted w2) = (Inr names, w')"
    and eq: "set names = set desired"
    by (auto simp: remove_stale_def obind_eq_Inr list_tables_Inr oper_simps split: if_splits)
  note ns = managed_names_listed [OF m]
  have "managed_at (counted w2) d = managed_at w' d" "managed_at (counted w) d = managed_at w d"
    using ns by (simp_all add: managed_at_def fun_eq_iff)
  with ns eq listed_names [where w = w2 and d = d] show "{n. managed_at w' d n} = set desired"
    by (auto simp: managed_at_def split: option.splits)
  show "table_at w' e n = table_at w e n \<or> e = d \<and> n \<notin> set desired \<and> managed_at w d n \<and> table_at w' d n = None"
    using stale_views_removed [OF r, of e n] ns by (auto simp: managed_at_def)
qed

text \<open>What a reconciliation leaves: the desired views with their definitions; where stale views are removed no other
  managed views; everything else as it was.\<close>

definition reconciled :: "bq_env \<Rightarrow> view_reconciler \<Rightarrow> string \<Rightarrow> analytics_view list \<Rightarrow> bigquery \<Rightarrow> bigquery \<Rightarrow> bool" where
  "reconciled env rc d views w w' \<longleftrightarrow>
     list_all (\<lambda>v. \<exists>t. table_at w' d (av_name v) = Some t \<and> carries env v t) views \<and>
     (if rc_remove_stale rc then {n. managed_at w' d n} = set (map av_name views) else True) \<and>
     (\<forall>e n. table_at w' e n = table_at w e n \<or> e = d \<and> n \<in> set (map av_name views) \<or>
        e = d \<and> rc_remove_stale rc \<and> managed_at w d n \<and> table_at w' d n = None)"

lemma body_reconciles:
  assumes "reconcile_views env rc d w = (Inr (desired, removed), w')"
  obtains views where "analytics_views (be_views env) (rc_project rc) d [] = Inr views" "desired = length views"
    "reconciled env rc d views w w'"
proof -
  from assms obtain views w1 w2 where views: "analytics_views (be_views env) (rc_project rc) d [] = Inr views"
    and p: "preflight env (rc_project rc) d w = (Inr (), w1)" and q: "promote env d views w1 = (Inr (), w2)"
    and stale: "(if rc_remove_stale rc then remove_stale env d (map av_name views) else oret 0) w2 = (Inr removed, w')"
    and desired: "desired = length views"
    by (auto simp: reconcile_views_def obind_eq_Inr oper_simps)
  note pre = preflight_passed [OF p] and pro = promoted [OF q views_distinct [OF views]]
  have "reconciled env rc d views w w'"
  proof (cases "rc_remove_stale rc")
    case True
    with stale have st: "remove_stale env d (map av_name views) w2 = (Inr removed, w')" by simp
    have "table_at w' d (av_name v) = table_at w2 d (av_name v)" if "v \<in> set views" for v
      using stale_removed(2) [OF st, of d "av_name v"] that by auto
    moreover have "table_at w' e n = table_at w e n \<or> e = d \<and> n \<in> set (map av_name views) \<or>
        e = d \<and> managed_at w d n \<and> table_at w' d n = None" for e n
      using stale_removed(2) [OF st, of e n] pro pre by (auto simp: managed_at_def)
    ultimately show ?thesis
      using True stale_removed(1) [OF st] pro by (simp add: reconciled_def list_all_iff)
  next
    case False
    with stale pro pre show ?thesis by (auto simp: reconciled_def list_all_iff oper_simps)
  qed
  with views desired show ?thesis by (rule that)
qed

lemma reconcile_returns:
  assumes "reconcile env rc d w = (Inr (desired, removed), w')"
  obtains views where "analytics_views (be_views env) (rc_project rc) d [] = Inr views" "desired = length views"
    "reconciled env rc d views w w'" "dataset_at w' = dataset_at w"
proof -
  from assms obtain x v w2 w5 where g: "get_dataset env d w = (Inr x, v)"
    and u: "update_dataset env d [''access_entries'']
      (x\<lparr>ds_access := temporary_dataset_reader_access (ds_access x) (rc_account rc)\<rparr>) v = (Inr (), w2)"
    and body: "reconcile_views env rc d w2 = (Inr (desired, removed), w5)"
    and r: "restore_access env d (ds_access x) w5 = (Inr (), w')"
    by (auto simp: reconcile_def obind_eq_Inr finally_eq_Inr)
  have access: "table_at w2 = table_at w" "table_at w' = table_at w5"
    using g u r by (auto simp: restore_access_def obind_eq_Inr get_dataset_Inr update_dataset_Inr)
  from r have "be_answer env (bq_calls w' - 1) = Served"
    by (auto simp: restore_access_def obind_eq_Inr get_dataset_Inr update_dataset_Inr)
  with assms have same: "dataset_at w' = dataset_at w" by (rule access_restored)
  from body_reconciles [OF body] obtain views where
    views: "analytics_views (be_views env) (rc_project rc) d [] = Inr views" "desired = length views"
    and "reconciled env rc d views w2 w5" .
  moreover from access have "managed_at w' = managed_at w5" "managed_at w2 = managed_at w"
    by (simp_all add: managed_at_def fun_eq_iff)
  ultimately have "reconciled env rc d views w w'" using access by (simp add: reconciled_def)
  from that [OF views this same] show ?thesis .
qed

text \<open>C13: A reconciliation that returns leaves every desired view with its definition; where stale views are
  removed the managed views of the dataset are exactly the desired ones; and whatever else any dataset holds is
  what it was, but for managed views that are no longer desired.\<close>
theorem reconciliation_leaves_the_desired_views:
  "case reconcile env rc d w of
     (Inl e, w') \<Rightarrow> True
   | (Inr (desired, removed), w') \<Rightarrow>
       \<exists>views. analytics_views (be_views env) (rc_project rc) d [] = Inr views \<and> desired = length views \<and>
         reconciled env rc d views w w'"
  by (cases "reconcile env rc d w"; cases "fst (reconcile env rc d w)") (auto elim: reconcile_returns)

subsection \<open>Provisioning\<close>

lemma dataset_provisioned:
  assumes "provision_dataset env p u w = (Inr z, w')"
  obtains x where "dataset_at w' (dataset_id u) = Some x" "ds_location x = pr_location p" "ds_access x = private_access p u"
    "ds_table_expiration x = None" "ds_partition_expiration x = None"
  using assms
  by (fastforce simp: provision_dataset_def Let_def obind_eq_Inr get_dataset_Inr update_dataset_Inr patched_dataset_def
      chosen_def private_access_def restricted_dataset_access_def oper_simps split: if_splits intro: that)

definition raw_table_ready :: "bq_table \<Rightarrow> bool" where
  "raw_table_ready t \<longleftrightarrow> compatible_layout t \<and> tb_schema t = map (\<lambda>(n, ty, m). (n, ty, mode_text m)) raw_telemetry_schema \<and>
     tb_expires t = None \<and> raw_table_labels \<subseteq>\<^sub>m tb_labels t"

lemma raw_table_provisioned:
  assumes "provision_raw_table env d w = (Inr z, w')"
  obtains t where "table_at w' d raw_telemetry_table = Some t" "raw_table_ready t" "dataset_at w' = dataset_at w"
proof -
  have "ds.stays (provision_raw_table env d)"
    unfolding provision_raw_table_def by (intro ds.stays_rules ds_calls)
  from ds_eq [OF this assms] have "dataset_at w' = dataset_at w" by (simp add: same_datasets_def)
  moreover from assms obtain t where "table_at w' d raw_telemetry_table = Some t" "raw_table_ready t"
    by (fastforce simp: provision_raw_table_def obind_eq_Inr get_table_Inr update_table_Inr patched_table_def chosen_def
        raw_table_ready_def compatible_layout_def new_raw_table_def oper_simps split: if_splits)
  ultimately show ?thesis using that by blast
qed

text \<open>What provisioning leaves of the dataset of a user.\<close>

definition provisioned :: "bq_env \<Rightarrow> provisioner \<Rightarrow> allowed_user \<Rightarrow> bigquery \<Rightarrow> bool" where
  "provisioned env p u w \<longleftrightarrow> (\<exists>x views. dataset_at w (dataset_id u) = Some x \<and> ds_location x = pr_location p \<and>
     ds_access x = [user_by_email (Some ''OWNER'') (pr_owner p), user_by_email (Some ''READER'') (pr_gateway p),
       user_by_email (Some ''WRITER'') (pr_processor p), user_by_email (Some ''READER'') (invitation_email u)] \<and>
     ds_table_expiration x = None \<and> ds_partition_expiration x = None \<and>
     analytics_views (be_views env) (pr_project p) (dataset_id u) [] = Inr views \<and>
     list_all (\<lambda>v. \<exists>t. table_at w (dataset_id u) (av_name v) = Some t \<and> carries env v t) views \<and>
     (raw_telemetry_table \<in> set (map av_name views) \<or>
      (\<exists>t. table_at w (dataset_id u) raw_telemetry_table = Some t \<and> raw_table_ready t)))"

lemma provision_returns:
  assumes "provision env p u w = (Inr z, w')"
  shows "provisioned env p u w'"
proof -
  let ?d = "dataset_id u" and ?rc = "provisioning_reconciler p"
  from assms obtain w1 w2 desired removed where a: "provision_dataset env p u w = (Inr (), w1)"
    and b: "provision_raw_table env ?d w1 = (Inr (), w2)" and c: "reconcile env ?rc ?d w2 = (Inr (desired, removed), w')"
    by (auto simp: provision_def obind_eq_Inr oper_simps)
  from dataset_provisioned [OF a] obtain x where x: "dataset_at w1 ?d = Some x" "ds_location x = pr_location p"
    "ds_access x = private_access p u" "ds_table_expiration x = None" "ds_partition_expiration x = None" .
  from raw_table_provisioned [OF b] obtain t where t: "table_at w2 ?d raw_telemetry_table = Some t" "raw_table_ready t"
    and d2: "dataset_at w2 = dataset_at w1" .
  from reconcile_returns [OF c] obtain views where views: "analytics_views (be_views env) (pr_project p) ?d [] = Inr views"
    and rec: "reconciled env ?rc ?d views w2 w'" and d3: "dataset_at w' = dataset_at w2"
    by (auto simp: provisioning_reconciler_def)
  from rec have "\<forall>e n. table_at w' e n = table_at w2 e n \<or> e = ?d \<and> n \<in> set (map av_name views)"
    by (simp add: reconciled_def provisioning_reconciler_def)
  with t(1) have "raw_telemetry_table \<in> set (map av_name views) \<or> table_at w' ?d raw_telemetry_table = Some t"
    by metis
  with x d2 d3 views rec t(2) show ?thesis
    by (auto simp: provisioned_def reconciled_def private_access_def restricted_dataset_access_def
        data_viewer_access_role_def data_editor_access_role_def)
qed

text \<open>C14: Provisioning that returns leaves the dataset of the user in its region, without expiry, readable and
  writable by exactly four principals (the owner, the gateway, the processor and the invited user), the raw table
  with its layout and schema and without expiry, and every analytics view with its definition.\<close>
theorem provisioned_dataset_is_private:
  "case provision env p u w of
     (Inl e, w') \<Rightarrow> True
   | (Inr z, w') \<Rightarrow>
       \<exists>x views. dataset_at w' (dataset_id u) = Some x \<and> ds_location x = pr_location p \<and>
         ds_access x = [user_by_email (Some ''OWNER'') (pr_owner p), user_by_email (Some ''READER'') (pr_gateway p),
           user_by_email (Some ''WRITER'') (pr_processor p), user_by_email (Some ''READER'') (invitation_email u)] \<and>
         ds_table_expiration x = None \<and> ds_partition_expiration x = None \<and>
         analytics_views (be_views env) (pr_project p) (dataset_id u) [] = Inr views \<and>
         list_all (\<lambda>v. \<exists>t. table_at w' (dataset_id u) (av_name v) = Some t \<and> carries env v t) views \<and>
         (raw_telemetry_table \<in> set (map av_name views) \<or>
          (\<exists>t. table_at w' (dataset_id u) raw_telemetry_table = Some t \<and> raw_table_ready t))"
  by (cases "provision env p u w"; cases "fst (provision env p u w)")
    (auto dest!: provision_returns simp: provisioned_def)

subsection \<open>Examples\<close>

definition demo_view_lib :: view_lib where
  "demo_view_lib = \<lparr>vl_manifest = [], vl_render = (\<lambda>f r t c. Inr []),
     vl_parse = (\<lambda>s. Inr \<lparr>pv_query = True, pv_ctes = [], pv_tables = []\<rparr>), vl_entries = [], vl_float = (\<lambda>r. [])\<rparr>"

definition demo_bq_env :: "(nat \<Rightarrow> answer) \<Rightarrow> bq_env" where
  "demo_bq_env answers = \<lparr>be_answer = answers, be_uuid = (\<lambda>n. ''0123456789abcdef''), be_now = (\<lambda>n. 0),
     be_sha256 = (\<lambda>s. s), be_views = demo_view_lib\<rparr>"

definition demo_dataset :: bq_dataset where
  "demo_dataset = \<lparr>ds_location = ''us'', ds_description = None, ds_labels = Map.empty, ds_table_expiration = None,
     ds_partition_expiration = None, ds_access = [user_by_email (Some ''OWNER'') ''owner'']\<rparr>"

definition demo_old_view :: bq_table where
  "demo_old_view = (new_view None Map.empty ''SELECT 1'' None)\<lparr>tb_type := Some ''VIEW''\<rparr>"

definition demo_bigquery :: bigquery where
  "demo_bigquery = \<lparr>bq_datasets = [(''d'', demo_dataset)], bq_tables = [((''d'', ''v''), demo_old_view)], bq_calls = 0\<rparr>"

definition demo_definition :: analytics_view where
  "demo_definition = \<lparr>av_name = ''v'', av_description = ''new'', av_sql = ''SELECT 2''\<rparr>"

text \<open>The second call, which would write the new definition, has its answer lost.\<close>

definition demo_lost_answer :: bq_env where
  "demo_lost_answer = demo_bq_env (\<lambda>n. if n = 1 then Unanswered (LibraryError ''timeout'') else Served)"

lemmas demo_bq_simps = demo_lost_answer_def demo_bq_env_def demo_bigquery_def demo_definition_def demo_old_view_def
  bq_call_def get_table_def update_table_def write_view_def table_at_def put_table_def patched_table_def chosen_def
  view_fields_def new_view_def desired_view_def snapshot_of_def

lemma demo_promotion_fails:
  "promote demo_lost_answer ''d'' [demo_definition] demo_bigquery =
     (Inl (AnalyticsViewReconciliationError ''promotion'' ''v''), snd (promote demo_lost_answer ''d'' [demo_definition] demo_bigquery))"
  by (simp add: demo_bq_simps promote_def promote_view_def prepare_view_def rollback_promotion_def rollback_view_def obind_def)

theorem failed_promotion_is_reversed_witness:
  "rel_option agrees (table_at demo_bigquery ''d'' ''v'')
     (table_at (snd (promote demo_lost_answer ''d'' [demo_definition] demo_bigquery)) ''d'' ''v'')"
  using failed_promotion_is_reversed [OF demo_promotion_fails, of "''d''" "''v''"]
  by (simp add: demo_bigquery_def table_at_def)

definition demo_reconciler :: view_reconciler where
  "demo_reconciler = \<lparr>rc_project = [], rc_account = ''reader'', rc_remove_stale = True\<rparr>"

lemma demo_reconcile_fails:
  "fst (reconcile (demo_bq_env (\<lambda>n. Served)) demo_reconciler ''d'' demo_bigquery) =
     Inl (ValueError ''BigQuery project and dataset identifiers must be opaque safe identifiers'')"
  by (simp add: reconcile_def reconcile_views_def restore_access_def demo_reconciler_def analytics_views_def
      opaque_identifier_def safe_identifier_def obind_def finally_do_def get_dataset_def update_dataset_def bq_call_def
      dataset_at_def put_dataset_def demo_bq_env_def demo_bigquery_def oper_simps)

theorem dataset_access_is_restored_witness:
  "dataset_at (snd (reconcile (demo_bq_env (\<lambda>n. Served)) demo_reconciler ''d'' demo_bigquery)) = dataset_at demo_bigquery"
  by (rule dataset_access_is_restored [OF surjective_pairing]) (simp add: demo_bq_env_def)

text \<open>The grant stands before the \<open>try\<close>: when its answer is lost the account keeps its access, and the next run
  takes the list with that account for the permanent one.\<close>

theorem unanswered_grant_stays:
  "map_option ds_access (dataset_at (snd (reconcile demo_lost_answer demo_reconciler ''d'' demo_bigquery)) ''d'') =
     Some [user_by_email (Some ''OWNER'') ''owner'', user_by_email (Some ''READER'') ''reader'']"
  by (simp add: reconcile_def demo_reconciler_def obind_def get_dataset_def update_dataset_def bq_call_def
      dataset_at_def put_dataset_def demo_bq_env_def demo_lost_answer_def demo_bigquery_def demo_dataset_def
      patched_dataset_def chosen_def temporary_dataset_reader_access_def user_by_email_def data_viewer_access_role_def)

end
