(* ===== verification/McpModels.thy ===== *)
theory McpModels
  imports McpAudit
begin

text \<open>
  \<open>mcp_gateway/mcp_models.py\<close>: the inputs of the compact MCP tools.  A model lists its actions, its fields with
  their annotations and what each action requires; the two fields every model has (\<open>vehicle_id\<close> and
  \<open>explicit_current_turn_intent\<close>) come first.  Pydantic's conversion of one value to one annotation is the argument
  \<open>convert\<close>; everything around it (unknown and missing fields, defaults, the required fields of an action, the
  conversion to the arguments of the internal operation) is modelled.  Every field but the action may be left out:
  the intent is then \<open>False\<close> and any other field \<open>None\<close>.
\<close>

subsection \<open>Annotations\<close>

datatype input_type =
    TextOf "string list"
  | NumberOf "int list"
  | OnlyFalse
  | OnlyNone
  | AnyText
  | FourDigits
  | Whole "int option" "int option"
  | Number "int option"
  | Truth
  | Texts
  | AnyObject

definition above :: "int option \<Rightarrow> rat \<Rightarrow> bool" where
  "above lo q = (case lo of None \<Rightarrow> True | Some l \<Rightarrow> of_int l \<le> q)"

definition below :: "int option \<Rightarrow> rat \<Rightarrow> bool" where
  "below hi q = (case hi of None \<Rightarrow> True | Some h \<Rightarrow> q \<le> of_int h)"

text \<open>The values an annotation stands for, as Pydantic documents them.\<close>

definition has_type :: "input_type \<Rightarrow> val \<Rightarrow> bool" where
  "has_type ty v = (case ty of
       TextOf xs \<Rightarrow> (case v of VStr s \<Rightarrow> s \<in> set xs | _ \<Rightarrow> False)
     | NumberOf ns \<Rightarrow> (case v of VInt i \<Rightarrow> i \<in> set ns | _ \<Rightarrow> False)
     | OnlyFalse \<Rightarrow> v = VBool False
     | OnlyNone \<Rightarrow> v = VNone
     | AnyText \<Rightarrow> is_str v
     | FourDigits \<Rightarrow> (case v of VStr s \<Rightarrow> length s = 4 \<and> list_all is_decimal s | _ \<Rightarrow> False)
     | Whole lo hi \<Rightarrow> (case v of VInt i \<Rightarrow> above lo (of_int i) \<and> below hi (of_int i) | _ \<Rightarrow> False)
     | Number lo \<Rightarrow> (case v of VFloat q \<Rightarrow> above lo q | _ \<Rightarrow> False)
     | Truth \<Rightarrow> is_bool v
     | Texts \<Rightarrow> (case v of VList vs \<Rightarrow> list_all is_str vs | _ \<Rightarrow> False)
     | AnyObject \<Rightarrow> is_dict v)"

subsection \<open>Models\<close>

record tool_model =
  tm_class :: string
  tm_actions :: "string list"
  tm_fields :: "(string \<times> input_type) list"
  tm_required :: "(string \<times> string list) list"

definition tool_input ::
  "string \<Rightarrow> input_type \<Rightarrow> input_type \<Rightarrow> string list \<Rightarrow> (string \<times> input_type) list \<Rightarrow> (string \<times> string list) list \<Rightarrow> tool_model" where
  "tool_input cls vehicle intent actions fs required =
     \<lparr>tm_class = cls, tm_actions = actions,
      tm_fields = (''vehicle_id'', vehicle) # (''explicit_current_turn_intent'', intent) # fs, tm_required = required\<rparr>"

definition field_default :: "string \<Rightarrow> val" where
  "field_default name = (if name = ''explicit_current_turn_intent'' then VBool False else VNone)"

definition validation_error :: exn where "validation_error = LibraryError ''ValidationError''"

text \<open>One field of the input: left out, \<open>None\<close> where the annotation allows it, or converted.\<close>

definition field_value :: "(input_type \<Rightarrow> val \<Rightarrow> val option) \<Rightarrow> dict \<Rightarrow> string \<times> input_type \<Rightarrow> exn + string \<times> val" where
  "field_value convert raw f = (case f of (name, ty) \<Rightarrow> (case map_of raw name of
       None \<Rightarrow> Inr (name, field_default name)
     | Some v \<Rightarrow>
         if v = VNone \<and> name \<noteq> ''explicit_current_turn_intent'' then Inr (name, VNone)
         else (case convert ty v of None \<Rightarrow> Inl validation_error | Some x \<Rightarrow> Inr (name, x))))"

definition required_fields :: "tool_model \<Rightarrow> string \<Rightarrow> string list" where
  "required_fields tm action = (case map_of (tm_required tm) action of None \<Rightarrow> [] | Some names \<Rightarrow> names)"

definition validate_action_fields :: "tool_model \<Rightarrow> string \<Rightarrow> dict \<Rightarrow> exn + unit" where
  "validate_action_fields tm action fs =
     require (list_all (\<lambda>name. dget fs name \<noteq> VNone) (required_fields tm action)) validation_error"

text \<open>\<open>model_validate\<close>: the action and the fields of the instance.\<close>

definition validate_input ::
  "(input_type \<Rightarrow> val \<Rightarrow> val option) \<Rightarrow> tool_model \<Rightarrow> dict \<Rightarrow> exn + string \<times> dict" where
  "validate_input convert tm raw =
     (if \<not> set (keys raw) \<subseteq> insert ''action'' (set (keys (tm_fields tm))) then Inl validation_error
      else (case map_of raw ''action'' of
          Some (VStr action) \<Rightarrow>
            if action \<notin> set (tm_actions tm) then Inl validation_error
            else rbind (rmap (field_value convert raw) (tm_fields tm)) (\<lambda>fs.
                 rbind (validate_action_fields tm action fs) (\<lambda>_. Inr (action, fs)))
        | _ \<Rightarrow> Inl validation_error))"

text \<open>\<open>legacy_arguments\<close> leaves out what is \<open>None\<close>, the action and an intent that is \<open>False\<close>.\<close>

definition legacy_arguments :: "dict \<Rightarrow> dict" where
  "legacy_arguments fs = filter (\<lambda>(k, v). v \<noteq> VNone \<and>
     (k = ''explicit_current_turn_intent'' \<longrightarrow> truthy (dget fs ''explicit_current_turn_intent''))) fs"

subsection \<open>The families\<close>

definition account_read :: tool_model where
  "account_read = tool_input ''AccountRead'' OnlyNone OnlyFalse
    [''feature_config'', ''me'', ''orders'', ''list_vehicles'']
    []
    []"

definition vehicle_read :: tool_model where
  "vehicle_read = tool_input ''VehicleRead'' AnyText OnlyFalse
    [''drivers'', ''vehicle'', ''fleet_status'', ''fleet_telemetry_config_get'', ''fleet_telemetry_errors'',
     ''mobile_enabled'', ''nearby_charging_sites'', ''recent_alerts'', ''release_notes'', ''service_data'',
     ''vehicle_data'']
    [(''endpoints'', Texts), (''count'', Whole (Some 1) None), (''radius'', Number (Some 0)),
     (''detail'', Truth), (''staged'', Truth), (''language'', AnyText)]
    [(''vehicle_data'', [''endpoints''])]"

definition charging_record_read :: tool_model where
  "charging_record_read = tool_input ''ChargingRecordRead'' AnyText OnlyFalse
    [''charging_history'', ''charging_invoice'']
    [(''start_time'', AnyText), (''end_time'', AnyText), (''page'', Whole (Some 1) None),
     (''page_size'', Whole (Some 1) (Some 100)), (''sort_by'', AnyText),
     (''sort_order'', TextOf [''asc'', ''desc'']), (''invoice_id'', AnyText)]
    [(''charging_invoice'', [''invoice_id''])]"

definition vehicle_access_control :: tool_model where
  "vehicle_access_control = tool_input ''VehicleAccessControl'' AnyText Truth
    [''door_lock'', ''door_unlock'', ''actuate_trunk'', ''window_control'', ''trigger_homelink'',
     ''remote_start_drive'', ''guest_mode'', ''flash_lights'', ''honk_horn'']
    [(''which_trunk'', TextOf [''front'', ''rear'']), (''command'', TextOf [''vent'', ''close'']),
     (''lat'', Number None), (''lon'', Number None), (''token'', AnyText), (''enable'', Truth)]
    [(''actuate_trunk'', [''which_trunk'']), (''window_control'', [''command'', ''lat'', ''lon'']),
     (''trigger_homelink'', [''lat'', ''lon'', ''token'']), (''guest_mode'', [''enable''])]"

definition climate_control :: tool_model where
  "climate_control = tool_input ''ClimateControl'' AnyText OnlyFalse
    [''auto_conditioning_start'', ''auto_conditioning_stop'', ''remote_auto_seat_climate_request'',
     ''remote_auto_steering_wheel_heat_climate_request'', ''remote_seat_cooler_request'',
     ''remote_seat_heater_request'', ''remote_steering_wheel_heat_level_request'',
     ''remote_steering_wheel_heater_request'', ''set_bioweapon_mode'', ''set_cabin_overheat_protection'',
     ''set_climate_keeper_mode'', ''set_cop_temp'', ''set_preconditioning_max'', ''set_temps'']
    [(''auto_seat_position'', Whole None None), (''auto_climate_on'', Truth), (''on'', Truth),
     (''seat_position'', Whole None None), (''seat_cooler_level'', Whole None None),
     (''level'', Whole None None), (''manual_override'', Truth), (''fan_only'', Truth),
     (''climate_keeper_mode'', NumberOf [0, 1, 2, 3]), (''cop_temp'', NumberOf [0, 1, 2]),
     (''driver_temp'', Number None), (''passenger_temp'', Number None)]
    [(''remote_auto_seat_climate_request'', [''auto_seat_position'', ''auto_climate_on'']),
     (''remote_auto_steering_wheel_heat_climate_request'', [''on'']),
     (''remote_seat_cooler_request'', [''seat_position'', ''seat_cooler_level'']),
     (''remote_seat_heater_request'', [''seat_position'', ''level'']),
     (''remote_steering_wheel_heat_level_request'', [''level'']),
     (''remote_steering_wheel_heater_request'', [''on'']),
     (''set_bioweapon_mode'', [''on'', ''manual_override'']),
     (''set_cabin_overheat_protection'', [''on'', ''fan_only'']),
     (''set_climate_keeper_mode'', [''climate_keeper_mode'']), (''set_cop_temp'', [''cop_temp'']),
     (''set_preconditioning_max'', [''on'', ''manual_override'']),
     (''set_temps'', [''driver_temp'', ''passenger_temp''])]"

definition charging_control :: tool_model where
  "charging_control = tool_input ''ChargingControl'' AnyText OnlyFalse
    [''charge_max_range'', ''charge_port_door_close'', ''charge_port_door_open'', ''charge_standard'',
     ''charge_start'', ''charge_stop'', ''set_charge_limit'', ''set_charging_amps'', ''add_charge_schedule'',
     ''remove_charge_schedule'', ''add_precondition_schedule'', ''remove_precondition_schedule'']
    [(''percent'', Whole (Some 0) (Some 100)), (''charging_amps'', Whole (Some 0) None),
     (''id'', Whole None None), (''lat'', Number None), (''lon'', Number None),
     (''days_of_week'', AnyText), (''start_enabled'', Truth), (''start_time'', Whole None None),
     (''end_enabled'', Truth), (''end_time'', Whole None None),
     (''precondition_time'', Whole None None), (''one_time'', Truth), (''enabled'', Truth)]
    [(''set_charge_limit'', [''percent'']), (''set_charging_amps'', [''charging_amps'']),
     (''remove_charge_schedule'', [''id'']), (''remove_precondition_schedule'', [''id'']),
     (''add_charge_schedule'', [''lat'', ''lon'', ''id'', ''days_of_week'', ''start_enabled'', ''start_time'', ''end_enabled'', ''end_time'', ''one_time'', ''enabled'']),
     (''add_precondition_schedule'', [''lat'', ''lon'', ''id'', ''days_of_week'', ''precondition_time'', ''one_time'', ''enabled''])]"

definition media_control :: tool_model where
  "media_control = tool_input ''MediaControl'' AnyText OnlyFalse
    [''adjust_volume'', ''media_next_fav'', ''media_next_track'', ''media_prev_fav'', ''media_prev_track'',
     ''media_toggle_playback'', ''media_volume_down'', ''media_volume_up'', ''remote_boombox'']
    [(''volume'', Number None), (''sound'', Whole None None)]
    [(''adjust_volume'', [''volume'']), (''remote_boombox'', [''sound''])]"

definition navigation_control :: tool_model where
  "navigation_control = tool_input ''NavigationControl'' AnyText OnlyFalse
    [''navigation_gps_request'', ''navigation_request'', ''navigation_sc_request'',
     ''navigation_waypoints_request'']
    [(''lat'', Number None), (''lon'', Number None), (''order'', Whole None None),
     (''id'', Whole None None), (''type'', AnyText), (''value'', AnyObject), (''locale'', AnyText),
     (''timestamp_ms'', AnyText), (''waypoints'', AnyText)]
    [(''navigation_gps_request'', [''lat'', ''lon'']), (''navigation_sc_request'', [''id'']),
     (''navigation_request'', [''type'', ''value'', ''locale'', ''timestamp_ms'']),
     (''navigation_waypoints_request'', [''waypoints''])]"

definition security_control :: tool_model where
  "security_control = tool_input ''SecurityControl'' AnyText Truth
    [''parental_controls_activate'', ''parental_controls_deactivate'', ''parental_controls_enable_setting'',
     ''parental_controls_set_speed_limit'', ''set_pin_to_drive'', ''set_sentry_mode'', ''set_valet_mode'',
     ''speed_limit_activate'', ''speed_limit_clear_pin'', ''speed_limit_deactivate'',
     ''speed_limit_set_limit'']
    [(''pin'', FourDigits), (''password'', FourDigits), (''on'', Truth), (''setting'', AnyText),
     (''enable'', Truth), (''limit_mph'', Whole (Some 0) None)]
    [(''parental_controls_activate'', [''pin'']), (''parental_controls_deactivate'', [''pin'']),
     (''parental_controls_enable_setting'', [''setting'', ''enable'']),
     (''parental_controls_set_speed_limit'', [''limit_mph'']),
     (''set_pin_to_drive'', [''on'', ''password'']), (''set_sentry_mode'', [''on'']),
     (''set_valet_mode'', [''on'', ''password'']), (''speed_limit_activate'', [''pin'']),
     (''speed_limit_clear_pin'', [''pin'']), (''speed_limit_deactivate'', [''pin'']),
     (''speed_limit_set_limit'', [''limit_mph''])]"

definition vehicle_settings_control :: tool_model where
  "vehicle_settings_control = tool_input ''VehicleSettingsControl'' AnyText Truth
    [''cancel_software_update'', ''schedule_software_update'', ''set_vehicle_name'', ''sun_roof_control'',
     ''upcoming_calendar_entries'']
    [(''offset_sec'', Whole (Some 0) None), (''vehicle_name'', AnyText),
     (''state'', TextOf [''stop'', ''close'', ''vent'']), (''calendar_data'', AnyText)]
    [(''schedule_software_update'', [''offset_sec'']), (''set_vehicle_name'', [''vehicle_name'']),
     (''sun_roof_control'', [''state'']), (''upcoming_calendar_entries'', [''calendar_data''])]"

definition tool_models :: "tool_model list" where
  "tool_models = [account_read, vehicle_read, charging_record_read, vehicle_access_control, climate_control,
     charging_control, media_control, navigation_control, security_control, vehicle_settings_control]"

text \<open>The two inputs that are no families.\<close>

definition wake_vehicle_fields :: "(string \<times> input_type) list" where
  "wake_vehicle_fields = [(''vehicle_id'', AnyText)]"

definition validate_wake :: "(input_type \<Rightarrow> val \<Rightarrow> val option) \<Rightarrow> dict \<Rightarrow> exn + dict" where
  "validate_wake convert raw =
     (if \<not> set (keys raw) \<subseteq> set (keys wake_vehicle_fields) then Inl validation_error
      else rbind (rmap (field_value convert raw) wake_vehicle_fields) (\<lambda>fs. Inr (filter (\<lambda>(k, v). v \<noteq> VNone) fs)))"

definition validate_analytics_query_input :: "(input_type \<Rightarrow> val \<Rightarrow> val option) \<Rightarrow> dict \<Rightarrow> exn + dict" where
  "validate_analytics_query_input convert raw =
     (if \<not> set (keys raw) \<subseteq> {''sql''} then Inl validation_error
      else (case Option.bind (map_of raw ''sql'') (convert AnyText) of
          Some (VStr sql) \<Rightarrow> if 1 \<le> length sql \<and> length sql \<le> 32 * 1024 then Inr [(''sql'', VStr sql)] else Inl validation_error
        | _ \<Rightarrow> Inl validation_error))"

lemmas tool_model_defs = account_read_def vehicle_read_def charging_record_read_def vehicle_access_control_def
  climate_control_def charging_control_def media_control_def navigation_control_def security_control_def
  vehicle_settings_control_def tool_input_def

subsection \<open>The models and the policy\<close>

text \<open>How an action of a model fits the request class of its operation: the class exists, its mandatory fields are
  required by the model, its fields are fields of the model, and its PIN has four digits.\<close>

definition mandatory :: "(string \<times> bool) list \<Rightarrow> string list" where
  "mandatory fs = map fst (filter (\<lambda>(k, optional). \<not> optional) fs)"

definition fits_request :: "tool_model \<Rightarrow> string \<Rightarrow> string \<Rightarrow> bool" where
  "fits_request tm action cls = (case request_fields cls of
       None \<Rightarrow> False
     | Some fs \<Rightarrow>
         list_all (\<lambda>k. k \<in> set (required_fields tm action)) (mandatory fs) \<and>
         list_all (\<lambda>k. k \<in> set (mandatory fs)) (required_fields tm action) \<and>
         list_all (\<lambda>k. k \<in> set (keys (tm_fields tm))) (keys fs) \<and>
         (cls = ''PinRequest'' \<longrightarrow> map_of (tm_fields tm) ''pin'' = Some FourDigits) \<and>
         (cls = ''SetPinRequest'' \<longrightarrow> map_of (tm_fields tm) ''password'' = Some FourDigits))"

definition command_models :: "tool_model list" where
  "command_models = drop 3 tool_models"

definition fits_policy :: "tool_model \<Rightarrow> string \<Rightarrow> bool" where
  "fits_policy tm action = (case map_of command_request_types action of
       None \<Rightarrow> required_fields tm action = []
     | Some cls \<Rightarrow> fits_request tm action cls)"

text \<open>Evaluated model by model.\<close>

lemma access_fits: "list_all (fits_policy vehicle_access_control) (tm_actions vehicle_access_control)"
  by code_simp

lemma climate_fits: "list_all (fits_policy climate_control) (tm_actions climate_control)"
  by code_simp

lemma charging_fits: "list_all (fits_policy charging_control) (tm_actions charging_control)"
  by code_simp

lemma media_navigation_fit: "list_all (fits_policy media_control) (tm_actions media_control) \<and>
    list_all (fits_policy navigation_control) (tm_actions navigation_control)"
  by code_simp

lemma security_fits: "list_all (fits_policy security_control) (tm_actions security_control)"
  by code_simp

lemma settings_fit: "list_all (fits_policy vehicle_settings_control) (tm_actions vehicle_settings_control)"
  by code_simp

lemma command_models_eq: "command_models = [vehicle_access_control, climate_control, charging_control, media_control,
    navigation_control, security_control, vehicle_settings_control]"
  by (simp add: command_models_def tool_models_def)

lemma models_fit_requests: "tm \<in> set command_models \<Longrightarrow> action \<in> set (tm_actions tm) \<Longrightarrow> fits_policy tm action"
  using access_fits climate_fits charging_fits media_navigation_fit security_fits settings_fit
  by (auto simp: command_models_eq list_all_iff)

lemma models_are_commands:
  "list_all (\<lambda>tm. list_all (\<lambda>action. action \<in> set command_names \<and> action \<notin> set excluded_commands) (tm_actions tm)) command_models"
  by (simp add: command_models_eq tool_model_defs command_names_def excluded_commands_def)

end
