(* ===== verification/McpServer.thy ===== *)
theory McpServer
  imports McpModels
begin

text \<open>
  \<open>mcp_gateway/mcp_server.py\<close>: the tools that the MCP server shows, the adapter that verifies an access token, and
  how a call of a tool reaches the service.  The transport, the protocol and the tool registry are the MCP SDK's;
  it calls a tool with the document of its one argument \<open>request\<close>.
\<close>

subsection \<open>Annotations and tools\<close>

record tool_annotations =
  ta_read_only :: bool
  ta_destructive :: bool
  ta_idempotent :: bool
  ta_open_world :: bool

definition read_only_annotations :: tool_annotations where
  "read_only_annotations = \<lparr>ta_read_only = True, ta_destructive = False, ta_idempotent = True, ta_open_world = True\<rparr>"

definition control_annotations :: tool_annotations where
  "control_annotations = \<lparr>ta_read_only = False, ta_destructive = False, ta_idempotent = False, ta_open_world = True\<rparr>"

definition security_control_annotations :: tool_annotations where
  "security_control_annotations = \<lparr>ta_read_only = False, ta_destructive = True, ta_idempotent = False, ta_open_world = True\<rparr>"

definition family_tools :: "(string \<times> tool_model \<times> tool_annotations) list" where
  "family_tools = [
     (''get_tesla_account'', account_read, read_only_annotations),
     (''get_vehicle_status'', vehicle_read, read_only_annotations),
     (''get_charging_records'', charging_record_read, read_only_annotations),
     (''control_vehicle_access'', vehicle_access_control, security_control_annotations),
     (''control_vehicle_climate'', climate_control, control_annotations),
     (''control_vehicle_charging'', charging_control, control_annotations),
     (''control_vehicle_media'', media_control, control_annotations),
     (''control_vehicle_navigation'', navigation_control, control_annotations),
     (''control_vehicle_security'', security_control, security_control_annotations),
     (''control_vehicle_settings'', vehicle_settings_control, security_control_annotations)]"

text \<open>What the server announces about each of its tools, the three without a family included.\<close>

definition announced_tools :: "(string \<times> tool_annotations) list" where
  "announced_tools = map (\<lambda>(tool, tm, annotations). (tool, annotations)) family_tools @
     [(''wake_vehicle'', control_annotations),
      (''get_analytics_schema'', read_only_annotations),
      (''run_analytics_query'', read_only_annotations)]"

subsection \<open>The token verifier\<close>

record verified_access_token =
  at_token :: string
  at_client_id :: string
  at_scopes :: "string list"
  at_subject :: string
  at_claims :: val

definition verify_token ::
  "(string option \<Rightarrow> val \<Rightarrow> ('s, exn, user_context) oper) \<Rightarrow> string \<Rightarrow> ('s, exn, verified_access_token option) oper" where
  "verify_token authorize token =
     ocatch (obind (authorize (Some (''Bearer '' @ token)) (VDict [])) (\<lambda>context.
         oret (Some \<lparr>at_token = token, at_client_id = ''woodhouse-mcp-client'', at_scopes = [''mcp:access''],
           at_subject = ctx_subject context,
           at_claims = VDict [(''user_id'', VStr (ctx_user_id context)), (''dataset_id'', VStr (ctx_dataset_id context)),
             (''oidc_issuer'', VStr (ctx_issuer context)), (''oidc_subject'', VStr (ctx_subject context))]\<rparr>)))
       (\<lambda>e. if is_authentication_error e then oret None else oraise e)"

text \<open>The user of a call: the one of a test server, or the one in the claims of the verified token.\<close>

definition claim :: "dict \<Rightarrow> string \<Rightarrow> exn + string" where
  "claim claims name = (case map_of claims name of
       None \<Rightarrow> Inl (RuntimeError ''Authenticated Woodhouse user context is incomplete'')
     | Some v \<Rightarrow> Inr (py_str v))"

definition current_user :: "user_context option \<Rightarrow> verified_access_token option \<Rightarrow> exn + user_context" where
  "current_user test_user_context token = (case test_user_context of
       Some context \<Rightarrow> Inr context
     | None \<Rightarrow> (case map_option at_claims token of
         Some (VDict claims) \<Rightarrow>
           rbind (claim claims ''user_id'') (\<lambda>user_id. rbind (claim claims ''dataset_id'') (\<lambda>dataset_id.
           rbind (claim claims ''oidc_issuer'') (\<lambda>oidc_issuer. rbind (claim claims ''oidc_subject'') (\<lambda>oidc_subject.
           Inr \<lparr>ctx_user_id = user_id, ctx_dataset_id = dataset_id, ctx_issuer = oidc_issuer, ctx_subject = oidc_subject\<rparr>))))
       | _ \<Rightarrow> Inl (RuntimeError ''Authenticated Woodhouse user context is unavailable'')))"

text \<open>\<open>create_mcp_server\<close> refuses a token verifier without its settings, and the other way round.\<close>

definition server_configured :: "bool \<Rightarrow> bool \<Rightarrow> exn + unit" where
  "server_configured has_boundary has_authorization = require (has_boundary = has_authorization)
     (ValueError ''MCP authorization settings and token verifier must be configured together'')"

subsection \<open>Calls\<close>

text \<open>What a tool answers with: an error of the tool, a text for the model, or an exception of another kind.\<close>

datatype tool_failure = ToolError string | Raised exn

definition correlation_suffix :: "string option \<Rightarrow> string" where
  "correlation_suffix c = (case c of None \<Rightarrow> [] | Some s \<Rightarrow> if s = [] then [] else ''; correlation_id='' @ s)"

definition tool_failure_of :: "exn \<Rightarrow> tool_failure" where
  "tool_failure_of e = (case e of
       MCPToolError category m c \<Rightarrow> ToolError (category @ '': '' @ m @ correlation_suffix c)
     | TeslaError cls m category st c \<Rightarrow> ToolError (category @ '': Tesla Fleet API request failed'' @ correlation_suffix c)
     | _ \<Rightarrow> Raised e)"

type_synonym tool_result = "(tool_failure + dict) \<times> gateway_world"

definition server_call :: "nat \<Rightarrow> mcp_env \<Rightarrow> exn + user_context \<Rightarrow> string \<Rightarrow> dict \<Rightarrow> gateway_world \<Rightarrow> tool_result" where
  "server_call fuel env user name arguments w = (case user of
       Inl e \<Rightarrow> (Inl (Raised e), w)
     | Inr context \<Rightarrow> (case mcp_call fuel env context name (VDict arguments) w of
         (Inl e, w') \<Rightarrow> (Inl (tool_failure_of e), w')
       | (Inr d, w') \<Rightarrow> (Inr d, w')))"

text \<open>A tool with an input that its model refuses is not called; the SDK reports the validation error.\<close>

definition with_input :: "exn + 'a \<Rightarrow> ('a \<Rightarrow> gateway_world \<Rightarrow> tool_result) \<Rightarrow> gateway_world \<Rightarrow> tool_result" where
  "with_input input f w = (case input of Inl e \<Rightarrow> (Inl (Raised e), w) | Inr x \<Rightarrow> f x w)"

definition call_family ::
  "nat \<Rightarrow> mcp_env \<Rightarrow> (input_type \<Rightarrow> val \<Rightarrow> val option) \<Rightarrow> exn + user_context \<Rightarrow> tool_model \<Rightarrow> dict \<Rightarrow>
   gateway_world \<Rightarrow> tool_result" where
  "call_family fuel env convert user tm raw = with_input (validate_input convert tm raw) (\<lambda>(action, fs).
     server_call fuel env user (''tesla_'' @ action) (legacy_arguments fs))"

definition server_tool ::
  "nat \<Rightarrow> mcp_env \<Rightarrow> (input_type \<Rightarrow> val \<Rightarrow> val option) \<Rightarrow> exn + user_context \<Rightarrow> string \<Rightarrow> dict \<Rightarrow>
   gateway_world \<Rightarrow> tool_result" where
  "server_tool fuel env convert user tool raw =
     (case map_of family_tools tool of
        Some (tm, annotations) \<Rightarrow> call_family fuel env convert user tm raw
      | None \<Rightarrow>
          if tool = ''wake_vehicle'' then with_input (validate_wake convert raw) (server_call fuel env user ''tesla_wake_up'')
          else if tool = ''get_analytics_schema'' then server_call fuel env user ''get_analytics_schema'' []
          else if tool = ''run_analytics_query''
          then with_input (validate_analytics_query_input convert raw) (server_call fuel env user ''run_analytics_query'')
          else (\<lambda>w. (Inl (Raised (LibraryError ''Unknown tool'')), w)))"

end
