(* ===== verification/McpServerGuarantees.thy ===== *)
theory McpServerGuarantees
  imports McpServer McpExamples
begin

text \<open>
  What the surface of the MCP server guarantees: accepted inputs fit the private policy and the request classes,
  the annotations agree with what a call sends, a call runs as the user of its token, and where the inputs and the policy
  disagree.
\<close>

subsection \<open>What a model accepts\<close>

definition converts :: "(input_type \<Rightarrow> val \<Rightarrow> val option) \<Rightarrow> bool" where
  "converts convert \<longleftrightarrow> (\<forall>ty v x. convert ty v = Some x \<longrightarrow> has_type ty x)"

lemma validate_input_eq_Inr:
  "validate_input convert tm raw = Inr (action, fs) \<longleftrightarrow>
     set (keys raw) \<subseteq> insert ''action'' (set (keys (tm_fields tm))) \<and> map_of raw ''action'' = Some (VStr action) \<and>
     action \<in> set (tm_actions tm) \<and> rmap (field_value convert raw) (tm_fields tm) = Inr fs \<and>
     list_all (\<lambda>name. dget fs name \<noteq> VNone) (required_fields tm action)"
  by (auto simp: validate_input_def validate_action_fields_def rbind_eq_Inr split: option.splits val.splits)

lemma field_value_eq_Inr:
  "field_value convert raw (name, ty) = Inr p \<Longrightarrow> converts convert \<Longrightarrow>
     fst p = name \<and> (snd p = VNone \<or> name = ''explicit_current_turn_intent'' \<and> snd p = VBool False \<or> has_type ty (snd p))"
  by (auto simp: field_value_def field_default_def converts_def split: option.splits if_splits)

lemma fields_converted:
  "rmap (field_value convert raw) flds = Inr fs \<Longrightarrow> converts convert \<Longrightarrow> keys fs = keys flds \<and>
     list_all (\<lambda>(k, v). \<exists>ty. (k, ty) \<in> set flds \<and>
       (v = VNone \<or> k = ''explicit_current_turn_intent'' \<and> v = VBool False \<or> has_type ty v)) fs"
proof (induction flds arbitrary: fs)
  case Nil
  then show ?case by simp
next
  case (Cons f flds)
  obtain name ty where f: "f = (name, ty)" by (cases f)
  from Cons.prems obtain p rest where p: "field_value convert raw (name, ty) = Inr p"
    and rest: "rmap (field_value convert raw) flds = Inr rest" and fs: "fs = p # rest"
    by (auto simp: f rbind_eq_Inr)
  from field_value_eq_Inr [OF p Cons.prems(2)] Cons.IH [OF rest Cons.prems(2)]
  show ?case by (cases p) (fastforce simp: f fs list_all_iff)
qed

lemma models_distinct: "list_all (\<lambda>tm. distinct (keys (tm_fields tm))) tool_models"
  by (simp add: tool_models_def tool_model_defs)

lemma map_of_legacy:
  "distinct (keys fs) \<Longrightarrow> k \<noteq> ''explicit_current_turn_intent'' \<Longrightarrow>
     map_of (filter (\<lambda>(k, v). v \<noteq> VNone \<and> (k = ''explicit_current_turn_intent'' \<longrightarrow> b)) fs) k =
       (if dget fs k = VNone then None else map_of fs k)"
proof (induction fs)
  case Nil
  then show ?case by simp
next
  case (Cons p fs)
  obtain j v where p: "p = (j, v)" by (cases p)
  show ?case
  proof (cases "j = k")
    case True
    with Cons.prems have "map_of fs k = None" by (simp add: p map_of_eq_None_iff)
    with True Cons show ?thesis by (simp add: p dget_def)
  next
    case False
    with Cons show ?thesis by (simp add: p dget_def)
  qed
qed

lemma legacy_dget:
  assumes "distinct (keys fs)" and "k \<noteq> ''explicit_current_turn_intent''"
  shows "dget (legacy_arguments fs) k = dget fs k"
    and "k \<in> set (keys (legacy_arguments fs)) \<longleftrightarrow> dget fs k \<noteq> VNone"
proof -
  note m = map_of_legacy [OF assms, of "truthy (dget fs ''explicit_current_turn_intent'')", folded legacy_arguments_def]
  show "dget (legacy_arguments fs) k = dget fs k" by (simp add: dget_def [of "legacy_arguments fs"] m) (simp add: dget_def)
  have "k \<in> set (keys (legacy_arguments fs)) \<longleftrightarrow> map_of (legacy_arguments fs) k \<noteq> None"
    by (simp add: map_of_eq_None_iff)
  also have "\<dots> \<longleftrightarrow> dget fs k \<noteq> VNone" by (simp add: m) (auto simp: dget_def split: option.splits)
  finally show "k \<in> set (keys (legacy_arguments fs)) \<longleftrightarrow> dget fs k \<noteq> VNone" .
qed

lemma dget_filter: "k \<in> K \<Longrightarrow> dget (filter (\<lambda>(j, v). j \<in> K) d) k = dget d k"
  by (induction d) (auto simp: dget_def)

lemma dget_given: "k \<in> set (keys rf) \<Longrightarrow> dget (map (\<lambda>(j, d). (j, dget vs j)) rf) k = dget vs k"
  by (induction rf) (auto simp: dget_def)

lemma classes_have_no_intent:
  "list_all (\<lambda>(cls, rf). ''explicit_current_turn_intent'' \<notin> set (keys rf)) (command_request_classes @ setting_request_classes)"
  by (simp add: command_request_classes_def setting_request_classes_def)

lemma no_intent_field:
  assumes "request_fields cls = Some rf"
  shows "''explicit_current_turn_intent'' \<notin> set (keys rf)"
  using classes_have_no_intent map_of_SomeD [OF assms [unfolded request_fields_def]] by (fastforce simp: list_all_iff)

lemma pin_classes:
  "request_fields ''PinRequest'' = Some [(''pin'', False)]"
  "request_fields ''SetPinRequest'' = Some [(''on'', False), (''password'', False)]"
  by (simp_all add: request_fields_def command_request_classes_def setting_request_classes_def)

lemma decimal_is_digit: "is_decimal c \<Longrightarrow> is_digit c"
  by (simp add: is_decimal_def is_digit_def)

lemma four_digits_typed: "has_type FourDigits v \<Longrightarrow> four_digits v = Inr ()"
  by (cases v) (auto simp: has_type_def list_all_iff decimal_is_digit)

lemma typed_field:
  assumes "rmap (field_value convert raw) flds = Inr fs" and "converts convert" and "distinct (keys flds)"
    and "map_of flds k = Some ty" and "k \<noteq> ''explicit_current_turn_intent''" and "dget fs k \<noteq> VNone"
  shows "has_type ty (dget fs k)"
proof -
  note fs = fields_converted [OF assms(1,2)]
  from assms(6) obtain v where v: "(k, v) \<in> set fs" "dget fs k = v"
    by (auto simp: dget_def split: option.splits dest: map_of_SomeD)
  with fs obtain ty' where ty': "(k, ty') \<in> set flds" and typed: "v = VNone \<or> has_type ty' v"
    using assms(5) by (auto simp: list_all_iff)
  from ty' assms(3,4) have "ty' = ty" by (metis map_of_is_SomeI option.inject)
  with typed v assms(6) show ?thesis by auto
qed

lemma accepted_command_builds:
  assumes conv: "converts convert" and fs: "rmap (field_value convert raw) (tm_fields tm) = Inr fs"
    and dist: "distinct (keys (tm_fields tm))" and fit: "fits_policy tm action"
    and req: "list_all (\<lambda>name. dget fs name \<noteq> VNone) (required_fields tm action)"
  shows "\<exists>r. request_instance (command_spec action) (legacy_arguments fs) = Inr r"
proof (cases "map_of command_request_types action")
  case None
  then show ?thesis by (simp add: request_instance_def command_spec_def)
next
  case (Some cls)
  with fit obtain rf where rf: "request_fields cls = Some rf"
    and mand: "list_all (\<lambda>k. k \<in> set (required_fields tm action)) (mandatory rf)"
    and pins: "cls = ''PinRequest'' \<Longrightarrow> map_of (tm_fields tm) ''pin'' = Some FourDigits"
      "cls = ''SetPinRequest'' \<Longrightarrow> map_of (tm_fields tm) ''password'' = Some FourDigits"
    by (auto simp: fits_policy_def fits_request_def split: option.splits)
  let ?names = "set (keys rf)"
  let ?vs = "filter (\<lambda>(k, v). k \<in> ?names) (legacy_arguments fs)"
  have dfs: "distinct (keys fs)" using fields_converted [OF fs conv] dist by simp
  have no_intent: "''explicit_current_turn_intent'' \<notin> ?names"
    by (rule no_intent_field [OF rf])
  have given: "dget fs k \<noteq> VNone" if "(k, False) \<in> set rf" for k
    using mand req that by (force simp: mandatory_def list_all_iff)
  have known: "list_all (\<lambda>(k, v). k \<in> ?names) ?vs" by (simp add: list_all_iff)
  have all: "list_all (\<lambda>(k, d). d \<or> k \<in> set (keys ?vs)) rf"
  proof -
    have mem: "k \<in> set (keys ?vs)" if k: "(k, False) \<in> set rf" for k
    proof -
      from k have "k \<in> ?names" by force
      moreover from this no_intent have "k \<noteq> ''explicit_current_turn_intent''" by metis
      with legacy_dget(2) [OF dfs] given [OF k] have "k \<in> set (keys (legacy_arguments fs))" by blast
      ultimately show ?thesis by force
    qed
    have "d \<or> k \<in> set (keys ?vs)" if "(k, d) \<in> set rf" for k d
    proof (cases d)
      case False
      with that have "(k, False) \<in> set rf" by simp
      from mem [OF this] show ?thesis ..
    qed simp
    then show ?thesis unfolding list_all_iff by blast
  qed
  have digits: "four_digits (dget (map (\<lambda>(k, d). (k, dget ?vs k)) rf) k) = Inr ()"
    if "map_of (tm_fields tm) k = Some FourDigits" "(k, False) \<in> set rf" for k
  proof -
    from that(2) have k: "k \<in> ?names" by force
    with no_intent have ne: "k \<noteq> ''explicit_current_turn_intent''" by metis
    have "dget (map (\<lambda>(k, d). (k, dget ?vs k)) rf) k = dget fs k"
      using k by (simp add: dget_given dget_filter legacy_dget(1) [OF dfs ne])
    moreover have "has_type FourDigits (dget fs k)"
      by (rule typed_field [OF fs conv dist that(1) ne given [OF that(2)]])
    ultimately show ?thesis by (simp add: four_digits_typed)
  qed
  have "post_init cls (map (\<lambda>(k, d). (k, dget ?vs k)) rf) = Inr ()"
  proof -
    consider (pin) "cls = ''PinRequest''" | (set_pin) "cls = ''SetPinRequest''" | (other) "cls \<noteq> ''PinRequest''" "cls \<noteq> ''SetPinRequest''"
      by blast
    then show ?thesis
    proof cases
      case pin
      with rf pin_classes(1) have "rf = [(''pin'', False)]" by (metis option.inject)
      then have mem: "(''pin'', False) \<in> set rf" by simp
      from digits [OF pins(1) [OF pin] this] show ?thesis by (simp only: post_init_def if_P [OF pin])
    next
      case set_pin
      with rf pin_classes(2) have "rf = [(''on'', False), (''password'', False)]" by (metis option.inject)
      then have mem: "(''password'', False) \<in> set rf" by simp
      have ne: "cls \<noteq> ''PinRequest''" by (simp add: set_pin)
      from digits [OF pins(2) [OF set_pin] mem] show ?thesis by (simp only: post_init_def if_not_P [OF ne] if_P [OF set_pin])
    qed (simp add: post_init_def)
  qed
  with known all rf Some show ?thesis
    by (simp add: request_instance_def command_spec_def make_request_def request_field_names_of_def Let_def)
qed

definition read_specs :: "tool_spec list" where
  "read_specs = filter (\<lambda>s. \<not> ts_write s \<and> ts_risk s = ReadOnly \<and> ts_request_type s = None)
     (map vehicle_read_spec vehicle_reads @ map account_read_spec account_reads @ fixed_specs)"

lemma read_models_are_tools:
  "list_all (\<lambda>tm. list_all (\<lambda>action. ''tesla_'' @ action \<in> set (map ts_name read_specs)) (tm_actions tm))
     [account_read, vehicle_read, charging_record_read]"
  by (simp add: tool_model_defs read_specs_def vehicle_reads_def account_reads_def fixed_specs_def vehicle_read_spec_def
      account_read_spec_def)

lemma read_spec_facts:
  assumes "spec \<in> set read_specs"
  shows "\<not> ts_write spec" and "ts_risk spec = ReadOnly" and "ts_request_type spec = None"
  using assms unfolding read_specs_def by auto

lemma mapped: "x \<in> set (map f xs) \<Longrightarrow> \<exists>y\<in>set xs. f y = x"
  by auto

lemma read_tool:
  assumes "tm \<in> set tool_models" and "tm \<notin> set command_models" and "action \<in> set (tm_actions tm)"
  obtains spec where "mcp_tool (''tesla_'' @ action) = Some spec" "spec \<in> set read_specs"
proof -
  from assms(1,2) have "tm \<in> set [account_read, vehicle_read, charging_record_read]"
    by (auto simp: tool_models_def command_models_def)
  with read_models_are_tools assms(3) have "''tesla_'' @ action \<in> set (map ts_name read_specs)"
    unfolding list_all_iff by blast
  from mapped [OF this] obtain spec where spec: "spec \<in> set read_specs" "ts_name spec = ''tesla_'' @ action" by blast
  have "set read_specs \<subseteq> set mcp_tool_specs" unfolding mcp_tool_specs_def read_specs_def set_sort set_append set_filter by blast
  with spec(1) have "spec \<in> set mcp_tool_specs" by (rule subsetD [rotated])
  then have "(''tesla_'' @ action, spec) \<in> set (map (\<lambda>s. (ts_name s, s)) mcp_tool_specs)" using spec(2) by force
  moreover have "distinct (map fst (map (\<lambda>s. (ts_name s, s)) mcp_tool_specs))"
    using tool_names_distinct by (simp add: comp_def)
  ultimately have "mcp_tool (''tesla_'' @ action) = Some spec" by (simp add: mcp_tool_def)
  with spec(1) that show ?thesis by blast
qed

text \<open>The arguments have their types, an intent among them is \<open>True\<close>.\<close>

lemma legacy_typed:
  assumes "rmap (field_value convert raw) flds = Inr fs" and "converts convert" and "distinct (keys flds)"
  shows "list_all (\<lambda>(k, v). \<exists>ty. (k, ty) \<in> set flds \<and> has_type ty v) (legacy_arguments fs)"
  unfolding list_all_iff
proof (rule ballI, clarify)
  fix k v
  assume kv: "(k, v) \<in> set (legacy_arguments fs)"
  then have mem: "(k, v) \<in> set fs" and v: "v \<noteq> VNone"
    and intent: "k = ''explicit_current_turn_intent'' \<Longrightarrow> truthy (dget fs k)"
    by (auto simp: legacy_arguments_def)
  note fs = fields_converted [OF assms(1,2)]
  then have "map_of fs k = Some v" using mem assms(3) by simp
  with intent have "\<not> (k = ''explicit_current_turn_intent'' \<and> v = VBool False)" by (auto simp: dget_def)
  with fs mem v show "\<exists>ty. (k, ty) \<in> set flds \<and> has_type ty v" by (fastforce simp: list_all_iff)
qed

text \<open>C33: An input that a model accepts names one of its actions, holds besides the action only fields that the model
  declares, and leaves out no field that the action requires; what comes out has exactly the declared fields.  The
  action is an operation of the private policy, its arguments have the types of the model's fields, and the request
  class of the operation is built from them: no field is missing, and a PIN has four digits.\<close>
theorem accepted_inputs_are_well_typed:
  assumes "converts convert" and "tm \<in> set tool_models" and "validate_input convert tm raw = Inr (action, fs)"
  shows "map_of raw ''action'' = Some (VStr action) \<and> action \<in> set (tm_actions tm) \<and>
    set (keys raw) \<subseteq> insert ''action'' (set (keys (tm_fields tm))) \<and> keys fs = keys (tm_fields tm) \<and>
    list_all (\<lambda>name. dget fs name \<noteq> VNone) (required_fields tm action) \<and>
    list_all (\<lambda>(k, v). \<exists>ty. (k, ty) \<in> set (tm_fields tm) \<and> has_type ty v) (legacy_arguments fs) \<and>
    (\<exists>spec r. mcp_tool (''tesla_'' @ action) = Some spec \<and> request_instance spec (legacy_arguments fs) = Inr r)"
proof -
  from assms(3) have act: "action \<in> set (tm_actions tm)" and fs: "rmap (field_value convert raw) (tm_fields tm) = Inr fs"
    and req: "list_all (\<lambda>name. dget fs name \<noteq> VNone) (required_fields tm action)"
    and raw: "map_of raw ''action'' = Some (VStr action)" "set (keys raw) \<subseteq> insert ''action'' (set (keys (tm_fields tm)))"
    by (simp_all add: validate_input_eq_Inr)
  from models_distinct assms(2) have dist: "distinct (keys (tm_fields tm))" by (simp add: list_all_iff)
  note typed = legacy_typed [OF fs assms(1) dist] and named = fields_converted [OF fs assms(1), THEN conjunct1]
  have "\<exists>spec r. mcp_tool (''tesla_'' @ action) = Some spec \<and> request_instance spec (legacy_arguments fs) = Inr r"
  proof (cases "tm \<in> set command_models")
    case True
    with models_are_commands act have "action \<in> set command_names" "action \<notin> set excluded_commands"
      by (simp_all add: list_all_iff)
    then have "mcp_tool (''tesla_'' @ action) = Some (command_spec action)" by (rule mcp_tool_command)
    with accepted_command_builds [OF assms(1) fs dist models_fit_requests [OF True act] req] show ?thesis by blast
  next
    case False
    from read_tool [OF assms(2) this act] obtain spec where "mcp_tool (''tesla_'' @ action) = Some spec" "spec \<in> set read_specs" .
    then show ?thesis by (simp add: request_instance_def read_spec_facts)
  qed
  with raw act named req typed show ?thesis by (intro conjI)
qed

subsection \<open>The annotations\<close>

definition writes :: "string \<Rightarrow> bool" where
  "writes action \<longleftrightarrow> (case mcp_tool (''tesla_'' @ action) of None \<Rightarrow> False | Some spec \<Rightarrow> ts_write spec)"

definition sensitive :: "string \<Rightarrow> bool" where
  "sensitive action \<longleftrightarrow> (case mcp_tool (''tesla_'' @ action) of None \<Rightarrow> False | Some spec \<Rightarrow> ts_risk spec = SecuritySensitive)"

lemma command_policy:
  assumes "tm \<in> set command_models" and "action \<in> set (tm_actions tm)"
  shows "mcp_tool (''tesla_'' @ action) = Some (command_spec action)"
  using models_are_commands assms by (intro mcp_tool_command) (simp_all add: list_all_iff)

lemma command_actions:
  assumes "tm \<in> set command_models" and "action \<in> set (tm_actions tm)"
  shows "writes action" and "sensitive action \<longleftrightarrow> action \<in> set security_sensitive"
  using command_policy [OF assms] by (simp_all add: writes_def sensitive_def command_spec_def)

lemma harmless_models:
  "list_all (\<lambda>tm. list_all (\<lambda>action. action \<notin> set security_sensitive) (tm_actions tm))
     [climate_control, charging_control, media_control, navigation_control]"
  by (simp add: tool_model_defs security_sensitive_def)

lemma read_actions:
  assumes "tm \<in> set tool_models" and "tm \<notin> set command_models" and "action \<in> set (tm_actions tm)"
  shows "\<not> writes action" and "\<not> sensitive action"
proof -
  from read_tool [OF assms] obtain spec where "mcp_tool (''tesla_'' @ action) = Some spec" "spec \<in> set read_specs" .
  then show "\<not> writes action" "\<not> sensitive action" by (simp_all add: writes_def sensitive_def read_spec_facts)
qed

lemma model_kinds:
  "distinct (map tm_class tool_models)"
  by (simp add: tool_models_def tool_model_defs)

lemma reads_are_no_commands:
  "account_read \<notin> set command_models" "vehicle_read \<notin> set command_models" "charging_record_read \<notin> set command_models"
  using model_kinds by (auto simp: tool_models_def command_models_eq)

lemma family_annotations:
  "list_all (\<lambda>(tool, tm, annotations). tm \<in> set tool_models \<and> list_all (\<lambda>action. (ta_read_only annotations \<longleftrightarrow> \<not> writes action) \<and>
     (if sensitive action then ta_destructive annotations else True)) (tm_actions tm)) family_tools"
proof -
  let ?read = "\<lambda>tm. list_all (\<lambda>action. \<not> writes action \<and> \<not> sensitive action) (tm_actions tm)"
  let ?writing = "\<lambda>tm. list_all (\<lambda>action. writes action) (tm_actions tm)"
  let ?harmless = "\<lambda>tm. list_all (\<lambda>action. \<not> sensitive action) (tm_actions tm)"
  have "?read tm" if "tm \<in> set tool_models" "tm \<notin> set command_models" for tm
    using read_actions [OF that] by (simp add: list_all_iff)
  then have reads: "?read account_read" "?read vehicle_read" "?read charging_record_read"
    using reads_are_no_commands by (simp_all add: tool_models_def)
  have "?writing tm" if "tm \<in> set command_models" for tm
    using command_actions(1) [OF that] by (simp add: list_all_iff)
  then have commands: "?writing vehicle_access_control" "?writing climate_control" "?writing charging_control" "?writing media_control"
      "?writing navigation_control" "?writing security_control" "?writing vehicle_settings_control"
    by (simp_all add: command_models_eq)
  have "?harmless tm" if "tm \<in> set [climate_control, charging_control, media_control, navigation_control]" for tm
  proof -
    from that have tm: "tm \<in> set command_models" by (auto simp: command_models_eq)
    from harmless_models that have "list_all (\<lambda>action. action \<notin> set security_sensitive) (tm_actions tm)"
      unfolding list_all_iff [of _ "[climate_control, charging_control, media_control, navigation_control]"] by blast
    with command_actions(2) [OF tm] show ?thesis by (simp add: list_all_iff)
  qed
  then have harmless: "?harmless climate_control" "?harmless charging_control" "?harmless media_control" "?harmless navigation_control"
    by simp_all
  have read: "?read tm \<Longrightarrow> list_all (\<lambda>action. (True \<longleftrightarrow> \<not> writes action) \<and> (if sensitive action then False else True)) (tm_actions tm)"
    and control: "?writing tm \<Longrightarrow> ?harmless tm \<Longrightarrow>
      list_all (\<lambda>action. (False \<longleftrightarrow> \<not> writes action) \<and> (if sensitive action then False else True)) (tm_actions tm)"
    and security: "?writing tm \<Longrightarrow>
      list_all (\<lambda>action. (False \<longleftrightarrow> \<not> writes action) \<and> (if sensitive action then True else True)) (tm_actions tm)" for tm
    by (simp_all add: list_all_iff)
  have models: "account_read \<in> set tool_models" "vehicle_read \<in> set tool_models" "charging_record_read \<in> set tool_models"
      "vehicle_access_control \<in> set tool_models" "climate_control \<in> set tool_models" "charging_control \<in> set tool_models"
      "media_control \<in> set tool_models" "navigation_control \<in> set tool_models" "security_control \<in> set tool_models"
      "vehicle_settings_control \<in> set tool_models"
    by (simp_all add: tool_models_def)
  show ?thesis
    unfolding family_tools_def list.pred_inject prod.case
    by (simp only: read_only_annotations_def control_annotations_def security_control_annotations_def tool_annotations.simps,
        intro conjI TrueI list.pred_inject(1) models read control security reads commands harmless)
qed

text \<open>The operations that a tool calls.\<close>

definition tool_actions :: "string \<Rightarrow> string list" where
  "tool_actions tool = (case map_of family_tools tool of
     Some (tm, annotations) \<Rightarrow> tm_actions tm | None \<Rightarrow> if tool = ''wake_vehicle'' then [''wake_up''] else [])"

lemma wake_up_writes: "writes ''wake_up''" "\<not> sensitive ''wake_up''"
proof -
  have "list_ex (\<lambda>s. ts_name s = ''tesla_wake_up'' \<and> ts_write s \<and> ts_risk s \<noteq> SecuritySensitive) fixed_specs"
    by (simp add: fixed_specs_def)
  then obtain spec where s: "spec \<in> set fixed_specs" and n: "ts_name spec = ''tesla_wake_up''"
    and w: "ts_write spec" "ts_risk spec \<noteq> SecuritySensitive"
    unfolding list_ex_iff by blast
  have "set fixed_specs \<subseteq> set mcp_tool_specs" unfolding mcp_tool_specs_def set_sort set_append by blast
  with s have "spec \<in> set mcp_tool_specs" by (rule subsetD [rotated])
  then have "(''tesla_wake_up'', spec) \<in> set (map (\<lambda>s. (ts_name s, s)) mcp_tool_specs)" using n by force
  moreover have "distinct (map fst (map (\<lambda>s. (ts_name s, s)) mcp_tool_specs))"
    using tool_names_distinct by (simp add: comp_def)
  ultimately have "mcp_tool ''tesla_wake_up'' = Some spec" by (simp add: mcp_tool_def)
  with w show "writes ''wake_up''" "\<not> sensitive ''wake_up''" by (simp_all add: writes_def sensitive_def)
qed

lemma call_tool_reads:
  assumes "others_keep_audits env" and "mcp_tool name = Some spec" and "\<not> ts_write spec"
  shows "gw.stays is_read (call_tool fuel env user spec arguments correlation)"
proof -
  from writes_are_the_effects [OF assms(2)] assms(3) have e: "\<not> is_command spec" "ts_client_method spec \<noteq> ''wake_up''"
    by (simp_all add: has_effect_def)
  have still: "gw.stays is_read m" if "still.stays m" for m :: "'a gateway"
    using that by (simp add: gw.stays_def still.stays_def gateway_rel_def audits_kept_refl)
  have pick: "gw.stays is_read (case missing_scope spec vals scopes of Some m \<Rightarrow> oraise (f m) | None \<Rightarrow> g)"
    if "gw.stays is_read g" for vals scopes and f :: "string \<Rightarrow> exn" and g :: "dict gateway"
    using that by (cases "missing_scope spec vals scopes") (simp_all add: gw.stays_pure)
  show ?thesis
    unfolding call_tool_def Let_def run_chosen_def if_not_P [OF assms(3)]
    by (intro gw.stays_rules pick gw_on_db reading_audits still [OF resolve_still] still [OF choose_still]
        run_operation_reads assms(1) e)
qed

lemma mcp_call_reads:
  assumes "others_keep_audits env" and "\<And>spec. mcp_tool name = Some spec \<Longrightarrow> name \<notin> set analytics_operations \<Longrightarrow> \<not> ts_write spec"
  shows "gw.stays is_read (mcp_call fuel env ctx name (VDict vals))"
proof -
  have "gw.stays is_read (if name \<in> set analytics_operations then olift (run_analytics env ctx name vals c)
      else case mcp_tool name of None \<Rightarrow> oraise e | Some spec \<Rightarrow> call_tool fuel env (ctx_user_id ctx) spec vals c)" for c e
  proof (cases "name \<in> set analytics_operations")
    case False
    with call_tool_reads [OF assms(1)] assms(2) show ?thesis
      by (cases "mcp_tool name") (auto simp: gw.stays_pure)
  qed (simp add: gw.stays_pure)
  then show ?thesis unfolding mcp_call_def Let_def val.case
    by (intro gw.stays_obind gw.stays_ocatch gw.stays_pure gw_small)
qed

lemma server_call_reads:
  assumes "others_keep_audits env" and "\<And>spec. mcp_tool name = Some spec \<Longrightarrow> name \<notin> set analytics_operations \<Longrightarrow> \<not> ts_write spec"
  shows "gateway_rel is_read w (snd (server_call fuel env user name arguments w))"
proof (cases user)
  case (Inr ctx)
  have "gw.stays is_read (mcp_call fuel env ctx name (VDict arguments))" by (rule mcp_call_reads [OF assms])
  from gw.staysD [OF this, of w] Inr show ?thesis by (auto simp: server_call_def split: prod.splits sum.splits)
qed (simp add: server_call_def gw.rel_refl)

text \<open>What was sent meanwhile is only reads.\<close>

definition only_reads :: "gateway_world \<Rightarrow> gateway_world \<Rightarrow> bool" where
  "only_reads w w' \<longleftrightarrow> (\<exists>new. w_events w' = w_events w @ new \<and> (\<forall>q. Sent q \<in> set new \<longrightarrow> is_read q))"

lemma only_readsI: "gateway_rel is_read w w' \<Longrightarrow> only_reads w w'"
  unfolding gateway_rel_def only_reads_def by (force simp: list_all_iff)

lemma with_input_frame:
  "gateway_rel P w w \<Longrightarrow> (\<And>x. input = Inr x \<Longrightarrow> gateway_rel P w (snd (f x w))) \<Longrightarrow> gateway_rel P w (snd (with_input input f w))"
  by (cases input) (simp_all add: with_input_def)

lemma not_writing: "\<not> writes action \<Longrightarrow> mcp_tool (''tesla_'' @ action) = Some spec \<Longrightarrow> \<not> ts_write spec"
  by (simp add: writes_def)

lemma family_reads:
  assumes "others_keep_audits env" and "list_all (\<lambda>action. \<not> writes action) (tm_actions tm)"
  shows "gateway_rel is_read w (snd (call_family fuel env convert user tm raw w))"
  unfolding call_family_def
proof (rule with_input_frame [OF gw.rel_refl])
  fix x
  assume v: "validate_input convert tm raw = Inr x"
  obtain action fs where x: "x = (action, fs)" by fastforce
  with v have "\<not> writes action" using assms(2) by (auto simp: validate_input_eq_Inr list_all_iff)
  then have "gateway_rel is_read w (snd (server_call fuel env user (''tesla_'' @ action) (legacy_arguments fs) w))"
    by (intro server_call_reads [OF assms(1)]) (auto dest: not_writing)
  then show "gateway_rel is_read w (snd ((case x of (action, fs) \<Rightarrow>
      server_call fuel env user (''tesla_'' @ action) (legacy_arguments fs)) w))"
    by (simp add: x)
qed

lemma analytics_calls_read:
  "others_keep_audits env \<Longrightarrow> name \<in> set analytics_operations \<Longrightarrow>
     gateway_rel is_read w (snd (server_call fuel env user name arguments w))"
  by (rule server_call_reads) simp_all

lemma announced_cases:
  assumes "map_of announced_tools tool = Some annotations"
  obtains (family) tm where "map_of family_tools tool = Some (tm, annotations)" "(tool, tm, annotations) \<in> set family_tools"
  | (wake) "tool = ''wake_vehicle''" "annotations = control_annotations" "map_of family_tools tool = None"
  | (analytics) "tool \<in> set analytics_operations" "annotations = read_only_annotations" "map_of family_tools tool = None"
proof (cases "map_of family_tools tool")
  case None
  have "map_of (map (\<lambda>(tool, tm, annotations). (tool, annotations)) ts) tool = None" if "map_of ts tool = None"
    for ts :: "(string \<times> tool_model \<times> tool_annotations) list"
    using that by (induction ts) (auto split: if_splits)
  from this [OF None] assms None wake analytics show thesis
    by (auto simp: announced_tools_def map_add_def analytics_operations_def split: if_splits)
next
  case (Some x)
  obtain tm a where x: "x = (tm, a)" by fastforce
  have "map_of (map (\<lambda>(tool, tm, annotations). (tool, annotations)) ts) tool = Some a" if "map_of ts tool = Some (tm, a)"
    for ts :: "(string \<times> tool_model \<times> tool_annotations) list"
    using that by (induction ts) (auto split: if_splits)
  from this Some x assms have "annotations = a" by (simp add: announced_tools_def map_add_def)
  with Some x map_of_SomeD [OF Some] family show thesis by simp
qed

text \<open>C34: The annotations tell the client the truth, for every tool of the server.  A call of a tool that is announced
  as read-only sends to the Fleet API nothing but reads, whatever its input, its user and the answers; a tool that is
  not has only operations that write.  A tool with a security-sensitive operation is announced as destructive.\<close>
theorem annotations_tell_the_truth:
  assumes "others_keep_audits env" and "map_of announced_tools tool = Some annotations"
  shows "(if ta_read_only annotations then only_reads w (snd (server_tool fuel env convert user tool raw w))
      else list_all writes (tool_actions tool)) \<and>
    (ta_destructive annotations \<or> list_all (\<lambda>action. \<not> sensitive action) (tool_actions tool))"
  using assms(2)
proof (cases rule: announced_cases)
  case (family tm)
  from family_annotations family(2) have f: "list_all (\<lambda>action. (ta_read_only annotations \<longleftrightarrow> \<not> writes action) \<and>
      (if sensitive action then ta_destructive annotations else True)) (tm_actions tm)"
    by (auto simp: list_all_iff)
  have run: "server_tool fuel env convert user tool raw = call_family fuel env convert user tm raw"
    by (simp add: server_tool_def family(1))
  have "only_reads w (snd (server_tool fuel env convert user tool raw w))" if "ta_read_only annotations"
    unfolding run by (intro only_readsI family_reads assms(1)) (use f that in \<open>auto simp: list_all_iff\<close>)
  with f show ?thesis by (auto simp: tool_actions_def family(1) list_all_iff split: if_splits)
next
  case wake
  then show ?thesis by (simp add: tool_actions_def control_annotations_def wake_up_writes)
next
  case analytics
  have "gateway_rel is_read w (snd (server_tool fuel env convert user tool raw w))"
    using analytics by (auto simp: server_tool_def analytics_operations_def split del: if_split
        intro!: with_input_frame analytics_calls_read gw.rel_refl assms(1))
  then show ?thesis using analytics only_readsI
    by (auto simp: tool_actions_def read_only_annotations_def analytics_operations_def)
qed

subsection \<open>The user of a call\<close>

text \<open>C35: A verified token stands for one user: the server accepts it exactly when the gateway's authorization accepts
  the bearer token, refuses it when that raises an authentication error, and a call with it runs as the user the
  authorization returned.\<close>
theorem calls_run_as_the_verified_user:
  "case verify_token authorize token s of (result, s') \<Rightarrow>
     (case authorize (Some (''Bearer '' @ token)) (VDict []) s of
        (Inr context, t) \<Rightarrow> s' = t \<and> (\<exists>verified. result = Inr (Some verified) \<and> current_user None (Some verified) = Inr context)
      | (Inl e, t) \<Rightarrow> s' = t \<and> result = (if is_authentication_error e then Inr None else Inl e))"
  by (auto simp: verify_token_def ocatch_def obind_def oper_simps current_user_def claim_def split: prod.split sum.split)

subsection \<open>The intent\<close>

lemma vehicle_is_text: "list_all (\<lambda>tm. map_of (tm_fields tm) ''vehicle_id'' = Some AnyText) command_models"
  by (simp add: command_models_eq tool_model_defs)

lemma command_mcp_call:
  assumes "tm \<in> set command_models" and "action \<in> set (tm_actions tm)"
  shows "mcp_call fuel env ctx (''tesla_'' @ action) (VDict vals) w =
    ocatch (call_tool fuel env (ctx_user_id ctx) (command_spec action) vals (''corr_'' @ me_token env (w_draws w)))
      (\<lambda>e. oraise (with_correlation (''corr_'' @ me_token env (w_draws w)) e)) (w\<lparr>w_draws := w_draws w + 1\<rparr>)"
  by (rule mcp_call_tool [OF command_policy [OF assms]])

lemma unconfirmed_is_refused:
  assumes "action \<in> set security_sensitive" and "dget vals ''explicit_current_turn_intent'' \<noteq> VBool True"
  shows "call_tool fuel env user (command_spec action) vals correlation w =
    (Inl (MCPToolError ''explicit_intent_required''
       ''This security-sensitive operation requires unambiguous current-turn intent'' None), w)"
  using assms by (simp add: call_tool_def command_spec_def oper_simps mcp_error_def)

lemma confirmed_harmless_is_refused:
  assumes "action \<notin> set security_sensitive" and intent: "(''explicit_current_turn_intent'', v) \<in> set vals"
    and vehicle: "dget vals ''vehicle_id'' = VNone \<or> is_str (dget vals ''vehicle_id'')"
  shows "call_tool fuel env user (command_spec action) vals correlation w =
    (Inl (MCPToolError ''invalid_arguments'' ''Tool arguments do not match the typed request'' None), w)"
proof -
  have spec: "ts_vehicle_scoped (command_spec action)" "ts_extra_schema (command_spec action) = None"
      "ts_risk (command_spec action) = NormalRisk"
    using assms(1) by (simp_all add: command_spec_def)
  have names: "''explicit_current_turn_intent'' \<notin> set (request_field_names_of (command_spec action))"
  proof (cases "Option.bind (ts_request_type (command_spec action)) request_fields")
    case None
    then show ?thesis by (simp add: request_field_names_of_def)
  next
    case (Some rf)
    then obtain cls where "request_fields cls = Some rf" by (auto simp: bind_eq_Some_conv)
    from no_intent_field [OF this] show ?thesis by (simp only: request_field_names_of_def Some option.case not_False_eq_True)
  qed
  have "\<not> list_all (\<lambda>(k, v). k \<in> set ([''vehicle_id''] @ request_field_names_of (command_spec action) @ [] @ [])) vals"
    using names intent by (force simp: list_all_iff)
  then have "validate_arguments (me_typed env) (command_spec action) vals = Inl mismatch"
    using vehicle spec by (auto simp: validate_arguments_def Let_def split: option.splits)
  with assms(1) show ?thesis
    by (simp add: call_tool_def command_spec_def obind_def oper_simps mismatch_def invalid_arguments_def)
qed

lemma accepted_vehicle_is_text:
  assumes conv: "converts convert" and tm: "tm \<in> set command_models" and dist: "distinct (keys (tm_fields tm))"
    and fs: "rmap (field_value convert raw) (tm_fields tm) = Inr fs"
  shows "dget (legacy_arguments fs) ''vehicle_id'' = VNone \<or> is_str (dget (legacy_arguments fs) ''vehicle_id'')"
proof -
  have dfs: "distinct (keys fs)" using fields_converted [OF fs conv] dist by simp
  show ?thesis
  proof (cases "dget fs ''vehicle_id'' = VNone")
    case False
    from vehicle_is_text tm have "map_of (tm_fields tm) ''vehicle_id'' = Some AnyText" by (simp add: list_all_iff)
    from typed_field [OF fs conv dist this _ False] show ?thesis by (simp add: legacy_dget(1) [OF dfs] has_type_def)
  qed (simp add: legacy_dget(1) [OF dfs])
qed

lemma reads_take_no_intent:
  assumes "converts convert" and "tm \<in> set tool_models" and "tm \<notin> set command_models"
    and "distinct (keys (tm_fields tm))" and "rmap (field_value convert raw) (tm_fields tm) = Inr fs"
  shows "(''explicit_current_turn_intent'', VBool True) \<notin> set (legacy_arguments fs)"
proof
  assume "(''explicit_current_turn_intent'', VBool True) \<in> set (legacy_arguments fs)"
  with legacy_typed [OF assms(5,1,4)]
  have "\<exists>ty. (''explicit_current_turn_intent'', ty) \<in> set (tm_fields tm) \<and> has_type ty (VBool True)"
    by (auto simp: list_all_iff)
  moreover have "tm \<in> {account_read, vehicle_read, charging_record_read}"
    using assms(2,3) by (auto simp: tool_models_def command_models_eq)
  ultimately show False by (auto simp: tool_model_defs has_type_def)
qed

text \<open>C36: The intent has to match the action: an accepted input is refused with its correlation identifier, before the
  database or Tesla are touched, when a security-sensitive action is not confirmed, and also when an action that
  is not security-sensitive is confirmed.\<close>
theorem the_intent_must_match_the_action:
  assumes conv: "converts convert" and tm: "tm \<in> set tool_models" and inp: "validate_input convert tm raw = Inr (action, fs)"
    and intent: "dget fs ''explicit_current_turn_intent'' = VBool confirmed" and ne: "confirmed \<noteq> sensitive action"
  shows "call_family fuel env convert (Inr ctx) tm raw w =
    (Inl (ToolError ((if confirmed then ''invalid_arguments: Tool arguments do not match the typed request''
       else ''explicit_intent_required: This security-sensitive operation requires unambiguous current-turn intent'')
      @ ''; correlation_id=corr_'' @ me_token env (w_draws w))), w\<lparr>w_draws := w_draws w + 1\<rparr>)"
proof -
  from inp have act: "action \<in> set (tm_actions tm)" and fs: "rmap (field_value convert raw) (tm_fields tm) = Inr fs"
    by (simp_all add: validate_input_eq_Inr)
  from models_distinct tm have dist: "distinct (keys (tm_fields tm))" by (simp add: list_all_iff)
  have kept: "(''explicit_current_turn_intent'', VBool True) \<in> set (legacy_arguments fs) \<longleftrightarrow> confirmed"
    using intent by (auto simp: legacy_arguments_def dget_def split: option.splits dest: map_of_SomeD)
  show ?thesis
  proof (cases "tm \<in> set command_models")
    case True
    note sens = command_actions(2) [OF True act] and call = command_mcp_call [OF True act]
    show ?thesis
    proof (cases confirmed)
      case True
      with ne sens have "action \<notin> set security_sensitive" by simp
      with accepted_vehicle_is_text [OF conv \<open>tm \<in> set command_models\<close> dist fs] have "call_tool fuel env (ctx_user_id ctx) (command_spec action) (legacy_arguments fs) c u =
          (Inl (MCPToolError ''invalid_arguments'' ''Tool arguments do not match the typed request'' None), u)" for c u
        using kept True by (intro confirmed_harmless_is_refused) auto
      with True inp call show ?thesis
        by (simp add: call_family_def with_input_def server_call_def tool_failure_of_def correlation_suffix_def ocatch_def
            oper_simps with_correlation_def)
    next
      case False
      with ne sens have "action \<in> set security_sensitive" by simp
      moreover have "dget (legacy_arguments fs) ''explicit_current_turn_intent'' \<noteq> VBool True"
        using kept False by (auto simp: dget_def split: option.splits dest: map_of_SomeD)
      ultimately have "call_tool fuel env (ctx_user_id ctx) (command_spec action) (legacy_arguments fs) c u =
          (Inl (MCPToolError ''explicit_intent_required''
            ''This security-sensitive operation requires unambiguous current-turn intent'' None), u)" for c u
        by (rule unconfirmed_is_refused)
      with False inp call show ?thesis
        by (simp add: call_family_def with_input_def server_call_def tool_failure_of_def correlation_suffix_def ocatch_def
            oper_simps with_correlation_def)
    qed
  next
    case False
    with read_actions(2) [OF tm False act] ne kept reads_take_no_intent [OF conv tm False dist fs] show ?thesis by simp
  qed
qed

subsection \<open>Examples\<close>

definition demo_convert :: "input_type \<Rightarrow> val \<Rightarrow> val option" where
  "demo_convert ty v = (if has_type ty v then Some v else None)"

lemma demo_converts: "converts demo_convert"
  by (simp add: converts_def demo_convert_def)

definition demo_pin_input :: dict where
  "demo_pin_input = [(''action'', VStr ''set_pin_to_drive''), (''on'', VBool True), (''password'', VStr ''1234'')]"

definition demo_pin_fields :: dict where
  "demo_pin_fields = [(''vehicle_id'', VNone), (''explicit_current_turn_intent'', VBool False), (''pin'', VNone),
     (''password'', VStr ''1234''), (''on'', VBool True), (''setting'', VNone), (''enable'', VNone), (''limit_mph'', VNone)]"

lemma demo_pin_accepted: "validate_input demo_convert security_control demo_pin_input = Inr (''set_pin_to_drive'', demo_pin_fields)"
  by (simp add: validate_input_def demo_pin_input_def demo_pin_fields_def tool_model_defs field_value_def demo_convert_def
      has_type_def field_default_def validate_action_fields_def required_fields_def dget_def is_decimal_def)

lemma security_is_a_model: "security_control \<in> set tool_models"
  by (simp add: tool_models_def)

theorem accepted_inputs_are_well_typed_witness:
  "keys demo_pin_fields = keys (tm_fields security_control) \<and>
   (\<exists>spec r. mcp_tool ''tesla_set_pin_to_drive'' = Some spec \<and> request_instance spec (legacy_arguments demo_pin_fields) = Inr r)"
  using accepted_inputs_are_well_typed [OF demo_converts security_is_a_model demo_pin_accepted] by auto

theorem annotations_tell_the_truth_witness:
  "only_reads gateway_start (snd (server_tool 1 gateway_env demo_convert (Inr gateway_user) ''get_tesla_account''
     [(''action'', VStr ''me'')] gateway_start))"
proof -
  have k: "others_keep_audits gateway_env" by (simp add: gateway_env_def others_keep_audits_def audits_kept_refl)
  have a: "map_of announced_tools ''get_tesla_account'' = Some read_only_annotations"
    by (simp add: announced_tools_def family_tools_def)
  from annotations_tell_the_truth [OF k a] show ?thesis by (simp add: read_only_annotations_def)
qed

theorem the_intent_must_match_the_action_witness:
  "call_family 1 gateway_env demo_convert (Inr gateway_user) security_control demo_pin_input gateway_start =
     (Inl (ToolError ''explicit_intent_required: This security-sensitive operation requires unambiguous current-turn intent; correlation_id=corr_0''),
      gateway_start\<lparr>w_draws := 1\<rparr>)"
proof -
  have "sensitive ''set_pin_to_drive''"
    using command_actions(2) [of security_control "''set_pin_to_drive''"]
    by (simp add: command_models_eq tool_model_defs security_sensitive_def)
  moreover have "str_of_nat 0 = ''0''" by code_simp
  then have "me_token gateway_env (w_draws gateway_start) = ''0''" "w_draws gateway_start + 1 = 1"
    by (simp_all add: gateway_env_def gateway_start_def str_of_int_def)
  moreover have "dget demo_pin_fields ''explicit_current_turn_intent'' = VBool False"
    by (simp add: demo_pin_fields_def dget_def)
  ultimately show ?thesis
    using the_intent_must_match_the_action [OF demo_converts security_is_a_model demo_pin_accepted, of False 1 gateway_env gateway_user gateway_start]
    by simp
qed

end
