(* ===== verification/Partner.thy ===== *)
theory Partner
  imports OAuthClient FleetClient StateFrame
begin

text \<open>
  \<open>tesla_client/partner.py\<close>: the registration of the application with Tesla, region by region, and the check of the
  key that Tesla then shows.  Reading keys is the cryptography library's: \<open>pem_point\<close> is the uncompressed point of
  a PEM text (\<^const>\<open>None\<close> for a key of another kind), \<open>encoded_point\<close> the point that an encoded point stands for.
\<close>

subsection \<open>Domains and keys\<close>

definition tesla_configuration_error :: "string \<Rightarrow> exn" where
  "tesla_configuration_error m = TeslaError TeslaConfiguration m ''unspecified'' None None"

definition is_ascii :: "char \<Rightarrow> bool" where "is_ascii c = ((of_char c :: nat) < 128)"

definition domain_label :: "string \<Rightarrow> bool" where
  "domain_label label = (label \<noteq> [] \<and> length label \<le> 63 \<and> \<not> starts_with ''-'' label \<and> \<not> ends_with ''-'' label \<and>
     list_all is_ascii label \<and> list_all (\<lambda>c. is_alnum c \<or> c = CHR ''-'') label)"

definition normalize_domain :: "string \<Rightarrow> exn + string" where
  "normalize_domain value' =
     (let domain = rstrip_by (\<lambda>c. c = CHR ''/'') (lower (strip value')); labels = split_at (CHR ''.'') domain
      in if 253 < length domain \<or> length labels < 2 \<or> \<not> list_all domain_label labels
         then Inl (tesla_configuration_error ''Tesla application domain must be a bare hostname'')
         else Inr domain)"

text \<open>\<open>bytes.fromhex\<close> skips ASCII white space between two bytes.\<close>

definition ascii_space :: "char \<Rightarrow> bool" where
  "ascii_space c = (let n = of_char c :: nat in n = 32 \<or> 9 \<le> n \<and> n \<le> 13)"

fun bytes_fromhex :: "string \<Rightarrow> string option" where
  "bytes_fromhex [] = Some []"
| "bytes_fromhex [c] = (if ascii_space c then Some [] else None)"
| "bytes_fromhex (c # d # cs) =
     (if ascii_space c then bytes_fromhex (d # cs)
      else if hex_digit c \<and> hex_digit d then map_option ((#) (char_of (16 * hex_val c + hex_val d))) (bytes_fromhex cs)
      else None)"

record key_lib =
  kl_pem_point :: "string \<Rightarrow> exn + string option"
  kl_encoded_point :: "string \<Rightarrow> exn + string"

text \<open>The exceptions that become a configuration error.\<close>

fun is_key_failure :: "exn \<Rightarrow> bool" where
  "is_key_failure (ValueError m) = True"
| "is_key_failure (LibraryError m) = (m = ''UnsupportedAlgorithm'' \<or> m = ''UnicodeEncodeError'')"
| "is_key_failure _ = False"

definition read_point :: "key_lib \<Rightarrow> string \<Rightarrow> exn + string" where
  "read_point kl encoded =
     (if starts_with ''-----BEGIN PUBLIC KEY-----'' encoded
      then if \<not> list_all is_ascii encoded then Inl (LibraryError ''UnicodeEncodeError'')
           else rbind (kl_pem_point kl encoded) (\<lambda>p. case p of
               None \<Rightarrow> Inl (tesla_configuration_error ''Expected a secp256r1 public key'') | Some point \<Rightarrow> Inr point)
      else (case bytes_fromhex encoded of
          None \<Rightarrow> Inl (ValueError ''non-hexadecimal number found in fromhex() arg'')
        | Some point \<Rightarrow>
            if length point \<noteq> 65 \<or> hd point \<noteq> CHR 0x04
            then Inl (tesla_configuration_error ''Expected an uncompressed secp256r1 public key'')
            else kl_encoded_point kl point))"

definition public_key_point :: "key_lib \<Rightarrow> string \<Rightarrow> exn + string" where
  "public_key_point kl value' = (case read_point kl (strip value') of
       Inr point \<Rightarrow> Inr point
     | Inl e \<Rightarrow> Inl (if is_key_failure e
         then tesla_configuration_error ''Expected a secp256r1 public key in PEM or uncompressed-point hex'' else e))"

subsection \<open>Answers\<close>

definition json_mapping :: "net_env \<Rightarrow> http_response \<Rightarrow> string \<Rightarrow> exn + dict" where
  "json_mapping env r operation =
     (if hr_status r < 200 \<or> hr_status r \<ge> 300
      then Inl (tesla_api_error (operation @ '' failed with status '' @ str_of_int (hr_status r)) ''unspecified'')
      else (case ne_json env (hr_body r) of
          None \<Rightarrow> Inl (tesla_api_error (operation @ '' returned invalid JSON'') ''unspecified'')
        | Some (VDict d) \<Rightarrow> Inr d
        | Some v \<Rightarrow> Inl (tesla_api_error (operation @ '' returned an invalid document'') ''unspecified'')))"

fun safe_value :: "val \<Rightarrow> exn + val" and safe_items :: "val list \<Rightarrow> exn + val list" where
  "safe_value v = (case v of
       VList xs \<Rightarrow> rbind (safe_items xs) (\<lambda>ys. Inr (VList ys))
     | _ \<Rightarrow> if v = VNone \<or> is_str v \<or> is_number v then Inr v
            else Inl (invalid_payload ''Tesla partner response payload is invalid''))"
| "safe_items [] = Inr []"
| "safe_items (x # xs) =
     rbind (case x of VDict d \<Rightarrow> Inr (VDict (json_object d)) | _ \<Rightarrow> safe_value x) (\<lambda>y.
     rbind (safe_items xs) (\<lambda>ys. Inr (y # ys)))"

declare safe_value.simps [simp del]

definition value_response :: "val \<Rightarrow> exn + val" where
  "value_response v = (case v of VDict d \<Rightarrow> Inr (VDict (json_object d)) | _ \<Rightarrow> safe_value v)"

subsection \<open>The partner endpoints\<close>

record partner_registration =
  pg_base_url :: string
  pg_status :: string

type_synonym ('w, 'a) partner_call = "('w net_scheme, exn, 'a) oper"

definition partner_register ::
  "net_env \<Rightarrow> transport \<Rightarrow> string \<Rightarrow> string \<Rightarrow> string \<Rightarrow> bool \<Rightarrow> ('w, partner_registration) partner_call" where
  "partner_register env tr token base_url domain allow_existing =
     obind (olift (normalize_base_url base_url)) (\<lambda>base.
     obind (olift (normalize_domain domain)) (\<lambda>dom.
     obind (transport_request env tr ''POST'' (base @ ''/api/1/partner_accounts'') (auth_headers token) None
       (Some (VDict [(''domain'', VStr dom)]))) (\<lambda>r.
     if allow_existing \<and> hr_status r = 409 then oret \<lparr>pg_base_url = base, pg_status = ''already_registered''\<rparr>
     else obind (olift (json_mapping env r ''Tesla partner registration'')) (\<lambda>_.
       oret \<lparr>pg_base_url = base, pg_status = ''registered''\<rparr>))))"

definition public_key_url :: "string \<Rightarrow> string \<Rightarrow> string" where
  "public_key_url base domain = base @ ''/api/1/partner_accounts/public_key?'' @ urlencode [(''domain'', domain)]"

definition partner_public_key :: "net_env \<Rightarrow> transport \<Rightarrow> string \<Rightarrow> string \<Rightarrow> string \<Rightarrow> ('w, val) partner_call" where
  "partner_public_key env tr token base_url domain =
     obind (olift (normalize_base_url base_url)) (\<lambda>base.
     obind (olift (normalize_domain domain)) (\<lambda>dom.
     obind (transport_request env tr ''GET'' (public_key_url base dom) (auth_headers token) None None) (\<lambda>r.
     olift (rbind (json_mapping env r ''Tesla public-key verification'') (\<lambda>d.
       value_response (dget_default d ''response'' (VDict d)))))))"

definition partner_get_value :: "net_env \<Rightarrow> transport \<Rightarrow> string \<Rightarrow> string \<Rightarrow> string \<Rightarrow> ('w, val) partner_call" where
  "partner_get_value env tr token base_url name =
     obind (olift (normalize_base_url base_url)) (\<lambda>base.
     obind (transport_request env tr ''GET'' (base @ ''/api/1/partner_accounts/'' @ name) (auth_headers token) None None) (\<lambda>r.
     olift (rbind (json_mapping env r ''Tesla partner diagnostic'') (\<lambda>d. value_response (dget d ''response'')))))"

definition partner_fleet_telemetry_errors :: "net_env \<Rightarrow> transport \<Rightarrow> string \<Rightarrow> string \<Rightarrow> ('w, val) partner_call" where
  "partner_fleet_telemetry_errors env tr token base_url = partner_get_value env tr token base_url ''fleet_telemetry_errors''"

definition partner_fleet_telemetry_error_vins :: "net_env \<Rightarrow> transport \<Rightarrow> string \<Rightarrow> string \<Rightarrow> ('w, val) partner_call" where
  "partner_fleet_telemetry_error_vins env tr token base_url = partner_get_value env tr token base_url ''fleet_telemetry_error_vins''"

subsection \<open>The registrar\<close>

definition partner_token :: "net_env \<Rightarrow> transport \<Rightarrow> string \<Rightarrow> string \<Rightarrow> string \<Rightarrow> ('w, string) partner_call" where
  "partner_token env tr client_id client_secret audience =
     obind (transport_request env tr ''POST'' tesla_token_url []
       (Some [(''grant_type'', ''client_credentials''), (''client_id'', client_id), (''client_secret'', client_secret),
         (''audience'', audience), (''scope'', ''openid vehicle_device_data vehicle_cmds vehicle_charging_cmds'')]) None) (\<lambda>r.
     olift (rbind (json_mapping env r ''Tesla partner token'') (\<lambda>d. case dget d ''access_token'' of
         VStr s \<Rightarrow> if s = [] then Inl (tesla_api_error ''Tesla partner token response is missing access_token'' ''unspecified'')
           else Inr s
       | _ \<Rightarrow> Inl (tesla_api_error ''Tesla partner token response is missing access_token'' ''unspecified''))))"

text \<open>The key in the answer of Tesla; \<^const>\<open>None\<close> where it knows none.\<close>

definition key_of_answer :: "net_env \<Rightarrow> http_response \<Rightarrow> exn + string option" where
  "key_of_answer env r =
     (if hr_status r = 404 then Inr None
      else rbind (json_mapping env r ''Tesla public-key verification'') (\<lambda>d.
        case dget_default d ''response'' (VDict d) of
          VStr s \<Rightarrow> Inr (Some s)
        | VDict payload \<Rightarrow> (case dget payload ''public_key'' of VStr s \<Rightarrow> Inr (Some s)
            | _ \<Rightarrow> Inl (tesla_api_error ''Tesla public-key verification response is invalid'' ''unspecified''))
        | _ \<Rightarrow> Inl (tesla_api_error ''Tesla public-key verification response is invalid'' ''unspecified'')))"

definition registered_key :: "net_env \<Rightarrow> transport \<Rightarrow> string \<Rightarrow> string \<Rightarrow> string \<Rightarrow> ('w, string option) partner_call" where
  "registered_key env tr token base domain =
     obind (transport_request env tr ''GET'' (public_key_url base domain) (auth_headers token) None None) (\<lambda>r.
     olift (key_of_answer env r))"

definition check_registered_key :: "key_lib \<Rightarrow> string \<Rightarrow> string \<Rightarrow> string option \<Rightarrow> exn + unit" where
  "check_registered_key kl expected_key base verified = (case verified of
       None \<Rightarrow> Inl (tesla_configuration_error (''Tesla did not verify the expected public key for '' @ base))
     | Some key \<Rightarrow> rbind (public_key_point kl key) (\<lambda>point.
         if point \<noteq> expected_key
         then Inl (tesla_configuration_error (''Tesla did not verify the expected public key for '' @ base)) else Inr ()))"

definition register_region ::
  "net_env \<Rightarrow> transport \<Rightarrow> key_lib \<Rightarrow> string \<Rightarrow> string \<Rightarrow> string \<Rightarrow> string \<Rightarrow> string \<Rightarrow> ('w, partner_registration) partner_call" where
  "register_region env tr kl client_id client_secret domain expected_key value' =
     obind (olift (normalize_base_url value')) (\<lambda>base.
     obind (partner_token env tr client_id client_secret base) (\<lambda>token.
     obind (partner_register env tr token base domain True) (\<lambda>registration.
     obind (registered_key env tr token base domain) (\<lambda>verified.
     obind (olift (check_registered_key kl expected_key base verified)) (\<lambda>_. oret registration)))))"

fun register_regions ::
  "net_env \<Rightarrow> transport \<Rightarrow> key_lib \<Rightarrow> string \<Rightarrow> string \<Rightarrow> string \<Rightarrow> string \<Rightarrow> string list \<Rightarrow>
   ('w, partner_registration list) partner_call" where
  "register_regions env tr kl client_id client_secret domain expected_key [] = oret []"
| "register_regions env tr kl client_id client_secret domain expected_key (value' # values') =
     obind (register_region env tr kl client_id client_secret domain expected_key value') (\<lambda>registration.
     obind (register_regions env tr kl client_id client_secret domain expected_key values') (\<lambda>results.
     oret (registration # results)))"

definition ensure_registered ::
  "net_env \<Rightarrow> transport \<Rightarrow> key_lib \<Rightarrow> string \<Rightarrow> string \<Rightarrow> string \<Rightarrow> string \<Rightarrow> string list \<Rightarrow>
   ('w, partner_registration list) partner_call" where
  "ensure_registered env tr kl client_id client_secret domain expected_public_key_pem base_urls =
     (if strip client_id = [] \<or> strip client_secret = []
      then oraise (tesla_configuration_error ''Tesla partner credentials are required'')
      else obind (olift (normalize_domain domain)) (\<lambda>dom.
           obind (olift (public_key_point kl expected_public_key_pem)) (\<lambda>expected_key.
           register_regions env tr kl client_id client_secret dom expected_key base_urls)))"

subsection \<open>A region is registered only with the expected key\<close>

lemma transport_answered:
  assumes "transport_request env tr ''GET'' url headers None None w = (Inr r, w')"
  obtains rq where "hq_url rq = url" "hq_method rq = ''GET''" "ne_answer env (w_events w) rq = Answered r" "w' = emit (Sent rq) w"
proof -
  let ?rq = "\<lparr>hq_transport = Direct, hq_method = ''GET'', hq_url = url, hq_headers = headers, hq_form = None, hq_json = None\<rparr>"
  from assms have "ne_answer env (w_events w) ?rq = Answered r \<and> w' = emit (Sent ?rq) w"
    by (cases tr) (auto simp: transport_request_def direct_request_def proxy_request_def obind_eq_Inr exchange_def oper_simps
        split: if_splits wire_answer.splits)
  with that [of ?rq] show ?thesis by simp
qed

text \<open>Among the events there is the question for the key of the region, and its answer shows the expected key.\<close>

definition key_shown :: "net_env \<Rightarrow> key_lib \<Rightarrow> string \<Rightarrow> string \<Rightarrow> string \<Rightarrow> event list \<Rightarrow> bool" where
  "key_shown env kl expected_key domain base evs \<longleftrightarrow>
     (\<exists>before rq after r key. evs = before @ Sent rq # after \<and> hq_method rq = ''GET'' \<and> hq_url rq = public_key_url base domain \<and>
        ne_answer env before rq = Answered r \<and> key_of_answer env r = Inr (Some key) \<and> public_key_point kl key = Inr expected_key)"

lemma key_shown_later: "key_shown env kl expected_key domain base evs \<Longrightarrow> key_shown env kl expected_key domain base (evs @ more_evs)"
  unfolding key_shown_def by (metis append.assoc append_Cons)

definition grown :: "'w net_scheme \<Rightarrow> 'w net_scheme \<Rightarrow> bool" where
  "grown w w' \<longleftrightarrow> (\<exists>new. w_events w' = w_events w @ new)"

interpretation gn: state_frame grown
proof
  show "grown w w" for w :: "'a net_scheme" by (simp add: grown_def)
next
  fix a b c :: "'a net_scheme"
  assume "grown a b" and "grown b c"
  then obtain x y where "w_events b = w_events a @ x" "w_events c = w_events b @ y" unfolding grown_def by blast
  then show "grown a c" unfolding grown_def by simp
qed

lemma gn_exchange: "gn.stays (exchange env failure rq)"
  by (rule gn.staysI) (simp add: exchange_def grown_def split: wire_answer.split)

lemma gn_transport: "gn.stays (transport_request env tr m url headers form body)"
proof (cases tr)
  case Direct
  show ?thesis unfolding transport_request_def Direct transport.case direct_request_def
    by (intro gn.stays_rules gn_exchange)
next
  case (CommandProxy origin)
  show ?thesis unfolding transport_request_def CommandProxy transport.case proxy_request_def
    by (intro gn.stays_rules gn_exchange)
qed

lemma gn_register: "gn.stays (partner_register env tr token base domain allow_existing)"
  unfolding partner_register_def by (intro gn.stays_rules gn_transport)

lemma gn_token: "gn.stays (partner_token env tr client_id client_secret audience)"
  unfolding partner_token_def by (intro gn.stays_rules gn_transport)

lemma gn_key: "gn.stays (registered_key env tr token base domain)"
  unfolding registered_key_def by (intro gn.stays_rules gn_transport)

lemma gn_region: "gn.stays (register_region env tr kl client_id client_secret domain expected_key v)"
  unfolding register_region_def by (intro gn.stays_rules gn_register gn_token gn_key)

lemma gn_regions: "gn.stays (register_regions env tr kl client_id client_secret domain expected_key vs)"
  by (induction vs) (simp_all, (intro gn.stays_rules gn_region | assumption)+)

lemma region_registered:
  assumes "register_region env tr kl client_id client_secret domain expected_key v w = (Inr g, w')"
  shows "normalize_base_url v = Inr (pg_base_url g) \<and> key_shown env kl expected_key domain (pg_base_url g) (w_events w')"
proof -
  from assms obtain base token w1 w2 verified where base: "normalize_base_url v = Inr base"
    and reg: "partner_register env tr token base domain True w1 = (Inr g, w2)"
    and key: "registered_key env tr token base domain w2 = (Inr verified, w')"
    and ok: "check_registered_key kl expected_key base verified = Inr ()"
    by (auto simp: register_region_def obind_eq_Inr oper_simps)
  from base have "normalize_base_url base = Inr base"
    by (auto simp: normalize_base_url_def Let_def known_base_urls_def split: if_splits) code_simp+
  with reg have g: "pg_base_url g = base"
    by (auto simp: partner_register_def obind_eq_Inr oper_simps split: if_splits)
  from ok obtain k where k: "verified = Some k" "public_key_point kl k = Inr expected_key"
    by (auto simp: check_registered_key_def rbind_eq_Inr split: option.splits if_splits)
  from key obtain r where get: "transport_request env tr ''GET'' (public_key_url base domain) (auth_headers token) None None w2 = (Inr r, w')"
    and ans: "key_of_answer env r = Inr verified"
    by (auto simp: registered_key_def obind_eq_Inr oper_simps)
  from transport_answered [OF get] obtain rq where rq: "hq_url rq = public_key_url base domain" "hq_method rq = ''GET''"
    "ne_answer env (w_events w2) rq = Answered r" "w' = emit (Sent rq) w2" .
  have "key_shown env kl expected_key domain base (w_events w')"
    unfolding key_shown_def using rq ans k by (intro exI [of _ "w_events w2"] exI [of _ rq] exI [of _ "[]"]) auto
  with base g show ?thesis by simp
qed

lemma regions_registered:
  "register_regions env tr kl client_id client_secret domain expected_key vs w = (Inr gs, w') \<Longrightarrow>
     rmap normalize_base_url vs = Inr (map pg_base_url gs) \<and>
     list_all (\<lambda>g. key_shown env kl expected_key domain (pg_base_url g) (w_events w')) gs"
proof (induction vs arbitrary: w gs)
  case Nil
  then show ?case by (simp add: oper_simps)
next
  case (Cons v vs)
  then obtain g w1 rest where one: "register_region env tr kl client_id client_secret domain expected_key v w = (Inr g, w1)"
    and all: "register_regions env tr kl client_id client_secret domain expected_key vs w1 = (Inr rest, w')" and gs: "gs = g # rest"
    by (auto simp: obind_eq_Inr oper_simps)
  from gn.staysD [OF gn_regions, of w1] all obtain new where "w_events w' = w_events w1 @ new"
    by (metis grown_def snd_conv)
  with region_registered [OF one] Cons.IH [OF all] show ?case by (simp add: gs key_shown_later)
qed

text \<open>C37: The registrar returns only when every region showed the expected key: for each base address, in order, it
  asked Tesla for the key of the domain, and the answer was the public key it was given.\<close>
theorem registered_only_with_the_expected_key:
  "case ensure_registered env tr kl client_id client_secret domain expected base_urls w of
     (Inl e, w') \<Rightarrow> True
   | (Inr registrations, w') \<Rightarrow>
       \<exists>dom expected_key. normalize_domain domain = Inr dom \<and> public_key_point kl expected = Inr expected_key \<and>
         rmap normalize_base_url base_urls = Inr (map pg_base_url registrations) \<and>
         list_all (\<lambda>g. key_shown env kl expected_key dom (pg_base_url g) (w_events w')) registrations"
proof (cases "ensure_registered env tr kl client_id client_secret domain expected base_urls w")
  case (Pair result w')
  show ?thesis
  proof (cases result)
    case (Inr gs)
    with Pair obtain dom expected_key where "normalize_domain domain = Inr dom" "public_key_point kl expected = Inr expected_key"
      "register_regions env tr kl client_id client_secret dom expected_key base_urls w = (Inr gs, w')"
      by (auto simp: ensure_registered_def obind_eq_Inr oper_simps split: if_splits)
    with regions_registered show ?thesis using Pair Inr by (auto, blast+)
  qed (simp add: Pair)
qed

end
