(* ===== verification/OperatorCheck.thy ===== *)
theory OperatorCheck
  imports TelemetryIngest StateFrame "HOL-Library.Sublist"
begin

text \<open>
  \<open>telemetry_processor/operator_check.py\<close>: the operator's check of the deployed telemetry path with fixtures that are
  no vehicle's.  Pub/Sub and BigQuery answer by what happened before; the clocks and the drawn identifier are
  arguments, and so are \<open>json.dumps\<close> (compact, keys sorted) and \<open>isoformat\<close>.  The loop that waits for the evidence
  has fuel: \<^const>\<open>NoReturn\<close> is a loop that had not ended within it.
\<close>

subsection \<open>Events\<close>

record fixture_message =
  fm_topic :: string
  fm_payload :: val
  fm_data :: string
  fm_attributes :: "(string \<times> string) list"

record evidence_query =
  eq_text :: string
  eq_earliest :: int
  eq_name :: string
  eq_value :: string

datatype check_event = Published fixture_message | Queried evidence_query | Paused

record check_env =
  ce_publish :: "check_event list \<Rightarrow> fixture_message \<Rightarrow> exn + val"
  ce_count :: "check_event list \<Rightarrow> evidence_query \<Rightarrow> exn + int option"
  ce_monotonic :: "check_event list \<Rightarrow> rat"
  ce_time :: "check_event list \<Rightarrow> int"
  ce_isoformat :: "int \<Rightarrow> string"
  ce_dumps_sorted :: "val \<Rightarrow> string"
  ce_uuid_hex :: string

type_synonym 'a check = "(check_event list, exn, 'a) oper"

definition check_now :: "check_env \<Rightarrow> int check" where "check_now env evs = (Inr (ce_time env evs), evs)"
definition check_monotonic :: "check_env \<Rightarrow> rat check" where "check_monotonic env evs = (Inr (ce_monotonic env evs), evs)"
definition check_pause :: "unit check" where "check_pause evs = (Inr (), evs @ [Paused])"

subsection \<open>Fixtures\<close>

definition raw_fixture_topic :: string where "raw_fixture_topic = ''tpp-raw-telemetry''"
definition system_dataset :: string where "system_dataset = ''tesla_system_quarantine''"
definition synthetic_table_name :: string where "synthetic_table_name = ''raw_synthetic_telemetry''"
definition quarantine_table_name :: string where "quarantine_table_name = ''raw_unknown_telemetry''"
definition unknown_vin :: string where "unknown_vin = ''SYNTHETIC-NON-VEHICLE-UNKNOWN-VIN''"

definition created_at_text :: "check_env \<Rightarrow> int \<Rightarrow> string" where
  "created_at_text env t = replace_all ''+00:00'' ''Z'' (ce_isoformat env t)"

definition synthetic_payload :: "check_env \<Rightarrow> string \<Rightarrow> int \<Rightarrow> dict" where
  "synthetic_payload env fixture_id t =
     [(''createdAt'', VStr (created_at_text env t)), (''fixtureId'', VStr fixture_id),
      (''fixtureType'', VStr ''phase7-non-vehicle''), (''vin'', VStr ''SYNTHETIC-NON-VEHICLE''),
      (''data'', VList [VDict [(''key'', VStr ''SyntheticPipelineCheck''), (''value'', VDict [(''booleanValue'', VBool True)])]])]"

definition unknown_payload :: "check_env \<Rightarrow> string \<Rightarrow> int \<Rightarrow> dict" where
  "unknown_payload env fixture_id t =
     [(''createdAt'', VStr (created_at_text env t)), (''fixtureId'', VStr fixture_id),
      (''fixtureType'', VStr ''phase7-unknown-vin''), (''vin'', VStr unknown_vin), (''data'', VList [])]"

definition synthetic_attributes :: "string \<Rightarrow> bool \<Rightarrow> (string \<times> string) list" where
  "synthetic_attributes fixture_id fail_first =
     [(''tpp_synthetic_fixture'', ''phase7''), (''tpp_fixture_id'', fixture_id), (''txtype'', ''synthetic''), (''txid'', fixture_id)]
     @ (if fail_first then [(''tpp_fixture_fail_first'', ''true'')] else [])"

text \<open>\<open>int(now.timestamp() * 1000)\<close>: the milliseconds, exact.\<close>

definition unknown_attributes :: "string \<Rightarrow> int \<Rightarrow> (string \<times> string) list" where
  "unknown_attributes fixture_id now =
     [(''vin'', unknown_vin), (''receivedat'', str_of_int (now div 1000)), (''txtype'', ''V''), (''txid'', fixture_id),
      (''version'', ''0''), (''device_client_version'', ''phase7-synthetic'')]"

definition publish_message :: "check_env \<Rightarrow> string \<Rightarrow> dict \<Rightarrow> (string \<times> string) list \<Rightarrow> string check" where
  "publish_message env topic payload attributes evs =
     (let m = \<lparr>fm_topic = topic, fm_payload = VDict payload, fm_data = ce_dumps_sorted env (VDict payload),
        fm_attributes = attributes\<rparr>
      in (case ce_publish env evs m of
            Inl e \<Rightarrow> Inl e
          | Inr (VStr message_id) \<Rightarrow> Inr message_id
          | Inr v \<Rightarrow> Inl (RuntimeError ''Pub/Sub did not return a message ID''), evs @ [Published m]))"

definition publish_synthetic :: "check_env \<Rightarrow> string \<Rightarrow> string \<Rightarrow> int \<Rightarrow> bool \<Rightarrow> string check" where
  "publish_synthetic env topic fixture_id t fail_first =
     publish_message env topic (synthetic_payload env fixture_id t) (synthetic_attributes fixture_id fail_first)"

definition publish_unknown :: "check_env \<Rightarrow> string \<Rightarrow> string \<Rightarrow> int \<Rightarrow> string check" where
  "publish_unknown env topic fixture_id t =
     obind (check_now env) (\<lambda>now.
     publish_message env topic (unknown_payload env fixture_id t) (unknown_attributes fixture_id now))"

subsection \<open>Evidence\<close>

definition query_line :: "string \<Rightarrow> string" where
  "query_line s = CHR 0x0A # ''        '' @ s"

definition fixture_query :: "string \<Rightarrow> string \<Rightarrow> string \<Rightarrow> int \<Rightarrow> evidence_query" where
  "fixture_query table field value' earliest =
     \<lparr>eq_text = query_line ''SELECT COUNT(*) AS row_count'' @ query_line (''FROM `'' @ table @ ''`'') @
        query_line (''WHERE source_timestamp >= @earliest AND '' @ field @ '' = @value'') @ (CHR 0x0A # ''    ''),
      eq_earliest = earliest, eq_name = ''value'', eq_value = value'\<rparr>"

definition retry_proof_query :: "string \<Rightarrow> string \<Rightarrow> int \<Rightarrow> evidence_query" where
  "retry_proof_query table fixture_id earliest =
     \<lparr>eq_text = query_line ''SELECT COUNT(*) AS row_count'' @ query_line (''FROM `'' @ table @ ''`'') @
        query_line ''WHERE source_timestamp >= @earliest'' @ query_line ''  AND fixture_id = @fixture_id'' @
        query_line ''  AND first_failure_recorded IS TRUE'' @ (CHR 0x0A # ''    ''),
      eq_earliest = earliest, eq_name = ''fixture_id'', eq_value = fixture_id\<rparr>"

definition count_rows :: "check_env \<Rightarrow> evidence_query \<Rightarrow> int check" where
  "count_rows env q evs = (case ce_count env evs q of
       Inl e \<Rightarrow> Inl e | Inr None \<Rightarrow> Inr 0 | Inr (Some n) \<Rightarrow> Inr n, evs @ [Queried q])"

definition count_fixture :: "check_env \<Rightarrow> string \<Rightarrow> string \<Rightarrow> string \<Rightarrow> int \<Rightarrow> int check" where
  "count_fixture env table field value' earliest = count_rows env (fixture_query table field value' earliest)"

definition count_retry_proof :: "check_env \<Rightarrow> string \<Rightarrow> string \<Rightarrow> int \<Rightarrow> int check" where
  "count_retry_proof env table fixture_id earliest = count_rows env (retry_proof_query table fixture_id earliest)"

record fixture_run =
  fr_project :: string
  fr_duplicate :: string
  fr_retry :: string
  fr_unknown_message :: string
  fr_earliest :: int

definition system_table :: "string \<Rightarrow> string \<Rightarrow> string" where
  "system_table project name = project @ ''.'' @ system_dataset @ ''.'' @ name"

definition proof_of :: "int \<Rightarrow> int \<Rightarrow> int \<Rightarrow> dict" where
  "proof_of duplicates retries unknowns =
     [(''duplicate_rows_preserved'', VInt duplicates), (''retry_failure_recorded'', VBool True),
      (''retry_row_persisted'', VInt retries), (''unknown_vin_quarantined'', VInt unknowns)]"

text \<open>One turn: the proof when the evidence is complete.\<close>

definition look_for_proof :: "check_env \<Rightarrow> fixture_run \<Rightarrow> dict option check" where
  "look_for_proof env run =
     (let synthetic = system_table (fr_project run) synthetic_table_name;
          quarantined = system_table (fr_project run) quarantine_table_name
      in obind (count_fixture env synthetic ''fixture_id'' (fr_duplicate run) (fr_earliest run)) (\<lambda>duplicates.
         obind (count_fixture env synthetic ''fixture_id'' (fr_retry run) (fr_earliest run)) (\<lambda>retries.
         obind (count_fixture env quarantined ''pubsub_message_id'' (fr_unknown_message run) (fr_earliest run)) (\<lambda>unknowns.
         obind (count_retry_proof env synthetic (fr_retry run) (fr_earliest run)) (\<lambda>proofs.
         oret (if 2 \<le> duplicates \<and> 1 \<le> retries \<and> 1 \<le> unknowns \<and> 1 \<le> proofs
           then Some (proof_of duplicates retries unknowns) else None))))))"

fun poll_for_proof :: "nat \<Rightarrow> check_env \<Rightarrow> fixture_run \<Rightarrow> rat \<Rightarrow> dict check" where
  "poll_for_proof 0 env run deadline = oraise NoReturn"
| "poll_for_proof (Suc fuel) env run deadline =
     obind (check_monotonic env) (\<lambda>now.
     if \<not> now < deadline
     then oraise (LibraryError ''TimeoutError: telemetry verification evidence did not arrive before timeout'')
     else obind (look_for_proof env run) (\<lambda>found. case found of
         Some d \<Rightarrow> oret d
       | None \<Rightarrow> obind check_pause (\<lambda>_. poll_for_proof fuel env run deadline)))"

definition wait_for_proof :: "nat \<Rightarrow> check_env \<Rightarrow> fixture_run \<Rightarrow> int \<Rightarrow> dict check" where
  "wait_for_proof fuel env run timeout_seconds =
     obind (check_monotonic env) (\<lambda>now. poll_for_proof fuel env run (now + of_int timeout_seconds))"

subsection \<open>The command\<close>

record check_arguments =
  ca_project_id :: string
  ca_timeout_seconds :: int
  ca_confirmed :: bool

definition usage_error :: "string \<Rightarrow> exn" where
  "usage_error m = LibraryError (''SystemExit: '' @ m)"

text \<open>\<open>PROJECT_ID\<close>: \<open>[a-z][a-z0-9-]{4,28}[a-z0-9]\<close>.\<close>

definition ascii_low :: "char \<Rightarrow> bool" where "ascii_low c = (CHR ''a'' \<le> c \<and> c \<le> CHR ''z'')"
definition ascii_num :: "char \<Rightarrow> bool" where "ascii_num c = (CHR ''0'' \<le> c \<and> c \<le> CHR ''9'')"

definition valid_project_id :: "string \<Rightarrow> bool" where
  "valid_project_id s = (6 \<le> length s \<and> length s \<le> 30 \<and> ascii_low (hd s) \<and>
     list_all (\<lambda>c. ascii_low c \<or> ascii_num c \<or> c = CHR ''-'') (butlast (tl s)) \<and> (ascii_low (last s) \<or> ascii_num (last s)))"

definition check_usage :: "check_arguments \<Rightarrow> exn + unit" where
  "check_usage a =
     (if \<not> ca_confirmed a then Inl (usage_error ''--confirm-non-vehicle-fixtures is required'')
      else if ca_timeout_seconds a < 30 \<or> ca_timeout_seconds a > 1800
      then Inl (usage_error ''--timeout-seconds must be between 30 and 1800'')
      else if \<not> valid_project_id (ca_project_id a) then Inl (usage_error ''--project-id must be a valid lowercase GCP project ID'')
      else Inr ())"

definition topic_path :: "string \<Rightarrow> string" where
  "topic_path project = ''projects/'' @ project @ ''/topics/'' @ raw_fixture_topic"

definition operator_check :: "nat \<Rightarrow> check_env \<Rightarrow> check_arguments \<Rightarrow> dict check" where
  "operator_check fuel env a =
     obind (olift (check_usage a)) (\<lambda>_.
     let run_id = take 16 (ce_uuid_hex env); topic = topic_path (ca_project_id a);
         duplicate_fixture = ''phase7_duplicate-'' @ run_id; retry_fixture = ''phase7_retry-'' @ run_id;
         unknown_fixture = ''phase7_unknown-'' @ run_id
     in obind (check_now env) (\<lambda>source_timestamp.
        obind (publish_synthetic env topic duplicate_fixture source_timestamp False) (\<lambda>first_id.
        obind (publish_synthetic env topic duplicate_fixture source_timestamp False) (\<lambda>second_id.
        obind (publish_synthetic env topic retry_fixture source_timestamp True) (\<lambda>retry_id.
        obind (publish_unknown env topic unknown_fixture source_timestamp) (\<lambda>unknown_id.
        obind (wait_for_proof fuel env \<lparr>fr_project = ca_project_id a, fr_duplicate = duplicate_fixture,
            fr_retry = retry_fixture, fr_unknown_message = unknown_id, fr_earliest = source_timestamp - 300 * 1000000\<rparr>
          (ca_timeout_seconds a)) (\<lambda>found.
        oret (dict_merge [(''outcome'', VStr ''passed''), (''run_id'', VStr run_id),
          (''system_destination'', VStr (ca_project_id a @ ''.'' @ system_dataset)),
          (''published_message_ids'', VDict [(''duplicates'', VList [VStr first_id, VStr second_id]),
             (''retry'', VStr retry_id), (''unknown'', VStr unknown_id)])] found))))))))"

subsection \<open>The check ends\<close>

text \<open>The clock never goes back, and a pause takes five seconds or more.\<close>

definition clock_advances :: "check_env \<Rightarrow> bool" where
  "clock_advances env \<longleftrightarrow> (\<forall>evs e. ce_monotonic env evs + (if e = Paused then 5 else 0) \<le> ce_monotonic env (evs @ [e]))"

lemma clock_event: "clock_advances env \<Longrightarrow> ce_monotonic env evs \<le> ce_monotonic env (evs @ [e])"
  unfolding clock_advances_def
  by (drule spec [of _ evs], drule spec [of _ e]) (simp split: if_splits)

lemma clock_later:
  assumes "clock_advances env"
  shows "ce_monotonic env evs \<le> ce_monotonic env (evs @ new)"
proof (induction new rule: rev_induct)
  case (snoc e new)
  with clock_event [OF assms, of "evs @ new" e] show ?case by simp
qed simp

interpretation cf: state_frame "prefix :: check_event list \<Rightarrow> check_event list \<Rightarrow> bool"
  by unfold_locales (auto intro: prefix_order.trans)

lemma cf_calls: "cf.stays (count_rows env q)" "cf.stays (publish_message env topic payload attributes)" "cf.stays (check_now env)"
    "cf.stays (check_monotonic env)" "cf.stays check_pause"
  by (auto intro!: cf.staysI simp: count_rows_def publish_message_def check_now_def check_monotonic_def check_pause_def Let_def)

lemma cf_look: "cf.stays (look_for_proof env run)"
  unfolding look_for_proof_def count_fixture_def count_retry_proof_def Let_def
  by (intro cf.stays_rules cf_calls)

definition answers_come :: "check_env \<Rightarrow> bool" where
  "answers_come env \<longleftrightarrow> (\<forall>evs q. ce_count env evs q \<noteq> Inl NoReturn) \<and> (\<forall>evs m. ce_publish env evs m \<noteq> Inl NoReturn)"

lemma look_returns: "answers_come env \<Longrightarrow> fst (look_for_proof env run evs) \<noteq> Inl NoReturn"
  unfolding look_for_proof_def count_fixture_def count_retry_proof_def Let_def answers_come_def
  by (auto simp: obind_def count_rows_def oper_simps split: sum.splits prod.splits option.splits)

lemma poll_ends:
  assumes adv: "clock_advances env" and ans: "answers_come env"
  shows "deadline \<le> ce_monotonic env evs + 5 * of_nat n \<Longrightarrow> n < fuel \<Longrightarrow>
    fst (poll_for_proof fuel env run deadline evs) \<noteq> Inl NoReturn"
proof (induction n arbitrary: fuel evs)
  case 0
  then obtain f where "fuel = Suc f" by (cases fuel) auto
  with 0 show ?case by (simp add: obind_def check_monotonic_def oper_simps)
next
  case (Suc n)
  then obtain f where f: "fuel = Suc f" "n < f" by (cases fuel) auto
  obtain r evs1 where look: "look_for_proof env run evs = (r, evs1)" by fastforce
  show ?case
  proof (cases r)
    case (Inl e)
    with look_returns [OF ans, of run evs] look have "e \<noteq> NoReturn" by simp
    with look Inl f show ?thesis by (simp add: obind_def check_monotonic_def oper_simps)
  next
    case (Inr found)
    from cf.staysD [OF cf_look, of evs env run] look obtain new where "evs1 = evs @ new" by (auto simp: prefix_def)
    with clock_later [OF adv, of evs new] have "ce_monotonic env evs \<le> ce_monotonic env evs1" by simp
    moreover have "ce_monotonic env evs1 + 5 \<le> ce_monotonic env (evs1 @ [Paused])"
      using adv unfolding clock_advances_def by (drule_tac spec [of _ evs1], drule_tac spec [of _ Paused]) simp
    ultimately have "deadline \<le> ce_monotonic env (evs1 @ [Paused]) + 5 * of_nat n"
      using Suc.prems(1) by simp
    from Suc.IH [OF this f(2)] look Inr f show ?thesis
      by (cases found) (simp_all add: obind_def check_monotonic_def check_pause_def oper_simps)
  qed
qed

subsection \<open>Evidence that comes is found\<close>

definition pauses :: "check_event list \<Rightarrow> nat" where "pauses evs = length (filter (\<lambda>e. e = Paused) evs)"

text \<open>Every query is answered, and after \<open>k\<close> pauses the fixtures of the run are counted: two rows of the duplicate, one
  of the retry with a recorded failure, and one of the unknown message.\<close>

definition evidence_comes :: "check_env \<Rightarrow> nat \<Rightarrow> fixture_run \<Rightarrow> bool" where
  "evidence_comes env k run \<longleftrightarrow>
     (let synthetic = system_table (fr_project run) synthetic_table_name;
          quarantined = system_table (fr_project run) quarantine_table_name;
          counts = (\<lambda>evs q least. \<exists>n\<ge>least. ce_count env evs q = Inr (Some n))
      in (\<forall>evs q. \<exists>x. ce_count env evs q = Inr x) \<and>
         (\<forall>evs. k \<le> pauses evs \<longrightarrow>
            counts evs (fixture_query synthetic ''fixture_id'' (fr_duplicate run) (fr_earliest run)) 2 \<and>
            counts evs (fixture_query synthetic ''fixture_id'' (fr_retry run) (fr_earliest run)) 1 \<and>
            counts evs (fixture_query quarantined ''pubsub_message_id'' (fr_unknown_message run) (fr_earliest run)) 1 \<and>
            counts evs (retry_proof_query synthetic (fr_retry run) (fr_earliest run)) 1))"

definition in_time :: "check_env \<Rightarrow> nat \<Rightarrow> rat \<Rightarrow> bool" where
  "in_time env k deadline \<longleftrightarrow> (\<forall>evs. pauses evs \<le> k \<longrightarrow> ce_monotonic env evs < deadline)"

lemma count_rows_comes:
  assumes "\<And>evs q. \<exists>x. ce_count env evs q = Inr x" and "K \<Longrightarrow> \<exists>n\<ge>least. ce_count env evs q = Inr (Some n)"
  shows "\<exists>n. count_rows env q evs = (Inr n, evs @ [Queried q]) \<and> (K \<longrightarrow> least \<le> n)"
proof -
  from assms(1) obtain x where x: "ce_count env evs q = Inr x" by blast
  show ?thesis
  proof (cases x)
    case None
    with x assms(2) show ?thesis by (intro exI [of _ 0]) (auto simp: count_rows_def)
  next
    case (Some n)
    with x assms(2) show ?thesis by (intro exI [of _ n]) (auto simp: count_rows_def)
  qed
qed

lemma pauses_query [simp]: "pauses (evs @ [Queried q]) = pauses evs"
  by (simp add: pauses_def)

lemma look_comes:
  assumes "evidence_comes env k run"
  obtains found evs' where "look_for_proof env run evs = (Inr found, evs')" "pauses evs' = pauses evs" "k \<le> pauses evs \<Longrightarrow> found \<noteq> None"
proof -
  let ?s = "system_table (fr_project run) synthetic_table_name"
  let ?q1 = "fixture_query ?s ''fixture_id'' (fr_duplicate run) (fr_earliest run)"
  let ?q2 = "fixture_query ?s ''fixture_id'' (fr_retry run) (fr_earliest run)"
  let ?q3 = "fixture_query (system_table (fr_project run) quarantine_table_name) ''pubsub_message_id'' (fr_unknown_message run) (fr_earliest run)"
  let ?q4 = "retry_proof_query ?s (fr_retry run) (fr_earliest run)"
  let ?w1 = "evs @ [Queried ?q1]" let ?w2 = "?w1 @ [Queried ?q2]" let ?w3 = "?w2 @ [Queried ?q3]"
  have ans: "\<exists>x. ce_count env evs q = Inr x" for evs q
    using assms by (auto simp: evidence_comes_def Let_def)
  have come: "\<exists>n\<ge>2. ce_count env w ?q1 = Inr (Some n)" "\<exists>n\<ge>1. ce_count env w ?q2 = Inr (Some n)"
      "\<exists>n\<ge>1. ce_count env w ?q3 = Inr (Some n)" "\<exists>n\<ge>1. ce_count env w ?q4 = Inr (Some n)" if "k \<le> pauses w" for w
    using assms that unfolding evidence_comes_def Let_def by blast+
  obtain a where a: "count_rows env ?q1 evs = (Inr a, ?w1)" "k \<le> pauses evs \<Longrightarrow> 2 \<le> a"
    using count_rows_comes [OF ans come(1) [of "evs"]] by blast
  obtain b where b: "count_rows env ?q2 ?w1 = (Inr b, ?w2)" "k \<le> pauses ?w1 \<Longrightarrow> 1 \<le> b"
    using count_rows_comes [OF ans come(2) [of "?w1"]] by blast
  obtain c where c: "count_rows env ?q3 ?w2 = (Inr c, ?w3)" "k \<le> pauses ?w2 \<Longrightarrow> 1 \<le> c"
    using count_rows_comes [OF ans come(3) [of "?w2"]] by blast
  obtain e where e: "count_rows env ?q4 ?w3 = (Inr e, ?w3 @ [Queried ?q4])" "k \<le> pauses ?w3 \<Longrightarrow> 1 \<le> e"
    using count_rows_comes [OF ans come(4) [of "?w3"]] by blast
  have "look_for_proof env run evs =
      (Inr (if 2 \<le> a \<and> 1 \<le> b \<and> 1 \<le> c \<and> 1 \<le> e then Some (proof_of a b c) else None), ?w3 @ [Queried ?q4])"
    using a(1) b(1) c(1) e(1)
    by (simp add: look_for_proof_def count_fixture_def count_retry_proof_def Let_def obind_def oper_simps del: append_assoc)
  then show ?thesis
  proof (rule that)
    show "pauses (?w3 @ [Queried ?q4]) = pauses evs" by (simp only: pauses_query)
    show "(if 2 \<le> a \<and> 1 \<le> b \<and> 1 \<le> c \<and> 1 \<le> e then Some (proof_of a b c) else None) \<noteq> None" if "k \<le> pauses evs"
      using that a(2) b(2) c(2) e(2) by (simp only: pauses_query if_True option.distinct not_False_eq_True simp_thms)
  qed
qed

lemma look_gives: "look_for_proof env run evs = (Inr (Some d), evs') \<Longrightarrow> \<exists>a b c. d = proof_of a b c"
  by (auto simp: look_for_proof_def Let_def obind_eq_Inr oper_simps split: if_splits)

lemma poll_finds:
  assumes ev: "evidence_comes env k run" and time: "in_time env k deadline"
  shows "k \<le> pauses evs + n \<Longrightarrow> pauses evs \<le> k \<Longrightarrow> n < fuel \<Longrightarrow>
    \<exists>a b c evs'. poll_for_proof fuel env run deadline evs = (Inr (proof_of a b c), evs')"
proof (induction n arbitrary: fuel evs)
  case 0
  obtain f where f: "fuel = Suc f" using 0 by (cases fuel) auto
  obtain found evs1 where look: "look_for_proof env run evs = (Inr found, evs1)" "found \<noteq> None"
    using look_comes [OF ev, of evs] 0 by (metis add_0_right)
  moreover from time 0 have "ce_monotonic env evs < deadline" by (simp add: in_time_def)
  ultimately show ?case using look_gives [of env run evs] by (fastforce simp: f obind_def check_monotonic_def oper_simps)
next
  case (Suc n)
  obtain f where f: "fuel = Suc f" "n < f" using Suc.prems by (cases fuel) auto
  obtain found evs1 where look: "look_for_proof env run evs = (Inr found, evs1)" "pauses evs1 = pauses evs"
      "k \<le> pauses evs \<Longrightarrow> found \<noteq> None"
    by (rule look_comes [OF ev, of evs]) simp
  from time Suc.prems have now: "ce_monotonic env evs < deadline" by (simp add: in_time_def)
  show ?case
  proof (cases found)
    case None
    with look(3) have "pauses evs < k" by (meson not_le_imp_less)
    with look(2) Suc.prems have "k \<le> pauses (evs1 @ [Paused]) + n" "pauses (evs1 @ [Paused]) \<le> k"
      by (simp_all add: pauses_def)
    from Suc.IH [OF this f(2)] None look now show ?thesis
      by (auto simp: f obind_def check_monotonic_def check_pause_def oper_simps)
  next
    case (Some d)
    with look_gives look(1) obtain a b c where "d = proof_of a b c" by blast
    with Some look now show ?thesis by (auto simp: f obind_def check_monotonic_def oper_simps)
  qed
qed

lemma wait_finds:
  assumes "evidence_comes env k run" and "in_time env k (ce_monotonic env evs + of_int timeout)" and "pauses evs \<le> k" and "k < fuel"
  shows "\<exists>a b c evs'. wait_for_proof fuel env run timeout evs = (Inr (proof_of a b c), evs')"
  using poll_finds [OF assms(1,2), of evs k] assms(3,4) by (simp add: wait_for_proof_def obind_def check_monotonic_def)

text \<open>The runs that a check with these arguments may wait for: its project and fixtures, and a message identifier
  that Pub/Sub gave to a message with the unknown VIN.\<close>

definition run_of_check :: "check_env \<Rightarrow> check_arguments \<Rightarrow> fixture_run \<Rightarrow> bool" where
  "run_of_check env a run \<longleftrightarrow> fr_project run = ca_project_id a \<and>
     fr_duplicate run = ''phase7_duplicate-'' @ take 16 (ce_uuid_hex env) \<and>
     fr_retry run = ''phase7_retry-'' @ take 16 (ce_uuid_hex env) \<and>
     (\<exists>before m. ce_publish env before m = Inr (VStr (fr_unknown_message run)) \<and>
        map_of (fm_attributes m) ''vin'' = Some unknown_vin)"

text \<open>Less than the timeout passes between any two moments with no more than \<open>k\<close> pauses before them.\<close>

definition quick :: "check_env \<Rightarrow> nat \<Rightarrow> rat \<Rightarrow> bool" where
  "quick env k timeout \<longleftrightarrow>
     (\<forall>evs evs'. pauses evs \<le> k \<longrightarrow> pauses evs' \<le> k \<longrightarrow> ce_monotonic env evs' < ce_monotonic env evs + timeout)"

lemma publish_message_served:
  assumes "ce_publish env evs \<lparr>fm_topic = topic, fm_payload = VDict payload, fm_data = ce_dumps_sorted env (VDict payload),
      fm_attributes = attributes\<rparr> = Inr (VStr i)"
  shows "publish_message env topic payload attributes evs = (Inr i, evs @ [Published \<lparr>fm_topic = topic,
    fm_payload = VDict payload, fm_data = ce_dumps_sorted env (VDict payload), fm_attributes = attributes\<rparr>])"
  using assms by (simp add: publish_message_def Let_def)

text \<open>The wait ends: with a clock that advances and calls that return, polling every five seconds ends within the
  timeout, by a proof, an error of a call or the timeout.\<close>
theorem waiting_for_proof_ends:
  assumes "clock_advances env" and "answers_come env" and "timeout_seconds \<le> 5 * int n" and "n < fuel"
  shows "fst (wait_for_proof fuel env run timeout_seconds evs) \<noteq> Inl NoReturn"
proof -
  have "of_int timeout_seconds \<le> (of_int (5 * int n) :: rat)" using assms(3) by (simp only: of_int_le_iff)
  then have "ce_monotonic env evs + of_int timeout_seconds \<le> ce_monotonic env evs + 5 * of_nat n" by simp
  from poll_ends [OF assms(1,2) this assms(4)] show ?thesis
    by (simp add: wait_for_proof_def obind_def check_monotonic_def)
qed


subsection \<open>What a passed check has seen\<close>

text \<open>The query was sent and answered with this count.\<close>

definition counted_rows :: "check_env \<Rightarrow> check_event list \<Rightarrow> evidence_query \<Rightarrow> int \<Rightarrow> bool" where
  "counted_rows env evs q n \<longleftrightarrow> (\<exists>before after. evs = before @ Queried q # after \<and>
     (ce_count env before q = Inr (Some n) \<or> n = 0 \<and> ce_count env before q = Inr None))"

lemma counted_later: "counted_rows env evs q n \<Longrightarrow> prefix evs evs' \<Longrightarrow> counted_rows env evs' q n"
  unfolding counted_rows_def prefix_def by (metis append.assoc append_Cons)

lemma count_rows_counts: "count_rows env q evs = (Inr n, evs') \<Longrightarrow> counted_rows env evs' q n"
  by (auto simp: count_rows_def counted_rows_def split: sum.splits option.splits)

definition complete_evidence :: "check_env \<Rightarrow> check_event list \<Rightarrow> fixture_run \<Rightarrow> bool" where
  "complete_evidence env evs run \<longleftrightarrow>
     (\<exists>duplicates retries unknowns proofs. 2 \<le> duplicates \<and> 1 \<le> retries \<and> 1 \<le> unknowns \<and> 1 \<le> proofs \<and>
        counted_rows env evs (fixture_query (system_table (fr_project run) synthetic_table_name) ''fixture_id'' (fr_duplicate run) (fr_earliest run)) duplicates \<and>
        counted_rows env evs (fixture_query (system_table (fr_project run) synthetic_table_name) ''fixture_id'' (fr_retry run) (fr_earliest run)) retries \<and>
        counted_rows env evs (fixture_query (system_table (fr_project run) quarantine_table_name) ''pubsub_message_id'' (fr_unknown_message run) (fr_earliest run)) unknowns \<and>
        counted_rows env evs (retry_proof_query (system_table (fr_project run) synthetic_table_name) (fr_retry run) (fr_earliest run)) proofs)"

lemma complete_later: "complete_evidence env evs run \<Longrightarrow> prefix evs evs' \<Longrightarrow> complete_evidence env evs' run"
  unfolding complete_evidence_def using counted_later by blast

lemma look_sees:
  assumes "look_for_proof env run evs = (Inr (Some d), evs')"
  shows "complete_evidence env evs' run"
proof -
  let ?s = "system_table (fr_project run) synthetic_table_name"
  let ?q1 = "fixture_query ?s ''fixture_id'' (fr_duplicate run) (fr_earliest run)"
  let ?q2 = "fixture_query ?s ''fixture_id'' (fr_retry run) (fr_earliest run)"
  let ?q3 = "fixture_query (system_table (fr_project run) quarantine_table_name) ''pubsub_message_id'' (fr_unknown_message run) (fr_earliest run)"
  let ?q4 = "retry_proof_query ?s (fr_retry run) (fr_earliest run)"
  from assms obtain a b c e w1 w2 w3 where "2 \<le> a" "1 \<le> b" "1 \<le> c" "1 \<le> e"
    and steps: "count_rows env ?q1 evs = (Inr a, w1)" "count_rows env ?q2 w1 = (Inr b, w2)" "count_rows env ?q3 w2 = (Inr c, w3)"
      "count_rows env ?q4 w3 = (Inr e, evs')"
    by (auto simp: look_for_proof_def count_fixture_def count_retry_proof_def Let_def obind_eq_Inr oper_simps split: if_splits)
  have grows: "count_rows env q x = (r, y) \<Longrightarrow> prefix x y" for q x r y
    using cf.staysD [OF cf_calls(1), of x env q] by simp
  from steps grows have p: "prefix w1 w2" "prefix w2 w3" "prefix w3 evs'" by blast+
  from steps count_rows_counts have "counted_rows env w1 ?q1 a" "counted_rows env w2 ?q2 b" "counted_rows env w3 ?q3 c" "counted_rows env evs' ?q4 e"
    by blast+
  moreover from p have "prefix w1 evs'" "prefix w2 evs'" by (meson prefix_order.trans)+
  ultimately have "counted_rows env evs' ?q1 a" "counted_rows env evs' ?q2 b" "counted_rows env evs' ?q3 c" "counted_rows env evs' ?q4 e"
    using p counted_later by blast+
  with \<open>2 \<le> a\<close> \<open>1 \<le> b\<close> \<open>1 \<le> c\<close> \<open>1 \<le> e\<close> show ?thesis unfolding complete_evidence_def by blast
qed

lemma poll_sees: "poll_for_proof fuel env run deadline evs = (Inr d, evs') \<Longrightarrow> complete_evidence env evs' run"
proof (induction fuel arbitrary: evs)
  case (Suc fuel)
  then obtain found w where look: "look_for_proof env run evs = (Inr found, w)"
    and rest: "(case found of Some d \<Rightarrow> oret d | None \<Rightarrow> obind check_pause (\<lambda>_. poll_for_proof fuel env run deadline)) w = (Inr d, evs')"
    by (auto simp: obind_eq_Inr check_monotonic_def oper_simps split: if_splits)
  show ?case
  proof (cases found)
    case None
    with rest Suc.IH show ?thesis by (auto simp: obind_def check_pause_def)
  next
    case (Some x)
    with rest look_sees look show ?thesis by (auto simp: oper_simps)
  qed
qed (simp add: oper_simps)

text \<open>C39: A check passes only with complete evidence for the fixtures of its own run: it was confirmed, its timeout
  and project are valid, and BigQuery counted two rows of the duplicate, a row and a recorded failure of the
  retry, and a quarantined row of the message that Pub/Sub named for the unknown fixture.\<close>
theorem passed_check_has_seen_the_evidence:
  "case operator_check fuel env a evs of
     (Inl e, evs') \<Rightarrow> True
   | (Inr d, evs') \<Rightarrow> ca_confirmed a \<and> valid_project_id (ca_project_id a) \<and>
       (\<exists>run. fr_project run = ca_project_id a \<and> fr_duplicate run = ''phase7_duplicate-'' @ take 16 (ce_uuid_hex env) \<and>
          fr_retry run = ''phase7_retry-'' @ take 16 (ce_uuid_hex env) \<and> complete_evidence env evs' run \<and>
          (\<exists>before m after. evs' = before @ Published m # after \<and> ce_publish env before m = Inr (VStr (fr_unknown_message run)) \<and>
             fm_topic m = topic_path (ca_project_id a) \<and> map_of (fm_attributes m) ''vin'' = Some unknown_vin))"
proof (cases "operator_check fuel env a evs")
  case (Pair result evs')
  show ?thesis
  proof (cases result)
    case (Inr d)
    let ?topic = "topic_path (ca_project_id a)" and ?id = "take 16 (ce_uuid_hex env)"
    from Pair Inr obtain t w1 w2 unknown_id found where usage: "check_usage a = Inr ()"
      and unknown: "publish_unknown env ?topic (''phase7_unknown-'' @ ?id) t w1 = (Inr unknown_id, w2)"
      and wait: "wait_for_proof fuel env \<lparr>fr_project = ca_project_id a, fr_duplicate = ''phase7_duplicate-'' @ ?id,
            fr_retry = ''phase7_retry-'' @ ?id, fr_unknown_message = unknown_id, fr_earliest = t - 300 * 1000000\<rparr>
          (ca_timeout_seconds a) w2 = (Inr found, evs')"
      by (auto simp: operator_check_def Let_def obind_eq_Inr oper_simps)
    let ?run = "\<lparr>fr_project = ca_project_id a, fr_duplicate = ''phase7_duplicate-'' @ ?id,
            fr_retry = ''phase7_retry-'' @ ?id, fr_unknown_message = unknown_id, fr_earliest = t - 300 * 1000000\<rparr>"
    from usage have ok: "ca_confirmed a" "valid_project_id (ca_project_id a)" by (auto simp: check_usage_def split: if_splits)
    from wait have poll: "poll_for_proof fuel env ?run (ce_monotonic env w2 + of_int (ca_timeout_seconds a)) w2 = (Inr found, evs')"
      by (simp add: wait_for_proof_def obind_def check_monotonic_def)
    from unknown obtain m where m: "ce_publish env w1 m = Inr (VStr unknown_id)" "w2 = w1 @ [Published m]" "fm_topic m = ?topic"
        "map_of (fm_attributes m) ''vin'' = Some unknown_vin"
      by (auto simp: publish_unknown_def obind_def check_now_def publish_message_def Let_def unknown_attributes_def
          split: sum.splits val.splits)
    have "cf.stays (poll_for_proof n env ?run dl)" for n dl
      by (induction n) (auto intro!: cf.stays_rules cf_look cf_calls)
    from cf.staysD [OF this, of w2] poll have "prefix w2 evs'" by (metis snd_conv)
    with m(2) obtain after where "evs' = w1 @ Published m # after" by (auto simp: prefix_def)
    with m have "\<exists>before m after. evs' = before @ Published m # after \<and> ce_publish env before m = Inr (VStr (fr_unknown_message ?run)) \<and>
             fm_topic m = ?topic \<and> map_of (fm_attributes m) ''vin'' = Some unknown_vin"
      by (intro exI [of _ w1] exI [of _ m] exI [of _ after]) simp
    with ok poll_sees [OF poll] show ?thesis
      unfolding Pair Inr prod.case sum.case by (intro conjI exI [of _ ?run]) (simp_all only: fixture_run.simps)
  qed (simp add: Pair)
qed

subsection \<open>What the processor does with the unknown fixture\<close>

definition attribute_values :: "(string \<times> string) list \<Rightarrow> dict" where
  "attribute_values attrs = map (\<lambda>(k, v). (k, VStr v)) attrs"

lemma unknown_fixture_has_no_marker: "synthetic_fixture_id (attribute_values (unknown_attributes fixture_id now)) = Inr None"
  by (simp add: synthetic_fixture_id_def attribute_values_def unknown_attributes_def attribute_def)

lemma quarantine_any_registry:
  assumes "quarantine ienv cfg inc e reason s = (r, s')"
  shows "quarantine ienv cfg inc e reason (s\<lparr>vin_index := index, vehicle_docs := known, user_docs := users\<rparr>) =
    (r, s'\<lparr>vin_index := index, vehicle_docs := known, user_docs := users\<rparr>)"
  using assms by (auto simp: quarantine_def obind_def sink_append_def oper_simps split: insert_answer.splits if_splits)

lemma quarantine_result:
  assumes "quarantine ienv cfg inc e reason s = (r, s')"
  shows "case r of Inl e \<Rightarrow> True | Inr x \<Rightarrow> res_quarantine_reason x = Some reason \<and>
    (\<exists>row. tables s' = tables s @ [(quarantine_table cfg, row)])"
  using assms by (auto simp: quarantine_def obind_def sink_append_def oper_simps split: insert_answer.splits if_splits)

text \<open>C40: The fixture with the unknown VIN is delivered by the subscription that is reserved for synthetic fixtures, and it
  carries no marker of one: the processor quarantines it as \<open>missing_synthetic_marker\<close>, and what it does is the same
  whatever the vehicle registry and the allowlist hold, so also when they know its VIN.  The count that the check
  reports as \<open>unknown_vin_quarantined\<close> shows this, not the quarantine of unknown VINs.\<close>
theorem unknown_fixture_is_quarantined_for_its_marker:
  "case interpret_delivery fromiso policy now wrapper message (unknown_payload env fixture_id t)
       (attribute_values (unknown_attributes fixture_id published)) (synthetic_subscription policy) message_id of
     Inl e \<Rightarrow> True
   | Inr inc \<Rightarrow>
       process ienv cfg inc later s = quarantine ienv cfg inc (event_of cfg inc later) ''missing_synthetic_marker'' s \<and>
       (case process ienv cfg inc later s of (r, s') \<Rightarrow>
          process ienv cfg inc later (s\<lparr>vin_index := index, vehicle_docs := known, user_docs := users\<rparr>) =
            (r, s'\<lparr>vin_index := index, vehicle_docs := known, user_docs := users\<rparr>) \<and>
          (case r of Inl e \<Rightarrow> True | Inr x \<Rightarrow> res_quarantine_reason x = Some ''missing_synthetic_marker'' \<and>
             (\<exists>row. tables s' = tables s @ [(quarantine_table cfg, row)])))"
proof (cases "interpret_delivery fromiso policy now wrapper message (unknown_payload env fixture_id t)
       (attribute_values (unknown_attributes fixture_id published)) (synthetic_subscription policy) message_id")
  case (Inr inc)
  then have "in_validation_error inc = Some ''missing_synthetic_marker''"
    by (auto simp: interpret_delivery_def rbind_eq_Inr unknown_fixture_has_no_marker Let_def delivery_error_def or_error_def
        classify_source_def)
  then have p: "process ienv cfg inc later = quarantine ienv cfg inc (event_of cfg inc later) ''missing_synthetic_marker''"
    by (simp add: process_def Let_def)
  obtain r s' where run: "quarantine ienv cfg inc (event_of cfg inc later) ''missing_synthetic_marker'' s = (r, s')" by fastforce
  from quarantine_any_registry [OF run] quarantine_result [OF run] show ?thesis
    unfolding Inr sum.case p run prod.case by (simp add: prod.case)
qed simp

subsection \<open>Examples\<close>

text \<open>The rows are there after the first pause, as many as are needed, and only pauses take time.\<close>

definition demo_check_env :: check_env where
  "demo_check_env = \<lparr>ce_publish = (\<lambda>evs m. Inr (VStr ''1'')),
     ce_count = (\<lambda>evs q. Inr (if pauses evs = 0 then None
       else Some (if eq_value q = ''phase7_duplicate-0123456789abcdef'' then 2 else 1))),
     ce_monotonic = (\<lambda>evs. 5 * of_nat (pauses evs)), ce_time = (\<lambda>evs. 0), ce_isoformat = (\<lambda>t. []), ce_dumps_sorted = (\<lambda>v. []),
     ce_uuid_hex = ''0123456789abcdef''\<rparr>"

definition demo_run :: fixture_run where
  "demo_run = \<lparr>fr_project = ''p'', fr_duplicate = ''d'', fr_retry = ''r'', fr_unknown_message = ''1'', fr_earliest = 0\<rparr>"

definition demo_arguments :: check_arguments where
  "demo_arguments = \<lparr>ca_project_id = ''project-1'', ca_timeout_seconds = 30, ca_confirmed = True\<rparr>"

lemma demo_check_facts:
  "clock_advances demo_check_env" "answers_come demo_check_env"
  by (auto simp: clock_advances_def answers_come_def demo_check_env_def pauses_def)

theorem waiting_for_proof_ends_witness:
  "fst (wait_for_proof 7 demo_check_env demo_run 30 []) \<noteq> Inl NoReturn"
  by (rule waiting_for_proof_ends [OF demo_check_facts(1,2), of 30 6]) simp_all


end
