(* ===== verification/AdminCli.thy ===== *)
theory AdminCli
  imports BigQueryGuarantees IdentityLife
begin

text \<open>
  \<open>auth/cli.py\<close>: the commands of the administrator, over the allowlist and BigQuery together.  Here \<open>auth/admin.py\<close>
  runs with the provisioner and the reconciler that the commands give it, and not with abstract ones.  argparse
  hands over the arguments; constructing a Google client may fail with an exception of the library.
\<close>

subsection \<open>The two stores\<close>

record admin_world =
  ad_allowlist :: auth_db
  ad_bigquery :: bigquery

type_synonym 'a admin = "(admin_world, exn, 'a) oper"

definition on_allowlist :: "(auth_db, exn, 'a) oper \<Rightarrow> 'a admin" where
  "on_allowlist m w = (case m (ad_allowlist w) of (r, db) \<Rightarrow> (r, w\<lparr>ad_allowlist := db\<rparr>))"

definition on_bigquery :: "'a bq \<Rightarrow> 'a admin" where
  "on_bigquery m w = (case m (ad_bigquery w) of (r, b) \<Rightarrow> (r, w\<lparr>ad_bigquery := b\<rparr>))"

text \<open>\<open>al_client\<close> is the class of the exception that constructing the client of a service for a project raises.\<close>

record admin_env =
  al_bq :: bq_env
  al_hash :: "string \<Rightarrow> string"
  al_server_time :: int
  al_new_user :: string
  al_new_dataset :: string
  al_client :: "string \<Rightarrow> string \<Rightarrow> string option"

subsection \<open>The services with both stores\<close>

definition admin_add_user :: "admin_env \<Rightarrow> provisioner \<Rightarrow> string \<Rightarrow> string option \<Rightarrow> allowed_user admin" where
  "admin_add_user env p em notes =
     obind (on_allowlist (ensure_invitation (al_server_time env) (al_new_user env) (al_new_dataset env) em notes)) (\<lambda>u.
     obind (on_bigquery (provision (al_bq env) p u)) (\<lambda>_.
     on_allowlist (activate_user (al_server_time env) (invitation_email u))))"

definition tenant_failure :: "exn \<Rightarrow> exn" where
  "tenant_failure e = RuntimeError (''Analytics view reconciliation failed for one active tenant'' @
     (case e of AnalyticsViewReconciliationError stage view \<Rightarrow> '': Analytics view '' @ stage @ '' failed for '' @ view
      | _ \<Rightarrow> []))"

fun sync_datasets :: "bq_env \<Rightarrow> view_reconciler \<Rightarrow> allowed_user list \<Rightarrow> nat \<Rightarrow> nat \<Rightarrow> (nat \<times> nat) bq" where
  "sync_datasets env rc [] desired removed = oret (desired, removed)"
| "sync_datasets env rc (u # us) desired removed =
     obind (ocatch (reconcile env rc (dataset_id u)) (\<lambda>e. oraise (tenant_failure e))) (\<lambda>(d, r).
     sync_datasets env rc us (desired + d) (removed + r))"

definition admin_sync :: "admin_env \<Rightarrow> view_reconciler \<Rightarrow> view_sync_summary admin" where
  "admin_sync env rc =
     obind (on_allowlist (\<lambda>db. (list_active_users db, db))) (\<lambda>users.
     if \<not> distinct (map dataset_id users) \<or> \<not> distinct (map user_id users)
     then oraise (RuntimeError ''Active allowlist contains duplicate tenant identifiers'')
     else obind (on_bigquery (sync_datasets (al_bq env) rc users 0 0)) (\<lambda>(d, r).
       oret \<lparr>active_user_count = length users, desired_view_count = d, removed_view_count = r\<rparr>))"

subsection \<open>Commands\<close>

record cli_arguments =
  ga_project_id :: string
  ga_email :: string
  ga_location :: "string option"
  ga_notes :: "string option"
  ga_gateway :: "string option"
  ga_processor :: "string option"

definition service_account :: "string \<Rightarrow> string \<Rightarrow> string" where
  "service_account name project = name @ ''@'' @ project @ ''.iam.gserviceaccount.com''"

text \<open>\<open>value or default\<close>.\<close>

definition or_default :: "string option \<Rightarrow> string \<Rightarrow> string" where
  "or_default v d = (case v of None \<Rightarrow> d | Some s \<Rightarrow> if s = [] then d else s)"

definition default_location :: string where "default_location = ''us-central1''"

definition google_client :: "admin_env \<Rightarrow> string \<Rightarrow> string \<Rightarrow> exn + unit" where
  "google_client env service project = (case al_client env service project of
       None \<Rightarrow> Inr () | Some cls \<Rightarrow> Inl (LibraryError cls))"

definition admin_service :: "admin_env \<Rightarrow> cli_arguments \<Rightarrow> exn + provisioner" where
  "admin_service env a =
     (let project = ga_project_id a
      in rbind (google_client env ''firestore'' project) (\<lambda>_.
         rbind (google_client env ''bigquery'' project) (\<lambda>_.
         Inr \<lparr>pr_project = project,
           pr_location = (case ga_location a of None \<Rightarrow> default_location | Some l \<Rightarrow> l),
           pr_owner = service_account ''tpp-dataset-owner'' project,
           pr_gateway = or_default (ga_gateway a) (service_account ''tpp-mcp-gateway'' project),
           pr_processor = or_default (ga_processor a) (service_account ''tpp-telemetry-processor'' project),
           pr_admin = service_account ''tpp-user-admin'' project\<rparr>)))"

text \<open>How a command ends: with a printed document and status 0, with an error line and status 1, or with a
  traceback.  The text of a library's exception is its class name here.\<close>

datatype cli_outcome = Printed dict | Exited string | Unhandled exn

definition google_call_errors :: "string list" where
  "google_call_errors = [''NotFound'', ''Conflict'', ''AlreadyExists'', ''Aborted'', ''BadRequest'', ''InvalidArgument'',
     ''FailedPrecondition'', ''Forbidden'', ''PermissionDenied'', ''Unauthorized'', ''TooManyRequests'',
     ''ResourceExhausted'', ''InternalServerError'', ''BadGateway'', ''ServiceUnavailable'', ''GatewayTimeout'',
     ''DeadlineExceeded'', ''Unknown'', ''Cancelled'']"

fun is_google_call_error :: "exn \<Rightarrow> bool" where
  "is_google_call_error (LibraryError cls) = (cls \<in> set google_call_errors)"
| "is_google_call_error _ = False"

fun is_value_error :: "exn \<Rightarrow> bool" where
  "is_value_error (ValueError m) = True"
| "is_value_error (LibraryError cls) = (cls \<in> {''UnicodeDecodeError'', ''UnicodeEncodeError'', ''JSONDecodeError''})"
| "is_value_error _ = False"

fun is_runtime_error :: "exn \<Rightarrow> bool" where
  "is_runtime_error (RuntimeError m) = True"
| "is_runtime_error (AnalyticsViewReconciliationError stage view) = True"
| "is_runtime_error _ = False"

definition error_text :: "exn \<Rightarrow> string" where
  "error_text e = (case e of
       ValueError m \<Rightarrow> m | RuntimeError m \<Rightarrow> m | LibraryError m \<Rightarrow> m
     | InvalidTokenError m \<Rightarrow> m | EmailNotVerifiedError m \<Rightarrow> m | UserNotAllowedError m \<Rightarrow> m | UserDisabledError m \<Rightarrow> m
     | IdentityMismatchError m \<Rightarrow> m | ConfigurationError m \<Rightarrow> m | CallerIdentityClaimError m \<Rightarrow> m
     | CrossUserAccessError m \<Rightarrow> m | TeslaError cls m category st c \<Rightarrow> m
     | AnalyticsViewReconciliationError stage view \<Rightarrow> ''Analytics view '' @ stage @ '' failed for '' @ view
     | _ \<Rightarrow> [])"

definition command_outcome :: "(exn \<Rightarrow> bool) \<Rightarrow> ('a \<Rightarrow> dict) \<Rightarrow> exn + 'a \<Rightarrow> cli_outcome" where
  "command_outcome caught document r = (case r of
       Inr x \<Rightarrow> Printed (document x)
     | Inl e \<Rightarrow> if caught e then Exited (''error: '' @ error_text e @ [CHR 0x0A]) else Unhandled e)"

definition admin_errors :: "exn \<Rightarrow> bool" where
  "admin_errors e \<longleftrightarrow> is_authentication_error e \<or> is_google_call_error e \<or> is_value_error e"

definition result_document :: "string \<Rightarrow> allowed_user \<Rightarrow> dict" where
  "result_document action u =
     [(''action'', VStr action), (''dataset_id'', VStr (dataset_id u)), (''email'', VStr (invitation_email u)),
      (''status'', VStr (status_value (status u))), (''user_id'', VStr (user_id u))]"

definition run_command :: "(exn \<Rightarrow> bool) \<Rightarrow> ('a \<Rightarrow> dict) \<Rightarrow> 'a admin \<Rightarrow> admin_world \<Rightarrow> cli_outcome \<times> admin_world" where
  "run_command caught document m w = (case m w of (r, w') \<Rightarrow> (command_outcome caught document r, w'))"

definition add_user_main :: "admin_env \<Rightarrow> cli_arguments \<Rightarrow> admin_world \<Rightarrow> cli_outcome \<times> admin_world" where
  "add_user_main env a = run_command admin_errors (result_document ''add-user'')
     (obind (olift (admin_service env a)) (\<lambda>p. admin_add_user env p (ga_email a) (ga_notes a)))"

definition disable_user_main :: "admin_env \<Rightarrow> cli_arguments \<Rightarrow> admin_world \<Rightarrow> cli_outcome \<times> admin_world" where
  "disable_user_main env a = run_command admin_errors (result_document ''disable-user'')
     (obind (olift (admin_service env a)) (\<lambda>p. on_allowlist (disable_user (al_server_time env) (ga_email a))))"

definition reset_user_identity_main :: "admin_env \<Rightarrow> cli_arguments \<Rightarrow> string \<Rightarrow> admin_world \<Rightarrow> cli_outcome \<times> admin_world" where
  "reset_user_identity_main env a confirm_user_id = run_command admin_errors (result_document ''reset-user-identity'')
     (obind (olift (admin_service env a)) (\<lambda>p.
      on_allowlist (reset_identity (al_hash env) (al_server_time env) (ga_email a) confirm_user_id)))"

record sync_arguments =
  sa_project_id :: string
  sa_reconciler :: "string option"
  sa_skip_stale_removal :: bool

definition sync_errors :: "exn \<Rightarrow> bool" where
  "sync_errors e \<longleftrightarrow> is_google_call_error e \<or> is_runtime_error e \<or> is_value_error e"

definition summary_document :: "view_sync_summary \<Rightarrow> dict" where
  "summary_document s =
     [(''action'', VStr ''sync-analytics-views''), (''active_user_count'', VInt (int (active_user_count s))),
      (''desired_view_count'', VInt (int (desired_view_count s))), (''removed_view_count'', VInt (int (removed_view_count s)))]"

definition sync_reconciler :: "sync_arguments \<Rightarrow> view_reconciler" where
  "sync_reconciler a = \<lparr>rc_project = sa_project_id a,
     rc_account = or_default (sa_reconciler a) (service_account ''tpp-analytics-view-reconciler'' (sa_project_id a)),
     rc_remove_stale = (\<not> sa_skip_stale_removal a)\<rparr>"

text \<open>The clients are constructed before the \<open>try\<close>.\<close>

definition sync_analytics_views_main :: "admin_env \<Rightarrow> sync_arguments \<Rightarrow> admin_world \<Rightarrow> cli_outcome \<times> admin_world" where
  "sync_analytics_views_main env a w =
     (case rbind (google_client env ''firestore'' (sa_project_id a)) (\<lambda>_. google_client env ''bigquery'' (sa_project_id a)) of
        Inl e \<Rightarrow> (Unhandled e, w)
      | Inr _ \<Rightarrow> run_command sync_errors summary_document (admin_sync env (sync_reconciler a)) w)"

subsection \<open>The commands and the services\<close>

lemma on_allowlist_eq: "on_allowlist m w = (r, w') \<longleftrightarrow> (\<exists>db. m (ad_allowlist w) = (r, db) \<and> w' = w\<lparr>ad_allowlist := db\<rparr>)"
  by (auto simp: on_allowlist_def split: prod.splits)

lemma on_bigquery_eq: "on_bigquery m w = (r, w') \<longleftrightarrow> (\<exists>b. m (ad_bigquery w) = (r, b) \<and> w' = w\<lparr>ad_bigquery := b\<rparr>)"
  by (auto simp: on_bigquery_def split: prod.splits)

text \<open>On the allowlist, the service with both stores is \<open>UserAdminService\<close> with what the provisioner returns here.\<close>

definition provisioned_here :: "admin_env \<Rightarrow> provisioner \<Rightarrow> admin_world \<Rightarrow> allowed_user \<Rightarrow> exn + unit" where
  "provisioned_here env p w u = fst (provision (al_bq env) p u (ad_bigquery w))"

lemma admin_add_user_allowlist:
  assumes "admin_add_user env p em notes w = (r, w')"
  shows "add_user (provisioned_here env p w) (al_server_time env) (al_new_user env) (al_new_dataset env) em notes (ad_allowlist w) =
    (r, ad_allowlist w')"
proof -
  obtain q db1 where e: "ensure_invitation (al_server_time env) (al_new_user env) (al_new_dataset env) em notes (ad_allowlist w) = (q, db1)"
    by (meson surj_pair)
  show ?thesis
  proof (cases q)
    case (Inl x)
    with assms e show ?thesis by (auto simp: admin_add_user_def add_user_def obind_def on_allowlist_def)
  next
    case (Inr u)
    obtain t b where p: "provision (al_bq env) p u (ad_bigquery w) = (t, b)" by (meson surj_pair)
    with assms e Inr show ?thesis
      by (cases t) (auto simp: admin_add_user_def add_user_def obind_def on_allowlist_def on_bigquery_def olift_def
          provisioned_here_def split: prod.splits)
  qed
qed

text \<open>Whom the command gives access: a record that is active afterwards was active before, or its user is the invited
  one and his dataset is provisioned.\<close>

lemma admin_add_user_active:
  assumes a: "admin_add_user env p em notes w = (r, w')" and "active_at (ad_allowlist w') n v"
  shows "active_at (ad_allowlist w) n v \<or> (\<exists>u x. r = Inr x \<and> invitation_email u = n \<and> dataset_id u = dataset_id v \<and>
    user_id u = user_id v \<and> provisioned (al_bq env) p u (ad_bigquery w'))"
proof -
  from add_user_active [OF admin_add_user_allowlist [OF a] assms(2)]
  consider "active_at (ad_allowlist w) n v" | u x db1 where "r = Inr x" "invitation_email u = n" "dataset_id u = dataset_id v"
      "user_id u = user_id v" "ensure_invitation (al_server_time env) (al_new_user env) (al_new_dataset env) em notes
        (ad_allowlist w) = (Inr u, db1)"
    by auto
  then show ?thesis
  proof cases
    case 2
    with a have "provision (al_bq env) p u (ad_bigquery w) = (Inr (), ad_bigquery w')"
      by (auto simp: admin_add_user_def obind_eq_Inr on_allowlist_eq on_bigquery_eq)
    from provision_returns [OF this] 2 show ?thesis by blast
  qed simp
qed

text \<open>Access follows isolation: whatever \<open>add-user\<close> ends with, a user who has access afterwards had it before, or his
  dataset is there with exactly the private access list, in the region, with the raw table and every view.\<close>
theorem added_users_are_isolated:
  "case add_user_main env a w of (outcome, w') \<Rightarrow>
     \<forall>n v. if active_at (ad_allowlist w') n v
       then active_at (ad_allowlist w) n v \<or>
         (\<exists>p u d. outcome = Printed d \<and> admin_service env a = Inr p \<and> invitation_email u = n \<and> user_id u = user_id v \<and>
            dataset_id u = dataset_id v \<and> provisioned (al_bq env) p u (ad_bigquery w'))
       else True"
proof (cases "admin_service env a")
  case (Inr p)
  obtain r w' where m: "admin_add_user env p (ga_email a) (ga_notes a) w = (r, w')" by (meson surj_pair)
  from Inr have main: "add_user_main env a w = (command_outcome admin_errors (result_document ''add-user'') r, w')"
    by (simp add: add_user_main_def run_command_def obind_def olift_def m split: prod.split)
  show ?thesis
  proof (cases r)
    case (Inl e)
    with admin_add_user_active [OF m] main show ?thesis by auto
  next
    case (Inr x)
    with admin_add_user_active [OF m] main \<open>admin_service env a = Inr p\<close> show ?thesis
      by (auto simp: command_outcome_def)
  qed
qed (simp add: add_user_main_def run_command_def obind_def olift_def)

subsection \<open>Synchronising the views\<close>

lemma tenant_failure_not_Inr: "ocatch m (\<lambda>e. oraise (tenant_failure e)) s = (Inr x, t) \<longleftrightarrow> m s = (Inr x, t)"
  by (auto simp: ocatch_def oper_simps split: prod.splits sum.splits)

definition synchronised :: "bq_env \<Rightarrow> view_reconciler \<Rightarrow> string \<Rightarrow> bigquery \<Rightarrow> bool" where
  "synchronised env rc d w \<longleftrightarrow> (\<exists>views. analytics_views (be_views env) (rc_project rc) d [] = Inr views \<and>
     list_all (\<lambda>v. \<exists>t. table_at w d (av_name v) = Some t \<and> carries env v t) views \<and>
     (if rc_remove_stale rc then {n. managed_at w d n} = set (map av_name views) else True))"

lemma synchronised_cong:
  assumes "\<And>n. table_at w d n = table_at w' d n" and "synchronised env rc d w"
  shows "synchronised env rc d w'"
proof -
  from assms(1) have "managed_at w d = managed_at w' d" by (simp add: managed_at_def fun_eq_iff)
  with assms(2) show ?thesis unfolding synchronised_def by (simp only: assms(1))
qed

lemma reconcile_synchronises:
  assumes "reconcile env rc d w = (Inr (desired, removed), w')"
  shows "synchronised env rc d w'" and "dataset_at w' = dataset_at w" and "e \<noteq> d \<Longrightarrow> table_at w' e n = table_at w e n"
proof -
  from reconcile_returns [OF assms] obtain views where views: "analytics_views (be_views env) (rc_project rc) d [] = Inr views"
    and rec: "reconciled env rc d views w w'" and "dataset_at w' = dataset_at w" .
  then show "dataset_at w' = dataset_at w" by simp
  from views rec show "synchronised env rc d w'" unfolding reconciled_def synchronised_def by blast
  show "table_at w' e n = table_at w e n" if "e \<noteq> d" using rec that unfolding reconciled_def by metis
qed

lemma sync_datasets_synchronises:
  "sync_datasets env rc us i j w = (Inr (desired, removed), w') \<Longrightarrow> distinct (map dataset_id us) \<Longrightarrow>
     list_all (\<lambda>u. synchronised env rc (dataset_id u) w') us \<and> dataset_at w' = dataset_at w \<and>
     (\<forall>e n. e \<in> dataset_id ` set us \<or> table_at w' e n = table_at w e n)"
proof (induction us arbitrary: i j w)
  case (Cons u us)
  from Cons.prems(1) obtain d r w1 where rec: "reconcile env rc (dataset_id u) w = (Inr (d, r), w1)"
    and rest: "sync_datasets env rc us (i + d) (j + r) w1 = (Inr (desired, removed), w')"
    by (auto simp: obind_eq_Inr tenant_failure_not_Inr)
  note here = reconcile_synchronises [OF rec]
  from Cons.IH [OF rest] Cons.prems(2) have ih: "list_all (\<lambda>u. synchronised env rc (dataset_id u) w') us"
      "dataset_at w' = dataset_at w1" "\<forall>e n. e \<in> dataset_id ` set us \<or> table_at w' e n = table_at w1 e n" by auto
  from ih(3) Cons.prems(2) have "table_at w1 (dataset_id u) n = table_at w' (dataset_id u) n" for n by fastforce
  from synchronised_cong [OF this here(1)] ih here show ?case by (auto simp: image_iff)
qed (simp add: oper_simps)

text \<open>A synchronisation that succeeds leaves every active user's dataset with exactly the views of the source, under
  access lists that did not change; the datasets of other users are as they were.\<close>
theorem synchronisation_reaches_every_active_user:
  "case sync_analytics_views_main env a w of
     (Printed d, w') \<Rightarrow> \<exists>users. list_active_users (ad_allowlist w) = Inr users \<and>
       list_all (\<lambda>u. synchronised (al_bq env) (sync_reconciler a) (dataset_id u) (ad_bigquery w')) users \<and>
       dataset_at (ad_bigquery w') = dataset_at (ad_bigquery w) \<and> ad_allowlist w' = ad_allowlist w \<and>
       (\<forall>e n. e \<in> set (map dataset_id users) \<or> table_at (ad_bigquery w') e n = table_at (ad_bigquery w) e n)
   | _ \<Rightarrow> True"
proof (cases "rbind (google_client env ''firestore'' (sa_project_id a)) (\<lambda>_. google_client env ''bigquery'' (sa_project_id a))")
  case (Inr z)
  let ?rc = "sync_reconciler a"
  obtain r w' where m: "admin_sync env ?rc w = (r, w')" by (meson surj_pair)
  show ?thesis
  proof (cases r)
    case r: (Inr s)
    with m obtain users x y b where l: "list_active_users (ad_allowlist w) = Inr users" and dist: "distinct (map dataset_id users)"
      and sync: "sync_datasets (al_bq env) ?rc users 0 0 (ad_bigquery w) = (Inr (x, y), b)" and w': "w' = w\<lparr>ad_bigquery := b\<rparr>"
      by (auto simp: admin_sync_def obind_eq_Inr on_allowlist_eq on_bigquery_eq oper_simps split: if_splits)
    from sync_datasets_synchronises [OF sync dist] Inr m r l w' show ?thesis
      by (auto simp: sync_analytics_views_main_def run_command_def command_outcome_def)
  qed (use Inr m in \<open>simp add: sync_analytics_views_main_def run_command_def command_outcome_def\<close>)
qed (simp add: sync_analytics_views_main_def)

end
