(* ===== verification/Spec2Isabelle.thy ===== *)
theory Spec2Isabelle
  imports IdentityMemory Oidc TelemetryGuarantees TokenCrypto Onboarding FleetGuarantees OAuthClient TelemetryControlGuarantees CertificateExamples GatewayAppGuarantees AnalyticsQueryGuarantees BigQueryGuarantees McpServerGuarantees Partner OperatorCheck AdminCli
begin

text \<open>
  A verification library for Woodhouse, a personal Tesla platform: a gateway that signs users in, connects their
  Tesla accounts and offers vehicle tools over MCP; a processor that stores vehicle telemetry per user; views and
  queries over that history; and the jobs and commands that administer them.  Everything is translated from the
  Python sources below \<open>src/packages\<close> and \<open>src/services\<close>.

  \<^bold>\<open>How the program is modelled\<close>

  A Python call is a result \<open>exn + 'a\<close>: \<^const>\<open>Inl\<close> is the exception, with its class, message and category, \<^const>\<open>Inr\<close>
  the value.  An operation with a state is a function from the state to such a result and the next state
  (\<open>Prelude.oper\<close>); \<open>obind\<close>, \<open>ocatch\<close> and \<open>finally_do\<close> are sequencing, \<open>except\<close> and \<open>finally\<close>, and the state of an
  operation that raises is the state at the raise.  A Python object is a \<open>val\<close> (\<open>PyValue\<close>), a dictionary an association
  list in insertion order, a Firestore collection an association list of documents.  A Firestore transaction that
  raises writes nothing (\<open>transact\<close>).  What leaves the process is recorded as events (requests with their URL,
  headers and body, pauses, jobs, programs run, messages), and what comes back is a function of the events so far, so
  a property about the events holds for every behaviour of the outside world, lost answers included.

  Code that is not under \<open>src\<close> is an argument: SHA-256, the cipher of the tokens, the codecs for JSON, base64 and ISO
  times, JWT verification, X.509, TOML, tar and CSV, Pydantic's conversion of one value, Jinja, the SQL parser, Authlib,
  the cryptography library's keys, argparse, drawn tokens and identifiers, the clocks, and the answers of Tesla,
  BigQuery, Pub/Sub, Secret Manager and the Compute API.  Where a property relies on one of them, its hypothesis says
  what is relied on.

  \<^bold>\<open>The theories\<close>

  \<^item> Shared: \<open>Prelude\<close> (results, operations, dictionaries, lemma collections), \<open>PyValue\<close> (values and string functions),
    \<open>Url\<close> (\<open>urllib.parse\<close>), \<open>Errors\<close> (the exception classes of all packages), \<open>StateFrame\<close> (the locale \<open>state_frame\<close>: what a
    reflexive and transitive relation between states proves of an operation; it is interpreted for every frame
    property below, from the events that grow to the databases that stay).
  \<^item> Identity, \<open>packages/auth\<close>: \<open>AuthCore\<close> (\<open>models.py\<close>, \<open>core.py\<close>, \<open>auth_boundary.py\<close>, and the locale \<open>identity_store\<close>),
    \<open>Oidc\<close> (\<open>oidc.py\<close>, \<open>google_oidc.py\<close>), \<open>IdentityStore\<close> (\<open>firestore.py\<close>, \<open>admin.py\<close>), \<open>IdentityLife\<close> (the reachable
    databases: bindings are consistent, tenant identifiers never change), \<open>IdentityMemory\<close> (\<open>memory.py\<close> and its
    simulation of the Firestore store), \<open>BigQueryAdmin\<close> and \<open>BigQueryGuarantees\<close> (\<open>bigquery_admin.py\<close>: who may read a
    dataset, that only views of its own dataset are touched, that a failed promotion is reversed but for lost answers),
    \<open>AdminCli\<close> (\<open>cli.py\<close>: the commands of the administrator over both stores).
  \<^item> Telemetry, \<open>services/telemetry-processor\<close>: \<open>TelemetryModels\<close> (\<open>shared_models/telemetry.py\<close>), \<open>TelemetryDecode\<close>
    (\<open>decode_pubsub_push\<close>), \<open>TelemetryIngest\<close> (\<open>process\<close>, \<open>gcp.py\<close> and the POST handler of \<open>main.py\<close>), \<open>TelemetryGuarantees\<close>
    (a delivery is acknowledged when BigQuery reported its row stored in its table, and not otherwise; an insertion that
    raises may have left copies, so storage is at least once), \<open>OperatorCheck\<close> (\<open>operator_check.py\<close>: the wait ends,
    evidence that comes in time makes the check pass, a pass has seen it, and what its fixtures exercise).
  \<^item> The Tesla client, \<open>packages/tesla-client\<close>: \<open>Coverage\<close>, \<open>TeslaModels\<close>, \<open>TeslaRequests\<close>, \<open>Transport\<close> (\<open>transport.py\<close>: the guarded
    transports), \<open>OAuthClient\<close> (\<open>oauth.py\<close>), \<open>FleetClient\<close> and \<open>FleetEndpoints\<close> (\<open>fleet.py\<close>, \<open>vehicle_commands.py\<close>),
    \<open>FleetGuarantees\<close> (what is sent, how often, and what the log shows), \<open>Redaction\<close>, \<open>Partner\<close> (\<open>partner.py\<close>),
    \<open>TelemetryConfig\<close> and \<open>TelemetryConfigGuarantees\<close> (\<open>telemetry.py\<close>: the profile, its partition of the field catalog and
    the comparison with what Tesla reports).
  \<^item> The gateway, \<open>services/mcp-gateway\<close>: \<open>TokenCrypto\<close>, \<open>OnboardingStore\<close> (\<open>tesla_firestore.py\<close>), \<open>VehicleOwnership\<close> (who owns a
    VIN over the life of the database), \<open>Onboarding\<close> (\<open>tesla_onboarding.py\<close>, \<open>session.py\<close>, the locale
    \<open>access_provider\<close>; what an authorization stores for whom, over a step relation of the requests in between), \<open>McpPolicy\<close> and \<open>McpTools\<close> (\<open>mcp_policy.py\<close>, \<open>mcp_tools.py\<close>), \<open>Frames\<close>, \<open>McpGuarantees\<close>, \<open>McpAudit\<close> (the
    locale \<open>audit_log\<close>), \<open>McpWaiting\<close> and \<open>McpExamples\<close> (what a tool call may send, for whom, and that it is recorded
    first), \<open>McpModels\<close>, \<open>McpServer\<close> and \<open>McpServerGuarantees\<close> (\<open>mcp_models.py\<close>, \<open>mcp_server.py\<close>: the public tools, their
    inputs and annotations), \<open>TelemetryControl\<close> and \<open>TelemetryControlGuarantees\<close> (\<open>telemetry_control.py\<close>), \<open>BrowserAuth\<close> and
    \<open>BrowserAuthGuarantees\<close> (\<open>browser_auth.py\<close>: sign-in states and sessions), \<open>HttpBoundary\<close> (\<open>http_boundary.py\<close>,
    \<open>mcp_auth.py\<close>, \<open>onboarding_web.py\<close>), \<open>GatewayApp\<close> and \<open>GatewayAppGuarantees\<close> (\<open>app.py\<close>: the routes, and what authorizes
    each effect; the mounted MCP application checks its tokens itself, in \<open>McpServer\<close>).
  \<^item> Analytics, \<open>packages/analytics\<close>: \<open>AnalyticsCatalog\<close> (\<open>catalog.py\<close>, \<open>telemetry_fields.py\<close>), \<open>AnalyticsQuery\<close> and
    \<open>AnalyticsQueryGuarantees\<close> (\<open>query.py\<close>), \<open>AnalyticsViews\<close> (\<open>view_definitions\<close>).
  \<^item> \<open>services/certificate-renewer\<close>: \<open>CertificateModel\<close>, \<open>CertificateRenewer\<close>, \<open>CertificateGuarantees\<close> and
    \<open>CertificateExamples\<close>.
  The parts meet in the model as they do in the code.  The processor routes by the collections that the onboarding
  store writes (\<open>VehicleOwnership\<close>); the MCP service, the telemetry control and the HTTP routes run over one world of
  the onboarding database and the events (\<open>gateway_world\<close>); the routes add the browser sign-in and the identities to it
  (\<open>app_world\<close>); the MCP server calls the service as the user whom the authentication boundary returned; the
  provisioning of a dataset runs the reconciliation of its views, and the views come from the analytics manifest.

  \<^bold>\<open>Bounds and fuel\<close>

  Recursion on lists and \<open>for\<close> loops are structural.  The pages of \<open>list_vehicles\<close> have fuel, because the code does not
  bound them (a page that names an earlier one is followed for ever); \<^const>\<open>NoReturn\<close> is a loop that had not ended.  The
  polling of a deployment ends within 121 turns of ten seconds for any clock that advances by its pauses, and the wait of
  the operator check within a fifth of its timeout plus one turns (\<open>OperatorCheck\<close>), so that much fuel loses nothing
  there.

  \<^bold>\<open>Where the model is coarser than the code\<close>

  Text is Latin-1 (a character is a byte); numbers of JSON are exact rationals, without infinities and NaN; \<open>str()\<close> of a
  value that is no text is an uninterpreted text in messages; times are in microseconds; a listing of Secret Manager or
  BigQuery is taken at once, at its call; a patch of BigQuery merges labels and replaces its other fields, as
  documented; an exception of a library is its class name, and a handler for a base class lists the subclasses that can
  occur.  Requests that run at the same time interleave at whole operations: each Firestore transaction is atomic, and
  properties about races quantify over any database in between.

  \<^bold>\<open>Not modelled\<close>

  \<^item> \<open>tesla_client/admin.py\<close>, \<open>trust_admin.py\<close>: command lines over the modelled services (argument parsing
    and printed text).
  \<^item> \<open>mcp_gateway/settings.py\<close>, \<open>tesla_runtime.py\<close>, \<open>gateway_runtime.py\<close>, \<open>main.py\<close> and \<open>build_runtime\<close> of the processor: the
    construction of the services from environment variables.
  \<^item> \<open>telemetry_edge\<close> and \<open>event_schema\<close>: a health answer and a package name; the production receiver is Tesla's.
  \<^item> the protocols, re-exports, docstrings, page texts and SQL templates.
\<close>

end
